(* ===== verification/Krake_Prelude.thy ===== *)
theory Krake_Prelude
  imports Complex_Main "HOL-Library.AList"
begin

text \<open>
  Shared vocabulary of the development: the result type of code that can raise, the
  operations on insertion ordered dictionaries, and the generic lemmas on lists, options
  and dictionaries that the component theories use.

  A Python \<open>dict\<close> is modelled as an association list whose keys are distinct
  (\<open>dict_ok\<close>); updating a present key keeps its position and a new key goes to the
  end, as in CPython. A function that can raise returns \<open>'e + 'a\<close>, with
  \<open>Inl\<close> for the exception.
\<close>

section \<open>Results\<close>

type_synonym ('e, 'a) res = "'e + 'a"

named_theorems res_simps "evaluation of results"

fun res_bind :: "('e, 'a) res \<Rightarrow> ('a \<Rightarrow> ('e, 'b) res) \<Rightarrow> ('e, 'b) res" where
  "res_bind (Inl e) f = Inl e"
| "res_bind (Inr x) f = f x"

lemma res_bind_Inr_iff [res_simps]:
  "res_bind m f = Inr y \<longleftrightarrow> (\<exists>x. m = Inr x \<and> f x = Inr y)"
  by (cases m) auto

lemma res_bind_Inl_iff [res_simps]:
  "res_bind m f = Inl e \<longleftrightarrow> m = Inl e \<or> (\<exists>x. m = Inr x \<and> f x = Inl e)"
  by (cases m) auto

lemma res_bind_assoc: "res_bind (res_bind m f) g = res_bind m (\<lambda>x. res_bind (f x) g)"
  by (cases m) auto

text \<open>A loop whose body may raise: the first exception ends it.\<close>

fun res_all :: "('a \<Rightarrow> ('e, bool) res) \<Rightarrow> 'a list \<Rightarrow> ('e, bool) res" where
  "res_all p [] = Inr True"
| "res_all p (x # xs) =
     res_bind (p x) (\<lambda>b. if b then res_all p xs else Inr False)"

lemma res_all_True_iff:
  "res_all p xs = Inr True \<longleftrightarrow> (\<forall>x \<in> set xs. p x = Inr True)"
proof (induction xs)
  case (Cons x xs)
  then show ?case by (cases "p x") auto
qed simp

lemma res_all_no_raise:
  "(\<And>x. x \<in> set xs \<Longrightarrow> p x = Inr (q x)) \<Longrightarrow> res_all p xs = Inr (list_all q xs)"
  by (induction xs) auto

fun res_filter :: "('a \<Rightarrow> ('e, bool) res) \<Rightarrow> 'a list \<Rightarrow> ('e, 'a list) res" where
  "res_filter p [] = Inr []"
| "res_filter p (x # xs) =
     res_bind (p x) (\<lambda>b. res_bind (res_filter p xs) (\<lambda>ys. Inr (if b then x # ys else ys)))"

lemma res_filter_Inr:
  "res_filter p xs = Inr ys \<Longrightarrow>
     ys = filter (\<lambda>x. p x = Inr True) xs \<and> (\<forall>x \<in> set xs. \<exists>b. p x = Inr b)"
  by (induction xs arbitrary: ys) (auto simp: res_simps)

fun res_map :: "('a \<Rightarrow> ('e, 'b) res) \<Rightarrow> 'a list \<Rightarrow> ('e, 'b list) res" where
  "res_map f [] = Inr []"
| "res_map f (x # xs) =
     res_bind (f x) (\<lambda>y. res_bind (res_map f xs) (\<lambda>ys. Inr (y # ys)))"

lemma res_map_Inr:
  "res_map f xs = Inr ys \<Longrightarrow> list_all2 (\<lambda>x y. f x = Inr y) xs ys"
  by (induction xs arbitrary: ys) (auto simp: res_simps)

lemma res_map_length: "res_map f xs = Inr ys \<Longrightarrow> length ys = length xs"
  by (drule res_map_Inr) (simp add: list_all2_lengthD)

lemma res_map_total:
  "(\<And>x. x \<in> set xs \<Longrightarrow> f x = Inr (g x)) \<Longrightarrow> res_map f xs = Inr (map g xs)"
  by (induction xs) auto

section \<open>Dictionaries\<close>

type_synonym ('k, 'v) dict = "('k \<times> 'v) list"

abbreviation dict_ok :: "('k, 'v) dict \<Rightarrow> bool" where
  "dict_ok d \<equiv> distinct (map fst d)"

abbreviation dict_get :: "('k, 'v) dict \<Rightarrow> 'k \<Rightarrow> 'v option" where
  "dict_get d \<equiv> map_of d"

abbreviation dict_set :: "'k \<Rightarrow> 'v \<Rightarrow> ('k, 'v) dict \<Rightarrow> ('k, 'v) dict" where
  "dict_set \<equiv> AList.update"

abbreviation dict_del :: "'k \<Rightarrow> ('k, 'v) dict \<Rightarrow> ('k, 'v) dict" where
  "dict_del \<equiv> AList.delete"

definition dict_keys :: "('k, 'v) dict \<Rightarrow> 'k set" where
  "dict_keys d = fst ` set d"

lemma dict_keys_empty [simp]: "dict_keys [] = {}"
  by (simp add: dict_keys_def)

lemma dict_keys_Cons [simp]: "dict_keys (x # d) = insert (fst x) (dict_keys d)"
  by (simp add: dict_keys_def)

lemma finite_dict_keys [simp]: "finite (dict_keys d)"
  by (simp add: dict_keys_def)

lemma dict_get_None_iff: "dict_get d k = None \<longleftrightarrow> k \<notin> dict_keys d"
  by (simp add: dict_keys_def map_of_eq_None_iff)

lemma dict_keys_iff: "k \<in> dict_keys d \<longleftrightarrow> (\<exists>v. dict_get d k = Some v)"
  using dict_get_None_iff [of d k] by auto

lemma dict_get_in_keys: "dict_get d k = Some v \<Longrightarrow> k \<in> dict_keys d"
  by (auto simp: dict_keys_iff)

lemma dict_get_set [simp]:
  "dict_get (dict_set k v d) k' = (if k' = k then Some v else dict_get d k')"
  by (auto simp: update_conv')

lemma dict_get_del [simp]:
  "dict_get (dict_del k d) k' = (if k' = k then None else dict_get d k')"
  by (simp add: delete_conv')

lemma dict_keys_set [simp]: "dict_keys (dict_set k v d) = insert k (dict_keys d)"
  by (simp add: dict_keys_def dom_update)

lemma dict_keys_del [simp]: "dict_keys (dict_del k d) = dict_keys d - {k}"
  by (auto simp: dict_keys_def AList.delete_eq)

lemma dict_ok_set [intro]: "dict_ok d \<Longrightarrow> dict_ok (dict_set k v d)"
  by (rule distinct_update)

lemma dict_ok_del [intro]: "dict_ok d \<Longrightarrow> dict_ok (dict_del k d)"
  by (rule distinct_delete)

text \<open>\<open>{**a, **b}\<close>\<close>

definition dict_merge :: "('k, 'v) dict \<Rightarrow> ('k, 'v) dict \<Rightarrow> ('k, 'v) dict" where
  "dict_merge a b = fold (\<lambda>(k, v) d. dict_set k v d) b a"

lemma dict_get_merge:
  assumes "dict_ok b"
  shows "dict_get (dict_merge a b) k = (case dict_get b k of Some v \<Rightarrow> Some v | None \<Rightarrow> dict_get a k)"
proof -
  have "dict_get (fold (\<lambda>(k, v) d. dict_set k v d) b a) k =
      (case dict_get b k of Some v \<Rightarrow> Some v | None \<Rightarrow> dict_get a k)"
    using assms
  proof (induction b arbitrary: a)
    case (Cons x b)
    obtain j v where x: "x = (j, v)" by (cases x)
    with Cons.prems have "k = j \<Longrightarrow> dict_get b k = None" by (simp add: map_of_eq_None_iff)
    with Cons x show ?case by (cases "dict_get b k") auto
  qed simp
  then show ?thesis by (simp add: dict_merge_def)
qed

lemma dict_get_map_snd:
  "dict_get (map (\<lambda>(k, v). (k, f v)) d) k = map_option f (dict_get d k)"
  by (induction d) auto

section \<open>Lists\<close>

lemma set_remove1_distinct: "distinct xs \<Longrightarrow> set (remove1 x xs) = set xs - {x}"
  by (induction xs) auto

lemma split_first_unique:
  "x \<notin> set p \<Longrightarrow> x \<notin> set p' \<Longrightarrow> p @ x # n = p' @ x # n' \<longleftrightarrow> p = p' \<and> n = n'"
proof (induction p arbitrary: p')
  case Nil
  then show ?case by (cases p') auto
next
  case (Cons y p)
  then show ?case by (cases p') auto
qed

lemma dropWhile_until: "x \<notin> set p \<Longrightarrow> dropWhile (\<lambda>c. c \<noteq> x) (p @ x # n) = x # n"
  by (induction p) auto

lemma takeWhile_until: "x \<notin> set p \<Longrightarrow> takeWhile (\<lambda>c. c \<noteq> x) (p @ x # n) = p"
  by (induction p) auto

lemma dropWhile_absent: "x \<notin> set p \<Longrightarrow> dropWhile (\<lambda>c. c \<noteq> x) p = []"
  by (induction p) auto

lemma distinct_map_remove1: "distinct (map f xs) \<Longrightarrow> distinct (map f (remove1 x xs))"
  by (induction xs) (auto dest: set_remove1_subset [THEN subsetD])

lemma image_remove1_distinct:
  "distinct (map f xs) \<Longrightarrow> x \<in> set xs \<Longrightarrow> f x \<notin> f ` set (remove1 x xs)"
  by (induction xs) (auto simp: rev_image_eqI dest: set_remove1_subset [THEN subsetD])

lemma list_all2_elem: "list_all2 P xs ys \<Longrightarrow> x \<in> set xs \<Longrightarrow> \<exists>y \<in> set ys. P x y"
  by (induction rule: list_all2_induct) auto

lemma last_snoc_eq: "xs \<noteq> [] \<Longrightarrow> last xs = x \<Longrightarrow> butlast xs @ [x] = xs"
  using append_butlast_last_id [of xs] by simp

lemma filter_nonempty_iff: "filter P xs \<noteq> [] \<longleftrightarrow> (\<exists>x \<in> set xs. P x)"
  by (simp add: filter_empty_conv)

end
