(* ===== verification/Krake_Data.thy ===== *)
theory Krake_Data
  imports Krake_Prelude "HOL-Library.Char_ord"
begin

text \<open>
  The data model shared by all components (\<open>krake/krake/data/core.py\<close>): references
  to resources, metadata, the reason codes, the validation of label keys, label values and
  resource names by regular expressions, and the exceptions that the modelled code raises.
  Timestamps are integers (only their order matters to the code); a Python string is a
  \<open>string\<close>.
\<close>

section \<open>Exceptions\<close>

text \<open>
  \<open>ClientError\<close> is a failed request of the scheduler to the API, with its path;
  \<open>ClientResponseError\<close> and \<open>ApiException\<close> are the answers of the API and of a Kubernetes
  cluster, with their status; \<open>RequestException\<close> has the status of the response, if there was one;
  \<open>HTTPException\<close> and \<open>HttpProblemError\<close> are what the API itself answers, with the status and the
  title of the problem. \<open>MagnumNotFound\<close> and \<open>MagnumError\<close> are the exceptions of the Magnum client,
  \<open>EndpointDiscoveryError\<close> is the \<open>RuntimeError\<close> that it raises for an exception of Keystone.
\<close>

datatype exn =
    KeyError
  | IndexError
  | ValueError
  | TypeError
  | AttributeError
  | ZeroDivisionError
  | RuntimeError
  | NotImplementedError
  | AssertionError
  | ValidationError
  | UnexpectedInput
  | WaitingOnCluster
  | NoClusterFound
  | NoProjectFound
  | NoCloudFound
  | BareControllerError
  | MetricError
  | MetricsProviderError
  | ClientError string
  | ClientResponseError int
  | ClientConnectorError
  | ClientPayloadError
  | ApiException int
  | TimeoutError
  | RequestException "int option"
  | RequestsConnectionError
  | CalledProcessError
  | InvalidStateError
  | MigrationError
  | MaxTriesError
  | InvalidManifestError
  | InvalidCustomResourceDefinitionError
  | UnsupportedResourceError
  | ToscaParserException
  | TransactionError
  | HTTPException int
  | HttpProblemError int string
  | CreateFailed
  | ReconcileFailed
  | DeleteFailed
  | InvalidClusterTemplateType
  | MagnumNotFound
  | MagnumError
  | KeystoneError
  | EndpointDiscoveryError
  | InfrastructureProviderCreateError
  | InfrastructureProviderReconcileError
  | InfrastructureProviderReconfigureError
  | InfrastructureProviderDeleteError
  | InfrastructureProviderRetrieveError
  | InfrastructureProviderNotFoundError
  | InvalidResourceError
  | YAMLError

section \<open>Numbers as text\<close>

fun digits_of :: "nat \<Rightarrow> string" where
  "digits_of n = (if n < 10 then [char_of (48 + n)] else digits_of (n div 10) @ [char_of (48 + n mod 10)])"

declare digits_of.simps [simp del]

definition str_of_int :: "int \<Rightarrow> string" where
  "str_of_int i = (if i < 0 then CHR ''-'' # digits_of (nat (- i)) else digits_of (nat i))"

section \<open>References and metadata\<close>

type_synonym time = int

record resource_ref =
  ref_api :: string
  ref_namespace :: "string option"
  ref_kind :: string
  ref_name :: string

record metadata =
  name :: string
  namespace :: "string option"
  labels :: "(string, string) dict"
  inherit_labels :: bool
  finalizers :: "string list"
  uid :: string
  created :: time
  modified :: time
  deleted :: "time option"
  owners :: "resource_ref list"

record resource =
  api :: string
  kind :: string
  metadata :: metadata

definition resource_ref :: "('a) resource_scheme \<Rightarrow> resource_ref" where
  "resource_ref r =
     \<lparr>ref_api = api r, ref_namespace = namespace (metadata r),
      ref_kind = kind r, ref_name = name (metadata r)\<rparr>"

datatype reason_code =
    INTERNAL_ERROR | INVALID_RESOURCE | UNSUPPORTED_RESOURCE | INVALID_CUSTOM_RESOURCE
  | INVALID_TOSCA_MANIFEST | CLUSTER_NOT_REACHABLE | NO_SUITABLE_RESOURCE
  | KUBERNETES_ERROR | CREATE_FAILED | RECONCILE_FAILED | RECONFIGURE_FAILED
  | DELETE_FAILED | RETRIEVE_FAILED | NOT_FOUND | OPENSTACK_ERROR
  | INVALID_CLUSTER_TEMPLATE | INVALID_METRIC | UNREACHABLE_METRICS_PROVIDER
  | UNKNOWN_METRIC | UNKNOWN_METRICS_PROVIDER

fun reason_code_value :: "reason_code \<Rightarrow> int" where
  "reason_code_value INTERNAL_ERROR = 1"
| "reason_code_value INVALID_RESOURCE = 10"
| "reason_code_value UNSUPPORTED_RESOURCE = 11"
| "reason_code_value INVALID_CUSTOM_RESOURCE = 12"
| "reason_code_value INVALID_TOSCA_MANIFEST = 13"
| "reason_code_value CLUSTER_NOT_REACHABLE = 20"
| "reason_code_value NO_SUITABLE_RESOURCE = 50"
| "reason_code_value KUBERNETES_ERROR = 60"
| "reason_code_value CREATE_FAILED = 70"
| "reason_code_value RECONCILE_FAILED = 71"
| "reason_code_value RECONFIGURE_FAILED = 72"
| "reason_code_value DELETE_FAILED = 73"
| "reason_code_value RETRIEVE_FAILED = 74"
| "reason_code_value NOT_FOUND = 75"
| "reason_code_value OPENSTACK_ERROR = 80"
| "reason_code_value INVALID_CLUSTER_TEMPLATE = 81"
| "reason_code_value INVALID_METRIC = 91"
| "reason_code_value UNREACHABLE_METRICS_PROVIDER = 92"
| "reason_code_value UNKNOWN_METRIC = 93"
| "reason_code_value UNKNOWN_METRICS_PROVIDER = 94"

datatype watch_event_type = ADDED | MODIFIED | DELETED

section \<open>Validation of labels and names\<close>

text \<open>
  \<open>\\w\<close> under \<open>re.ASCII\<close>, and the class of the inner characters of a label.
\<close>

definition is_word_char :: "char \<Rightarrow> bool" where
  "is_word_char c \<longleftrightarrow>
     (CHR ''a'' \<le> c \<and> c \<le> CHR ''z'') \<or> (CHR ''A'' \<le> c \<and> c \<le> CHR ''Z'') \<or>
     (CHR ''0'' \<le> c \<and> c \<le> CHR ''9'') \<or> c = CHR ''_''"

definition is_label_char :: "char \<Rightarrow> bool" where
  "is_label_char c \<longleftrightarrow> is_word_char c \<or> c = CHR ''-'' \<or> c = CHR ''.''"

definition is_name_char :: "char \<Rightarrow> bool" where
  "is_name_char c \<longleftrightarrow> is_label_char c \<or> c = CHR '':''"

text \<open>
  The pattern \<open>\\w|(\\w[...]{0,n}\\w)\<close>, matched against the whole string: one word
  character, or a first and a last word character around at most \<open>n\<close> characters of
  the class.
\<close>

fun base_alphanumeric :: "(char \<Rightarrow> bool) \<Rightarrow> nat \<Rightarrow> string \<Rightarrow> bool" where
  "base_alphanumeric inner n [] = False"
| "base_alphanumeric inner n [c] = is_word_char c"
| "base_alphanumeric inner n (c # d # s) =
     (is_word_char c \<and> list_all inner (butlast (d # s)) \<and>
      length (butlast (d # s)) \<le> n \<and> is_word_char (last (d # s)))"

definition max_prefix_size :: nat where "max_prefix_size = 253"
definition max_key_size :: nat where "max_key_size = 63"
definition max_value_size :: nat where "max_value_size = max_key_size"
definition max_name_size :: nat where "max_name_size = 253"

definition label_value_regex :: "string \<Rightarrow> bool" where
  "label_value_regex = base_alphanumeric is_label_char (max_value_size - 2)"

text \<open>
  \<open>^((prefix)\\/)?(key)$\<close>: no word or label character is a slash, so the optional
  prefix is what stands before the first one.
\<close>

definition label_key_regex :: "string \<Rightarrow> bool" where
  "label_key_regex s =
     (case dropWhile (\<lambda>c. c \<noteq> CHR ''/'') s of
        [] \<Rightarrow> base_alphanumeric is_label_char (max_key_size - 2) s
      | _ # n \<Rightarrow>
          base_alphanumeric is_label_char (max_prefix_size - 2)
            (takeWhile (\<lambda>c. c \<noteq> CHR ''/'') s) \<and>
          base_alphanumeric is_label_char (max_key_size - 2) n)"

definition resource_name_regex :: "string \<Rightarrow> bool" where
  "resource_name_regex = base_alphanumeric is_name_char max_name_size"

definition validate_key :: "string \<Rightarrow> (exn, unit) res" where
  "validate_key key = (if label_key_regex key then Inr () else Inl ValidationError)"

definition validate_value :: "string \<Rightarrow> (exn, unit) res" where
  "validate_value v = (if label_value_regex v then Inr () else Inl ValidationError)"

definition validate_resource_name :: "string \<Rightarrow> (exn, unit) res" where
  "validate_resource_name n =
     (if resource_name_regex n then Inr () else Inl ValidationError)"

definition validate_resource_namespace :: "string \<Rightarrow> (exn, unit) res" where
  "validate_resource_namespace n =
     (if resource_name_regex n then Inr () else Inl ValidationError)"

text \<open>
  The labels of a request need not be strings. A value that is not a string is kept as the
  text that \<open>str\<close> gives for it; the regular expression raises \<open>TypeError\<close> on it.
\<close>

datatype py_label = PyStr string | PyOther string

fun py_str :: "py_label \<Rightarrow> string" where
  "py_str (PyStr s) = s"
| "py_str (PyOther s) = s"

fun check_label :: "(string \<Rightarrow> (exn, unit) res) \<Rightarrow> py_label \<Rightarrow> (exn, unit) res" where
  "check_label validate (PyStr s) = validate s"
| "check_label validate (PyOther s) = Inl TypeError"

definition label_error :: "(string \<Rightarrow> (exn, unit) res) \<Rightarrow> py_label \<Rightarrow> (string \<times> exn) list" where
  "label_error validate x =
     (case check_label validate x of Inl e \<Rightarrow> [(py_str x, e)] | Inr _ \<Rightarrow> [])"

fun label_errors :: "(py_label \<times> py_label) list \<Rightarrow> (string \<times> exn) list" where
  "label_errors [] = []"
| "label_errors ((k, v) # items) =
     label_error validate_key k @ label_error validate_value v @ label_errors items"

definition validate_labels :: "(py_label \<times> py_label) list \<Rightarrow> ((string \<times> exn) list, unit) res" where
  "validate_labels items =
     (let errors = label_errors items in if errors \<noteq> [] then Inl errors else Inr ())"

subsection \<open>What the regular expressions accept\<close>

lemma word_char_is_label_char [intro]: "is_word_char c \<Longrightarrow> is_label_char c"
  by (simp add: is_label_char_def)

lemma slash_is_not_label_char [simp]: "\<not> is_label_char CHR ''/''"
  by (simp add: is_label_char_def is_word_char_def less_eq_char_def)

lemma base_alphanumeric_long:
  "t \<noteq> [] \<Longrightarrow> base_alphanumeric inner n (c # t) \<longleftrightarrow>
     is_word_char c \<and> list_all inner (butlast t) \<and> length (butlast t) \<le> n \<and>
     is_word_char (last t)"
  by (cases t) simp_all

lemma base_alphanumeric_iff:
  "base_alphanumeric inner n s \<longleftrightarrow>
     (\<exists>c. s = [c] \<and> is_word_char c) \<or>
     (\<exists>c m e. s = c # m @ [e] \<and> is_word_char c \<and> is_word_char e \<and>
        length m \<le> n \<and> list_all inner m)"
proof (cases s)
  case (Cons c t)
  show ?thesis
  proof (cases t rule: rev_exhaust)
    case (snoc m e)
    with Cons show ?thesis by (auto simp: base_alphanumeric_long)
  qed (use Cons in auto)
qed simp

lemma base_alphanumeric_Cons_snoc:
  "base_alphanumeric inner n (c # m @ [e]) \<longleftrightarrow>
     is_word_char c \<and> is_word_char e \<and> length m \<le> n \<and> list_all inner m"
  by (auto simp: base_alphanumeric_iff)

lemma base_alphanumeric_chars:
  "base_alphanumeric inner n s \<Longrightarrow> c \<in> set s \<Longrightarrow> is_word_char c \<or> inner c"
  by (auto simp: base_alphanumeric_iff list_all_iff)

lemma base_alphanumeric_label_chars:
  "base_alphanumeric is_label_char n s \<Longrightarrow> c \<in> set s \<Longrightarrow> is_label_char c"
  using base_alphanumeric_chars [of is_label_char n s c] by blast

lemma base_alphanumeric_length:
  "base_alphanumeric inner n s \<Longrightarrow> 1 \<le> length s \<and> length s \<le> n + 2"
  by (auto simp: base_alphanumeric_iff)

lemma base_alphanumeric_ends:
  "base_alphanumeric inner n s \<Longrightarrow> is_word_char (hd s) \<and> is_word_char (last s)"
  by (auto simp: base_alphanumeric_iff)

lemma base_alphanumeric_no_slash:
  "base_alphanumeric is_label_char n s \<Longrightarrow> CHR ''/'' \<notin> set s"
  using base_alphanumeric_label_chars slash_is_not_label_char by blast

lemma label_key_regex_split:
  "label_key_regex s \<longleftrightarrow>
     base_alphanumeric is_label_char (max_key_size - 2) s \<or>
     (\<exists>p n. s = p @ CHR ''/'' # n \<and>
        base_alphanumeric is_label_char (max_prefix_size - 2) p \<and>
        base_alphanumeric is_label_char (max_key_size - 2) n)"
  (is "?L \<longleftrightarrow> ?R")
proof (cases "CHR ''/'' \<in> set s")
  case False
  then have dw: "dropWhile (\<lambda>c. c \<noteq> CHR ''/'') s = []"
    by (rule dropWhile_absent)
  have "\<And>p n. s \<noteq> p @ CHR ''/'' # n" using False by auto
  moreover have "?L \<longleftrightarrow> base_alphanumeric is_label_char (max_key_size - 2) s"
    by (simp only: label_key_regex_def dw list.case)
  ultimately show ?thesis by blast
next
  case True
  then obtain p n where s: "s = p @ CHR ''/'' # n" and p: "CHR ''/'' \<notin> set p"
    by (meson split_list_first)
  have L: "?L \<longleftrightarrow> base_alphanumeric is_label_char (max_prefix_size - 2) p \<and>
      base_alphanumeric is_label_char (max_key_size - 2) n"
    unfolding s label_key_regex_def dropWhile_until [OF p] takeWhile_until [OF p] by simp
  have same: "p' = p \<and> n' = n" if "s = p' @ CHR ''/'' # n'" "CHR ''/'' \<notin> set p'" for p' n'
    
    using split_first_unique [OF that(2) p, of n' n] that(1) unfolding s by metis
  show ?thesis
  proof
    assume ?L
    then show ?R using L s by blast
  next
    assume ?R
    moreover have "\<not> base_alphanumeric is_label_char (max_key_size - 2) s"
      using True base_alphanumeric_no_slash by blast
    ultimately obtain p' n' where pn: "s = p' @ CHR ''/'' # n'"
      "base_alphanumeric is_label_char (max_prefix_size - 2) p'"
      "base_alphanumeric is_label_char (max_key_size - 2) n'" by blast
    then have "p' = p \<and> n' = n" using same base_alphanumeric_no_slash by blast
    with L pn show ?L by simp
  qed
qed

end
