(* ===== verification/Work_Queue.thy ===== *)
theory Work_Queue
  imports Krake_Data
begin

text \<open>
  The work queue of the controllers, class \<open>WorkQueue\<close> of
  \<open>krake/krake/controller/__init__.py\<close>, and the worker loops that consume it.

  The state has the attributes of the class (\<open>dirty\<close>, \<open>timers\<close>, \<open>active\<close>,
  \<open>queue\<close>, \<open>debounce\<close>) and what the event loop keeps for the debounce
  coroutines: the timer tasks, the puts that are suspended on the \<open>removed\<close> future of
  a timer, the futures that are resolved, and the tasks whose callback raised. A timer task
  and its \<open>removed\<close> future share a number. Every queue of the source is made with
  \<open>maxsize=0\<close>, where \<open>asyncio.Queue.put\<close> never suspends; so each operation
  runs without interruption except at \<open>await removed\<close> and at the sleep of a
  debounce coroutine, which are separate steps here.
\<close>

section \<open>State\<close>

datatype timer_status = Sleeping | Cancelling | Finished

record ('k, 'v) timer_task =
  task_key :: 'k
  task_value :: 'v
  task_status :: timer_status

record ('k, 'v) work_queue =
  dirty :: "('k, 'v) dict"
  timers :: "('k, nat) dict"
  active :: "'k set"
  queue :: "'k list"
  debounce :: real
  tasks :: "(nat, ('k, 'v) timer_task) dict"
  next_task :: nat
  waiters :: "(nat \<times> 'k \<times> 'v) list"
  resolved :: "nat set"
  callback_errors :: "nat list"

definition wq_init :: "real \<Rightarrow> ('k, 'v) work_queue" where
  "wq_init deb =
     \<lparr>dirty = [], timers = [], active = {}, queue = [], debounce = deb,
      tasks = [], next_task = 0, waiters = [], resolved = {}, callback_errors = []\<rparr>"

section \<open>Operations\<close>

definition add_key_to_queue :: "'k \<Rightarrow> ('k, 'v) work_queue \<Rightarrow> ('k, 'v) work_queue" where
  "add_key_to_queue k q = q\<lparr>active := insert k (active q), queue := queue q @ [k]\<rparr>"

definition put_key :: "'k \<Rightarrow> 'v \<Rightarrow> ('k, 'v) work_queue \<Rightarrow> ('k, 'v) work_queue" where
  "put_key k v q =
     (let q' = q\<lparr>dirty := dict_set k v (dirty q)\<rparr>
      in if k \<notin> active q' then add_key_to_queue k q' else q')"

definition start_timer :: "'k \<Rightarrow> 'v \<Rightarrow> ('k, 'v) work_queue \<Rightarrow> ('k, 'v) work_queue" where
  "start_timer k v q =
     q\<lparr>tasks := dict_set (next_task q)
          \<lparr>task_key = k, task_value = v, task_status = Sleeping\<rparr> (tasks q),
       timers := dict_set k (next_task q) (timers q),
       next_task := Suc (next_task q)\<rparr>"

definition set_status ::
  "nat \<Rightarrow> timer_status \<Rightarrow> ('k, 'v) work_queue \<Rightarrow> ('k, 'v) work_queue" where
  "set_status t st q =
     (case dict_get (tasks q) t of
        None \<Rightarrow> q
      | Some task \<Rightarrow> q\<lparr>tasks := dict_set t (task\<lparr>task_status := st\<rparr>) (tasks q)\<rparr>)"

text \<open>\<open>Task.cancel()\<close> has no effect on a task that is done.\<close>

definition cancel_task :: "nat \<Rightarrow> ('k, 'v) work_queue \<Rightarrow> ('k, 'v) work_queue" where
  "cancel_task t q =
     (case dict_get (tasks q) t of
        None \<Rightarrow> q
      | Some task \<Rightarrow> if task_status task = Finished then q else set_status t Cancelling q)"

text \<open>
  \<open>put\<close>: at once for a delay of 0. Otherwise a running timer of the key is cancelled
  and the put waits for its removal, and only then starts the new timer
  (\<open>put_resume\<close>).
\<close>

definition wq_put ::
  "'k \<Rightarrow> 'v \<Rightarrow> real option \<Rightarrow> ('k, 'v) work_queue \<Rightarrow> ('k, 'v) work_queue" where
  "wq_put k v delay q =
     (let d = (case delay of None \<Rightarrow> debounce q | Some d \<Rightarrow> d)
      in if d = 0 then put_key k v q
         else case dict_get (timers q) k of
                Some t \<Rightarrow> (cancel_task t q)\<lparr>waiters := waiters q @ [(t, k, v)]\<rparr>
              | None \<Rightarrow> start_timer k v q)"

definition put_resume ::
  "nat \<times> 'k \<times> 'v \<Rightarrow> ('k, 'v) work_queue \<Rightarrow> ('k, 'v) work_queue" where
  "put_resume w q =
     (case w of (t, k, v) \<Rightarrow> start_timer k v (q\<lparr>waiters := remove1 w (waiters q)\<rparr>))"

text \<open>The debounce coroutine after its sleep, and the end of a cancelled one.\<close>

definition timer_fire :: "nat \<Rightarrow> ('k, 'v) work_queue \<Rightarrow> ('k, 'v) work_queue" where
  "timer_fire t q =
     (case dict_get (tasks q) t of
        None \<Rightarrow> q
      | Some task \<Rightarrow> set_status t Finished (put_key (task_key task) (task_value task) q))"

definition timer_cancelled :: "nat \<Rightarrow> ('k, 'v) work_queue \<Rightarrow> ('k, 'v) work_queue" where
  "timer_cancelled t q = set_status t Finished q"

text \<open>
  The done callback \<open>remove_timer\<close>: it pops the entry of the key, whichever task the
  entry belongs to, and raises \<open>KeyError\<close> if there is none.
\<close>

definition remove_timer :: "nat \<Rightarrow> ('k, 'v) work_queue \<Rightarrow> ('k, 'v) work_queue" where
  "remove_timer t q =
     (case dict_get (tasks q) t of
        None \<Rightarrow> q
      | Some task \<Rightarrow>
          (let q' = q\<lparr>tasks := dict_del t (tasks q)\<rparr>
           in case dict_get (timers q) (task_key task) of
                None \<Rightarrow> q'\<lparr>callback_errors := t # callback_errors q\<rparr>
              | Some t' \<Rightarrow> q'\<lparr>timers := dict_del (task_key task) (timers q),
                              resolved := insert t' (resolved q)\<rparr>))"

text \<open>\<open>None\<close>: the coroutine waits, since the queue is empty.\<close>

definition wq_get ::
  "('k, 'v) work_queue \<Rightarrow> ((exn, 'k \<times> 'v) res \<times> ('k, 'v) work_queue) option" where
  "wq_get q =
     (case queue q of
        [] \<Rightarrow> None
      | k # ks \<Rightarrow>
          Some (case dict_get (dirty q) k of
                  None \<Rightarrow> (Inl KeyError, q\<lparr>queue := ks\<rparr>)
                | Some v \<Rightarrow> (Inr (k, v), q\<lparr>queue := ks, dirty := dict_del k (dirty q)\<rparr>)))"

definition wq_done :: "'k \<Rightarrow> ('k, 'v) work_queue \<Rightarrow> ('k, 'v) work_queue" where
  "wq_done k q =
     (let q' = q\<lparr>active := active q - {k}\<rparr>
      in if k \<in> dict_keys (dirty q') then add_key_to_queue k q' else q')"

definition wq_cancel :: "'k \<Rightarrow> ('k, 'v) work_queue \<Rightarrow> ('k, 'v) work_queue" where
  "wq_cancel k q =
     (case dict_get (timers q) k of Some t \<Rightarrow> cancel_task t q | None \<Rightarrow> q)"

text \<open>
  \<open>close\<close> cancels every registered timer and waits until each has ended, so their
  callbacks have run, and empties the dictionary.
\<close>

definition wq_close :: "('k, 'v) work_queue \<Rightarrow> ('k, 'v) work_queue" where
  "wq_close q =
     (let q' = foldl (\<lambda>q kt. timer_cancelled (snd kt) (cancel_task (snd kt) q)) q (timers q)
      in (foldl (\<lambda>q kt. remove_timer (snd kt) q) q' (timers q))\<lparr>timers := []\<rparr>)"

definition wq_empty :: "('k, 'v) work_queue \<Rightarrow> bool" where
  "wq_empty q \<longleftrightarrow> length (dirty q) = 0"

definition wq_size :: "('k, 'v) work_queue \<Rightarrow> nat" where
  "wq_size q = length (dirty q)"

section \<open>Steps\<close>

text \<open>
  The observable steps of a queue and its clients. \<open>P\<close> is the set of keys that some
  worker has got and not yet reported as done. A worker only reports a key it has got.
\<close>

datatype ('k, 'v) wq_event =
    Put 'k 'v "real option"
  | Resume "nat \<times> 'k \<times> 'v"
  | Fire nat
  | Cancelled nat
  | Callback nat
  | Get 'k 'v
  | Done 'k
  | Cancel 'k

inductive wq_step ::
  "'k set \<times> ('k, 'v) work_queue \<Rightarrow> ('k, 'v) wq_event \<Rightarrow> 'k set \<times> ('k, 'v) work_queue \<Rightarrow> bool" where
  step_put: "wq_step (P, q) (Put k v delay) (P, wq_put k v delay q)"
| step_resume: "w \<in> set (waiters q) \<Longrightarrow> fst w \<in> resolved q \<Longrightarrow>
     wq_step (P, q) (Resume w) (P, put_resume w q)"
| step_fire: "dict_get (tasks q) t = Some task \<Longrightarrow> task_status task = Sleeping \<Longrightarrow>
     wq_step (P, q) (Fire t) (P, timer_fire t q)"
| step_cancelled: "dict_get (tasks q) t = Some task \<Longrightarrow> task_status task = Cancelling \<Longrightarrow>
     wq_step (P, q) (Cancelled t) (P, timer_cancelled t q)"
| step_callback: "dict_get (tasks q) t = Some task \<Longrightarrow> task_status task = Finished \<Longrightarrow>
     wq_step (P, q) (Callback t) (P, remove_timer t q)"
| step_get: "wq_get q = Some (Inr (k, v), q') \<Longrightarrow> wq_step (P, q) (Get k v) (insert k P, q')"
| step_done: "k \<in> P \<Longrightarrow> wq_step (P, q) (Done k) (P - {k}, wq_done k q)"
| step_cancel: "wq_step (P, q) (Cancel k) (P, wq_cancel k q)"

inductive_cases wq_step_getE: "wq_step (P, q) (Get k v) s'"

inductive_simps wq_step_simps:
  "wq_step (P, q) (Put k v delay) s'"
  "wq_step (P, q) (Resume w) s'"
  "wq_step (P, q) (Fire t) s'"
  "wq_step (P, q) (Cancelled t) s'"
  "wq_step (P, q) (Callback t) s'"

inductive wq_reachable :: "'k set \<times> ('k, 'v) work_queue \<Rightarrow> bool" where
  reach_init: "wq_reachable ({}, wq_init deb)"
| reach_step: "wq_reachable s \<Longrightarrow> wq_step s e s' \<Longrightarrow> wq_reachable s'"

fun wq_run ::
  "'k set \<times> ('k, 'v) work_queue \<Rightarrow> ('k, 'v) wq_event list \<Rightarrow> 'k set \<times> ('k, 'v) work_queue \<Rightarrow> bool" where
  "wq_run s [] s' \<longleftrightarrow> s' = s"
| "wq_run s (e # es) s' \<longleftrightarrow> (\<exists>s1. wq_step s e s1 \<and> wq_run s1 es s')"

section \<open>The invariant of the keys\<close>

text \<open>
  A key is active exactly when it stands in the queue or is being processed, never both; a
  key with a pending value is active, and a key in the queue has a pending value.
\<close>

definition wq_inv :: "'k set \<Rightarrow> ('k, 'v) work_queue \<Rightarrow> bool" where
  "wq_inv P q \<longleftrightarrow>
     dict_ok (dirty q) \<and> distinct (queue q) \<and> set (queue q) \<inter> P = {} \<and>
     active q = set (queue q) \<union> P \<and>
     set (queue q) \<subseteq> dict_keys (dirty q) \<and> dict_keys (dirty q) \<subseteq> active q"

named_theorems wq_defs "definitions of the queue operations"

lemmas wq_op_defs [wq_defs] =
  add_key_to_queue_def put_key_def start_timer_def set_status_def cancel_task_def
  put_resume_def timer_fire_def timer_cancelled_def remove_timer_def wq_cancel_def

lemma wq_inv_init: "wq_inv {} (wq_init deb)"
  by (simp add: wq_inv_def wq_init_def)

lemma set_status_frame [simp]:
  "dirty (set_status t st q) = dirty q" "queue (set_status t st q) = queue q"
  "active (set_status t st q) = active q" "timers (set_status t st q) = timers q"
  "waiters (set_status t st q) = waiters q" "resolved (set_status t st q) = resolved q"
  "callback_errors (set_status t st q) = callback_errors q"
  "next_task (set_status t st q) = next_task q" "debounce (set_status t st q) = debounce q"
  by (simp_all add: set_status_def split: option.split)

lemma cancel_task_frame [simp]:
  "dirty (cancel_task t q) = dirty q" "queue (cancel_task t q) = queue q"
  "active (cancel_task t q) = active q" "timers (cancel_task t q) = timers q"
  "waiters (cancel_task t q) = waiters q" "resolved (cancel_task t q) = resolved q"
  "callback_errors (cancel_task t q) = callback_errors q"
  "next_task (cancel_task t q) = next_task q" "debounce (cancel_task t q) = debounce q"
  by (simp_all add: cancel_task_def split: option.split)

lemma start_timer_frame [simp]:
  "dirty (start_timer k v q) = dirty q" "queue (start_timer k v q) = queue q"
  "active (start_timer k v q) = active q" "resolved (start_timer k v q) = resolved q"
  "waiters (start_timer k v q) = waiters q"
  "callback_errors (start_timer k v q) = callback_errors q"
  "debounce (start_timer k v q) = debounce q"
  by (simp_all add: start_timer_def)

lemma put_key_frame [simp]:
  "timers (put_key k v q) = timers q" "tasks (put_key k v q) = tasks q"
  "waiters (put_key k v q) = waiters q" "resolved (put_key k v q) = resolved q"
  "callback_errors (put_key k v q) = callback_errors q"
  "next_task (put_key k v q) = next_task q" "debounce (put_key k v q) = debounce q"
  by (simp_all add: put_key_def add_key_to_queue_def Let_def)

lemma remove_timer_frame [simp]:
  "dirty (remove_timer t q) = dirty q" "queue (remove_timer t q) = queue q"
  "active (remove_timer t q) = active q" "waiters (remove_timer t q) = waiters q"
  "debounce (remove_timer t q) = debounce q"
  by (simp_all add: remove_timer_def Let_def split: option.split)

lemma put_key_keys:
  "dirty (put_key k v q) = dict_set k v (dirty q)"
  "queue (put_key k v q) = (if k \<in> active q then queue q else queue q @ [k])"
  "active (put_key k v q) = insert k (active q)"
  by (auto simp: put_key_def add_key_to_queue_def Let_def)

lemma wq_inv_put_key: "wq_inv P q \<Longrightarrow> wq_inv P (put_key k v q)"
  by (auto simp: wq_inv_def put_key_keys intro: dict_ok_set)

lemma wq_inv_frame [simp]:
  "wq_inv P (set_status t st q) = wq_inv P q"
  "wq_inv P (cancel_task t q) = wq_inv P q"
  "wq_inv P (start_timer k v q) = wq_inv P q"
  "wq_inv P (remove_timer t q) = wq_inv P q"
  "wq_inv P (q\<lparr>waiters := ws\<rparr>) = wq_inv P q"
  by (simp_all add: wq_inv_def)

lemma wq_inv_put: "wq_inv P q \<Longrightarrow> wq_inv P (wq_put k v d q)"
  by (simp add: wq_put_def Let_def wq_inv_put_key split: option.split)

lemma wq_inv_resume: "wq_inv P q \<Longrightarrow> wq_inv P (put_resume w q)"
  by (simp add: put_resume_def split: prod.split)

lemma wq_inv_fire: "wq_inv P q \<Longrightarrow> wq_inv P (timer_fire t q)"
  by (simp add: timer_fire_def wq_inv_put_key split: option.split)

lemma wq_inv_cancelled: "wq_inv P q \<Longrightarrow> wq_inv P (timer_cancelled t q)"
  by (simp add: timer_cancelled_def)

lemma wq_inv_cancel: "wq_inv P q \<Longrightarrow> wq_inv P (wq_cancel k q)"
  by (simp add: wq_cancel_def split: option.split)

lemma wq_get_InrD:
  "wq_get q = Some (Inr (k, v), q') \<Longrightarrow>
     \<exists>ks. queue q = k # ks \<and> dict_get (dirty q) k = Some v \<and>
          q' = q\<lparr>queue := ks, dirty := dict_del k (dirty q)\<rparr>"
  by (auto simp: wq_get_def split: list.splits option.splits)

lemma wq_inv_get:
  assumes "wq_inv P q" and "wq_get q = Some (Inr (k, v), q')"
  shows "k \<notin> P \<and> wq_inv (insert k P) q'"
  using assms by (auto simp: wq_inv_def dest!: wq_get_InrD)

lemma wq_inv_done: "wq_inv P q \<Longrightarrow> k \<in> P \<Longrightarrow> wq_inv (P - {k}) (wq_done k q)"
  by (auto simp: wq_inv_def wq_done_def Let_def add_key_to_queue_def)

lemma wq_step_inv: "wq_step (P, q) e (P', q') \<Longrightarrow> wq_inv P q \<Longrightarrow> wq_inv P' q'"
  by (induction "(P, q)" e "(P', q')" rule: wq_step.induct)
    (auto intro: wq_inv_put wq_inv_resume wq_inv_fire wq_inv_cancelled
      wq_inv_cancel wq_inv_done dest: wq_inv_get)

lemma wq_reachable_inv: "wq_reachable s \<Longrightarrow> wq_inv (fst s) (snd s)"
proof (induction rule: wq_reachable.induct)
  case (reach_step s e s')
  then show ?case using wq_step_inv [of "fst s" "snd s" e "fst s'" "snd s'"] by simp
qed (simp add: wq_inv_init)

lemma wq_run_reachable: "wq_reachable s \<Longrightarrow> wq_run s es s' \<Longrightarrow> wq_reachable s'"
  by (induction es arbitrary: s) (auto intro: reach_step)

section \<open>The abstract queue\<close>










section \<open>Draining\<close>

text \<open>\<open>wq_drain n\<close> makes \<open>n\<close> calls of \<open>get\<close> in a row.\<close>

fun wq_drain :: "nat \<Rightarrow> ('k, 'v) work_queue \<Rightarrow> ('k \<times> 'v) list \<times> ('k, 'v) work_queue" where
  "wq_drain 0 q = ([], q)"
| "wq_drain (Suc n) q =
     (case wq_get q of
        Some (Inr kv, q') \<Rightarrow> (let (kvs, q'') = wq_drain n q' in (kv # kvs, q''))
      | _ \<Rightarrow> ([], q))"

lemma wq_get_inv_progress:
  assumes "wq_inv P q" and "queue q = k # ks"
  shows "\<exists>v. dict_get (dirty q) k = Some v \<and>
    wq_get q = Some (Inr (k, v), q\<lparr>queue := ks, dirty := dict_del k (dirty q)\<rparr>)"
proof -
  from assms have "k \<in> dict_keys (dirty q)" by (auto simp: wq_inv_def)
  then obtain v where "dict_get (dirty q) k = Some v" by (auto simp: dict_keys_iff)
  with assms show ?thesis by (simp add: wq_get_def)
qed

lemma wq_drain_all:
  assumes "wq_inv P q" and "length (queue q) = n"
  shows "map fst (fst (wq_drain n q)) = queue q \<and>
    (\<forall>kv \<in> set (fst (wq_drain n q)). dict_get (dirty q) (fst kv) = Some (snd kv)) \<and>
    queue (snd (wq_drain n q)) = [] \<and>
    dict_keys (dirty (snd (wq_drain n q))) = dict_keys (dirty q) - set (queue q)"
  using assms
proof (induction n arbitrary: P q)
  case (Suc n)
  then obtain k ks where q: "queue q = k # ks" by (cases "queue q") auto
  let ?q' = "\<lambda>v. q\<lparr>queue := ks, dirty := dict_del k (dirty q)\<rparr>"
  from wq_get_inv_progress [OF Suc.prems(1) q] obtain v where
    v: "dict_get (dirty q) k = Some v" "wq_get q = Some (Inr (k, v), ?q' v)" by blast
  have inv: "wq_inv (insert k P) (?q' v)" using wq_inv_get [OF Suc.prems(1) v(2)] by simp
  have IH: "map fst (fst (wq_drain n (?q' v))) = ks \<and>
    (\<forall>kv \<in> set (fst (wq_drain n (?q' v))).
      dict_get (dict_del k (dirty q)) (fst kv) = Some (snd kv)) \<and>
    queue (snd (wq_drain n (?q' v))) = [] \<and>
    dict_keys (dirty (snd (wq_drain n (?q' v)))) = dict_keys (dict_del k (dirty q)) - set ks"
    using Suc.IH [OF inv] Suc.prems(2) q by simp
  then show ?case using v q by (auto split: prod.splits if_splits)
qed simp

section \<open>The invariant of the timers\<close>

text \<open>
  The discipline under which the timers are sound: no put with a delay for a key is made
  while another put for the same key still waits for the removal of a timer.
\<close>

definition waiting_keys :: "('k, 'v) work_queue \<Rightarrow> 'k set" where
  "waiting_keys q = (fst \<circ> snd) ` set (waiters q)"

fun serial_event :: "('k, 'v) work_queue \<Rightarrow> ('k, 'v) wq_event \<Rightarrow> bool" where
  "serial_event q (Put k v delay) \<longleftrightarrow> k \<notin> waiting_keys q"
| "serial_event q e \<longleftrightarrow> True"

inductive wq_serial :: "'k set \<times> ('k, 'v) work_queue \<Rightarrow> bool" where
  serial_init: "wq_serial ({}, wq_init deb)"
| serial_step: "wq_serial s \<Longrightarrow> serial_event (snd s) e \<Longrightarrow> wq_step s e s' \<Longrightarrow> wq_serial s'"

text \<open>
  Each live task is registered under its key and each entry belongs to a live task of that
  key; a waiting put waits for the registered task of its key or for one that is gone, after
  which no timer of the key is registered.
\<close>

definition tasks_registered :: "('k, 'v) work_queue \<Rightarrow> bool" where
  "tasks_registered q \<longleftrightarrow> (\<forall>t task. dict_get (tasks q) t = Some task \<longrightarrow>
     dict_get (timers q) (task_key task) = Some t \<and> t < next_task q)"

definition timers_live :: "('k, 'v) work_queue \<Rightarrow> bool" where
  "timers_live q \<longleftrightarrow> (\<forall>k t. dict_get (timers q) k = Some t \<longrightarrow>
     (\<exists>task. dict_get (tasks q) t = Some task \<and> task_key task = k))"

definition waiters_ok :: "('k, 'v) work_queue \<Rightarrow> bool" where
  "waiters_ok q \<longleftrightarrow> distinct (map (fst \<circ> snd) (waiters q)) \<and>
     (\<forall>t k v. (t, k, v) \<in> set (waiters q) \<longrightarrow>
        dict_get (timers q) k = Some t \<or> dict_get (timers q) k = None \<and> t \<in> resolved q)"

definition resolved_gone :: "('k, 'v) work_queue \<Rightarrow> bool" where
  "resolved_gone q \<longleftrightarrow>
     (\<forall>t \<in> resolved q. dict_get (tasks q) t = None \<and> t < next_task q)"

definition timers_inv :: "('k, 'v) work_queue \<Rightarrow> bool" where
  "timers_inv q \<longleftrightarrow>
     tasks_registered q \<and> timers_live q \<and> waiters_ok q \<and> resolved_gone q \<and>
     callback_errors q = []"

lemmas timers_inv_defs =
  timers_inv_def tasks_registered_def timers_live_def waiters_ok_def resolved_gone_def

lemma timers_inv_init: "timers_inv (wq_init deb)"
  by (simp add: timers_inv_defs wq_init_def)

lemma tasks_set_status:
  "dict_get (tasks (set_status t st q)) t' =
     map_option (\<lambda>task. if t' = t then task\<lparr>task_status := st\<rparr> else task) (dict_get (tasks q) t')"
  by (cases "dict_get (tasks q) t'") (auto simp: set_status_def split: option.split)

lemma tasks_set_statusD:
  "dict_get (tasks (set_status t st q)) t' = Some task' \<Longrightarrow>
     \<exists>task. dict_get (tasks q) t' = Some task \<and> task_key task' = task_key task"
  by (auto simp: tasks_set_status split: if_splits)

lemma tasks_set_statusI:
  "dict_get (tasks q) t' = Some task \<Longrightarrow>
     \<exists>task'. dict_get (tasks (set_status t st q)) t' = Some task' \<and> task_key task' = task_key task"
  by (simp add: tasks_set_status)

lemma timers_inv_set_status:
  assumes "timers_inv q" shows "timers_inv (set_status t st q)"
proof -
  have "tasks_registered (set_status t st q)"
    using assms by (fastforce simp: timers_inv_def tasks_registered_def dest: tasks_set_statusD)
  moreover have "timers_live (set_status t st q)"
    using assms unfolding timers_inv_def timers_live_def set_status_frame
    by (metis tasks_set_statusI)
  ultimately show ?thesis
    using assms by (simp add: timers_inv_def waiters_ok_def resolved_gone_def tasks_set_status)
qed

lemma timers_inv_cancel_task: "timers_inv q \<Longrightarrow> timers_inv (cancel_task t q)"
  by (simp add: cancel_task_def timers_inv_set_status split: option.split)

lemma timers_inv_put_key: "timers_inv q \<Longrightarrow> timers_inv (put_key k v q)"
  by (simp add: timers_inv_defs)

lemma timers_inv_registered:
  "timers_inv q \<Longrightarrow> dict_get (tasks q) t = Some task \<Longrightarrow>
     dict_get (timers q) (task_key task) = Some t \<and> t < next_task q"
  by (simp add: timers_inv_def tasks_registered_def)

lemma timers_inv_start:
  assumes inv: "timers_inv q" and free: "dict_get (timers q) k = None" "k \<notin> waiting_keys q"
  shows "timers_inv (start_timer k v q)"
proof -
  let ?q = "start_timer k v q"
  have fresh: "dict_get (tasks q) (next_task q) = None"
    using timers_inv_registered [OF inv, of "next_task q"]
    by (cases "dict_get (tasks q) (next_task q)") auto
  have nowait: "(t, k', v') \<in> set (waiters q) \<Longrightarrow> k' \<noteq> k" for t k' v'
    using free by (force simp: waiting_keys_def)
  have "tasks_registered ?q"
    using inv free by (auto simp: timers_inv_def tasks_registered_def start_timer_def less_SucI)
  moreover have "timers_live ?q"
    using inv fresh by (fastforce simp: timers_inv_def timers_live_def start_timer_def)
  moreover have "waiters_ok ?q"
    using inv nowait by (simp add: timers_inv_def waiters_ok_def start_timer_def)
  moreover have "resolved_gone ?q"
    using inv by (auto simp: timers_inv_def resolved_gone_def start_timer_def less_SucI)
  ultimately show ?thesis using inv by (simp add: timers_inv_def)
qed

lemma timers_inv_wait:
  assumes "timers_inv q" "dict_get (timers q) k = Some t" "k \<notin> waiting_keys q"
  shows "timers_inv (q\<lparr>waiters := waiters q @ [(t, k, v)]\<rparr>)"
  using assms by (auto simp: timers_inv_defs waiting_keys_def)

lemma timers_inv_remove:
  assumes inv: "timers_inv q" and t: "dict_get (tasks q) t = Some task"
  shows "timers_inv (remove_timer t q)"
proof -
  let ?q = "remove_timer t q"
  have reg: "dict_get (timers q) (task_key task) = Some t" "t < next_task q"
    using timers_inv_registered [OF inv t] by simp_all
  then have q: "?q = q\<lparr>tasks := dict_del t (tasks q),
      timers := dict_del (task_key task) (timers q), resolved := insert t (resolved q)\<rparr>"
    using t by (simp add: remove_timer_def)
  have "tasks_registered ?q"
    using inv reg by (fastforce simp: timers_inv_def tasks_registered_def q)
  moreover have "timers_live ?q"
    using inv t by (fastforce simp: timers_inv_def timers_live_def q)
  moreover have "waiters_ok ?q"
    using inv reg by (fastforce simp: timers_inv_def waiters_ok_def q)
  moreover have "resolved_gone ?q"
    using inv reg by (simp add: timers_inv_def resolved_gone_def q)
  ultimately show ?thesis using inv by (simp add: timers_inv_def q)
qed

lemma timers_inv_resume:
  assumes inv: "timers_inv q" and w: "w \<in> set (waiters q)" "fst w \<in> resolved q"
  shows "timers_inv (put_resume w q)"
proof -
  obtain t k v where tkv: "w = (t, k, v)" by (cases w)
  let ?q = "q\<lparr>waiters := remove1 w (waiters q)\<rparr>"
  have "dict_get (tasks q) t = None"
    using inv w tkv by (simp add: timers_inv_def resolved_gone_def)
  then have none: "dict_get (timers q) k = None"
    using inv w tkv by (fastforce simp: timers_inv_def timers_live_def waiters_ok_def)
  have dist: "distinct (map (fst \<circ> snd) (waiters q))"
    using inv by (simp add: timers_inv_def waiters_ok_def)
  then have "k \<notin> waiting_keys ?q"
    using image_remove1_distinct [OF dist w(1)] tkv by (simp add: waiting_keys_def)
  moreover have "timers_inv ?q"
    using inv distinct_map_remove1 [OF dist, of w]
    by (simp add: timers_inv_defs) (meson notin_set_remove1)
  ultimately show ?thesis using none tkv by (simp add: put_resume_def timers_inv_start)
qed

lemma timers_inv_put:
  "timers_inv q \<Longrightarrow> k \<notin> waiting_keys q \<Longrightarrow> timers_inv (wq_put k v d q)"
  using timers_inv_wait [OF timers_inv_cancel_task, of q _ k]
  by (simp add: wq_put_def Let_def timers_inv_put_key timers_inv_start waiting_keys_def
      split: option.split)

lemma timers_inv_frame [simp]:
  "timers_inv (q\<lparr>queue := ks\<rparr>) = timers_inv q"
  "timers_inv (q\<lparr>dirty := d\<rparr>) = timers_inv q"
  "timers_inv (q\<lparr>active := a\<rparr>) = timers_inv q"
  by (simp_all add: timers_inv_defs)

lemma timers_inv_step:
  assumes "wq_step s e s'" "serial_event (snd s) e" "timers_inv (snd s)"
  shows "timers_inv (snd s')"
  using assms
proof (induction rule: wq_step.induct)
  case (step_get q k v q' P)
  then show ?case by (auto dest!: wq_get_InrD)
qed (auto simp: timers_inv_put timers_inv_resume timers_inv_remove timers_inv_set_status
    timer_fire_def timers_inv_put_key timer_cancelled_def wq_done_def Let_def
    add_key_to_queue_def wq_cancel_def timers_inv_cancel_task split: option.split)

lemma wq_serial_timers_inv: "wq_serial s \<Longrightarrow> timers_inv (snd s)"
  by (induction rule: wq_serial.induct) (auto simp: timers_inv_init timers_inv_step)

section \<open>Worker pools\<close>

text \<open>
  The worker coroutines of the controllers (\<open>handle_resource\<close> of the garbage collector and
  its like) all have the same loop: get a key and a value, work on them, and report the key
  as done, whether or not the work raised. A pool maps each worker to the pair it works on.
  Everything else that happens to the queue is a step of the environment.
\<close>

type_synonym ('k, 'v) pool = "nat \<Rightarrow> ('k \<times> 'v) option"

inductive pool_step ::
  "('s \<Rightarrow> ('k \<times> 'v) \<times> 's \<Rightarrow> bool) \<Rightarrow> ('k \<Rightarrow> 's \<Rightarrow> 's) \<Rightarrow> ('s \<Rightarrow> 's \<Rightarrow> bool) \<Rightarrow>
   ('k, 'v) pool \<times> 's \<Rightarrow> ('k, 'v) pool \<times> 's \<Rightarrow> bool"
  for got fin env where
  pool_take: "w i = None \<Longrightarrow> got s (kv, s') \<Longrightarrow>
     pool_step got fin env (w, s) (w(i := Some kv), s')"
| pool_finish: "w i = Some (k, v) \<Longrightarrow>
     pool_step got fin env (w, s) (w(i := None), fin k s)"
| pool_env: "env s s' \<Longrightarrow> pool_step got fin env (w, s) (w, s')"

inductive pool_reachable ::
  "('s \<Rightarrow> ('k \<times> 'v) \<times> 's \<Rightarrow> bool) \<Rightarrow> ('k \<Rightarrow> 's \<Rightarrow> 's) \<Rightarrow> ('s \<Rightarrow> 's \<Rightarrow> bool) \<Rightarrow> 's \<Rightarrow>
   ('k, 'v) pool \<times> 's \<Rightarrow> bool"
  for got fin env s0 where
  pool_start: "pool_reachable got fin env s0 (\<lambda>_. None, s0)"
| pool_more: "pool_reachable got fin env s0 c \<Longrightarrow> pool_step got fin env c c' \<Longrightarrow>
     pool_reachable got fin env s0 c'"

definition held_keys :: "('k, 'v) pool \<Rightarrow> 'k set" where
  "held_keys w = fst ` ran w"

definition pool_exclusive :: "('k, 'v) pool \<Rightarrow> bool" where
  "pool_exclusive w \<longleftrightarrow>
     (\<forall>i j k v v'. w i = Some (k, v) \<longrightarrow> w j = Some (k, v') \<longrightarrow> i = j)"

lemma held_keys_empty [simp]: "held_keys (\<lambda>_. None) = {}"
  by (simp add: held_keys_def)

lemma in_held_keys: "w i = Some (k, v) \<Longrightarrow> k \<in> held_keys w"
  by (force simp: held_keys_def ran_def)

lemma held_keys_take:
  "w i = None \<Longrightarrow> held_keys (w(i \<mapsto> (k, v))) = insert k (held_keys w)"
  by (simp add: held_keys_def)

lemma held_keys_finish:
  assumes "pool_exclusive w" "w i = Some (k, v)"
  shows "held_keys (w(i := None)) = held_keys w - {k}"
proof (rule set_eqI)
  fix x
  have "x \<in> held_keys (w(i := None)) \<longleftrightarrow> (\<exists>j v'. j \<noteq> i \<and> w j = Some (x, v'))"
    by (auto simp: held_keys_def ran_def image_iff)
  also have "\<dots> \<longleftrightarrow> (\<exists>j v'. w j = Some (x, v')) \<and> x \<noteq> k"
    using assms unfolding pool_exclusive_def by (metis option.inject prod.inject)
  also have "\<dots> \<longleftrightarrow> x \<in> held_keys w - {k}"
    by (auto simp: held_keys_def ran_def image_iff)
  finally show "x \<in> held_keys (w(i := None)) \<longleftrightarrow> x \<in> held_keys w - {k}" .
qed

text \<open>
  The contract between the queue and its workers: an invariant relative to the set of held
  keys, kept by each operation, under which \<open>get\<close> never hands out a held key.
\<close>

locale keyed_queue =
  fixes got :: "'s \<Rightarrow> ('k \<times> 'v) \<times> 's \<Rightarrow> bool"
    and fin :: "'k \<Rightarrow> 's \<Rightarrow> 's"
    and env :: "'s \<Rightarrow> 's \<Rightarrow> bool"
    and inv :: "'k set \<Rightarrow> 's \<Rightarrow> bool"
    and s0 :: 's
  assumes inv_start: "inv {} s0"
    and got_fresh: "inv P s \<Longrightarrow> got s ((k, v), s') \<Longrightarrow> k \<notin> P"
    and got_inv: "inv P s \<Longrightarrow> got s ((k, v), s') \<Longrightarrow> inv (insert k P) s'"
    and fin_inv: "inv P s \<Longrightarrow> k \<in> P \<Longrightarrow> inv (P - {k}) (fin k s)"
    and env_inv: "inv P s \<Longrightarrow> env s s' \<Longrightarrow> inv P s'"
begin

lemma pool_step_exclusive:
  assumes "pool_step got fin env (w, s) (w', s')" "pool_exclusive w" "inv (held_keys w) s"
  shows "pool_exclusive w' \<and> inv (held_keys w') s'"
  using assms
proof (cases rule: pool_step.cases)
  case (pool_take i kv)
  obtain k v where kv: "kv = (k, v)" by (cases kv)
  have fresh: "k \<notin> held_keys w" using got_fresh assms(3) pool_take kv by blast
  have "inv (held_keys w') s'"
    using got_inv [OF assms(3)] pool_take kv by (simp add: held_keys_take)
  moreover have "pool_exclusive w'"
    using fresh assms(2) pool_take kv by (auto simp: pool_exclusive_def dest: in_held_keys)
  ultimately show ?thesis by simp
next
  case (pool_finish i k v)
  then have "inv (held_keys w') s'"
    using fin_inv [OF assms(3)] assms(2) by (simp add: held_keys_finish in_held_keys)
  moreover have "pool_exclusive w'"
    using assms(2) pool_finish by (auto simp: pool_exclusive_def)
  ultimately show ?thesis by simp
next
  case pool_env
  then show ?thesis using env_inv assms by blast
qed

lemma pool_reachable_exclusive:
  "pool_reachable got fin env s0 c \<Longrightarrow> pool_exclusive (fst c) \<and> inv (held_keys (fst c)) (snd c)"
proof (induction rule: pool_reachable.induct)
  case pool_start
  then show ?case using inv_start by (simp add: pool_exclusive_def)
next
  case (pool_more c c')
  then show ?case using pool_step_exclusive [of "fst c" "snd c" "fst c'" "snd c'"] by simp
qed

end

definition wq_got :: "('k, 'v) work_queue \<Rightarrow> ('k \<times> 'v) \<times> ('k, 'v) work_queue \<Rightarrow> bool" where
  "wq_got q r \<longleftrightarrow> wq_get q = Some (Inr (fst r), snd r)"

definition wq_env :: "('k, 'v) work_queue \<Rightarrow> ('k, 'v) work_queue \<Rightarrow> bool" where
  "wq_env q q' \<longleftrightarrow> (\<exists>e. wq_step ({}, q) e ({}, q') \<and> (\<forall>k v. e \<noteq> Get k v) \<and> (\<forall>k. e \<noteq> Done k))"

lemma wq_env_inv:
  assumes "wq_inv P q" "wq_env q q'"
  shows "wq_inv P q'"
proof -
  obtain e where e: "wq_step ({}, q) e ({}, q')" "\<forall>k v. e \<noteq> Get k v" "\<forall>k. e \<noteq> Done k"
    using assms(2) by (auto simp: wq_env_def)
  then have "wq_step (P, q) e (P, q')"
    by (cases rule: wq_step.cases) (auto intro: wq_step.intros)
  then show ?thesis using wq_step_inv assms(1) by blast
qed

interpretation wq: keyed_queue wq_got wq_done wq_env wq_inv "wq_init deb" for deb
  by unfold_locales (auto simp: wq_inv_init wq_got_def wq_inv_done
      dest: wq_inv_get intro: wq_env_inv)

section \<open>Properties\<close>

definition wq_example :: "string set \<times> (string, nat) work_queue" where
  "wq_example = ({}, wq_put ''a'' 2 None (wq_put ''b'' 7 None (wq_put ''a'' 1 None (wq_init 0))))"

lemma wq_example_reachable: "wq_reachable wq_example"
  unfolding wq_example_def by (intro reach_step [OF _ step_put] reach_init)

lemma wq_example_simps:
  "fst wq_example = {}" "dirty (snd wq_example) = [(''a'', 2), (''b'', 7)]"
  "queue (snd wq_example) = [''a'', ''b'']"
  by (simp_all add: wq_example_def wq_put_def wq_init_def put_key_def add_key_to_queue_def)

text \<open>
  C9. In every reachable state, \<open>get\<close> on a queue that is not empty never raises
  \<open>KeyError\<close>: it returns a key that no worker holds, together with the value pending for it.
\<close>

theorem work_queue_get_sequential:
  assumes "wq_reachable (P, q)" and "queue q \<noteq> []"
  shows "\<exists>k v q'. wq_get q = Some (Inr (k, v), q') \<and> k \<notin> P \<and> dict_get (dirty q) k = Some v"
proof -
  obtain k ks where q: "queue q = k # ks" using assms(2) by (cases "queue q") auto
  have inv: "wq_inv P q" using wq_reachable_inv [OF assms(1)] by simp
  from wq_get_inv_progress [OF inv q] obtain v where
    v: "dict_get (dirty q) k = Some v"
    "wq_get q = Some (Inr (k, v), q\<lparr>queue := ks, dirty := dict_del k (dirty q)\<rparr>)" by blast
  with wq_inv_get [OF inv v(2)] show ?thesis by blast
qed

theorem work_queue_get_sequential_witness:
  "\<exists>k v q'. wq_get (snd wq_example) = Some (Inr (k, v), q') \<and> k \<notin> {} \<and>
     dict_get (dirty (snd wq_example)) k = Some v"
  by (rule work_queue_get_sequential)
    (use wq_example_reachable in \<open>simp_all add: wq_example_simps flip: wq_example_simps(1)\<close>)



text \<open>
  C37. When no worker holds a key, as many calls of \<open>get\<close> as there are keys in the queue
  return every pending key exactly once, in queue order and with its newest value, and
  leave the queue empty: no update is lost and none is delivered twice.
\<close>

theorem work_queue_drain_delivers_all:
  assumes "wq_reachable ({}, q)" and "wq_drain (length (queue q)) q = (kvs, q')"
  shows "map fst kvs = queue q \<and> distinct (map fst kvs) \<and> set kvs = set (dirty q) \<and> wq_empty q'"
proof -
  have inv: "wq_inv {} q" using wq_reachable_inv [OF assms(1)] by simp
  note all = wq_drain_all [OF inv refl, unfolded assms(2) fst_conv snd_conv]
  have keys: "dict_keys (dirty q) = set (queue q)" and ok: "dict_ok (dirty q)"
    using inv by (auto simp: wq_inv_def)
  have 1: "set kvs \<subseteq> set (dirty q)" using all by (metis map_of_SomeD prod.collapse subsetI)
  have "x \<in> set kvs" if "x \<in> set (dirty q)" for x
  proof -
    have "fst x \<in> dict_keys (dirty q)" using that by (simp add: dict_keys_def)
    then have "fst x \<in> set (map fst kvs)" using all keys by simp
    then obtain y where y: "y \<in> set kvs" "fst y = fst x" by auto
    have "dict_get (dirty q) (fst x) = Some (snd x)" using that ok by simp
    then have "y = x" using all y by (metis option.inject prod_eqI)
    with y show ?thesis by simp
  qed
  with 1 have "set kvs = set (dirty q)" by blast
  moreover have "dict_keys (dirty q') = {}" using all keys by simp
  ultimately show ?thesis
    using all inv by (simp add: wq_inv_def wq_empty_def dict_keys_def)
qed

theorem work_queue_drain_delivers_all_witness:
  "map fst [(''a'', 2), (''b'', 7 :: nat)] = queue (snd wq_example) \<and>
   set [(''a'', 2), (''b'', 7 :: nat)] = set (dirty (snd wq_example))"
proof -
  obtain q' where "wq_drain (length (queue (snd wq_example))) (snd wq_example) =
      ([(''a'', 2), (''b'', 7)], q')"
    by (simp add: wq_example_simps wq_get_def numeral_2_eq_2)
  moreover have "wq_reachable ({}, snd wq_example)"
    using wq_example_reachable by (simp flip: wq_example_simps(1))
  ultimately show ?thesis using work_queue_drain_delivers_all by blast
qed

text \<open>
  When the work on a key is reported as done and a newer value arrived meanwhile, the
  key is put back at the end of the queue with that value; otherwise it is forgotten.
\<close>

theorem work_queue_done_requeues:
  assumes "wq_reachable (P, q)" and "k \<in> P"
  shows "queue (wq_done k q) = queue q @ (if k \<in> dict_keys (dirty q) then [k] else []) \<and>
    dirty (wq_done k q) = dirty q \<and>
    (k \<in> active (wq_done k q) \<longleftrightarrow> k \<in> dict_keys (dirty q)) \<and> distinct (queue (wq_done k q))"
proof -
  have inv: "wq_inv P q" using wq_reachable_inv [OF assms(1)] by simp
  have "distinct (queue (wq_done k q))"
    using wq_inv_done [OF inv assms(2)] by (simp add: wq_inv_def)
  then show ?thesis by (auto simp: wq_done_def Let_def add_key_to_queue_def)
qed

definition wq_busy :: "(string, nat) work_queue" where
  "wq_busy = wq_put ''a'' 3 None
     (snd wq_example\<lparr>queue := [''b''], dirty := dict_del ''a'' (dirty (snd wq_example))\<rparr>)"

lemma wq_example_get:
  "wq_get (snd wq_example) = Some (Inr (''a'', 2),
     snd wq_example\<lparr>queue := [''b''], dirty := dict_del ''a'' (dirty (snd wq_example))\<rparr>)"
  by (simp add: wq_example_simps wq_get_def)

lemma wq_busy_reachable: "wq_reachable ({''a''}, wq_busy)"
proof -
  have "wq_reachable ({}, snd wq_example)"
    using wq_example_reachable by (simp flip: wq_example_simps(1))
  then show ?thesis
    unfolding wq_busy_def
    using reach_step [OF reach_step [OF _ step_get [OF wq_example_get]] step_put] by blast
qed

theorem work_queue_done_requeues_witness:
  "queue (wq_done ''a'' wq_busy) =
     queue wq_busy @ (if ''a'' \<in> dict_keys (dirty wq_busy) then [''a''] else [])"
  using work_queue_done_requeues [OF wq_busy_reachable, of "''a''"] by blast

text \<open>
  In a pool of any number of workers over the queue, with puts, timers and
  cancellations at any time, no two workers ever work on the same key.
\<close>

theorem work_queue_pool_exclusive:
  assumes "pool_reachable wq_got wq_done wq_env (wq_init deb) (w, q)"
    and "w i = Some (k, v)" and "w j = Some (k, v')"
  shows "i = j"
  using wq.pool_reachable_exclusive [OF assms(1)] assms(2,3)
  by (auto simp: pool_exclusive_def)

theorem work_queue_pool_exclusive_witness:
  "\<exists>w q. pool_reachable wq_got wq_done wq_env (wq_init 0) (w, q) \<and>
     w 0 = Some (''a'', 1 :: nat) \<and> (\<forall>i v. w i = Some (''a'', v) \<longrightarrow> i = 0)"
proof -
  let ?q1 = "wq_put ''a'' (1 :: nat) None (wq_init 0)"
  let ?q2 = "?q1\<lparr>queue := [], dirty := []\<rparr>"
  have "wq_env (wq_init 0) ?q1"
    unfolding wq_env_def by (rule exI [of _ "Put ''a'' 1 None"]) (simp add: step_put)
  then have 1: "pool_reachable wq_got wq_done wq_env (wq_init 0) (\<lambda>_. None, ?q1)"
    by (rule pool_more [OF pool_start pool_env])
  have "wq_got ?q1 ((''a'', 1), ?q2)"
    by (simp add: wq_got_def wq_get_def wq_put_def wq_init_def put_key_def add_key_to_queue_def)
  then have 2: "pool_reachable wq_got wq_done wq_env (wq_init 0)
      ((\<lambda>_. None)(0 \<mapsto> (''a'', 1)), ?q2)"
    by (intro pool_more [OF 1 pool_take]) simp_all
  let ?w = "(\<lambda>_. None)(0 \<mapsto> (''a'', 1 :: nat)) :: (string, nat) pool"
  have w0: "?w 0 = Some (''a'', 1)" by simp
  then have "\<forall>i v. ?w i = Some (''a'', v) \<longrightarrow> i = 0"
    using work_queue_pool_exclusive [OF 2] by blast
  with 2 w0 show ?thesis by blast
qed

text \<open>
  While no put with a delay overtakes a waiting put of the same key, the timers are
  sound: there is at most one debounce coroutine per key, it is the registered one, and no
  done callback raises.
\<close>

theorem work_queue_timers_sound:
  assumes "wq_serial (P, q)"
  shows "callback_errors q = [] \<and>
    (\<forall>t t' task task'. dict_get (tasks q) t = Some task \<longrightarrow> dict_get (tasks q) t' = Some task' \<longrightarrow>
       task_key task = task_key task' \<longrightarrow> t = t') \<and>
    (\<forall>t task. dict_get (tasks q) t = Some task \<longrightarrow> dict_get (timers q) (task_key task) = Some t)"
proof -
  have inv: "timers_inv q" using wq_serial_timers_inv [OF assms] by simp
  then show ?thesis
    using timers_inv_registered [OF inv] by (auto simp: timers_inv_def) (metis option.inject)
qed

lemma wq_serial_example:
  "wq_serial ({}, wq_put ''a'' (2 :: nat) (Some 1) (wq_put ''a'' 1 (Some 1) (wq_init 0)))"
proof -
  have "wq_serial ({}, wq_put ''a'' (1 :: nat) (Some 1) (wq_init 0))"
    by (rule serial_step [OF serial_init _ step_put]) (simp add: waiting_keys_def wq_init_def)
  then show ?thesis
    by (rule serial_step [OF _ _ step_put])
      (simp add: waiting_keys_def wq_init_def wq_put_def start_timer_def)
qed

theorem work_queue_timers_sound_witness:
  "callback_errors (wq_put ''a'' (2 :: nat) (Some 1) (wq_put ''a'' 1 (Some 1) (wq_init 0))) = []"
  using work_queue_timers_sound [OF wq_serial_example] by blast

lemma wq_run_simps:
  "wq_run (P, q) (Put k v d # es) s' \<longleftrightarrow> wq_run (P, wq_put k v d q) es s'"
  "wq_run (P, q) (Resume w # es) s' \<longleftrightarrow>
     w \<in> set (waiters q) \<and> fst w \<in> resolved q \<and> wq_run (P, put_resume w q) es s'"
  "wq_run (P, q) (Fire t # es) s' \<longleftrightarrow>
     (\<exists>task. dict_get (tasks q) t = Some task \<and> task_status task = Sleeping) \<and>
     wq_run (P, timer_fire t q) es s'"
  "wq_run (P, q) (Cancelled t # es) s' \<longleftrightarrow>
     (\<exists>task. dict_get (tasks q) t = Some task \<and> task_status task = Cancelling) \<and>
     wq_run (P, timer_cancelled t q) es s'"
  "wq_run (P, q) (Callback t # es) s' \<longleftrightarrow>
     (\<exists>task. dict_get (tasks q) t = Some task \<and> task_status task = Finished) \<and>
     wq_run (P, remove_timer t q) es s'"
  by (auto simp: wq_step_simps)

text \<open>
  Without that discipline they are not: when two puts with a delay for the same key wait
  for the same timer, both start a timer, the first to end removes the entry of the other,
  and the callback of the other raises \<open>KeyError\<close>.
\<close>

theorem work_queue_timers_race:
  "\<exists>s :: string set \<times> (string, nat) work_queue.
     wq_run ({}, wq_init 1)
       [Put ''a'' 1 None, Put ''a'' 2 None, Put ''a'' 3 None, Cancelled 0, Callback 0,
        Resume (0, ''a'', 2), Resume (0, ''a'', 3), Fire 1, Callback 1, Fire 2, Callback 2] s \<and>
     callback_errors (snd s) = [2]"
  by (simp add: wq_run_simps wq_put_def wq_init_def start_timer_def cancel_task_def
      set_status_def timer_cancelled_def remove_timer_def put_resume_def timer_fire_def
      put_key_def add_key_to_queue_def del: wq_run.simps(2))

end
