(* ===== verification/Dependency_Graph.thy ===== *)
theory Dependency_Graph
  imports Krake_Data
begin

text \<open>
  The graph of owners and dependents of the garbage collector, class \<open>DependencyGraph\<close> of
  \<open>krake/krake/controller/gc.py\<close>. The graph maps a resource to the list of its dependents;
  it is a \<open>defaultdict(list)\<close>, so reading a missing key stores an empty list (\<open>touch\<close>).
  An exception is part of the result, together with the graph as the code leaves it.
\<close>

section \<open>State and operations\<close>

type_synonym 'r graph = "('r, 'r list) dict"

definition dependents :: "'r graph \<Rightarrow> 'r \<Rightarrow> 'r list" where
  "dependents g r = (case dict_get g r of None \<Rightarrow> [] | Some ds \<Rightarrow> ds)"

definition touch :: "'r graph \<Rightarrow> 'r \<Rightarrow> 'r graph" where
  "touch g r = dict_set r (dependents g r) g"

definition get_direct_dependents :: "'r graph \<Rightarrow> 'r \<Rightarrow> 'r list \<times> 'r graph" where
  "get_direct_dependents g r = (dependents g r, touch g r)"

text \<open>
  \<open>_check_for_cycles\<close>: the recursion over the dependents of a list of references, with the
  one set \<open>visited\<close> that all calls share. The result tells whether
  \<open>DependencyCycleException\<close> was raised, the graph, and the visited references.
\<close>

definition nodes :: "'r graph \<Rightarrow> 'r set" where
  "nodes g = dict_keys g \<union> (\<Union>ds \<in> snd ` set g. set ds)"

lemma finite_nodes [simp]: "finite (nodes g)"
  by (simp add: nodes_def)

lemma dependents_nodes: "set (dependents g r) \<subseteq> nodes g"
proof (cases "dict_get g r")
  case (Some ds)
  then have "(r, ds) \<in> set g" by (rule map_of_SomeD)
  with Some show ?thesis by (force simp: dependents_def nodes_def)
qed (simp add: dependents_def)

lemma dependents_touch [simp]: "dependents (touch g r) x = dependents g x"
  by (simp add: dependents_def touch_def)

lemma set_dict_set_subset: "set (dict_set k v d) \<subseteq> insert (k, v) (set d)"
  by (induction d) auto

lemma nodes_dict_set: "nodes (dict_set k ds g) \<subseteq> nodes g \<union> insert k (set ds)"
  using set_dict_set_subset [of k ds g] by (fastforce simp: nodes_def dict_keys_def)

lemma nodes_touch: "nodes (touch g r) \<subseteq> insert r (nodes g)"
  using nodes_dict_set [of r "dependents g r" g] dependents_nodes [of g r]
  by (auto simp: touch_def)

function check_list :: "'r graph \<Rightarrow> 'r list \<Rightarrow> 'r list \<Rightarrow> bool \<times> 'r graph \<times> 'r list" where
  "check_list g [] visited = (False, g, visited)"
| "check_list g (r # rs) visited =
     (if r \<in> set visited then (True, g, visited)
      else let g' = touch g r
           in case check_list g' (dependents g' r) (visited @ [r]) of
                (True, g'', visited') \<Rightarrow> (True, g'', visited')
              | (False, g'', visited') \<Rightarrow> check_list g'' rs visited')"
  by pat_completeness auto

lemma check_list_grows:
  assumes "check_list_dom (g, rs, visited)"
  shows "nodes (fst (snd (check_list g rs visited))) \<subseteq> nodes g \<union> set rs \<and>
    set visited \<subseteq> set (snd (snd (check_list g rs visited)))"
  using assms
proof (induction g rs visited rule: check_list.pinduct)
  case (2 g r rs visited)
  show ?case
  proof (cases "r \<in> set visited")
    case False
    obtain b g'' vis' where rec:
      "check_list (touch g r) (dependents (touch g r) r) (visited @ [r]) = (b, g'', vis')"
      by (metis prod_cases3)
    have IH1: "nodes g'' \<subseteq> nodes (touch g r) \<union> set (dependents g r)"
      "set (visited @ [r]) \<subseteq> set vis'"
      using "2.IH"(1) [OF False refl] rec by auto
    have sub: "nodes g'' \<subseteq> insert r (nodes g)"
      using IH1(1) nodes_touch [of g r] dependents_nodes [of g r] by blast
    show ?thesis
    proof (cases b)
      case True
      then show ?thesis using "2.hyps" False rec sub IH1 by (auto simp: check_list.psimps)
    next
      case b: False
      have "nodes (fst (snd (check_list g'' rs vis'))) \<subseteq> nodes g'' \<union> set rs \<and>
          set vis' \<subseteq> set (snd (snd (check_list g'' rs vis')))"
        using "2.IH"(2) [OF False refl rec [symmetric] _ refl] b by simp
      then show ?thesis using "2.hyps" False rec b sub IH1 by (auto simp: check_list.psimps)
    qed
  qed (use "2.hyps" in \<open>auto simp: check_list.psimps\<close>)
qed (simp add: check_list.psimps)

termination check_list
proof (relation "inv_image (less_than <*lex*> less_than)
    (\<lambda>(g, rs, visited). (card ((nodes g \<union> set rs) - set visited), length rs))", goal_cases)
  case (2 g r rs visited g')
  have "nodes g' \<union> set (dependents g' r) \<subseteq> nodes g \<union> set (r # rs)"
    using nodes_touch [of g r] dependents_nodes [of g r] 2(2) by auto
  then have "(nodes g' \<union> set (dependents g' r)) - set (visited @ [r])
      \<subset> (nodes g \<union> set (r # rs)) - set visited"
    using 2(1) by auto
  then show ?case by (auto intro: psubset_card_mono)
next
  case (3 g r rs visited g' b y g'' visited')
  have grows: "nodes g'' \<subseteq> nodes g' \<union> set (dependents g' r)" "set (visited @ [r]) \<subseteq> set visited'"
    using check_list_grows [OF 3(6)] 3(3,4,5) by (auto simp: prod_eq_iff)
  have "nodes g'' \<subseteq> insert r (nodes g)"
    using grows(1) nodes_touch [of g r] dependents_nodes [of g r] 3(2) by auto
  then have "(nodes g'' \<union> set rs) - set visited' \<subset> (nodes g \<union> set (r # rs)) - set visited"
    using 3(1) grows(2) by auto
  then show ?case by (auto intro: psubset_card_mono)
qed auto

datatype 'r graph_error =
    DependencyCycle "'r list"
  | ResourceWithDependents "'r list"

definition check_for_cycles :: "'r \<Rightarrow> 'r graph \<Rightarrow> 'r graph_error option \<times> 'r graph" where
  "check_for_cycles r g =
     (case check_list g [r] [] of
        (raised, g', visited) \<Rightarrow> (if raised then Some (DependencyCycle visited) else None, g'))"

fun add_to_owners :: "'r \<Rightarrow> 'r list \<Rightarrow> 'r graph \<Rightarrow> 'r graph" where
  "add_to_owners r [] g = g"
| "add_to_owners r (o' # os) g =
     (let g' = touch g o'
      in add_to_owners r os
           (if r \<notin> set (dependents g' o') then dict_set o' (dependents g' o' @ [r]) g' else g'))"

definition add_resource ::
  "'r \<Rightarrow> 'r list \<Rightarrow> bool \<Rightarrow> 'r graph \<Rightarrow> 'r graph_error option \<times> 'r graph" where
  "add_resource r os check_cycles g =
     (let g' = add_to_owners r os g
      in if check_cycles then check_for_cycles r g' else (None, g'))"

definition remove_resource ::
  "'r \<Rightarrow> bool \<Rightarrow> 'r graph \<Rightarrow> 'r graph_error option \<times> 'r graph" where
  "remove_resource r check_dependents g =
     (let (existing, g') = get_direct_dependents g r
      in if check_dependents \<and> existing \<noteq> [] then (Some (ResourceWithDependents existing), g')
         else (None, map (\<lambda>(k, ds). (k, if r \<in> set ds then remove1 r ds else ds)) (dict_del r g')))"

definition update_resource ::
  "'r \<Rightarrow> 'r list \<Rightarrow> 'r graph \<Rightarrow> 'r graph_error option \<times> 'r graph" where
  "update_resource r os g =
     (let (ds, g1) = get_direct_dependents g r;
          (_, g2) = remove_resource r False g1;
          (_, g3) = add_resource r os False g2
      in check_for_cycles r (dict_set r ds g3))"

section \<open>Edges and well-formedness\<close>

definition edges :: "'r graph \<Rightarrow> ('r \<times> 'r) set" where
  "edges g = {(a, b). b \<in> set (dependents g a)}"

definition graph_ok :: "'r graph \<Rightarrow> bool" where
  "graph_ok g \<longleftrightarrow> dict_ok g \<and> (\<forall>r. distinct (dependents g r))"

lemma edges_empty [simp]: "edges [] = {}"
  by (simp add: edges_def dependents_def)

lemma graph_ok_empty: "graph_ok []"
  by (simp add: graph_ok_def dependents_def)

lemma dependents_dict_set [simp]:
  "dependents (dict_set k ds g) x = (if x = k then ds else dependents g x)"
  by (simp add: dependents_def)

lemma dependents_Nil_iff: "dependents g r = [] \<longleftrightarrow> (\<forall>x. (r, x) \<notin> edges g)"
  by (cases "dependents g r") (auto simp: edges_def)

lemma edges_touch [simp]: "edges (touch g r) = edges g"
  by (simp add: edges_def)

lemma graph_ok_touch [simp]: "graph_ok g \<Longrightarrow> graph_ok (touch g r)"
  by (simp add: graph_ok_def) (simp add: touch_def dict_ok_set)

lemma graph_ok_dict_set: "graph_ok g \<Longrightarrow> distinct ds \<Longrightarrow> graph_ok (dict_set k ds g)"
  by (simp add: graph_ok_def dict_ok_set)

lemma check_list_dependents:
  "dependents (fst (snd (check_list g rs visited))) = dependents g"
proof (induction g rs visited rule: check_list.induct)
  case (2 g r rs visited)
  have eq: "dependents (touch g r) = dependents g" by (rule ext) simp
  show ?case using 2 by (auto simp: eq Let_def split: prod.split bool.split)
qed simp

lemma check_list_graph_ok:
  "graph_ok g \<Longrightarrow> graph_ok (fst (snd (check_list g rs visited)))"
proof (induction g rs visited rule: check_list.induct)
  case (2 g r rs visited)
  then show ?case by (auto simp: Let_def split: prod.split bool.split)
qed simp

lemma check_for_cycles_graph:
  "dependents (snd (check_for_cycles r g)) = dependents g"
  "graph_ok g \<Longrightarrow> graph_ok (snd (check_for_cycles r g))"
  using check_list_dependents [of g "[r]" "[]"] check_list_graph_ok [of g "[r]" "[]"]
  by (auto simp: check_for_cycles_def split: prod.splits)

lemma edges_check_for_cycles [simp]: "edges (snd (check_for_cycles r g)) = edges g"
  by (simp add: edges_def check_for_cycles_graph)

lemma edges_add_to_owners:
  "edges (add_to_owners r os g) = edges g \<union> {(o', r) | o'. o' \<in> set os}"
proof (induction os arbitrary: g)
  case (Cons o' os)
  have "edges (if r \<notin> set (dependents g o') then dict_set o' (dependents g o' @ [r]) (touch g o')
      else touch g o') = insert (o', r) (edges g)"
    by (auto simp: edges_def split: if_splits)
  with Cons show ?case by (auto simp: Let_def)
qed simp

lemma graph_ok_add_to_owners: "graph_ok g \<Longrightarrow> graph_ok (add_to_owners r os g)"
proof (induction os arbitrary: g)
  case (Cons o' os)
  have "distinct (dependents g o')" using Cons.prems by (simp add: graph_ok_def)
  then have "graph_ok (if r \<notin> set (dependents g o') then dict_set o' (dependents g o' @ [r]) (touch g o')
      else touch g o')"
    using Cons.prems by (simp add: graph_ok_dict_set)
  then show ?case using Cons.IH by (simp add: Let_def split: if_splits)
qed simp

lemma dependents_remove_resource:
  "dependents (snd (remove_resource r False g)) x =
     (if x = r then [] else remove1 r (dependents g x))"
proof -
  let ?f = "\<lambda>ds. if r \<in> set ds then remove1 r ds else ds"
  have f: "?f ds = remove1 r ds" for ds by (simp add: remove1_idem)
  have "dict_get (snd (remove_resource r False g)) x = map_option ?f (dict_get (dict_del r (touch g r)) x)"
    by (simp only: remove_resource_def get_direct_dependents_def Let_def prod.case snd_conv
        dict_get_map_snd simp_thms if_False)
  then show ?thesis
    unfolding dependents_def f by (cases "dict_get g x") (simp_all add: touch_def)
qed

lemma graph_ok_remove_resource:
  assumes "graph_ok g" shows "graph_ok (snd (remove_resource r c g))"
proof -
  have "graph_ok (snd (remove_resource r False g))"
  proof -
    have "map fst (snd (remove_resource r False g)) = map fst (dict_del r (touch g r))"
      by (auto simp: remove_resource_def get_direct_dependents_def)
    moreover have "dict_ok (dict_del r (touch g r))"
      using graph_ok_touch [OF assms] by (auto simp: graph_ok_def)
    ultimately show ?thesis
      using assms by (simp add: graph_ok_def dependents_remove_resource)
  qed
  with assms show ?thesis
    by (auto simp: remove_resource_def get_direct_dependents_def split: if_splits)
qed

lemma edges_remove_resource:
  assumes "graph_ok g"
  shows "edges (snd (remove_resource r False g)) = {(a, b) \<in> edges g. a \<noteq> r \<and> b \<noteq> r}"
  using assms by (auto simp: edges_def graph_ok_def dependents_remove_resource split: if_splits)

lemma edges_update_resource:
  assumes "graph_ok g"
  shows "edges (snd (update_resource r os g)) =
    {(a, b) \<in> edges g. b \<noteq> r \<or> a = r} \<union> {(o', r) | o'. o' \<in> set os \<and> o' \<noteq> r}"
proof -
  let ?g2 = "snd (remove_resource r False (touch g r))"
  let ?g3 = "add_to_owners r os ?g2"
  have "edges (snd (update_resource r os g)) = edges (dict_set r (dependents g r) ?g3)"
    by (simp add: update_resource_def get_direct_dependents_def add_resource_def split: prod.split)
  also have "\<dots> = {(a, b). if a = r then (r, b) \<in> edges g else (a, b) \<in> edges ?g3}"
    by (auto simp: edges_def split: if_splits)
  also have "edges ?g3 = {(a, b) \<in> edges g. a \<noteq> r \<and> b \<noteq> r} \<union> {(o', r) | o'. o' \<in> set os}"
    by (simp add: edges_add_to_owners edges_remove_resource [OF graph_ok_touch [OF assms]])
  finally show ?thesis by auto
qed

lemma graph_ok_add_resource: "graph_ok g \<Longrightarrow> graph_ok (snd (add_resource r os c g))"
  by (simp add: add_resource_def graph_ok_add_to_owners check_for_cycles_graph Let_def)

lemma graph_ok_update_resource:
  assumes "graph_ok g" shows "graph_ok (snd (update_resource r os g))"
proof -
  have "distinct (dependents g r)" using assms by (simp add: graph_ok_def)
  then show ?thesis
    using graph_ok_add_to_owners [OF graph_ok_remove_resource [OF graph_ok_touch [OF assms]]]
    by (simp add: update_resource_def get_direct_dependents_def add_resource_def
        check_for_cycles_graph graph_ok_dict_set case_prod_beta)
qed

section \<open>Correctness of the cycle check\<close>

text \<open>
  A check that raises nothing has listed the references in an order in which every
  dependent of a reference stands after it, so there is no cycle among them; and it has
  listed exactly what can be reached.
\<close>

fun later :: "'r graph \<Rightarrow> 'r list \<Rightarrow> bool" where
  "later g [] \<longleftrightarrow> True"
| "later g (x # xs) \<longleftrightarrow> set (dependents g x) \<subseteq> set xs \<and> later g xs"

lemma later_append: "later g xs \<Longrightarrow> later g ys \<Longrightarrow> later g (xs @ ys)"
  by (induction xs) auto

lemma later_appendD: "later g (xs @ ys) \<Longrightarrow> later g ys"
  by (induction xs) auto

lemma later_step: "later g xs \<Longrightarrow> x \<in> set xs \<Longrightarrow> (x, y) \<in> edges g \<Longrightarrow> y \<in> set xs"
  by (induction xs) (auto simp: edges_def)

lemma later_cong: "dependents g' = dependents g \<Longrightarrow> later g' xs = later g xs"
  by (induction xs) auto

lemma check_list_success:
  assumes "check_list g rs visited = (False, g', visited')" and "distinct visited"
  shows "\<exists>new. visited' = visited @ new \<and> distinct visited' \<and> set rs \<subseteq> set new \<and>
    later g new \<and> set new \<subseteq> (edges g)\<^sup>* `` set rs"
  using assms
proof (induction g rs visited arbitrary: g' visited' rule: check_list.induct)
  case (2 g r rs visited)
  from "2.prems"(1) have r: "r \<notin> set visited" by (auto split: if_splits)
  obtain g1 v1 where c1:
    "check_list (touch g r) (dependents g r) (visited @ [r]) = (False, g1, v1)"
    "check_list g1 rs v1 = (False, g', visited')"
    using "2.prems"(1) r by (auto simp: Let_def split: prod.splits bool.splits)
  have eq: "dependents g1 = dependents g"
    using check_list_dependents [of "touch g r" "dependents g r" "visited @ [r]"] c1(1)
    by (simp add: fun_eq_iff)
  then have later_eq: "later g1 = later g" and edges_eq: "edges g1 = edges g"
    and later_touch: "later (touch g r) = later g"
    by (auto simp: edges_def fun_eq_iff intro!: later_cong)
  from "2.IH"(1) [OF r refl, of g1 v1] c1(1) r "2.prems"(2) obtain n1 where
    n1: "v1 = visited @ r # n1" "distinct v1" "set (dependents g r) \<subseteq> set n1" "later g n1"
      "set n1 \<subseteq> (edges g)\<^sup>* `` set (dependents g r)"
    by (auto simp: later_touch)
  from "2.IH"(2) [OF r refl c1(1) [symmetric, folded dependents_touch [of g r r]] _ refl c1(2) n1(2)]
  obtain n2 where
    n2: "visited' = v1 @ n2" "distinct visited'" "set rs \<subseteq> set n2" "later g n2"
      "set n2 \<subseteq> (edges g)\<^sup>* `` set rs"
    by (auto simp: later_eq edges_eq)
  have "(edges g)\<^sup>* `` set (dependents g r) \<subseteq> (edges g)\<^sup>* `` {r}"
    by (auto simp: edges_def intro: converse_rtrancl_into_rtrancl)
  then have "set n1 \<subseteq> (edges g)\<^sup>* `` {r}" using n1(5) by (rule subset_trans [rotated])
  then have reach: "set (r # n1 @ n2) \<subseteq> (edges g)\<^sup>* `` set (r # rs)" using n2(5) by auto
  have "later g (r # n1 @ n2)" using n1(3,4) n2(4) by (auto intro: later_append)
  moreover have "visited' = visited @ (r # n1 @ n2)" using n1(1) n2(1) by simp
  moreover have "set (r # rs) \<subseteq> set (r # n1 @ n2)" using n2(3) by auto
  ultimately show ?case using n2(2) reach by blast
qed simp

lemma later_closed:
  assumes "later g xs" "x \<in> set xs" "(x, y) \<in> (edges g)\<^sup>*"
  shows "y \<in> set xs"
  using assms(3,2) by (induction rule: rtrancl_induct) (auto intro: later_step [OF assms(1)])

lemma later_no_return:
  assumes "later g (as @ x # bs)" "(x, y) \<in> (edges g)\<^sup>+"
  shows "y \<in> set bs"
proof -
  have later_bs: "later g bs" "set (dependents g x) \<subseteq> set bs"
    using later_appendD [OF assms(1)] by auto
  from assms(2) obtain z where z: "(x, z) \<in> edges g" "(z, y) \<in> (edges g)\<^sup>*"
    by (meson tranclD)
  then have "z \<in> set bs" using later_bs(2) by (auto simp: edges_def)
  then show ?thesis using later_closed [OF later_bs(1) _ z(2)] by blast
qed

lemma check_for_cycles_success:
  assumes "check_for_cycles r g = (None, g')"
  shows "(r, x) \<in> (edges g)\<^sup>* \<Longrightarrow> (x, x) \<notin> (edges g)\<^sup>+"
proof
  assume rx: "(r, x) \<in> (edges g)\<^sup>*" and xx: "(x, x) \<in> (edges g)\<^sup>+"
  obtain visited where "check_list g [r] [] = (False, g', visited)"
    using assms by (auto simp: check_for_cycles_def split: prod.splits if_splits)
  from check_list_success [OF this] have
    v: "distinct visited" "r \<in> set visited" "later g visited" by auto
  have "x \<in> set visited" using later_closed [OF v(3,2) rx] .
  then obtain as bs where xs: "visited = as @ x # bs" by (metis split_list)
  then have "x \<in> set bs" using later_no_return [of g as x bs x] v(3) xx by simp
  with v(1) xs show False by simp
qed

subsection \<open>Exactness when every resource has one owner\<close>

definition single_owner :: "'r graph \<Rightarrow> bool" where
  "single_owner g \<longleftrightarrow> (\<forall>a b x. (a, x) \<in> edges g \<longrightarrow> (b, x) \<in> edges g \<longrightarrow> a = b)"

lemma single_owner_comparable:
  assumes "single_owner g" "(a, x) \<in> (edges g)\<^sup>*" "(b, x) \<in> (edges g)\<^sup>*"
  shows "(a, b) \<in> (edges g)\<^sup>* \<or> (b, a) \<in> (edges g)\<^sup>*"
  using assms(2,3)
proof (induction arbitrary: b rule: rtrancl_induct)
  case (step y z)
  show ?case
  proof (cases "b = z")
    case True
    then show ?thesis using step.hyps by (meson rtrancl.rtrancl_into_rtrancl)
  next
    case False
    then obtain y' where y': "(b, y') \<in> (edges g)\<^sup>*" "(y', z) \<in> edges g"
      using step.prems by (meson rtranclE)
    then have "y' = y" using step.hyps(2) assms(1) unfolding single_owner_def by blast
    then show ?thesis using step.IH y'(1) by blast
  qed
qed blast

text \<open>The references still to visit: apart from each other and from the visited ones.\<close>

definition apart :: "'r graph \<Rightarrow> 'r list \<Rightarrow> 'r list \<Rightarrow> bool" where
  "apart g rs visited \<longleftrightarrow> distinct rs \<and>
     (\<forall>a \<in> set rs. \<forall>b \<in> set rs. a \<noteq> b \<longrightarrow> (a, b) \<notin> (edges g)\<^sup>*) \<and>
     (\<forall>a \<in> set rs. \<forall>v \<in> set visited. (a, v) \<notin> (edges g)\<^sup>*) \<and>
     (\<forall>a \<in> set rs. \<forall>x. (a, x) \<in> (edges g)\<^sup>* \<longrightarrow> (x, x) \<notin> (edges g)\<^sup>+)"

lemma apart_dependents:
  assumes so: "single_owner g" and ok: "graph_ok g" and ap: "apart g (r # rs) visited"
  shows "apart g (dependents g r) (visited @ [r])"
proof -
  have step: "d \<in> set (dependents g r) \<Longrightarrow> (r, d) \<in> edges g" for d by (simp add: edges_def)
  have acyc: "(r, r) \<notin> (edges g)\<^sup>+" using ap by (auto simp: apart_def)
  have noback: "(d, r) \<notin> (edges g)\<^sup>*" if "d \<in> set (dependents g r)" for d
    using step [OF that] acyc by (meson rtrancl_into_trancl2)
  have "(a, b) \<notin> (edges g)\<^sup>*"
    if a: "a \<in> set (dependents g r)" and b: "b \<in> set (dependents g r)" and "a \<noteq> b" for a b
  proof
    assume "(a, b) \<in> (edges g)\<^sup>*"
    then obtain p where p: "(a, p) \<in> (edges g)\<^sup>*" "(p, b) \<in> edges g"
      using \<open>a \<noteq> b\<close> by (meson rtranclE)
    then have "p = r" using step [OF b] so unfolding single_owner_def by blast
    with p noback [OF a] show False by simp
  qed
  moreover have "(d, v) \<notin> (edges g)\<^sup>*" if "d \<in> set (dependents g r)" "v \<in> set visited" for d v
    using step [OF that(1)] ap that(2) unfolding apart_def
    by (metis converse_rtrancl_into_rtrancl list.set_intros(1))
  moreover have "(x, x) \<notin> (edges g)\<^sup>+" if "d \<in> set (dependents g r)" "(d, x) \<in> (edges g)\<^sup>*" for d x
    using step [OF that(1)] ap that(2) unfolding apart_def
    by (metis converse_rtrancl_into_rtrancl list.set_intros(1))
  ultimately show ?thesis using ok noback by (auto simp: apart_def graph_ok_def)
qed

lemma apart_rest:
  assumes so: "single_owner g" and ap: "apart g (r # rs) visited"
    and new: "set new \<subseteq> (edges g)\<^sup>* `` {r}"
  shows "apart g rs (visited @ r # new)"
proof -
  have ne: "a \<noteq> r" "(a, r) \<notin> (edges g)\<^sup>*" "(r, a) \<notin> (edges g)\<^sup>*" if "a \<in> set rs" for a
    using ap that by (auto simp: apart_def)
  have "(a, v) \<notin> (edges g)\<^sup>*" if "a \<in> set rs" "v \<in> set new" for a v
    using single_owner_comparable [OF so, of a v r] ne [OF that(1)] new that(2) by blast
  with ap ne show ?thesis by (auto simp: apart_def)
qed

lemma check_list_no_raise:
  assumes "single_owner g" "graph_ok g" "apart g rs visited" "distinct visited"
  shows "\<not> fst (check_list g rs visited)"
  using assms
proof (induction g rs visited rule: check_list.induct)
  case (2 g r rs visited)
  have r: "r \<notin> set visited" using "2.prems"(3) by (auto simp: apart_def)
  have touch: "single_owner (touch g r)" "graph_ok (touch g r)"
    "apart (touch g r) = apart g"
    using "2.prems" by (simp_all add: single_owner_def apart_def fun_eq_iff)
  obtain b g1 v1 where
    c1: "check_list (touch g r) (dependents (touch g r) r) (visited @ [r]) = (b, g1, v1)"
    by (metis prod_cases3)
  have "\<not> b"
    using "2.IH"(1) [OF r refl] touch apart_dependents [OF "2.prems"(1,2,3)] "2.prems"(4) r c1 by simp
  then have b: "b = False" by simp
  obtain n1 where n1: "v1 = visited @ r # n1" "distinct v1"
    "set n1 \<subseteq> (edges g)\<^sup>* `` set (dependents g r)"
    using check_list_success [OF c1 [unfolded b]] "2.prems"(4) r by auto
  have "set n1 \<subseteq> (edges g)\<^sup>* `` {r}"
    using n1(3) by (auto simp: edges_def intro: converse_rtrancl_into_rtrancl)
  then have ap: "apart g rs v1" using apart_rest [OF "2.prems"(1,3)] n1(1) by simp
  have ok: "graph_ok g1"
    using check_list_graph_ok [OF touch(2), of "dependents (touch g r) r" "visited @ [r]"]
    by (simp only: c1 fst_conv snd_conv)
  have "dependents g1 = dependents (touch g r)"
    using check_list_dependents [of "touch g r" "dependents (touch g r) r" "visited @ [r]"]
    by (simp only: c1 fst_conv snd_conv)
  then have "dependents g1 = dependents g" by (simp add: fun_eq_iff)
  then have "edges g1 = edges g" by (simp add: edges_def)
  then have "single_owner g1" "apart g1 rs v1"
    using "2.prems"(1) ap by (simp_all add: single_owner_def apart_def)
  then have "\<not> fst (check_list g1 rs v1)"
    using "2.IH"(2) [OF r refl c1 [symmetric] b refl] ok n1(2) by blast
  then show ?case using r c1 b by simp
qed simp

lemma check_for_cycles_exact:
  assumes "single_owner g" "graph_ok g"
  shows "fst (check_for_cycles r g) \<noteq> None \<longleftrightarrow>
    (\<exists>x. (r, x) \<in> (edges g)\<^sup>* \<and> (x, x) \<in> (edges g)\<^sup>+)"
proof
  assume raised: "fst (check_for_cycles r g) \<noteq> None"
  show "\<exists>x. (r, x) \<in> (edges g)\<^sup>* \<and> (x, x) \<in> (edges g)\<^sup>+"
  proof (rule ccontr)
    assume "\<nexists>x. (r, x) \<in> (edges g)\<^sup>* \<and> (x, x) \<in> (edges g)\<^sup>+"
    then have "apart g [r] []" by (auto simp: apart_def)
    then have "\<not> fst (check_list g [r] [])" using check_list_no_raise assms by force
    with raised show False by (auto simp: check_for_cycles_def split: prod.splits if_splits)
  qed
next
  assume "\<exists>x. (r, x) \<in> (edges g)\<^sup>* \<and> (x, x) \<in> (edges g)\<^sup>+"
  then show "fst (check_for_cycles r g) \<noteq> None"
    using check_for_cycles_success [of r g "snd (check_for_cycles r g)"] by (metis prod.collapse)
qed

section \<open>Properties\<close>

lemmas graph_ops =
  add_resource_def check_for_cycles_def touch_def dependents_def
  remove_resource_def update_resource_def get_direct_dependents_def

text \<open>
  When the cycle check raises nothing, no resource that depends on the checked one,
  directly or not, lies on a cycle.
\<close>

theorem cycle_check_sound:
  assumes "fst (check_for_cycles r g) = None" and "(r, x) \<in> (edges g)\<^sup>*"
  shows "(x, x) \<notin> (edges g)\<^sup>+"
  using check_for_cycles_success [of r g "snd (check_for_cycles r g)" x] assms
  by (metis prod.collapse)

theorem cycle_check_sound_witness:
  "(2, 2) \<notin> (edges [(1 :: nat, [2, 3]), (2, [4])])\<^sup>+"
proof (rule cycle_check_sound)
  show "fst (check_for_cycles 1 [(1 :: nat, [2, 3]), (2, [4])]) = None"
    by code_simp
  show "(1, 2) \<in> (edges [(1 :: nat, [2, 3]), (2, [4])])\<^sup>*"
    by (rule r_into_rtrancl) (simp add: edges_def dependents_def)
qed

text \<open>
  C33. Where no resource has two owners, the cycle check raises exactly when a cycle can be
  reached from the checked resource.
\<close>

theorem cycle_check_exact:
  assumes "single_owner g" and "graph_ok g"
  shows "fst (check_for_cycles r g) \<noteq> None \<longleftrightarrow>
    (\<exists>x. (r, x) \<in> (edges g)\<^sup>* \<and> (x, x) \<in> (edges g)\<^sup>+)"
  using assms by (rule check_for_cycles_exact)

theorem cycle_check_exact_witness:
  "\<exists>x. (1, x) \<in> (edges [(1 :: nat, [2]), (2, [1])])\<^sup>* \<and>
     (x, x) \<in> (edges [(1 :: nat, [2]), (2, [1])])\<^sup>+"
proof -
  let ?g = "[(1 :: nat, [2]), (2, [1])]"
  have so: "single_owner ?g"
    by (auto simp: single_owner_def edges_def dependents_def split: if_splits)
  have ok: "graph_ok ?g" by (simp add: graph_ok_def dependents_def)
  have "fst (check_for_cycles 1 ?g) \<noteq> None" by code_simp
  then show ?thesis by (rule cycle_check_exact [OF so ok, THEN iffD1])
qed

text \<open>
  With two owners it also raises without any cycle: the visited set is shared by all
  branches, so a resource that is reached on two ways counts as a cycle.
\<close>

theorem cycle_check_rejects_diamond:
  "acyclic (edges [(1 :: nat, [2, 3]), (2, [4]), (3, [4])]) \<and>
   fst (check_for_cycles 1 [(1 :: nat, [2, 3]), (2, [4]), (3, [4])]) =
     Some (DependencyCycle [1, 2, 4, 3])"
proof
  let ?g = "[(1 :: nat, [2, 3]), (2, [4]), (3, [4])]"
  have "edges ?g = {(1 :: nat, 2), (1, 3), (2, 4), (3, 4)}"
    by (auto simp: edges_def dependents_def split: if_splits)
  moreover have "acyclic {(1 :: nat, 2), (1, 3), (2, 4), (3, 4)}"
  proof (rule acyclic_subset)
    show "acyclic (converse (measure (\<lambda>x. if x = (1 :: nat) then 2 else if x = 4 then 0 else 1 :: nat)))"
      unfolding acyclic_converse by (rule wf_acyclic) (rule wf_measure)
  qed auto
  ultimately show "acyclic (edges ?g)" by simp
  show "fst (check_for_cycles 1 ?g) = Some (DependencyCycle [1, 2, 4, 3])"
    by code_simp
qed

text \<open>
  An update of a resource replaces exactly the edges from its owners: the resource keeps
  its dependents, has the given owners and no others, and no other edge changes.
\<close>

theorem update_resource_replaces_owners:
  assumes "graph_ok g" and "(r, r) \<notin> edges g" and "r \<notin> set os"
  shows "edges (snd (update_resource r os g)) =
      {(a, b) \<in> edges g. b \<noteq> r} \<union> {(o', r) | o'. o' \<in> set os} \<and>
    dependents (snd (update_resource r os g)) r = dependents g r \<and>
    graph_ok (snd (update_resource r os g))"
proof -
  have "dependents (snd (update_resource r os g)) r = dependents g r"
    by (simp add: update_resource_def get_direct_dependents_def check_for_cycles_graph
        add_resource_def case_prod_beta)
  then show ?thesis
    using assms by (auto simp: edges_update_resource graph_ok_update_resource)
qed

theorem update_resource_replaces_owners_witness:
  "edges (snd (update_resource 2 [3] [(1 :: nat, [2]), (2, [4])])) =
     {(2, 4), (3, 2)}"
proof -
  let ?g = "[(1 :: nat, [2]), (2, [4])]"
  have e: "edges ?g = {(1 :: nat, 2), (2, 4)}"
    by (auto simp: edges_def dependents_def split: if_splits)
  have "graph_ok ?g" by (simp add: graph_ok_def dependents_def)
  then show ?thesis
    using update_resource_replaces_owners [of ?g "2" "[3]"] e by auto
qed

text \<open>
  A checked removal fails exactly when the resource has dependents, and then changes no
  edge; otherwise the resource disappears from the graph, as an owner and as a dependent.
\<close>

theorem remove_resource_checked:
  assumes "graph_ok g"
  shows "(fst (remove_resource r True g) \<noteq> None \<longleftrightarrow> (\<exists>x. (r, x) \<in> edges g)) \<and>
    edges (snd (remove_resource r True g)) = {(a, b) \<in> edges g. b \<noteq> r \<or> (\<exists>x. (r, x) \<in> edges g)}"
proof (cases "dependents g r = []")
  case True
  then have "remove_resource r True g = remove_resource r False g"
    by (simp add: remove_resource_def get_direct_dependents_def)
  moreover have "fst (remove_resource r False g) = None"
    by (simp add: remove_resource_def get_direct_dependents_def)
  ultimately show ?thesis
    using True assms by (auto simp: edges_remove_resource dependents_Nil_iff)
next
  case False
  then have "remove_resource r True g = (Some (ResourceWithDependents (dependents g r)), touch g r)"
    by (simp add: remove_resource_def get_direct_dependents_def)
  with False show ?thesis by (auto simp: dependents_Nil_iff)
qed

theorem remove_resource_checked_witness:
  "fst (remove_resource 1 True [(1 :: nat, [2])]) \<noteq> None"
proof -
  have ok: "graph_ok [(1 :: nat, [2])]" by (simp add: graph_ok_def dependents_def)
  have "\<exists>x. (1, x) \<in> edges [(1 :: nat, [2])]" by (simp add: edges_def dependents_def)
  then show ?thesis by (rule remove_resource_checked [OF ok, THEN conjunct1, THEN iffD2])
qed

end
