(* ===== verification/Garbage_Collector.thy ===== *)
theory Garbage_Collector
  imports Work_Queue Dependency_Graph
begin

text \<open>
  The garbage collector, class \<open>GarbageCollector\<close> of \<open>krake/krake/controller/gc.py\<close>: the
  handlers of its reflectors, which keep the dependency graph and fill the work queue, and
  the work on one resource, which asks the API to delete the direct dependents or removes
  the finalizer \<open>cascade_deletion\<close>.

  The API is reached through clients: \<open>apis\<close> lists the pairs of API and kind that have one
  (a missing pair is the \<open>KeyError\<close> of \<open>self.apis[...]\<close>), \<open>read\<close> answers a read request,
  and \<open>perform\<close> tells for a delete or update request whether it fails. A handler returns
  the exception it ends with, if any, the requests it made, in order, and the new state.
\<close>

section \<open>State\<close>

datatype gc_call =
    Delete_call resource_ref
  | Update_call resource

record gc =
  gc_graph :: "resource_ref graph"
  gc_queue :: "(string, resource) work_queue"

type_synonym apis = "(string \<times> string) list"

definition get_namespace_as_kwargs :: "string option \<Rightarrow> string option" where
  "get_namespace_as_kwargs ns = (case ns of Some [] \<Rightarrow> None | _ \<Rightarrow> ns)"

text \<open>What a request names: the client passes the namespace only if it is not empty.\<close>

definition request_ref :: "resource_ref \<Rightarrow> resource_ref" where
  "request_ref r = r\<lparr>ref_namespace := get_namespace_as_kwargs (ref_namespace r)\<rparr>"

definition get_api_method :: "apis \<Rightarrow> string \<Rightarrow> string \<Rightarrow> (exn, unit) res" where
  "get_api_method apis a k = (if (a, k) \<in> set apis then Inr () else Inl KeyError)"

section \<open>The handlers of the reflectors\<close>

definition is_in_deletion :: "('a) resource_scheme \<Rightarrow> bool" where
  "is_in_deletion r \<longleftrightarrow>
     deleted (metadata r) \<noteq> None \<and> finalizers (metadata r) \<noteq> [] \<and>
     last (finalizers (metadata r)) = ''cascade_deletion''"

text \<open>\<open>Controller.simple_on_receive\<close>, for any kind of resource.\<close>

definition simple_on_receive ::
  "(('a) resource_scheme \<Rightarrow> bool) \<Rightarrow> ('a) resource_scheme \<Rightarrow>
   (string, ('a) resource_scheme) work_queue \<Rightarrow> (string, ('a) resource_scheme) work_queue" where
  "simple_on_receive condition r q =
     (if condition r then wq_put (uid (metadata r)) r None q else q)"

definition clean_cycle :: "resource_ref list \<Rightarrow> gc \<Rightarrow> gc" where
  "clean_cycle cycle s =
     s\<lparr>gc_graph := foldl (\<lambda>g r. snd (remove_resource r False g)) (gc_graph s) cycle\<rparr>"

definition after_graph_change ::
  "resource \<Rightarrow> gc \<Rightarrow> resource_ref graph_error option \<times> resource_ref graph \<Rightarrow>
   resource_ref graph_error option \<times> gc" where
  "after_graph_change r s out =
     (case out of
        (None, g) \<Rightarrow>
          (None, s\<lparr>gc_graph := g, gc_queue := simple_on_receive is_in_deletion r (gc_queue s)\<rparr>)
      | (Some (DependencyCycle cycle), g) \<Rightarrow> (None, clean_cycle cycle (s\<lparr>gc_graph := g\<rparr>))
      | (Some e, g) \<Rightarrow> (Some e, s\<lparr>gc_graph := g\<rparr>))"

definition on_received_new :: "resource \<Rightarrow> gc \<Rightarrow> resource_ref graph_error option \<times> gc" where
  "on_received_new r s =
     after_graph_change r s
       (add_resource (resource_ref r) (owners (metadata r)) True (gc_graph s))"




section \<open>The work on a resource\<close>

fun mark_dependents ::
  "apis \<Rightarrow> (gc_call \<Rightarrow> exn option) \<Rightarrow> resource_ref list \<Rightarrow> exn option \<times> gc_call list" where
  "mark_dependents apis perform [] = (None, [])"
| "mark_dependents apis perform (d # ds) =
     (case get_api_method apis (ref_api d) (ref_kind d) of
        Inl e \<Rightarrow> (Some e, [])
      | Inr _ \<Rightarrow>
          (let call = Delete_call (request_ref d)
           in case perform call of
                Some e \<Rightarrow> (Some e, [call])
              | None \<Rightarrow> (let (e, calls) = mark_dependents apis perform ds in (e, call # calls))))"

definition remove_cascade_deletion_finalizer ::
  "apis \<Rightarrow> (gc_call \<Rightarrow> exn option) \<Rightarrow> resource \<Rightarrow> exn option \<times> gc_call list" where
  "remove_cascade_deletion_finalizer apis perform r =
     (case get_api_method apis (api r) (kind r) of
        Inl e \<Rightarrow> (Some e, [])
      | Inr _ \<Rightarrow>
          (if finalizers (metadata r) = [] then (Some IndexError, [])
           else if last (finalizers (metadata r)) \<noteq> ''cascade_deletion'' then (Some AssertionError, [])
           else
             (let call = Update_call
                 (r\<lparr>metadata := (metadata r)\<lparr>finalizers := butlast (finalizers (metadata r))\<rparr>\<rparr>)
              in (perform call, [call]))))"

definition resource_received ::
  "apis \<Rightarrow> (gc_call \<Rightarrow> exn option) \<Rightarrow> resource \<Rightarrow> gc \<Rightarrow> exn option \<times> gc_call list \<times> gc" where
  "resource_received apis perform r s =
     (let (ds, g) = get_direct_dependents (gc_graph s) (resource_ref r);
          (e, calls) =
            (if ds \<noteq> [] then mark_dependents apis perform ds
             else remove_cascade_deletion_finalizer apis perform r)
      in (e, calls, s\<lparr>gc_graph := g\<rparr>))"

text \<open>
  One turn of \<open>handle_resource\<close>: \<open>None\<close> while the queue is empty. The key is reported as
  done whatever the work on the resource did.
\<close>

definition handle_resource ::
  "apis \<Rightarrow> (gc_call \<Rightarrow> exn option) \<Rightarrow> gc \<Rightarrow> (exn option \<times> gc_call list \<times> gc) option" where
  "handle_resource apis perform s =
     (case wq_get (gc_queue s) of
        None \<Rightarrow> None
      | Some (Inl e, q) \<Rightarrow> Some (Some e, [], s\<lparr>gc_queue := q\<rparr>)
      | Some (Inr (key, r), q) \<Rightarrow>
          Some (let (e, calls, s') = resource_received apis perform r (s\<lparr>gc_queue := q\<rparr>)
                in (e, calls, s'\<lparr>gc_queue := wq_done key (gc_queue s')\<rparr>)))"

section \<open>Tracking the ownership of resources\<close>























definition gc_init :: "real \<Rightarrow> gc" where
  "gc_init deb = \<lparr>gc_graph = [], gc_queue = wq_init deb\<rparr>"


section \<open>The work on a resource\<close>

lemma mark_dependents_all:
  assumes "\<forall>d \<in> set ds. (ref_api d, ref_kind d) \<in> set apis \<and>
    perform (Delete_call (request_ref d)) = None"
  shows "mark_dependents apis perform ds = (None, map (Delete_call \<circ> request_ref) ds)"
  using assms by (induction ds) (auto simp: get_api_method_def)

lemma mark_dependents_deletes:
  "mark_dependents apis perform ds = (e, calls) \<Longrightarrow>
     \<exists>n. calls = map (Delete_call \<circ> request_ref) (take n ds)"
proof (induction ds arbitrary: e calls)
  case (Cons d ds)
  show ?case
  proof (cases "(ref_api d, ref_kind d) \<in> set apis")
    case True
    show ?thesis
    proof (cases "perform (Delete_call (request_ref d))")
      case None
      obtain e' calls' where rec: "mark_dependents apis perform ds = (e', calls')"
        by (cases "mark_dependents apis perform ds")
      from Cons.IH [OF rec] obtain n where "calls' = map (Delete_call \<circ> request_ref) (take n ds)" ..
      with Cons.prems True None rec show ?thesis
        by (intro exI [of _ "Suc n"]) (auto simp: get_api_method_def)
    next
      case (Some x)
      with Cons.prems True show ?thesis
        by (intro exI [of _ 1]) (simp add: get_api_method_def)
    qed
  next
    case False
    with Cons.prems show ?thesis by (intro exI [of _ 0]) (simp add: get_api_method_def)
  qed
qed simp

lemma resource_received_update_call:
  assumes "resource_received apis perform r s = (e, calls, s')" and "Update_call r' \<in> set calls"
  shows "dependents (gc_graph s) (resource_ref r) = [] \<and>
    finalizers (metadata r) = finalizers (metadata r') @ [''cascade_deletion''] \<and>
    calls = [Update_call r']"
proof -
  obtain e1 calls1 where m:
    "mark_dependents apis perform (dependents (gc_graph s) (resource_ref r)) = (e1, calls1)"
    by (cases "mark_dependents apis perform (dependents (gc_graph s) (resource_ref r))")
  from mark_dependents_deletes [OF m] have "Update_call r' \<notin> set calls1" by auto
  have none: "dependents (gc_graph s) (resource_ref r) = []"
  proof (rule ccontr)
    assume "dependents (gc_graph s) (resource_ref r) \<noteq> []"
    then have "calls = calls1"
      using assms(1) m by (simp add: resource_received_def get_direct_dependents_def)
    with assms(2) \<open>Update_call r' \<notin> set calls1\<close> show False by simp
  qed
  have "calls = snd (remove_cascade_deletion_finalizer apis perform r)"
    using assms(1) none
    by (cases "remove_cascade_deletion_finalizer apis perform r")
      (simp add: resource_received_def get_direct_dependents_def)
  with assms(2) none show ?thesis
    by (auto simp: remove_cascade_deletion_finalizer_def get_api_method_def Let_def
        last_snoc_eq split: if_splits)
qed

lemma handle_resource_keeps_inv:
  assumes "wq_inv P (gc_queue s)" and "handle_resource apis perform s = Some (e, calls, s')"
  shows "wq_inv P (gc_queue s')"
proof -
  obtain k ks where q: "queue (gc_queue s) = k # ks"
    using assms(2) by (cases "queue (gc_queue s)") (auto simp: handle_resource_def wq_get_def)
  from wq_get_inv_progress [OF assms(1) q] obtain r q' where
    g: "wq_get (gc_queue s) = Some (Inr (k, r), q')" by blast
  note inv = wq_inv_get [OF assms(1) g]
  have "gc_queue s' = wq_done k q'"
    using assms(2) g by (auto simp: handle_resource_def resource_received_def Let_def split: prod.splits)
  moreover have "insert k P - {k} = P" using inv by blast
  ultimately show ?thesis using wq_inv_done [of "insert k P" q' k] inv by simp
qed

section \<open>Properties\<close>

definition example_meta :: "string \<Rightarrow> resource_ref list \<Rightarrow> metadata" where
  "example_meta n os =
     \<lparr>name = n, namespace = Some ''testing'', labels = [], inherit_labels = False,
      finalizers = [], uid = n, created = 0, modified = 0, deleted = None, owners = os\<rparr>"

definition example_app :: "string \<Rightarrow> resource_ref list \<Rightarrow> resource" where
  "example_app n os = \<lparr>api = ''kubernetes'', kind = ''Application'', metadata = example_meta n os\<rparr>"

abbreviation example_ref :: "string \<Rightarrow> resource_ref" where
  "example_ref n \<equiv> \<lparr>ref_api = ''kubernetes'', ref_namespace = Some ''testing'',
     ref_kind = ''Application'', ref_name = n\<rparr>"

lemma example_app_simps [simp]:
  "resource_ref (example_app n os) = example_ref n" "owners (metadata (example_app n os)) = os"
  by (simp_all add: resource_ref_def example_app_def example_meta_def)






text \<open>
  C21. The collector removes the deletion finalizer of a resource only when no resource in
  its graph is owned by it; it then makes this one request, and the body is the resource
  without its last finalizer, which was \<open>cascade_deletion\<close>.
\<close>

theorem gc_finalizer_removed_last:
  assumes "resource_received apis perform r s = (e, calls, s')" and "Update_call r' \<in> set calls"
  shows "(\<forall>x. (resource_ref r, x) \<notin> edges (gc_graph s)) \<and>
    finalizers (metadata r) = finalizers (metadata r') @ [''cascade_deletion''] \<and>
    calls = [Update_call r']"
  using resource_received_update_call [OF assms] by (simp add: dependents_Nil_iff)

definition example_deleting :: resource where
  "example_deleting = \<lparr>api = ''kubernetes'', kind = ''Application'', metadata =
     (example_meta ''a'' [])\<lparr>deleted := Some 1, finalizers := [''cleanup'', ''cascade_deletion'']\<rparr>\<rparr>"

theorem gc_finalizer_removed_last_witness:
  "\<forall>x. (resource_ref example_deleting, x) \<notin> edges (gc_graph (gc_init 0))"
proof -
  let ?r' = "example_deleting\<lparr>metadata := (metadata example_deleting)\<lparr>finalizers := [''cleanup'']\<rparr>\<rparr>"
  obtain e s' where "resource_received [(''kubernetes'', ''Application'')] (\<lambda>_. None)
      example_deleting (gc_init 0) = (e, [Update_call ?r'], s')"
    by (simp add: resource_received_def get_direct_dependents_def gc_init_def dependents_def
        remove_cascade_deletion_finalizer_def get_api_method_def example_deleting_def)
  from gc_finalizer_removed_last [OF this, of ?r'] show ?thesis by simp
qed

text \<open>
  While a resource in deletion has dependents, the collector asks the API, in order and
  once each, to delete exactly its direct dependents, and does not touch its finalizers.
\<close>

theorem gc_marks_all_dependents:
  assumes "dependents (gc_graph s) (resource_ref r) = ds" and "ds \<noteq> []"
    and "\<forall>d \<in> set ds. (ref_api d, ref_kind d) \<in> set apis \<and>
      perform (Delete_call (request_ref d)) = None"
  shows "fst (resource_received apis perform r s) = None \<and>
    fst (snd (resource_received apis perform r s)) = map (Delete_call \<circ> request_ref) ds \<and>
    edges (gc_graph (snd (snd (resource_received apis perform r s)))) = edges (gc_graph s)"
  using assms mark_dependents_all [OF assms(3)]
  by (simp add: resource_received_def get_direct_dependents_def)

theorem gc_marks_all_dependents_witness:
  "fst (snd (resource_received [(''kubernetes'', ''Application'')] (\<lambda>_. None) example_deleting
     (snd (on_received_new (example_app ''b'' [example_ref ''a'']) (gc_init 0))))) =
   [Delete_call (example_ref ''b'')]"
proof -
  let ?s = "snd (on_received_new (example_app ''b'' [example_ref ''a'']) (gc_init 0))"
  have ref: "resource_ref example_deleting = example_ref ''a''"
    by (simp add: resource_ref_def example_deleting_def example_meta_def)
  have "dependents (gc_graph ?s) (resource_ref example_deleting) = [example_ref ''b'']"
    by (simp add: ref on_received_new_def gc_init_def add_resource_def touch_def dependents_def
        check_for_cycles_def after_graph_change_def)
  from gc_marks_all_dependents [OF this, of "[(''kubernetes'', ''Application'')]" "\<lambda>_. None"]
  show ?thesis by (simp add: request_ref_def get_namespace_as_kwargs_def)
qed

text \<open>
  One turn of a worker keeps the invariant of the work queue for the same set of held
  keys, whatever the work on the resource raises: no key stays locked after a failure.
\<close>

theorem gc_worker_releases_key:
  assumes "wq_inv P (gc_queue s)" and "handle_resource apis perform s = Some (e, calls, s')"
  shows "wq_inv P (gc_queue s') \<and> length (queue (gc_queue s')) \<le> length (queue (gc_queue s))"
proof -
  obtain k ks where q: "queue (gc_queue s) = k # ks"
    using assms(2) by (cases "queue (gc_queue s)") (auto simp: handle_resource_def wq_get_def)
  from wq_get_inv_progress [OF assms(1) q] obtain r where
    g: "wq_get (gc_queue s) = Some (Inr (k, r),
      (gc_queue s)\<lparr>queue := ks, dirty := dict_del k (dirty (gc_queue s))\<rparr>)" by blast
  then have "gc_queue s' = wq_done k ((gc_queue s)\<lparr>queue := ks, dirty := dict_del k (dirty (gc_queue s))\<rparr>)"
    using assms(2) by (auto simp: handle_resource_def resource_received_def Let_def split: prod.splits)
  with q have "length (queue (gc_queue s')) \<le> length (queue (gc_queue s))"
    by (simp add: wq_done_def Let_def add_key_to_queue_def)
  with handle_resource_keeps_inv [OF assms] show ?thesis by blast
qed

theorem gc_worker_releases_key_witness:
  "\<exists>calls s'. handle_resource [] (\<lambda>_. None)
       \<lparr>gc_graph = [], gc_queue = wq_put ''a'' example_deleting None (wq_init 0)\<rparr>
     = Some (Some KeyError, calls, s') \<and> wq_inv {} (gc_queue s')"
proof -
  let ?s = "\<lparr>gc_graph = [], gc_queue = wq_put ''a'' example_deleting None (wq_init 0)\<rparr>"
  have inv: "wq_inv {} (gc_queue ?s)" by (simp add: wq_inv_put wq_inv_init)
  obtain calls s' where h: "handle_resource [] (\<lambda>_. None) ?s = Some (Some KeyError, calls, s')"
    by (simp add: handle_resource_def wq_get_def wq_put_def wq_init_def put_key_def
        add_key_to_queue_def resource_received_def get_direct_dependents_def dependents_def
        remove_cascade_deletion_finalizer_def get_api_method_def)
  from gc_worker_releases_key [OF inv h] h show ?thesis by blast
qed

end
