(* ===== verification/Constraint_Grammar.thy ===== *)
theory Constraint_Grammar
  imports Krake_Data
begin

text \<open>
  What the two grammars of \<open>krake/krake/data/constraints.py\<close> share: terminals, how an
  expression spells a sequence of terminals, and the lemmas that read an expression from
  left to right.

  The source hands its grammars to the third-party parser Lark, with the default dynamic
  lexer: between any two terminals the ignored blanks may stand, and the regular expression
  of keys and values takes its longest match.
\<close>

section \<open>Terminals\<close>

datatype terminal = Literal string | Word string

definition is_blank :: "char \<Rightarrow> bool" where
  "is_blank c \<longleftrightarrow> c = CHR '' '' \<or> c = CHR 0x09"

text \<open>The class \<open>[^ ,()=!]\<close> and the terminal \<open>/[^ ,()=!]+/\<close>.\<close>

definition is_token_char :: "char \<Rightarrow> bool" where
  "is_token_char c \<longleftrightarrow> c \<notin> set '' ,()=!''"

definition is_word_token :: "string \<Rightarrow> bool" where
  "is_word_token s \<longleftrightarrow> s \<noteq> [] \<and> list_all is_token_char s"

definition word_ends :: "string \<Rightarrow> bool" where
  "word_ends s \<longleftrightarrow> (case s of [] \<Rightarrow> True | c # _ \<Rightarrow> \<not> is_token_char c)"

inductive spells :: "terminal list \<Rightarrow> string \<Rightarrow> bool" where
  spells_end: "list_all is_blank b \<Longrightarrow> spells [] b"
| spells_literal: "list_all is_blank b \<Longrightarrow> spells ts s \<Longrightarrow> spells (Literal t # ts) (b @ t @ s)"
| spells_word: "list_all is_blank b \<Longrightarrow> spells ts s \<Longrightarrow> is_word_token w \<Longrightarrow> word_ends s \<Longrightarrow>
     spells (Word w # ts) (b @ w @ s)"

inductive_cases spells_NilE: "spells [] s"
inductive_cases spells_LiteralE: "spells (Literal t # ts) s"
inductive_cases spells_WordE: "spells (Word w # ts) s"

section \<open>Trees\<close>

text \<open>The tree of the rule \<open>start\<close>: the key, the name of the operation, its values.\<close>

type_synonym parse_tree = "string \<times> string \<times> string list"

definition validated_value :: "string \<Rightarrow> (exn, string) res" where
  "validated_value v = res_bind (validate_value v) (\<lambda>_. Inr v)"

definition first_value :: "string list \<Rightarrow> (exn, string) res" where
  "first_value vs = (case vs of [] \<Rightarrow> Inl IndexError | v # _ \<Rightarrow> validated_value v)"

lemma res_map_validated:
  "res_map validated_value vs = Inr ws \<longleftrightarrow> ws = vs \<and> list_all label_value_regex vs"
  by (induction vs arbitrary: ws)
    (auto simp: res_simps validated_value_def validate_value_def)

text \<open>What Lark promises of one expression: a tree of the grammar, and a failure only without one.\<close>

definition parses_correctly ::
  "(string \<Rightarrow> parse_tree \<Rightarrow> bool) \<Rightarrow> (string \<Rightarrow> parse_tree option) \<Rightarrow> string \<Rightarrow> bool" where
  "parses_correctly grammar grammar_parse s \<longleftrightarrow>
     (case grammar_parse s of
        None \<Rightarrow> \<not> (\<exists>t. grammar s t)
      | Some t \<Rightarrow> grammar s t)"

section \<open>Words that validation accepts\<close>

text \<open>A word of label characters, as the regular expressions of keys and values accept.\<close>

definition plain_word :: "string \<Rightarrow> bool" where
  "plain_word s \<longleftrightarrow> s \<noteq> [] \<and> list_all (\<lambda>c. is_token_char c \<and> \<not> is_blank c) s"

lemma special_not_label_char:
  "c \<in> set '' ,()=!'' \<or> is_blank c \<Longrightarrow> \<not> is_label_char c \<and> c \<noteq> CHR ''/''"
  by (auto simp: is_label_char_def is_word_char_def less_eq_char_def is_blank_def)

lemma label_char_plain:
  "is_label_char c \<or> c = CHR ''/'' \<Longrightarrow> is_token_char c \<and> \<not> is_blank c"
  using special_not_label_char unfolding is_token_char_def by blast

lemma plain_wordI:
  "s \<noteq> [] \<Longrightarrow> (\<And>c. c \<in> set s \<Longrightarrow> is_label_char c \<or> c = CHR ''/'') \<Longrightarrow> plain_word s"
  unfolding plain_word_def list_all_iff using label_char_plain by blast

lemma label_value_is_plain: "label_value_regex v \<Longrightarrow> plain_word v"
proof (rule plain_wordI)
  assume v: "label_value_regex v"
  then show "v \<noteq> []" using base_alphanumeric_length unfolding label_value_regex_def by fastforce
  show "is_label_char c \<or> c = CHR ''/''" if "c \<in> set v" for c
    using base_alphanumeric_label_chars v that unfolding label_value_regex_def by blast
qed

lemma label_key_is_plain: "label_key_regex k \<Longrightarrow> plain_word k"
proof -
  assume k: "label_key_regex k"
  let ?L = "\<lambda>s. s \<noteq> [] \<and> (\<forall>c \<in> set s. is_label_char c)"
  have base: "base_alphanumeric is_label_char n s \<Longrightarrow> ?L s" for n s
    using base_alphanumeric_length [of is_label_char n s] base_alphanumeric_label_chars by force
  from k have "?L k \<or> (\<exists>p n. k = p @ CHR ''/'' # n \<and> ?L p \<and> ?L n)"
    unfolding label_key_regex_split using base by blast
  then show ?thesis by (intro plain_wordI) auto
qed

lemma plain_examples:
  "label_key_regex ''a''" "label_value_regex ''b''" "label_value_regex ''notb''"
  by (simp_all add: label_key_regex_def label_value_regex_def is_word_char_def is_label_char_def
      less_eq_char_def max_key_size_def max_value_size_def)

lemma plain_word_token: "plain_word w \<Longrightarrow> is_word_token w"
  by (simp add: plain_word_def is_word_token_def list_all_iff)

section \<open>Writing terminals\<close>

lemma spells_here: "spells ts s \<Longrightarrow> spells (Literal t # ts) (t @ s)"
  using spells_literal [of "[]" ts s t] by simp

lemma spells_plain: "plain_word w \<Longrightarrow> word_ends s \<Longrightarrow> spells ts s \<Longrightarrow> spells (Word w # ts) (w @ s)"
  using spells_word [of "[]" ts s w] by (simp add: plain_word_token)

lemma spells_space: "spells ts s \<Longrightarrow> spells ts (CHR '' '' # s)"
proof (induction rule: spells.cases)
  case (spells_end b)
  then show ?case using spells.spells_end [of "CHR '' '' # b"] by (simp add: is_blank_def)
next
  case (spells_literal b ts s t)
  then show ?case
    using spells.spells_literal [of "CHR '' '' # b" ts s t] by (simp add: is_blank_def)
next
  case (spells_word b ts s w)
  then show ?case
    using spells.spells_word [of "CHR '' '' # b" ts s w] by (simp add: is_blank_def)
qed

lemma spells_nothing: "spells [] []"
  by (rule spells_end) simp

lemma word_ends_simps [simp]:
  "word_ends []" "word_ends (CHR '' '' # s)" "word_ends (CHR '','' # s)" "word_ends (CHR '')'' # s)"
  by (simp_all add: word_ends_def is_token_char_def)

lemma spells_last_word: "plain_word w \<Longrightarrow> spells [Word w] (CHR '' '' # w)"
  using spells_space [OF spells_plain [OF _ _ spells_nothing, of w]] by simp

lemma spells_keyword:
  "spells ts s \<Longrightarrow> spells (Literal t # ts) (CHR '' '' # t @ s)"
  by (intro spells_space spells_here)

section \<open>Reading terminals\<close>

text \<open>Every lemma reads one terminal at the front of an expression that starts with it.\<close>

definition sharp :: "terminal list \<Rightarrow> bool" where
  "sharp ts \<longleftrightarrow> list_all (\<lambda>t. case t of Literal l \<Rightarrow> l \<noteq> [] \<and> \<not> is_blank (hd l) | Word _ \<Rightarrow> True) ts"

lemma sharp_simps [simp]:
  "sharp []"
  "sharp (Word w # ts) \<longleftrightarrow> sharp ts"
  "sharp (Literal l # ts) \<longleftrightarrow> l \<noteq> [] \<and> \<not> is_blank (hd l) \<and> sharp ts"
  by (simp_all add: sharp_def)

lemma sharp_append [simp]: "sharp (ts @ us) \<longleftrightarrow> sharp ts \<and> sharp us"
  by (simp add: sharp_def)

lemma read_blank:
  assumes "spells ts (CHR '' '' # s)" and "sharp ts"
  shows "spells ts s"
  using assms(1)
proof (cases rule: spells.cases)
  case (spells_end)
  then show ?thesis by (simp add: spells.spells_end)
next
  case (spells_literal b us s' t)
  with assms(2) have "b \<noteq> []" by (cases t; cases b) (auto simp: is_blank_def)
  with spells_literal show ?thesis by (cases b) (auto intro: spells.spells_literal)
next
  case (spells_word b us s' w)
  then have "b \<noteq> []" by (cases w; cases b) (auto simp: is_word_token_def is_token_char_def)
  with spells_word show ?thesis by (cases b) (auto intro: spells.spells_word)
qed

lemma read_literal:
  assumes "spells (Literal t # ts) (c # s)" and "\<not> is_blank c"
  shows "\<exists>s'. c # s = t @ s' \<and> spells ts s'"
proof -
  from assms(1) obtain b s' where "list_all is_blank b" "spells ts s'" "c # s = b @ t @ s'"
    by (rule spells_LiteralE)
  with assms(2) show ?thesis by (cases b) auto
qed

lemma read_keyword:
  assumes "spells (Literal t # ts) (k @ CHR '' '' # s)" and "sharp ts"
    and "k \<noteq> []" "list_all (\<lambda>c. \<not> is_blank c) k" "list_all (\<lambda>c. \<not> is_blank c) t"
  shows "\<exists>r. k = t @ r \<and> (r = [] \<longrightarrow> spells ts s)"
proof -
  obtain c k' where k: "k = c # k'" "\<not> is_blank c" using assms(3,4) by (cases k) auto
  then obtain s' where eq: "k @ CHR '' '' # s = t @ s'" and s': "spells ts s'"
    using read_literal [of t ts c "k' @ CHR '' '' # s"] assms(1) by auto
  from eq obtain r where "k = t @ r \<and> s' = r @ CHR '' '' # s \<or> t = k @ r \<and> CHR '' '' # s = r @ s'"
    unfolding append_eq_append_conv2 by metis
  then show ?thesis
  proof
    assume "k = t @ r \<and> s' = r @ CHR '' '' # s"
    with s' read_blank [OF _ assms(2)] show ?thesis by auto
  next
    assume r: "t = k @ r \<and> CHR '' '' # s = r @ s'"
    with assms(5) have "r = []" by (cases r) (auto simp: is_blank_def)
    with r s' read_blank [OF _ assms(2)] show ?thesis by auto
  qed
qed

lemma longest_word_unique:
  "list_all is_token_char w \<Longrightarrow> list_all is_token_char w' \<Longrightarrow> word_ends s \<Longrightarrow> word_ends s' \<Longrightarrow>
     w @ s = w' @ s' \<Longrightarrow> w = w' \<and> s = s'"
proof (induction w arbitrary: w')
  case Nil
  then show ?case by (cases w') (auto simp: word_ends_def)
next
  case (Cons c w)
  then show ?case by (cases w') (auto simp: word_ends_def)
qed

lemma read_word:
  assumes "spells (Word w # ts) (v @ s)" and "plain_word v" and "word_ends s"
  shows "w = v \<and> spells ts s"
proof -
  from assms(1) obtain b s' where b: "list_all is_blank b" and s': "spells ts s'" "word_ends s'"
    and w: "is_word_token w" and eq: "v @ s = b @ w @ s'"
    by (rule spells_WordE)
  have "b = []"
  proof (cases b)
    case (Cons c b')
    with eq assms(2) obtain r where "v = c # r" by (cases v) (auto simp: plain_word_def)
    with assms(2) b Cons show ?thesis by (simp add: plain_word_def)
  qed
  with eq longest_word_unique [of v w s s'] assms(2,3) w s' show ?thesis
    by (auto simp: plain_word_def is_word_token_def list_all_iff)
qed

lemma read_end_plain:
  assumes "spells [] (w @ s)" and "plain_word w"
  shows False
  using assms(1) by (rule spells_NilE) (use assms(2) in \<open>cases w; auto simp: plain_word_def\<close>)

lemma plain_word_hd: "plain_word w \<Longrightarrow> \<exists>c r. w = c # r \<and> is_token_char c \<and> \<not> is_blank c"
  by (cases w) (auto simp: plain_word_def)

lemma plain_word_suffix: "plain_word (u @ w) \<Longrightarrow> w \<noteq> [] \<Longrightarrow> plain_word w"
  by (simp add: plain_word_def)

lemma read_last_word:
  assumes "spells [Word w] v" and "list_all (\<lambda>c. is_token_char c \<and> \<not> is_blank c) v"
  shows "w = v"
proof (cases v)
  case Nil
  from assms(1) obtain b s' where "is_word_token w" "v = b @ w @ s'" by (rule spells_WordE)
  with Nil show ?thesis by (simp add: is_word_token_def)
next
  case (Cons c r)
  with assms(2) have "plain_word v" by (simp add: plain_word_def)
  then show ?thesis using read_word [of w "[]" v "[]"] assms(1) by simp
qed

end
