(* ===== verification/Python_Float.thy ===== *)
theory Python_Float
  imports Krake_Prelude "HOL-Library.Char_ord"
begin

text \<open>
  Python's \<open>float\<close>, as far as the metrics code uses it: the conversion from text, and
  the comparisons of a finite number with a converted one. Finite values are real numbers
  (rounding is not modelled); the special values \<open>inf\<close> and \<open>nan\<close> are kept, because
  the conversion accepts them.
\<close>

datatype pyfloat = Finite real | Infinity | Minus_infinity | NaN

fun digit_value :: "char \<Rightarrow> nat option" where
  "digit_value c = (let n = of_char c in if 48 \<le> n \<and> n \<le> (57 :: nat) then Some (n - 48) else None)"

text \<open>Digits, with single underscores between them: value and number of digits.\<close>

fun digits_from :: "nat \<Rightarrow> nat \<Rightarrow> string \<Rightarrow> (nat \<times> nat) option" where
  "digits_from a n [] = Some (a, n)"
| "digits_from a n (c # s) =
     (case digit_value c of
        Some d \<Rightarrow> digits_from (10 * a + d) (Suc n) s
      | None \<Rightarrow>
          if c = CHR ''_'' then
            (case s of
               [] \<Rightarrow> None
             | c' # s' \<Rightarrow>
                 (case digit_value c' of
                    None \<Rightarrow> None
                  | Some d \<Rightarrow> digits_from (10 * a + d) (Suc n) s'))
          else None)"

definition digit_part :: "string \<Rightarrow> (nat \<times> nat) option" where
  "digit_part s =
     (case s of
        [] \<Rightarrow> None
      | c # s' \<Rightarrow> (case digit_value c of None \<Rightarrow> None | Some d \<Rightarrow> digits_from d 1 s'))"

text \<open>Text before the first of the given characters, and what follows it if there is one.\<close>

fun cut_at :: "char list \<Rightarrow> string \<Rightarrow> string \<times> string option" where
  "cut_at cs [] = ([], None)"
| "cut_at cs (c # s) =
     (if c \<in> set cs then ([], Some s) else (case cut_at cs s of (a, b) \<Rightarrow> (c # a, b)))"

definition mantissa :: "string \<Rightarrow> real option" where
  "mantissa s =
     (case cut_at ''.'' s of
        (i, None) \<Rightarrow> map_option (\<lambda>(a, n). real a) (digit_part i)
      | (i, Some f) \<Rightarrow>
          (if i = [] then map_option (\<lambda>(b, m). real b / 10 ^ m) (digit_part f)
           else if f = [] then map_option (\<lambda>(a, n). real a) (digit_part i)
           else (case (digit_part i, digit_part f) of
                   (Some (a, n), Some (b, m)) \<Rightarrow> Some (real a + real b / 10 ^ m)
                 | _ \<Rightarrow> None)))"

definition sign_of :: "string \<Rightarrow> bool \<times> string" where
  "sign_of s =
     (case s of
        [] \<Rightarrow> (False, [])
      | c # r \<Rightarrow> if c = CHR ''-'' then (True, r) else if c = CHR ''+'' then (False, r) else (False, s))"

definition power_of_ten :: "string option \<Rightarrow> real option" where
  "power_of_ten e =
     (case e of
        None \<Rightarrow> Some 1
      | Some s \<Rightarrow>
          (case sign_of s of (neg, r) \<Rightarrow>
             map_option (\<lambda>(k, n). if neg then 1 / 10 ^ k else 10 ^ k) (digit_part r)))"

definition lower_char :: "char \<Rightarrow> char" where
  "lower_char c =
     (let n = of_char c in if 65 \<le> n \<and> n \<le> (90 :: nat) then char_of (n + 32) else c)"

definition unsigned_float :: "string \<Rightarrow> pyfloat option" where
  "unsigned_float s =
     (let l = List.map lower_char s in
      if l = ''inf'' \<or> l = ''infinity'' then Some Infinity
      else if l = ''nan'' then Some NaN
      else (case cut_at ''eE'' s of (m, e) \<Rightarrow>
              (case (mantissa m, power_of_ten e) of
                 (Some x, Some p) \<Rightarrow> Some (Finite (x * p))
               | _ \<Rightarrow> None)))"

fun negate_float :: "pyfloat \<Rightarrow> pyfloat" where
  "negate_float (Finite x) = Finite (- x)"
| "negate_float Infinity = Minus_infinity"
| "negate_float Minus_infinity = Infinity"
| "negate_float NaN = NaN"

text \<open>\<open>None\<close> is the \<open>ValueError\<close> of \<open>float(s)\<close>; surrounding blanks are not handled.\<close>

definition py_float :: "string \<Rightarrow> pyfloat option" where
  "py_float s =
     (case sign_of s of (neg, r) \<Rightarrow>
        map_option (\<lambda>x. if neg then negate_float x else x) (unsigned_float r))"

section \<open>Comparisons\<close>

fun float_eq :: "real \<Rightarrow> pyfloat \<Rightarrow> bool" where
  "float_eq x (Finite y) \<longleftrightarrow> x = y"
| "float_eq x Infinity \<longleftrightarrow> False"
| "float_eq x Minus_infinity \<longleftrightarrow> False"
| "float_eq x NaN \<longleftrightarrow> False"

fun float_less :: "real \<Rightarrow> pyfloat \<Rightarrow> bool" where
  "float_less x (Finite y) \<longleftrightarrow> x < y"
| "float_less x Infinity \<longleftrightarrow> True"
| "float_less x Minus_infinity \<longleftrightarrow> False"
| "float_less x NaN \<longleftrightarrow> False"

fun float_greater :: "real \<Rightarrow> pyfloat \<Rightarrow> bool" where
  "float_greater x (Finite y) \<longleftrightarrow> x > y"
| "float_greater x Infinity \<longleftrightarrow> False"
| "float_greater x Minus_infinity \<longleftrightarrow> True"
| "float_greater x NaN \<longleftrightarrow> False"

abbreviation float_less_eq :: "real \<Rightarrow> pyfloat \<Rightarrow> bool" where
  "float_less_eq x y \<equiv> float_less x y \<or> float_eq x y"

abbreviation float_greater_eq :: "real \<Rightarrow> pyfloat \<Rightarrow> bool" where
  "float_greater_eq x y \<equiv> float_greater x y \<or> float_eq x y"

lemma float_trichotomy:
  "y \<noteq> NaN \<Longrightarrow> float_less x y \<or> float_eq x y \<or> float_greater x y"
  by (cases y) auto

lemma float_exclusive:
  "\<not> (float_less x y \<and> float_eq x y)" "\<not> (float_less x y \<and> float_greater x y)"
  "\<not> (float_eq x y \<and> float_greater x y)"
  by (cases y; auto)+

section \<open>Examples\<close>

lemma py_float_examples:
  "py_float ''5'' = Some (Finite 5)"
  "py_float ''0.25'' = Some (Finite (1 / 4))"
  "py_float ''2e-1'' = Some (Finite (1 / 5))"
  "py_float ''1_000'' = Some (Finite 1000)"
  "py_float ''high'' = None"
  "py_float ''1__0'' = None"
  "py_float ''inf'' = Some Infinity"
  by (simp_all add: py_float_def sign_of_def unsigned_float_def mantissa_def digit_part_def
      power_of_ten_def lower_char_def Let_def)

lemma py_float_nan: "py_float ''NaN'' = Some NaN"
  by code_simp

end
