(* ===== verification/Metric_Constraint.thy ===== *)
theory Metric_Constraint
  imports Constraint_Grammar Python_Float
begin

text \<open>
  Metric constraints, class \<open>MetricConstraint\<close> and its six subclasses of
  \<open>krake/krake/data/constraints.py\<close>: matching against the metrics of a cluster or cloud,
  equality, printing, parsing and serialization. As for label constraints, Lark is the
  parameter \<open>grammar_parse\<close> and the grammar is the relation \<open>metric_grammar\<close>.
\<close>

section \<open>Constraints\<close>

datatype metric_constraint =
    EqualMetricConstraint string string "string option"
  | NotEqualMetricConstraint string string "string option"
  | GreaterThanMetricConstraint string string "string option"
  | GreaterThanOrEqualMetricConstraint string string "string option"
  | LesserThanMetricConstraint string string "string option"
  | LesserThanOrEqualMetricConstraint string string "string option"

record metric_ref =
  mref_name :: string
  mref_weight :: real
  mref_namespaced :: bool

fun metric_parsed :: "metric_constraint \<Rightarrow> string option" where
  "metric_parsed (EqualMetricConstraint m v p) = p"
| "metric_parsed (NotEqualMetricConstraint m v p) = p"
| "metric_parsed (GreaterThanMetricConstraint m v p) = p"
| "metric_parsed (GreaterThanOrEqualMetricConstraint m v p) = p"
| "metric_parsed (LesserThanMetricConstraint m v p) = p"
| "metric_parsed (LesserThanOrEqualMetricConstraint m v p) = p"

text \<open>
  All \<open>match\<close> methods look the metric up (a missing one is \<open>False\<close>), then convert the
  value of the constraint, which may raise \<open>ValueError\<close>.
\<close>

definition compare_metric ::
  "(real \<Rightarrow> pyfloat \<Rightarrow> bool) \<Rightarrow> string \<Rightarrow> string \<Rightarrow> (string, metric_ref) dict \<Rightarrow> (exn, bool) res" where
  "compare_metric cmp m v metrics =
     (case dict_get metrics m of
        None \<Rightarrow> Inr False
      | Some ref \<Rightarrow>
          (case py_float v of
             None \<Rightarrow> Inl ValueError
           | Some x \<Rightarrow> Inr (cmp (mref_weight ref) x)))"

fun metric_match :: "metric_constraint \<Rightarrow> (string, metric_ref) dict \<Rightarrow> (exn, bool) res" where
  "metric_match (EqualMetricConstraint m v p) metrics = compare_metric float_eq m v metrics"
| "metric_match (NotEqualMetricConstraint m v p) metrics =
     compare_metric (\<lambda>x y. \<not> float_eq x y) m v metrics"
| "metric_match (GreaterThanMetricConstraint m v p) metrics = compare_metric float_greater m v metrics"
| "metric_match (GreaterThanOrEqualMetricConstraint m v p) metrics =
     compare_metric float_greater_eq m v metrics"
| "metric_match (LesserThanMetricConstraint m v p) metrics = compare_metric float_less m v metrics"
| "metric_match (LesserThanOrEqualMetricConstraint m v p) metrics =
     compare_metric float_less_eq m v metrics"

subsection \<open>Equality\<close>

datatype metric_class =
    Equal_metric | NotEqual_metric | Greater_metric | GreaterEqual_metric | Lesser_metric | LesserEqual_metric

fun class_of_metric :: "metric_constraint \<Rightarrow> metric_class" where
  "class_of_metric (EqualMetricConstraint m v p) = Equal_metric"
| "class_of_metric (NotEqualMetricConstraint m v p) = NotEqual_metric"
| "class_of_metric (GreaterThanMetricConstraint m v p) = Greater_metric"
| "class_of_metric (GreaterThanOrEqualMetricConstraint m v p) = GreaterEqual_metric"
| "class_of_metric (LesserThanMetricConstraint m v p) = Lesser_metric"
| "class_of_metric (LesserThanOrEqualMetricConstraint m v p) = LesserEqual_metric"

fun metric_as_tuple :: "metric_constraint \<Rightarrow> string \<times> string" where
  "metric_as_tuple (EqualMetricConstraint m v p) = (m, v)"
| "metric_as_tuple (NotEqualMetricConstraint m v p) = (m, v)"
| "metric_as_tuple (GreaterThanMetricConstraint m v p) = (m, v)"
| "metric_as_tuple (GreaterThanOrEqualMetricConstraint m v p) = (m, v)"
| "metric_as_tuple (LesserThanMetricConstraint m v p) = (m, v)"
| "metric_as_tuple (LesserThanOrEqualMetricConstraint m v p) = (m, v)"

text \<open>The six classes are siblings, so \<open>isinstance\<close> is equality of classes.\<close>

definition metric_eq :: "metric_constraint \<Rightarrow> metric_constraint \<Rightarrow> bool" where
  "metric_eq self other \<longleftrightarrow>
     class_of_metric other = class_of_metric self \<and> metric_as_tuple self = metric_as_tuple other"

definition metric_hash :: "(string \<times> string \<Rightarrow> int) \<Rightarrow> metric_constraint \<Rightarrow> int" where
  "metric_hash h c = h (metric_as_tuple c)"

subsection \<open>Printing\<close>

fun metric_str :: "metric_constraint \<Rightarrow> string" where
  "metric_str (EqualMetricConstraint m v p) = m @ '' is '' @ v"
| "metric_str (NotEqualMetricConstraint m v p) = m @ '' is not '' @ v"
| "metric_str (GreaterThanMetricConstraint m v p) = m @ '' greater than '' @ v"
| "metric_str (GreaterThanOrEqualMetricConstraint m v p) = m @ '' greater than or equal '' @ v"
| "metric_str (LesserThanMetricConstraint m v p) = m @ '' lesser than '' @ v"
| "metric_str (LesserThanOrEqualMetricConstraint m v p) = m @ '' lesser than or equal '' @ v"

subsection \<open>Construction from a parse tree\<close>

definition metric_of_tree :: "string \<Rightarrow> parse_tree \<Rightarrow> (exn, metric_constraint) res" where
  "metric_of_tree expression tree =
     (case tree of (metric, operation, values) \<Rightarrow>
        res_bind (validate_key metric) (\<lambda>_.
          if operation = ''equal'' then
            res_bind (first_value values) (\<lambda>v. Inr (EqualMetricConstraint metric v (Some expression)))
          else if operation = ''notequal'' then
            res_bind (first_value values) (\<lambda>v. Inr (NotEqualMetricConstraint metric v (Some expression)))
          else if operation = ''greaterthan'' then
            res_bind (first_value values)
              (\<lambda>v. Inr (GreaterThanMetricConstraint metric v (Some expression)))
          else if operation = ''greaterthanorequal'' then
            res_bind (first_value values)
              (\<lambda>v. Inr (GreaterThanOrEqualMetricConstraint metric v (Some expression)))
          else if operation = ''lesserthan'' then
            res_bind (first_value values)
              (\<lambda>v. Inr (LesserThanMetricConstraint metric v (Some expression)))
          else if operation = ''lesserthanorequal'' then
            res_bind (first_value values)
              (\<lambda>v. Inr (LesserThanOrEqualMetricConstraint metric v (Some expression)))
          else Inl ValueError))"

definition metric_parse ::
  "(string \<Rightarrow> parse_tree option) \<Rightarrow> string \<Rightarrow> (exn, metric_constraint) res" where
  "metric_parse grammar_parse expression =
     (case grammar_parse expression of
        None \<Rightarrow> Inl UnexpectedInput
      | Some tree \<Rightarrow> metric_of_tree expression tree)"

definition metric_deserialize ::
  "(string \<Rightarrow> parse_tree option) \<Rightarrow> string option \<Rightarrow> (exn, metric_constraint option) res" where
  "metric_deserialize grammar_parse value =
     (case value of
        None \<Rightarrow> Inr None
      | Some expression \<Rightarrow>
          (case metric_parse grammar_parse expression of
             Inl UnexpectedInput \<Rightarrow> Inl ValidationError
           | Inl e \<Rightarrow> Inl e
           | Inr c \<Rightarrow> Inr (Some c)))"

definition metric_serialize :: "metric_constraint \<Rightarrow> string" where
  "metric_serialize c = (case metric_parsed c of None \<Rightarrow> metric_str c | Some p \<Rightarrow> p)"

section \<open>The grammar\<close>

text \<open>The alternatives of each operation, as sequences of literals.\<close>

definition metric_operations :: "(string \<times> string list list) list" where
  "metric_operations =
     [(''equal'', [[''==''], [''=''], [''is'']]),
      (''notequal'', [[''!=''], [''is'', ''not'']]),
      (''greaterthan'', [[''>''], [''gt''], [''greater'', ''than'']]),
      (''greaterthanorequal'',
         [[''>=''], [''=>''], [''gte''], [''greater'', ''than'', ''or'', ''equal'']]),
      (''lesserthan'', [[''<''], [''lt''], [''lesser'', ''than'']]),
      (''lesserthanorequal'',
         [[''<=''], [''=<''], [''lte''], [''lesser'', ''than'', ''or'', ''equal'']])]"

definition metric_grammar :: "string \<Rightarrow> parse_tree \<Rightarrow> bool" where
  "metric_grammar s tree \<longleftrightarrow>
     (\<exists>k operation alternatives ls v.
        tree = (k, operation, [v]) \<and> (operation, alternatives) \<in> set metric_operations \<and>
        ls \<in> set alternatives \<and> spells (Word k # List.map Literal ls @ [Word v]) s)"

fun tree_of_metric :: "metric_constraint \<Rightarrow> parse_tree" where
  "tree_of_metric (EqualMetricConstraint m v p) = (m, ''equal'', [v])"
| "tree_of_metric (NotEqualMetricConstraint m v p) = (m, ''notequal'', [v])"
| "tree_of_metric (GreaterThanMetricConstraint m v p) = (m, ''greaterthan'', [v])"
| "tree_of_metric (GreaterThanOrEqualMetricConstraint m v p) = (m, ''greaterthanorequal'', [v])"
| "tree_of_metric (LesserThanMetricConstraint m v p) = (m, ''lesserthan'', [v])"
| "tree_of_metric (LesserThanOrEqualMetricConstraint m v p) = (m, ''lesserthanorequal'', [v])"

definition metric_valid :: "metric_constraint \<Rightarrow> bool" where
  "metric_valid c \<longleftrightarrow>
     (case metric_as_tuple c of (m, v) \<Rightarrow> label_key_regex m \<and> label_value_regex v)"

section \<open>Reading literals\<close>

text \<open>A functional reader for a sequence of literals: what remains of the expression.\<close>

fun read_literals :: "string list \<Rightarrow> string \<Rightarrow> string option" where
  "read_literals [] s = Some s"
| "read_literals (t # ts) s =
     (let s' = dropWhile is_blank s in
      if take (length t) s' = t then read_literals ts (drop (length t) s') else None)"

lemma dropWhile_blanks:
  "list_all is_blank b \<Longrightarrow> s \<noteq> [] \<Longrightarrow> \<not> is_blank (hd s) \<Longrightarrow> dropWhile is_blank (b @ s) = s"
  by (induction b) (auto simp: neq_Nil_conv)

lemma spells_read_literals:
  "spells (List.map Literal ls @ rest) s \<Longrightarrow> list_all (\<lambda>l. l \<noteq> [] \<and> \<not> is_blank (hd l)) ls \<Longrightarrow>
     \<exists>s'. read_literals ls s = Some s' \<and> spells rest s'"
proof (induction ls arbitrary: s)
  case (Cons l ls)
  from Cons.prems(1) obtain b s1 where s1: "list_all is_blank b" "spells (List.map Literal ls @ rest) s1"
    and s: "s = b @ l @ s1"
    by (auto elim: spells_LiteralE)
  with Cons.prems(2) have "dropWhile is_blank s = l @ s1"
    using dropWhile_blanks [of b "l @ s1"] by simp
  with Cons.IH [OF s1(2)] Cons.prems(2) show ?case by simp
qed simp

text \<open>What the operations leave of an expression, for every alternative that fits.\<close>

definition readings :: "string \<Rightarrow> (string \<times> string) list" where
  "readings s =
     concat (List.map (\<lambda>(operation, alternatives).
       List.map_filter (\<lambda>ls. map_option (Pair operation) (read_literals ls s)) alternatives)
     metric_operations)"

lemma readings_iff:
  "(operation, s') \<in> set (readings s) \<longleftrightarrow>
     (\<exists>alternatives ls. (operation, alternatives) \<in> set metric_operations \<and> ls \<in> set alternatives \<and>
        read_literals ls s = Some s')"
  by (auto simp: readings_def List.map_filter_def) force+

lemma metric_operations_sharp:
  "(operation, alternatives) \<in> set metric_operations \<Longrightarrow> ls \<in> set alternatives \<Longrightarrow>
     list_all (\<lambda>l. l \<noteq> [] \<and> \<not> is_blank (hd l)) ls"
  by (auto simp: metric_operations_def is_blank_def)

lemma metric_grammar_readings:
  assumes "metric_grammar (m @ CHR '' '' # s) t" and "plain_word m"
  obtains operation s' v where "t = (m, operation, [v])" "(operation, s') \<in> set (readings (CHR '' '' # s))"
    "spells [Word v] s'"
proof -
  from assms(1) obtain k operation alternatives ls v where
    t: "t = (k, operation, [v])" and op: "(operation, alternatives) \<in> set metric_operations"
    "ls \<in> set alternatives" and sp: "spells (Word k # List.map Literal ls @ [Word v]) (m @ CHR '' '' # s)"
    unfolding metric_grammar_def by blast
  have k: "k = m" and "spells (List.map Literal ls @ [Word v]) (CHR '' '' # s)"
    using read_word [OF sp assms(2)] by simp_all
  then obtain s' where s': "read_literals ls (CHR '' '' # s) = Some s'" "spells [Word v] s'"
    using spells_read_literals metric_operations_sharp [OF op] by blast
  have "(operation, s') \<in> set (readings (CHR '' '' # s))"
    using op s'(1) unfolding readings_iff by blast
  with t k s'(2) show thesis using that by blast
qed

lemma spells_literals:
  "spells ts s \<Longrightarrow> spells (List.map Literal ls @ ts) (concat (List.map (\<lambda>l. CHR '' '' # l) ls) @ s)"
  by (induction ls) (auto dest: spells_here intro: spells_space)

lemma metric_grammarI:
  assumes "plain_word m" "plain_word v"
    and "(operation, alternatives) \<in> set metric_operations" "ls \<in> set alternatives"
    and "s = m @ concat (List.map (\<lambda>l. CHR '' '' # l) ls) @ CHR '' '' # v"
  shows "metric_grammar s (m, operation, [v])"
proof -
  have "ls \<noteq> []" using assms(3,4) by (auto simp: metric_operations_def)
  then have "word_ends (concat (List.map (\<lambda>l. CHR '' '' # l) ls) @ CHR '' '' # v)"
    by (cases ls) simp_all
  then have "spells (Word m # List.map Literal ls @ [Word v]) s"
    unfolding assms(5) using assms(1,2) by (intro spells_plain spells_literals spells_last_word)
  with assms(3,4) show ?thesis unfolding metric_grammar_def by blast
qed

lemma metric_valid_plain:
  "metric_valid c \<Longrightarrow> metric_as_tuple c = (m, v) \<Longrightarrow> plain_word m \<and> plain_word v"
  by (simp add: metric_valid_def label_key_is_plain label_value_is_plain)

lemma metric_str_spells:
  assumes "metric_valid c"
  shows "metric_grammar (metric_str c) (tree_of_metric c)"
proof (cases c)
  case (EqualMetricConstraint m v p)
  with assms metric_valid_plain [of c m v] show ?thesis
    by (auto intro!: metric_grammarI [where ls = "[''is'']"] simp: metric_operations_def)
next
  case (NotEqualMetricConstraint m v p)
  with assms metric_valid_plain [of c m v] show ?thesis
    by (auto intro!: metric_grammarI [where ls = "[''is'', ''not'']"] simp: metric_operations_def)
next
  case (GreaterThanMetricConstraint m v p)
  with assms metric_valid_plain [of c m v] show ?thesis
    by (auto intro!: metric_grammarI [where ls = "[''greater'', ''than'']"] simp: metric_operations_def)
next
  case (GreaterThanOrEqualMetricConstraint m v p)
  with assms metric_valid_plain [of c m v] show ?thesis
    by (auto intro!: metric_grammarI [where ls = "[''greater'', ''than'', ''or'', ''equal'']"]
        simp: metric_operations_def)
next
  case (LesserThanMetricConstraint m v p)
  with assms metric_valid_plain [of c m v] show ?thesis
    by (auto intro!: metric_grammarI [where ls = "[''lesser'', ''than'']"] simp: metric_operations_def)
next
  case (LesserThanOrEqualMetricConstraint m v p)
  with assms metric_valid_plain [of c m v] show ?thesis
    by (auto intro!: metric_grammarI [where ls = "[''lesser'', ''than'', ''or'', ''equal'']"]
        simp: metric_operations_def)
qed

lemma dropWhile_plain: "plain_word v \<Longrightarrow> dropWhile is_blank v = v"
  by (cases v) (simp_all add: plain_word_def)

lemmas readings_simps = readings_def metric_operations_def List.map_filter_simps Let_def is_blank_def
  numeral_eq_Suc

lemma readings_is:
  assumes "plain_word v"
  shows "readings ('' is '' @ v) =
    (''equal'', CHR '' '' # v) # (if take 3 v = ''not'' then [(''notequal'', drop 3 v)] else [])"
  using dropWhile_plain [OF assms] by (simp add: readings_simps)

lemma readings_isnot: "readings ('' is not '' @ v) =
    [(''equal'', '' not '' @ v), (''notequal'', CHR '' '' # v)]"
  by (simp add: readings_simps)

lemma readings_greater:
  assumes "plain_word v"
  shows "readings ('' greater than '' @ v) =
    (''greaterthan'', CHR '' '' # v) #
    (if take 2 v = ''or'' \<and> take 5 (dropWhile is_blank (drop 2 v)) = ''equal''
     then [(''greaterthanorequal'', drop 5 (dropWhile is_blank (drop 2 v)))] else [])"
  using dropWhile_plain [OF assms] by (simp add: readings_simps)

lemma readings_greater_equal:
  "readings ('' greater than or equal '' @ v) =
    [(''greaterthan'', '' or equal '' @ v), (''greaterthanorequal'', CHR '' '' # v)]"
  by (simp add: readings_simps)

lemma readings_lesser:
  assumes "plain_word v"
  shows "readings ('' lesser than '' @ v) =
    (''lesserthan'', CHR '' '' # v) #
    (if take 2 v = ''or'' \<and> take 5 (dropWhile is_blank (drop 2 v)) = ''equal''
     then [(''lesserthanorequal'', drop 5 (dropWhile is_blank (drop 2 v)))] else [])"
  using dropWhile_plain [OF assms] by (simp add: readings_simps)

lemma readings_lesser_equal:
  "readings ('' lesser than or equal '' @ v) =
    [(''lesserthan'', '' or equal '' @ v), (''lesserthanorequal'', CHR '' '' # v)]"
  by (simp add: readings_simps)

text \<open>A keyword that is glued to the value is taken apart by the grammar.\<close>

fun metric_glued :: "metric_constraint \<Rightarrow> parse_tree \<Rightarrow> bool" where
  "metric_glued (EqualMetricConstraint m v p) t \<longleftrightarrow>
     (\<exists>w. v = ''not'' @ w \<and> w \<noteq> [] \<and> t = (m, ''notequal'', [w]))"
| "metric_glued (GreaterThanMetricConstraint m v p) t \<longleftrightarrow>
     (\<exists>w. v = ''orequal'' @ w \<and> w \<noteq> [] \<and> t = (m, ''greaterthanorequal'', [w]))"
| "metric_glued (LesserThanMetricConstraint m v p) t \<longleftrightarrow>
     (\<exists>w. v = ''orequal'' @ w \<and> w \<noteq> [] \<and> t = (m, ''lesserthanorequal'', [w]))"
| "metric_glued _ t \<longleftrightarrow> False"

lemma read_last_after_blank:
  assumes "spells [Word w] (CHR '' '' # v)" and "plain_word v"
  shows "w = v"
  using read_blank [OF assms(1)] read_word [of w "[]" v "[]"] assms(2) by simp

lemma read_last_suffix:
  assumes "spells [Word w] s" and "plain_word (u @ s)"
  shows "w = s \<and> s \<noteq> []"
proof -
  have "w = s" using read_last_word [OF assms(1)] assms(2) by (simp add: plain_word_def)
  moreover have "w \<noteq> []" using assms(1) by (auto elim: spells_WordE simp: is_word_token_def)
  ultimately show ?thesis by simp
qed

lemma read_last_two_words:
  assumes "spells [Word w] (CHR '' '' # u @ CHR '' '' # s)" and "plain_word u" and "plain_word v"
    and "CHR '' '' # s = x @ v"
  shows False
proof -
  have "spells [Word w] (u @ CHR '' '' # s)" using read_blank [OF assms(1)] by simp
  then have "spells [] (CHR '' '' # s)" using read_word [of w "[]" u "CHR '' '' # s"] assms(2) by simp
  then have "spells [] (x @ v)" unfolding assms(4) .
  with assms(3) show False by (auto elim!: spells_NilE simp: plain_word_def neq_Nil_conv)
qed

lemma plain_keywords: "plain_word ''not''" "plain_word ''or''"
  by (simp_all add: plain_word_def is_token_char_def is_blank_def)

lemma take_eq_append: "take n v = u \<Longrightarrow> v = u @ drop n v"
  using append_take_drop_id [of n v] by metis

lemma glued_or_equal:
  assumes "plain_word v" and "take 2 v = ''or''" "take 5 (dropWhile is_blank (drop 2 v)) = ''equal''"
  shows "v = ''orequal'' @ drop 5 (dropWhile is_blank (drop 2 v))"
proof -
  have v: "v = ''or'' @ drop 2 v" using assms(2) by (rule take_eq_append)
  have "list_all (\<lambda>c. \<not> is_blank c) v" using assms(1) by (simp add: plain_word_def list_all_iff)
  then have "list_all (\<lambda>c. \<not> is_blank c) (drop 2 v)" 
    by (auto simp: list_all_iff dest: in_set_dropD)
  then have dw: "dropWhile is_blank (drop 2 v) = drop 2 v" by (cases "drop 2 v") simp_all
  have e: "drop 2 v = ''equal'' @ drop 5 (drop 2 v)"
    using assms(3) unfolding dw by (rule take_eq_append)
  have "v = ''or'' @ ''equal'' @ drop 5 (drop 2 v)"
    by (subst e [symmetric]) (rule v)
  then show ?thesis by (simp only: dw append.simps)
qed

lemma readings_greater_set:
  assumes "plain_word v" and "(operation, s') \<in> set (readings ('' greater than '' @ v))"
  shows "operation = ''greaterthan'' \<and> s' = CHR '' '' # v \<or>
    operation = ''greaterthanorequal'' \<and> v = ''orequal'' @ s'"
  using assms(2) glued_or_equal [OF assms(1)] unfolding readings_greater [OF assms(1)]
  by (cases "take 2 v = ''or'' \<and> take 5 (dropWhile is_blank (drop 2 v)) = ''equal''")
    (simp_all only: if_True if_False simp_thms list.set insert_iff empty_iff prod.inject, blast+)

lemma readings_lesser_set:
  assumes "plain_word v" and "(operation, s') \<in> set (readings ('' lesser than '' @ v))"
  shows "operation = ''lesserthan'' \<and> s' = CHR '' '' # v \<or>
    operation = ''lesserthanorequal'' \<and> v = ''orequal'' @ s'"
  using assms(2) glued_or_equal [OF assms(1)] unfolding readings_lesser [OF assms(1)]
  by (cases "take 2 v = ''or'' \<and> take 5 (dropWhile is_blank (drop 2 v)) = ''equal''")
    (simp_all only: if_True if_False simp_thms list.set insert_iff empty_iff prod.inject, blast+)

lemma readings_is_set:
  assumes "plain_word v" and "(operation, s') \<in> set (readings ('' is '' @ v))"
  shows "operation = ''equal'' \<and> s' = CHR '' '' # v \<or>
    operation = ''notequal'' \<and> v = ''not'' @ s'"
  using assms(2) take_eq_append [of 3 v "''not''"] unfolding readings_is [OF assms(1)]
  by (cases "take 3 v = ''not''")
    (simp_all only: if_True if_False simp_thms list.set insert_iff empty_iff prod.inject, blast+)

lemma metric_str_trees:
  assumes "metric_valid c" and "metric_grammar (metric_str c) t"
  shows "t = tree_of_metric c \<or> metric_glued c t"
proof -
  obtain m v where mv: "metric_as_tuple c = (m, v)" by fastforce
  then have m: "plain_word m" and v: "plain_word v" using metric_valid_plain assms(1) by blast+
  obtain s where s: "metric_str c = m @ CHR '' '' # s" using mv by (cases c) auto
  then obtain operation s' w where t: "t = (m, operation, [w])" and
    r: "(operation, s') \<in> set (readings (CHR '' '' # s))" and w: "spells [Word w] s'"
    using metric_grammar_readings [of m s t] assms(2) m by metis
  show ?thesis
  proof (cases c)
    case (EqualMetricConstraint m' v' p)
    with s mv r readings_is_set [OF v, of operation s']
    consider "operation = ''equal''" "s' = CHR '' '' # v"
      | "operation = ''notequal''" "v = ''not'' @ s'"
      by auto
    then show ?thesis
    proof cases
      case 1
      with w read_last_after_blank [OF _ v] t EqualMetricConstraint mv show ?thesis by simp
    next
      case 2
      with read_last_suffix [OF w, of "''not''"] v t EqualMetricConstraint mv show ?thesis by simp
    qed
  next
    case (NotEqualMetricConstraint m' v' p)
    with s mv r readings_isnot [of v] consider "operation = ''equal''" "s' = '' not '' @ v"
      | "operation = ''notequal''" "s' = CHR '' '' # v"
      by auto
    then show ?thesis
    proof cases
      case 1
      with w have "spells [Word w] (CHR '' '' # ''not'' @ CHR '' '' # v)" by simp
      then have False by (rule read_last_two_words [where x = "'' ''"]) (use plain_keywords v in simp_all)
      then show ?thesis ..
    next
      case 2
      with w read_last_after_blank [OF _ v] t NotEqualMetricConstraint mv show ?thesis by simp
    qed
  next
    case (GreaterThanMetricConstraint m' v' p)
    with s mv r readings_greater_set [OF v, of operation s'] consider "operation = ''greaterthan''" "s' = CHR '' '' # v"
      | "operation = ''greaterthanorequal''" "v = ''orequal'' @ s'"
      by auto
    then show ?thesis
    proof cases
      case 1
      with w read_last_after_blank [OF _ v] t GreaterThanMetricConstraint mv show ?thesis by simp
    next
      case 2
      with read_last_suffix [OF w, of "''orequal''"] v t GreaterThanMetricConstraint mv show ?thesis by simp
    qed
  next
    case (GreaterThanOrEqualMetricConstraint m' v' p)
    with s mv r readings_greater_equal [of v] consider
        "operation = ''greaterthan''" "s' = '' or equal '' @ v"
      | "operation = ''greaterthanorequal''" "s' = CHR '' '' # v"
      by auto
    then show ?thesis
    proof cases
      case 1
      with w have "spells [Word w] (CHR '' '' # ''or'' @ CHR '' '' # ''equal '' @ v)" by simp
      then have False by (rule read_last_two_words [where x = "'' equal ''"]) (use plain_keywords v in simp_all)
      then show ?thesis ..
    next
      case 2
      with w read_last_after_blank [OF _ v] t GreaterThanOrEqualMetricConstraint mv show ?thesis by simp
    qed
  next
    case (LesserThanMetricConstraint m' v' p)
    with s mv r readings_lesser_set [OF v, of operation s'] consider "operation = ''lesserthan''" "s' = CHR '' '' # v"
      | "operation = ''lesserthanorequal''" "v = ''orequal'' @ s'"
      by auto
    then show ?thesis
    proof cases
      case 1
      with w read_last_after_blank [OF _ v] t LesserThanMetricConstraint mv show ?thesis by simp
    next
      case 2
      with read_last_suffix [OF w, of "''orequal''"] v t LesserThanMetricConstraint mv show ?thesis by simp
    qed
  next
    case (LesserThanOrEqualMetricConstraint m' v' p)
    with s mv r readings_lesser_equal [of v] consider
        "operation = ''lesserthan''" "s' = '' or equal '' @ v"
      | "operation = ''lesserthanorequal''" "s' = CHR '' '' # v"
      by auto
    then show ?thesis
    proof cases
      case 1
      with w have "spells [Word w] (CHR '' '' # ''or'' @ CHR '' '' # ''equal '' @ v)" by simp
      then have False by (rule read_last_two_words [where x = "'' equal ''"]) (use plain_keywords v in simp_all)
      then show ?thesis ..
    next
      case 2
      with w read_last_after_blank [OF _ v] t LesserThanOrEqualMetricConstraint mv show ?thesis by simp
    qed
  qed
qed

lemma metric_glued_spells:
  assumes "plain_word m" and "plain_word (l @ w)" "w \<noteq> []"
    and "(operation, alternatives) \<in> set metric_operations" "ls @ [l] \<in> set alternatives" "ls \<noteq> []"
  shows "metric_grammar (m @ concat (List.map (\<lambda>l. CHR '' '' # l) ls) @ CHR '' '' # l @ w) (m, operation, [w])"
proof -
  have "plain_word w" using plain_word_suffix assms(2,3) by blast
  then have "spells [Literal l, Word w] (CHR '' '' # l @ w @ [])"
    by (intro spells_keyword spells_plain spells_nothing) simp_all
  then have "spells (List.map Literal ls @ [Literal l, Word w])
      (concat (List.map (\<lambda>l. CHR '' '' # l) ls) @ CHR '' '' # l @ w)"
    using spells_literals by fastforce
  moreover have "word_ends (concat (List.map (\<lambda>l. CHR '' '' # l) ls) @ CHR '' '' # l @ w)"
    using assms(6) by (cases ls) simp_all
  ultimately have "spells (Word m # List.map Literal (ls @ [l]) @ [Word w])
      (m @ concat (List.map (\<lambda>l. CHR '' '' # l) ls) @ CHR '' '' # l @ w)"
    using assms(1) by (simp add: spells_plain)
  with assms(4,5) show ?thesis unfolding metric_grammar_def by blast
qed

lemma metric_glued_or_equal:
  assumes "plain_word m" and "plain_word (''orequal'' @ w)" "w \<noteq> []"
    and "(operation, alternatives) \<in> set metric_operations"
    and "[l, ''than'', ''or'', ''equal''] \<in> set alternatives" "l \<in> {''greater'', ''lesser''}"
  shows "metric_grammar (m @ CHR '' '' # l @ '' than '' @ ''orequal'' @ w) (m, operation, [w])"
proof -
  have "plain_word w" using plain_word_suffix assms(2,3) by blast
  then have "spells (Literal ''or'' # Literal ''equal'' # [Word w]) (''or'' @ ''equal'' @ w @ [])"
    by (intro spells_here spells_plain spells_nothing) simp_all
  then have "spells (Word m # Literal l # Literal ''than'' # Literal ''or'' # Literal ''equal'' # [Word w])
      (m @ CHR '' '' # l @ CHR '' '' # ''than'' @ CHR '' '' # ''or'' @ ''equal'' @ w @ [])"
    using assms(1) by (intro spells_plain spells_keyword spells_space) simp_all
  then have "spells (Word m # List.map Literal [l, ''than'', ''or'', ''equal''] @ [Word w])
      (m @ CHR '' '' # l @ '' than '' @ ''orequal'' @ w)"
    by simp
  with assms(4,5) show ?thesis unfolding metric_grammar_def by blast
qed

lemma metric_glued_grammar:
  assumes "metric_valid c" and "metric_glued c t"
  shows "metric_grammar (metric_str c) t"
proof (cases c)
  case (EqualMetricConstraint m v p)
  with assms(2) obtain w where w: "v = ''not'' @ w" "w \<noteq> []" "t = (m, ''notequal'', [w])" by auto
  with EqualMetricConstraint assms(1) metric_valid_plain [of c m v]
    metric_glued_spells [of m "''not''" w "''notequal''" "[[''!=''], [''is'', ''not'']]" "[''is'']"]
  show ?thesis by (simp add: metric_operations_def)
next
  case (GreaterThanMetricConstraint m v p)
  with assms(2) obtain w where w: "v = ''orequal'' @ w" "w \<noteq> []"
    "t = (m, ''greaterthanorequal'', [w])" by auto
  with GreaterThanMetricConstraint assms(1) metric_valid_plain [of c m v]
    metric_glued_or_equal [of m w "''greaterthanorequal''"
      "[[''>=''], [''=>''], [''gte''], [''greater'', ''than'', ''or'', ''equal'']]" "''greater''"]
  show ?thesis by (simp add: metric_operations_def)
next
  case (LesserThanMetricConstraint m v p)
  with assms(2) obtain w where w: "v = ''orequal'' @ w" "w \<noteq> []"
    "t = (m, ''lesserthanorequal'', [w])" by auto
  with LesserThanMetricConstraint assms(1) metric_valid_plain [of c m v]
    metric_glued_or_equal [of m w "''lesserthanorequal''"
      "[[''<=''], [''=<''], [''lte''], [''lesser'', ''than'', ''or'', ''equal'']]" "''lesser''"]
  show ?thesis by (simp add: metric_operations_def)
qed (use assms(2) in simp_all)

lemma metric_of_tree_valid:
  assumes "metric_valid c"
  shows "\<exists>c'. metric_of_tree e (tree_of_metric c) = Inr c' \<and> metric_eq c c' \<and> metric_parsed c' = Some e"
  using assms
  by (cases c) (auto simp: metric_valid_def metric_of_tree_def validate_key_def first_value_def
      validated_value_def validate_value_def metric_eq_def)

lemma plain_documented: "plain_word ''greater''" "plain_word ''load''" "plain_word ''5''"
  by (simp_all add: plain_word_def is_token_char_def is_blank_def)

section \<open>Properties\<close>

text \<open>
  For a metric that the resource has and a value that is a number, exactly one of lesser,
  equal and greater holds, and the other three constraints are their negations.
\<close>

theorem metric_match_order:
  assumes "dict_get metrics m = Some ref" and "py_float v = Some x" and "x \<noteq> NaN"
  shows "\<exists>less eq greater.
    metric_match (LesserThanMetricConstraint m v p) metrics = Inr less \<and>
    metric_match (EqualMetricConstraint m v p) metrics = Inr eq \<and>
    metric_match (GreaterThanMetricConstraint m v p) metrics = Inr greater \<and>
    metric_match (NotEqualMetricConstraint m v p) metrics = Inr (\<not> eq) \<and>
    metric_match (GreaterThanOrEqualMetricConstraint m v p) metrics = Inr (\<not> less) \<and>
    metric_match (LesserThanOrEqualMetricConstraint m v p) metrics = Inr (\<not> greater) \<and>
    (less \<and> \<not> eq \<and> \<not> greater \<or> \<not> less \<and> eq \<and> \<not> greater \<or> \<not> less \<and> \<not> eq \<and> greater)"
  using assms by (cases x) (auto simp: compare_metric_def)

theorem metric_match_order_witness:
  "\<exists>greater. metric_match (GreaterThanMetricConstraint ''load'' ''5'' None)
      [(''load'', \<lparr>mref_name = ''load'', mref_weight = 7, mref_namespaced = False\<rparr>)] = Inr greater \<and>
    metric_match (LesserThanOrEqualMetricConstraint ''load'' ''5'' None)
      [(''load'', \<lparr>mref_name = ''load'', mref_weight = 7, mref_namespaced = False\<rparr>)] = Inr (\<not> greater)"
  using metric_match_order [of "[(''load'', \<lparr>mref_name = ''load'', mref_weight = 7, mref_namespaced = False\<rparr>)]"
      "''load''" "\<lparr>mref_name = ''load'', mref_weight = 7, mref_namespaced = False\<rparr>" "''5''" "Finite 5" None]
    py_float_examples(1) by auto

text \<open>
  The grammar reads the printed text of a valid metric constraint as that constraint and
  in no other way, unless its value starts with a keyword that completes a longer operation.
\<close>

theorem metric_text_readings:
  assumes "metric_valid c"
  shows "metric_grammar (metric_str c) t \<longleftrightarrow> t = tree_of_metric c \<or> metric_glued c t"
  using metric_str_trees [OF assms] metric_str_spells [OF assms] metric_glued_grammar [OF assms]
  by blast

theorem metric_text_readings_witness:
  "\<forall>t. metric_grammar ''a greater than b'' t \<longleftrightarrow> t = (''a'', ''greaterthan'', [''b''])"
proof
  fix t
  have "metric_valid (GreaterThanMetricConstraint ''a'' ''b'' None)"
    using plain_examples by (simp add: metric_valid_def)
  then show "metric_grammar ''a greater than b'' t \<longleftrightarrow> t = (''a'', ''greaterthan'', [''b''])"
    using metric_text_readings [of "GreaterThanMetricConstraint ''a'' ''b'' None" t] by simp
qed

text \<open>
  A metric constraint survives printing and parsing: whenever Lark keeps its promise on the
  printed text and no keyword is glued to the value, parsing returns an equal constraint.
\<close>

theorem metric_text_roundtrip:
  assumes "metric_valid c" and "parses_correctly metric_grammar grammar_parse (metric_str c)"
    and "\<forall>t. \<not> metric_glued c t"
  shows "\<exists>c'. metric_parse grammar_parse (metric_str c) = Inr c' \<and> metric_eq c c' \<and>
    metric_serialize c' = metric_str c"
proof -
  have "grammar_parse (metric_str c) \<noteq> None"
    using assms(2) metric_str_spells [OF assms(1)] unfolding parses_correctly_def
    by (metis option.case(1))
  then obtain t where t: "grammar_parse (metric_str c) = Some t" "metric_grammar (metric_str c) t"
    using assms(2) by (auto simp: parses_correctly_def)
  with assms(1,3) metric_str_trees have "t = tree_of_metric c" by blast
  with t(1) metric_of_tree_valid [OF assms(1), of "metric_str c"] show ?thesis
    by (auto simp: metric_parse_def metric_serialize_def)
qed

theorem metric_text_roundtrip_witness:
  "\<exists>c'. metric_parse (\<lambda>s. if s = ''a greater than b'' then Some (''a'', ''greaterthan'', [''b'']) else None)
      ''a greater than b'' = Inr c' \<and> metric_eq (GreaterThanMetricConstraint ''a'' ''b'' None) c'"
proof -
  have valid: "metric_valid (GreaterThanMetricConstraint ''a'' ''b'' None)"
    using plain_examples by (simp add: metric_valid_def)
  with metric_str_spells have "metric_grammar ''a greater than b'' (''a'', ''greaterthan'', [''b''])"
    by fastforce
  then show ?thesis
    using metric_text_roundtrip [OF valid,
      of "\<lambda>s. if s = ''a greater than b'' then Some (''a'', ''greaterthan'', [''b'']) else None"]
    by (auto simp: parses_correctly_def)
qed

text \<open>
  Forms that the documentation of the constraints gives as examples are not in the grammar:
  parsing them cannot succeed.
\<close>

theorem metric_documented_forms_rejected:
  "\<not> metric_grammar ''load is greater than 5'' t \<and> \<not> metric_grammar ''load equals 5'' t \<and>
   \<not> metric_grammar ''load not equal to 5'' t"
proof (intro conjI notI)
  assume "metric_grammar ''load is greater than 5'' t"
  then have "metric_grammar (''load'' @ CHR '' '' # ''is greater than 5'') t" by simp
  then obtain operation s w where "(operation, s) \<in> set (readings (CHR '' '' # ''is greater than 5''))"
    and w: "spells [Word w] s"
    using metric_grammar_readings plain_documented(2) by blast
  then have "s = '' greater than 5''" by (simp add: readings_simps)
  with w have "spells [Word w] (CHR '' '' # ''greater'' @ CHR '' '' # ''than 5'')" by simp
  then show False by (rule read_last_two_words [where x = "'' than ''" and v = "''5''"])
    (use plain_documented in simp_all)
next
  assume "metric_grammar ''load equals 5'' t"
  then have "metric_grammar (''load'' @ CHR '' '' # ''equals 5'') t" by simp
  then obtain operation s where "(operation, s) \<in> set (readings (CHR '' '' # ''equals 5''))"
    using metric_grammar_readings plain_documented(2) by blast
  then show False by (simp add: readings_simps)
next
  assume "metric_grammar ''load not equal to 5'' t"
  then have "metric_grammar (''load'' @ CHR '' '' # ''not equal to 5'') t" by simp
  then obtain operation s where "(operation, s) \<in> set (readings (CHR '' '' # ''not equal to 5''))"
    using metric_grammar_readings plain_documented(2) by blast
  then show False by (simp add: readings_simps)
qed

end
