(* ===== verification/Metrics.thy ===== *)
theory Metrics
  imports Krake_Data Metric_Constraint
begin

text \<open>
  The metrics providers of the scheduler, \<open>krake/krake/controller/scheduler/metrics.py\<close>:
  normalization of a metric value, the four provider clients and \<open>fetch_query\<close>.

  The HTTP and InfluxDB clients are third-party libraries: what they deliver is the parameter
  \<open>backend\<close>. JSON documents and Python's operations on them are modelled, because the code
  relies on which exception a malformed document raises.
\<close>

section \<open>JSON documents\<close>

datatype json =
    JNull
  | JBool bool
  | JNumber pyfloat
  | JString string
  | JList "json list"
  | JObject "(string \<times> json) list"

fun json_key :: "json \<Rightarrow> string \<Rightarrow> (exn, json) res" where
  "json_key (JObject d) k = (case dict_get d k of None \<Rightarrow> Inl KeyError | Some v \<Rightarrow> Inr v)"
| "json_key _ k = Inl TypeError"

text \<open>Indexing with a non-negative integer; an integer is not a key of a decoded object.\<close>

fun json_index :: "json \<Rightarrow> nat \<Rightarrow> (exn, json) res" where
  "json_index (JList xs) i = (if i < length xs then Inr (xs ! i) else Inl IndexError)"
| "json_index (JString s) i = (if i < length s then Inr (JString [s ! i]) else Inl IndexError)"
| "json_index (JObject d) i = Inl KeyError"
| "json_index _ i = Inl TypeError"

fun json_iterate :: "json \<Rightarrow> (exn, json list) res" where
  "json_iterate (JList xs) = Inr xs"
| "json_iterate (JString s) = Inr (map (\<lambda>c. JString [c]) s)"
| "json_iterate (JObject d) = Inr (map (\<lambda>(k, v). JString k) d)"
| "json_iterate _ = Inl TypeError"

fun json_truth :: "json \<Rightarrow> bool" where
  "json_truth JNull \<longleftrightarrow> False"
| "json_truth (JBool b) \<longleftrightarrow> b"
| "json_truth (JNumber x) \<longleftrightarrow> x \<noteq> Finite 0"
| "json_truth (JString s) \<longleftrightarrow> s \<noteq> []"
| "json_truth (JList xs) \<longleftrightarrow> xs \<noteq> []"
| "json_truth (JObject d) \<longleftrightarrow> d \<noteq> []"

fun json_float :: "json \<Rightarrow> (exn, pyfloat) res" where
  "json_float (JBool b) = Inr (Finite (if b then 1 else 0))"
| "json_float (JNumber x) = Inr x"
| "json_float (JString s) = (case py_float s of None \<Rightarrow> Inl ValueError | Some x \<Rightarrow> Inr x)"
| "json_float _ = Inl TypeError"

section \<open>Metrics and providers\<close>

record metric =
  metric_name :: string
  metric_namespace :: "string option"
  allowed_values :: "int list"
  metric_min :: real
  metric_max :: real
  provider_name :: string
  provider_metric :: string

datatype provider_spec =
    PrometheusSpec string
  | InfluxSpec string string string string
  | KafkaSpec string string string string
  | StaticSpec "(string, real) dict"

record query_result =
  qr_metric :: metric
  qr_weight :: real
  qr_value :: real

definition normalize :: "metric \<Rightarrow> pyfloat \<Rightarrow> (exn, real) res" where
  "normalize m v =
     (case v of
        Finite x \<Rightarrow>
          if \<not> (metric_min m \<le> x \<and> x \<le> metric_max m) then Inl MetricError
          else if allowed_values m \<noteq> [] \<and> x \<notin> real_of_int ` set (allowed_values m) then Inl MetricError
          else if metric_max m - metric_min m = 0 then Inl ZeroDivisionError
          else Inr ((x - metric_min m) / (metric_max m - metric_min m))
      | _ \<Rightarrow> Inl MetricError)"

text \<open>
  What a backend answers: the decoded body of the HTTP response (\<open>None\<close> for a client error or
  a timeout), or the records of the InfluxDB tables (\<open>None\<close> for any exception).
\<close>

record backend =
  http_get :: "string \<Rightarrow> string \<Rightarrow> json option"
  ksql_query :: "string \<Rightarrow> string \<Rightarrow> json option"
  influx_query :: "string \<Rightarrow> string \<Rightarrow> string \<Rightarrow> string \<Rightarrow> (string, json) dict list list option"

subsection \<open>Prometheus\<close>

fun find_sample :: "string \<Rightarrow> json list \<Rightarrow> (exn, pyfloat) res" where
  "find_sample n [] = Inl MetricError"
| "find_sample n (r # rs) =
     (if \<not> json_truth r then find_sample n rs
      else res_bind (json_key r ''metric'') (\<lambda>m. res_bind (json_key m ''__name__'') (\<lambda>x.
        if x = JString n then
          (case res_bind (json_key r ''value'') (\<lambda>v. res_bind (json_index v 1) json_float) of
             Inl TypeError \<Rightarrow> Inl MetricError
           | Inl ValueError \<Rightarrow> Inl MetricError
           | other \<Rightarrow> other)
        else find_sample n rs)))"

definition prometheus_query :: "backend \<Rightarrow> string \<Rightarrow> string \<Rightarrow> (exn, pyfloat) res" where
  "prometheus_query b url n =
     (case http_get b url n of
        None \<Rightarrow> Inl MetricsProviderError
      | Some body \<Rightarrow>
          res_bind (json_key body ''data'') (\<lambda>d. res_bind (json_key d ''result'') (\<lambda>r.
            res_bind (json_iterate r) (find_sample n))))"

subsection \<open>Kafka\<close>

definition ksql_text :: "string \<Rightarrow> string \<Rightarrow> string \<Rightarrow> string \<Rightarrow> string" where
  "ksql_text value_column table comparison_column n =
     ''SELECT '' @ value_column @ '' FROM '' @ table @ '' WHERE '' @ comparison_column @
     '' = '' @ [CHR 0x27] @ n @ [CHR 0x27] @ '';''"

definition kafka_query ::
  "backend \<Rightarrow> string \<Rightarrow> string \<Rightarrow> string \<Rightarrow> string \<Rightarrow> string \<Rightarrow> (exn, pyfloat) res" where
  "kafka_query b comparison_column value_column table url n =
     (case ksql_query b url (ksql_text value_column table comparison_column n) of
        None \<Rightarrow> Inl MetricsProviderError
      | Some body \<Rightarrow>
          (case res_bind (json_index body 1) (\<lambda>row. res_bind (json_key row ''row'') (\<lambda>r.
                  res_bind (json_key r ''columns'') (\<lambda>cs. res_bind (json_index cs 0) json_float))) of
             Inl IndexError \<Rightarrow> Inl MetricError
           | Inl KeyError \<Rightarrow> Inl MetricError
           | other \<Rightarrow> other))"

subsection \<open>InfluxDB\<close>

text \<open>The first record of the first table that has one; every exception is caught.\<close>

definition influx_result :: "(string, json) dict list list option \<Rightarrow> (exn, pyfloat) res" where
  "influx_result tables =
     (case tables of
        None \<Rightarrow> Inl MetricsProviderError
      | Some ts \<Rightarrow>
          (case concat ts of
             [] \<Rightarrow> Inl MetricError
           | record # _ \<Rightarrow>
               (case dict_get record ''_value'' of
                  None \<Rightarrow> Inl MetricsProviderError
                | Some v \<Rightarrow>
                    (case json_float v of
                       Inl _ \<Rightarrow> Inl MetricsProviderError
                     | Inr x \<Rightarrow> Inr x))))"

subsection \<open>Static values and the registry\<close>

definition static_query :: "(string, real) dict \<Rightarrow> string \<Rightarrow> (exn, pyfloat) res" where
  "static_query values n =
     (case dict_get values n of None \<Rightarrow> Inl MetricError | Some x \<Rightarrow> Inr (Finite x))"

fun provider_query :: "backend \<Rightarrow> provider_spec \<Rightarrow> metric \<Rightarrow> (exn, pyfloat) res" where
  "provider_query b (PrometheusSpec url) m = prometheus_query b url (provider_metric m)"
| "provider_query b (InfluxSpec url token org bucket) m =
     influx_result (influx_query b url org bucket (provider_metric m))"
| "provider_query b (KafkaSpec comparison_column value_column table url) m =
     kafka_query b comparison_column value_column table url (provider_metric m)"
| "provider_query b (StaticSpec values) m = static_query values (provider_metric m)"

definition fetch_query :: "backend \<Rightarrow> metric \<Rightarrow> provider_spec \<Rightarrow> real \<Rightarrow> (exn, query_result) res" where
  "fetch_query b m provider w =
     res_bind (provider_query b provider m) (\<lambda>v.
       res_bind (normalize m v) (\<lambda>x.
         Inr \<lparr>qr_metric = m, qr_weight = w, qr_value = x\<rparr>))"

section \<open>Normalized values\<close>

lemma normalize_Inr:
  "normalize m v = Inr x \<longleftrightarrow>
     (\<exists>y. v = Finite y \<and> metric_min m \<le> y \<and> y \<le> metric_max m \<and> metric_min m \<noteq> metric_max m \<and>
        (allowed_values m = [] \<or> y \<in> real_of_int ` set (allowed_values m)) \<and>
        x = (y - metric_min m) / (metric_max m - metric_min m))"
  by (cases v) (auto simp: normalize_def)

lemma unit_interval:
  fixes x :: real
  assumes "a \<le> x" and "x \<le> b" and "a \<noteq> b"
  shows "0 \<le> (x - a) / (b - a) \<and> (x - a) / (b - a) \<le> 1"
  using assms by (auto intro: divide_nonneg_nonneg simp: divide_le_eq_1)

lemma normalize_unit: "normalize m v = Inr x \<Longrightarrow> 0 \<le> x \<and> x \<le> 1"
  using unit_interval by (auto simp: normalize_Inr)

lemma normalize_errors:
  "normalize m v = Inl e \<Longrightarrow> e = MetricError \<or> e = ZeroDivisionError \<and> metric_min m = metric_max m"
  by (cases v) (auto simp: normalize_def split: if_splits)

lemma fetch_query_Inr:
  "fetch_query b m p w = Inr q \<Longrightarrow>
     qr_metric q = m \<and> qr_weight q = w \<and> 0 \<le> qr_value q \<and> qr_value q \<le> 1"
  by (auto simp: fetch_query_def res_simps dest: normalize_unit)

lemma influx_result_errors:
  "influx_result ts = Inl e \<Longrightarrow> e = MetricError \<or> e = MetricsProviderError"
  by (auto simp: influx_result_def split: option.splits list.splits sum.splits)

lemma static_query_errors: "static_query vs n = Inl e \<Longrightarrow> e = MetricError"
  by (auto simp: static_query_def split: option.splits)

section \<open>Properties\<close>

text \<open>
  A fetched metric has a value between 0 and 1: between distinct bounds normalization
  succeeds exactly on finite allowed values inside the bounds, its result lies in the unit
  interval and it keeps the order of values.
\<close>

theorem normalize_affine:
  assumes "metric_min m < metric_max m"
  shows "((\<exists>x. normalize m v = Inr x) \<longleftrightarrow>
      (\<exists>y. v = Finite y \<and> metric_min m \<le> y \<and> y \<le> metric_max m \<and>
         (allowed_values m = [] \<or> y \<in> real_of_int ` set (allowed_values m)))) \<and>
    (\<forall>x. normalize m v = Inr x \<longrightarrow> 0 \<le> x \<and> x \<le> 1) \<and>
    (\<forall>y y' x x'. normalize m (Finite y) = Inr x \<and> normalize m (Finite y') = Inr x' \<longrightarrow>
       (y \<le> y' \<longleftrightarrow> x \<le> x'))"
proof (intro conjI allI impI)
  show "(\<exists>x. normalize m v = Inr x) \<longleftrightarrow>
      (\<exists>y. v = Finite y \<and> metric_min m \<le> y \<and> y \<le> metric_max m \<and>
         (allowed_values m = [] \<or> y \<in> real_of_int ` set (allowed_values m)))"
    using assms by (auto simp: normalize_Inr)
next
  fix y y' x x'
  assume "normalize m (Finite y) = Inr x \<and> normalize m (Finite y') = Inr x'"
  with assms show "y \<le> y' \<longleftrightarrow> x \<le> x'" by (auto simp: normalize_Inr divide_le_cancel)
qed (use normalize_unit in blast)+

definition example_metric :: metric where
  "example_metric = \<lparr>metric_name = ''load'', metric_namespace = None, allowed_values = [],
     metric_min = 0, metric_max = 10, provider_name = ''p'', provider_metric = ''load''\<rparr>"

theorem normalize_affine_witness:
  "\<exists>x. normalize example_metric (Finite 4) = Inr x \<and> 0 \<le> x \<and> x \<le> 1"
  using normalize_affine [of example_metric "Finite 4"]
  by (fastforce simp: example_metric_def)

text \<open>
  Answers of a backend that the clients do not turn into a metric error: a Prometheus
  sample without a name (\<open>KeyError\<close>), a null column of a KSQL row (\<open>TypeError\<close>), and a
  metric whose bounds coincide (\<open>ZeroDivisionError\<close>).
\<close>

theorem fetch_query_unclassified_errors:
  "fetch_query \<lparr>http_get = \<lambda>_ _. Some (JObject [(''data'', JObject [(''result'',
        JList [JObject [(''metric'', JObject []), (''value'', JList [JNumber (Finite 0), JString ''5''])]])])]),
      ksql_query = \<lambda>_ _. None, influx_query = \<lambda>_ _ _ _. None\<rparr>
     example_metric (PrometheusSpec ''u'') 1 = Inl KeyError \<and>
   fetch_query \<lparr>http_get = \<lambda>_ _. None,
      ksql_query = \<lambda>_ _. Some (JList [JNull, JObject [(''row'', JObject [(''columns'', JList [JNull])])]]),
      influx_query = \<lambda>_ _ _ _. None\<rparr>
     example_metric (KafkaSpec ''c'' ''v'' ''t'' ''u'') 1 = Inl TypeError \<and>
   fetch_query \<lparr>http_get = \<lambda>_ _. None, ksql_query = \<lambda>_ _. None, influx_query = \<lambda>_ _ _ _. None\<rparr>
     (example_metric\<lparr>metric_max := 0\<rparr>) (StaticSpec [(''load'', 0)]) 1 = Inl ZeroDivisionError"
  by (simp add: fetch_query_def prometheus_query_def kafka_query_def static_query_def
      normalize_def example_metric_def)

end
