(* ===== verification/Label_Constraint.thy ===== *)
theory Label_Constraint
  imports Constraint_Grammar
begin

text \<open>
  Label constraints, class \<open>LabelConstraint\<close> and its subclasses of
  \<open>krake/krake/data/constraints.py\<close>: matching against labels, equality and hashing,
  printing, the construction of a constraint from a parse tree, and the serializer.

  The parser itself is the third-party library Lark; it is the parameter \<open>grammar_parse\<close>,
  which maps an expression to a parse tree or fails with \<open>UnexpectedInput\<close>. The grammar that
  the source gives to Lark is the relation \<open>label_grammar\<close> between expressions and trees.
\<close>

section \<open>Constraints\<close>

datatype label_constraint =
    EqualConstraint string string "string option"
  | NotEqualConstraint string string "string option"
  | InConstraint string "string list" "string option"
  | NotInConstraint string "string list" "string option"

fun label_parsed :: "label_constraint \<Rightarrow> string option" where
  "label_parsed (EqualConstraint l v p) = p"
| "label_parsed (NotEqualConstraint l v p) = p"
| "label_parsed (InConstraint l vs p) = p"
| "label_parsed (NotInConstraint l vs p) = p"

text \<open>A missing label is the \<open>KeyError\<close> that every \<open>match\<close> method turns into \<open>False\<close>.\<close>

fun label_match :: "label_constraint \<Rightarrow> (string, string) dict \<Rightarrow> bool" where
  "label_match (EqualConstraint l v p) lbls =
     (case dict_get lbls l of None \<Rightarrow> False | Some x \<Rightarrow> x = v)"
| "label_match (NotEqualConstraint l v p) lbls =
     (case dict_get lbls l of None \<Rightarrow> False | Some x \<Rightarrow> x \<noteq> v)"
| "label_match (InConstraint l vs p) lbls =
     (case dict_get lbls l of None \<Rightarrow> False | Some x \<Rightarrow> x \<in> set vs)"
| "label_match (NotInConstraint l vs p) lbls =
     (case dict_get lbls l of None \<Rightarrow> False | Some x \<Rightarrow> x \<notin> set vs)"

subsection \<open>Equality\<close>

text \<open>
  The classes: \<open>NotEqualConstraint\<close> is a subclass of \<open>EqualConstraint\<close>, \<open>NotInConstraint\<close> of
  \<open>InConstraint\<close>. Python's \<open>==\<close> asks the right operand first when its class is a proper
  subclass of the class of the left one.
\<close>

datatype label_class = Equal_class | NotEqual_class | In_class | NotIn_class

fun class_of_label :: "label_constraint \<Rightarrow> label_class" where
  "class_of_label (EqualConstraint l v p) = Equal_class"
| "class_of_label (NotEqualConstraint l v p) = NotEqual_class"
| "class_of_label (InConstraint l vs p) = In_class"
| "class_of_label (NotInConstraint l vs p) = NotIn_class"

definition label_subclass :: "label_class \<Rightarrow> label_class \<Rightarrow> bool" where
  "label_subclass a b \<longleftrightarrow>
     a = b \<or> (a = NotEqual_class \<and> b = Equal_class) \<or> (a = NotIn_class \<and> b = In_class)"

datatype label_tuple = Single_tuple string string | Values_tuple string "string list"

fun label_as_tuple :: "label_constraint \<Rightarrow> label_tuple" where
  "label_as_tuple (EqualConstraint l v p) = Single_tuple l v"
| "label_as_tuple (NotEqualConstraint l v p) = Single_tuple l v"
| "label_as_tuple (InConstraint l vs p) = Values_tuple l vs"
| "label_as_tuple (NotInConstraint l vs p) = Values_tuple l vs"

definition label_eq_method :: "label_constraint \<Rightarrow> label_constraint \<Rightarrow> bool" where
  "label_eq_method self other \<longleftrightarrow>
     label_subclass (class_of_label other) (class_of_label self) \<and>
     label_as_tuple self = label_as_tuple other"

definition label_eq :: "label_constraint \<Rightarrow> label_constraint \<Rightarrow> bool" where
  "label_eq x y \<longleftrightarrow>
     (if class_of_label x \<noteq> class_of_label y \<and> label_subclass (class_of_label y) (class_of_label x)
      then label_eq_method y x else label_eq_method x y)"

definition label_hash :: "(label_tuple \<Rightarrow> int) \<Rightarrow> label_constraint \<Rightarrow> int" where
  "label_hash h c = h (label_as_tuple c)"

subsection \<open>Printing\<close>

fun join_comma :: "string list \<Rightarrow> string" where
  "join_comma [] = []"
| "join_comma [v] = v"
| "join_comma (v # vs) = v @ '', '' @ join_comma vs"

fun label_str :: "label_constraint \<Rightarrow> string" where
  "label_str (EqualConstraint l v p) = l @ '' is '' @ v"
| "label_str (NotEqualConstraint l v p) = l @ '' is not '' @ v"
| "label_str (InConstraint l vs p) = l @ '' in ('' @ join_comma vs @ '')''"
| "label_str (NotInConstraint l vs p) = l @ '' not in ('' @ join_comma vs @ '')''"

subsection \<open>Construction from a parse tree\<close>

definition label_of_tree :: "string \<Rightarrow> parse_tree \<Rightarrow> (exn, label_constraint) res" where
  "label_of_tree expression tree =
     (case tree of (label, operation, values) \<Rightarrow>
        res_bind (validate_key label) (\<lambda>_.
          if operation = ''equal'' then
            res_bind (first_value values) (\<lambda>v. Inr (EqualConstraint label v (Some expression)))
          else if operation = ''notequal'' then
            res_bind (first_value values) (\<lambda>v. Inr (NotEqualConstraint label v (Some expression)))
          else if operation = ''in'' then
            res_bind (res_map validated_value values)
              (\<lambda>vs. Inr (InConstraint label vs (Some expression)))
          else if operation = ''notin'' then
            res_bind (res_map validated_value values)
              (\<lambda>vs. Inr (NotInConstraint label vs (Some expression)))
          else Inl ValueError))"

definition label_parse ::
  "(string \<Rightarrow> parse_tree option) \<Rightarrow> string \<Rightarrow> (exn, label_constraint) res" where
  "label_parse grammar_parse expression =
     (case grammar_parse expression of
        None \<Rightarrow> Inl UnexpectedInput
      | Some tree \<Rightarrow> label_of_tree expression tree)"

text \<open>The marshmallow field: only \<open>UnexpectedInput\<close> is turned into a validation error.\<close>

definition label_deserialize ::
  "(string \<Rightarrow> parse_tree option) \<Rightarrow> string option \<Rightarrow> (exn, label_constraint option) res" where
  "label_deserialize grammar_parse value =
     (case value of
        None \<Rightarrow> Inr None
      | Some expression \<Rightarrow>
          (case label_parse grammar_parse expression of
             Inl UnexpectedInput \<Rightarrow> Inl ValidationError
           | Inl e \<Rightarrow> Inl e
           | Inr c \<Rightarrow> Inr (Some c)))"

definition label_serialize :: "label_constraint \<Rightarrow> string" where
  "label_serialize c = (case label_parsed c of None \<Rightarrow> label_str c | Some p \<Rightarrow> p)"

section \<open>The grammar\<close>

text \<open>
  The values of a set: every value but the last is followed by a comma, any number of commas
  follows the last.
\<close>

fun value_list :: "string list \<Rightarrow> nat \<Rightarrow> terminal list" where
  "value_list [] n = replicate n (Literal '','')"
| "value_list [v] n = Word v # replicate n (Literal '','')"
| "value_list (v # vs) n = Word v # Literal '','' # value_list vs n"

inductive label_tokens :: "terminal list \<Rightarrow> parse_tree \<Rightarrow> bool" where
  tok_equal: "op \<in> {''=='', ''='', ''is''} \<Longrightarrow>
     label_tokens [Word k, Literal op, Word v] (k, ''equal'', [v])"
| tok_notequal: "label_tokens [Word k, Literal ''!='', Word v] (k, ''notequal'', [v])"
| tok_isnot: "label_tokens [Word k, Literal ''is'', Literal ''not'', Word v] (k, ''notequal'', [v])"
| tok_in: "vs \<noteq> [] \<Longrightarrow>
     label_tokens (Word k # Literal ''in'' # Literal ''('' # value_list vs n @ [Literal '')''])
       (k, ''in'', vs)"
| tok_notin: "vs \<noteq> [] \<Longrightarrow>
     label_tokens (Word k # Literal ''not'' # Literal ''in'' # Literal ''('' # value_list vs n @ [Literal '')''])
       (k, ''notin'', vs)"

definition label_grammar :: "string \<Rightarrow> parse_tree \<Rightarrow> bool" where
  "label_grammar s tree \<longleftrightarrow> (\<exists>toks. label_tokens toks tree \<and> spells toks s)"

fun tree_of_label :: "label_constraint \<Rightarrow> parse_tree" where
  "tree_of_label (EqualConstraint l v p) = (l, ''equal'', [v])"
| "tree_of_label (NotEqualConstraint l v p) = (l, ''notequal'', [v])"
| "tree_of_label (InConstraint l vs p) = (l, ''in'', vs)"
| "tree_of_label (NotInConstraint l vs p) = (l, ''notin'', vs)"

fun label_valid :: "label_constraint \<Rightarrow> bool" where
  "label_valid (EqualConstraint l v p) \<longleftrightarrow> label_key_regex l \<and> label_value_regex v"
| "label_valid (NotEqualConstraint l v p) \<longleftrightarrow> label_key_regex l \<and> label_value_regex v"
| "label_valid (InConstraint l vs p) \<longleftrightarrow> label_key_regex l \<and> vs \<noteq> [] \<and> list_all label_value_regex vs"
| "label_valid (NotInConstraint l vs p) \<longleftrightarrow>
     label_key_regex l \<and> vs \<noteq> [] \<and> list_all label_value_regex vs"

section \<open>Equality and matching\<close>

lemma label_eq_iff:
  "label_eq x y \<longleftrightarrow> class_of_label x = class_of_label y \<and> label_as_tuple x = label_as_tuple y"
  by (cases x; cases y) (auto simp: label_eq_def label_eq_method_def label_subclass_def)

lemma label_eq_match: "label_eq x y \<Longrightarrow> label_match x lbls = label_match y lbls"
  by (cases x; cases y) (auto simp: label_eq_iff split: option.split)

section \<open>Printed constraints are in the grammar\<close>

lemma label_grammarI: "label_tokens toks t \<Longrightarrow> spells toks s \<Longrightarrow> label_grammar s t"
  unfolding label_grammar_def by blast

lemma label_validD:
  "label_valid (EqualConstraint l v p) \<Longrightarrow> plain_word l \<and> plain_word v"
  "label_valid (NotEqualConstraint l v p) \<Longrightarrow> plain_word l \<and> plain_word v"
  "label_valid (InConstraint l vs p) \<Longrightarrow> plain_word l \<and> vs \<noteq> [] \<and> list_all plain_word vs"
  "label_valid (NotInConstraint l vs p) \<Longrightarrow> plain_word l \<and> vs \<noteq> [] \<and> list_all plain_word vs"
  by (auto simp: list_all_iff label_key_is_plain label_value_is_plain)

lemma spells_values:
  "vs \<noteq> [] \<Longrightarrow> list_all plain_word vs \<Longrightarrow> word_ends s \<Longrightarrow> spells ts s \<Longrightarrow>
     spells (value_list vs 0 @ ts) (join_comma vs @ s)"
proof (induction vs rule: join_comma.induct)
  case (2 v)
  then show ?case by (simp add: spells_plain)
next
  case (3 v w vs)
  then have "spells (value_list (w # vs) 0 @ ts) (join_comma (w # vs) @ s)" by simp
  then have "spells (Word v # Literal '','' # value_list (w # vs) 0 @ ts)
      (v @ CHR '','' # CHR '' '' # join_comma (w # vs) @ s)"
    using spells_here [OF spells_space, of _ _ "'',''"] 3 by (intro spells_plain) simp_all
  then show ?case by simp
qed simp

lemma spells_group:
  assumes "vs \<noteq> []" and "list_all plain_word vs"
  shows "spells (Literal ''('' # value_list vs 0 @ [Literal '')''])
    (CHR '' '' # CHR ''('' # join_comma vs @ '')'')"
proof -
  have "spells (value_list vs 0 @ [Literal '')'']) (join_comma vs @ '')'')"
    using spells_here [OF spells_nothing, of "'')''"] assms by (intro spells_values) simp_all
  then show ?thesis using spells_space [OF spells_here, of _ _ "''(''"] by simp
qed

lemma label_str_spells:
  assumes "label_valid c"
  shows "label_grammar (label_str c) (tree_of_label c)"
proof (cases c)
  case (EqualConstraint l v p)
  with assms have w: "plain_word l" "plain_word v" using label_validD by blast+
  have "spells [Word l, Literal ''is'', Word v] (l @ CHR '' '' # ''is'' @ CHR '' '' # v)"
    using w by (intro spells_plain spells_keyword spells_last_word) simp_all
  moreover have "label_tokens [Word l, Literal ''is'', Word v] (l, ''equal'', [v])"
    by (rule tok_equal) simp
  ultimately show ?thesis using EqualConstraint label_grammarI by simp
next
  case (NotEqualConstraint l v p)
  with assms have w: "plain_word l" "plain_word v" using label_validD by blast+
  have "spells [Word l, Literal ''is'', Literal ''not'', Word v]
      (l @ CHR '' '' # ''is'' @ CHR '' '' # ''not'' @ CHR '' '' # v)"
    using w by (intro spells_plain spells_keyword spells_last_word) simp_all
  with NotEqualConstraint show ?thesis using label_grammarI [OF tok_isnot] by simp
next
  case (InConstraint l vs p)
  with assms have w: "plain_word l" "vs \<noteq> []" "list_all plain_word vs"
    using label_validD by blast+
  have "spells (Word l # Literal ''in'' # Literal ''('' # value_list vs 0 @ [Literal '')''])
      (l @ CHR '' '' # ''in'' @ CHR '' '' # CHR ''('' # join_comma vs @ '')'')"
    using w by (intro spells_plain spells_keyword spells_group) simp_all
  with InConstraint w show ?thesis using label_grammarI [OF tok_in] by simp
next
  case (NotInConstraint l vs p)
  with assms have w: "plain_word l" "vs \<noteq> []" "list_all plain_word vs"
    using label_validD by blast+
  have "spells (Word l # Literal ''not'' # Literal ''in'' # Literal ''('' # value_list vs 0 @ [Literal '')''])
      (l @ CHR '' '' # ''not'' @ CHR '' '' # ''in'' @ CHR '' '' # CHR ''('' # join_comma vs @ '')'')"
    using w by (intro spells_plain spells_keyword spells_group) simp_all
  with NotInConstraint w show ?thesis using label_grammarI [OF tok_notin] by simp
qed

section \<open>Reading printed constraints\<close>

lemma value_list_sharp: "sharp (value_list vs n)"
  by (induction vs n rule: value_list.induct) (simp_all add: sharp_def list_all_iff is_blank_def)

lemma label_tokens_sharp: "label_tokens toks t \<Longrightarrow> sharp toks"
  by (induction rule: label_tokens.induct) (auto simp: is_blank_def value_list_sharp)

lemma read_separator:
  assumes "spells (Literal t # ts) (v @ s)" and "plain_word v" and "t \<in> {'','', '')''}"
  shows False
proof -
  obtain c r where c: "v = c # r" "is_token_char c" "\<not> is_blank c"
    using assms(2) plain_word_hd by blast
  then obtain s' where "c # r @ s = t @ s'"
    using read_literal [of t ts c "r @ s"] assms(1) by auto
  with c(2) assms(3) show False by (auto simp: is_token_char_def)
qed

lemma join_comma_first: "vs \<noteq> [] \<Longrightarrow> \<exists>s. join_comma vs = hd vs @ s"
  by (cases vs rule: join_comma.cases) auto

lemma value_list_first: "vs \<noteq> [] \<Longrightarrow> \<exists>ts. value_list vs n = Word (hd vs) # ts"
  by (cases "(vs, n)" rule: value_list.cases) auto

lemma read_values:
  "vs \<noteq> [] \<Longrightarrow> list_all plain_word vs \<Longrightarrow> ws \<noteq> [] \<Longrightarrow>
     spells (value_list ws n @ [Literal '')'']) (join_comma vs @ '')'') \<Longrightarrow> ws = vs"
proof (induction vs arbitrary: ws rule: join_comma.induct)
  case (2 v)
  show ?case
  proof (cases ws rule: join_comma.cases)
    case (2 w)
    with "2.prems" show ?thesis using read_word [of w _ v "'')''"] by simp
  next
    case (3 w w2 us)
    with "2.prems" have "spells (Literal '','' # value_list (w2 # us) n @ [Literal '')'']) '')''"
      using read_word [of w _ v "'')''"] by simp
    then show ?thesis by (auto dest!: read_literal simp: is_blank_def)
  qed (use "2.prems" in simp)
next
  case (3 v w vs)
  let ?rest = "join_comma (w # vs) @ '')''"
  have v: "plain_word v" "plain_word w" using "3.prems" by simp_all
  obtain s where s: "join_comma (w # vs) = w @ s" using join_comma_first [of "w # vs"] by auto
  show ?case
  proof (cases ws rule: join_comma.cases)
    case (2 u)
    with "3.prems" v have *: "spells (replicate n (Literal '','') @ [Literal '')'']) ('','' @ CHR '' '' # ?rest)"
      using read_word [of u _ v "'','' @ CHR '' '' # ?rest"] by simp
    show ?thesis
    proof (cases n)
      case 0
      with * show ?thesis using read_literal [of "'')''" _ "CHR '',''"] by (auto simp: is_blank_def)
    next
      case (Suc m)
      with * have "spells (replicate m (Literal '','') @ [Literal '')'']) (CHR '' '' # ?rest)"
        using read_literal [of "'',''" _ "CHR '',''"] by (auto simp: is_blank_def)
      then have "spells (replicate m (Literal '','') @ [Literal '')'']) (w @ s @ '')'')"
        using read_blank s by (auto simp: sharp_def is_blank_def list_all_iff)
      then show ?thesis using read_separator [OF _ v(2)] by (cases m) auto
    qed
  next
    case (3 u u2 us)
    with "3.prems" v have *: "u = v"
      "spells (Literal '','' # value_list (u2 # us) n @ [Literal '')'']) ('','' @ CHR '' '' # ?rest)"
      using read_word [of u _ v "'','' @ CHR '' '' # ?rest"] by simp_all
    then have "spells (value_list (u2 # us) n @ [Literal '')'']) (CHR '' '' # ?rest)"
      using read_literal [of "'',''" _ "CHR '',''"] by (auto simp: is_blank_def)
    then have "spells (value_list (u2 # us) n @ [Literal '')'']) ?rest"
      by (rule read_blank) (simp add: value_list_sharp is_blank_def)
    with "3.IH" [of "u2 # us"] "3.prems" 3 *(1) show ?thesis by simp
  qed (use "3.prems" in simp)
qed simp

inductive_cases label_tokensE: "label_tokens toks (k, operation, vs)"

lemma read_key:
  assumes "label_grammar (l @ CHR '' '' # s) t" and "plain_word l"
  obtains ts operation vs where "t = (l, operation, vs)"
    "label_tokens (Word l # ts) (l, operation, vs)" "sharp ts" "spells ts s"
proof -
  from assms(1) obtain toks where toks: "label_tokens toks t" "spells toks (l @ CHR '' '' # s)"
    unfolding label_grammar_def by blast
  obtain k operation vs where t: "t = (k, operation, vs)" by (cases t)
  from toks(1) obtain ts where ts: "toks = Word k # ts" unfolding t by (elim label_tokensE) auto
  with toks(2) assms(2) have "k = l" "spells ts (CHR '' '' # s)" using read_word by auto
  moreover have "sharp ts" using label_tokens_sharp [OF toks(1)] ts by simp
  ultimately show thesis using that t toks(1) ts read_blank by blast
qed

lemma read_label_keyword:
  assumes "spells (Literal op # ts) (kw @ CHR '' '' # s)" and "sharp ts"
    and "op \<in> {''=='', ''='', ''is'', ''!='', ''in'', ''not''}" and "kw \<in> {''is'', ''in'', ''not''}"
  shows "op = kw \<and> spells ts s"
  using read_keyword [OF assms(1,2)] assms(3,4) by (auto simp: is_blank_def)

lemma read_group:
  assumes "spells (Literal ''('' # value_list ws n @ [Literal '')'']) (CHR ''('' # join_comma vs @ '')'')"
    and "vs \<noteq> []" "list_all plain_word vs" "ws \<noteq> []"
  shows "ws = vs"
  using assms read_values read_literal [OF assms(1)] by (auto simp: is_blank_def)
lemma label_ops:
  assumes "label_tokens (Word l # ts) (k, operation, vs)"
  obtains (equal) op v where "ts = [Literal op, Word v]" "operation = ''equal''" "vs = [v]"
      "op \<in> {''=='', ''='', ''is''}"
  | (notequal) v where "ts = [Literal ''!='', Word v]" "operation = ''notequal''" "vs = [v]"
  | (isnot) v where "ts = [Literal ''is'', Literal ''not'', Word v]" "operation = ''notequal''"
      "vs = [v]"
  | (isin) n where "ts = Literal ''in'' # Literal ''('' # value_list vs n @ [Literal '')'']"
      "operation = ''in''" "vs \<noteq> []"
  | (notin) n where
      "ts = Literal ''not'' # Literal ''in'' # Literal ''('' # value_list vs n @ [Literal '')'']"
      "operation = ''notin''" "vs \<noteq> []"
  using assms by (cases rule: label_tokensE) auto

lemma label_grammar_equal:
  assumes "label_grammar (l @ CHR '' '' # ''is'' @ CHR '' '' # v) t" "plain_word l" "plain_word v"
  shows "t = (l, ''equal'', [v]) \<or>
    (\<exists>w. v = ''not'' @ w \<and> w \<noteq> [] \<and> t = (l, ''notequal'', [w]))"
  using assms(1,2)
proof (rule read_key)
  fix ts operation vs
  assume t: "t = (l, operation, vs)" and toks: "label_tokens (Word l # ts) (l, operation, vs)"
    and ts: "sharp ts" "spells ts (''is'' @ CHR '' '' # v)"
  note kw = read_label_keyword [where kw = "''is''"]
  obtain c r where v: "v = c # r" "\<not> is_blank c" using assms(3) plain_word_hd by blast
  have plain: "list_all (\<lambda>c. is_token_char c \<and> \<not> is_blank c) v"
    using assms(3) by (simp add: plain_word_def)
  from toks show ?thesis
  proof (cases rule: label_ops)
    case (equal op w)
    with ts kw [of op "[Word w]" v] have "spells [Word w] v" by auto
    with read_last_word plain equal t show ?thesis by blast
  next
    case (isnot w)
    with ts kw [of "''is''" "[Literal ''not'', Word w]" v]
    have "spells (Literal ''not'' # [Word w]) (c # r)" using v by (auto simp: is_blank_def)
    then obtain s' where s': "v = ''not'' @ s'" "spells [Word w] s'"
      using read_literal v by blast
    with plain have "w = s'" using read_last_word by simp
    moreover have "w \<noteq> []" using s'(2) by (auto elim: spells_WordE simp: is_word_token_def)
    ultimately show ?thesis using s' isnot t by simp
  next
    case (notequal w)
    with ts kw [of "''!=''" "[Word w]" v] show ?thesis by simp
  next
    case (isin n)
    with ts kw [of "''in''" "tl ts" v] show ?thesis by simp
  next
    case (notin n)
    with ts kw [of "''not''" "tl ts" v] show ?thesis by simp
  qed
qed

lemma label_grammar_notequal:
  assumes "label_grammar (l @ CHR '' '' # ''is'' @ CHR '' '' # ''not'' @ CHR '' '' # v) t"
    "plain_word l" "plain_word v"
  shows "t = (l, ''notequal'', [v])"
  using assms(1,2)
proof (rule read_key)
  fix ts operation vs
  assume t: "t = (l, operation, vs)" and toks: "label_tokens (Word l # ts) (l, operation, vs)"
    and ts: "sharp ts" "spells ts (''is'' @ CHR '' '' # ''not'' @ CHR '' '' # v)"
  note kw = read_label_keyword [where kw = "''is''"]
  note kw' = read_label_keyword [where kw = "''not''"]
  have plain: "list_all (\<lambda>c. is_token_char c \<and> \<not> is_blank c) v" "\<not> list_all is_blank (CHR '' '' # v)"
    using assms(3) by (cases v; simp add: plain_word_def)+
  have not: "plain_word ''not''" by (simp add: plain_word_def is_token_char_def is_blank_def)
  from toks show ?thesis
  proof (cases rule: label_ops)
    case (equal op w)
    with ts kw [of op "[Word w]" "''not'' @ CHR '' '' # v"]
    have "spells (Word w # []) (''not'' @ CHR '' '' # v)" by auto
    then have "spells [] (CHR '' '' # v)"
      using read_word [of w "[]" "''not''" "CHR '' '' # v"] not by simp
    with plain(2) show ?thesis by (auto elim: spells_NilE)
  next
    case (isnot w)
    with ts kw [of "''is''" "[Literal ''not'', Word w]" "''not'' @ CHR '' '' # v"]
    have "spells [Literal ''not'', Word w] (''not'' @ CHR '' '' # v)"
      by (auto simp: is_blank_def)
    with kw' [of "''not''" "[Word w]" v] have "spells [Word w] v" by simp
    with read_last_word plain isnot t show ?thesis by blast
  next
    case (notequal w)
    with ts kw [of "''!=''" "[Word w]" "''not'' @ CHR '' '' # v"] show ?thesis by simp
  next
    case (isin n)
    with ts kw [of "''in''" "tl ts" "''not'' @ CHR '' '' # v"] show ?thesis by simp
  next
    case (notin n)
    with ts kw [of "''not''" "tl ts" "''not'' @ CHR '' '' # v"] show ?thesis by simp
  qed
qed

lemma label_grammar_in:
  assumes "label_grammar (l @ CHR '' '' # ''in'' @ CHR '' '' # CHR ''('' # join_comma vs @ '')'') t"
    "plain_word l" "vs \<noteq> []" "list_all plain_word vs"
  shows "t = (l, ''in'', vs)"
  using assms(1,2)
proof (rule read_key)
  fix ts operation ws
  let ?rest = "CHR ''('' # join_comma vs @ '')''"
  assume t: "t = (l, operation, ws)" and toks: "label_tokens (Word l # ts) (l, operation, ws)"
    and ts: "sharp ts" "spells ts (''in'' @ CHR '' '' # ?rest)"
  note kw = read_label_keyword [where kw = "''in''"]
  from toks show ?thesis
  proof (cases rule: label_ops)
    case (equal op w)
    with ts kw [of op "[Word w]" ?rest] show ?thesis by auto
  next
    case (isnot w)
    with ts kw [of "''is''" "tl ts" ?rest] show ?thesis by simp
  next
    case (notequal w)
    with ts kw [of "''!=''" "tl ts" ?rest] show ?thesis by simp
  next
    case (isin n)
    with ts kw [of "''in''" "tl ts" ?rest] have "spells (tl ts) ?rest" by simp
    with isin have "ws = vs" using read_group assms(3,4) by simp
    with isin t show ?thesis by simp
  next
    case (notin n)
    with ts kw [of "''not''" "tl ts" ?rest] show ?thesis by simp
  qed
qed

lemma label_grammar_notin:
  assumes "label_grammar (l @ CHR '' '' # ''not'' @ CHR '' '' # ''in'' @ CHR '' '' # CHR ''('' #
      join_comma vs @ '')'') t"
    "plain_word l" "vs \<noteq> []" "list_all plain_word vs"
  shows "t = (l, ''notin'', vs)"
  using assms(1,2)
proof (rule read_key)
  fix ts operation ws
  let ?grp = "CHR ''('' # join_comma vs @ '')''"
  let ?rest = "''in'' @ CHR '' '' # ?grp"
  assume t: "t = (l, operation, ws)" and toks: "label_tokens (Word l # ts) (l, operation, ws)"
    and ts: "sharp ts" "spells ts (''not'' @ CHR '' '' # ?rest)"
  note kw = read_label_keyword [where kw = "''not''"]
  from toks show ?thesis
  proof (cases rule: label_ops)
    case (equal op w)
    with ts kw [of op "[Word w]" ?rest] show ?thesis by auto
  next
    case (isnot w)
    with ts kw [of "''is''" "tl ts" ?rest] show ?thesis by simp
  next
    case (notequal w)
    with ts kw [of "''!=''" "tl ts" ?rest] show ?thesis by simp
  next
    case (isin n)
    with ts kw [of "''in''" "tl ts" ?rest] show ?thesis by simp
  next
    case (notin n)
    with ts kw [of "''not''" "tl ts" ?rest] have "spells (tl ts) ?rest" by simp
    with notin ts read_label_keyword [of "''in''" "tl (tl ts)" "''in''" ?grp]
    have "spells (tl (tl ts)) ?grp" by simp
    with notin have "ws = vs" using read_group assms(3,4) by simp
    with notin t show ?thesis by simp
  qed
qed

lemma label_str_trees:
  assumes "label_valid c" and "label_grammar (label_str c) t"
  shows "t = tree_of_label c \<or>
    (\<exists>l w p. c = EqualConstraint l (''not'' @ w) p \<and> w \<noteq> [] \<and> t = (l, ''notequal'', [w]))"
proof (cases c)
  case (EqualConstraint l v p)
  with assms label_grammar_equal [of l v t] label_validD(1) [of l v p] show ?thesis by auto
next
  case (NotEqualConstraint l v p)
  with assms label_grammar_notequal [of l v t] label_validD(2) [of l v p] show ?thesis by auto
next
  case (InConstraint l vs p)
  with assms label_grammar_in [of l vs t] label_validD(3) [of l vs p] show ?thesis by auto
next
  case (NotInConstraint l vs p)
  with assms label_grammar_notin [of l vs t] label_validD(4) [of l vs p] show ?thesis by auto
qed

lemma label_grammar_glued_not:
  assumes "plain_word l" "plain_word (''not'' @ w)" "w \<noteq> []"
  shows "label_grammar (l @ '' is '' @ ''not'' @ w) (l, ''notequal'', [w])"
proof -
  have "plain_word w" using plain_word_suffix assms(2,3) by blast
  then have "spells (Literal ''not'' # [Word w]) (''not'' @ w @ [])"
    by (intro spells_here spells_plain spells_nothing) simp_all
  then have "spells [Word l, Literal ''is'', Literal ''not'', Word w]
      (l @ CHR '' '' # ''is'' @ CHR '' '' # ''not'' @ w @ [])"
    using assms by (intro spells_plain spells_keyword spells_space) simp_all
  then show ?thesis using label_grammarI [OF tok_isnot] by simp
qed

section \<open>Validation of parsed constraints\<close>

lemma label_of_tree_valid:
  assumes "label_valid c"
  shows "\<exists>c'. label_of_tree e (tree_of_label c) = Inr c' \<and> label_eq c c' \<and> label_parsed c' = Some e"
  using assms
  by (cases c) (auto simp: label_of_tree_def res_simps validate_key_def first_value_def
      validated_value_def validate_value_def label_eq_iff res_map_validated)

lemma label_grammar_tree:
  assumes "label_grammar e t"
  obtains (one) k v where "t = (k, ''equal'', [v]) \<or> t = (k, ''notequal'', [v])"
  | (many) k vs where "t = (k, ''in'', vs) \<or> t = (k, ''notin'', vs)" "vs \<noteq> []"
  using assms unfolding label_grammar_def by (auto elim: label_tokens.cases)

lemma label_of_tree_grammar:
  assumes "label_grammar e t"
  shows "label_of_tree e t = Inl ValidationError \<or>
    (\<exists>c. label_of_tree e t = Inr c \<and> label_valid c \<and> tree_of_label c = t \<and> label_parsed c = Some e)"
proof -
  have many: "res_map validated_value vs = Inl ValidationError \<or> res_map validated_value vs = Inr vs" for vs
    by (induction vs) (auto simp: validated_value_def validate_value_def)
  from assms show ?thesis
  proof (cases rule: label_grammar_tree)
    case (one k v)
    then show ?thesis
      by (cases "label_key_regex k"; cases "label_value_regex v")
        (auto simp: label_of_tree_def first_value_def validated_value_def validate_value_def validate_key_def)
  next
    case (many k vs)
    then show ?thesis using \<open>\<And>vs. res_map validated_value vs = _ \<or> _\<close> [of vs] res_map_validated [of vs vs]
      by (cases "label_key_regex k") (auto simp: label_of_tree_def validate_key_def)
  qed
qed

section \<open>Properties\<close>

text \<open>
  Two label constraints are equal exactly when they stand for the same tree (the asymmetric
  \<open>isinstance\<close> test is repaired by Python's reflected comparison with subclasses), so that
  equal constraints select the same resources and have the same hash, whatever text they were
  parsed from.
\<close>

theorem label_equality:
  "(label_eq x y \<longleftrightarrow> tree_of_label x = tree_of_label y) \<and>
   (label_eq x y \<longrightarrow> (\<forall>lbls. label_match x lbls = label_match y lbls) \<and> label_hash h x = label_hash h y)"
proof -
  have "label_eq x y \<longleftrightarrow> tree_of_label x = tree_of_label y"
    by (cases x; cases y) (auto simp: label_eq_iff)
  moreover have "label_hash h x = label_hash h y" if "label_eq x y"
    using that by (simp add: label_hash_def label_eq_iff)
  ultimately show ?thesis using label_eq_match [of x y] by simp
qed

theorem label_equality_witness:
  "label_match (EqualConstraint ''a'' ''b'' None) [(''a'', ''b'')] =
     label_match (EqualConstraint ''a'' ''b'' (Some ''a = b'')) [(''a'', ''b'')] \<and>
   label_eq (EqualConstraint ''a'' ''b'' None) (EqualConstraint ''a'' ''b'' (Some ''a = b''))"
  using label_equality [of "EqualConstraint ''a'' ''b'' None"
    "EqualConstraint ''a'' ''b'' (Some ''a = b'')" undefined] by simp

text \<open>
  The grammar reads the text of a valid constraint in exactly one way, as that constraint,
  but for one case: in \<open>key is notvalue\<close> the word after \<open>is\<close> may also be taken apart, so
  that the grammar is ambiguous there and has the opposite constraint as a second reading.
\<close>

theorem label_text_readings:
  assumes "label_valid c"
  shows "label_grammar (label_str c) t \<longleftrightarrow>
    t = tree_of_label c \<or>
    (\<exists>l w p. c = EqualConstraint l (''not'' @ w) p \<and> w \<noteq> [] \<and> t = (l, ''notequal'', [w]))"
proof
  assume "t = tree_of_label c \<or>
    (\<exists>l w p. c = EqualConstraint l (''not'' @ w) p \<and> w \<noteq> [] \<and> t = (l, ''notequal'', [w]))"
  then show "label_grammar (label_str c) t"
  proof
    assume "t = tree_of_label c"
    with assms show ?thesis using label_str_spells by simp
  next
    assume "\<exists>l w p. c = EqualConstraint l (''not'' @ w) p \<and> w \<noteq> [] \<and> t = (l, ''notequal'', [w])"
    then obtain l w p where c: "c = EqualConstraint l (''not'' @ w) p" "w \<noteq> []"
      "t = (l, ''notequal'', [w])" by blast
    with assms show ?thesis
      using label_validD(1) [of l "''not'' @ w" p] label_grammar_glued_not [of l w] by simp
  qed
qed (use label_str_trees assms in blast)

theorem label_text_readings_witness:
  "label_grammar ''a is notb'' (''a'', ''equal'', [''notb'']) \<and>
   label_grammar ''a is notb'' (''a'', ''notequal'', [''b''])"
proof -
  have "label_valid (EqualConstraint ''a'' ''notb'' None)" using plain_examples by simp
  then show ?thesis using label_text_readings [of "EqualConstraint ''a'' ''notb'' None"] by simp
qed

text \<open>
  C39. A constraint built in the program survives printing and parsing: whenever Lark keeps its
  promise on the printed text, and the text is not the ambiguous one, parsing returns an equal
  constraint.
\<close>

theorem label_text_roundtrip:
  assumes "label_valid c" and "parses_correctly label_grammar grammar_parse (label_str c)"
    and "\<forall>l w p. c \<noteq> EqualConstraint l (''not'' @ w) p"
  shows "\<exists>c'. label_parse grammar_parse (label_str c) = Inr c' \<and> label_eq c c'"
proof -
  have "grammar_parse (label_str c) \<noteq> None"
    using assms(2) label_str_spells [OF assms(1)] unfolding parses_correctly_def
    by (metis option.case(1))
  then obtain t where t: "grammar_parse (label_str c) = Some t" "label_grammar (label_str c) t"
    using assms(2) by (auto simp: parses_correctly_def)
  with assms(1,3) label_str_trees have "t = tree_of_label c" by blast
  with t(1) assms(1) label_of_tree_valid show ?thesis by (fastforce simp: label_parse_def)
qed

theorem label_text_roundtrip_witness:
  "\<exists>c'. label_parse (\<lambda>s. if s = ''a in (b)'' then Some (''a'', ''in'', [''b'']) else None)
      ''a in (b)'' = Inr c' \<and> label_eq (InConstraint ''a'' [''b''] None) c'"
proof -
  have valid: "label_valid (InConstraint ''a'' [''b''] None)" using plain_examples by simp
  with label_str_spells have "label_grammar ''a in (b)'' (''a'', ''in'', [''b''])" by fastforce
  then show ?thesis
    using label_text_roundtrip [OF valid,
      of "\<lambda>s. if s = ''a in (b)'' then Some (''a'', ''in'', [''b'']) else None"]
    by (simp add: parses_correctly_def)
qed

text \<open>
  Deserialization of an expression either reports a validation error or returns a
  constraint with valid keys and values that the grammar reads in the expression; the branches
  for an unknown operation and for missing values are unreachable, and serialization gives the
  expression back unchanged.
\<close>

theorem label_deserialize_expression:
  assumes "parses_correctly label_grammar grammar_parse e"
  shows "label_deserialize grammar_parse (Some e) = Inl ValidationError \<or>
    (\<exists>c. label_deserialize grammar_parse (Some e) = Inr (Some c) \<and> label_valid c \<and>
       label_grammar e (tree_of_label c) \<and> label_serialize c = e)"
proof (cases "grammar_parse e")
  case (Some t)
  with assms have "label_grammar e t" by (simp add: parses_correctly_def)
  with label_of_tree_grammar [of e t] Some show ?thesis
    by (auto simp: label_deserialize_def label_parse_def label_serialize_def)
qed (simp add: label_deserialize_def label_parse_def)

theorem label_deserialize_expression_witness:
  "\<exists>c. label_deserialize (\<lambda>s. if s = ''a in (b)'' then Some (''a'', ''in'', [''b'']) else None)
      (Some ''a in (b)'') = Inr (Some c) \<and> label_serialize c = ''a in (b)''"
proof -
  let ?g = "\<lambda>s. if s = ''a in (b)'' then Some (''a'', ''in'', [''b'']) else None"
  have valid: "label_valid (InConstraint ''a'' [''b''] None)" using plain_examples by simp
  with label_str_spells have "label_grammar ''a in (b)'' (''a'', ''in'', [''b''])" by fastforce
  then have "parses_correctly label_grammar ?g ''a in (b)''" by (simp add: parses_correctly_def)
  moreover have "label_deserialize ?g (Some ''a in (b)'') \<noteq> Inl ValidationError"
    using plain_examples by (simp add: label_deserialize_def label_parse_def label_of_tree_def
        validate_key_def validated_value_def validate_value_def)
  ultimately show ?thesis using label_deserialize_expression [of ?g "''a in (b)''"] by blast
qed

end
