(* ===== verification/Scheduler_Data.thy ===== *)
theory Scheduler_Data
  imports Metrics Label_Constraint
begin

text \<open>
  The resources that the scheduler works on, as far as it reads or writes them: applications
  and Kubernetes clusters (\<open>krake/krake/data/kubernetes.py\<close>), clouds
  (\<open>data/infrastructure.py\<close>), OpenStack projects and Magnum clusters
  (\<open>data/openstack.py\<close>). Each is the \<open>resource\<close> of the core data model with the fields of
  its specification and status. A Python value that may be \<open>None\<close> is an option.
\<close>

section \<open>Constraints of resources\<close>

record cloud_constraints =
  cloud_labels :: "label_constraint list option"
  cloud_metrics :: "metric_constraint list option"

text \<open>\<open>ClusterCloudConstraints\<close>; the outer option is \<open>spec.constraints\<close> itself.\<close>

type_synonym cluster_cloud_constraints = "cloud_constraints option option"

record cluster_constraints =
  cluster_labels :: "label_constraint list option"
  cluster_custom_resources :: "string list"
  cluster_metrics :: "metric_constraint list option"

record constraints =
  cluster_part :: "cluster_constraints option"
  migration :: bool

section \<open>States\<close>

datatype application_state =
    App_PENDING | App_CREATING | App_RUNNING | App_RECONCILING | App_TRANSLATING | App_RETRYING
  | App_RESTARTING | App_WAITING_FOR_CLEANING | App_READY_FOR_ACTION | App_MIGRATING
  | App_WAITING_FOR_CLUSTER_CREATION | App_DELETING | App_DELETED | App_DEGRADED | App_FAILED
  | App_COMPLETED

datatype cluster_state =
    Cl_PENDING | Cl_ONLINE | Cl_CONNECTING | Cl_OFFLINE | Cl_UNHEALTHY | Cl_NOTREADY
  | Cl_FAILING_METRICS | Cl_CREATING | Cl_RECONCILING | Cl_DELETING | Cl_FAILING_RECONCILIATION
  | Cl_FAILED | Cl_DEGRADED

datatype cloud_state = Cloud_ONLINE | Cloud_FAILING_METRICS

datatype project_state = Project_ONLINE | Project_FAILING_METRICS

datatype magnum_state =
    Magnum_PENDING | Magnum_CREATING | Magnum_RUNNING | Magnum_RECONCILING | Magnum_DELETING
  | Magnum_FAILED

section \<open>Resources\<close>

record application = resource +
  app_constraints :: "constraints option"
  app_backoff :: int
  app_backoff_delay :: int
  app_backoff_limit :: int
  auto_cluster_create :: bool
  app_state :: application_state
  app_reason :: "reason_code option"
  kube_controller_triggered :: "time option"
  app_scheduled :: "time option"
  app_scheduled_to :: "resource_ref option"
  app_retries :: "int option"
  scheduled_retry :: "time option"
  auto_cluster_create_started :: "string option"
  migration_timeout :: int

record cluster = resource +
  has_kubeconfig :: bool
  custom_resources :: "string list"
  cl_constraints :: cluster_cloud_constraints
  cl_metrics :: "metric_ref list"
  inherit_metrics :: bool
  auto_generated :: bool
  cl_state :: cluster_state
  cl_reason :: "reason_code option"
  cl_metrics_reasons :: "(string, reason_code) dict"
  cl_scheduled_to :: "resource_ref option"

text \<open>A \<open>Cloud\<close> or a \<open>GlobalCloud\<close>, told apart by their kind.\<close>

record cloud = resource +
  cloud_type :: string
  openstack_metrics :: "metric_ref list"
  cloud_status :: cloud_state
  cloud_metrics_reasons :: "(string, reason_code) dict"

record project = resource +
  project_template :: string
  project_metrics :: "metric_ref list"
  project_status :: project_state
  project_metrics_reasons :: "(string, reason_code) dict"

record magnum_cluster = resource +
  magnum_constraints :: "label_constraint list option option option"
  magnum_metrics :: "metric_ref list"
  magnum_status :: magnum_state
  magnum_reason :: "reason_code option"
  magnum_project :: "resource_ref option"

abbreviation cluster_kind :: string where "cluster_kind \<equiv> ''Cluster''"
abbreviation project_kind :: string where "project_kind \<equiv> ''Project''"
abbreviation cloud_kind :: string where "cloud_kind \<equiv> ''Cloud''"
abbreviation global_cloud_kind :: string where "global_cloud_kind \<equiv> ''GlobalCloud''"

section \<open>Errors of the controller\<close>

text \<open>
  The codes of the exceptions that derive from \<open>ControllerError\<close>; any other exception is not
  caught by the workers.
\<close>

fun controller_error :: "exn \<Rightarrow> reason_code option option" where
  "controller_error WaitingOnCluster = Some (Some NO_SUITABLE_RESOURCE)"
| "controller_error NoClusterFound = Some (Some NO_SUITABLE_RESOURCE)"
| "controller_error NoProjectFound = Some (Some NO_SUITABLE_RESOURCE)"
| "controller_error NoCloudFound = Some (Some NO_SUITABLE_RESOURCE)"
| "controller_error BareControllerError = Some None"
| "controller_error InvalidStateError = Some (Some INTERNAL_ERROR)"
| "controller_error MigrationError = Some (Some INTERNAL_ERROR)"
| "controller_error MaxTriesError = Some (Some INTERNAL_ERROR)"
| "controller_error InvalidManifestError = Some (Some INVALID_RESOURCE)"
| "controller_error InvalidCustomResourceDefinitionError = Some (Some INVALID_CUSTOM_RESOURCE)"
| "controller_error UnsupportedResourceError = Some (Some UNSUPPORTED_RESOURCE)"
| "controller_error CreateFailed = Some (Some CREATE_FAILED)"
| "controller_error ReconcileFailed = Some (Some RECONCILE_FAILED)"
| "controller_error DeleteFailed = Some (Some DELETE_FAILED)"
| "controller_error InvalidClusterTemplateType = Some (Some INVALID_CLUSTER_TEMPLATE)"
| "controller_error InfrastructureProviderCreateError = Some (Some CREATE_FAILED)"
| "controller_error InfrastructureProviderReconcileError = Some (Some RECONCILE_FAILED)"
| "controller_error InfrastructureProviderReconfigureError = Some (Some RECONFIGURE_FAILED)"
| "controller_error InfrastructureProviderDeleteError = Some (Some DELETE_FAILED)"
| "controller_error InfrastructureProviderRetrieveError = Some (Some RETRIEVE_FAILED)"
| "controller_error InfrastructureProviderNotFoundError = Some (Some NOT_FOUND)"
| "controller_error InvalidResourceError = Some (Some INVALID_RESOURCE)"
| "controller_error _ = None"

section \<open>The identity of a resource\<close>

text \<open>What changes of the specification or the status keep.\<close>

definition same_identity :: "'a resource_scheme \<Rightarrow> 'a resource_scheme \<Rightarrow> bool" where
  "same_identity c c' \<longleftrightarrow> api c = api c' \<and> kind c = kind c' \<and> metadata c = metadata c'"

lemma same_identity_ref: "same_identity c c' \<Longrightarrow> resource_ref c = resource_ref c'"
  by (simp add: same_identity_def resource_ref_def)

lemma same_identity_refl [simp]: "same_identity c c"
  by (simp add: same_identity_def)

lemma same_identity_trans: "same_identity a b \<Longrightarrow> same_identity b c \<Longrightarrow> same_identity a c"
  by (simp add: same_identity_def)

end
