(* ===== verification/Scheduler_Constraints.thy ===== *)
theory Scheduler_Constraints
  imports Scheduler_Data
begin

text \<open>
  Evaluation of the scheduling constraints,
  \<open>krake/krake/controller/scheduler/constraints.py\<close>: which clusters, clouds and projects
  fulfil the constraints of an application, a cluster or a Magnum cluster.
\<close>

section \<open>Destinations\<close>

text \<open>
  What the conditions read of a destination: its name, its labels, and the custom resources of
  its specification. Only clusters have the last; for a cloud the access raises.
\<close>

record destination =
  dest_name :: string
  dest_labels :: "(string, string) dict"
  dest_custom_resources :: "string list option"

definition cluster_destination :: "cluster \<Rightarrow> destination" where
  "cluster_destination c =
     \<lparr>dest_name = name (metadata c), dest_labels = labels (metadata c),
      dest_custom_resources = Some (custom_resources c)\<rparr>"

definition cloud_destination :: "cloud \<Rightarrow> destination" where
  "cloud_destination c =
     \<lparr>dest_name = name (metadata c), dest_labels = labels (metadata c),
      dest_custom_resources = None\<rparr>"

section \<open>Conditions\<close>

type_synonym fetched_metrics = "(string, query_result list) dict"

definition condition_custom_resources :: "string \<Rightarrow> destination \<Rightarrow> (exn, bool) res" where
  "condition_custom_resources c d =
     (case dest_custom_resources d of
        None \<Rightarrow> Inl AttributeError
      | Some rs \<Rightarrow> Inr (c \<in> set rs))"

definition condition_label :: "label_constraint \<Rightarrow> destination \<Rightarrow> (exn, bool) res" where
  "condition_label c d = Inr (label_match c (dest_labels d))"

definition metric_refs :: "query_result list \<Rightarrow> (string, metric_ref) dict" where
  "metric_refs ms =
     fold (\<lambda>q refs. dict_set (metric_name (qr_metric q))
       \<lparr>mref_name = metric_name (qr_metric q), mref_weight = qr_weight q * qr_value q,
        mref_namespaced = (metric_namespace (qr_metric q) \<notin> {None, Some []})\<rparr> refs) ms []"

definition condition_metric ::
  "metric_constraint \<Rightarrow> destination \<Rightarrow> fetched_metrics \<Rightarrow> (exn, bool) res" where
  "condition_metric c d fetched =
     (case dict_get fetched (dest_name d) of
        None \<Rightarrow> Inl KeyError
      | Some ms \<Rightarrow> metric_match c (metric_refs ms))"

section \<open>Evaluation\<close>

text \<open>
  The constraint tuples of the source: a kind, its values (possibly \<open>None\<close>) and its condition.
  The loop of \<open>_evaluate\<close> stops at the first value that does not match.
\<close>

datatype resource_constraint =
    Label_constraints "label_constraint list option"
  | Custom_resource_constraints "string list option"
  | Metric_constraints "metric_constraint list option"

abbreviation each :: "('a \<Rightarrow> (exn, bool) res) \<Rightarrow> 'a list option \<Rightarrow> (exn, bool) res" where
  "each p vs \<equiv> (case vs of None \<Rightarrow> Inr True | Some xs \<Rightarrow> res_all p xs)"

fun evaluate_one :: "destination \<Rightarrow> fetched_metrics \<Rightarrow> resource_constraint \<Rightarrow> (exn, bool) res" where
  "evaluate_one d fetched (Label_constraints vs) = each (\<lambda>v. condition_label v d) vs"
| "evaluate_one d fetched (Custom_resource_constraints vs) =
     each (\<lambda>v. condition_custom_resources v d) vs"
| "evaluate_one d fetched (Metric_constraints vs) = each (\<lambda>v. condition_metric v d fetched) vs"

definition evaluate ::
  "destination \<Rightarrow> resource_constraint list \<Rightarrow> fetched_metrics \<Rightarrow> (exn, bool) res" where
  "evaluate d cs fetched = res_all (evaluate_one d fetched) cs"

definition match_application_constraints ::
  "application \<Rightarrow> destination \<Rightarrow> fetched_metrics \<Rightarrow> (exn, bool) res" where
  "match_application_constraints app d fetched =
     (case app_constraints app of
        None \<Rightarrow> Inr True
      | Some cs \<Rightarrow>
          (case cluster_part cs of
             None \<Rightarrow> Inr True
           | Some c \<Rightarrow>
               evaluate d
                 [Label_constraints (cluster_labels c),
                  Custom_resource_constraints (Some (cluster_custom_resources c)),
                  Metric_constraints (cluster_metrics c)] fetched))"

definition match_cluster_constraints :: "cluster \<Rightarrow> cloud \<Rightarrow> fetched_metrics \<Rightarrow> (exn, bool) res" where
  "match_cluster_constraints cl c fetched =
     (case cl_constraints cl of
        Some (Some cs) \<Rightarrow>
          evaluate (cloud_destination c)
            [Label_constraints (cloud_labels cs), Metric_constraints (cloud_metrics cs)] fetched
      | _ \<Rightarrow> Inr True)"

definition match_project_constraints :: "magnum_cluster \<Rightarrow> project \<Rightarrow> bool" where
  "match_project_constraints cl p =
     (case magnum_constraints cl of
        Some (Some (Some cs)) \<Rightarrow> list_all (\<lambda>c. label_match c (labels (metadata p))) cs
      | _ \<Rightarrow> True)"

section \<open>The promised meaning\<close>

abbreviation values_of :: "'a list option \<Rightarrow> 'a set" where
  "values_of vs \<equiv> (case vs of None \<Rightarrow> {} | Some xs \<Rightarrow> set xs)"

definition constraints_hold ::
  "cluster_constraints \<Rightarrow> cluster \<Rightarrow> query_result list \<Rightarrow> bool" where
  "constraints_hold cs c ms \<longleftrightarrow>
     (\<forall>v \<in> values_of (cluster_labels cs). label_match v (labels (metadata c))) \<and>
     set (cluster_custom_resources cs) \<subseteq> set (custom_resources c) \<and>
     (\<forall>v \<in> values_of (cluster_metrics cs). metric_match v (metric_refs ms) = Inr True)"

definition static_constraints_hold :: "cluster_constraints \<Rightarrow> cluster \<Rightarrow> bool" where
  "static_constraints_hold cs c \<longleftrightarrow>
     (\<forall>v \<in> values_of (cluster_labels cs). label_match v (labels (metadata c))) \<and>
     set (cluster_custom_resources cs) \<subseteq> set (custom_resources c)"

lemma each_True_iff:
  "each p vs = Inr True \<longleftrightarrow> (\<forall>v \<in> values_of vs. p v = Inr True)"
  by (cases vs) (simp_all add: res_all_True_iff)

lemma evaluate_one_labels:
  "evaluate_one d fetched (Label_constraints vs) =
     Inr (\<forall>v \<in> values_of vs. label_match v (dest_labels d))"
proof (cases vs)
  case (Some xs)
  have "res_all (\<lambda>v. condition_label v d) xs = Inr (list_all (\<lambda>v. label_match v (dest_labels d)) xs)"
    by (rule res_all_no_raise) (simp add: condition_label_def)
  with Some show ?thesis by (simp add: list_all_iff)
qed simp

lemma evaluate_one_custom_resources:
  "evaluate_one (cluster_destination c) fetched (Custom_resource_constraints (Some rs)) =
     Inr (set rs \<subseteq> set (custom_resources c))"
proof -
  have "res_all (\<lambda>r. condition_custom_resources r (cluster_destination c)) rs =
      Inr (list_all (\<lambda>r. r \<in> set (custom_resources c)) rs)"
    by (rule res_all_no_raise) (simp add: condition_custom_resources_def cluster_destination_def)
  then show ?thesis by (simp add: list_all_iff subset_code(1))
qed

lemma evaluate_one_metrics:
  assumes "dict_get fetched (dest_name d) = Some ms"
  shows "evaluate_one d fetched (Metric_constraints vs) = Inr True \<longleftrightarrow>
    (\<forall>v \<in> values_of vs. metric_match v (metric_refs ms) = Inr True)"
  using assms unfolding evaluate_one.simps each_True_iff by (simp add: condition_metric_def)

lemma evaluate_one_metrics_unfetched:
  assumes "dict_get fetched (dest_name d) = None" and "values_of vs \<noteq> {}"
  shows "evaluate_one d fetched (Metric_constraints vs) = Inl KeyError"
proof -
  from assms(2) obtain x xs where "vs = Some (x # xs)" by (cases vs; cases "the vs") auto
  with assms(1) show ?thesis by (simp add: condition_metric_def)
qed

definition example_cluster :: cluster where
  "example_cluster =
     \<lparr>api = ''kubernetes'', kind = cluster_kind,
      metadata = \<lparr>name = ''c1'', namespace = Some ''ns'', labels = [(''a'', ''b'')],
        inherit_labels = False, finalizers = [], uid = ''u1'', created = 0, modified = 0,
        deleted = None, owners = []\<rparr>,
      has_kubeconfig = True, custom_resources = [],
      cl_constraints = Some (Some \<lparr>cloud_labels = None, cloud_metrics = None\<rparr>), cl_metrics = [],
      inherit_metrics = False, auto_generated = False, cl_state = Cl_ONLINE, cl_reason = None,
      cl_metrics_reasons = [], cl_scheduled_to = None\<rparr>"

definition example_application :: application where
  "example_application =
     \<lparr>api = ''kubernetes'', kind = ''Application'',
      metadata = \<lparr>name = ''app'', namespace = Some ''ns'', labels = [],
        inherit_labels = False, finalizers = [], uid = ''u2'', created = 0, modified = 5,
        deleted = None, owners = []\<rparr>,
      app_constraints = Some \<lparr>cluster_part = Some
        \<lparr>cluster_labels = Some [EqualConstraint ''a'' ''b'' None], cluster_custom_resources = [],
         cluster_metrics = Some [GreaterThanMetricConstraint ''load'' ''5'' None]\<rparr>, migration = True\<rparr>,
      app_backoff = 1, app_backoff_delay = 1, app_backoff_limit = -1, auto_cluster_create = False,
      app_state = App_PENDING, app_reason = None, kube_controller_triggered = None,
      app_scheduled = None, app_scheduled_to = None, app_retries = None, scheduled_retry = None,
      auto_cluster_create_started = None, migration_timeout = 0\<rparr>"

section \<open>Properties\<close>

text \<open>
  C32. A cluster whose metrics were fetched is accepted for an application exactly when every
  label constraint matches its labels, it has every custom resource, and every metric
  constraint matches the weighted values of its metrics.
\<close>

theorem application_constraints_exact:
  assumes "app_constraints app = Some cs" and "cluster_part cs = Some cc"
    and "dict_get fetched (name (metadata c)) = Some ms"
  shows "match_application_constraints app (cluster_destination c) fetched = Inr True \<longleftrightarrow>
    constraints_hold cc c ms"
proof -
  have d: "dest_name (cluster_destination c) = name (metadata c)"
    "dest_labels (cluster_destination c) = labels (metadata c)"
    by (simp_all add: cluster_destination_def)
  with assms(3) evaluate_one_metrics [of fetched "cluster_destination c" ms]
  have "evaluate_one (cluster_destination c) fetched (Metric_constraints vs) = Inr True \<longleftrightarrow>
      (\<forall>v \<in> values_of vs. metric_match v (metric_refs ms) = Inr True)" for vs
    by simp
  with assms(1,2) d show ?thesis
    unfolding match_application_constraints_def evaluate_def constraints_hold_def
    by (simp add: res_all_True_iff evaluate_one_labels evaluate_one_custom_resources
        del: evaluate_one.simps res_all.simps)
qed

theorem application_constraints_exact_witness:
  "match_application_constraints example_application (cluster_destination example_cluster)
     [(''c1'', [\<lparr>qr_metric = example_metric, qr_weight = 10, qr_value = 3 / 5\<rparr>])] = Inr True"
proof -
  have "constraints_hold
      \<lparr>cluster_labels = Some [EqualConstraint ''a'' ''b'' None], cluster_custom_resources = [],
       cluster_metrics = Some [GreaterThanMetricConstraint ''load'' ''5'' None]\<rparr> example_cluster
      [\<lparr>qr_metric = example_metric, qr_weight = 10, qr_value = 3 / 5\<rparr>]"
    using py_float_examples(1)
    by (simp add: constraints_hold_def example_cluster_def example_metric_def metric_refs_def
        compare_metric_def)
  then show ?thesis
    using application_constraints_exact [of example_application _ _
      "[(''c1'', [\<lparr>qr_metric = example_metric, qr_weight = 10, qr_value = 3 / 5\<rparr>])]" example_cluster]
    by (simp add: example_application_def example_cluster_def)
qed

text \<open>
  Matching an application with metric constraints against a cluster without fetched metrics
  raises \<open>KeyError\<close> as soon as its labels and custom resources match: the cluster is neither
  accepted nor rejected.
\<close>

theorem unfetched_metrics_raise:
  assumes "app_constraints app = Some cs" and "cluster_part cs = Some cc"
    and "values_of (cluster_metrics cc) \<noteq> {}" and "static_constraints_hold cc c"
    and "dict_get fetched (name (metadata c)) = None"
  shows "match_application_constraints app (cluster_destination c) fetched = Inl KeyError"
proof -
  have d: "dest_name (cluster_destination c) = name (metadata c)"
    "dest_labels (cluster_destination c) = labels (metadata c)"
    by (simp_all add: cluster_destination_def)
  with assms(3,5) evaluate_one_metrics_unfetched [of fetched "cluster_destination c" "cluster_metrics cc"]
  have "evaluate_one (cluster_destination c) fetched (Metric_constraints (cluster_metrics cc)) = Inl KeyError"
    by simp
  with assms(1,2,4) d show ?thesis
    unfolding match_application_constraints_def evaluate_def static_constraints_hold_def
    by (simp add: evaluate_one_labels evaluate_one_custom_resources del: evaluate_one.simps)
qed

theorem unfetched_metrics_raise_witness:
  "match_application_constraints example_application (cluster_destination example_cluster) [] =
     Inl KeyError"
  using unfetched_metrics_raise [of example_application
    "\<lparr>cluster_part = Some
        \<lparr>cluster_labels = Some [EqualConstraint ''a'' ''b'' None], cluster_custom_resources = [],
         cluster_metrics = Some [GreaterThanMetricConstraint ''load'' ''5'' None]\<rparr>, migration = True\<rparr>"
    _ example_cluster "[]"]
  by (simp add: example_application_def static_constraints_hold_def example_cluster_def)

end
