(* ===== verification/Effects.thy ===== *)
theory Effects
  imports Krake_Prelude
begin

text \<open>
  Coroutines that call the API and may raise: the requests they send, in order, and their
  result. A request that was sent stays sent when a later step raises.
\<close>

type_synonym ('r, 'e, 'a) act = "'r list \<times> ('e, 'a) res"

definition act_return :: "'a \<Rightarrow> ('r, 'e, 'a) act" where
  "act_return x = ([], Inr x)"

definition act_raise :: "'e \<Rightarrow> ('r, 'e, 'a) act" where
  "act_raise e = ([], Inl e)"

definition act_lift :: "('e, 'a) res \<Rightarrow> ('r, 'e, 'a) act" where
  "act_lift m = ([], m)"

definition act_request :: "'r \<Rightarrow> ('r, 'e, unit) act" where
  "act_request r = ([r], Inr ())"

definition act_bind :: "('r, 'e, 'a) act \<Rightarrow> ('a \<Rightarrow> ('r, 'e, 'b) act) \<Rightarrow> ('r, 'e, 'b) act" where
  "act_bind m f =
     (case snd m of
        Inl e \<Rightarrow> (fst m, Inl e)
      | Inr x \<Rightarrow> (fst m @ fst (f x), snd (f x)))"

definition act_then :: "('r, 'e, unit) act \<Rightarrow> ('r, 'e, 'b) act \<Rightarrow> ('r, 'e, 'b) act" where
  "act_then m n = act_bind m (\<lambda>_. n)"

fun act_map :: "('a \<Rightarrow> ('r, 'e, 'b) act) \<Rightarrow> 'a list \<Rightarrow> ('r, 'e, 'b list) act" where
  "act_map f [] = act_return []"
| "act_map f (x # xs) =
     act_bind (f x) (\<lambda>y. act_bind (act_map f xs) (\<lambda>ys. act_return (y # ys)))"

text \<open>A \<open>try\<close> around a coroutine: the requests sent before the exception remain.\<close>

definition act_catch :: "('r, 'e, 'a) act \<Rightarrow> ('e \<Rightarrow> ('r, 'e, 'a) act) \<Rightarrow> ('r, 'e, 'a) act" where
  "act_catch m h =
     (case snd m of
        Inl e \<Rightarrow> (fst m @ fst (h e), snd (h e))
      | Inr x \<Rightarrow> m)"

named_theorems act_simps "evaluation of coroutines"

lemma act_snd [act_simps]:
  "snd (act_return x) = Inr x" "snd (act_raise e) = Inl e" "snd (act_lift m) = m"
  "snd (act_request r) = Inr ()"
  by (simp_all add: act_return_def act_raise_def act_lift_def act_request_def)

lemma act_fst [act_simps]:
  "fst (act_return x) = []" "fst (act_raise e) = []" "fst (act_lift m) = []"
  "fst (act_request r) = [r]"
  by (simp_all add: act_return_def act_raise_def act_lift_def act_request_def)

lemma act_bind_simps [act_simps]:
  "act_bind (act_return x) f = f x"
  "act_bind (act_raise e) f = act_raise e"
  "act_bind (act_lift (Inr x)) f = f x"
  "act_bind (act_lift (Inl e)) f = act_raise e"
  by (simp_all add: act_bind_def act_return_def act_raise_def act_lift_def)

lemma act_then_request [act_simps]:
  "act_then (act_request r) m = (r # fst m, snd m)"
  by (simp add: act_then_def act_bind_def act_request_def)

lemma act_catch_simps [act_simps]:
  "act_catch (act_return x) h = act_return x"
  "act_catch (act_raise e) h = h e"
  by (simp_all add: act_catch_def act_return_def act_raise_def)

lemma act_bind_assoc: "act_bind (act_bind m f) g = act_bind m (\<lambda>x. act_bind (f x) g)"
  by (cases "snd m") (auto simp: act_bind_def split: sum.splits)

lemma act_bind_return: "act_bind m act_return = m"
  by (cases m; cases "snd m") (auto simp: act_bind_def act_return_def)

lemma act_bind_Inr_iff:
  "snd (act_bind m f) = Inr y \<longleftrightarrow> (\<exists>x. snd m = Inr x \<and> snd (f x) = Inr y)"
  by (auto simp: act_bind_def split: sum.splits)

lemma act_bindE:
  assumes "snd (act_bind m f) = Inr y"
  obtains x where "snd m = Inr x" "snd (f x) = Inr y"
  using assms unfolding act_bind_Inr_iff by blast

lemma act_bind_fst:
  "snd m = Inr x \<Longrightarrow> fst (act_bind m f) = fst m @ fst (f x)"
  by (simp add: act_bind_def)

lemma act_map_Inr:
  "snd (act_map f xs) = Inr ys \<Longrightarrow> list_all2 (\<lambda>x y. snd (f x) = Inr y) xs ys"
  by (induction xs arbitrary: ys) (auto simp: act_bind_Inr_iff act_simps)

lemma act_map_total:
  assumes "\<And>x. x \<in> set xs \<Longrightarrow> snd (f x) = Inr (g x)"
  shows "act_map f xs = (concat (map (fst \<circ> f) xs), Inr (map g xs))"
  using assms
proof (induction xs)
  case Nil
  then show ?case by (simp add: act_return_def)
next
  case (Cons x xs)
  then have "snd (f x) = Inr (g x)" by simp
  with Cons show ?case by (simp add: act_bind_def act_return_def)
qed

section \<open>The requests of a coroutine\<close>

definition act_requests :: "('r \<Rightarrow> bool) \<Rightarrow> ('r, 'e, 'a) act \<Rightarrow> bool" where
  "act_requests P m \<longleftrightarrow> list_all P (fst m)"

named_theorems act_requests_intros "all requests of a coroutine satisfy a predicate"

lemma act_requests_basic [act_requests_intros]:
  "act_requests P (act_return x)" "act_requests P (act_raise e)" "act_requests P (act_lift m)"
  "P r \<Longrightarrow> act_requests P (act_request r)"
  by (simp_all add: act_requests_def act_simps)

lemma act_requests_bind [act_requests_intros]:
  "act_requests P m \<Longrightarrow> (\<And>x. snd m = Inr x \<Longrightarrow> act_requests P (f x)) \<Longrightarrow> act_requests P (act_bind m f)"
  by (auto simp: act_requests_def act_bind_def split: sum.split)

lemma act_requests_then [act_requests_intros]:
  "act_requests P m \<Longrightarrow> act_requests P n \<Longrightarrow> act_requests P (act_then m n)"
  unfolding act_then_def by (rule act_requests_bind)

lemma act_requests_map [act_requests_intros]:
  "(\<And>x. x \<in> set xs \<Longrightarrow> act_requests P (f x)) \<Longrightarrow> act_requests P (act_map f xs)"
  by (induction xs) (auto intro!: act_requests_basic act_requests_bind)

lemma act_requests_catch [act_requests_intros]:
  "act_requests P m \<Longrightarrow> (\<And>e. act_requests P (h e)) \<Longrightarrow> act_requests P (act_catch m h)"
  by (auto simp: act_requests_def act_catch_def split: sum.split)

lemma act_catch_Inr_iff:
  "snd (act_catch m h) = Inr y \<longleftrightarrow> snd m = Inr y \<or> (\<exists>e. snd m = Inl e \<and> snd (h e) = Inr y)"
  by (auto simp: act_catch_def split: sum.splits)

end
