(* ===== verification/Scheduler_Metrics.thy ===== *)
theory Scheduler_Metrics
  imports Scheduler_Constraints Effects
begin

text \<open>
  The base class \<open>Handler\<close> of \<open>krake/krake/controller/scheduler/scheduler.py\<close>: reading
  and querying the metrics of a resource, recording the failing ones in its status, and the
  choice of the best score. \<open>OpenstackHandler\<close> overrides two of these methods.

  The API server, the metrics backends, the clock and the random numbers are the record
  \<open>world\<close>; within one scheduling turn they answer the same read the same way. The file of
  the TOSCA template is read as \<open>read_tosca\<close> (whether it has content, or the exception), and
  \<open>creation_response i\<close> is the answer to the i-th attempt to create a cluster (whether it is
  a cluster, or the exception). Requests that change something are logged and succeed.
\<close>

section \<open>The world\<close>

record world =
  read_metric :: "string \<Rightarrow> string \<Rightarrow> (exn, metric) res"
  read_metrics_provider :: "string \<Rightarrow> string \<Rightarrow> (exn, provider_spec) res"
  read_global_metric :: "string \<Rightarrow> (exn, metric) res"
  read_global_metrics_provider :: "string \<Rightarrow> (exn, provider_spec) res"
  read_cloud :: "string \<Rightarrow> string \<Rightarrow> (exn, cloud) res"
  read_global_cloud :: "string \<Rightarrow> (exn, cloud) res"
  metrics_backend :: backend
  list_clusters :: "string option \<Rightarrow> (exn, cluster list) res"
  list_clouds :: "string option \<Rightarrow> (exn, cloud list) res"
  list_global_clouds :: "(exn, cloud list) res"
  list_all_applications :: "(exn, application list) res"
  list_all_projects :: "(exn, project list) res"
  read_tosca :: "(exn, bool) res"
  creation_response :: "nat \<Rightarrow> (exn, bool) res"
  now :: time
  random_index :: nat
  random_number :: "nat \<Rightarrow> nat"

datatype status_change =
    Keep_status
  | Set_failing "(string, reason_code) dict"
  | Set_online

datatype request =
    Update_metrics_status string "string option" string status_change
  | Update_application_status application
  | Update_application_binding "string option" string resource_ref
  | Create_cluster "string option" cluster
  | Delete_cluster "string option" string
  | Update_cluster_status cluster
  | Update_cluster_binding "string option" string resource_ref
  | Update_magnum_cluster magnum_cluster
  | Update_magnum_status magnum_cluster
  | Update_magnum_binding "string option" string resource_ref string

text \<open>What \<open>fetch_metrics\<close> reads of the resource it is called for.\<close>

record metered =
  metered_kind :: string
  metered_namespace :: "string option"
  metered_name :: string
  metered_failing :: bool

definition metered_cluster :: "cluster \<Rightarrow> metered" where
  "metered_cluster c = \<lparr>metered_kind = kind c, metered_namespace = namespace (metadata c),
     metered_name = name (metadata c), metered_failing = (cl_state c = Cl_FAILING_METRICS)\<rparr>"

definition metered_cloud :: "cloud \<Rightarrow> metered" where
  "metered_cloud c = \<lparr>metered_kind = kind c, metered_namespace = namespace (metadata c),
     metered_name = name (metadata c), metered_failing = (cloud_status c = Cloud_FAILING_METRICS)\<rparr>"

definition metered_project :: "project \<Rightarrow> metered" where
  "metered_project p = \<lparr>metered_kind = kind p, metered_namespace = namespace (metadata p),
     metered_name = name (metadata p), metered_failing = (project_status p = Project_FAILING_METRICS)\<rparr>"

text \<open>The change is made on the object itself, which the callers keep using.\<close>

fun change_cluster :: "status_change \<Rightarrow> cluster \<Rightarrow> cluster" where
  "change_cluster Keep_status c = c"
| "change_cluster (Set_failing d) c = c\<lparr>cl_state := Cl_FAILING_METRICS, cl_metrics_reasons := d\<rparr>"
| "change_cluster Set_online c = c\<lparr>cl_state := Cl_ONLINE, cl_reason := None\<rparr>"

fun change_cloud :: "status_change \<Rightarrow> cloud \<Rightarrow> cloud" where
  "change_cloud Keep_status c = c"
| "change_cloud (Set_failing d) c = c\<lparr>cloud_status := Cloud_FAILING_METRICS, cloud_metrics_reasons := d\<rparr>"
| "change_cloud Set_online c = c\<lparr>cloud_status := Cloud_ONLINE\<rparr>"

section \<open>Reasons\<close>

fun contains_text :: "string \<Rightarrow> string \<Rightarrow> bool" where
  "contains_text p [] \<longleftrightarrow> p = []"
| "contains_text p (c # s) \<longleftrightarrow> take (length p) (c # s) = p \<or> contains_text p s"

text \<open>A client error carries the path of its request. Any other exception is raised again.\<close>

fun metrics_reason_from_err :: "exn \<Rightarrow> (exn, reason_code) res" where
  "metrics_reason_from_err MetricsProviderError = Inr UNREACHABLE_METRICS_PROVIDER"
| "metrics_reason_from_err MetricError = Inr INVALID_METRIC"
| "metrics_reason_from_err (ClientError path) =
     Inr (if contains_text ''metricsprovider'' path then UNKNOWN_METRICS_PROVIDER else UNKNOWN_METRIC)"
| "metrics_reason_from_err e = Inl e"

fun add_reasons ::
  "(string, reason_code) dict \<Rightarrow> metric_ref list \<Rightarrow> reason_code option list \<Rightarrow>
     (string, reason_code) dict" where
  "add_reasons d (m # ms) (r # rs) =
     add_reasons (case r of None \<Rightarrow> d | Some c \<Rightarrow> dict_set (mref_name m) c d) ms rs"
| "add_reasons d _ _ = d"

definition update_resource_status ::
  "metered \<Rightarrow> metric_ref list \<Rightarrow> reason_code option list \<Rightarrow> (request, exn, status_change) act" where
  "update_resource_status r metrics reasons =
     (if length metrics \<noteq> length reasons then act_raise ValueError
      else if metered_kind r \<in> {cluster_kind, project_kind, cloud_kind} then
        (let change = Set_failing (add_reasons [] metrics reasons) in
         act_then
           (act_request (Update_metrics_status (metered_kind r) (metered_namespace r) (metered_name r) change))
           (act_return change))
      else if metered_kind r = global_cloud_kind then
        (let change = Set_failing (add_reasons [] metrics reasons) in
         act_then
           (act_request (Update_metrics_status (metered_kind r) None (metered_name r) change))
           (act_return change))
      else act_raise ValueError)"

section \<open>Fetching metrics\<close>

type_synonym fetch_task = "metric \<times> provider_spec \<times> real"

text \<open>
  One round of the first loop: \<open>Inl\<close> a reason why the metric cannot be fetched, or \<open>Inr\<close>
  the query to run. Only client errors are caught.
\<close>

definition lookup_metric ::
  "world \<Rightarrow> string option \<Rightarrow> metric_ref \<Rightarrow> (exn, reason_code + fetch_task) res" where
  "lookup_metric w ns r =
     (if mref_namespaced r \<and> ns \<in> {None, Some []} then Inr (Inl INVALID_METRIC)
      else
        (case
           (if mref_namespaced r then
              res_bind (read_metric w (the ns) (mref_name r)) (\<lambda>m.
                res_bind (read_metrics_provider w (the ns) (provider_name m)) (\<lambda>p.
                  Inr (m, p, mref_weight r)))
            else
              res_bind (read_global_metric w (mref_name r)) (\<lambda>m.
                res_bind (read_global_metrics_provider w (provider_name m)) (\<lambda>p.
                  Inr (m, p, mref_weight r))))
         of
           Inr t \<Rightarrow> Inr (Inr t)
         | Inl (ClientError path) \<Rightarrow> res_bind (metrics_reason_from_err (ClientError path)) (\<lambda>c. Inr (Inl c))
         | Inl e \<Rightarrow> Inl e))"

fun collect_tasks ::
  "world \<Rightarrow> string option \<Rightarrow> metric_ref list \<Rightarrow> (exn, reason_code option list \<times> fetch_task list) res" where
  "collect_tasks w ns [] = Inr ([], [])"
| "collect_tasks w ns (r # rs) =
     res_bind (lookup_metric w ns r) (\<lambda>x.
       res_bind (collect_tasks w ns rs) (\<lambda>(reasons, tasks).
         case x of
           Inl c \<Rightarrow> Inr (Some c # reasons, tasks)
         | Inr t \<Rightarrow> Inr (None # reasons, t # tasks)))"

definition run_task :: "world \<Rightarrow> fetch_task \<Rightarrow> (exn, query_result) res" where
  "run_task w t = (case t of (m, p, wt) \<Rightarrow> fetch_query (metrics_backend w) m p wt)"

text \<open>
  The second loop: the next placeholder in \<open>reasons\<close> belongs to the next result. Running out
  of placeholders, or having one left, is a \<open>RuntimeError\<close>.
\<close>

fun merge_results ::
  "reason_code option list \<Rightarrow> (exn, query_result) res list \<Rightarrow> (exn, reason_code option list) res" where
  "merge_results [] [] = Inr []"
| "merge_results [] (f # fs) = Inl RuntimeError"
| "merge_results (Some c # rs) fs = res_bind (merge_results rs fs) (\<lambda>rs'. Inr (Some c # rs'))"
| "merge_results (None # rs) [] = Inl RuntimeError"
| "merge_results (None # rs) (Inr q # fs) = res_bind (merge_results rs fs) (\<lambda>rs'. Inr (None # rs'))"
| "merge_results (None # rs) (Inl e # fs) =
     res_bind (metrics_reason_from_err e) (\<lambda>c.
       res_bind (merge_results rs fs) (\<lambda>rs'. Inr (Some c # rs')))"

definition successes :: "(exn, query_result) res list \<Rightarrow> query_result list" where
  "successes fs = concat (map (\<lambda>f. case f of Inl e \<Rightarrow> [] | Inr q \<Rightarrow> [q]) fs)"

text \<open>
  The condition of the second update is written \<open>a or b and c\<close> in the source: the state is
  only looked at for global clouds.
\<close>

definition recover_status :: "metered \<Rightarrow> (request, exn, status_change) act" where
  "recover_status r =
     (if metered_kind r = cluster_kind \<and> metered_failing r then
        act_then (act_request
            (Update_metrics_status cluster_kind (metered_namespace r) (metered_name r) Set_online))
          (act_return Set_online)
      else if metered_kind r = cloud_kind then
        act_then (act_request
            (Update_metrics_status cloud_kind (metered_namespace r) (metered_name r) Set_online))
          (act_return Set_online)
      else if metered_kind r = global_cloud_kind \<and> metered_failing r then
        act_then (act_request (Update_metrics_status global_cloud_kind None (metered_name r) Set_online))
          (act_return Set_online)
      else act_return Keep_status)"

text \<open>
  The generator yields at most once: \<open>None\<close> when it stops, because a metric failed. With the
  result comes the change of the status of the resource.
\<close>

definition fetch_metrics ::
  "world \<Rightarrow> metered \<Rightarrow> metric_ref list \<Rightarrow> (request, exn, status_change \<times> query_result list option) act" where
  "fetch_metrics w r metrics =
     (if metrics = [] then act_raise ValueError
      else
        act_bind (act_lift (collect_tasks w (metered_namespace r) metrics)) (\<lambda>(reasons, tasks).
          let fetched = map (run_task w) tasks in
          act_bind (act_lift (merge_results reasons fetched)) (\<lambda>reasons'.
            if list_ex (\<lambda>c. c \<noteq> None) reasons' then
              act_bind (update_resource_status r metrics reasons') (\<lambda>change.
                act_return (change, None))
            else
              act_bind (recover_status r) (\<lambda>change.
                act_return (change, Some (successes fetched))))))"

subsection \<open>The OpenStack handler\<close>

definition openstack_lookup_metric ::
  "world \<Rightarrow> string option \<Rightarrow> metric_ref \<Rightarrow> (exn, reason_code + fetch_task) res" where
  "openstack_lookup_metric w ns r =
     (case
        (if mref_namespaced r then
           res_bind (read_metric w (case ns of None \<Rightarrow> ''None'' | Some n \<Rightarrow> n) (mref_name r)) (\<lambda>m.
             res_bind (read_metrics_provider w (case ns of None \<Rightarrow> ''None'' | Some n \<Rightarrow> n) (provider_name m)) (\<lambda>p.
               Inr (m, p, mref_weight r)))
         else
           res_bind (read_global_metric w (mref_name r)) (\<lambda>m.
             res_bind (read_global_metrics_provider w (provider_name m)) (\<lambda>p.
               Inr (m, p, mref_weight r))))
      of
        Inr t \<Rightarrow> Inr (Inr t)
      | Inl (ClientError path) \<Rightarrow> res_bind (metrics_reason_from_err (ClientError path)) (\<lambda>c. Inr (Inl c))
      | Inl e \<Rightarrow> Inl e)"

fun openstack_collect_tasks ::
  "world \<Rightarrow> string option \<Rightarrow> metric_ref list \<Rightarrow> (exn, reason_code option list \<times> fetch_task list) res" where
  "openstack_collect_tasks w ns [] = Inr ([], [])"
| "openstack_collect_tasks w ns (r # rs) =
     res_bind (openstack_lookup_metric w ns r) (\<lambda>x.
       res_bind (openstack_collect_tasks w ns rs) (\<lambda>(reasons, tasks).
         case x of
           Inl c \<Rightarrow> Inr (Some c # reasons, tasks)
         | Inr t \<Rightarrow> Inr (None # reasons, t # tasks)))"

definition openstack_update_resource_status ::
  "metered \<Rightarrow> metric_ref list \<Rightarrow> reason_code option list \<Rightarrow> (request, exn, status_change) act" where
  "openstack_update_resource_status r metrics reasons =
     (if length metrics \<noteq> length reasons then act_raise ValueError
      else if metered_kind r \<in> {cluster_kind, project_kind} then
        (let change = Set_failing (add_reasons [] metrics reasons) in
         act_then
           (act_request (Update_metrics_status (metered_kind r) (metered_namespace r) (metered_name r) change))
           (act_return change))
      else act_raise ValueError)"

definition openstack_fetch_metrics ::
  "world \<Rightarrow> metered \<Rightarrow> metric_ref list \<Rightarrow> (request, exn, status_change \<times> query_result list option) act" where
  "openstack_fetch_metrics w r metrics =
     (if metrics = [] then act_raise ValueError
      else
        act_bind (act_lift (openstack_collect_tasks w (metered_namespace r) metrics)) (\<lambda>(reasons, tasks).
          let fetched = map (run_task w) tasks in
          act_bind (act_lift (merge_results reasons fetched)) (\<lambda>reasons'.
            if list_ex (\<lambda>c. c \<noteq> None) reasons' then
              act_bind (openstack_update_resource_status r metrics reasons') (\<lambda>change.
                act_return (change, None))
            else act_return (Keep_status, Some (successes fetched)))))"

section \<open>The requests of fetching metrics\<close>

fun is_metrics_update :: "request \<Rightarrow> bool" where
  "is_metrics_update (Update_metrics_status k ns n change) \<longleftrightarrow> True"
| "is_metrics_update _ \<longleftrightarrow> False"

abbreviation only_metrics :: "(request, exn, 'a) act \<Rightarrow> bool" where
  "only_metrics \<equiv> act_requests is_metrics_update"

lemma fetch_metrics_only: "only_metrics (fetch_metrics w r ms)"
  unfolding fetch_metrics_def update_resource_status_def recover_status_def Let_def
  by (auto intro!: act_requests_intros split: prod.splits)

section \<open>The outcome of each metric\<close>

text \<open>What becomes of one metric reference on its own: a reason for its failure, or a result.\<close>

definition metric_outcome ::
  "world \<Rightarrow> string option \<Rightarrow> metric_ref \<Rightarrow> (exn, reason_code + query_result) res" where
  "metric_outcome w ns r =
     res_bind (lookup_metric w ns r) (\<lambda>x.
       case x of
         Inl c \<Rightarrow> Inr (Inl c)
       | Inr t \<Rightarrow>
           (case run_task w t of
              Inr q \<Rightarrow> Inr (Inr q)
            | Inl e \<Rightarrow> res_bind (metrics_reason_from_err e) (\<lambda>c. Inr (Inl c))))"

fun failure_of :: "reason_code + query_result \<Rightarrow> reason_code option" where
  "failure_of (Inl c) = Some c"
| "failure_of (Inr q) = None"

lemma successes_simps [simp]:
  "successes [] = []" "successes (Inl e # fs) = successes fs" "successes (Inr q # fs) = q # successes fs"
  by (simp_all add: successes_def)

lemma collect_and_merge:
  assumes "\<And>r. r \<in> set rs \<Longrightarrow> metric_outcome w ns r = Inr (out r)"
  shows "\<exists>reasons tasks. collect_tasks w ns rs = Inr (reasons, tasks) \<and>
    merge_results reasons (map (run_task w) tasks) = Inr (map (failure_of \<circ> out) rs) \<and>
    ((\<forall>r \<in> set rs. failure_of (out r) = None) \<longrightarrow>
       map Inr (successes (map (run_task w) tasks)) = map out rs)"
  using assms
proof (induction rs)
  case (Cons r rs)
  have "\<exists>reasons tasks. collect_tasks w ns rs = Inr (reasons, tasks) \<and>
    merge_results reasons (map (run_task w) tasks) = Inr (map (failure_of \<circ> out) rs) \<and>
    ((\<forall>r \<in> set rs. failure_of (out r) = None) \<longrightarrow>
       map Inr (successes (map (run_task w) tasks)) = map out rs)"
    by (rule Cons.IH) (simp add: Cons.prems)
  then obtain reasons tasks where IH: "collect_tasks w ns rs = Inr (reasons, tasks)"
    "merge_results reasons (map (run_task w) tasks) = Inr (map (failure_of \<circ> out) rs)"
    "(\<forall>r \<in> set rs. failure_of (out r) = None) \<longrightarrow>
       map Inr (successes (map (run_task w) tasks)) = map out rs"
    by blast
  have r: "metric_outcome w ns r = Inr (out r)" using Cons.prems by simp
  then obtain x where x: "lookup_metric w ns r = Inr x"
    unfolding metric_outcome_def by (auto simp: res_simps)
  show ?case
  proof (cases x)
    case (Inl c)
    with r x have "out r = Inl c" by (simp add: metric_outcome_def)
    with Inl x IH show ?thesis by auto
  next
    case (Inr t)
    show ?thesis
    proof (cases "run_task w t")
      case (Inl e)
      with \<open>x = Inr t\<close> r x obtain c where "metrics_reason_from_err e = Inr c" "out r = Inl c"
        by (cases "metrics_reason_from_err e") (auto simp: metric_outcome_def)
      with Inl \<open>x = Inr t\<close> x IH show ?thesis by auto
    next
      case (Inr q)
      with \<open>x = Inr t\<close> r x have "out r = Inr q" by (simp add: metric_outcome_def)
      with Inr \<open>x = Inr t\<close> x IH show ?thesis by auto
    qed
  qed
qed simp

lemma keys_add_reasons:
  "dict_keys (add_reasons d ms (map f ms)) =
     dict_keys d \<union> mref_name ` {m \<in> set ms. f m \<noteq> None}"
proof (induction ms arbitrary: d)
  case (Cons m ms)
  then show ?case by (cases "f m") auto
qed simp

lemma recover_status_result:
  "\<exists>change. snd (recover_status r) = Inr change \<and> change \<in> {Keep_status, Set_online}"
  by (auto simp: recover_status_def act_simps)

lemma update_resource_status_result:
  assumes "length metrics = length reasons"
    and "metered_kind r \<in> {cluster_kind, project_kind, cloud_kind, global_cloud_kind}"
  shows "\<exists>ns. update_resource_status r metrics reasons =
    ([Update_metrics_status (metered_kind r) ns (metered_name r) (Set_failing (add_reasons [] metrics reasons))],
     Inr (Set_failing (add_reasons [] metrics reasons)))"
  using assms by (auto simp: update_resource_status_def Let_def act_simps)

lemma fetch_metrics_failing:
  assumes "metrics \<noteq> []" and "collect_tasks w (metered_namespace r) metrics = Inr (reasons, tasks)"
    and "merge_results reasons (map (run_task w) tasks) = Inr reasons'"
    and "list_ex (\<lambda>c. c \<noteq> None) reasons'"
  shows "fetch_metrics w r metrics =
    act_bind (update_resource_status r metrics reasons') (\<lambda>change. act_return (change, None))"
  using assms by (simp add: fetch_metrics_def act_simps)

lemma fetch_metrics_succeeding:
  assumes "metrics \<noteq> []" and "collect_tasks w (metered_namespace r) metrics = Inr (reasons, tasks)"
    and "merge_results reasons (map (run_task w) tasks) = Inr reasons'"
    and "\<not> list_ex (\<lambda>c. c \<noteq> None) reasons'"
  shows "fetch_metrics w r metrics =
    act_bind (recover_status r)
      (\<lambda>change. act_return (change, Some (successes (map (run_task w) tasks))))"
  using assms by (simp add: fetch_metrics_def act_simps)

definition example_world :: world where
  "example_world =
     \<lparr>read_metric = \<lambda>_ _. Inl (ClientError ''/core/metrics''),
      read_metrics_provider = \<lambda>_ _. Inl (ClientError ''/core/metricsproviders''),
      read_global_metric = \<lambda>n. if n = ''load'' then Inr example_metric
        else Inl (ClientError ''/core/globalmetrics''),
      read_global_metrics_provider = \<lambda>_. Inr (StaticSpec [(''load'', 4)]),
      read_cloud = \<lambda>_ _. Inl (ClientError ''/infrastructure/clouds''),
      read_global_cloud = \<lambda>_. Inl (ClientError ''/infrastructure/globalclouds''),
      metrics_backend = \<lparr>http_get = \<lambda>_ _. None, ksql_query = \<lambda>_ _. None, influx_query = \<lambda>_ _ _ _. None\<rparr>,
      list_clusters = \<lambda>_. Inr [example_cluster], list_clouds = \<lambda>_. Inr [],
      list_global_clouds = Inr [], list_all_applications = Inr [], list_all_projects = Inr [],
      read_tosca = Inr True, creation_response = \<lambda>_. Inr True,
      now = 100, random_index = 0, random_number = \<lambda>_. 1234\<rparr>"

abbreviation example_ref :: "string \<Rightarrow> metric_ref" where
  "example_ref n \<equiv> \<lparr>mref_name = n, mref_weight = 1, mref_namespaced = False\<rparr>"

lemma example_outcomes:
  "metric_outcome example_world ns (example_ref ''load'') =
     Inr (Inr \<lparr>qr_metric = example_metric, qr_weight = 1, qr_value = 4 / 10\<rparr>)"
  "metric_outcome example_world ns (example_ref ''heat'') = Inr (Inl UNKNOWN_METRIC)"
  by (simp_all add: metric_outcome_def lookup_metric_def example_world_def run_task_def fetch_query_def
      static_query_def normalize_def example_metric_def)

section \<open>Properties\<close>

text \<open>
  The placeholders pair every metric with its own result: when each metric of a supported
  resource has an outcome, fetching yields all results in order if none failed, and otherwise
  stops after one status update that names exactly the failed metrics.
\<close>

theorem fetch_metrics_outcomes:
  assumes "metrics \<noteq> []"
    and "\<forall>m \<in> set metrics. metric_outcome w (metered_namespace r) m = Inr (out m)"
    and "metered_kind r \<in> {cluster_kind, project_kind, cloud_kind, global_cloud_kind}"
  shows "if \<exists>m \<in> set metrics. failure_of (out m) \<noteq> None
    then \<exists>ns d. fetch_metrics w r metrics =
        ([Update_metrics_status (metered_kind r) ns (metered_name r) (Set_failing d)],
         Inr (Set_failing d, None)) \<and>
      dict_keys d = mref_name ` {m \<in> set metrics. failure_of (out m) \<noteq> None}
    else \<exists>change qs. snd (fetch_metrics w r metrics) = Inr (change, Some qs) \<and> map Inr qs = map out metrics"
proof -
  obtain reasons tasks where t: "collect_tasks w (metered_namespace r) metrics = Inr (reasons, tasks)"
    "merge_results reasons (map (run_task w) tasks) = Inr (map (failure_of \<circ> out) metrics)"
    "(\<forall>m \<in> set metrics. failure_of (out m) = None) \<longrightarrow>
       map Inr (successes (map (run_task w) tasks)) = map out metrics"
    using collect_and_merge [of metrics w "metered_namespace r" out] assms(2) by blast
  have any: "list_ex (\<lambda>c. c \<noteq> None) (map (failure_of \<circ> out) metrics) \<longleftrightarrow>
      (\<exists>m \<in> set metrics. failure_of (out m) \<noteq> None)"
    by (auto simp: list_ex_iff)
  show ?thesis
  proof (cases "\<exists>m \<in> set metrics. failure_of (out m) \<noteq> None")
    case True
    obtain ns where ns: "update_resource_status r metrics (map (failure_of \<circ> out) metrics) =
        ([Update_metrics_status (metered_kind r) ns (metered_name r)
            (Set_failing (add_reasons [] metrics (map (failure_of \<circ> out) metrics)))],
         Inr (Set_failing (add_reasons [] metrics (map (failure_of \<circ> out) metrics))))"
      using update_resource_status_result assms(3) by (metis length_map)
    have "fetch_metrics w r metrics =
        ([Update_metrics_status (metered_kind r) ns (metered_name r)
            (Set_failing (add_reasons [] metrics (map (failure_of \<circ> out) metrics)))],
         Inr (Set_failing (add_reasons [] metrics (map (failure_of \<circ> out) metrics)), None))"
      using fetch_metrics_failing [OF assms(1) t(1,2)] any True ns
      by (simp add: act_bind_def act_return_def)
    with True keys_add_reasons [of "[]" metrics "failure_of \<circ> out"] show ?thesis
      unfolding if_P [OF True] by auto
  next
    case False
    obtain change where "snd (recover_status r) = Inr change" using recover_status_result by blast
    then have "snd (fetch_metrics w r metrics) =
        Inr (change, Some (successes (map (run_task w) tasks)))"
      using fetch_metrics_succeeding [OF assms(1) t(1,2)] any False
      by (simp add: act_bind_Inr_iff act_simps)
    with False t(3) show ?thesis unfolding if_not_P [OF False] by blast
  qed
qed

theorem fetch_metrics_outcomes_witness:
  "\<exists>ns d. fetch_metrics example_world (metered_cluster example_cluster) [example_ref ''load'', example_ref ''heat''] =
        ([Update_metrics_status cluster_kind ns ''c1'' (Set_failing d)], Inr (Set_failing d, None)) \<and>
      dict_keys d = {''heat''}"
proof -
  let ?out = "\<lambda>m. if mref_name m = ''load''
    then Inr \<lparr>qr_metric = example_metric, qr_weight = 1, qr_value = 4 / 10\<rparr> else Inl UNKNOWN_METRIC"
  have r: "metered_kind (metered_cluster example_cluster) = cluster_kind"
    "metered_name (metered_cluster example_cluster) = ''c1''"
    by (simp_all add: metered_cluster_def example_cluster_def)
  have "{m \<in> set [example_ref ''load'', example_ref ''heat'']. failure_of (?out m) \<noteq> None} = {example_ref ''heat''}"
    by auto
  then show ?thesis
    using fetch_metrics_outcomes [of "[example_ref ''load'', example_ref ''heat'']" example_world
      "metered_cluster example_cluster" ?out] example_outcomes r
    by (simp add: image_iff)
qed

end
