(* ===== verification/Scheduler_Scores.thy ===== *)
theory Scheduler_Scores
  imports Scheduler_Metrics
begin

text \<open>
  Scores and the choice of the best one: \<open>RankMixin\<close>, \<open>select_maximum\<close> and the score
  functions of the three handlers of \<open>krake/krake/controller/scheduler/scheduler.py\<close>.
\<close>

section \<open>Scores\<close>

datatype score =
    ClusterScore real cluster
  | CloudScore real cloud
  | ProjectScore real project

fun score_value :: "score \<Rightarrow> real" where
  "score_value (ClusterScore x c) = x"
| "score_value (CloudScore x c) = x"
| "score_value (ProjectScore x p) = x"

text \<open>\<open>RankMixin\<close> compares scores only.\<close>

definition rank_less :: "score \<Rightarrow> score \<Rightarrow> bool" where
  "rank_less s t \<longleftrightarrow> score_value s < score_value t"

definition rank_eq :: "score \<Rightarrow> score \<Rightarrow> bool" where
  "rank_eq s t \<longleftrightarrow> score_value s = score_value t"

fun is_cluster_score :: "score \<Rightarrow> bool" where
  "is_cluster_score (ClusterScore x c) \<longleftrightarrow> True"
| "is_cluster_score _ \<longleftrightarrow> False"

text \<open>\<open>max\<close> keeps the first of equal elements and fails without elements.\<close>

fun py_max :: "score list \<Rightarrow> (exn, score) res" where
  "py_max [] = Inl ValueError"
| "py_max (s # ss) = Inr (foldl (\<lambda>b t. if rank_less b t then t else b) s ss)"

definition random_choice :: "nat \<Rightarrow> 'a list \<Rightarrow> (exn, 'a) res" where
  "random_choice r xs = (if xs = [] then Inl IndexError else Inr (xs ! (r mod length xs)))"

definition select_maximum :: "nat \<Rightarrow> score list \<Rightarrow> (exn, score) res" where
  "select_maximum r ranked =
     res_bind (py_max ranked) (\<lambda>best.
       let maximum = filter (\<lambda>s. rank_eq s best) ranked;
           maximum' = (if list_ex is_cluster_score maximum then filter is_cluster_score maximum else maximum)
       in random_choice r maximum')"

section \<open>Score functions\<close>

definition weighted_sum :: "query_result list \<Rightarrow> real" where
  "weighted_sum ms = sum_list (map (\<lambda>q. qr_value q * qr_weight q) ms)"

definition weights :: "query_result list \<Rightarrow> real" where
  "weights ms = sum_list (map qr_weight ms)"

definition weighted_mean :: "query_result list \<Rightarrow> (exn, real) res" where
  "weighted_mean ms =
     (if ms = [] then Inr 0
      else if weights ms = 0 then Inl ZeroDivisionError
      else Inr (weighted_sum ms / weights ms))"

definition calculate_cloud_score :: "query_result list \<Rightarrow> cloud \<Rightarrow> (exn, score) res" where
  "calculate_cloud_score ms c = res_bind (weighted_mean ms) (\<lambda>x. Inr (CloudScore x c))"

definition calculate_openstack_project_scores :: "query_result list \<Rightarrow> project \<Rightarrow> (exn, score) res" where
  "calculate_openstack_project_scores ms p = res_bind (weighted_mean ms) (\<lambda>x. Inr (ProjectScore x p))"

record stickiness =
  sticky_weight :: real
  sticky_value :: real

definition calculate_kubernetes_cluster_stickiness ::
  "real \<Rightarrow> cluster \<Rightarrow> application \<Rightarrow> stickiness" where
  "calculate_kubernetes_cluster_stickiness stickiness_weight c app =
     (if Some (resource_ref c) \<noteq> app_scheduled_to app
      then \<lparr>sticky_weight = 0, sticky_value = 0\<rparr>
      else \<lparr>sticky_weight = stickiness_weight, sticky_value = 1\<rparr>)"

definition calculate_kubernetes_cluster_score ::
  "real \<Rightarrow> query_result list \<Rightarrow> cluster \<Rightarrow> application \<Rightarrow> (exn, score) res" where
  "calculate_kubernetes_cluster_score stickiness_weight ms c app =
     (let sticky = calculate_kubernetes_cluster_stickiness stickiness_weight c app in
      if ms = [] then Inr (ClusterScore (sticky_weight sticky * sticky_value sticky) c)
      else
        (let norm = weights ms + sticky_weight sticky in
         if norm = 0 then Inl ZeroDivisionError
         else Inr (ClusterScore
           ((weighted_sum ms + sticky_value sticky * sticky_weight sticky) / norm) c)))"

section \<open>The best score\<close>

lemma foldl_max:
  "let b = foldl (\<lambda>b t. if rank_less b t then t else b) s ss in
     b \<in> set (s # ss) \<and> (\<forall>t \<in> set (s # ss). score_value t \<le> score_value b)"
proof (induction ss arbitrary: s)
  case (Cons t ss)
  show ?case
    using Cons.IH [of "if rank_less s t then t else s"]
    by (auto simp: Let_def rank_less_def split: if_splits)
qed simp

lemma py_max_Inr:
  assumes "py_max ranked = Inr b"
  shows "b \<in> set ranked \<and> (\<forall>t \<in> set ranked. score_value t \<le> score_value b)"
  using assms foldl_max by (cases ranked) (auto simp: Let_def)

lemma py_max_total: "ranked \<noteq> [] \<Longrightarrow> \<exists>b. py_max ranked = Inr b"
  by (cases ranked) auto

lemma random_choice_in: "xs \<noteq> [] \<Longrightarrow> \<exists>x \<in> set xs. random_choice r xs = Inr x"
  by (simp add: random_choice_def)

lemma random_choice_all:
  assumes "x \<in> set xs"
  shows "\<exists>r. random_choice r xs = Inr x"
proof -
  from assms obtain i where "i < length xs" "xs ! i = x" by (auto simp: in_set_conv_nth)
  then have "random_choice i xs = Inr x" by (auto simp: random_choice_def)
  then show ?thesis ..
qed

text \<open>The candidates that the random choice is made from.\<close>

definition best_scores :: "score list \<Rightarrow> score set" where
  "best_scores ranked =
     {s \<in> set ranked. (\<forall>t \<in> set ranked. score_value t \<le> score_value s) \<and>
        (is_cluster_score s \<or>
         (\<forall>t \<in> set ranked. is_cluster_score t \<longrightarrow> score_value t < score_value s))}"

lemma select_maximum_candidates:
  assumes "ranked \<noteq> []"
  obtains ms where "ms \<noteq> []" "set ms = best_scores ranked"
    "\<And>r. select_maximum r ranked = random_choice r ms"
proof -
  obtain b where b: "py_max ranked = Inr b" using assms py_max_total by blast
  let ?m = "filter (\<lambda>s. rank_eq s b) ranked"
  let ?m' = "if list_ex is_cluster_score ?m then filter is_cluster_score ?m else ?m"
  have best: "b \<in> set ranked" "\<forall>t \<in> set ranked. score_value t \<le> score_value b"
    using py_max_Inr [OF b] by blast+
  have top: "s \<in> set ?m \<longleftrightarrow> s \<in> set ranked \<and> (\<forall>t \<in> set ranked. score_value t \<le> score_value s)" for s
    using best by (auto simp: rank_eq_def order.antisym)
  have "?m' \<noteq> []" using best(1) by (auto simp: list_ex_iff rank_eq_def filter_empty_conv)
  moreover have "set ?m' = best_scores ranked"
  proof (cases "list_ex is_cluster_score ?m")
    case True
    then obtain k where k: "k \<in> set ranked" "is_cluster_score k" "score_value k = score_value b"
      by (auto simp: list_ex_iff rank_eq_def)
    show ?thesis
    proof (intro equalityI subsetI)
      fix s assume "s \<in> set ?m'"
      with True have "s \<in> set ?m" "is_cluster_score s" by simp_all
      with top show "s \<in> best_scores ranked" unfolding best_scores_def by blast
    next
      fix s assume "s \<in> best_scores ranked"
      then have s: "s \<in> set ranked" "\<forall>t \<in> set ranked. score_value t \<le> score_value s"
        "is_cluster_score s \<or> score_value k < score_value s"
        using k(1,2) unfolding best_scores_def by auto
      then have "s \<in> set ?m" using top by blast
      moreover from this have "score_value s = score_value b" by (simp add: rank_eq_def)
      with s(3) k(3) have "is_cluster_score s" by simp
      ultimately show "s \<in> set ?m'" using True by simp
    qed
  next
    case False
    then have none: "\<And>k. k \<in> set ranked \<Longrightarrow> is_cluster_score k \<Longrightarrow> score_value k < score_value b"
      using best(2) by (auto simp: list_ex_iff rank_eq_def less_le)
    show ?thesis
    proof (intro equalityI subsetI)
      fix s assume "s \<in> set ?m'"
      with False have s: "s \<in> set ?m" by simp
      then have "score_value s = score_value b" by (simp add: rank_eq_def)
      with s top none show "s \<in> best_scores ranked" unfolding best_scores_def by auto
    next
      fix s assume "s \<in> best_scores ranked"
      with top have "s \<in> set ?m" unfolding best_scores_def by blast
      with False show "s \<in> set ?m'" by simp
    qed
  qed
  moreover have "select_maximum r ranked = random_choice r ?m'" for r
    by (simp only: select_maximum_def b res_bind.simps Let_def)
  ultimately show thesis using that by blast
qed

lemma select_maximum_in:
  assumes "select_maximum r ss = Inr s"
  shows "s \<in> set ss"
proof -
  from assms have "ss \<noteq> []" by (auto simp: select_maximum_def)
  then obtain ms where ms: "ms \<noteq> []" "set ms = best_scores ss" "select_maximum r ss = random_choice r ms"
    using select_maximum_candidates by metis
  then obtain x where "x \<in> set ms" "select_maximum r ss = Inr x" using random_choice_in by metis
  with ms(2) assms show ?thesis by (simp add: best_scores_def)
qed

lemma calculate_cloud_score_cloud: "calculate_cloud_score ms c = Inr s \<Longrightarrow> \<exists>x. s = CloudScore x c"
  by (auto simp: calculate_cloud_score_def res_simps)

lemma weighted_sum_bounds:
  "(\<forall>q \<in> set ms. 0 \<le> qr_weight q \<and> 0 \<le> qr_value q \<and> qr_value q \<le> 1) \<Longrightarrow>
     0 \<le> weighted_sum ms \<and> weighted_sum ms \<le> weights ms"
proof (induction ms)
  case (Cons q ms)
  then have "0 \<le> qr_value q * qr_weight q" "qr_value q * qr_weight q \<le> qr_weight q"
    by (simp_all add: mult_left_le_one_le)
  with Cons show ?case by (simp add: weighted_sum_def weights_def)
qed (simp add: weighted_sum_def weights_def)

lemma weights_pos: "ms \<noteq> [] \<Longrightarrow> \<forall>q \<in> set ms. 0 < qr_weight q \<Longrightarrow> 0 < weights ms"
proof (induction ms)
  case (Cons q ms)
  then show ?case by (cases "ms = []") (auto simp: weights_def)
qed simp

section \<open>Properties\<close>

text \<open>
  The selected score is one of the best, a cluster whenever a cluster is among the best, and
  every such score is selected for some random number; only an empty list raises.
\<close>

theorem select_maximum_best:
  assumes "ranked \<noteq> []"
  shows "(\<exists>s \<in> best_scores ranked. select_maximum r ranked = Inr s) \<and>
    (\<forall>s \<in> best_scores ranked. \<exists>r'. select_maximum r' ranked = Inr s)"
proof -
  obtain ms where "ms \<noteq> []" "set ms = best_scores ranked"
    "\<And>r. select_maximum r ranked = random_choice r ms"
    using select_maximum_candidates [OF assms] by blast
  then show ?thesis using random_choice_in random_choice_all by metis
qed

theorem select_maximum_best_witness:
  "\<forall>c k. \<exists>s \<in> best_scores [CloudScore 1 c, ClusterScore 1 k].
     select_maximum 0 [CloudScore 1 c, ClusterScore 1 k] = Inr s"
  using select_maximum_best [of "[CloudScore 1 _, ClusterScore 1 _]" 0] by simp

text \<open>
  With positive weights a score lies in the unit interval, and the current cluster of an
  application never scores lower with stickiness than without.
\<close>

theorem cluster_score_sticky:
  assumes "ms \<noteq> []" and "\<forall>q \<in> set ms. 0 < qr_weight q \<and> 0 \<le> qr_value q \<and> qr_value q \<le> 1"
    and "0 \<le> sw"
  shows "\<exists>x y. calculate_kubernetes_cluster_score sw ms c app = Inr (ClusterScore x c) \<and>
    calculate_kubernetes_cluster_score 0 ms c app = Inr (ClusterScore y c) \<and>
    0 \<le> y \<and> y \<le> x \<and> x \<le> 1 \<and>
    (Some (resource_ref c) \<noteq> app_scheduled_to app \<longrightarrow> x = y)"
proof -
  have pos: "0 < weights ms"
    using weights_pos assms(1,2) by blast
  have b: "0 \<le> weighted_sum ms" "weighted_sum ms \<le> weights ms"
    using weighted_sum_bounds [of ms] assms(2) by (auto simp: less_imp_le)
  have y: "0 \<le> weighted_sum ms / weights ms" "weighted_sum ms / weights ms \<le> 1"
    using pos b by simp_all
  have x: "weighted_sum ms / weights ms \<le> (weighted_sum ms + sw) / (weights ms + sw)"
    "(weighted_sum ms + sw) / (weights ms + sw) \<le> 1"
  proof -
    have "weighted_sum ms * (weights ms + sw) \<le> (weighted_sum ms + sw) * weights ms"
      using mult_right_mono [OF b(2) assms(3)] by (simp add: algebra_simps)
    with pos assms(3) show "weighted_sum ms / weights ms \<le> (weighted_sum ms + sw) / (weights ms + sw)"
      by (simp add: frac_le_eq divide_le_eq pos_le_divide_eq mult.commute)
    show "(weighted_sum ms + sw) / (weights ms + sw) \<le> 1" using pos b assms(3) by simp
  qed
  show ?thesis
    using assms(1,3) pos x y
    by (auto simp: calculate_kubernetes_cluster_score_def calculate_kubernetes_cluster_stickiness_def Let_def)
qed

theorem cluster_score_sticky_witness:
  "\<exists>x y. calculate_kubernetes_cluster_score (1 / 10)
      [\<lparr>qr_metric = example_metric, qr_weight = 1, qr_value = 2 / 5\<rparr>] example_cluster
      (example_application\<lparr>app_scheduled_to := Some (resource_ref example_cluster)\<rparr>) =
        Inr (ClusterScore x example_cluster) \<and> y \<le> x \<and> x \<le> 1 \<and> 0 \<le> y"
  using cluster_score_sticky [of "[\<lparr>qr_metric = example_metric, qr_weight = 1, qr_value = 2 / 5\<rparr>]"
    "1 / 10" example_cluster "example_application\<lparr>app_scheduled_to := Some (resource_ref example_cluster)\<rparr>"]
  by auto

end
