(* ===== verification/Worker.thy ===== *)
theory Worker
  imports Work_Queue
begin

text \<open>
  The worker loop that the scheduler's handlers share: take a key and its value from the work
  queue, work on the value, and report the key as done in a \<open>finally\<close> clause. What differs
  is the body of the loop, which may itself put values into the queue.
\<close>

definition worker_turn ::
  "('v \<Rightarrow> ('k, 'v) work_queue \<Rightarrow> 'o \<times> ('k, 'v) work_queue) \<Rightarrow> ('k, 'v) work_queue \<Rightarrow>
     ((exn, 'o) res \<times> ('k, 'v) work_queue) option" where
  "worker_turn body q =
     (case wq_get q of
        None \<Rightarrow> None
      | Some (Inl e, q') \<Rightarrow> Some (Inl e, q')
      | Some (Inr (k, v), q') \<Rightarrow>
          (case body v q' of (out, q'') \<Rightarrow> Some (Inr out, wq_done k q'')))"

text \<open>
  The contract of a body: whatever it does to the queue, it keeps the invariant for the keys
  that are held, its own among them.
\<close>

locale queue_worker =
  fixes body :: "'v \<Rightarrow> ('k, 'v) work_queue \<Rightarrow> 'o \<times> ('k, 'v) work_queue"
  assumes body_inv: "wq_inv P q \<Longrightarrow> wq_inv P (snd (body v q))"
begin

lemma turn_keeps_inv:
  assumes "wq_inv P q" and "worker_turn body q = Some (r, q')"
  shows "wq_inv P q' \<and> (\<exists>out. r = Inr out)"
proof -
  obtain k ks where q: "queue q = k # ks"
    using assms(2) by (cases "queue q") (auto simp: worker_turn_def wq_get_def)
  from wq_get_inv_progress [OF assms(1) q] obtain v q1 where
    g: "wq_get q = Some (Inr (k, v), q1)" by blast
  obtain out q2 where body: "body v q1 = (out, q2)" by (cases "body v q1")
  from wq_inv_get [OF assms(1) g] have k: "k \<notin> P" "wq_inv (insert k P) q1" by simp_all
  from body_inv [OF k(2), of v] body have "wq_inv (insert k P) q2" by simp
  then have "wq_inv (insert k P - {k}) (wq_done k q2)" by (rule wq_inv_done) simp
  moreover have "insert k P - {k} = P" using k(1) by simp
  ultimately show ?thesis using assms(2) g body by (auto simp: worker_turn_def)
qed

lemma turn_progress:
  assumes "wq_inv P q" and "queue q \<noteq> []"
  shows "\<exists>out q'. worker_turn body q = Some (Inr out, q')"
proof -
  obtain k ks where q: "queue q = k # ks" using assms(2) by (cases "queue q") simp_all
  from wq_get_inv_progress [OF assms(1) q] obtain v q1 where
    "wq_get q = Some (Inr (k, v), q1)" by blast
  then show ?thesis by (simp add: worker_turn_def split: prod.split)
qed

end

end
