(* ===== verification/Scheduler_Application.thy ===== *)
theory Scheduler_Application
  imports Scheduler_Scores Worker
begin

text \<open>
  \<open>KubernetesApplicationHandler\<close> of \<open>krake/krake/controller/scheduler/scheduler.py\<close>:
  inherited labels and metrics of clusters, the ranking of clusters and clouds for an
  application, the scheduling decision with automatic cluster creation, retries, rescheduling
  and the worker turn on the work queue.
\<close>

section \<open>Inherited labels and metrics\<close>

abbreviation has_values :: "'a list option \<Rightarrow> bool" where
  "has_values vs \<equiv> vs \<noteq> None \<and> vs \<noteq> Some []"

abbreviation has_text :: "string option \<Rightarrow> bool" where
  "has_text s \<equiv> s \<noteq> None \<and> s \<noteq> Some []"

text \<open>\<open>cluster.spec.constraints.cloud\<close>; an access on \<open>None\<close> raises.\<close>

definition cloud_part :: "cluster \<Rightarrow> (exn, cloud_constraints) res" where
  "cloud_part c = (case cl_constraints c of Some (Some cs) \<Rightarrow> Inr cs | _ \<Rightarrow> Inl AttributeError)"

definition res_or :: "bool \<Rightarrow> (exn, bool) res \<Rightarrow> (exn, bool) res" where
  "res_or b m = (if b then Inr True else m)"

definition metric_constraint_value :: "metric_constraint \<Rightarrow> string" where
  "metric_constraint_value c = snd (metric_as_tuple c)"

definition read_cloud_of :: "world \<Rightarrow> resource_ref \<Rightarrow> (exn, cloud) res" where
  "read_cloud_of w r =
     (if has_text (ref_namespace r) then read_cloud w (the (ref_namespace r)) (ref_name r)
      else read_global_cloud w (ref_name r))"

text \<open>\<open>cloud.spec.__getattribute__(cloud.spec.type).metrics\<close>; \<open>openstack\<close> is the only type.\<close>

definition cloud_spec_metrics :: "cloud \<Rightarrow> (exn, metric_ref list) res" where
  "cloud_spec_metrics c =
     (if cloud_type c = ''openstack'' then Inr (openstack_metrics c) else Inl AttributeError)"

definition append_new :: "'a list \<Rightarrow> 'a list \<Rightarrow> 'a list" where
  "append_new xs ys = fold (\<lambda>y xs. if y \<in> set xs then xs else xs @ [y]) ys xs"

text \<open>Metrics of the cloud whose name is the value of one of the metric constraints.\<close>

definition constrained_metrics ::
  "metric_constraint list \<Rightarrow> metric_ref list \<Rightarrow> metric_ref list" where
  "constrained_metrics cs ms =
     concat (map (\<lambda>c. filter (\<lambda>m. metric_constraint_value c = mref_name m) ms) cs)"

text \<open>
  The labels that label constraints bring in: the source iterates over the metric constraints
  here, which raises when there are none.
\<close>

definition constrained_labels ::
  "metric_constraint list option \<Rightarrow> (string, string) dict \<Rightarrow> (exn, (string, string) dict) res" where
  "constrained_labels cs ls =
     (case cs of
        None \<Rightarrow> Inl TypeError
      | Some cs' \<Rightarrow>
          Inr (fold (\<lambda>c d. fold (\<lambda>(l, v) d. if metric_constraint_value c = l then dict_set l v d else d) ls d)
            cs' []))"

definition inherits_from_cloud :: "cluster \<Rightarrow> (exn, bool) res" where
  "inherits_from_cloud c =
     res_or (inherit_metrics c)
       (res_bind (cloud_part c) (\<lambda>cs.
          res_or (has_values (cloud_metrics cs) \<or> inherit_labels (metadata c) \<or> has_values (cloud_labels cs))
            (Inr False)))"

definition update_inherited_cluster_values :: "world \<Rightarrow> cluster \<Rightarrow> (exn, cluster) res" where
  "update_inherited_cluster_values w c =
     res_bind (inherits_from_cloud c) (\<lambda>inherits.
       case (inherits, cl_scheduled_to c) of
         (True, Some r) \<Rightarrow>
           res_bind (read_cloud_of w r) (\<lambda>cloud.
           let lbls = (if inherit_labels (metadata c)
                 then dict_merge (labels (metadata c)) (labels (metadata cloud))
                 else labels (metadata c)) in
           res_bind (cloud_part c) (\<lambda>cs.
           res_bind (if has_values (cloud_labels cs)
                 then constrained_labels (cloud_metrics cs) (labels (metadata cloud)) else Inr [])
             (\<lambda>extra.
           res_bind (if inherit_metrics c then cloud_spec_metrics cloud else Inr []) (\<lambda>inherited.
           res_bind (if has_values (cloud_metrics cs)
                 then res_bind (cloud_spec_metrics cloud) (\<lambda>ms.
                   Inr (constrained_metrics (the (cloud_metrics cs)) ms)) else Inr [])
             (\<lambda>constrained.
           Inr (c\<lparr>metadata := (metadata c)\<lparr>labels := dict_merge lbls extra\<rparr>,
                  cl_metrics := cl_metrics c @ append_new (append_new [] inherited) constrained\<rparr>))))))
       | _ \<Rightarrow> Inr c)"

section \<open>Ranking of clusters\<close>

text \<open>
  The metrics that a matching cluster is ranked by. The list of the cluster itself is extended,
  so the cluster is returned.
\<close>

definition ranking_metrics :: "world \<Rightarrow> cluster \<Rightarrow> (exn, cluster) res" where
  "ranking_metrics w c =
     res_bind (res_or (inherit_metrics c) (res_bind (cloud_part c) (\<lambda>cs. Inr (has_values (cloud_metrics cs)))))
       (\<lambda>wanted.
         case (wanted, cl_scheduled_to c) of
           (True, Some r) \<Rightarrow>
             res_bind (read_cloud_of w r) (\<lambda>cloud.
             res_bind (if inherit_metrics c then cloud_spec_metrics cloud else Inr []) (\<lambda>inherited.
             res_bind (cloud_part c) (\<lambda>cs.
             res_bind (if has_values (cloud_metrics cs)
                 then res_bind (cloud_spec_metrics cloud) (\<lambda>ms.
                   Inr (constrained_metrics (the (cloud_metrics cs)) ms)) else Inr [])
               (\<lambda>constrained.
             Inr (c\<lparr>cl_metrics := append_new (append_new (cl_metrics c) inherited) constrained\<rparr>)))))
         | _ \<Rightarrow> Inr c)"

definition rank_kubernetes_cluster ::
  "world \<Rightarrow> real \<Rightarrow> application \<Rightarrow> cluster \<Rightarrow> (request, exn, score list) act" where
  "rank_kubernetes_cluster w sw app c =
     act_bind (act_lift (ranking_metrics w c)) (\<lambda>c'.
     act_bind (fetch_metrics w (metered_cluster c') (cl_metrics c')) (\<lambda>(change, result).
       case result of
         None \<Rightarrow> act_return []
       | Some ms \<Rightarrow>
           act_bind (act_lift (calculate_kubernetes_cluster_score sw ms (change_cluster change c') app))
             (\<lambda>s. act_return [s])))"

definition rank_kubernetes_clusters ::
  "world \<Rightarrow> real \<Rightarrow> application \<Rightarrow> cluster list \<Rightarrow> (request, exn, score list) act" where
  "rank_kubernetes_clusters w sw app cs =
     act_bind (act_map (rank_kubernetes_cluster w sw app) cs) (\<lambda>ss. act_return (concat ss))"

section \<open>Scores of clusters\<close>

text \<open>
  The first loop of \<open>fetch_kubernetes_cluster_scores\<close>: for every cluster the copy with its
  inherited values, and the metrics that could be fetched. The status changes are made on the
  cluster itself, which the filter for existing clusters looks at afterwards.
\<close>

fun fetch_cluster_metrics ::
  "world \<Rightarrow> cluster list \<Rightarrow> (string, cluster) dict \<Rightarrow> fetched_metrics \<Rightarrow>
     (request, exn, cluster list \<times> (string, cluster) dict \<times> fetched_metrics) act" where
  "fetch_cluster_metrics w [] copies fetched = act_return ([], copies, fetched)"
| "fetch_cluster_metrics w (c # cs) copies fetched =
     act_bind (act_lift (update_inherited_cluster_values w c)) (\<lambda>copy.
     act_bind
       (if cl_metrics copy = [] then act_return (Keep_status, None)
        else fetch_metrics w (metered_cluster c) (cl_metrics copy))
       (\<lambda>(change, result).
     act_bind
       (fetch_cluster_metrics w cs (dict_set (name (metadata c)) copy copies)
         (case result of None \<Rightarrow> fetched | Some ms \<Rightarrow> dict_set (name (metadata c)) ms fetched))
       (\<lambda>(cs', rest). act_return (change_cluster change c # cs', rest))))"

definition cluster_exists :: "cluster \<Rightarrow> bool" where
  "cluster_exists c \<longleftrightarrow> deleted (metadata c) = None \<and> cl_state c = Cl_ONLINE"

datatype cluster_selection = Stay cluster | Scores "score list"

definition matches_application ::
  "application \<Rightarrow> (string, cluster) dict \<Rightarrow> fetched_metrics \<Rightarrow> cluster \<Rightarrow> (exn, bool) res" where
  "matches_application app copies fetched c =
     (case dict_get copies (name (metadata c)) of
        None \<Rightarrow> Inl KeyError
      | Some copy \<Rightarrow> match_application_constraints app (cluster_destination copy) fetched)"

text \<open>The cluster that the application is bound to, if it still matches and the binding is recent.\<close>

definition recent_cluster ::
  "world \<Rightarrow> real \<Rightarrow> application \<Rightarrow> cluster list \<Rightarrow> (exn, cluster option) res" where
  "recent_cluster w reschedule_after app matching =
     (case app_scheduled_to app of
        None \<Rightarrow> Inr None
      | Some ref \<Rightarrow>
          (case find (\<lambda>c. resource_ref c = ref) matching of
             None \<Rightarrow> Inr None
           | Some current \<Rightarrow>
               (case app_scheduled app of
                  None \<Rightarrow> Inl TypeError
                | Some t \<Rightarrow>
                    Inr (if real_of_int (now w - t) < reschedule_after then Some current else None))))"

definition score_clusters ::
  "world \<Rightarrow> real \<Rightarrow> application \<Rightarrow> cluster list \<Rightarrow> fetched_metrics \<Rightarrow> (request, exn, score list) act" where
  "score_clusters w sw app matching fetched =
     (let with_metrics = filter (\<lambda>c. name (metadata c) \<in> dict_keys fetched) matching in
      act_bind
        (if with_metrics = [] then act_return []
         else rank_kubernetes_clusters w sw app with_metrics)
        (\<lambda>ranked.
         if ranked \<noteq> [] then act_return ranked
         else act_lift (res_map (\<lambda>c. calculate_kubernetes_cluster_score sw [] c app) matching)))"

definition fetch_kubernetes_cluster_scores ::
  "world \<Rightarrow> real \<Rightarrow> real \<Rightarrow> application \<Rightarrow> cluster list \<Rightarrow> (request, exn, cluster_selection) act" where
  "fetch_kubernetes_cluster_scores w sw reschedule_after app clusters =
     act_bind (fetch_cluster_metrics w clusters [] []) (\<lambda>(clusters', copies, fetched).
     act_bind (act_lift (res_filter (matches_application app copies fetched)
         (filter cluster_exists clusters'))) (\<lambda>matching.
     if matching = [] \<and> \<not> auto_cluster_create app then act_raise NoClusterFound
     else
       act_bind (act_lift (recent_cluster w reschedule_after app matching)) (\<lambda>recent.
         case recent of
           Some current \<Rightarrow> act_return (Stay current)
         | None \<Rightarrow> act_bind (score_clusters w sw app matching fetched) (\<lambda>ss. act_return (Scores ss)))))"

section \<open>Scores of clouds\<close>

text \<open>\<open>cloud.spec.openstack\<close>, an attribute only of OpenStack clouds.\<close>

definition openstack_spec_metrics :: "cloud \<Rightarrow> (exn, metric_ref list) res" where
  "openstack_spec_metrics c =
     (if cloud_type c = ''openstack'' then Inr (openstack_metrics c) else Inl AttributeError)"

fun fetch_cloud_metrics ::
  "world \<Rightarrow> cloud list \<Rightarrow> fetched_metrics \<Rightarrow> (request, exn, cloud list \<times> fetched_metrics) act" where
  "fetch_cloud_metrics w [] fetched = act_return ([], fetched)"
| "fetch_cloud_metrics w (c # cs) fetched =
     act_bind (act_lift (openstack_spec_metrics c)) (\<lambda>ms.
     act_bind
       (if ms = [] then act_return (Keep_status, None) else fetch_metrics w (metered_cloud c) ms)
       (\<lambda>(change, result).
     act_bind
       (fetch_cloud_metrics w cs
         (case result of None \<Rightarrow> fetched | Some qs \<Rightarrow> dict_set (name (metadata c)) qs fetched))
       (\<lambda>(cs', fetched'). act_return (change_cloud change c # cs', fetched'))))"

definition rank_cloud :: "world \<Rightarrow> cloud \<Rightarrow> (request, exn, score list) act" where
  "rank_cloud w c =
     act_bind (act_lift (openstack_spec_metrics c)) (\<lambda>ms.
     act_bind (fetch_metrics w (metered_cloud c) ms) (\<lambda>(change, result).
       case result of
         None \<Rightarrow> act_return []
       | Some qs \<Rightarrow>
           act_bind (act_lift (calculate_cloud_score qs (change_cloud change c))) (\<lambda>s. act_return [s])))"

definition rank_clouds :: "world \<Rightarrow> cloud list \<Rightarrow> (request, exn, score list) act" where
  "rank_clouds w cs = act_bind (act_map (rank_cloud w) cs) (\<lambda>ss. act_return (concat ss))"

definition fetch_cloud_scores :: "world \<Rightarrow> application \<Rightarrow> cloud list \<Rightarrow> (request, exn, score list) act" where
  "fetch_cloud_scores w app clouds =
     act_bind (fetch_cloud_metrics w clouds []) (\<lambda>(clouds', fetched).
     act_bind (act_lift (res_filter
         (\<lambda>c. match_application_constraints app (cloud_destination c) fetched) clouds')) (\<lambda>matching.
     let with_metrics = filter (\<lambda>c. openstack_metrics c \<noteq> []) matching in
     if with_metrics \<noteq> [] then rank_clouds w with_metrics
     else act_lift (res_map (calculate_cloud_score []) matching)))"

section \<open>The scheduling location\<close>

datatype location = To_cluster cluster | To_cloud cloud

text \<open>
  When the application stays on its cluster, the source adds the cluster itself to the list of
  scores, catches the resulting \<open>TypeError\<close> and returns the cluster.
\<close>

definition select_scheduling_location ::
  "world \<Rightarrow> real \<Rightarrow> real \<Rightarrow> application \<Rightarrow> cluster list \<Rightarrow> cloud list \<Rightarrow> (request, exn, location) act" where
  "select_scheduling_location w sw reschedule_after app clusters clouds =
     act_bind (fetch_kubernetes_cluster_scores w sw reschedule_after app clusters) (\<lambda>selection.
       case selection of
         Stay c \<Rightarrow> act_return (To_cluster c)
       | Scores ss \<Rightarrow>
           act_bind (if auto_cluster_create app then fetch_cloud_scores w app clouds else act_return [])
             (\<lambda>ss'.
           act_bind (act_lift (select_maximum (random_index w) (ss @ ss'))) (\<lambda>best.
             case best of
               CloudScore x c \<Rightarrow> act_return (To_cloud c)
             | ClusterScore x c \<Rightarrow> act_return (To_cluster c)
             | ProjectScore x p \<Rightarrow> act_raise NoClusterFound)))"

section \<open>Scheduling an application\<close>

text \<open>
  The handler mutates the application and may raise afterwards, and its caller keeps the
  object: a step returns the requests, the application, and the result.
\<close>

type_synonym app_step = "request list \<times> application \<times> (exn, unit) res"

definition auto_generate_cluster_name :: "world \<Rightarrow> nat \<Rightarrow> string" where
  "auto_generate_cluster_name w i = ''cluster-'' @ digits_of (1000 + random_number w i mod 9000)"

text \<open>
  The cluster that is created; reading the template may raise, an empty one fails validation.
\<close>

definition cluster_to_create ::
  "world \<Rightarrow> application \<Rightarrow> cloud \<Rightarrow> string \<Rightarrow> (exn, cluster) res" where
  "cluster_to_create w app c cluster_name =
     res_bind (read_tosca w) (\<lambda>tosca.
     res_bind (case app_constraints app of None \<Rightarrow> Inl AttributeError | Some cs \<Rightarrow> Inr cs) (\<lambda>cs.
     res_bind (case cluster_part cs of None \<Rightarrow> Inl AttributeError | Some cc \<Rightarrow> Inr cc) (\<lambda>cc.
     if \<not> tosca then Inl ValidationError
     else Inr
       \<lparr>api = ''kubernetes'', kind = cluster_kind,
        metadata = \<lparr>name = cluster_name, namespace = namespace (metadata app), labels = [],
          inherit_labels = True, finalizers = [], uid = [], created = 0, modified = 0,
          deleted = None, owners = []\<rparr>,
        has_kubeconfig = False, custom_resources = [],
        cl_constraints = Some (Some
          \<lparr>cloud_labels = cluster_labels cc, cloud_metrics = cluster_metrics cc\<rparr>),
        cl_metrics = [], inherit_metrics = True, auto_generated = True, cl_state = Cl_PENDING,
        cl_reason = None, cl_metrics_reasons = [], cl_scheduled_to = Some (resource_ref c)\<rparr>)))"

text \<open>
  At most three attempts; an exception of the request itself is logged, one before it is not
  caught. The result is the name of the created cluster.
\<close>

fun create_attempts ::
  "world \<Rightarrow> application \<Rightarrow> cloud \<Rightarrow> nat \<Rightarrow> nat \<Rightarrow> (request, exn, string option) act" where
  "create_attempts w app c i 0 = act_return None"
| "create_attempts w app c i (Suc n) =
     act_bind (act_lift (cluster_to_create w app c (auto_generate_cluster_name w i))) (\<lambda>cl.
     act_then (act_request (Create_cluster (namespace (metadata app)) cl))
       (if creation_response w i = Inr True then act_return (Some (name (metadata cl)))
        else create_attempts w app c (Suc i) n))"

definition bind_application :: "world \<Rightarrow> cluster \<Rightarrow> application \<Rightarrow> app_step" where
  "bind_application w c app =
     (if app_scheduled_to app = Some (resource_ref c) then
        (case kube_controller_triggered app of
           None \<Rightarrow> ([], app, Inl TypeError)
         | Some t \<Rightarrow>
             if modified (metadata app) > t
             then (let app' = app\<lparr>kube_controller_triggered := Some (now w)\<rparr>
                   in ([Update_application_status app'], app', Inr ()))
             else ([], app, Inr ()))
      else
        ([Update_application_binding (namespace (metadata app)) (name (metadata app)) (resource_ref c)],
         app, Inr ()))"

text \<open>
  After a failed creation the message of the \<open>ControllerError\<close> reads \<open>maximum.cloud\<close>, but
  \<open>maximum\<close> is the cloud itself: the access raises \<open>AttributeError\<close>.
\<close>

definition create_cluster_for :: "world \<Rightarrow> cloud \<Rightarrow> application \<Rightarrow> app_step" where
  "create_cluster_for w c app =
     (case create_attempts w app c 0 3 of
        (requests, Inl e) \<Rightarrow> (requests, app, Inl e)
      | (requests, Inr None) \<Rightarrow> (requests, app, Inl AttributeError)
      | (requests, Inr (Some cluster_name)) \<Rightarrow>
          (let app' = app\<lparr>auto_cluster_create_started := Some cluster_name,
                 app_state := App_WAITING_FOR_CLUSTER_CREATION\<rparr>
           in (requests @ [Update_application_status app'], app', Inl WaitingOnCluster)))"

definition created_cluster :: "application \<Rightarrow> cluster list \<Rightarrow> cluster option" where
  "created_cluster app clusters =
     (case filter (\<lambda>c. deleted (metadata c) = None \<and>
          Some (name (metadata c)) = auto_cluster_create_started app) clusters of
        [] \<Rightarrow> None
      | c # _ \<Rightarrow> if cl_state c = Cl_ONLINE then Some c else None)"

text \<open>The decision, once clusters and clouds are listed.\<close>

definition place_application ::
  "world \<Rightarrow> real \<Rightarrow> real \<Rightarrow> application \<Rightarrow> cluster list \<Rightarrow> cloud list \<Rightarrow> app_step" where
  "place_application w sw reschedule_after app clusters clouds =
     (if has_text (auto_cluster_create_started app) then
        (case created_cluster app clusters of
           None \<Rightarrow> ([], app, Inl WaitingOnCluster)
         | Some c \<Rightarrow> bind_application w c (app\<lparr>auto_cluster_create_started := None\<rparr>))
      else
        (case select_scheduling_location w sw reschedule_after app clusters clouds of
           (requests, Inl e) \<Rightarrow> (requests, app, Inl e)
         | (requests, Inr (To_cloud c)) \<Rightarrow>
             if auto_cluster_create app \<and> auto_cluster_create_started app = None then
               (case create_cluster_for w c app of (rs, app', r) \<Rightarrow> (requests @ rs, app', r))
             else (requests, app, Inl NoClusterFound)
         | (requests, Inr (To_cluster c)) \<Rightarrow>
             (case bind_application w c app of (rs, app', r) \<Rightarrow> (requests @ rs, app', r))))"

definition schedule_kubernetes_application ::
  "world \<Rightarrow> real \<Rightarrow> real \<Rightarrow> application \<Rightarrow> app_step" where
  "schedule_kubernetes_application w sw reschedule_after app =
     (if app_scheduled_to app \<noteq> None \<and> app_constraints app = None then ([], app, Inl AttributeError)
      else if app_scheduled_to app \<noteq> None \<and> \<not> migration (the (app_constraints app)) then ([], app, Inr ())
      else if migration_timeout app > now w then ([], app, Inr ())
      else
        (case res_bind (list_clusters w (namespace (metadata app))) (\<lambda>clusters.
                res_bind (list_clouds w (namespace (metadata app))) (\<lambda>clouds.
                  res_bind (list_global_clouds w) (\<lambda>global_clouds.
                    Inr (clusters, clouds @ global_clouds)))) of
           Inl e \<Rightarrow> ([], app, Inl e)
         | Inr (clusters, clouds) \<Rightarrow> place_application w sw reschedule_after app clusters clouds))"

section \<open>Reception, rescheduling and the worker\<close>

type_synonym app_queue = "(string, application) work_queue"

definition reschedule_kubernetes_application ::
  "real \<Rightarrow> application \<Rightarrow> app_queue \<Rightarrow> (exn, app_queue) res" where
  "reschedule_kubernetes_application reschedule_after app q =
     (case app_constraints app of
        None \<Rightarrow> Inl AttributeError
      | Some cs \<Rightarrow>
          Inr (if \<not> migration cs then q
               else if uid (metadata app) \<notin> dict_keys (dirty q)
               then wq_put (uid (metadata app)) app (Some reschedule_after) q
               else q))"

definition received_kubernetes_app :: "real \<Rightarrow> application \<Rightarrow> app_queue \<Rightarrow> (exn, app_queue) res" where
  "received_kubernetes_app reschedule_after app q =
     (if deleted (metadata app) \<noteq> None then Inr (wq_cancel (uid (metadata app)) q)
      else if (case kube_controller_triggered app of None \<Rightarrow> False | Some t \<Rightarrow> modified (metadata app) \<le> t)
      then reschedule_kubernetes_application reschedule_after app q
      else if app_state app = App_FAILED then Inr q
      else Inr (wq_put (uid (metadata app)) app None q))"

definition update_retry_fields :: "time \<Rightarrow> application \<Rightarrow> application" where
  "update_retry_fields t app =
     (let app' = (if app_backoff_limit app > 0
          then app\<lparr>app_retries := map_option (\<lambda>n. n - 1) (app_retries app)\<rparr> else app)
      in app'\<lparr>scheduled_retry := Some (t + app_backoff_delay app * app_backoff app)\<rparr>)"

definition due :: "world \<Rightarrow> application \<Rightarrow> bool" where
  "due w app \<longleftrightarrow>
     app_state app \<noteq> App_DEGRADED \<or> (case scheduled_retry app of None \<Rightarrow> False | Some t \<Rightarrow> now w \<ge> t)"

text \<open>
  The application is the same object in the queue and in the handler, which resets its retries
  after a successful turn; so it is put into the queue with the retries reset.
\<close>

definition kubernetes_application_received ::
  "world \<Rightarrow> real \<Rightarrow> real \<Rightarrow> application \<Rightarrow> app_queue \<Rightarrow>
     request list \<times> application \<times> app_queue \<times> (exn, unit) res" where
  "kubernetes_application_received w sw reschedule_after app q =
     (if due w app then
        (case schedule_kubernetes_application w sw reschedule_after app of
           (requests, app', Inl e) \<Rightarrow> (requests, app', q, Inl e)
         | (requests, app', Inr _) \<Rightarrow>
             (case reschedule_kubernetes_application reschedule_after
                 (app'\<lparr>app_retries := Some (app_backoff_limit app')\<rparr>) q of
                Inl e \<Rightarrow> (requests, app', q, Inl e)
              | Inr q' \<Rightarrow> (requests, app', q', Inr ())))
      else ([], app, q, Inr ()))"

definition record_failure :: "time \<Rightarrow> reason_code option \<Rightarrow> application \<Rightarrow> application" where
  "record_failure t code app =
     (let app' = app\<lparr>app_reason := code\<rparr> in
      if (case app_retries app' of None \<Rightarrow> False | Some n \<Rightarrow> n > 0) \<or> app_backoff_limit app' = -1
      then update_retry_fields t (app'\<lparr>app_state := App_DEGRADED\<rparr>)
      else app'\<lparr>app_state := App_FAILED\<rparr>)"

definition prepare_retries :: "application \<Rightarrow> application" where
  "prepare_retries app =
     (if app_retries app = None then app\<lparr>app_retries := Some (app_backoff_limit app)\<rparr> else app)"

text \<open>The body of the worker loop, with the exception that ends the worker, if any.\<close>

definition app_turn ::
  "world \<Rightarrow> real \<Rightarrow> real \<Rightarrow> application \<Rightarrow> app_queue \<Rightarrow> (request list \<times> exn option) \<times> app_queue" where
  "app_turn w sw reschedule_after app q =
     (case kubernetes_application_received w sw reschedule_after (prepare_retries app) q of
        (requests, app', q', Inr _) \<Rightarrow> ((requests, None), q')
      | (requests, app', q', Inl e) \<Rightarrow>
          if e = WaitingOnCluster then ((requests, None), wq_put (uid (metadata app')) app' (Some 30) q')
          else
            (case controller_error e of
               None \<Rightarrow> ((requests, Some e), q')
             | Some code \<Rightarrow>
                 ((requests @ [Update_application_status (record_failure (now w) code app')], None), q')))"

definition handle_kubernetes_applications ::
  "world \<Rightarrow> real \<Rightarrow> real \<Rightarrow> app_queue \<Rightarrow> ((exn, request list \<times> exn option) res \<times> app_queue) option" where
  "handle_kubernetes_applications w sw reschedule_after = worker_turn (app_turn w sw reschedule_after)"

section \<open>Clusters keep their identity\<close>












section \<open>Selected clusters are acceptable\<close>











section \<open>What a selection requests\<close>






section \<open>The worker keeps the queue\<close>

lemma reschedule_inv:
  "reschedule_kubernetes_application ra app q = Inr q' \<Longrightarrow> wq_inv P q \<Longrightarrow> wq_inv P q'"
  by (auto simp: reschedule_kubernetes_application_def wq_inv_put split: option.splits if_splits)

lemma app_received_inv:
  "kubernetes_application_received w sw ra app q = (rs, app', q', r) \<Longrightarrow> wq_inv P q \<Longrightarrow> wq_inv P q'"
  by (auto simp: kubernetes_application_received_def intro: reschedule_inv
      split: if_splits prod.splits sum.splits)

interpretation app_worker: queue_worker "app_turn w sw ra" for w sw ra
  by unfold_locales
    (auto simp: app_turn_def wq_inv_put dest: app_received_inv split: prod.splits sum.splits option.splits)

section \<open>Properties\<close>


definition simple_application :: application where
  "simple_application =
     example_application\<lparr>app_constraints := Some \<lparr>cluster_part = None, migration = True\<rparr>\<rparr>"



text \<open>
  Creating a cluster makes at most three attempts and stops at the first that succeeds: the
  application then waits for that cluster. If all fail, the application is unchanged, but the
  error is an \<open>AttributeError\<close>, which no worker catches, and not the \<open>ControllerError\<close> that
  the code is about to raise.
\<close>

theorem create_cluster_attempts:
  assumes "read_tosca w = Inr True" and "app_constraints app = Some cs" and "cluster_part cs = Some cc"
    and "create_cluster_for w c app = (requests, app', r)"
  shows "if \<exists>i < 3. creation_response w i = Inr True
    then \<exists>i < 3. creation_response w i = Inr True \<and> (\<forall>j < i. creation_response w j \<noteq> Inr True) \<and>
      r = Inl WaitingOnCluster \<and> app_state app' = App_WAITING_FOR_CLUSTER_CREATION \<and>
      auto_cluster_create_started app' = Some (auto_generate_cluster_name w i) \<and>
      length requests = i + 2 \<and> last requests = Update_application_status app'
    else r = Inl AttributeError \<and> app' = app \<and> length requests = 3"
proof -
  have three: "(\<exists>i < 3. P i) \<longleftrightarrow> P 0 \<or> P 1 \<or> P (2::nat)" for P
    by (auto simp: numeral_eq_Suc less_Suc_eq)
  have cl: "\<exists>cl. cluster_to_create w app c n = Inr cl \<and> name (metadata cl) = n" for n
    using assms(1-3) by (simp add: cluster_to_create_def)
  obtain c0 c1 c2 where "cluster_to_create w app c (auto_generate_cluster_name w 0) = Inr c0"
    "name (metadata c0) = auto_generate_cluster_name w 0"
    "cluster_to_create w app c (auto_generate_cluster_name w 1) = Inr c1"
    "name (metadata c1) = auto_generate_cluster_name w 1"
    "cluster_to_create w app c (auto_generate_cluster_name w 2) = Inr c2"
    "name (metadata c2) = auto_generate_cluster_name w 2"
    using cl by metis
  with assms(4) show ?thesis
    unfolding three
    by (auto simp: create_cluster_for_def numeral_eq_Suc act_simps Let_def act_return_def
        less_Suc_eq split: if_splits)
qed

theorem create_cluster_attempts_witness:
  "\<forall>c. \<exists>requests app' r. create_cluster_for (example_world\<lparr>creation_response := \<lambda>_. Inl (ClientError ''x'')\<rparr>)
      c example_application = (requests, app', r) \<and> r = Inl AttributeError \<and> app' = example_application"
proof
  fix c
  let ?w = "example_world\<lparr>creation_response := \<lambda>_. Inl (ClientError ''x'')\<rparr>"
  obtain requests app' r where s: "create_cluster_for ?w c example_application = (requests, app', r)"
    by (cases "create_cluster_for ?w c example_application")
  have "read_tosca ?w = Inr True" by (simp add: example_world_def)
  from create_cluster_attempts [OF this _ _ s] s
  show "\<exists>requests app' r. create_cluster_for ?w c example_application = (requests, app', r) \<and>
      r = Inl AttributeError \<and> app' = example_application"
    by (simp add: example_application_def)
qed

lemma record_failure_steps:
  assumes "app_retries app = Some n" and "app_backoff_limit app = l" and "0 \<le> n" and "n \<le> l"
  shows "ts \<noteq> [] \<Longrightarrow>
    app_state (fold (\<lambda>t. record_failure t code) ts app) =
      (if int (length ts) \<le> n then App_DEGRADED else App_FAILED)"
  using assms
proof (induction ts arbitrary: app n)
  case (Cons t ts)
  let ?app = "record_failure t code app"
  show ?case
  proof (cases "n = 0")
    case True
    have failed: "app_state (fold (\<lambda>t. record_failure t code) ts a) = App_FAILED"
      if "app_state a = App_FAILED" "app_retries a = Some 0" "app_backoff_limit a = l" for a
      using that \<open>n \<le> l\<close> \<open>0 \<le> n\<close>
      by (induction ts arbitrary: a) (auto simp: record_failure_def Let_def)
    have "app_state ?app = App_FAILED" "app_retries ?app = Some 0" "app_backoff_limit ?app = l"
      using True Cons.prems by (auto simp: record_failure_def Let_def)
    then show ?thesis using failed True by simp
  next
    case False
    then have a: "app_state ?app = App_DEGRADED" "app_retries ?app = Some (n - 1)"
      "app_backoff_limit ?app = l"
      using Cons.prems by (auto simp: record_failure_def update_retry_fields_def Let_def)
    show ?thesis
    proof (cases "ts = []")
      case True
      with a(1) False Cons.prems show ?thesis by simp
    next
      case False
      with Cons.IH [OF False a(2,3)] Cons.prems \<open>n \<noteq> 0\<close> show ?thesis by simp
    qed
  qed
qed simp

text \<open>
  The retries bound the failures: an application with all its retries left stays degraded
  through that many failures in a row and is failed by the next one.
\<close>

theorem retries_bound_failures:
  assumes "app_retries app = Some (app_backoff_limit app)" and "0 \<le> app_backoff_limit app" and "ts \<noteq> []"
  shows "app_state (fold (\<lambda>t. record_failure t code) ts app) =
    (if int (length ts) \<le> app_backoff_limit app then App_DEGRADED else App_FAILED)"
  using record_failure_steps [OF assms(1) refl assms(2) order_refl assms(3)] .

theorem retries_bound_failures_witness:
  "app_state (fold (\<lambda>t. record_failure t None) [10, 20, 30]
     (example_application\<lparr>app_backoff_limit := 2, app_retries := Some 2\<rparr>)) = App_FAILED"
  using retries_bound_failures [of "example_application\<lparr>app_backoff_limit := 2, app_retries := Some 2\<rparr>" "[10, 20, 30]" None]
  by simp

text \<open>
  A degraded application that is taken from the queue before its retry is due is dropped:
  the turn sends nothing, starts no timer, and leaves no pending value of the application, so
  that nothing brings it back when the retry is due.
\<close>

theorem degraded_retry_dropped:
  assumes "wq_inv P q" and "wq_get q = Some (Inr (k, app), q1)"
    and "app_state app = App_DEGRADED" and "scheduled_retry app = Some t" and "now w < t"
  shows "\<exists>q'. handle_kubernetes_applications w sw ra q = Some (Inr ([], None), q') \<and>
    k \<notin> dict_keys (dirty q') \<and> k \<notin> set (queue q') \<and> timers q' = timers q \<and> tasks q' = tasks q"
proof -
  have "app_turn w sw ra app q1 = (([], None), q1)"
    using assms(3-5)
    by (auto simp: app_turn_def kubernetes_application_received_def due_def prepare_retries_def)
  then have h: "handle_kubernetes_applications w sw ra q = Some (Inr ([], None), wq_done k q1)"
    using assms(2) by (simp add: handle_kubernetes_applications_def worker_turn_def)
  from wq_get_InrD [OF assms(2)] obtain ks where
    q1: "queue q = k # ks" "q1 = q\<lparr>queue := ks, dirty := dict_del k (dirty q)\<rparr>" by blast
  have "k \<notin> set ks" using assms(1) q1(1) by (simp add: wq_inv_def)
  with h q1 show ?thesis by (auto simp: wq_done_def Let_def)
qed

lemma queue_with_one:
  "wq_inv {} (wq_put k v None (wq_init 0))"
  "wq_get (wq_put k v None (wq_init 0)) = Some (Inr (k, v), (wq_init 0)\<lparr>active := {k}\<rparr>)"
  by (simp_all add: wq_inv_put wq_inv_init)
    (simp add: wq_put_def wq_init_def put_key_def add_key_to_queue_def wq_get_def Let_def)

theorem degraded_retry_dropped_witness:
  "\<exists>q'. handle_kubernetes_applications example_world 0 60
      (wq_put ''u2'' (example_application\<lparr>app_state := App_DEGRADED, scheduled_retry := Some 200\<rparr>) None (wq_init 0)) =
      Some (Inr ([], None), q') \<and> ''u2'' \<notin> dict_keys (dirty q')"
proof -
  let ?app = "example_application\<lparr>app_state := App_DEGRADED, scheduled_retry := Some 200\<rparr>"
  have "now example_world < 200" by (simp add: example_world_def)
  with degraded_retry_dropped [OF queue_with_one(1) queue_with_one(2),
    where app = ?app and t = 200 and w = example_world and k = "''u2''" and sw = 0 and ra = 60]
  show ?thesis by auto
qed

text \<open>
  An application that may have its cluster created, in a namespace without clusters and
  without any cloud, ends the worker: the maximum of no scores is a \<open>ValueError\<close> instead of a
  missing cluster.
\<close>

theorem no_candidates_end_worker:
  assumes "list_clusters w (namespace (metadata app)) = Inr []"
    and "list_clouds w (namespace (metadata app)) = Inr []" and "list_global_clouds w = Inr []"
    and "auto_cluster_create app" and "\<not> has_text (auto_cluster_create_started app)"
    and "app_scheduled_to app = None" and "migration_timeout app \<le> now w" and "due w app"
  shows "app_turn w sw ra app q = (([], Some ValueError), q)"
proof -
  have app: "list_clusters w (namespace (metadata (prepare_retries app))) = Inr []"
    "list_clouds w (namespace (metadata (prepare_retries app))) = Inr []"
    "auto_cluster_create (prepare_retries app)" "\<not> has_text (auto_cluster_create_started (prepare_retries app))"
    "app_scheduled_to (prepare_retries app) = None" "migration_timeout (prepare_retries app) \<le> now w"
    "due w (prepare_retries app)"
    using assms by (auto simp: prepare_retries_def due_def)
  have "fetch_kubernetes_cluster_scores w sw ra (prepare_retries app) [] = ([], Inr (Scores []))"
    using app(3,5)
    by (simp add: fetch_kubernetes_cluster_scores_def recent_cluster_def score_clusters_def act_simps
        act_return_def act_lift_def act_bind_def)
  moreover have "fetch_cloud_scores w (prepare_retries app) [] = ([], Inr [])"
    by (simp add: fetch_cloud_scores_def act_simps) (simp add: act_lift_def)
  ultimately have "select_scheduling_location w sw ra (prepare_retries app) [] [] = ([], Inl ValueError)"
    using app(3) by (simp add: select_scheduling_location_def act_bind_def act_lift_def select_maximum_def)
  then have "schedule_kubernetes_application w sw ra (prepare_retries app) =
      ([], prepare_retries app, Inl ValueError)"
    using app assms(3) by (auto simp: schedule_kubernetes_application_def place_application_def)
  with app(7) show ?thesis by (simp add: app_turn_def kubernetes_application_received_def)
qed

theorem no_candidates_end_worker_witness:
  "app_turn (example_world\<lparr>list_clusters := \<lambda>_. Inr []\<rparr>) 0 60
     (simple_application\<lparr>auto_cluster_create := True\<rparr>) (wq_init 0) = (([], Some ValueError), wq_init 0)"
  by (rule no_candidates_end_worker)
    (simp_all add: example_world_def simple_application_def example_application_def due_def)

text \<open>
  Whatever a turn of an application worker raises, the key is released and the invariant of
  the work queue holds for the same held keys; on a queue with a key the turn takes place.
\<close>

theorem app_worker_releases_key:
  assumes "wq_inv P q" and "queue q \<noteq> []"
  shows "\<exists>out q'. handle_kubernetes_applications w sw ra q = Some (Inr out, q') \<and> wq_inv P q'"
  using app_worker.turn_progress [OF assms] app_worker.turn_keeps_inv [OF assms(1)]
  unfolding handle_kubernetes_applications_def by blast

theorem app_worker_releases_key_witness:
  "\<exists>out q'. handle_kubernetes_applications example_world 0 60 (wq_put ''u2'' example_application None (wq_init 0)) =
     Some (Inr out, q') \<and> wq_inv {} q'"
proof -
  have "queue (wq_put ''u2'' example_application None (wq_init 0)) \<noteq> []"
    by (simp add: wq_put_def wq_init_def put_key_def add_key_to_queue_def Let_def)
  with app_worker_releases_key [OF queue_with_one(1)] show ?thesis by blast
qed

end
