(* ===== verification/Scheduler_Cluster.thy ===== *)
theory Scheduler_Cluster
  imports Scheduler_Scores Worker
begin

text \<open>
  Scheduling of Kubernetes clusters to clouds, the class \<open>KubernetesClusterHandler\<close> of
  \<open>krake/krake/controller/scheduler/scheduler.py\<close>: which clusters are received, the selection
  of a cloud, the binding, and the worker with its error handling.
\<close>

section \<open>Selecting a cloud\<close>

definition get_cloud_metrics :: "cloud \<Rightarrow> (exn, metric_ref list) res" where
  "get_cloud_metrics c =
     (if cloud_type c = ''openstack'' then Inr (openstack_metrics c) else Inl NotImplementedError)"

text \<open>
  The first loop of \<open>select_cloud\<close>. It visits every cloud, the deleted ones too; a change of
  the status is made on the cloud itself, which is looked at again afterwards.
\<close>

fun fetch_all_clouds ::
  "world \<Rightarrow> cloud list \<Rightarrow> fetched_metrics \<Rightarrow> (request, exn, cloud list \<times> fetched_metrics) act" where
  "fetch_all_clouds w [] fetched = act_return ([], fetched)"
| "fetch_all_clouds w (c # cs) fetched =
     act_bind (act_lift (get_cloud_metrics c)) (\<lambda>ms.
     act_bind
       (if ms = [] then act_return (Keep_status, None) else fetch_metrics w (metered_cloud c) ms)
       (\<lambda>(change, result).
     act_bind
       (fetch_all_clouds w cs
         (case result of None \<Rightarrow> fetched | Some qs \<Rightarrow> dict_set (name (metadata c)) qs fetched))
       (\<lambda>(cs', fetched'). act_return (change_cloud change c # cs', fetched'))))"

definition score_cloud :: "world \<Rightarrow> cloud \<Rightarrow> (request, exn, score list) act" where
  "score_cloud w c =
     act_bind (act_lift (get_cloud_metrics c)) (\<lambda>ms.
     act_bind (fetch_metrics w (metered_cloud c) ms) (\<lambda>(change, result).
       case result of
         None \<Rightarrow> act_return []
       | Some qs \<Rightarrow>
           act_bind (act_lift (calculate_cloud_score qs (change_cloud change c))) (\<lambda>s. act_return [s])))"

definition rank_clouds_for_cluster :: "world \<Rightarrow> cloud list \<Rightarrow> (request, exn, score list) act" where
  "rank_clouds_for_cluster w cs = act_bind (act_map (score_cloud w) cs) (\<lambda>ss. act_return (concat ss))"

text \<open>\<open>self.select_maximum(scores).cloud\<close>.\<close>

fun cloud_of_score :: "score \<Rightarrow> (exn, cloud) res" where
  "cloud_of_score (CloudScore x c) = Inr c"
| "cloud_of_score _ = Inl AttributeError"

definition choose_cloud :: "world \<Rightarrow> cloud list \<Rightarrow> (request, exn, cloud) act" where
  "choose_cloud w matching =
     act_bind (act_lift (res_filter (\<lambda>c. res_bind (get_cloud_metrics c) (\<lambda>ms. Inr (ms \<noteq> []))) matching))
       (\<lambda>with_metrics.
     act_bind (if with_metrics = [] then act_return [] else rank_clouds_for_cluster w with_metrics) (\<lambda>ranked.
     act_bind (if ranked \<noteq> [] then act_return ranked
         else act_lift (res_map (calculate_cloud_score []) matching)) (\<lambda>scores.
     act_lift (res_bind (select_maximum (random_index w) scores) cloud_of_score))))"

definition select_cloud :: "world \<Rightarrow> cluster \<Rightarrow> cloud list \<Rightarrow> (request, exn, cloud) act" where
  "select_cloud w cl clouds =
     act_bind (fetch_all_clouds w clouds []) (\<lambda>(clouds', fetched).
     act_bind (act_lift (res_filter (\<lambda>c. match_cluster_constraints cl c fetched)
         (filter (\<lambda>c. deleted (metadata c) = None) clouds'))) (\<lambda>matching.
     if matching = [] then act_raise NoCloudFound else choose_cloud w matching))"

section \<open>Scheduling a cluster\<close>

text \<open>
  The loop over the applications breaks after the first one, whether it uses the cluster or
  not.
\<close>

definition cluster_has_apps :: "cluster \<Rightarrow> application list \<Rightarrow> bool" where
  "cluster_has_apps cl apps =
     (case apps of
        [] \<Rightarrow> False
      | app # _ \<Rightarrow>
          (case app_scheduled_to app of None \<Rightarrow> False | Some r \<Rightarrow> ref_name r = name (metadata cl)) \<or>
          cl_state cl \<noteq> Cl_ONLINE)"

definition delete_unused :: "cluster \<Rightarrow> application list \<Rightarrow> (request, exn, unit) act" where
  "delete_unused cl apps =
     (if \<not> cluster_has_apps cl apps \<and> auto_generated cl \<and> deleted (metadata cl) = None
      then act_request (Delete_cluster (namespace (metadata cl)) (name (metadata cl)))
      else act_return ())"

text \<open>Clouds of the namespace first; global clouds only when none of them can be selected.\<close>

definition select_local_or_global :: "world \<Rightarrow> cluster \<Rightarrow> cloud list \<Rightarrow> (request, exn, cloud) act" where
  "select_local_or_global w cl clouds =
     act_catch (select_cloud w cl clouds) (\<lambda>e.
       if e = NoCloudFound then act_bind (act_lift (list_global_clouds w)) (select_cloud w cl)
       else act_raise e)"

definition bind_cluster :: "world \<Rightarrow> cluster \<Rightarrow> (request, exn, unit) act" where
  "bind_cluster w cl =
     act_bind (act_lift (list_clouds w (namespace (metadata cl)))) (\<lambda>clouds.
     act_bind (select_local_or_global w cl clouds) (\<lambda>c.
     act_request
       (Update_cluster_binding (namespace (metadata cl)) (name (metadata cl)) (resource_ref c))))"

definition schedule_kubernetes_cluster :: "world \<Rightarrow> cluster \<Rightarrow> (request, exn, unit) act" where
  "schedule_kubernetes_cluster w cl =
     (if cl_scheduled_to cl \<noteq> None then act_raise RuntimeError
      else
        act_bind (act_lift (list_all_applications w)) (\<lambda>apps.
        act_then (delete_unused cl apps)
          (if auto_generated cl \<and> cl_scheduled_to cl \<noteq> None then act_return () else bind_cluster w cl)))"

section \<open>Reception and the worker\<close>

type_synonym cluster_queue = "(string, cluster) work_queue"

definition received_kubernetes_cluster :: "cluster \<Rightarrow> cluster_queue \<Rightarrow> cluster_queue" where
  "received_kubernetes_cluster cl q =
     (if deleted (metadata cl) \<noteq> None then q
      else if has_kubeconfig cl then q
      else if cl_state cl = Cl_FAILED then q
      else if cl_scheduled_to cl = None then wq_put (uid (metadata cl)) cl None q
      else q)"

definition fail_cluster :: "reason_code option \<Rightarrow> cluster \<Rightarrow> cluster" where
  "fail_cluster code cl = cl\<lparr>cl_reason := code, cl_state := Cl_FAILED\<rparr>"

text \<open>The body of the worker loop, with the exception that ends the worker, if any.\<close>

definition cluster_turn ::
  "world \<Rightarrow> real \<Rightarrow> cluster \<Rightarrow> cluster_queue \<Rightarrow> (request list \<times> exn option) \<times> cluster_queue" where
  "cluster_turn w retention cl q =
     (case schedule_kubernetes_cluster w cl of
        (requests, Inr _) \<Rightarrow>
          ((requests, None),
           if auto_generated cl \<and> deleted (metadata cl) = None
           then wq_put (uid (metadata cl)) cl (Some retention) q else q)
      | (requests, Inl e) \<Rightarrow>
          (case controller_error e of
             None \<Rightarrow> ((requests, Some e), q)
           | Some code \<Rightarrow> ((requests @ [Update_cluster_status (fail_cluster code cl)], None), q)))"

definition handle_kubernetes_clusters ::
  "world \<Rightarrow> real \<Rightarrow> cluster_queue \<Rightarrow> ((exn, request list \<times> exn option) res \<times> cluster_queue) option" where
  "handle_kubernetes_clusters w retention = worker_turn (cluster_turn w retention)"

interpretation cluster_worker: queue_worker "cluster_turn w retention" for w retention
  by unfold_locales (auto simp: cluster_turn_def wq_inv_put split: prod.splits sum.splits option.splits)


section \<open>Selected clouds match\<close>
















section \<open>Requests\<close>

lemma fetch_all_clouds_only: "only_metrics (fetch_all_clouds w cs fetched)"
  by (induction cs arbitrary: fetched)
    (auto intro!: act_requests_intros fetch_metrics_only split: prod.splits)

lemma choose_cloud_only: "only_metrics (choose_cloud w cs)"
  unfolding choose_cloud_def rank_clouds_for_cluster_def score_cloud_def
  by (auto intro!: act_requests_intros fetch_metrics_only split: prod.splits option.splits)

lemma select_cloud_only: "only_metrics (select_cloud w cl cs)"
  unfolding select_cloud_def
  by (auto intro!: act_requests_intros fetch_all_clouds_only choose_cloud_only split: prod.splits)

lemma select_local_or_global_only: "only_metrics (select_local_or_global w cl cs)"
  unfolding select_local_or_global_def
  by (intro act_requests_catch) (auto intro!: act_requests_intros select_cloud_only)

section \<open>Clouds without metrics\<close>










definition unbound_cluster :: cluster where
  "unbound_cluster =
     example_cluster\<lparr>cl_scheduled_to := None, cl_constraints := None, auto_generated := False\<rparr>"


section \<open>Properties\<close>





text \<open>
  A turn requests the deletion of its cluster exactly when the cluster was generated, is not
  deleted and either there is no application at all or the cluster is online and the first
  listed application is not bound to it; the other applications are not looked at.
\<close>

theorem cluster_deletion_exact:
  assumes "cl_scheduled_to cl = None" and "list_all_applications w = Inr apps"
  shows "Delete_cluster ns n \<in> set (fst (schedule_kubernetes_cluster w cl)) \<longleftrightarrow>
    ns = namespace (metadata cl) \<and> n = name (metadata cl) \<and>
    auto_generated cl \<and> deleted (metadata cl) = None \<and>
    (apps = [] \<or> cl_state cl = Cl_ONLINE \<and>
       \<not> (\<exists>r. app_scheduled_to (hd apps) = Some r \<and> ref_name r = name (metadata cl)))"
proof -
  have sel: "Delete_cluster ns n \<notin> set (fst (select_local_or_global w cl cs))" for cs
    using select_local_or_global_only [of w cl cs] by (auto simp: act_requests_def list_all_iff)
  then have "Delete_cluster ns n \<notin> set (fst (bind_cluster w cl))"
    by (auto simp: bind_cluster_def act_bind_def act_lift_def act_request_def split: sum.split)
  then have "Delete_cluster ns n \<in> set (fst (schedule_kubernetes_cluster w cl)) \<longleftrightarrow>
      Delete_cluster ns n \<in> set (fst (delete_unused cl apps))"
    using assms
    by (auto simp: schedule_kubernetes_cluster_def act_simps act_then_def act_bind_def delete_unused_def
        act_return_def act_request_def split: sum.split)
  then show ?thesis
    by (auto simp: delete_unused_def cluster_has_apps_def act_return_def act_request_def
        split: list.split option.split)
qed

theorem cluster_deletion_exact_witness:
  "Delete_cluster (namespace (metadata unbound_cluster)) (name (metadata unbound_cluster)) \<in> set (fst
     (schedule_kubernetes_cluster
       (example_world\<lparr>list_all_applications := Inr [example_application,
          example_application\<lparr>app_scheduled_to := Some (resource_ref example_cluster)\<rparr>]\<rparr>)
       (unbound_cluster\<lparr>auto_generated := True\<rparr>)))"
  using cluster_deletion_exact [of "unbound_cluster\<lparr>auto_generated := True\<rparr>"
      "example_world\<lparr>list_all_applications := Inr [example_application,
          example_application\<lparr>app_scheduled_to := Some (resource_ref example_cluster)\<rparr>]\<rparr>" _
      "namespace (metadata unbound_cluster)" "name (metadata unbound_cluster)"]
  by (simp add: unbound_cluster_def example_cluster_def example_application_def)

end
