(* ===== verification/Scheduler_Openstack.thy ===== *)
theory Scheduler_Openstack
  imports Scheduler_Scores Worker
begin

text \<open>
  Scheduling of Magnum clusters to OpenStack projects, the class \<open>OpenstackHandler\<close> of
  \<open>krake/krake/controller/scheduler/scheduler.py\<close>.
\<close>

section \<open>Selecting a project\<close>

definition rank_openstack_project :: "world \<Rightarrow> project \<Rightarrow> (request, exn, score list) act" where
  "rank_openstack_project w p =
     act_bind (openstack_fetch_metrics w (metered_project p) (project_metrics p)) (\<lambda>(change, result).
       case result of
         None \<Rightarrow> act_return []
       | Some qs \<Rightarrow> act_bind (act_lift (calculate_openstack_project_scores qs p)) (\<lambda>s. act_return [s]))"

definition rank_openstack_projects :: "world \<Rightarrow> project list \<Rightarrow> (request, exn, score list) act" where
  "rank_openstack_projects w ps =
     act_bind (act_map (rank_openstack_project w) ps) (\<lambda>ss. act_return (concat ss))"

text \<open>\<open>self.select_maximum(scores).project\<close>.\<close>

fun project_of_score :: "score \<Rightarrow> (exn, project) res" where
  "project_of_score (ProjectScore x p) = Inr p"
| "project_of_score _ = Inl AttributeError"

definition matching_projects :: "magnum_cluster \<Rightarrow> project list \<Rightarrow> project list" where
  "matching_projects mc ps =
     filter (match_project_constraints mc) (filter (\<lambda>p. deleted (metadata p) = None) ps)"

text \<open>
  Unlike clusters and clouds, projects without metrics are not considered when the metrics of
  all the others fail.
\<close>

definition select_openstack_project ::
  "world \<Rightarrow> magnum_cluster \<Rightarrow> project list \<Rightarrow> (request, exn, project) act" where
  "select_openstack_project w mc ps =
     (let matching = matching_projects mc ps;
          with_metrics = filter (\<lambda>p. project_metrics p \<noteq> []) matching in
      if matching = [] then act_raise NoProjectFound
      else
        act_bind
          (if with_metrics = [] then act_lift (res_map (calculate_openstack_project_scores []) matching)
           else rank_openstack_projects w with_metrics) (\<lambda>scores.
        if scores = [] then act_raise NoProjectFound
        else act_lift (res_bind (select_maximum (random_index w) scores) project_of_score)))"

section \<open>Scheduling a Magnum cluster\<close>

text \<open>
  The cluster takes over the labels and metrics of the project; its own labels and, by name,
  its own metrics take precedence.
\<close>

definition inherit_from_project :: "project \<Rightarrow> magnum_cluster \<Rightarrow> magnum_cluster" where
  "inherit_from_project p mc =
     mc\<lparr>metadata := (metadata mc)\<lparr>labels := dict_merge (labels (metadata p)) (labels (metadata mc))\<rparr>,
        magnum_metrics := magnum_metrics mc @
          filter (\<lambda>m. mref_name m \<notin> set (map mref_name (magnum_metrics mc))) (project_metrics p)\<rparr>"

definition schedule_magnum_cluster :: "world \<Rightarrow> magnum_cluster \<Rightarrow> (request, exn, unit) act" where
  "schedule_magnum_cluster w mc =
     (if magnum_project mc \<noteq> None then act_raise RuntimeError
      else
        act_bind (act_lift (list_all_projects w)) (\<lambda>ps.
        act_bind (select_openstack_project w mc ps) (\<lambda>p.
        act_then (act_request (Update_magnum_cluster (inherit_from_project p mc)))
          (act_request (Update_magnum_binding (namespace (metadata mc)) (name (metadata mc))
             (resource_ref p) (project_template p))))))"

section \<open>Reception and the worker\<close>

type_synonym magnum_queue = "(string, magnum_cluster) work_queue"

definition received_magnum_cluster :: "magnum_cluster \<Rightarrow> magnum_queue \<Rightarrow> magnum_queue" where
  "received_magnum_cluster mc q =
     (if deleted (metadata mc) \<noteq> None then q
      else if magnum_project mc = None then wq_put (uid (metadata mc)) mc None q
      else q)"

definition fail_magnum :: "reason_code option \<Rightarrow> magnum_cluster \<Rightarrow> magnum_cluster" where
  "fail_magnum code mc = mc\<lparr>magnum_reason := code, magnum_status := Magnum_FAILED\<rparr>"

definition magnum_turn ::
  "world \<Rightarrow> magnum_cluster \<Rightarrow> magnum_queue \<Rightarrow> (request list \<times> exn option) \<times> magnum_queue" where
  "magnum_turn w mc q =
     (case schedule_magnum_cluster w mc of
        (requests, Inr _) \<Rightarrow> ((requests, None), q)
      | (requests, Inl e) \<Rightarrow>
          (case controller_error e of
             None \<Rightarrow> ((requests, Some e), q)
           | Some code \<Rightarrow> ((requests @ [Update_magnum_status (fail_magnum code mc)], None), q)))"

definition handle_magnum_clusters ::
  "world \<Rightarrow> magnum_queue \<Rightarrow> ((exn, request list \<times> exn option) res \<times> magnum_queue) option" where
  "handle_magnum_clusters w = worker_turn (magnum_turn w)"

interpretation magnum_worker: queue_worker "magnum_turn w" for w
  by unfold_locales (auto simp: magnum_turn_def split: prod.splits sum.splits option.splits)

section \<open>Selected projects match\<close>

lemma project_score_of: "calculate_openstack_project_scores qs p = Inr s \<Longrightarrow> \<exists>x. s = ProjectScore x p"
  by (auto simp: calculate_openstack_project_scores_def res_simps)

definition scores_of_projects :: "project set \<Rightarrow> score list \<Rightarrow> bool" where
  "scores_of_projects P ss \<longleftrightarrow> (\<forall>s \<in> set ss. \<exists>x. \<exists>p \<in> P. s = ProjectScore x p)"

lemma scores_of_projects_append:
  "scores_of_projects P [] \<and>
     (scores_of_projects P (ss @ ss') \<longleftrightarrow> scores_of_projects P ss \<and> scores_of_projects P ss')"
  by (auto simp: scores_of_projects_def)

lemma scores_of_projects_mono: "scores_of_projects P ss \<Longrightarrow> P \<subseteq> Q \<Longrightarrow> scores_of_projects Q ss"
  unfolding scores_of_projects_def by blast

lemma rank_project_of:
  assumes "snd (rank_openstack_project w p) = Inr ss"
  shows "scores_of_projects {p} ss"
  using assms unfolding rank_openstack_project_def
  by (elim act_bindE)
    (auto split: option.splits elim!: act_bindE dest!: project_score_of
      simp: act_simps scores_of_projects_def)

lemma rank_projects_of:
  assumes "snd (rank_openstack_projects w ps) = Inr ss"
  shows "scores_of_projects (set ps) ss"
proof -
  from assms obtain sss where "snd (act_map (rank_openstack_project w) ps) = Inr sss" and ss: "ss = concat sss"
    unfolding rank_openstack_projects_def by (elim act_bindE) (simp add: act_simps)
  then have "list_all2 (\<lambda>p ss. scores_of_projects {p} ss) ps sss"
    by (auto dest!: act_map_Inr elim!: list_all2_mono rank_project_of)
  then show ?thesis unfolding ss
    by (induction rule: list_all2_induct) (auto simp: scores_of_projects_append elim: scores_of_projects_mono)
qed

lemma res_map_scores_of_projects:
  "res_map (calculate_openstack_project_scores []) ps = Inr ss \<Longrightarrow> scores_of_projects (set ps) ss"
proof (induction ps arbitrary: ss)
  case (Cons p ps)
  then obtain s ss' where "calculate_openstack_project_scores [] p = Inr s"
    "res_map (calculate_openstack_project_scores []) ps = Inr ss'" "ss = s # ss'"
    by (auto simp: res_simps)
  with Cons.IH project_score_of show ?case unfolding scores_of_projects_def by fastforce
qed (simp add: scores_of_projects_def)

lemma best_project_of:
  assumes "res_bind (select_maximum r ss) project_of_score = Inr p" and "scores_of_projects P ss"
  shows "p \<in> P"
proof -
  from assms(1) obtain s where s: "select_maximum r ss = Inr s" "project_of_score s = Inr p"
    by (auto simp: res_simps)
  then obtain x where "s = ProjectScore x p" by (cases s) auto
  with select_maximum_in [OF s(1)] assms(2) show ?thesis
    unfolding scores_of_projects_def by (metis score.inject(3))
qed

lemma select_project_matching:
  assumes "snd (select_openstack_project w mc ps) = Inr p"
  shows "p \<in> set (matching_projects mc ps)"
proof -
  let ?m = "matching_projects mc ps"
  let ?wm = "filter (\<lambda>p. project_metrics p \<noteq> []) ?m"
  from assms obtain scores where
    "snd (if ?wm = [] then act_lift (res_map (calculate_openstack_project_scores []) ?m)
       else rank_openstack_projects w ?wm) = Inr scores" and
    best: "res_bind (select_maximum (random_index w) scores) project_of_score = Inr p"
    unfolding select_openstack_project_def Let_def
    by (auto simp: act_simps split: if_splits elim!: act_bindE)
  then have "scores_of_projects (set ?m) scores"
    by (auto simp: act_simps res_map_scores_of_projects dest!: rank_projects_of
        elim!: scores_of_projects_mono split: if_splits)
  from best_project_of [OF best this] show ?thesis .
qed

lemma openstack_fetch_only: "only_metrics (openstack_fetch_metrics w r ms)"
  unfolding openstack_fetch_metrics_def openstack_update_resource_status_def Let_def
  by (auto intro!: act_requests_intros split: prod.splits)

lemma select_project_only: "only_metrics (select_openstack_project w mc ps)"
  unfolding select_openstack_project_def rank_openstack_projects_def rank_openstack_project_def Let_def
  by (auto intro!: act_requests_intros openstack_fetch_only split: prod.splits option.splits)

section \<open>Properties\<close>

definition example_project :: project where
  "example_project =
     \<lparr>api = ''openstack'', kind = project_kind,
      metadata = (metadata example_cluster)\<lparr>name := ''p1''\<rparr>,
      project_template = ''template'', project_metrics = [], project_status = Project_ONLINE,
      project_metrics_reasons = []\<rparr>"

definition example_magnum :: magnum_cluster where
  "example_magnum =
     \<lparr>api = ''openstack'', kind = ''MagnumCluster'',
      metadata = (metadata example_cluster)\<lparr>name := ''m1'', labels := [(''a'', ''c'')]\<rparr>,
      magnum_constraints = None, magnum_metrics = [], magnum_status = Magnum_PENDING,
      magnum_reason = None, magnum_project = None\<rparr>"

abbreviation project_world :: world where
  "project_world \<equiv> example_world\<lparr>list_all_projects := Inr [example_project]\<rparr>"

text \<open>
  A Magnum cluster is only bound when it is unbound, to a listed, not deleted project whose
  labels fulfil its constraints and with the template of that project, right after an update
  that gives it the labels and metrics of the project below its own.
\<close>

theorem magnum_binding_matches:
  assumes "list_all_projects w = Inr ps" and "dict_ok (labels (metadata mc))"
    and "Update_magnum_binding ns n ref template \<in> set (fst (schedule_magnum_cluster w mc))"
  shows "magnum_project mc = None \<and> ns = namespace (metadata mc) \<and> n = name (metadata mc) \<and>
    (\<exists>p \<in> set ps. ref = resource_ref p \<and> template = project_template p \<and>
       deleted (metadata p) = None \<and> match_project_constraints mc p \<and>
       (\<exists>mc' requests. fst (schedule_magnum_cluster w mc) =
            requests @ [Update_magnum_cluster mc', Update_magnum_binding ns n ref template] \<and>
          (\<forall>k. dict_get (labels (metadata mc')) k =
             (case dict_get (labels (metadata mc)) k of Some v \<Rightarrow> Some v | None \<Rightarrow> dict_get (labels (metadata p)) k)) \<and>
          mref_name ` set (magnum_metrics mc') = mref_name ` (set (magnum_metrics mc) \<union> set (project_metrics p))))"
proof -
  have sel: "Update_magnum_binding ns n ref template \<notin> set (fst (select_openstack_project w mc ps))"
    using select_project_only [of w mc ps] by (auto simp: act_requests_def list_all_iff)
  from assms(1,3) have unbound: "magnum_project mc = None"
    by (auto simp: schedule_magnum_cluster_def act_simps split: if_splits)
  with assms(1,3) sel obtain p where p: "snd (select_openstack_project w mc ps) = Inr p"
    "ns = namespace (metadata mc)" "n = name (metadata mc)" "ref = resource_ref p"
    "template = project_template p"
    by (auto simp: schedule_magnum_cluster_def act_simps act_bind_def act_then_def act_request_def
        split: sum.splits)
  let ?mc = "inherit_from_project p mc"
  have reqs: "fst (schedule_magnum_cluster w mc) = fst (select_openstack_project w mc ps) @
      [Update_magnum_cluster ?mc, Update_magnum_binding ns n ref template]"
    using unbound assms(1) p
    by (simp add: schedule_magnum_cluster_def act_simps act_bind_fst act_request_def act_then_def)
  have "mref_name ` set (magnum_metrics ?mc) = mref_name ` (set (magnum_metrics mc) \<union> set (project_metrics p))"
    by (auto simp: inherit_from_project_def)
  moreover have "dict_get (labels (metadata ?mc)) k =
      (case dict_get (labels (metadata mc)) k of Some v \<Rightarrow> Some v | None \<Rightarrow> dict_get (labels (metadata p)) k)" for k
    by (simp add: inherit_from_project_def dict_get_merge [OF assms(2)])
  moreover have "p \<in> set ps \<and> deleted (metadata p) = None \<and> match_project_constraints mc p"
    using select_project_matching [OF p(1)] by (auto simp: matching_projects_def)
  ultimately show ?thesis using unbound p(2-5) reqs by blast
qed

theorem magnum_binding_matches_witness:
  "\<exists>p \<in> set [example_project]. resource_ref example_project = resource_ref p \<and>
     match_project_constraints example_magnum p"
proof -
  have "Update_magnum_binding (Some ''ns'') ''m1'' (resource_ref example_project) ''template'' \<in>
      set (fst (schedule_magnum_cluster project_world example_magnum))"
    by code_simp
  with magnum_binding_matches [of project_world "[example_project]" example_magnum "Some ''ns''" "''m1''"
      "resource_ref example_project" "''template''"]
  show ?thesis by (auto simp: example_magnum_def)
qed

end
