(* ===== verification/Controller_Base.thy ===== *)
theory Controller_Base
  imports Work_Queue Krake_Data
begin

text \<open>
  The base of all controllers, \<open>krake/krake/controller/__init__.py\<close> without its work queue:
  the reflector that lists and watches resources and reconnects with growing delays, the burst
  window that decides whether a failing background task is started again, and the observer.

  Times are real numbers, read from the clock of the event loop. What the environment decides
  (how long a connection lasts, how an attempt ends, what the API answers) is an argument.
\<close>

section \<open>The burst window\<close>

record burst_window =
  burst_time :: real
  max_retry :: nat
  window_retries :: nat
  window_times :: "real list"
  window_start :: "real option"

definition burst_window_init :: "real \<Rightarrow> nat \<Rightarrow> burst_window" where
  "burst_window_init b n =
     \<lparr>burst_time = b, max_retry = n, window_retries = 0, window_times = replicate n 0,
      window_start = None\<rparr>"

definition window_enter :: "real \<Rightarrow> burst_window \<Rightarrow> burst_window" where
  "window_enter t w = w\<lparr>window_start := Some t\<rparr>"

definition mean :: "real list \<Rightarrow> real" where
  "mean xs = sum_list xs / real (length xs)"

definition window_exit :: "real \<Rightarrow> burst_window \<Rightarrow> (exn, burst_window) res" where
  "window_exit t w =
     (case window_start w of
        None \<Rightarrow> Inl TypeError
      | Some s \<Rightarrow>
          if window_retries w < length (window_times w) then
            (let w' = w\<lparr>window_times := (window_times w)[window_retries w := t - s]\<rparr> in
             if window_retries w' + 1 = max_retry w' \<and> mean (window_times w') < burst_time w'
             then Inl RuntimeError
             else if max_retry w' = 0 then Inl ZeroDivisionError
             else Inr (w'\<lparr>window_retries := (window_retries w' + 1) mod max_retry w'\<rparr>))
          else Inl IndexError)"

text \<open>
  One run of a background task: when it began and ended, and whether it was cancelled. How else
  it ends, by returning or by an exception, makes no difference.
\<close>

record attempt =
  began :: real
  finished :: real
  cancelled :: bool

datatype retry_result = Running burst_window | Stopped | Failed exn

text \<open>\<open>Controller.retry\<close>; leaving the loop by \<open>break\<close> also leaves the window.\<close>

fun retry :: "burst_window \<Rightarrow> attempt list \<Rightarrow> retry_result" where
  "retry w [] = Running w"
| "retry w (a # as) =
     (case window_exit (finished a) (window_enter (began a) w) of
        Inl e \<Rightarrow> Failed e
      | Inr w' \<Rightarrow> if cancelled a then Stopped else retry w' as)"

subsection \<open>Blocks of attempts\<close>

definition duration :: "attempt \<Rightarrow> real" where
  "duration a = finished a - began a"

definition window_ok :: "burst_window \<Rightarrow> bool" where
  "window_ok w \<longleftrightarrow> length (window_times w) = max_retry w \<and> window_retries w < max_retry w"

lemma window_ok_init: "0 < n \<Longrightarrow> window_ok (burst_window_init b n)"
  by (simp add: window_ok_def burst_window_init_def)

lemma retry_append:
  "retry w (xs @ ys) = (case retry w xs of Running w' \<Rightarrow> retry w' ys | r \<Rightarrow> r)"
  by (induction xs arbitrary: w) (auto split: sum.split)

lemma retry_within_block:
  assumes "window_ok w" and "length as < max_retry w - window_retries w" and "\<forall>a \<in> set as. \<not> cancelled a"
  shows "\<exists>w'. retry w as = Running w' \<and> window_ok w' \<and>
    window_retries w' = window_retries w + length as \<and>
    take (window_retries w') (window_times w') = take (window_retries w) (window_times w) @ map duration as \<and>
    max_retry w' = max_retry w \<and> burst_time w' = burst_time w"
  using assms
proof (induction as arbitrary: w)
  case Nil
  then show ?case by simp
next
  case (Cons a as)
  let ?w = "w\<lparr>window_start := Some (began a),
      window_times := (window_times w)[window_retries w := duration a],
      window_retries := window_retries w + 1\<rparr>"
  have ok: "window_ok ?w" using Cons.prems by (simp add: window_ok_def)
  have "window_exit (finished a) (window_enter (began a) w) = Inr ?w"
    using Cons.prems by (auto simp: window_exit_def window_enter_def window_ok_def Let_def duration_def)
  then have step: "retry w (a # as) = retry ?w as" using Cons.prems(3) by simp
  have "length as < max_retry ?w - window_retries ?w" using Cons.prems(2) by simp
  from Cons.IH [OF ok this] Cons.prems(3) obtain w' where
    "retry ?w as = Running w'" "window_ok w'" "window_retries w' = window_retries ?w + length as"
    "take (window_retries w') (window_times w') = take (window_retries ?w) (window_times ?w) @ map duration as"
    "max_retry w' = max_retry ?w" "burst_time w' = burst_time ?w"
    by (metis list.set_intros(2))
  with step Cons.prems(1) show ?case
    by (simp add: window_ok_def take_Suc_conv_app_nth)
qed

lemma retry_block:
  assumes "window_ok w" and "window_retries w = 0" and "length as = max_retry w" and "\<forall>a \<in> set as. \<not> cancelled a"
  shows "if mean (map duration as) < burst_time w then retry w as = Failed RuntimeError
    else \<exists>w'. retry w as = Running w' \<and> window_ok w' \<and> window_retries w' = 0 \<and>
      max_retry w' = max_retry w \<and> burst_time w' = burst_time w"
proof -
  from assms(1,3) have "as \<noteq> []" by (auto simp: window_ok_def)
  then obtain bs a where as: "as = bs @ [a]" by (metis append_butlast_last_id)
  with assms obtain w1 where w1: "retry w bs = Running w1" "window_ok w1"
    "window_retries w1 = length bs" "take (length bs) (window_times w1) = map duration bs"
    "max_retry w1 = max_retry w" "burst_time w1 = burst_time w"
    using retry_within_block [of w bs] by auto
  have len: "length (window_times w1) = Suc (length bs)"
    using w1(2,5) assms(3) as by (simp add: window_ok_def)
  have ts: "(window_times w1)[length bs := duration a] = map duration as"
    using w1(4) len as by (simp add: list_eq_iff_nth_eq nth_append nth_list_update list_eq_iff_nth_eq)
  show ?thesis
    using w1 assms(3,4) as len ts
    by (auto simp: retry_append window_exit_def window_enter_def Let_def duration_def window_ok_def)
qed

text \<open>A block of attempts that ends the task.\<close>

definition too_fast :: "real \<Rightarrow> nat \<Rightarrow> attempt list \<Rightarrow> nat \<Rightarrow> bool" where
  "too_fast b n as j \<longleftrightarrow>
     n * (j + 1) \<le> length as \<and> mean (map duration (take n (drop (n * j) as))) < b"

lemma too_fast_drop: "too_fast b n as (Suc j) \<longleftrightarrow> n \<le> length as \<and> too_fast b n (drop n as) j"
  by (auto simp: too_fast_def algebra_simps)

lemma retry_blocks:
  assumes "window_ok w" and "window_retries w = 0" and "\<forall>a \<in> set as. \<not> cancelled a"
  shows "if \<exists>j. too_fast (burst_time w) (max_retry w) as j then retry w as = Failed RuntimeError
    else \<exists>w'. retry w as = Running w'"
  using assms
proof (induction "length as" arbitrary: as w rule: less_induct)
  case less
  let ?n = "max_retry w"
  have n: "0 < ?n" using less.prems by (simp add: window_ok_def)
  show ?case
  proof (cases "length as < ?n")
    case True
    then have "\<not> too_fast (burst_time w) ?n as j" for j
      by (simp add: too_fast_def)
    with retry_within_block [OF less.prems(1), of as] True less.prems(2,3) show ?thesis by auto
  next
    case False
    let ?xs = "take ?n as" and ?ys = "drop ?n as"
    have sets: "\<forall>a \<in> set ?xs. \<not> cancelled a" "\<forall>a \<in> set ?ys. \<not> cancelled a"
      using less.prems(3) by (meson in_set_takeD in_set_dropD)+
    have first: "too_fast (burst_time w) ?n as 0 \<longleftrightarrow> mean (map duration ?xs) < burst_time w"
      using False by (simp add: too_fast_def)
    have split: "(\<exists>j. too_fast b ?n as j) \<longleftrightarrow> too_fast b ?n as 0 \<or> (\<exists>j. too_fast b ?n ?ys j)" for b
      using False by (metis too_fast_drop not0_implies_Suc not_less)
    have app: "retry w as = (case retry w ?xs of Running w' \<Rightarrow> retry w' ?ys | r \<Rightarrow> r)"
      using retry_append [of w ?xs ?ys] by simp
    have block: "if mean (map duration ?xs) < burst_time w then retry w ?xs = Failed RuntimeError
      else \<exists>w'. retry w ?xs = Running w' \<and> window_ok w' \<and> window_retries w' = 0 \<and>
        max_retry w' = ?n \<and> burst_time w' = burst_time w"
      using retry_block [OF less.prems(1,2), of ?xs] False sets(1) by simp
    show ?thesis
    proof (cases "mean (map duration ?xs) < burst_time w")
      case True
      with block app first split show ?thesis by auto
    next
      case slow: False
      with block obtain w' where w': "retry w ?xs = Running w'" "window_ok w'" "window_retries w' = 0"
        "max_retry w' = ?n" "burst_time w' = burst_time w" by auto
      have "length ?ys < length as" using n False by simp
      from less.hyps [OF this w'(2,3) sets(2)] w' app first slow split show ?thesis by simp
    qed
  qed
qed

section \<open>Reconnection delays\<close>

definition sigmoid_delay :: "nat \<Rightarrow> real \<Rightarrow> real \<Rightarrow> real \<Rightarrow> real \<Rightarrow> real" where
  "sigmoid_delay retries maximum steepness midpoint base =
     base + (maximum - base) / (1 + exp (- steepness * (real retries - midpoint)))"

text \<open>With the default values of its parameters.\<close>

definition default_delay :: "nat \<Rightarrow> real" where
  "default_delay retries = sigmoid_delay retries 60 (3 / 4) 10 1"

text \<open>
  What a connection attempt of the reflector comes to: it lasts for a time and ends, by itself
  or by a client error, or it raises another exception.
\<close>

datatype connection = Ended real | Raised exn

text \<open>
  \<open>Reflector.__call__\<close>: the delays slept so far, and the exception that ended the loop, if any.
\<close>

fun reflector_delays :: "real \<Rightarrow> nat \<Rightarrow> connection list \<Rightarrow> real list \<times> exn option" where
  "reflector_delays min_interval retries [] = ([], None)"
| "reflector_delays min_interval retries (Raised e # cs) = ([], Some e)"
| "reflector_delays min_interval retries (Ended elapsed # cs) =
     (let delay = (if elapsed > min_interval then default_delay 0 else default_delay retries);
          retries' = (if elapsed > min_interval then 0 else retries);
          (delays, e) = reflector_delays min_interval (retries' + 1) cs
      in (delay # delays, e))"

lemma default_delay_bounds: "1 < default_delay k \<and> default_delay k < 60"
proof -
  have "0 < exp (- (3 / 4) * (real k - 10))" by simp
  then have "0 < (59::real) / (1 + exp (- (3 / 4) * (real k - 10)))"
    "(59::real) / (1 + exp (- (3 / 4) * (real k - 10))) < 59"
    by (simp_all add: divide_less_eq add_pos_pos)
  then show ?thesis by (simp add: default_delay_def sigmoid_delay_def)
qed

lemma default_delay_mono: "j < k \<Longrightarrow> default_delay j < default_delay k"
proof -
  assume "j < k"
  then have e: "exp (- (3 / 4) * (real k - 10)) < exp (- (3 / 4) * (real j - 10))" by simp
  have "(59::real) / (1 + exp (- (3 / 4) * (real j - 10))) < 59 / (1 + exp (- (3 / 4) * (real k - 10)))"
    by (rule divide_strict_left_mono) (use e in \<open>simp_all add: add_pos_pos\<close>)
  then show ?thesis by (simp add: default_delay_def sigmoid_delay_def)
qed

definition quick :: "real \<Rightarrow> connection \<Rightarrow> bool" where
  "quick min_interval c \<longleftrightarrow> (case c of Ended elapsed \<Rightarrow> elapsed \<le> min_interval | Raised e \<Rightarrow> False)"

text \<open>The number of retries that the loop has counted when it reaches a connection.\<close>

fun counted_retries :: "real \<Rightarrow> nat \<Rightarrow> connection list \<Rightarrow> nat" where
  "counted_retries m r [] = r"
| "counted_retries m r (c # cs) = counted_retries m (if quick m c then r + 1 else 1) cs"

lemma counted_retries_snoc:
  "counted_retries m r (cs @ [c]) = (if quick m c then counted_retries m r cs + 1 else 1)"
  by (induction cs arbitrary: r) auto

lemma reflector_delays_nth:
  assumes "\<forall>c \<in> set cs. \<exists>x. c = Ended x"
  shows "length (fst (reflector_delays m r cs)) = length cs \<and>
    (\<forall>i < length cs. fst (reflector_delays m r cs) ! i =
       (if quick m (cs ! i) then default_delay (counted_retries m r (take i cs)) else default_delay 0))"
  using assms
proof (induction cs arbitrary: r)
  case (Cons c cs)
  then obtain x where c: "c = Ended x" by auto
  from Cons have IH: "length (fst (reflector_delays m r' cs)) = length cs"
    "i < length cs \<Longrightarrow> fst (reflector_delays m r' cs) ! i =
       (if quick m (cs ! i) then default_delay (counted_retries m r' (take i cs)) else default_delay 0)"
    for i r' by simp_all
  have d: "fst (reflector_delays m r (c # cs)) =
      (if quick m c then default_delay r else default_delay 0) #
        fst (reflector_delays m (if quick m c then r + 1 else 1) cs)"
    by (auto simp: c quick_def Let_def split: prod.split)
  show ?case
  proof (intro conjI allI impI)
    show "length (fst (reflector_delays m r (c # cs))) = length (c # cs)" unfolding d by (simp add: IH(1))
    fix i assume "i < length (c # cs)"
    then show "fst (reflector_delays m r (c # cs)) ! i =
       (if quick m ((c # cs) ! i) then default_delay (counted_retries m r (take i (c # cs)))
        else default_delay 0)"
      unfolding d by (cases i) (simp_all add: IH(2))
  qed
qed simp

section \<open>Listing and watching\<close>

text \<open>The optional handlers of a reflector, as functions on the state of the controller.\<close>

record ('r, 's) handlers =
  on_list :: "('r \<Rightarrow> 's \<Rightarrow> (exn, 's) res) option"
  on_add :: "('r \<Rightarrow> 's \<Rightarrow> (exn, 's) res) option"
  on_update :: "('r \<Rightarrow> 's \<Rightarrow> (exn, 's) res) option"
  on_delete :: "('r \<Rightarrow> 's \<Rightarrow> (exn, 's) res) option"

fun receive_all :: "('r \<Rightarrow> 's \<Rightarrow> (exn, 's) res) \<Rightarrow> 'r list \<Rightarrow> 's \<Rightarrow> (exn, 's) res" where
  "receive_all f [] s = Inr s"
| "receive_all f (r # rs) s = res_bind (f r s) (receive_all f rs)"

text \<open>The listing is only requested when there is a handler for it.\<close>

definition list_resource :: "('r, 's) handlers \<Rightarrow> (exn, 'r list) res \<Rightarrow> 's \<Rightarrow> (exn, 's) res" where
  "list_resource h listing s =
     (case on_list h of
        None \<Rightarrow> Inr s
      | Some f \<Rightarrow> res_bind listing (\<lambda>rs. receive_all f rs s))"

definition handle_event ::
  "('r, 's) handlers \<Rightarrow> watch_event_type \<times> 'r \<Rightarrow> 's \<Rightarrow> (exn, 's) res" where
  "handle_event h ev s =
     (case (case fst ev of ADDED \<Rightarrow> on_add h | MODIFIED \<Rightarrow> on_update h | DELETED \<Rightarrow> on_delete h) of
        None \<Rightarrow> Inr s
      | Some f \<Rightarrow> f (snd ev) s)"

definition watch_resource ::
  "('r, 's) handlers \<Rightarrow> (watch_event_type \<times> 'r) list \<Rightarrow> 's \<Rightarrow> (exn, 's) res" where
  "watch_resource h = receive_all (handle_event h)"

section \<open>Observers\<close>

text \<open>
  One round of \<open>observe_resource\<close>: applications are compared by their whole status, clusters by
  their state, other resources not at all. The update is sent through \<open>on_res_update\<close>, and an
  answer replaces the resource.
\<close>

definition observe ::
  "('s \<Rightarrow> 's \<Rightarrow> bool) \<Rightarrow> ('r \<Rightarrow> 's) \<Rightarrow> ('s \<Rightarrow> 'r \<Rightarrow> 'r) \<Rightarrow> ('r \<Rightarrow> 'r option) \<Rightarrow> 's \<Rightarrow> 'r \<Rightarrow> 'r list \<times> 'r" where
  "observe differs status_of put_status on_res_update polled r =
     (if differs (status_of r) polled then
        (let to_update = put_status polled r in
         case on_res_update to_update of
           None \<Rightarrow> ([to_update], r)
         | Some updated \<Rightarrow> ([to_update], updated))
      else ([], r))"

definition observe_resource ::
  "('r \<Rightarrow> string) \<Rightarrow> ('r \<Rightarrow> 's) \<Rightarrow> ('s \<Rightarrow> 'r \<Rightarrow> 'r) \<Rightarrow> ('s \<Rightarrow> 't) \<Rightarrow> ('r \<Rightarrow> 'r option) \<Rightarrow> 's \<Rightarrow> 'r \<Rightarrow> 'r list \<times> 'r" where
  "observe_resource kind_of status_of put_status state_of on_res_update polled r =
     (if kind_of r = ''Application'' then observe (\<noteq>) status_of put_status on_res_update polled r
      else if kind_of r = ''Cluster''
      then observe (\<lambda>s t. state_of s \<noteq> state_of t) status_of put_status on_res_update polled r
      else ([], r))"

text \<open>
  The loop of an observer: each poll is one round, with the answer of the API in that round.
  The result is what was sent, and the resource in the end.
\<close>

fun observe_rounds ::
  "('s \<Rightarrow> 's \<Rightarrow> bool) \<Rightarrow> ('r \<Rightarrow> 's) \<Rightarrow> ('s \<Rightarrow> 'r \<Rightarrow> 'r) \<Rightarrow> ('s \<times> ('r \<Rightarrow> 'r option)) list \<Rightarrow>
     'r \<Rightarrow> 'r list \<times> 'r" where
  "observe_rounds differs status_of put_status [] r = ([], r)"
| "observe_rounds differs status_of put_status ((s, answer) # rounds) r =
     (case observe differs status_of put_status answer s r of
        (sent, r') \<Rightarrow>
          (case observe_rounds differs status_of put_status rounds r' of
             (sents, r'') \<Rightarrow> (sent @ sents, r'')))"

text \<open>
  The contract of an API for an observer: what it answers to an update has the status of the
  update.
\<close>

locale observed =
  fixes differs :: "'s \<Rightarrow> 's \<Rightarrow> bool" and status_of :: "'r \<Rightarrow> 's" and put_status :: "'s \<Rightarrow> 'r \<Rightarrow> 'r"
  assumes status_put: "status_of (put_status s r) = s"
    and same: "\<not> differs s s"
begin

definition honest :: "('r \<Rightarrow> 'r option) \<Rightarrow> bool" where
  "honest answer \<longleftrightarrow> (\<forall>r r'. answer r = Some r' \<longrightarrow> status_of r' = status_of r)"

lemma quiet:
  "\<not> differs (status_of r) s \<Longrightarrow> observe_rounds differs status_of put_status (map (Pair s) answers) r = ([], r)"
  by (induction answers) (simp_all add: observe_def)

lemma sends_until_accepted:
  assumes "\<forall>answer \<in> set answers. honest answer" and "differs (status_of r) s"
  shows "fst (observe_rounds differs status_of put_status (map (Pair s) answers) r) =
    replicate
      (min (length answers)
        (Suc (length (takeWhile (\<lambda>answer. answer (put_status s r) = None) answers))))
      (put_status s r)"
  using assms(1)
proof (induction answers)
  case (Cons answer answers)
  show ?case
  proof (cases "answer (put_status s r)")
    case None
    with Cons assms(2) show ?thesis by (simp add: observe_def Let_def case_prod_beta)
  next
    case (Some r')
    with Cons.prems have "status_of r' = s" by (auto simp: honest_def status_put)
    then have "\<not> differs (status_of r') s" by (simp add: same)
    with Some assms(2) show ?thesis by (simp add: observe_def Let_def quiet)
  qed
qed simp

end

interpretation application_observer: observed "(\<noteq>)" "snd :: 'm \<times> 's \<Rightarrow> 's" "\<lambda>s (m, _). (m, s)"
  by unfold_locales auto

interpretation cluster_observer: observed "\<lambda>s t. f s \<noteq> f t" "snd :: 'm \<times> 's \<Rightarrow> 's" "\<lambda>s (m, _). (m, s)"
  for f :: "'s \<Rightarrow> 't"
  by unfold_locales auto

section \<open>Properties\<close>

text \<open>
  A background task is given up exactly when one of the consecutive blocks of \<open>max_retry\<close>
  attempts took less than the burst time on average; otherwise it is started again.
\<close>

theorem retry_gives_up_exactly:
  assumes "0 < n" and "\<forall>a \<in> set as. \<not> cancelled a"
  shows "if \<exists>j. too_fast b n as j then retry (burst_window_init b n) as = Failed RuntimeError
    else \<exists>w. retry (burst_window_init b n) as = Running w"
  using retry_blocks [OF window_ok_init [OF assms(1)], of b as] assms(2)
  by (simp add: burst_window_init_def)

theorem retry_gives_up_exactly_witness:
  "retry (burst_window_init 10 3) (map (\<lambda>t. \<lparr>began = t, finished = t + 1, cancelled = False\<rparr>) [0, 5, 9]) =
     Failed RuntimeError"
proof -
  let ?as = "map (\<lambda>t. \<lparr>began = t, finished = t + 1, cancelled = False\<rparr>) [0, 5, 9]"
  have "too_fast 10 3 ?as 0" by (simp add: too_fast_def mean_def duration_def)
  with retry_gives_up_exactly [of 3 ?as 10] show ?thesis by (auto split: if_splits)
qed

text \<open>
  With \<open>max_retry = 0\<close>, which is documented to retry for ever, the first attempt that ends
  ends the task with an \<open>IndexError\<close>, even when it is cancelled.
\<close>

theorem unlimited_retries_fail: "retry (burst_window_init b 0) (a # as) = Failed IndexError"
  by (simp add: window_exit_def window_enter_def burst_window_init_def)

text \<open>
  C40. As long as only client errors end its connections, a reflector reconnects after every one
  of them, with a delay between one and sixty seconds that is the shortest after a connection
  that lasted, and grows with every further one that did not.
\<close>

theorem reflector_backoff:
  assumes "\<forall>c \<in> set cs. \<exists>x. c = Ended x"
  shows "let delays = fst (reflector_delays m 0 cs) in
    length delays = length cs \<and> (\<forall>d \<in> set delays. 1 < d \<and> d < 60) \<and>
    (\<forall>i < length cs. \<not> quick m (cs ! i) \<longrightarrow> delays ! i = default_delay 0) \<and>
    (\<forall>i. Suc i < length cs \<longrightarrow> quick m (cs ! Suc i) \<longrightarrow> delays ! i < delays ! Suc i)"
proof -
  let ?ds = "fst (reflector_delays m 0 cs)"
  have len: "length ?ds = length cs" and nth: "\<And>i. i < length cs \<Longrightarrow> ?ds ! i =
       (if quick m (cs ! i) then default_delay (counted_retries m 0 (take i cs)) else default_delay 0)"
    using reflector_delays_nth [OF assms, of m 0] by blast+
  have "1 < d \<and> d < 60" if "d \<in> set ?ds" for d
    using that default_delay_bounds len nth by (auto simp: in_set_conv_nth)
  moreover have "?ds ! i < ?ds ! Suc i" if "Suc i < length cs" "quick m (cs ! Suc i)" for i
  proof -
    have "take (Suc i) cs = take i cs @ [cs ! i]" using that(1) by (simp add: take_Suc_conv_app_nth)
    with that nth [of i] nth [of "Suc i"] show ?thesis
      by (auto simp: counted_retries_snoc default_delay_mono)
  qed
  ultimately show ?thesis using len nth by (simp add: Let_def)
qed

theorem reflector_backoff_witness:
  "fst (reflector_delays 2 0 [Ended 0, Ended 1, Ended 5]) ! 0 < fst (reflector_delays 2 0 [Ended 0, Ended 1, Ended 5]) ! 1"
proof -
  have "\<forall>c \<in> set [Ended 0, Ended 1, Ended 5]. \<exists>x. c = Ended x" by simp
  note reflector_backoff [OF this, of 2, unfolded Let_def, THEN conjunct2, THEN conjunct2, THEN conjunct2,
      rule_format, of 0]
  then show ?thesis by (simp add: quick_def del: reflector_delays.simps)
qed

text \<open>
  While the observed status of a resource stays the same, an observer sends it once in every
  round until the API accepts it, and then nothing more.
\<close>

theorem observer_sends_until_accepted:
  assumes "\<forall>answer \<in> set answers. \<forall>r r'. answer r = Some r' \<longrightarrow> snd r' = snd r" and "s \<noteq> snd r"
  shows "fst (observe_rounds (\<noteq>) snd (\<lambda>s (m, _). (m, s)) (map (Pair s) answers) r) =
    replicate
      (min (length answers) (Suc (length (takeWhile (\<lambda>answer. answer (fst r, s) = None) answers))))
      (fst r, s)"
  using application_observer.sends_until_accepted [of answers r s] assms
  by (simp add: application_observer.honest_def case_prod_beta)

theorem observer_sends_until_accepted_witness:
  "fst (observe_rounds (\<noteq>) snd (\<lambda>s (m, _). (m, s)) (map (Pair True) [\<lambda>_. None, Some, Some]) ((), False)) =
     [((), True), ((), True)]"
  using observer_sends_until_accepted [of "[\<lambda>_. None, Some, Some]" True "((), False)"]
  by (simp add: numeral_2_eq_2 del: observe_rounds.simps)

end
