(* ===== verification/Manifest.thy ===== *)
theory Manifest
  imports Krake_Data "HOL-Library.Char_ord"
begin

text \<open>
  Kubernetes manifests, observer schemas and responses as nested values, with the operations
  of Python on them that the code relies on, and the helpers of \<open>krake/krake/utils.py\<close> for
  keys and resources. A partial operation returns the exception that Python raises.
\<close>

section \<open>Values\<close>

datatype yaml =
    Null
  | Boolean bool
  | Integer int
  | Decimal real
  | Text string
  | Arr "yaml list"
  | Obj "(string \<times> yaml) list"

fun is_obj :: "yaml \<Rightarrow> bool" where
  "is_obj (Obj d) \<longleftrightarrow> True"
| "is_obj _ \<longleftrightarrow> False"

fun is_arr :: "yaml \<Rightarrow> bool" where
  "is_arr (Arr xs) \<longleftrightarrow> True"
| "is_arr _ \<longleftrightarrow> False"

lemma is_obj_iff: "is_obj v \<longleftrightarrow> (\<exists>d. v = Obj d)"
  by (cases v) auto

lemma is_arr_iff: "is_arr v \<longleftrightarrow> (\<exists>xs. v = Arr xs)"
  by (cases v) auto

text \<open>Truth values, and numbers as Python compares them: \<open>True == 1 == 1.0\<close>.\<close>

fun truth :: "yaml \<Rightarrow> bool" where
  "truth Null \<longleftrightarrow> False"
| "truth (Boolean b) \<longleftrightarrow> b"
| "truth (Integer i) \<longleftrightarrow> i \<noteq> 0"
| "truth (Decimal x) \<longleftrightarrow> x \<noteq> 0"
| "truth (Text s) \<longleftrightarrow> s \<noteq> []"
| "truth (Arr xs) \<longleftrightarrow> xs \<noteq> []"
| "truth (Obj d) \<longleftrightarrow> d \<noteq> []"

fun number :: "yaml \<Rightarrow> real option" where
  "number (Boolean b) = Some (if b then 1 else 0)"
| "number (Integer i) = Some (real_of_int i)"
| "number (Decimal x) = Some x"
| "number _ = None"

text \<open>\<open>isinstance(x, int)\<close>, which holds of booleans, and the integer.\<close>

fun as_int :: "yaml \<Rightarrow> int option" where
  "as_int (Boolean b) = Some (if b then 1 else 0)"
| "as_int (Integer i) = Some i"
| "as_int _ = None"

lemma size_yaml_list [termination_simp]: "x \<in> set xs \<Longrightarrow> size x < Suc (size_list size xs)"
  by (induction xs) auto

lemma size_yaml_dict [termination_simp]:
  "(k, v) \<in> set d \<Longrightarrow> size v < Suc (size_list (size_prod (\<lambda>_. 0) size) d)"
  by (induction d) auto

text \<open>Equality: dictionaries regardless of the order of their keys.\<close>

function (sequential) py_eq :: "yaml \<Rightarrow> yaml \<Rightarrow> bool" where
  "py_eq (Arr xs) (Arr ys) \<longleftrightarrow>
     length xs = length ys \<and> list_all (\<lambda>(x, y). py_eq x y) (zip xs ys)"
| "py_eq (Obj d) (Obj e) \<longleftrightarrow>
     length d = length e \<and>
     list_all (\<lambda>(k, v). case dict_get e k of None \<Rightarrow> False | Some w \<Rightarrow> py_eq v w) d"
| "py_eq (Text s) (Text t) \<longleftrightarrow> s = t"
| "py_eq Null Null \<longleftrightarrow> True"
| "py_eq v w \<longleftrightarrow> (case (number v, number w) of (Some x, Some y) \<Rightarrow> x = y | _ \<Rightarrow> False)"
  by pat_completeness auto

termination
  by (relation "measure (\<lambda>(v, w). size v)")
    (auto simp: termination_simp dest!: set_zip_leftD)

section \<open>Access\<close>

text \<open>\<open>key in v\<close>, which for a string looks for a substring.\<close>

fun contains_key :: "string \<Rightarrow> yaml \<Rightarrow> (exn, bool) res" where
  "contains_key k (Obj d) = Inr (k \<in> dict_keys d)"
| "contains_key k (Arr xs) = Inr (list_ex (py_eq (Text k)) xs)"
| "contains_key k (Text s) = Inr (list_ex (\<lambda>n. take (length k) (drop n s) = k) [0..<Suc (length s)])"
| "contains_key k _ = Inl TypeError"

fun get_key :: "string \<Rightarrow> yaml \<Rightarrow> (exn, yaml) res" where
  "get_key k (Obj d) = (case dict_get d k of None \<Rightarrow> Inl KeyError | Some v \<Rightarrow> Inr v)"
| "get_key k _ = Inl TypeError"

fun set_key :: "string \<Rightarrow> yaml \<Rightarrow> yaml \<Rightarrow> (exn, yaml) res" where
  "set_key k x (Obj d) = Inr (Obj (dict_set k x d))"
| "set_key k x _ = Inl TypeError"

text \<open>Attributes, of an object that is represented by their values.\<close>

fun get_attr :: "string \<Rightarrow> yaml \<Rightarrow> (exn, yaml) res" where
  "get_attr k (Obj d) = (case dict_get d k of None \<Rightarrow> Inl AttributeError | Some v \<Rightarrow> Inr v)"
| "get_attr k _ = Inl AttributeError"

fun set_attr :: "string \<Rightarrow> yaml \<Rightarrow> yaml \<Rightarrow> (exn, yaml) res" where
  "set_attr k x (Obj d) = Inr (Obj (dict_set k x d))"
| "set_attr k x _ = Inl AttributeError"

text \<open>\<open>v.get(key)\<close>\<close>

fun get_or_none :: "string \<Rightarrow> yaml \<Rightarrow> (exn, yaml) res" where
  "get_or_none k (Obj d) = Inr (case dict_get d k of None \<Rightarrow> Null | Some v \<Rightarrow> v)"
| "get_or_none k _ = Inl AttributeError"

text \<open>\<open>v.items()\<close>\<close>

fun dict_items :: "yaml \<Rightarrow> (exn, (string \<times> yaml) list) res" where
  "dict_items (Obj d) = Inr d"
| "dict_items _ = Inl AttributeError"

fun len :: "yaml \<Rightarrow> (exn, nat) res" where
  "len (Arr xs) = Inr (length xs)"
| "len (Obj d) = Inr (length d)"
| "len (Text s) = Inr (length s)"
| "len _ = Inl TypeError"

fun get_index :: "nat \<Rightarrow> yaml \<Rightarrow> (exn, yaml) res" where
  "get_index i (Arr xs) = (if i < length xs then Inr (xs ! i) else Inl IndexError)"
| "get_index i (Text s) = (if i < length s then Inr (Text [s ! i]) else Inl IndexError)"
| "get_index i (Obj d) = Inl KeyError"
| "get_index i _ = Inl TypeError"

text \<open>\<open>v[-1]\<close>\<close>

fun get_last :: "yaml \<Rightarrow> (exn, yaml) res" where
  "get_last (Arr xs) = (if xs = [] then Inl IndexError else Inr (last xs))"
| "get_last (Text s) = (if s = [] then Inl IndexError else Inr (Text [last s]))"
| "get_last (Obj d) = Inl KeyError"
| "get_last _ = Inl TypeError"

fun set_index :: "nat \<Rightarrow> yaml \<Rightarrow> yaml \<Rightarrow> (exn, yaml) res" where
  "set_index i x (Arr xs) = (if i < length xs then Inr (Arr (xs[i := x])) else Inl IndexError)"
| "set_index i x _ = Inl TypeError"

fun append_item :: "yaml \<Rightarrow> yaml \<Rightarrow> (exn, yaml) res" where
  "append_item x (Arr xs) = Inr (Arr (xs @ [x]))"
| "append_item x _ = Inl AttributeError"

text \<open>
  \<open>enumerate(v[:-1])\<close>. A string can be sliced too, but is never an element of a list of an
  observer schema: the model raises for it.
\<close>

fun enumerate_but_last :: "yaml \<Rightarrow> (exn, (nat \<times> yaml) list) res" where
  "enumerate_but_last (Arr xs) = Inr (List.enumerate 0 (butlast xs))"
| "enumerate_but_last _ = Inl TypeError"

section \<open>Loops\<close>

text \<open>A loop with a body that may raise, over a state.\<close>

fun res_fold :: "('a \<Rightarrow> 's \<Rightarrow> ('e, 's) res) \<Rightarrow> 'a list \<Rightarrow> 's \<Rightarrow> ('e, 's) res" where
  "res_fold f [] s = Inr s"
| "res_fold f (x # xs) s = res_bind (f x s) (res_fold f xs)"

lemma res_fold_cong [fundef_cong]:
  "xs = ys \<Longrightarrow> s = t \<Longrightarrow> (\<And>x s. x \<in> set ys \<Longrightarrow> f x s = g x s) \<Longrightarrow> res_fold f xs s = res_fold g ys t"
proof (induction xs arbitrary: ys s t)
  case (Cons x xs)
  then show ?case by (cases "g x t") auto
qed auto

lemma res_bind_cong [fundef_cong]:
  "m = n \<Longrightarrow> (\<And>x. n = Inr x \<Longrightarrow> f x = g x) \<Longrightarrow> res_bind m f = res_bind n g"
  by (cases n) auto

lemma res_map_cong [fundef_cong]:
  "xs = ys \<Longrightarrow> (\<And>x. x \<in> set ys \<Longrightarrow> f x = g x) \<Longrightarrow> res_map f xs = res_map g ys"
  by (induction xs arbitrary: ys) auto

lemma res_fold_append:
  "res_fold f (xs @ ys) s = res_bind (res_fold f xs s) (res_fold f ys)"
proof (induction xs arbitrary: s)
  case (Cons x xs)
  then show ?case by (cases "f x s") auto
qed simp

lemma res_fold_invariant:
  assumes "res_fold f xs s = Inr t" and "P s"
    and "\<And>x s s'. x \<in> set xs \<Longrightarrow> P s \<Longrightarrow> f x s = Inr s' \<Longrightarrow> P s'"
  shows "P t"
  using assms
proof (induction xs arbitrary: s)
  case (Cons x xs)
  then obtain s' where s': "f x s = Inr s'" "res_fold f xs s' = Inr t" by (auto simp: res_simps)
  show ?case
  proof (rule Cons.IH [OF s'(2)])
    show "P s'" by (rule Cons.prems(3) [OF _ Cons.prems(2) s'(1)]) simp
    show "\<And>y s s'. y \<in> set xs \<Longrightarrow> P s \<Longrightarrow> f y s = Inr s' \<Longrightarrow> P s'"
      by (rule Cons.prems(3)) simp_all
  qed
qed simp

lemma size_enumerate [termination_simp]:
  "(i, v) \<in> set (List.enumerate 0 (butlast xs)) \<Longrightarrow> size v < Suc (size_list size xs)"
proof -
  assume "(i, v) \<in> set (List.enumerate 0 (butlast xs))"
  then have "snd (i, v) \<in> set (map snd (List.enumerate 0 (butlast xs)))" unfolding set_map by (rule imageI)
  then have "v \<in> set xs" by (simp add: in_set_butlastD)
  then show ?thesis by (rule size_yaml_list)
qed

lemma size_butlast [termination_simp]: "v \<in> set (butlast xs) \<Longrightarrow> size v < Suc (size_list size xs)"
  by (drule in_set_butlastD) (rule size_yaml_list)

section \<open>Keys\<close>

definition is_upper :: "char \<Rightarrow> bool" where
  "is_upper c \<longleftrightarrow> CHR ''A'' \<le> c \<and> c \<le> CHR ''Z''"

definition is_lower :: "char \<Rightarrow> bool" where
  "is_lower c \<longleftrightarrow> CHR ''a'' \<le> c \<and> c \<le> CHR ''z''"

definition is_digit :: "char \<Rightarrow> bool" where
  "is_digit c \<longleftrightarrow> CHR ''0'' \<le> c \<and> c \<le> CHR ''9''"

definition to_lower :: "char \<Rightarrow> char" where
  "to_lower c = (if is_upper c then char_of (of_char c + (32::nat)) else c)"

text \<open>\<open>re.sub(r"(.)([A-Z][a-z]+)", r"\1_\2", name)\<close>: matches do not overlap.\<close>

function (sequential) split_words :: "string \<Rightarrow> string" where
  "split_words (c # u # l # s) =
     (if c \<noteq> CHR 0x0A \<and> is_upper u \<and> is_lower l
      then c # CHR ''_'' # u # takeWhile is_lower (l # s) @ split_words (dropWhile is_lower (l # s))
      else c # split_words (u # l # s))"
| "split_words s = s"
  by pat_completeness auto

termination
  by (relation "measure length") (auto simp: le_imp_less_Suc le_SucI length_dropWhile_le)

text \<open>\<open>re.sub(r"([a-z0-9])([A-Z])", r"\1_\2", name)\<close>\<close>

fun split_humps :: "string \<Rightarrow> string" where
  "split_humps (c # u # s) =
     (if (is_lower c \<or> is_digit c) \<and> is_upper u then c # CHR ''_'' # u # split_humps s
      else c # split_humps (u # s))"
| "split_humps s = s"

definition camel_to_snake_case :: "string \<Rightarrow> string" where
  "camel_to_snake_case key = map to_lower (split_humps (split_words key))"

lemma camel_to_snake_case_examples:
  "camel_to_snake_case ''apiVersion'' = ''api_version''"
  "camel_to_snake_case ''clusterIP'' = ''cluster_ip''"
  "camel_to_snake_case ''HTTPGetAction'' = ''http_get_action''"
  by code_simp+

section \<open>Resources\<close>

text \<open>\<open>resource.get("apiVersion") or resource["api_version"]\<close>\<close>

definition api_version_of :: "yaml \<Rightarrow> (exn, yaml) res" where
  "api_version_of r =
     res_bind (get_or_none ''apiVersion'' r) (\<lambda>v. if truth v then Inr v else get_key ''api_version'' r)"

definition res_and :: "(exn, bool) res \<Rightarrow> (exn, bool) res \<Rightarrow> (exn, bool) res" where
  "res_and p q = res_bind p (\<lambda>b. if b then q else Inr False)"

definition same_entry :: "string \<Rightarrow> yaml \<Rightarrow> yaml \<Rightarrow> (exn, bool) res" where
  "same_entry k a b = res_bind (get_key k a) (\<lambda>x. res_bind (get_key k b) (\<lambda>y. Inr (py_eq x y)))"

definition same_in_metadata :: "string \<Rightarrow> yaml \<Rightarrow> yaml \<Rightarrow> (exn, bool) res" where
  "same_in_metadata k a b =
     res_bind (get_key ''metadata'' a) (\<lambda>m. res_bind (get_key k m) (\<lambda>x.
     res_bind (get_key ''metadata'' b) (\<lambda>n. res_bind (get_key k n) (\<lambda>y. Inr (py_eq x y)))))"

definition same_namespace :: "yaml \<Rightarrow> yaml \<Rightarrow> (exn, bool) res" where
  "same_namespace a b =
     res_bind (get_key ''metadata'' a) (\<lambda>m. res_bind (get_or_none ''namespace'' m) (\<lambda>x.
     res_bind (get_key ''metadata'' b) (\<lambda>n. res_bind (get_or_none ''namespace'' n) (\<lambda>y. Inr (py_eq x y)))))"

definition same_resource :: "bool \<Rightarrow> yaml \<Rightarrow> yaml \<Rightarrow> (exn, bool) res" where
  "same_resource check_namespace resource found =
     res_bind (api_version_of resource) (\<lambda>v.
       res_and (res_bind (get_key ''apiVersion'' found) (\<lambda>w. Inr (py_eq w v)))
      (res_and (same_entry ''kind'' found resource)
      (res_and (same_in_metadata ''name'' found resource)
         (if check_namespace then same_namespace found resource else Inr True))))"

text \<open>The first resource that is the same; \<open>IndexError\<close> when there is none.\<close>

fun get_kubernetes_resource_idx :: "bool \<Rightarrow> yaml list \<Rightarrow> yaml \<Rightarrow> (exn, nat) res" where
  "get_kubernetes_resource_idx check_namespace [] resource = Inl IndexError"
| "get_kubernetes_resource_idx check_namespace (found # manifest) resource =
     res_bind (same_resource check_namespace resource found) (\<lambda>b.
       if b then Inr 0
       else res_bind (get_kubernetes_resource_idx check_namespace manifest resource) (\<lambda>i. Inr (Suc i)))"

section \<open>Well-formed values\<close>

text \<open>The keys of a dictionary are distinct.\<close>

fun wf_yaml :: "yaml \<Rightarrow> bool" where
  "wf_yaml (Obj d) \<longleftrightarrow> dict_ok d \<and> list_all (\<lambda>(k, v). wf_yaml v) d"
| "wf_yaml (Arr xs) \<longleftrightarrow> list_all wf_yaml xs"
| "wf_yaml v \<longleftrightarrow> True"

lemma wf_ObjD: "wf_yaml (Obj d) \<Longrightarrow> dict_get d k = Some v \<Longrightarrow> wf_yaml v"
  by (auto simp: list_all_iff dest!: map_of_SomeD)

lemma list_all_dict_set: "list_all P d \<Longrightarrow> P (k, v) \<Longrightarrow> list_all P (dict_set k v d)"
  by (induction d) auto

lemma wf_dict_set: "wf_yaml (Obj d) \<Longrightarrow> wf_yaml v \<Longrightarrow> wf_yaml (Obj (dict_set k v d))"
  by (auto simp: distinct_update intro: list_all_dict_set)

lemma py_eq_refl: "wf_yaml v \<Longrightarrow> py_eq v v"
proof (induction v rule: wf_yaml.induct)
  case (1 d)
  then have "case dict_get d k of None \<Rightarrow> False | Some w \<Rightarrow> py_eq v w" if "(k, v) \<in> set d" for k v
    using that map_of_is_SomeI [of d k v] by (auto simp: list_all_iff)
  then show ?case by (auto simp: list_all_iff)
next
  case (2 xs)
  then show ?case by (auto simp: list_all_iff set_zip)
qed auto

section \<open>Extension\<close>

text \<open>
  Nothing is lost or changed from the first value to the second: dictionaries gain keys, lists
  grow at the end.
\<close>

function (sequential) extends :: "yaml \<Rightarrow> yaml \<Rightarrow> bool" where
  "extends (Obj d) (Obj e) \<longleftrightarrow>
     list_all (\<lambda>(k, v). case dict_get e k of None \<Rightarrow> False | Some w \<Rightarrow> extends v w) d"
| "extends (Arr xs) (Arr ys) \<longleftrightarrow>
     length xs \<le> length ys \<and> list_all (\<lambda>(x, y). extends x y) (zip xs ys)"
| "extends v w \<longleftrightarrow> v = w"
  by pat_completeness auto

termination
  by (relation "measure (\<lambda>(v, w). size v)")
    (auto simp: termination_simp dest!: set_zip_leftD)

lemma extends_Obj_iff:
  "extends (Obj d) w \<longleftrightarrow> (\<exists>e. w = Obj e \<and> (\<forall>(k, v) \<in> set d. \<exists>x. dict_get e k = Some x \<and> extends v x))"
  by (cases w) (auto simp: list_all_iff split: option.splits; fastforce)+

lemma extends_Arr_iff:
  "extends (Arr xs) w \<longleftrightarrow> (\<exists>ys. w = Arr ys \<and> length xs \<le> length ys \<and> (\<forall>i < length xs. extends (xs ! i) (ys ! i)))"
  by (cases w) (auto simp: list_all_length)

lemma extends_refl: "wf_yaml v \<Longrightarrow> extends v v"
proof (induction v rule: wf_yaml.induct)
  case (1 d)
  then have "dict_get d k = Some v \<and> extends v v" if "(k, v) \<in> set d" for k v
    using that map_of_is_SomeI [of d k v] by (auto simp: list_all_iff)
  then show ?case unfolding extends_Obj_iff by blast
next
  case (2 xs)
  then show ?case by (auto simp: extends_Arr_iff list_all_length)
qed auto

lemma extends_trans: "extends u v \<Longrightarrow> extends v w \<Longrightarrow> extends u w"
proof (induction u arbitrary: v w rule: wf_yaml.induct)
  case (1 d)
  from "1.prems"(1) obtain e where v: "v = Obj e"
    "\<And>k x. (k, x) \<in> set d \<Longrightarrow> \<exists>y. dict_get e k = Some y \<and> extends x y"
    unfolding extends_Obj_iff by fast
  from "1.prems"(2) obtain f where w: "w = Obj f"
    "\<And>k x. (k, x) \<in> set e \<Longrightarrow> \<exists>y. dict_get f k = Some y \<and> extends x y"
    unfolding v(1) extends_Obj_iff by fast
  have "\<exists>y. dict_get f k = Some y \<and> extends x y" if "(k, x) \<in> set d" for k x
  proof -
    from v(2) [OF that] obtain y where y: "dict_get e k = Some y" "extends x y" by blast
    from w(2) [OF map_of_SomeD [OF y(1)]] obtain z where "dict_get f k = Some z" "extends y z" by blast
    with "1.IH" [OF that refl y(2)] show ?thesis by blast
  qed
  then show ?case unfolding w(1) extends_Obj_iff by blast
next
  case (2 xs)
  from "2.prems"(1) obtain ys where v: "v = Arr ys" "length xs \<le> length ys"
    "\<And>i. i < length xs \<Longrightarrow> extends (xs ! i) (ys ! i)"
    unfolding extends_Arr_iff by blast
  from "2.prems"(2) obtain zs where w: "w = Arr zs" "length ys \<le> length zs"
    "\<And>i. i < length ys \<Longrightarrow> extends (ys ! i) (zs ! i)"
    unfolding v(1) extends_Arr_iff by blast
  have "extends (xs ! i) (zs ! i)" if "i < length xs" for i
    using "2.IH" [of "xs ! i" "ys ! i" "zs ! i"] that v w by simp
  with v(2) w(1,2) show ?case unfolding extends_Arr_iff by auto
qed (auto simp: extends_Obj_iff)

lemma set_key_extends:
  assumes "set_key k x a = Inr a'" and "wf_yaml a" and "wf_yaml x"
    and "\<And>old. get_key k a = Inr old \<Longrightarrow> extends old x"
  shows "extends a a' \<and> wf_yaml a'"
proof -
  from assms(1) obtain d where a: "a = Obj d" "a' = Obj (dict_set k x d)" by (cases a) auto
  have "\<exists>y. dict_get (dict_set k x d) j = Some y \<and> extends v y" if "(j, v) \<in> set d" for j v
  proof -
    have j: "dict_get d j = Some v" using that assms(2) a(1) by simp
    moreover have "wf_yaml v" using wf_ObjD j assms(2) a(1) by blast
    ultimately show ?thesis using assms(4) a(1) extends_refl by (cases "j = k") auto
  qed
  then have "extends a a'" unfolding a extends_Obj_iff by blast
  with wf_dict_set assms(2,3) a show ?thesis by blast
qed

lemma set_index_extends:
  assumes "set_index i x a = Inr a'" and "wf_yaml a" and "wf_yaml x"
    and "\<And>old. get_index i a = Inr old \<Longrightarrow> extends old x"
  shows "extends a a' \<and> wf_yaml a'"
proof -
  from assms(1) obtain xs where a: "a = Arr xs" "a' = Arr (xs[i := x])" "i < length xs"
    by (cases a) (auto split: if_splits)
  have "extends (xs ! j) (xs[i := x] ! j)" if "j < length xs" for j
    using that assms(2,4) a extends_refl by (cases "j = i") (auto simp: list_all_length)
  then have "extends a a'" unfolding a extends_Arr_iff by simp
  moreover have "wf_yaml a'"
    using assms(2,3) a by (auto simp: list_all_iff dest!: set_update_subset_insert [THEN subsetD])
  ultimately show ?thesis by blast
qed

lemma append_item_extends:
  assumes "append_item x a = Inr a'" and "wf_yaml a" and "wf_yaml x"
  shows "extends a a' \<and> wf_yaml a'"
proof -
  from assms(1) obtain xs where a: "a = Arr xs" "a' = Arr (xs @ [x])" by (cases a) auto
  have "extends a a'"
    using assms(2) a extends_refl by (auto simp: extends_Arr_iff nth_append list_all_length)
  with assms(2,3) a show ?thesis by simp
qed

lemma get_key_wf: "get_key k a = Inr v \<Longrightarrow> wf_yaml a \<Longrightarrow> wf_yaml v"
  by (cases a) (auto split: option.splits intro: wf_ObjD simp del: wf_yaml.simps)

lemma get_index_wf: "get_index i a = Inr v \<Longrightarrow> wf_yaml a \<Longrightarrow> wf_yaml v"
  by (cases a) (auto simp: list_all_length split: if_splits)

lemma get_key_set: "set_key k x a = Inr a' \<Longrightarrow> get_key k a' = Inr x"
  by (cases a) auto

end
