(* ===== verification/Manifest_Updates.thy ===== *)
theory Manifest_Updates
  imports Manifest
begin

text \<open>
  The manifests in the status of an application,
  \<open>krake/krake/controller/kubernetes/hooks.py\<close>: the last applied manifest is completed from
  the specification and from the response of a cluster, the last observed manifest is read off
  a response. The code mutates nested dictionaries and lists; here each function returns the
  value as it is afterwards, and the caller stores it where the original stood.

  A value of an observer schema decides which of the two functions for dictionaries and lists
  is called; they are the equations for \<open>Obj\<close> and for other values of one function each.
\<close>

section \<open>Nested updates\<close>

text \<open>
  The update of a nested dictionary or list: it is created empty when it is missing, updated,
  and stands where it stood; and the copy of a plain value that is missing.
\<close>

definition empty_part :: "bool \<Rightarrow> yaml" where
  "empty_part is_dict = (if is_dict then Obj [] else Arr [])"

definition update_key ::
  "string \<Rightarrow> bool \<Rightarrow> (yaml \<Rightarrow> (exn, yaml) res) \<Rightarrow> yaml \<Rightarrow> (exn, yaml) res" where
  "update_key k is_dict f v =
     res_bind (contains_key k v) (\<lambda>known.
     res_bind (if known then Inr v else set_key k (empty_part is_dict) v) (\<lambda>v'.
     res_bind (get_key k v') (\<lambda>part.
     res_bind (f part) (\<lambda>part'.
     set_key k part' v'))))"

definition copy_key :: "string \<Rightarrow> (exn, yaml) res \<Rightarrow> yaml \<Rightarrow> (exn, yaml) res" where
  "copy_key k x v =
     res_bind (contains_key k v) (\<lambda>known.
     if known then Inr v else res_bind x (\<lambda>x'. set_key k x' v))"

definition update_index ::
  "nat \<Rightarrow> bool \<Rightarrow> (yaml \<Rightarrow> (exn, yaml) res) \<Rightarrow> yaml \<Rightarrow> (exn, yaml) res" where
  "update_index i is_dict f v =
     res_bind (len v) (\<lambda>n.
     res_bind (if i < n then Inr v else append_item (empty_part is_dict) v) (\<lambda>v'.
     res_bind (get_index i v') (\<lambda>part.
     res_bind (f part) (\<lambda>part'.
     set_index i part' v'))))"

definition copy_index :: "nat \<Rightarrow> (exn, yaml) res \<Rightarrow> yaml \<Rightarrow> (exn, yaml) res" where
  "copy_index i x v =
     res_bind (len v) (\<lambda>n.
     if i < n then Inr v else res_bind x (\<lambda>x'. append_item x' v))"

lemma update_key_cong [fundef_cong]:
  "k = k' \<Longrightarrow> b = b' \<Longrightarrow> v = v' \<Longrightarrow> (\<And>part. f part = g part) \<Longrightarrow> update_key k b f v = update_key k' b' g v'"
  by (simp add: update_key_def)

lemma update_index_cong [fundef_cong]:
  "i = i' \<Longrightarrow> b = b' \<Longrightarrow> v = v' \<Longrightarrow> (\<And>part. f part = g part) \<Longrightarrow> update_index i b f v = update_index i' b' g v'"
  by (simp add: update_index_def)

section \<open>From a response to the last applied manifest\<close>

text \<open>
  \<open>update_last_applied_manifest_dict_from_resp\<close> and, for a schema that is not a dictionary,
  \<open>update_last_applied_manifest_list_from_resp\<close>. An element beyond the end of the response
  ends the loop over the list; all later ones are beyond it, too.
\<close>

fun applied_from_resp :: "yaml \<Rightarrow> yaml \<Rightarrow> yaml \<Rightarrow> (exn, yaml) res" where
  "applied_from_resp (Obj schema) resp applied =
     res_fold (\<lambda>(key, v) applied.
       let camel_key = camel_to_snake_case key in
       res_bind (contains_key camel_key resp) (\<lambda>present.
       if \<not> present then Inl KeyError
       else if is_obj v \<or> is_arr v then
         update_key key (is_obj v)
           (\<lambda>part. res_bind (get_key camel_key resp) (\<lambda>r. applied_from_resp v r part)) applied
       else copy_key key (get_key camel_key resp) applied)) schema applied"
| "applied_from_resp (Arr schema) resp applied =
     res_fold (\<lambda>(i, v) applied.
       res_bind (len resp) (\<lambda>n.
       if i \<ge> n then Inr applied
       else if is_obj v then
         update_index i True
           (\<lambda>part. res_bind (get_index i resp) (\<lambda>r. applied_from_resp v r part)) applied
       else
         res_bind (get_index i resp) (\<lambda>r.
         if is_arr r then update_index i False (\<lambda>part. applied_from_resp v r part) applied
         else copy_index i (Inr r) applied)))
       (List.enumerate 0 (butlast schema)) applied"
| "applied_from_resp v resp applied = Inl TypeError"

section \<open>From a response to the last observed manifest\<close>

text \<open>
  \<open>update_last_observed_manifest_dict\<close> and \<open>update_last_observed_manifest_list\<close>. The first
  asks for the items of the schema, the second slices it, whatever it is: the response decides
  which of the two is called for the element of a list.
\<close>

definition current_length :: "nat \<Rightarrow> yaml" where
  "current_length n = Obj [(''observer_schema_list_current_length'', Integer (int n))]"

fun observed_from_resp :: "bool \<Rightarrow> yaml \<Rightarrow> yaml \<Rightarrow> (exn, yaml) res" where
  "observed_from_resp True (Obj schema) resp =
     res_bind (res_map (\<lambda>(key, v).
       let camel_key = camel_to_snake_case key in
       res_bind (contains_key camel_key resp) (\<lambda>present.
       if \<not> present then Inl KeyError
       else
         res_bind (get_key camel_key resp) (\<lambda>r.
         if is_obj v then res_bind (observed_from_resp True v r) (\<lambda>x. Inr (key, x))
         else if is_arr v then res_bind (observed_from_resp False v r) (\<lambda>x. Inr (key, x))
         else Inr (key, r)))) schema) (\<lambda>items. Inr (Obj items))"
| "observed_from_resp True v resp = Inl AttributeError"
| "observed_from_resp False schema resp =
     (if \<not> truth resp then Inr (Arr [current_length 0])
      else
        (case schema of
           Arr vs \<Rightarrow>
             res_bind (len resp) (\<lambda>n.
             res_bind (res_map (\<lambda>(i, v).
               res_bind (get_index i resp) (\<lambda>r.
               if is_obj r then observed_from_resp True v r
               else if is_arr r then observed_from_resp False v r
               else Inr r)) (filter (\<lambda>(i, v). i < n) (List.enumerate 0 (butlast vs)))) (\<lambda>xs.
             Inr (Arr (xs @ [current_length n]))))
         | _ \<Rightarrow> Inl TypeError))"

section \<open>From the specification to the last applied manifest\<close>

text \<open>
  \<open>update_last_applied_manifest_dict_from_spec\<close> and, for lists,
  \<open>update_last_applied_manifest_list_from_spec\<close>.
\<close>

fun applied_from_spec :: "yaml \<Rightarrow> yaml \<Rightarrow> yaml \<Rightarrow> (exn, yaml) res" where
  "applied_from_spec (Obj schema) old new =
     res_fold (\<lambda>(key, v) new.
       res_bind (contains_key key old) (\<lambda>was.
       if \<not> was then Inr new
       else if is_obj v \<or> is_arr v then
         update_key key (is_obj v)
           (\<lambda>part. res_bind (get_key key old) (\<lambda>p. applied_from_spec v p part)) new
       else copy_key key (get_key key old) new)) schema new"
| "applied_from_spec (Arr schema) old new =
     res_fold (\<lambda>(i, v) new.
       res_bind (len old) (\<lambda>n.
       if i \<ge> n then Inr new
       else if is_obj v \<or> is_arr v then
         update_index i (is_obj v)
           (\<lambda>part. res_bind (get_index i old) (\<lambda>p. applied_from_spec v p part)) new
       else copy_index i (get_index i old) new))
       (List.enumerate 0 (butlast schema)) new"
| "applied_from_spec v old new = Inl TypeError"

section \<open>The manifests of an application\<close>

record manifests =
  spec_manifest :: "yaml list"
  spec_observer_schema :: "yaml list"
  mangled_observer_schema :: "yaml list"
  last_applied_manifest :: "yaml list"
  last_observed_manifest :: "yaml list"

abbreviation resource_idx :: "yaml list \<Rightarrow> yaml \<Rightarrow> (exn, nat) res" where
  "resource_idx \<equiv> get_kubernetes_resource_idx False"

text \<open>One round of the loop over the observed resources.\<close>

definition add_from_spec :: "yaml list \<Rightarrow> yaml \<Rightarrow> yaml list \<Rightarrow> (exn, yaml list) res" where
  "add_from_spec applied observed new =
     (case resource_idx applied observed of
        Inl e \<Rightarrow> if e = IndexError then Inr new else Inl e
      | Inr i \<Rightarrow>
          res_bind
            (case resource_idx new observed of
               Inl e \<Rightarrow> if e = IndexError then Inr (new @ [Obj []], length new) else Inl e
             | Inr j \<Rightarrow> Inr (new, j)) (\<lambda>(new', j).
          res_bind (applied_from_spec observed (applied ! i) (new' ! j)) (\<lambda>r.
          Inr (new'[j := r]))))"

definition update_last_applied_manifest_from_spec :: "manifests \<Rightarrow> (exn, manifests) res" where
  "update_last_applied_manifest_from_spec app =
     res_bind (res_fold (add_from_spec (last_applied_manifest app)) (mangled_observer_schema app)
         (spec_manifest app)) (\<lambda>new.
     Inr (app\<lparr>last_applied_manifest := new\<rparr>))"

definition update_last_applied_manifest_from_resp :: "yaml \<Rightarrow> manifests \<Rightarrow> (exn, manifests) res" where
  "update_last_applied_manifest_from_resp resp app =
     res_bind (resource_idx (last_applied_manifest app) resp) (\<lambda>i.
     res_bind (resource_idx (mangled_observer_schema app) resp) (\<lambda>j.
     res_bind (applied_from_resp (mangled_observer_schema app ! j) resp (last_applied_manifest app ! i)) (\<lambda>r.
     Inr (app\<lparr>last_applied_manifest := (last_applied_manifest app)[i := r]\<rparr>))))"

definition update_last_observed_manifest_from_resp :: "yaml \<Rightarrow> manifests \<Rightarrow> (exn, manifests) res" where
  "update_last_observed_manifest_from_resp resp app =
     res_bind (resource_idx (mangled_observer_schema app) resp) (\<lambda>j.
     res_bind
       (case resource_idx (last_observed_manifest app) resp of
          Inl e \<Rightarrow> if e = IndexError
            then Inr (last_observed_manifest app @ [Obj []], length (last_observed_manifest app)) else Inl e
        | Inr i \<Rightarrow> Inr (last_observed_manifest app, i)) (\<lambda>(observed, i).
     res_bind (observed_from_resp True (mangled_observer_schema app ! j) resp) (\<lambda>r.
     Inr (app\<lparr>last_observed_manifest := observed[i := r]\<rparr>))))"

definition remove_resource_from_last_observed_manifest :: "yaml \<Rightarrow> manifests \<Rightarrow> (exn, manifests) res" where
  "remove_resource_from_last_observed_manifest resource app =
     (case resource_idx (last_observed_manifest app) resource of
        Inl e \<Rightarrow> if e = IndexError then Inr app else Inl e
      | Inr i \<Rightarrow>
          Inr (app\<lparr>last_observed_manifest :=
            take i (last_observed_manifest app) @ drop (Suc i) (last_observed_manifest app)\<rparr>))"

section \<open>Nothing that was applied is lost\<close>

lemma wf_empty_part [simp]: "wf_yaml (empty_part b)"
  by (simp add: empty_part_def)

lemma new_key_extends:
  assumes "set_key k x v = Inr v'" and "contains_key k v = Inr False" and "wf_yaml v" and "wf_yaml x"
  shows "extends v v' \<and> wf_yaml v'"
  using assms
  by (intro set_key_extends) (cases v; auto simp: dict_keys_iff split: option.splits)+

lemma update_key_extends:
  assumes "update_key k b f v = Inr v'" and "wf_yaml v"
    and "\<And>p p'. f p = Inr p' \<Longrightarrow> wf_yaml p \<Longrightarrow> extends p p' \<and> wf_yaml p'"
  shows "extends v v' \<and> wf_yaml v'"
proof -
  from assms(1) obtain known w p p' where known: "contains_key k v = Inr known" and
    w: "(if known then Inr v else set_key k (empty_part b) v) = Inr w" and
    p: "get_key k w = Inr p" "f p = Inr p'" "set_key k p' w = Inr v'"
    by (auto simp: update_key_def res_simps)
  have first: "extends v w \<and> wf_yaml w"
    using w known assms(2) extends_refl new_key_extends by (cases known) auto
  have up: "extends p p' \<and> wf_yaml p'" using assms(3) p(2) get_key_wf [OF p(1)] first by blast
  have "extends w v' \<and> wf_yaml v'"
    by (rule set_key_extends [OF p(3)]) (use first up p(1) in auto)
  with first extends_trans show ?thesis by blast
qed

lemma update_index_extends:
  assumes "update_index i b f v = Inr v'" and "wf_yaml v"
    and "\<And>p p'. f p = Inr p' \<Longrightarrow> wf_yaml p \<Longrightarrow> extends p p' \<and> wf_yaml p'"
  shows "extends v v' \<and> wf_yaml v'"
proof -
  from assms(1) obtain n w p p' where
    w: "(if i < n then Inr v else append_item (empty_part b) v) = Inr w" and
    p: "get_index i w = Inr p" "f p = Inr p'" "set_index i p' w = Inr v'"
    by (auto simp: update_index_def res_simps)
  have first: "extends v w \<and> wf_yaml w"
    using w assms(2) extends_refl append_item_extends by (cases "i < n") auto
  have up: "extends p p' \<and> wf_yaml p'" using assms(3) p(2) get_index_wf [OF p(1)] first by blast
  have "extends w v' \<and> wf_yaml v'"
    by (rule set_index_extends [OF p(3)]) (use first up p(1) in auto)
  with first extends_trans show ?thesis by blast
qed

lemma copy_key_extends:
  assumes "copy_key k x v = Inr v'" and "wf_yaml v" and "\<And>x'. x = Inr x' \<Longrightarrow> wf_yaml x'"
  shows "extends v v' \<and> wf_yaml v'"
  using assms extends_refl new_key_extends by (auto simp: copy_key_def res_simps split: if_splits)

lemma copy_index_extends:
  assumes "copy_index i x v = Inr v'" and "wf_yaml v" and "\<And>x'. x = Inr x' \<Longrightarrow> wf_yaml x'"
  shows "extends v v' \<and> wf_yaml v'"
  using assms extends_refl append_item_extends by (auto simp: copy_index_def res_simps split: if_splits)

lemma res_fold_extends:
  assumes "res_fold f xs a = Inr a'" and "wf_yaml a"
    and "\<And>x b b'. x \<in> set xs \<Longrightarrow> wf_yaml b \<Longrightarrow> f x b = Inr b' \<Longrightarrow> extends b b' \<and> wf_yaml b'"
  shows "extends a a' \<and> wf_yaml a'"
  by (rule res_fold_invariant [OF assms(1)])
    (use assms(2,3) extends_refl extends_trans in blast)+

lemma applied_from_resp_extends:
  "applied_from_resp schema resp applied = Inr applied' \<Longrightarrow> wf_yaml resp \<Longrightarrow> wf_yaml applied \<Longrightarrow>
     extends applied applied' \<and> wf_yaml applied'"
proof (induction "size schema" arbitrary: schema resp applied applied' rule: less_induct)
  case less
  have IH: "extends a a' \<and> wf_yaml a'"
    if "size v < size schema" "applied_from_resp v r a = Inr a'" "wf_yaml r" "wf_yaml a" for v r a a'
    using less.hyps that by blast
  show ?case
  proof (cases schema)
    case (Obj d)
    have IHk: "extends a a' \<and> wf_yaml a'"
      if "(key, v) \<in> set d" "res_bind (get_key k resp) (\<lambda>r. applied_from_resp v r a) = Inr a'" "wf_yaml a"
      for key v k a a'
    proof -
      from that(2) obtain p where p: "get_key k resp = Inr p" "applied_from_resp v p a = Inr a'"
        by (auto simp: res_simps)
      have "size v < size schema" using size_yaml_dict [OF that(1)] Obj by simp
      from IH [OF this p(2) get_key_wf [OF p(1) less.prems(2)] that(3)] show ?thesis .
    qed
    show ?thesis
    proof (rule res_fold_extends [OF less.prems(1)[unfolded Obj applied_from_resp.simps] less.prems(3)], goal_cases)
      case (1 x b b')
      obtain key v where x: "x = (key, v)" by (cases x)
      with 1(3) consider
        "update_key key (is_obj v)
          (\<lambda>part. res_bind (get_key (camel_to_snake_case key) resp) (\<lambda>r. applied_from_resp v r part)) b = Inr b'"
        | "copy_key key (get_key (camel_to_snake_case key) resp) b = Inr b'"
        by (auto simp: Let_def res_simps split: if_splits)
      then show ?case
      proof cases
        case u: 1
        show ?thesis by (rule update_key_extends [OF u 1(2)]) (rule IHk [OF 1(1) [unfolded x]])
      next
        case c: 2
        show ?thesis by (rule copy_key_extends [OF c 1(2)]) (rule get_key_wf [OF _ less.prems(2)])
      qed
    qed
  next
    case (Arr vs)
    have IHi: "extends a a' \<and> wf_yaml a'"
      if "(i, v) \<in> set (List.enumerate 0 (butlast vs))" "applied_from_resp v r a = Inr a'"
        "get_index j resp = Inr r" "wf_yaml a" for i v r j a a'
    proof -
      have "size v < size schema" using size_enumerate [OF that(1)] Arr by simp
      from IH [OF this that(2) get_index_wf [OF that(3) less.prems(2)] that(4)] show ?thesis .
    qed
    show ?thesis
    proof (rule res_fold_extends [OF less.prems(1)[unfolded Arr applied_from_resp.simps] less.prems(3)], goal_cases)
      case (1 x b b')
      obtain i v where x: "x = (i, v)" by (cases x)
      with 1(3) consider "b' = b"
        | "update_index i True (\<lambda>part. res_bind (get_index i resp) (\<lambda>r. applied_from_resp v r part)) b = Inr b'"
        | r where "get_index i resp = Inr r" "update_index i False (\<lambda>part. applied_from_resp v r part) b = Inr b'"
        | r where "get_index i resp = Inr r" "copy_index i (Inr r) b = Inr b'"
        by (auto simp: res_simps split: if_splits)
      then show ?case
      proof cases
        case u: 2
        show ?thesis
          by (rule update_index_extends [OF u 1(2)]) (auto simp: res_simps dest: IHi [OF 1(1) [unfolded x]])
      next
        case u: (3 r)
        show ?thesis
          by (rule update_index_extends [OF u(2) 1(2)]) (rule IHi [OF 1(1) [unfolded x] _ u(1)])
      next
        case c: (4 r)
        show ?thesis
          by (rule copy_index_extends [OF c(2) 1(2)]) (use get_index_wf [OF c(1) less.prems(2)] in simp)
      qed (use 1(2) extends_refl in simp)
    qed
  qed (use less.prems in auto)
qed

lemma applied_from_spec_extends:
  "applied_from_spec schema old new = Inr new' \<Longrightarrow> wf_yaml old \<Longrightarrow> wf_yaml new \<Longrightarrow>
     extends new new' \<and> wf_yaml new'"
proof (induction "size schema" arbitrary: schema old new new' rule: less_induct)
  case less
  have IH: "extends a a' \<and> wf_yaml a'"
    if "size v < size schema" "applied_from_spec v p a = Inr a'" "wf_yaml p" "wf_yaml a" for v p a a'
    using less.hyps that by blast
  show ?case
  proof (cases schema)
    case (Obj d)
    have IHk: "extends a a' \<and> wf_yaml a'"
      if "(key, v) \<in> set d" "res_bind (get_key k old) (\<lambda>p. applied_from_spec v p a) = Inr a'" "wf_yaml a"
      for key v k a a'
    proof -
      from that(2) obtain p where p: "get_key k old = Inr p" "applied_from_spec v p a = Inr a'"
        by (auto simp: res_simps)
      have "size v < size schema" using size_yaml_dict [OF that(1)] Obj by simp
      from IH [OF this p(2) get_key_wf [OF p(1) less.prems(2)] that(3)] show ?thesis .
    qed
    show ?thesis
    proof (rule res_fold_extends [OF less.prems(1)[unfolded Obj applied_from_spec.simps] less.prems(3)], goal_cases)
      case (1 x b b')
      obtain key v where x: "x = (key, v)" by (cases x)
      with 1(3) consider "b' = b"
        | "update_key key (is_obj v) (\<lambda>part. res_bind (get_key key old) (\<lambda>p. applied_from_spec v p part)) b = Inr b'"
        | "copy_key key (get_key key old) b = Inr b'"
        by (auto simp: res_simps split: if_splits)
      then show ?case
      proof cases
        case u: 2
        show ?thesis by (rule update_key_extends [OF u 1(2)]) (rule IHk [OF 1(1) [unfolded x]])
      next
        case c: 3
        show ?thesis by (rule copy_key_extends [OF c 1(2)]) (rule get_key_wf [OF _ less.prems(2)])
      qed (use 1(2) extends_refl in simp)
    qed
  next
    case (Arr vs)
    have IHi: "extends a a' \<and> wf_yaml a'"
      if "(i, v) \<in> set (List.enumerate 0 (butlast vs))"
        "res_bind (get_index j old) (\<lambda>p. applied_from_spec v p a) = Inr a'" "wf_yaml a" for i v j a a'
    proof -
      from that(2) obtain p where p: "get_index j old = Inr p" "applied_from_spec v p a = Inr a'"
        by (auto simp: res_simps)
      have "size v < size schema" using size_enumerate [OF that(1)] Arr by simp
      from IH [OF this p(2) get_index_wf [OF p(1) less.prems(2)] that(3)] show ?thesis .
    qed
    show ?thesis
    proof (rule res_fold_extends [OF less.prems(1)[unfolded Arr applied_from_spec.simps] less.prems(3)], goal_cases)
      case (1 x b b')
      obtain i v where x: "x = (i, v)" by (cases x)
      with 1(3) consider "b' = b"
        | "update_index i (is_obj v) (\<lambda>part. res_bind (get_index i old) (\<lambda>p. applied_from_spec v p part)) b = Inr b'"
        | "copy_index i (get_index i old) b = Inr b'"
        by (auto simp: res_simps split: if_splits)
      then show ?case
      proof cases
        case u: 2
        show ?thesis by (rule update_index_extends [OF u 1(2)]) (rule IHi [OF 1(1) [unfolded x]])
      next
        case c: 3
        show ?thesis by (rule copy_index_extends [OF c 1(2)]) (rule get_index_wf [OF _ less.prems(2)])
      qed (use 1(2) extends_refl in simp)
    qed
  qed (use less.prems in auto)
qed

lemma idx_bound: "get_kubernetes_resource_idx b manifest r = Inr i \<Longrightarrow> i < length manifest"
  by (induction manifest arbitrary: i) (auto simp: res_simps split: if_splits)

lemma list_update_extends:
  assumes "extends (xs ! i) x" and "wf_yaml x" and "i < length xs" and "wf_yaml (Arr xs)"
  shows "extends (Arr xs) (Arr (xs[i := x])) \<and> wf_yaml (Arr (xs[i := x]))"
proof (rule set_index_extends)
  show "set_index i x (Arr xs) = Inr (Arr (xs[i := x]))" using assms(3) by simp
qed (use assms in auto)

lemma add_from_spec_extends:
  assumes "add_from_spec applied observed new = Inr new'"
    and wf: "wf_yaml (Arr applied)" "wf_yaml (Arr new)"
  shows "extends (Arr new) (Arr new') \<and> wf_yaml (Arr new')"
proof (cases "resource_idx applied observed")
  case (Inl e)
  with assms(1) have "new' = new" by (auto simp: add_from_spec_def split: if_splits)
  with wf(2) extends_refl show ?thesis by blast
next
  case (Inr i)
  with assms(1) obtain new1 j r where
    new1: "(case resource_idx new observed of
         Inl e \<Rightarrow> if e = IndexError then Inr (new @ [Obj []], length new) else Inl e
       | Inr j \<Rightarrow> Inr (new, j)) = Inr (new1, j)" and
    r: "applied_from_spec observed (applied ! i) (new1 ! j) = Inr r" "new' = new1[j := r]"
    by (auto simp: add_from_spec_def res_bind_Inr_iff split: prod.splits)
  have first: "extends (Arr new) (Arr new1) \<and> wf_yaml (Arr new1) \<and> j < length new1"
  proof (cases "resource_idx new observed")
    case Inl
    with new1 have "new1 = new @ [Obj []]" "j = length new" by (auto split: if_splits)
    with append_item_extends [of "Obj []" "Arr new"] wf(2) show ?thesis by simp
  next
    case (Inr k)
    with new1 wf(2) extends_refl [OF wf(2)] idx_bound [OF Inr] show ?thesis by simp
  qed
  have "wf_yaml (applied ! i)" using wf(1) idx_bound [OF Inr] by (simp add: list_all_length)
  moreover have "wf_yaml (new1 ! j)" using first by (simp add: list_all_length)
  ultimately have "extends (new1 ! j) r \<and> wf_yaml r" by (rule applied_from_spec_extends [OF r(1)])
  with list_update_extends [of new1 j r] first r(2) have "extends (Arr new1) (Arr new') \<and> wf_yaml (Arr new')" by blast
  with first extends_trans show ?thesis by blast
qed

section \<open>Properties\<close>

text \<open>
  After the last applied manifest has been updated from the specification, it contains all
  resources of the specification with all their values; values of the former last applied
  manifest are only used where the specification has none.
\<close>

theorem specification_applied:
  assumes "update_last_applied_manifest_from_spec app = Inr app'"
    and "wf_yaml (Arr (spec_manifest app))" and "wf_yaml (Arr (last_applied_manifest app))"
  shows "extends (Arr (spec_manifest app)) (Arr (last_applied_manifest app'))"
proof -
  from assms(1) obtain new where
    new: "res_fold (add_from_spec (last_applied_manifest app)) (mangled_observer_schema app) (spec_manifest app) = Inr new"
    and app': "last_applied_manifest app' = new"
    by (auto simp: update_last_applied_manifest_from_spec_def res_bind_Inr_iff)
  have "extends (Arr (spec_manifest app)) (Arr new) \<and> wf_yaml (Arr new)"
  proof (rule res_fold_invariant [OF new])
    show "extends (Arr (spec_manifest app)) (Arr (spec_manifest app)) \<and> wf_yaml (Arr (spec_manifest app))"
      using assms(2) extends_refl by blast
    fix observed m m' assume m: "extends (Arr (spec_manifest app)) (Arr m) \<and> wf_yaml (Arr m)"
      and step: "add_from_spec (last_applied_manifest app) observed m = Inr m'"
    from add_from_spec_extends [OF step assms(3)] m extends_trans
    show "extends (Arr (spec_manifest app)) (Arr m') \<and> wf_yaml (Arr m')" by blast
  qed
  with app' show ?thesis by simp
qed

definition example_manifests :: manifests where
  "example_manifests =
     \<lparr>spec_manifest = [Obj [(''apiVersion'', Text ''v1''), (''kind'', Text ''Service''), (''metadata'', Obj [(''name'', Text ''s'')])]],
      spec_observer_schema = [],
      mangled_observer_schema = [Obj [(''apiVersion'', Text ''v1''), (''kind'', Text ''Service''),
        (''metadata'', Obj [(''name'', Text ''s''), (''namespace'', Null)])]],
      last_applied_manifest = [Obj [(''apiVersion'', Text ''v1''), (''kind'', Text ''Service''),
        (''metadata'', Obj [(''name'', Text ''s''), (''namespace'', Text ''n'')])]],
      last_observed_manifest = []\<rparr>"

lemmas example_manifest_simps = example_manifests_def add_from_spec_def same_resource_def res_and_def
  same_entry_def same_in_metadata_def api_version_of_def update_key_def copy_key_def dict_keys_def

theorem specification_applied_witness:
  "\<exists>app'. update_last_applied_manifest_from_spec example_manifests = Inr app' \<and>
     last_applied_manifest app' = last_applied_manifest example_manifests \<and>
     extends (Arr (spec_manifest example_manifests)) (Arr (last_applied_manifest app'))"
proof -
  let ?app' = "example_manifests\<lparr>last_applied_manifest := last_applied_manifest example_manifests\<rparr>"
  have u: "update_last_applied_manifest_from_spec example_manifests = Inr ?app'"
    by (simp add: update_last_applied_manifest_from_spec_def example_manifest_simps)
  have "extends (Arr (spec_manifest example_manifests)) (Arr (last_applied_manifest ?app'))"
    by (rule specification_applied [OF u]) (simp_all add: example_manifests_def)
  with u show ?thesis by auto
qed

text \<open>
  Updating the last applied manifest from a response only adds the observed values that were
  not set yet; nothing that was applied is changed or lost.
\<close>

theorem response_only_adds:
  assumes "update_last_applied_manifest_from_resp resp app = Inr app'"
    and "wf_yaml resp" and "wf_yaml (Arr (last_applied_manifest app))"
  shows "extends (Arr (last_applied_manifest app)) (Arr (last_applied_manifest app')) \<and>
    length (last_applied_manifest app') = length (last_applied_manifest app)"
proof -
  from assms(1) obtain i j r where i: "resource_idx (last_applied_manifest app) resp = Inr i"
    and r: "applied_from_resp (mangled_observer_schema app ! j) resp (last_applied_manifest app ! i) = Inr r"
    and app': "app' = app\<lparr>last_applied_manifest := (last_applied_manifest app)[i := r]\<rparr>"
    by (auto simp: update_last_applied_manifest_from_resp_def res_bind_Inr_iff)
  note bound = idx_bound [OF i]
  have "wf_yaml (last_applied_manifest app ! i)" using assms(3) bound by (simp add: list_all_length)
  from applied_from_resp_extends [OF r assms(2) this]
  have "extends (last_applied_manifest app ! i) r" "wf_yaml r" by simp_all
  from list_update_extends [OF this bound assms(3)] app' show ?thesis by simp
qed

theorem response_only_adds_witness:
  "\<exists>app'. update_last_applied_manifest_from_resp
       (Obj [(''api_version'', Text ''v1''), (''kind'', Text ''Service''),
          (''metadata'', Obj [(''name'', Text ''s''), (''namespace'', Text ''n'')])])
       (example_manifests\<lparr>last_applied_manifest := spec_manifest example_manifests\<rparr>) = Inr app' \<and>
     extends (Arr (spec_manifest example_manifests)) (Arr (last_applied_manifest app'))"
proof -
  let ?resp = "Obj [(''api_version'', Text ''v1''), (''kind'', Text ''Service''),
          (''metadata'', Obj [(''name'', Text ''s''), (''namespace'', Text ''n'')])]"
  let ?app = "example_manifests\<lparr>last_applied_manifest := spec_manifest example_manifests\<rparr>"
  have keys: "camel_to_snake_case ''apiVersion'' = ''api_version''" "camel_to_snake_case ''kind'' = ''kind''"
    "camel_to_snake_case ''metadata'' = ''metadata''" "camel_to_snake_case ''name'' = ''name''"
    "camel_to_snake_case ''namespace'' = ''namespace''" by code_simp+
  obtain app' where u: "update_last_applied_manifest_from_resp ?resp ?app = Inr app'"
    by (cases "update_last_applied_manifest_from_resp ?resp ?app")
      (simp_all add: update_last_applied_manifest_from_resp_def example_manifest_simps keys Let_def)
  from response_only_adds [OF u] have "extends (Arr (last_applied_manifest ?app)) (Arr (last_applied_manifest app'))"
    by (simp add: example_manifests_def del: extends.simps)
  with u show ?thesis by auto
qed

end
