(* ===== verification/Coroutines.thy ===== *)
theory Coroutines
  imports Krake_Data
begin

text \<open>
  Coroutines that act on a state, may raise and may not return: a function from the state to the
  result and the new state, or to \<open>None\<close> if it never returns. What happened to the state before
  an exception stays. \<open>post m s Q\<close> is partial correctness: if \<open>m\<close> returns or raises, then \<open>Q\<close>
  holds of the result and the new state. Its equations for the constructs of coroutines compute
  the weakest precondition of a handler.
\<close>

type_synonym ('s, 'a) co = "'s \<Rightarrow> ((exn, 'a) res \<times> 's) option"

section \<open>Constructs\<close>

definition co_return :: "'a \<Rightarrow> ('s, 'a) co" where
  "co_return x s = Some (Inr x, s)"

definition co_raise :: "exn \<Rightarrow> ('s, 'a) co" where
  "co_raise e s = Some (Inl e, s)"

definition co_lift :: "(exn, 'a) res \<Rightarrow> ('s, 'a) co" where
  "co_lift r s = Some (r, s)"

definition co_get :: "('s, 's) co" where
  "co_get s = Some (Inr s, s)"

definition co_modify :: "('s \<Rightarrow> 's) \<Rightarrow> ('s, unit) co" where
  "co_modify f s = Some (Inr (), f s)"

definition co_bind :: "('s, 'a) co \<Rightarrow> ('a \<Rightarrow> ('s, 'b) co) \<Rightarrow> ('s, 'b) co" where
  "co_bind m f s =
     (case m s of
        None \<Rightarrow> None
      | Some (Inl e, s') \<Rightarrow> Some (Inl e, s')
      | Some (Inr x, s') \<Rightarrow> f x s')"

definition co_then :: "('s, unit) co \<Rightarrow> ('s, 'b) co \<Rightarrow> ('s, 'b) co" where
  "co_then m n = co_bind m (\<lambda>_. n)"

text \<open>\<open>try\<close>: the handler runs in the state in which the exception was raised.\<close>

definition co_catch :: "('s, 'a) co \<Rightarrow> (exn \<Rightarrow> ('s, 'a) co) \<Rightarrow> ('s, 'a) co" where
  "co_catch m h s =
     (case m s of
        None \<Rightarrow> None
      | Some (Inl e, s') \<Rightarrow> h e s'
      | Some (Inr x, s') \<Rightarrow> Some (Inr x, s'))"

text \<open>A \<open>for\<close> loop that passes a value on from round to round.\<close>

fun co_fold :: "('a \<Rightarrow> 'b \<Rightarrow> ('s, 'b) co) \<Rightarrow> 'a list \<Rightarrow> 'b \<Rightarrow> ('s, 'b) co" where
  "co_fold f [] b = co_return b"
| "co_fold f (x # xs) b = co_bind (f x b) (co_fold f xs)"

text \<open>\<open>while True\<close> with a body that returns \<open>None\<close> to continue, and a value to break with.\<close>

partial_function (option) co_loop :: "('s, 'a option) co \<Rightarrow> 's \<Rightarrow> ((exn, 'a) res \<times> 's) option" where
  "co_loop body s =
     Option.bind (body s) (\<lambda>(r, s').
       case r of
         Inl e \<Rightarrow> Some (Inl e, s')
       | Inr None \<Rightarrow> co_loop body s'
       | Inr (Some x) \<Rightarrow> Some (Inr x, s'))"

text \<open>A state machine: an action returns the next one, or \<open>None\<close> to stop.\<close>

partial_function (option) co_machine :: "('a \<Rightarrow> ('s, 'a option) co) \<Rightarrow> 'a \<Rightarrow> 's \<Rightarrow> ((exn, unit) res \<times> 's) option" where
  "co_machine act a s =
     Option.bind (act a s) (\<lambda>(r, s').
       case r of
         Inl e \<Rightarrow> Some (Inl e, s')
       | Inr None \<Rightarrow> Some (Inr (), s')
       | Inr (Some b) \<Rightarrow> co_machine act b s')"

declare co_loop.simps [code] co_machine.simps [code]

section \<open>Partial correctness\<close>

definition post :: "('s, 'a) co \<Rightarrow> 's \<Rightarrow> ((exn, 'a) res \<Rightarrow> 's \<Rightarrow> bool) \<Rightarrow> bool" where
  "post m s Q \<longleftrightarrow> (case m s of None \<Rightarrow> True | Some (r, s') \<Rightarrow> Q r s')"

named_theorems post_simps "weakest preconditions of coroutines"

lemma post_return [post_simps]: "post (co_return x) s Q \<longleftrightarrow> Q (Inr x) s"
  by (simp add: post_def co_return_def)

lemma post_raise [post_simps]: "post (co_raise e) s Q \<longleftrightarrow> Q (Inl e) s"
  by (simp add: post_def co_raise_def)

lemma post_lift [post_simps]: "post (co_lift r) s Q \<longleftrightarrow> Q r s"
  by (simp add: post_def co_lift_def)

lemma post_get [post_simps]: "post co_get s Q \<longleftrightarrow> Q (Inr s) s"
  by (simp add: post_def co_get_def)

lemma post_modify [post_simps]: "post (co_modify f) s Q \<longleftrightarrow> Q (Inr ()) (f s)"
  by (simp add: post_def co_modify_def)

lemma post_bind [post_simps]:
  "post (co_bind m f) s Q \<longleftrightarrow> post m s (\<lambda>r s'. case r of Inl e \<Rightarrow> Q (Inl e) s' | Inr x \<Rightarrow> post (f x) s' Q)"
  by (auto simp: post_def co_bind_def split: option.split sum.split)

lemma post_then [post_simps]:
  "post (co_then m n) s Q \<longleftrightarrow> post m s (\<lambda>r s'. case r of Inl e \<Rightarrow> Q (Inl e) s' | Inr x \<Rightarrow> post n s' Q)"
  by (simp add: co_then_def post_bind)

lemma post_catch [post_simps]:
  "post (co_catch m h) s Q \<longleftrightarrow> post m s (\<lambda>r s'. case r of Inl e \<Rightarrow> post (h e) s' Q | Inr x \<Rightarrow> Q (Inr x) s')"
  by (auto simp: post_def co_catch_def split: option.split sum.split)

lemma post_if: "post (if b then m else n) s Q \<longleftrightarrow> (b \<longrightarrow> post m s Q) \<and> (\<not> b \<longrightarrow> post n s Q)"
  by simp

lemma post_mono: "post m s P \<Longrightarrow> (\<And>r s'. P r s' \<Longrightarrow> Q r s') \<Longrightarrow> post m s Q"
  by (auto simp: post_def split: option.splits)

lemma post_conj: "post m s P \<Longrightarrow> post m s Q \<Longrightarrow> post m s (\<lambda>r s'. P r s' \<and> Q r s')"
  by (auto simp: post_def split: option.splits)

lemma postI: "(\<And>r s'. m s = Some (r, s') \<Longrightarrow> Q r s') \<Longrightarrow> post m s Q"
  by (auto simp: post_def split: option.split)

lemma postD: "post m s Q \<Longrightarrow> m s = Some (r, s') \<Longrightarrow> Q r s'"
  by (simp add: post_def)

lemma post_Some: "m s = Some (r, s') \<Longrightarrow> post m s Q \<longleftrightarrow> Q r s'"
  by (simp add: post_def)

lemma machine_step:
  "co_machine act a = co_bind (act a) (\<lambda>r. case r of None \<Rightarrow> co_return () | Some b \<Rightarrow> co_machine act b)"
  by (rule ext, subst co_machine.simps) (simp add: co_bind_def co_return_def bind_eq_Some_conv split: option.split sum.split)

text \<open>The outcome of a coroutine that is evaluated.\<close>

lemma case_returned:
  "(case p of Some (Inr x, s) \<Rightarrow> P x s | _ \<Rightarrow> False) \<Longrightarrow> \<exists>x s. p = Some (Inr x, s) \<and> P x s"
proof (cases p)
  case (Some q)
  then show "(case p of Some (Inr x, s) \<Rightarrow> P x s | _ \<Rightarrow> False) \<Longrightarrow> ?thesis" by (cases q; cases "fst q") auto
qed simp

text \<open>
  The rule for a step of a handler: what is known of its first part is a lemma with a weaker
  postcondition.
\<close>

lemma post_bindI:
  assumes "post m s P" and "\<And>e s'. P (Inl e) s' \<Longrightarrow> Q (Inl e) s'" and "\<And>x s'. P (Inr x) s' \<Longrightarrow> post (f x) s' Q"
  shows "post (co_bind m f) s Q"
  unfolding post_bind by (rule post_mono [OF assms(1)]) (auto split: sum.split intro: assms(2,3))

lemma post_thenI:
  assumes "post m s P" and "\<And>e s'. P (Inl e) s' \<Longrightarrow> Q (Inl e) s'" and "\<And>s'. P (Inr ()) s' \<Longrightarrow> post n s' Q"
  shows "post (co_then m n) s Q"
  unfolding co_then_def
proof (rule post_bindI [where P = P])
  show "post m s P" by (rule assms(1))
  show "P (Inl e) s' \<Longrightarrow> Q (Inl e) s'" for e s' by (rule assms(2))
  show "P (Inr x) s' \<Longrightarrow> post n s' Q" for x s' using assms(3) by (cases x) simp
qed

lemma post_fold:
  assumes "I xs b s"
    and "\<And>y ys b s. I (y # ys) b s \<Longrightarrow>
      post (f y b) s (\<lambda>r s'. case r of Inl e \<Rightarrow> Q (Inl e) s' | Inr b' \<Rightarrow> I ys b' s')"
    and "\<And>b s. I [] b s \<Longrightarrow> Q (Inr b) s"
  shows "post (co_fold f xs b) s Q"
  using assms(1)
proof (induction xs arbitrary: b s)
  case Nil
  from assms(3) [OF this] show ?case by (simp add: post_return)
next
  case (Cons y ys)
  show ?case
    unfolding co_fold.simps post_bind
    by (rule post_mono [OF assms(2) [OF Cons.prems]]) (auto split: sum.splits intro: Cons.IH)
qed

lemma post_loop:
  assumes "I s"
    and "\<And>s. I s \<Longrightarrow> post body s (\<lambda>r s'. case r of Inl e \<Rightarrow> Q (Inl e) s' | Inr None \<Rightarrow> I s' | Inr (Some x) \<Rightarrow> Q (Inr x) s')"
  shows "post (co_loop body) s Q"
proof (rule postI)
  fix r s' assume r: "co_loop body s = Some (r, s')"
  let ?P = "\<lambda>b s p. b = body \<longrightarrow> I s \<longrightarrow> Q (fst p) (snd p)"
  have "?P body s (r, s')"
  proof (rule co_loop.raw_induct [of ?P, OF _ r])
    fix loop b s p
    assume IH: "\<And>b s p. loop b s = Some p \<Longrightarrow> ?P b s p"
      and step: "Option.bind (b s) (\<lambda>(r, s').
          case r of Inl e \<Rightarrow> Some (Inl e, s') | Inr None \<Rightarrow> loop b s' | Inr (Some x) \<Rightarrow> Some (Inr x, s')) = Some p"
    show "?P b s p"
    proof (intro impI)
      assume b: "b = body" and I: "I s"
      from step obtain q t where bs: "b s = Some (q, t)" and
        p: "(case q of Inl e \<Rightarrow> Some (Inl e, t) | Inr None \<Rightarrow> loop b t | Inr (Some x) \<Rightarrow> Some (Inr x, t)) = Some p"
        by (auto simp: bind_eq_Some_conv)
      have "case q of Inl e \<Rightarrow> Q (Inl e) t | Inr None \<Rightarrow> I t | Inr (Some x) \<Rightarrow> Q (Inr x) t"
        using postD [OF assms(2) [OF I], of q t] bs b by simp
      with p IH [of b t] b show "Q (fst p) (snd p)" by (cases q) (auto split: option.splits)
    qed
  qed
  with assms(1) show "Q r s'" by simp
qed

end
