(* ===== verification/Kubernetes_Data.thy ===== *)
theory Kubernetes_Data
  imports Manifest_Updates Scheduler_Data Coroutines
begin

text \<open>
  What the Kubernetes controllers work on: applications with their manifests
  (\<open>krake/krake/data/kubernetes.py\<close>), the requests that the controllers send to the API of Krake
  and to clusters, and their answers. The API and the clusters are an environment that answers a
  request depending on all requests before it, so that an answer may reflect what was created or
  deleted before; nothing else is assumed of it.
\<close>

section \<open>Applications\<close>

record container_health =
  desired_pods :: int
  running_pods :: int
  completed_pods :: int
  failed_pods :: int

text \<open>
  A service of an application is kept as the host and the port that its text \<open>host:port\<close> is
  formatted from.
\<close>

type_synonym services = "(yaml, yaml \<times> yaml) dict"

record k8s_application = application +
  app_manifests :: manifests
  app_tosca :: yaml
  app_csar :: "string option"
  app_hooks :: "string list"
  shutdown_grace_time :: "int option"
  shutdown_failure_strategy :: "string option"
  shutdown_retry_count :: "int option"
  app_running_on :: "resource_ref option"
  app_services :: services
  app_health :: "container_health option"
  shutdown_grace_period :: "time option"
  migration_retries :: int

text \<open>What the controllers use of a cluster.\<close>

record kube_cluster =
  kubeconfig :: yaml
  kube_custom_resources :: "string list"

section \<open>Kubernetes objects\<close>

text \<open>
  A response of a cluster: an object of the Kubernetes library, as its \<open>to_dict\<close> gives it, or a
  plain dictionary for a custom resource.
\<close>

datatype response = Model yaml | Plain yaml

fun response_dict :: "response \<Rightarrow> yaml" where
  "response_dict (Model v) = v"
| "response_dict (Plain v) = v"

text \<open>An attribute of an object of the library. A plain dictionary has none.\<close>

fun response_attr :: "string \<Rightarrow> response \<Rightarrow> (exn, yaml) res" where
  "response_attr k (Model v) = get_attr k v"
| "response_attr k (Plain v) = Inl AttributeError"

section \<open>Requests\<close>

datatype kube_verb = Read | Create | Patch | Delete

text \<open>
  A call of the Kubernetes library: on which cluster, the class and the method of the library, the
  group, version and plural of a custom resource, and the arguments.
\<close>

record kube_call =
  call_config :: yaml
  call_verb :: kube_verb
  call_class :: string
  call_method :: string
  call_custom :: "(string \<times> string \<times> string) option"
  call_name :: "yaml option"
  call_namespace :: "yaml option"
  call_body :: "yaml option"

text \<open>A command in a pod of a cluster.\<close>

datatype exec_command = Sha256sum string | Find_files yaml | Tar_pack string | Tar_unpack string

datatype controller_request =
    Read_cluster "string option" string
  | Read_application "string option" string
  | Update_application_status k8s_application
  | Update_application k8s_application
  | Read_custom_resource_definition yaml string
  | Kube kube_call
  | Read_pod yaml yaml string
  | Exec yaml yaml string exec_command
  | Put_shutdown "yaml \<times> yaml"
  | Sleep int
  | Start_shutdown_task k8s_application
  | Start_observer string
  | Stop_observer string

section \<open>The environment\<close>

record custom_resource_definition =
  crd_scope :: string
  crd_group :: string
  crd_versions :: "string list"
  crd_kind :: string
  crd_plural :: string

text \<open>
  Each answer depends on the history: all requests that were sent, the one that is answered last.
\<close>

type_synonym history = "controller_request list"

record environment =
  cluster_answer :: "history \<Rightarrow> (exn, kube_cluster) res"
  application_answer :: "history \<Rightarrow> (exn, k8s_application) res"
  outcome :: "history \<Rightarrow> (exn, unit) res"
  definition_answer :: "history \<Rightarrow> (exn, custom_resource_definition) res"
  kube_answer :: "history \<Rightarrow> (exn, response) res"
  pod_phase :: "history \<Rightarrow> (exn, string) res"
  exec_answer :: "history \<Rightarrow> (exn, string) res"
  clock :: "history \<Rightarrow> time"
  cluster_host :: "yaml \<Rightarrow> (exn, yaml) res"
  library_class :: "string \<Rightarrow> bool"
  library_method :: "string \<Rightarrow> string \<Rightarrow> bool"
  translation :: "k8s_application \<Rightarrow> (exn, yaml list) res"
  mangling :: "k8s_application \<Rightarrow> (exn, manifests) res"

section \<open>The state of a controller\<close>

text \<open>
  The requests sent so far, the observers by the uid of their resource (with the application that
  they observe, and whether their task was started), and the custom resource definitions that the
  current client has cached.
\<close>

record controller =
  sent :: history
  observers :: "(string, k8s_application \<times> bool) dict"
  crd_cache :: "(exn, (string, custom_resource_definition) dict) res option"

definition ask :: "(history \<Rightarrow> (exn, 'a) res) \<Rightarrow> controller_request \<Rightarrow> (controller, 'a) co" where
  "ask answer r s = Some (answer (sent s @ [r]), s\<lparr>sent := sent s @ [r]\<rparr>)"

lemma post_ask [post_simps]:
  "post (ask answer r) s Q \<longleftrightarrow> Q (answer (sent s @ [r])) (s\<lparr>sent := sent s @ [r]\<rparr>)"
  by (simp add: post_def ask_def)

text \<open>Requests of the API that only succeed or fail.\<close>

abbreviation update_status :: "environment \<Rightarrow> k8s_application \<Rightarrow> (controller, unit) co" where
  "update_status env app \<equiv> ask (outcome env) (Update_application_status app)"

abbreviation update_app :: "environment \<Rightarrow> k8s_application \<Rightarrow> (controller, unit) co" where
  "update_app env app \<equiv> ask (outcome env) (Update_application app)"

definition read_cluster :: "environment \<Rightarrow> resource_ref \<Rightarrow> (controller, kube_cluster) co" where
  "read_cluster env r = ask (cluster_answer env) (Read_cluster (ref_namespace r) (ref_name r))"

definition time_now :: "environment \<Rightarrow> (controller, time) co" where
  "time_now env = co_bind co_get (\<lambda>s. co_return (clock env (sent s)))"

lemma post_read_cluster [post_simps]:
  "post (read_cluster env r) s Q \<longleftrightarrow>
     (let h = sent s @ [Read_cluster (ref_namespace r) (ref_name r)] in Q (cluster_answer env h) (s\<lparr>sent := h\<rparr>))"
  by (simp add: read_cluster_def post_simps Let_def)

lemma post_time_now [post_simps]: "post (time_now env) s Q \<longleftrightarrow> Q (Inr (clock env (sent s))) s"
  by (simp add: time_now_def post_simps)

section \<open>The requests of a coroutine\<close>

text \<open>A coroutine only appends requests that satisfy a predicate to the log.\<close>

definition adds :: "(controller_request \<Rightarrow> bool) \<Rightarrow> (controller, 'a) co \<Rightarrow> bool" where
  "adds P m \<longleftrightarrow> (\<forall>s. post m s (\<lambda>r s'. \<exists>h. sent s' = sent s @ h \<and> list_all P h))"

named_theorems adds_intros "the requests that a coroutine adds satisfy a predicate"

lemma adds_post: "adds P m \<Longrightarrow> post m s (\<lambda>r s'. \<exists>h. sent s' = sent s @ h \<and> list_all P h)"
  by (simp add: adds_def)

lemma adds_return [adds_intros]: "adds P (co_return x)"
  and adds_raise [adds_intros]: "adds P (co_raise e)"
  and adds_lift [adds_intros]: "adds P (co_lift r)"
  by (simp_all add: adds_def post_simps)

lemma adds_get [adds_intros]: "adds P co_get"
  by (simp add: adds_def post_simps)

lemma adds_modify [adds_intros]: "(\<And>s. sent (f s) = sent s) \<Longrightarrow> adds P (co_modify f)"
  by (simp add: adds_def post_simps)

lemma adds_ask [adds_intros]: "P r \<Longrightarrow> adds P (ask answer r)"
  by (simp add: adds_def post_simps)

lemma adds_trans:
  assumes "sent s1 = sent s @ h" and "list_all P h" and "adds P m"
  shows "post m s1 (\<lambda>r s'. \<exists>h. sent s' = sent s @ h \<and> list_all P h)"
  by (rule post_mono [OF adds_post [OF assms(3)]]) (use assms(1,2) in auto)

lemma adds_bind [adds_intros]:
  assumes "adds P m" and "\<And>x. adds P (f x)"
  shows "adds P (co_bind m f)"
  unfolding adds_def
proof
  fix s
  show "post (co_bind m f) s (\<lambda>r s'. \<exists>h. sent s' = sent s @ h \<and> list_all P h)"
    by (rule post_bindI [OF adds_post [OF assms(1)]]) (auto intro: adds_trans assms(2))
qed

lemma adds_then [adds_intros]: "adds P m \<Longrightarrow> adds P n \<Longrightarrow> adds P (co_then m n)"
  unfolding co_then_def by (rule adds_bind)

lemma adds_catch [adds_intros]:
  assumes "adds P m" and "\<And>e. adds P (h e)"
  shows "adds P (co_catch m h)"
  unfolding adds_def
proof
  fix s
  show "post (co_catch m h) s (\<lambda>r s'. \<exists>h. sent s' = sent s @ h \<and> list_all P h)"
    unfolding post_catch
    by (rule post_mono [OF adds_post [OF assms(1), of s]]) (auto split: sum.split intro: adds_trans assms(2))
qed

lemma adds_fold [adds_intros]: "(\<And>x b. x \<in> set xs \<Longrightarrow> adds P (f x b)) \<Longrightarrow> adds P (co_fold f xs b)"
  by (induction xs arbitrary: b) (auto intro!: adds_return adds_bind)

lemma adds_loop [adds_intros]:
  assumes "adds P m"
  shows "adds P (co_loop m)"
  unfolding adds_def
proof
  fix s
  show "post (co_loop m) s (\<lambda>r s'. \<exists>h. sent s' = sent s @ h \<and> list_all P h)"
  proof (rule post_loop [where I = "\<lambda>t. \<exists>h. sent t = sent s @ h \<and> list_all P h"])
    fix t :: controller
    assume "\<exists>h. sent t = sent s @ h \<and> list_all P h"
    then obtain h where h: "sent t = sent s @ h" "list_all P h" by blast
    show "post m t (\<lambda>r s'. case r of Inl e \<Rightarrow> \<exists>h. sent s' = sent s @ h \<and> list_all P h
        | Inr None \<Rightarrow> \<exists>h. sent s' = sent s @ h \<and> list_all P h | Inr (Some x) \<Rightarrow> \<exists>h. sent s' = sent s @ h \<and> list_all P h)"
      by (rule post_mono [OF adds_trans [OF h assms]]) (auto split: sum.split option.split)
  qed simp
qed

lemma adds_mono:
  assumes "adds P m" and "\<And>r. P r \<Longrightarrow> Q r"
  shows "adds Q m"
proof -
  have "list_all P h \<Longrightarrow> list_all Q h" for h using assms(2) by (auto simp: list_all_iff)
  then show ?thesis using assms(1) unfolding adds_def by (blast intro: post_mono)
qed

lemma adds_read_cluster [adds_intros]:
  "P (Read_cluster (ref_namespace r) (ref_name r)) \<Longrightarrow> adds P (read_cluster env r)"
  unfolding read_cluster_def by (rule adds_ask)

lemma adds_time_now [adds_intros]: "adds P (time_now env)"
  by (simp add: adds_def post_simps)

end
