(* ===== verification/Kubernetes_Client.thy ===== *)
theory Kubernetes_Client
  imports Kubernetes_Data
begin

text \<open>
  The client of a Kubernetes cluster, \<open>krake/krake/controller/kubernetes/client.py\<close>: the
  identification of a resource, the choice of the class and the method of the Kubernetes library,
  the cached custom resource definitions, and applying and deleting a resource. Which classes and
  methods the library has is part of the environment.
\<close>

section \<open>Identification of a resource\<close>

definition capitalize :: "string \<Rightarrow> string" where
  "capitalize s = (case s of [] \<Rightarrow> [] | c # cs \<Rightarrow> (if is_lower c then char_of (of_char c - (32::nat)) else c) # map to_lower cs)"

text \<open>\<open>s.split(".")\<close>\<close>

fun split_dots :: "string \<Rightarrow> string list" where
  "split_dots [] = [[]]"
| "split_dots (c # s) =
     (if c = CHR ''.'' then [] # split_dots s
      else (case split_dots s of [] \<Rightarrow> [[c]] | w # ws \<Rightarrow> (c # w) # ws))"

text \<open>\<open>s.partition("/")\<close>\<close>

definition partition_slash :: "string \<Rightarrow> string \<times> string" where
  "partition_slash s = (takeWhile (\<lambda>c. c \<noteq> CHR ''/'') s, tl (dropWhile (\<lambda>c. c \<noteq> CHR ''/'') s))"

definition starts_with :: "string \<Rightarrow> string \<Rightarrow> bool" where
  "starts_with p s \<longleftrightarrow> take (length p) s = p"

fun contains :: "string \<Rightarrow> string \<Rightarrow> bool" where
  "contains p [] \<longleftrightarrow> p = []"
| "contains p (c # s) \<longleftrightarrow> starts_with p (c # s) \<or> contains p s"

text \<open>\<open>"".join(s.rsplit(p, 1))\<close>: the last occurrence is removed.\<close>

fun remove_last :: "string \<Rightarrow> string \<Rightarrow> string" where
  "remove_last p [] = []"
| "remove_last p (c # s) =
     (if contains p s then c # remove_last p s
      else if starts_with p (c # s) then drop (length p) (c # s)
      else c # s)"

definition parse_api_version :: "string \<Rightarrow> string \<times> string" where
  "parse_api_version api_version =
     (case partition_slash api_version of (g, v) \<Rightarrow>
        if v = [] then (remove_last ''.k8s.io'' ''core'', g) else (remove_last ''.k8s.io'' g, v))"

definition default_namespace :: "yaml \<Rightarrow> (exn, yaml) res" where
  "default_namespace config =
     res_bind (get_key ''contexts'' config) (\<lambda>cs.
     res_bind (get_index 0 cs) (\<lambda>c.
     res_bind (get_key ''context'' c) (\<lambda>x.
     case x of
       Obj d \<Rightarrow> Inr (case dict_get d ''namespace'' of None \<Rightarrow> Text ''default'' | Some n \<Rightarrow> n)
     | _ \<Rightarrow> Inl AttributeError)))"

text \<open>A lookup whose \<open>KeyError\<close> is reported as an invalid manifest.\<close>

definition required :: "string \<Rightarrow> yaml \<Rightarrow> (exn, yaml) res" where
  "required k v = (case get_key k v of Inl e \<Rightarrow> Inl (if e = KeyError then InvalidManifestError else e) | Inr x \<Rightarrow> Inr x)"

fun as_text :: "exn \<Rightarrow> yaml \<Rightarrow> (exn, string) res" where
  "as_text e (Text s) = Inr s"
| "as_text e _ = Inl e"

record immutables =
  res_group :: string
  res_version :: string
  res_kind :: yaml
  res_name :: yaml
  res_namespace :: yaml

definition get_immutables :: "yaml \<Rightarrow> yaml \<Rightarrow> (exn, immutables) res" where
  "get_immutables config resource =
     res_bind (get_key ''metadata'' resource) (\<lambda>m.
     res_bind (dict_items m) (\<lambda>d.
     res_bind (default_namespace config) (\<lambda>default.
     res_bind (required ''apiVersion'' resource) (\<lambda>v.
     res_bind (as_text AttributeError v) (\<lambda>api_version.
     res_bind (required ''kind'' resource) (\<lambda>kind.
     res_bind (required ''name'' m) (\<lambda>name.
     Inr \<lparr>res_group = fst (parse_api_version api_version), res_version = snd (parse_api_version api_version),
          res_kind = kind, res_name = name,
          res_namespace = (case dict_get d ''namespace'' of None \<Rightarrow> default | Some n \<Rightarrow> n)\<rparr>)))))))"

section \<open>Adapters\<close>

datatype adapter = Api_adapter string | Api_adapter_custom custom_resource_definition

definition verb_prefix :: "kube_verb \<Rightarrow> string" where
  "verb_prefix v = (case v of Read \<Rightarrow> ''read'' | Create \<Rightarrow> ''create'' | Patch \<Rightarrow> ''patch'' | Delete \<Rightarrow> ''delete'')"

definition custom_prefix :: "kube_verb \<Rightarrow> string" where
  "custom_prefix v = (case v of Read \<Rightarrow> ''get'' | Create \<Rightarrow> ''create'' | Patch \<Rightarrow> ''patch'' | Delete \<Rightarrow> ''delete'')"

definition call_arguments :: "yaml \<Rightarrow> kube_verb \<Rightarrow> yaml \<Rightarrow> yaml \<Rightarrow> kube_call" where
  "call_arguments config verb target resource =
     \<lparr>call_config = config, call_verb = verb, call_class = [], call_method = [], call_custom = None,
      call_name = (if verb = Create then None else Some target), call_namespace = None,
      call_body = (if verb = Create \<or> verb = Patch then Some resource else None)\<rparr>"

text \<open>
  The methods \<open>read\<close>, \<open>create\<close>, \<open>patch\<close> and \<open>delete\<close> of \<open>ApiAdapter\<close> and of \<open>ApiAdapterCustom\<close>, which
  differ in the prefix of the method that is called and in its arguments. The body is the
  resource itself.
\<close>

definition adapter_call ::
  "environment \<Rightarrow> yaml \<Rightarrow> adapter \<Rightarrow> kube_verb \<Rightarrow> immutables \<Rightarrow> yaml \<Rightarrow> (controller, response) co" where
  "adapter_call env config a verb i resource =
     (let call = call_arguments config verb (res_name i) resource in
      case a of
        Api_adapter c \<Rightarrow>
          co_bind (co_lift (as_text TypeError (res_kind i))) (\<lambda>kind.
          let namespaced = verb_prefix verb @ ''_namespaced_'' @ camel_to_snake_case kind;
              cluster_wide = verb_prefix verb @ ''_'' @ camel_to_snake_case kind
          in if library_method env c namespaced
             then ask (kube_answer env)
               (Kube (call\<lparr>call_class := c, call_method := namespaced, call_namespace := Some (res_namespace i)\<rparr>))
             else if library_method env c cluster_wide
             then ask (kube_answer env) (Kube (call\<lparr>call_class := c, call_method := cluster_wide\<rparr>))
             else co_raise UnsupportedResourceError)
      | Api_adapter_custom d \<Rightarrow>
          (case crd_versions d of
             [] \<Rightarrow> co_raise IndexError
           | version # _ \<Rightarrow>
               let call' = call\<lparr>call_class := ''CustomObjectsApi'',
                     call_custom := Some (crd_group d, version, crd_plural d)\<rparr>
               in ask (kube_answer env)
                 (Kube (if crd_scope d = ''Namespaced''
                    then call'\<lparr>call_method := custom_prefix verb @ ''_namespaced_custom_object'',
                               call_namespace := Some (res_namespace i)\<rparr>
                    else call'\<lparr>call_method := custom_prefix verb @ ''_cluster_custom_object''\<rparr>))))"

section \<open>Custom resources\<close>

text \<open>
  The definitions are requested once for a client, and the outcome is cached, be it an exception.
  An \<open>ApiException\<close> is reported as an invalid definition; a definition has a version.
\<close>

definition read_definition ::
  "environment \<Rightarrow> yaml \<Rightarrow> string \<Rightarrow> (string, custom_resource_definition) dict \<Rightarrow>
     (controller, (string, custom_resource_definition) dict) co" where
  "read_definition env config custom_resource apis =
     co_bind
       (co_catch (ask (definition_answer env) (Read_custom_resource_definition config custom_resource))
         (\<lambda>e. case e of ApiException _ \<Rightarrow> co_raise InvalidCustomResourceDefinitionError | _ \<Rightarrow> co_raise e)) (\<lambda>d.
     if crd_versions d = [] then co_raise IndexError
     else co_return (dict_set (crd_kind d) d apis))"

definition remember ::
  "(controller, (string, custom_resource_definition) dict) co \<Rightarrow>
     (controller, (string, custom_resource_definition) dict) co" where
  "remember m s = map_option (\<lambda>(r, s'). (r, s'\<lparr>crd_cache := Some r\<rparr>)) (m s)"

definition custom_resource_apis ::
  "environment \<Rightarrow> kube_cluster \<Rightarrow> (controller, (string, custom_resource_definition) dict) co" where
  "custom_resource_apis env cluster =
     co_bind co_get (\<lambda>s.
     case crd_cache s of
       Some r \<Rightarrow> co_lift r
     | None \<Rightarrow>
         remember (co_fold (read_definition env (kubeconfig cluster)) (kube_custom_resources cluster) []))"

definition class_name :: "string \<Rightarrow> string \<Rightarrow> string" where
  "class_name g v = concat (map capitalize (split_dots g)) @ capitalize v @ ''Api''"

definition get_resource_api ::
  "environment \<Rightarrow> kube_cluster \<Rightarrow> immutables \<Rightarrow> (controller, adapter) co" where
  "get_resource_api env cluster i =
     (let c = class_name (res_group i) (res_version i) in
      if library_class env c then co_return (Api_adapter c)
      else
        co_catch
          (co_bind (custom_resource_apis env cluster) (\<lambda>apis.
             case res_kind i of
               Text k \<Rightarrow>
                 (case dict_get apis k of None \<Rightarrow> co_raise KeyError | Some d \<Rightarrow> co_return (Api_adapter_custom d))
             | Arr _ \<Rightarrow> co_raise TypeError
             | Obj _ \<Rightarrow> co_raise TypeError
             | _ \<Rightarrow> co_raise KeyError))
          (\<lambda>e. co_raise (if e = KeyError then UnsupportedResourceError else e)))"

section \<open>Applying and deleting\<close>

text \<open>\<open>async with KubernetesClient.for_cluster(cluster)\<close>: a client without cached definitions.\<close>

definition for_cluster :: "(controller, unit) co" where
  "for_cluster = co_modify (\<lambda>s. s\<lparr>crd_cache := None\<rparr>)"

text \<open>The resource is read until the cluster answers in time; a missing one is no response.\<close>

definition read_once ::
  "environment \<Rightarrow> yaml \<Rightarrow> adapter \<Rightarrow> immutables \<Rightarrow> yaml \<Rightarrow> (controller, response option option) co" where
  "read_once env config a i resource =
     co_catch (co_bind (adapter_call env config a Read i resource) (\<lambda>resp. co_return (Some (Some resp))))
       (\<lambda>e. case e of
          ApiException status \<Rightarrow> if status = 404 then co_return (Some None) else co_raise e
        | TimeoutError \<Rightarrow> co_return None
        | _ \<Rightarrow> co_raise e)"

definition apply_resource :: "environment \<Rightarrow> kube_cluster \<Rightarrow> yaml \<Rightarrow> (controller, response) co" where
  "apply_resource env cluster resource =
     co_bind (co_lift (get_immutables (kubeconfig cluster) resource)) (\<lambda>i.
     co_bind (get_resource_api env cluster i) (\<lambda>a.
     co_bind (co_loop (read_once env (kubeconfig cluster) a i resource)) (\<lambda>resp.
     adapter_call env (kubeconfig cluster) a (if resp = None then Create else Patch) i resource)))"

definition delete_resource :: "environment \<Rightarrow> kube_cluster \<Rightarrow> yaml \<Rightarrow> (controller, response option) co" where
  "delete_resource env cluster resource =
     co_bind (co_lift (get_immutables (kubeconfig cluster) resource)) (\<lambda>i.
     co_bind (get_resource_api env cluster i) (\<lambda>a.
     co_catch (co_bind (adapter_call env (kubeconfig cluster) a Delete i resource) (\<lambda>resp. co_return (Some resp)))
       (\<lambda>e. if e = ApiException 404 then co_return None else co_raise e)))"

text \<open>
  The shutdown of an application is requested at the address of its service. When the request
  fails with a response, its status is asked for by a name that the response does not have.
\<close>

definition shutdown_app :: "environment \<Rightarrow> k8s_application \<Rightarrow> (controller, unit) co" where
  "shutdown_app env app =
     (case dict_get (app_services app) (Text ''shutdown'') of
        None \<Rightarrow> co_raise KeyError
      | Some address \<Rightarrow>
          co_catch (ask (outcome env) (Put_shutdown address))
            (\<lambda>e. case e of RequestException (Some status) \<Rightarrow> co_raise AttributeError | _ \<Rightarrow> co_raise e))"

end
