(* ===== verification/Application_Hooks.thy ===== *)
theory Application_Hooks
  imports Kubernetes_Client
begin

text \<open>
  The handlers of \<open>krake/krake/controller/kubernetes/hooks.py\<close> that the hook dispatcher calls
  around the operations of the application controller, in the order of their registration: the
  services of an application, its manifests, and its observer. A hook without effect
  (\<open>pre_shutdown\<close>, and those without handlers) is left out.
\<close>

section \<open>Services\<close>

definition is_service :: "yaml \<Rightarrow> (exn, bool) res" where
  "is_service resource = res_bind (get_key ''kind'' resource) (\<lambda>k. Inr (py_eq k (Text ''Service'')))"

definition service_name :: "yaml \<Rightarrow> (exn, yaml) res" where
  "service_name resource =
     res_bind (get_key ''metadata'' resource) (\<lambda>m. get_key ''name'' m)"

text \<open>A list or a dictionary cannot be a key.\<close>

definition set_service :: "yaml \<Rightarrow> yaml \<times> yaml \<Rightarrow> k8s_application \<Rightarrow> (exn, k8s_application) res" where
  "set_service n address app =
     (if is_obj n \<or> is_arr n then Inl TypeError
      else Inr (app\<lparr>app_services := dict_set n address (app_services app)\<rparr>))"

definition del_service :: "yaml \<Rightarrow> k8s_application \<Rightarrow> (exn, k8s_application) res" where
  "del_service n app =
     (if is_obj n \<or> is_arr n then Inl TypeError
      else Inr (app\<lparr>app_services := dict_del n (app_services app)\<rparr>))"

abbreviation pending :: yaml where "pending \<equiv> Text ''<pending>''"

text \<open>The address of a load balancer, either part of it pending.\<close>

definition load_balancer_ip :: "response \<Rightarrow> (exn, yaml) res" where
  "load_balancer_ip resp =
     res_bind (response_attr ''status'' resp) (\<lambda>status.
     res_bind (get_attr ''load_balancer'' status) (\<lambda>lb.
     if \<not> truth lb then Inr pending
     else
       res_bind (get_attr ''ingress'' lb) (\<lambda>ingress.
       if \<not> truth ingress then Inr pending
       else res_bind (get_index 0 ingress) (get_attr ''ip''))))"

definition first_port :: "string \<Rightarrow> yaml \<Rightarrow> yaml \<Rightarrow> (exn, yaml) res" where
  "first_port attr fallback spec =
     res_bind (get_attr ''ports'' spec) (\<lambda>ports.
     if \<not> truth ports then Inr fallback
     else res_bind (get_index 0 ports) (get_attr attr))"

definition register_service ::
  "environment \<Rightarrow> kube_cluster \<Rightarrow> yaml \<Rightarrow> response \<Rightarrow> k8s_application \<Rightarrow> (exn, k8s_application) res" where
  "register_service env cluster resource resp app =
     res_bind (is_service resource) (\<lambda>service.
     if \<not> service then Inr app
     else
       res_bind (service_name resource) (\<lambda>n.
       res_bind (response_attr ''spec'' resp) (\<lambda>spec.
       res_bind (if truth spec then res_bind (get_attr ''type'' spec) (\<lambda>t. Inr (py_eq t (Text ''LoadBalancer'')))
           else Inr False) (\<lambda>balanced.
       if balanced
       then
         res_bind (load_balancer_ip resp) (\<lambda>ip.
         res_bind (first_port ''port'' pending spec) (\<lambda>port. set_service n (ip, port) app))
       else
         res_bind (if truth spec then first_port ''node_port'' Null spec else Inr Null) (\<lambda>port.
         if port = Null then del_service n app
         else res_bind (cluster_host env (kubeconfig cluster)) (\<lambda>host. set_service n (host, port) app))))))"

definition unregister_service :: "yaml \<Rightarrow> k8s_application \<Rightarrow> (exn, k8s_application) res" where
  "unregister_service resource app =
     res_bind (is_service resource) (\<lambda>service.
     if \<not> service then Inr app else res_bind (service_name resource) (\<lambda>n. del_service n app))"

section \<open>Handlers of the dispatcher\<close>

definition on_manifests ::
  "(manifests \<Rightarrow> (exn, manifests) res) \<Rightarrow> k8s_application \<Rightarrow> (exn, k8s_application) res" where
  "on_manifests f app = res_bind (f (app_manifests app)) (\<lambda>m. Inr (app\<lparr>app_manifests := m\<rparr>))"

text \<open>\<open>ResourcePostCreate\<close> and \<open>ResourcePostUpdate\<close> have the same handlers.\<close>

definition resource_post_apply ::
  "environment \<Rightarrow> kube_cluster \<Rightarrow> yaml \<Rightarrow> response \<Rightarrow> k8s_application \<Rightarrow> (exn, k8s_application) res" where
  "resource_post_apply env cluster resource resp app =
     res_bind (register_service env cluster resource resp app) (\<lambda>app.
     res_bind (on_manifests (update_last_applied_manifest_from_resp (response_dict resp)) app)
       (on_manifests (update_last_observed_manifest_from_resp (response_dict resp))))"

definition resource_post_delete :: "yaml \<Rightarrow> k8s_application \<Rightarrow> (exn, k8s_application) res" where
  "resource_post_delete resource app =
     res_bind (unregister_service resource app)
       (on_manifests (remove_resource_from_last_observed_manifest resource))"

section \<open>Observers\<close>

text \<open>
  An observer that is registered already is replaced; its task is not stopped. The task of an
  observer that is stopped may have ended with an exception, which is raised again.
\<close>

definition register_observer :: "environment \<Rightarrow> bool \<Rightarrow> k8s_application \<Rightarrow> (controller, unit) co" where
  "register_observer env start app =
     (case app_running_on app of
        None \<Rightarrow> co_raise AttributeError
      | Some r \<Rightarrow>
          co_bind (read_cluster env r) (\<lambda>cluster.
          co_then (if start then ask (\<lambda>_. Inr ()) (Start_observer (uid (metadata app))) else co_return ())
            (co_modify (\<lambda>s. s\<lparr>observers := dict_set (uid (metadata app)) (app, start) (observers s)\<rparr>))))"

definition unregister_observer :: "environment \<Rightarrow> k8s_application \<Rightarrow> (controller, unit) co" where
  "unregister_observer env app =
     co_bind co_get (\<lambda>s.
     case dict_get (observers s) (uid (metadata app)) of
       None \<Rightarrow> co_return ()
     | Some (_, started) \<Rightarrow>
         co_then (co_modify (\<lambda>s. s\<lparr>observers := dict_del (uid (metadata app)) (observers s)\<rparr>))
           (if \<not> started then co_raise AttributeError
            else co_catch (ask (outcome env) (Stop_observer (uid (metadata app))))
              (\<lambda>e. if e = TimeoutError then co_return () else co_raise e)))"

section \<open>Translation\<close>

text \<open>
  The translation of a TOSCA template or a CSAR archive itself is part of the environment.
\<close>

definition translate_tosca :: "environment \<Rightarrow> k8s_application \<Rightarrow> (controller, k8s_application) co" where
  "translate_tosca env app =
     (if spec_manifest (app_manifests app) \<noteq> [] then co_return app
      else if \<not> truth (app_tosca app) \<and> app_csar app \<in> {None, Some []} then co_raise ToscaParserException
      else
        let app = app\<lparr>app_state := App_TRANSLATING\<rparr> in
        co_then (update_status env app)
          (co_bind (co_lift (translation env app)) (\<lambda>manifest.
           let app = app\<lparr>app_manifests := (app_manifests app)\<lparr>spec_manifest := manifest\<rparr>\<rparr> in
           co_then (update_app env app) (co_return app))))"

section \<open>The requests of the handlers\<close>

lemma adds_register_observer [adds_intros]:
  "(\<And>r. app_running_on app = Some r \<Longrightarrow> P (Read_cluster (ref_namespace r) (ref_name r))) \<Longrightarrow>
     P (Start_observer (uid (metadata app))) \<Longrightarrow> adds P (register_observer env start app)"
  unfolding register_observer_def by (auto split: option.split intro!: adds_intros)

lemma adds_unregister_observer [adds_intros]:
  "P (Stop_observer (uid (metadata app))) \<Longrightarrow> adds P (unregister_observer env app)"
  unfolding unregister_observer_def by (auto split: option.split intro!: adds_intros)

end
