(* ===== verification/Observer_Schema.thy ===== *)
theory Observer_Schema
  imports Manifest_Updates
begin

text \<open>
  Observer schemas: the validation of the schema that a user writes
  (\<open>krake/krake/data/kubernetes.py\<close>) and the default schema of a resource
  (\<open>krake/krake/controller/kubernetes/hooks.py\<close>).
\<close>

section \<open>Validation of manifests\<close>

text \<open>The fields that a resource lacks, in the order in which they are reported.\<close>

definition missing_fields :: "yaml \<Rightarrow> (exn, string list) res" where
  "missing_fields resource =
     (case resource of
        Obj d \<Rightarrow>
          res_bind (case dict_get d ''metadata'' of None \<Rightarrow> Inr Null | Some m \<Rightarrow> get_or_none ''name'' m) (\<lambda>n.
          Inr ((if truth n then [] else [''metadata.name'']) @
            filter (\<lambda>a. a \<notin> dict_keys d) [''apiVersion'', ''kind'', ''metadata'']))
      | _ \<Rightarrow> Inl AttributeError)"

definition validate_manifest :: "yaml list \<Rightarrow> (exn, bool) res" where
  "validate_manifest manifest =
     res_bind (res_map missing_fields manifest) (\<lambda>fs.
       if concat fs \<noteq> [] then Inl ValidationError else Inr True)"

section \<open>Validation of observer schemas\<close>

definition require :: "bool \<Rightarrow> exn \<Rightarrow> (exn, unit) res" where
  "require b e = (if b then Inr () else Inl e)"

abbreviation min_key :: string where "min_key \<equiv> ''observer_schema_list_min_length''"
abbreviation max_key :: string where "max_key \<equiv> ''observer_schema_list_max_length''"
abbreviation current_key :: string where "current_key \<equiv> ''observer_schema_list_current_length''"

text \<open>The checks of the control dictionary of a list with \<open>n\<close> observed elements.\<close>

definition validate_control :: "yaml \<Rightarrow> nat \<Rightarrow> (exn, unit) res" where
  "validate_control control n =
     (case control of
        Obj d \<Rightarrow>
          (case (dict_get d min_key, dict_get d max_key) of
             (Some lo, Some hi) \<Rightarrow>
               (case (as_int lo, as_int hi) of
                  (Some a, Some b) \<Rightarrow>
                    if a < 0 \<or> b < 0 then Inl ValueError
                    else if b \<noteq> 0 \<and> (b < a \<or> b < int n) then Inl ValueError
                    else Inr ()
                | _ \<Rightarrow> Inl ValueError)
           | _ \<Rightarrow> Inl ValueError)
      | _ \<Rightarrow> Inl ValueError)"

text \<open>\<open>_validate_observer_schema_dict\<close> below the first level, and \<open>_validate_observer_schema_list\<close>.\<close>

fun validate_partial :: "bool \<Rightarrow> yaml \<Rightarrow> (exn, unit) res" where
  "validate_partial is_metadata (Obj d) =
     res_fold (\<lambda>(key, v) _.
       if is_metadata \<and> key = ''name'' then Inr ()
       else if is_obj v \<or> is_arr v then validate_partial False v
       else require (v = Null) ValueError) d ()"
| "validate_partial is_metadata (Arr vs) =
     (if vs = [] then Inl IndexError
      else
        res_bind (validate_control (last vs) (length vs - 1)) (\<lambda>_.
        res_fold (\<lambda>v _.
          if is_obj v \<or> is_arr v then validate_partial False v
          else require (v = Null) ValueError) (butlast vs) ()))"
| "validate_partial is_metadata v = Inl AttributeError"

definition identity_keys :: "string list" where
  "identity_keys = [''apiVersion'', ''kind'', ''metadata'']"

text \<open>At the first level the identifying keys are required, and excepted from the other checks.\<close>

definition validate_first_level :: "yaml \<Rightarrow> (exn, unit) res" where
  "validate_first_level schema =
     res_bind (get_or_none ''apiVersion'' schema) (\<lambda>a.
     res_bind (require (a \<noteq> Null) ValueError) (\<lambda>_.
     res_bind (get_or_none ''kind'' schema) (\<lambda>k.
     res_bind (require (k \<noteq> Null) ValueError) (\<lambda>_.
     res_bind (get_or_none ''metadata'' schema) (\<lambda>m.
     res_bind (require (m \<noteq> Null) ValueError) (\<lambda>_.
     res_bind (require (is_obj m) TypeError) (\<lambda>_.
     res_bind (get_or_none ''name'' m) (\<lambda>n.
     res_bind (require (n \<noteq> Null) ValueError) (\<lambda>_.
     res_bind (validate_partial True m) (\<lambda>_.
     res_bind (dict_items schema) (\<lambda>d.
     validate_partial False (Obj (filter (\<lambda>(key, v). key \<notin> set identity_keys) d)))))))))))))"

datatype schema_error = Observer_schema_error | Other_error exn

definition validate_observer_schema :: "yaml list \<Rightarrow> yaml list \<Rightarrow> (schema_error, unit) res" where
  "validate_observer_schema schemas manifest =
     res_fold (\<lambda>schema _.
       case validate_first_level schema of
         Inl e \<Rightarrow> Inl (if e = ValueError \<or> e = TypeError then Observer_schema_error else Other_error e)
       | Inr _ \<Rightarrow>
           (case resource_idx manifest schema of
              Inl e \<Rightarrow> Inl (if e = IndexError then Observer_schema_error else Other_error e)
            | Inr i \<Rightarrow> Inr ())) schemas ()"

section \<open>The default schema\<close>

text \<open>
  \<open>generate_default_observer_schema_dict\<close> below the first level, and
  \<open>generate_default_observer_schema_list\<close>; other values are replaced by \<open>None\<close>.
\<close>

definition list_control :: "nat \<Rightarrow> yaml" where
  "list_control n = Obj [(min_key, Integer (int n)), (max_key, Integer (int n))]"

fun default_schema :: "yaml \<Rightarrow> yaml" where
  "default_schema (Obj d) = Obj (map (\<lambda>(key, v). (key, default_schema v)) d)"
| "default_schema (Arr vs) = Arr (map default_schema vs @ [list_control (length vs)])"
| "default_schema v = Null"

text \<open>
  At the first level the identifying values are copied, and a service with a load balancer has
  its ingress observed. The test for the load balancer looks into the specification, which may
  be of any type.
\<close>

definition load_balancer_status :: yaml where
  "load_balancer_status = Obj [(''load_balancer'', Obj [(''ingress'', Null)])]"

definition is_load_balancer :: "yaml \<Rightarrow> (exn, bool) res" where
  "is_load_balancer resource =
     res_and (contains_key ''spec'' resource)
       (res_bind (get_key ''spec'' resource) (\<lambda>spec.
          res_and (contains_key ''type'' spec)
            (res_bind (get_key ''type'' spec) (\<lambda>t. Inr (py_eq t (Text ''LoadBalancer''))))))"

definition default_schema_first_level :: "yaml \<Rightarrow> (exn, yaml) res" where
  "default_schema_first_level resource =
     res_bind (dict_items resource) (\<lambda>_.
     let schema = default_schema resource in
     res_bind (get_key ''apiVersion'' resource) (\<lambda>a.
     res_bind (set_key ''apiVersion'' a schema) (\<lambda>schema.
     res_bind (get_key ''kind'' resource) (\<lambda>k.
     res_bind (set_key ''kind'' k schema) (\<lambda>schema.
     res_bind (res_bind (get_key ''metadata'' resource) (get_key ''name'')) (\<lambda>n.
     res_bind (get_key ''metadata'' schema) (\<lambda>m.
     res_bind (set_key ''name'' n m) (\<lambda>m.
     res_bind (set_key ''metadata'' m schema) (\<lambda>schema.
     res_bind (is_load_balancer resource) (\<lambda>lb.
     if lb then set_key ''status'' load_balancer_status schema else Inr schema))))))))))"

definition generate_default_observer_schema :: "manifests \<Rightarrow> (exn, manifests) res" where
  "generate_default_observer_schema app =
     res_bind (res_fold (\<lambda>resource schemas.
         case resource_idx schemas resource of
           Inr i \<Rightarrow> Inr schemas
         | Inl e \<Rightarrow>
             if e = IndexError
             then res_bind (default_schema_first_level resource) (\<lambda>schema. Inr (schemas @ [schema]))
             else Inl e) (spec_manifest app) (spec_observer_schema app)) (\<lambda>schemas.
     Inr (app\<lparr>mangled_observer_schema := schemas\<rparr>))"

section \<open>Default schemas are valid\<close>

lemma res_fold_check: "res_fold (\<lambda>x _. f x) xs () = Inr () \<longleftrightarrow> (\<forall>x \<in> set xs. f x = Inr ())"
proof (induction xs)
  case (Cons x xs)
  then show ?case by (cases "f x") auto
qed simp

definition valid_entry :: "yaml \<Rightarrow> bool" where
  "valid_entry v \<longleftrightarrow> (if is_obj v \<or> is_arr v then validate_partial False v = Inr () else v = Null)"

lemma validate_partial_Obj:
  "validate_partial b (Obj d) = Inr () \<longleftrightarrow>
     list_all (\<lambda>(key, v). b \<and> key = ''name'' \<or> valid_entry v) d"
  by (auto simp: res_fold_check valid_entry_def require_def list_all_iff split_def split: if_splits)

lemma is_obj_default [simp]: "is_obj (default_schema v) = is_obj v"
  and is_arr_default [simp]: "is_arr (default_schema v) = is_arr v"
  by (cases v; simp)+

lemma validate_default: "is_obj v \<or> is_arr v \<Longrightarrow> validate_partial b (default_schema v) = Inr ()"
proof (induction "size v" arbitrary: v b rule: less_induct)
  case less
  show ?case
  proof (cases v)
    case (Obj d)
    have "valid_entry (default_schema x)" if "(key, x) \<in> set d" for key x
    proof (cases "is_obj x \<or> is_arr x")
      case True
      have "size x < size v" using size_yaml_dict [OF that] Obj by simp
      from less.hyps [OF this True] True show ?thesis by (simp add: valid_entry_def)
    qed (cases x; simp add: valid_entry_def)
    then show ?thesis by (auto simp: Obj validate_partial_Obj list_all_iff simp del: validate_partial.simps)
  next
    case (Arr vs)
    have "valid_entry (default_schema x)" if "x \<in> set vs" for x
    proof (cases "is_obj x \<or> is_arr x")
      case True
      have "size x < size v" using size_yaml_list [OF that] Arr by simp
      from less.hyps [OF this True] True show ?thesis by (simp add: valid_entry_def)
    qed (cases x; simp add: valid_entry_def)
    moreover have "validate_control (list_control (length vs)) (length vs) = Inr ()"
      by (simp add: validate_control_def list_control_def)
    ultimately show ?thesis
      by (auto simp: Arr res_fold_check valid_entry_def require_def butlast_append)
  qed (use less.prems in auto)
qed

lemma valid_entry_default: "valid_entry (default_schema v)"
  using validate_default [of v False] by (cases "is_obj v \<or> is_arr v") (auto simp: valid_entry_def, cases v, auto)

lemma default_schema_dict: "default_schema (Obj d) = Obj (map (\<lambda>(key, v). (key, default_schema v)) d)"
  by simp

lemma default_first_level_cases:
  assumes "default_schema_first_level (Obj d) = Inr schema"
  obtains a k n m where "dict_get d ''apiVersion'' = Some a" "dict_get d ''kind'' = Some k"
    "dict_get d ''metadata'' = Some (Obj m)" "dict_get m ''name'' = Some n"
    "schema = Obj (dict_set ''metadata'' (Obj (dict_set ''name'' n (map (\<lambda>(key, v). (key, default_schema v)) m)))
        (dict_set ''kind'' k (dict_set ''apiVersion'' a (map (\<lambda>(key, v). (key, default_schema v)) d)))) \<or>
     schema = Obj (dict_set ''status'' load_balancer_status
       (dict_set ''metadata'' (Obj (dict_set ''name'' n (map (\<lambda>(key, v). (key, default_schema v)) m)))
        (dict_set ''kind'' k (dict_set ''apiVersion'' a (map (\<lambda>(key, v). (key, default_schema v)) d)))))"
proof -
  from assms obtain a k mv n where a: "dict_get d ''apiVersion'' = Some a" and k: "dict_get d ''kind'' = Some k"
    and mv: "dict_get d ''metadata'' = Some mv" and n: "get_key ''name'' mv = Inr n"
    by (auto simp: default_schema_first_level_def Let_def res_simps split: option.splits)
  from n obtain m where m: "mv = Obj m" "dict_get m ''name'' = Some n"
    by (cases mv) (auto split: option.splits)
  from assms a k mv m show thesis
    by (intro that [OF a k _ m(2)])
      (auto simp: default_schema_first_level_def Let_def res_simps dict_get_map_snd split: if_splits)
qed

lemma load_balancer_status_valid: "valid_entry load_balancer_status"
  by (simp add: valid_entry_def load_balancer_status_def require_def)

section \<open>Properties\<close>

text \<open>
  C38. The default observer schema that is generated for a resource with an API version, a kind
  and a name passes the validation of observer schemas, whatever else the resource contains.
\<close>

theorem default_schema_accepted:
  assumes "default_schema_first_level (Obj d) = Inr schema"
    and "dict_get d ''apiVersion'' \<noteq> Some Null" and "dict_get d ''kind'' \<noteq> Some Null"
    and "get_key ''metadata'' (Obj d) = Inr m" and "get_key ''name'' m \<noteq> Inr Null"
  shows "validate_first_level schema = Inr ()"
proof -
  let ?def = "map (\<lambda>(key, v). (key, default_schema v))"
  obtain a k n md where v: "dict_get d ''apiVersion'' = Some a" "dict_get d ''kind'' = Some k"
    "dict_get d ''metadata'' = Some (Obj md)" "dict_get md ''name'' = Some n" and
    schema: "schema = Obj (dict_set ''metadata'' (Obj (dict_set ''name'' n (?def md)))
        (dict_set ''kind'' k (dict_set ''apiVersion'' a (?def d)))) \<or>
     schema = Obj (dict_set ''status'' load_balancer_status
       (dict_set ''metadata'' (Obj (dict_set ''name'' n (?def md)))
        (dict_set ''kind'' k (dict_set ''apiVersion'' a (?def d)))))"
    by (rule default_first_level_cases [OF assms(1)])
  obtain e where e: "schema = Obj e" using schema by auto
  let ?ok = "\<lambda>(key, v). key \<in> set identity_keys \<or> valid_entry v"
  have "list_all ?ok (?def d)" by (auto simp: list_all_iff valid_entry_default)
  then have ids: "list_all ?ok (dict_set ''metadata'' (Obj (dict_set ''name'' n (?def md)))
        (dict_set ''kind'' k (dict_set ''apiVersion'' a (?def d))))"
    by (intro list_all_dict_set) (simp_all add: identity_keys_def)
  then have "list_all ?ok (dict_set ''status'' load_balancer_status
       (dict_set ''metadata'' (Obj (dict_set ''name'' n (?def md)))
        (dict_set ''kind'' k (dict_set ''apiVersion'' a (?def d)))))"
    by (rule list_all_dict_set) (simp add: load_balancer_status_valid)
  with ids schema e have entries: "list_all ?ok e" by blast
  have meta: "list_all (\<lambda>(key, v). key = ''name'' \<or> valid_entry v) (dict_set ''name'' n (?def md))"
    by (rule list_all_dict_set) (auto simp: list_all_iff valid_entry_default)
  have gets: "dict_get e ''apiVersion'' = Some a" "dict_get e ''kind'' = Some k"
    "dict_get e ''metadata'' = Some (Obj (dict_set ''name'' n (?def md)))"
    using schema e by auto
  have "validate_partial False (Obj (filter (\<lambda>(key, v). key \<notin> set identity_keys) e)) = Inr ()"
    using entries by (auto simp: validate_partial_Obj list_all_iff simp del: validate_partial.simps)
  moreover have "validate_partial True (Obj (dict_set ''name'' n (?def md))) = Inr ()"
    using meta by (simp add: validate_partial_Obj del: validate_partial.simps)
  moreover have "a \<noteq> Null" "k \<noteq> Null" "n \<noteq> Null" using v assms(2-5) by auto
  ultimately show ?thesis
    using e gets by (simp add: validate_first_level_def require_def del: validate_partial.simps)
qed

definition example_service :: "(string \<times> yaml) list" where
  "example_service =
     [(''apiVersion'', Text ''v1''), (''kind'', Text ''Service''),
      (''metadata'', Obj [(''name'', Text ''s''), (''labels'', Obj [(''a'', Text ''b'')])]),
      (''spec'', Obj [(''type'', Text ''LoadBalancer''), (''ports'', Arr [Obj [(''port'', Integer 80)]])])]"

theorem default_schema_accepted_witness:
  "\<exists>schema. default_schema_first_level (Obj example_service) = Inr schema \<and> validate_first_level schema = Inr ()"
proof -
  obtain schema where s: "default_schema_first_level (Obj example_service) = Inr schema"
    by (cases "default_schema_first_level (Obj example_service)")
      (auto simp: example_service_def default_schema_first_level_def is_load_balancer_def res_and_def dict_keys_def)
  from default_schema_accepted [OF s] have "validate_first_level schema = Inr ()"
    by (simp add: example_service_def)
  with s show ?thesis by blast
qed

text \<open>
  An empty list anywhere in the first level of an observer schema is not reported as an error
  of the schema: the missing control dictionary raises an \<open>IndexError\<close> that the validation does
  not catch.
\<close>

theorem empty_list_not_reported:
  assumes "validate_first_level (Obj d) = Inr ()" and "key \<notin> dict_keys d"
  shows "validate_observer_schema (Obj (d @ [(key, Arr [])]) # schemas) manifest = Inl (Other_error IndexError)"
proof -
  have get: "dict_get (d @ [(key, Arr [])]) k = dict_get d k" if "k \<in> dict_keys d" for k
    using that by (auto simp: map_add_def dict_keys_iff split: option.splits)
  obtain a k m n where id: "dict_get d ''apiVersion'' = Some a" "dict_get d ''kind'' = Some k"
    "dict_get d ''metadata'' = Some m" "a \<noteq> Null" "k \<noteq> Null"
    using assms(1)
    by (auto simp: validate_first_level_def res_simps require_def split: option.splits if_splits)
  then have keys: "''apiVersion'' \<in> dict_keys d" "''kind'' \<in> dict_keys d" "''metadata'' \<in> dict_keys d"
    by (auto simp: dict_keys_iff)
  then have new: "key \<notin> set identity_keys" using assms(2) by (auto simp: identity_keys_def)
  let ?rest = "\<lambda>d. validate_partial False (Obj (filter (\<lambda>(key, v). key \<notin> set identity_keys) d))"
  let ?ids = "\<lambda>schema. res_bind (get_or_none ''metadata'' schema) (\<lambda>m.
     res_bind (require (m \<noteq> Null) ValueError) (\<lambda>_.
     res_bind (require (is_obj m) TypeError) (\<lambda>_.
     res_bind (get_or_none ''name'' m) (\<lambda>n.
     res_bind (require (n \<noteq> Null) ValueError) (\<lambda>_.
     validate_partial True m)))))"
  have split: "validate_first_level (Obj e) = res_bind (?ids (Obj e)) (\<lambda>_. ?rest e)"
    if "dict_get e ''apiVersion'' = Some a" "dict_get e ''kind'' = Some k" for e
    using that id(4,5)
    by (simp add: validate_first_level_def require_def res_bind_assoc del: validate_partial.simps)
  have ids: "?ids (Obj (d @ [(key, Arr [])])) = ?ids (Obj d)" using get [OF keys(3)] by simp
  from assms(1) split [OF id(1,2)] have ok: "?ids (Obj d) = Inr ()" "?rest d = Inr ()"
    by (auto simp: res_bind_Inr_iff simp del: validate_partial.simps get_or_none.simps)
  have "?rest (d @ [(key, Arr [])]) = Inl IndexError"
    using ok(2) new by (simp add: res_fold_append)
  then have "validate_first_level (Obj (d @ [(key, Arr [])])) = Inl IndexError"
    using split [of "d @ [(key, Arr [])]"] id(1,2) get keys(1,2) ids ok(1)
    by (simp del: validate_partial.simps get_or_none.simps filter_append)
  then show ?thesis by (simp add: validate_observer_schema_def)
qed

theorem empty_list_not_reported_witness:
  "validate_observer_schema
     [Obj [(''apiVersion'', Text ''v1''), (''kind'', Text ''Service''), (''metadata'', Obj [(''name'', Text ''s'')]),
        (''spec'', Arr [])]] [] = Inl (Other_error IndexError)"
  using empty_list_not_reported [of
      "[(''apiVersion'', Text ''v1''), (''kind'', Text ''Service''), (''metadata'', Obj [(''name'', Text ''s'')])]"
      "''spec''" "[]" "[]"]
  by (simp add: validate_first_level_def require_def identity_keys_def)

end
