(* ===== verification/Resource_Delta.thy ===== *)
theory Resource_Delta
  imports Observer_Schema
begin

text \<open>
  The comparison of the last applied with the last observed manifest, \<open>ResourceDelta\<close> of
  \<open>krake/krake/controller/kubernetes/application/application.py\<close>.
\<close>

section \<open>Modified resources\<close>

text \<open>
  \<open>_calculate_modified_dict\<close> and \<open>_calculate_modified_list\<close>: raising
  \<open>ModifiedResourceException\<close> is the result \<open>True\<close>, and ends the loop.
\<close>

definition modified_or :: "(exn, bool) res \<Rightarrow> (exn, bool) res \<Rightarrow> (exn, bool) res" where
  "modified_or p q = res_bind p (\<lambda>b. if b then Inr True else q)"

fun res_any :: "('a \<Rightarrow> (exn, bool) res) \<Rightarrow> 'a list \<Rightarrow> (exn, bool) res" where
  "res_any p [] = Inr False"
| "res_any p (x # xs) = modified_or (p x) (res_any p xs)"

lemma res_any_cong [fundef_cong]:
  "xs = ys \<Longrightarrow> (\<And>x. x \<in> set ys \<Longrightarrow> p x = q x) \<Longrightarrow> res_any p xs = res_any q ys"
  by (induction xs arbitrary: ys) (auto simp: modified_or_def)

lemma modified_or_cong [fundef_cong]:
  "p = p' \<Longrightarrow> (p' = Inr False \<Longrightarrow> q = q') \<Longrightarrow> modified_or p q = modified_or p' q'"
  by (cases p') (auto simp: modified_or_def)

text \<open>The check of the length of a list against the control dictionary of the schema.\<close>

definition length_violated :: "yaml \<Rightarrow> yaml \<Rightarrow> (exn, bool) res" where
  "length_violated observed current =
     res_bind (res_bind (get_last current) (get_key current_key)) (\<lambda>n.
     res_bind (res_bind (get_last observed) (get_key min_key)) (\<lambda>lo.
     res_bind (res_bind (get_last observed) (get_key max_key)) (\<lambda>hi.
     case (number n, number lo, number hi) of
       (Some x, Some a, Some b) \<Rightarrow> Inr (x < a \<or> x > b)
     | _ \<Rightarrow> Inl TypeError)))"

fun modified_by :: "yaml \<Rightarrow> yaml \<Rightarrow> yaml \<Rightarrow> (exn, bool) res" where
  "modified_by (Obj observed) desired current =
     res_any (\<lambda>(key, v).
       res_bind (contains_key key current) (\<lambda>c.
       if \<not> c then Inr True
       else
         res_bind (contains_key key desired) (\<lambda>d.
         if \<not> d then Inr True
         else
           res_bind (get_key key desired) (\<lambda>x.
           res_bind (get_key key current) (\<lambda>y.
           if is_obj v \<or> is_arr v then modified_by v x y
           else if key = ''namespace'' \<and> y = Null then Inr False
           else Inr (\<not> py_eq x y)))))) observed"
| "modified_by (Arr observed) desired current =
     modified_or
       (res_any (\<lambda>(i, v).
         res_bind (len current) (\<lambda>n.
         res_bind (len desired) (\<lambda>m.
         if (i \<ge> n) \<noteq> (i \<ge> m) then Inr True
         else if i < n \<and> i < m then
           res_bind (get_index i desired) (\<lambda>x.
           res_bind (get_index i current) (\<lambda>y.
           if is_obj v \<or> is_arr v then modified_by v x y
           else Inr (\<not> py_eq x y)))
         else Inr False))) (List.enumerate 0 (butlast observed)))
       (length_violated (Arr observed) current)"
| "modified_by v desired current = Inl AttributeError"

section \<open>The delta\<close>

text \<open>
  The delta refers to the resources of the last applied manifest themselves, which are updated
  while the delta is applied: new and modified resources are their positions in it.
\<close>

record delta =
  new_resources :: "nat list"
  deleted_resources :: "yaml list"
  modified_resources :: "nat list"

text \<open>The namespace of a resource that was observed, \<open>None\<close> when it has none.\<close>

definition is_namespaced :: "yaml \<Rightarrow> (exn, bool) res" where
  "is_namespaced resource =
     res_bind (get_key ''metadata'' resource) (\<lambda>m.
     res_bind (get_or_none ''namespace'' m) (\<lambda>n. Inr (n \<noteq> Null)))"

text \<open>
  The observed counterpart of a desired resource. An \<open>IndexError\<close> is suppressed, and a
  namespaced counterpart is looked for again by its namespace.
\<close>

definition current_resource :: "yaml list \<Rightarrow> yaml \<Rightarrow> (exn, yaml option) res" where
  "current_resource observed desired =
     (case res_bind (get_kubernetes_resource_idx False observed desired) (\<lambda>i.
           res_bind (is_namespaced (observed ! i)) (\<lambda>b.
           if \<not> b then Inr (observed ! i)
           else res_bind (get_kubernetes_resource_idx True observed desired) (\<lambda>j. Inr (observed ! j)))) of
        Inl e \<Rightarrow> if e = IndexError then Inr None else Inl e
      | Inr r \<Rightarrow> Inr (Some r))"

definition classify :: "manifests \<Rightarrow> nat \<times> yaml \<Rightarrow> delta \<Rightarrow> (exn, delta) res" where
  "classify app p d =
     (case p of (n, desired) \<Rightarrow>
       res_bind (resource_idx (mangled_observer_schema app) desired) (\<lambda>i.
       res_bind (current_resource (last_observed_manifest app) desired) (\<lambda>current.
       case (case current of None \<Rightarrow> Null | Some r \<Rightarrow> r) of r \<Rightarrow>
         if \<not> truth r then Inr (d\<lparr>new_resources := new_resources d @ [n]\<rparr>)
         else
           res_bind (modified_by (mangled_observer_schema app ! i) desired r) (\<lambda>m.
           Inr (if m then d\<lparr>modified_resources := modified_resources d @ [n]\<rparr> else d)))))"

definition find_deleted :: "manifests \<Rightarrow> yaml \<Rightarrow> delta \<Rightarrow> (exn, delta) res" where
  "find_deleted app current d =
     res_bind (is_namespaced current) (\<lambda>b.
     case get_kubernetes_resource_idx b (last_applied_manifest app) current of
       Inr i \<Rightarrow> Inr d
     | Inl e \<Rightarrow>
         if e = IndexError then Inr (d\<lparr>deleted_resources := deleted_resources d @ [current]\<rparr>) else Inl e)"

definition calculate :: "manifests \<Rightarrow> (exn, delta) res" where
  "calculate app =
     res_bind (res_fold (classify app) (List.enumerate 0 (last_applied_manifest app))
       \<lparr>new_resources = [], deleted_resources = [], modified_resources = []\<rparr>)
       (res_fold (find_deleted app) (last_observed_manifest app))"

definition delta_nonempty :: "delta \<Rightarrow> bool" where
  "delta_nonempty d \<longleftrightarrow>
     new_resources d \<noteq> [] \<or> deleted_resources d \<noteq> [] \<or> modified_resources d \<noteq> []"

section \<open>Responses that conform to what was applied\<close>

text \<open>
  A response conforms to a schema and to what was applied, when every observed value that was
  applied has the applied value in the response, and every observed list has at least the
  observed elements and a permitted length.
\<close>

definition length_permitted :: "yaml \<Rightarrow> nat \<Rightarrow> bool" where
  "length_permitted control n \<longleftrightarrow>
     (case (get_key min_key control, get_key max_key control) of
        (Inr lo, Inr hi) \<Rightarrow>
          (case (number lo, number hi) of
             (Some a, Some b) \<Rightarrow> a \<le> real n \<and> real n \<le> b
           | _ \<Rightarrow> False)
      | _ \<Rightarrow> False)"

function (sequential) conforms :: "yaml \<Rightarrow> yaml \<Rightarrow> yaml \<Rightarrow> bool" where
  "conforms (Obj schema) (Obj resp) (Obj applied) \<longleftrightarrow>
     list_all (\<lambda>(key, v).
       case dict_get resp (camel_to_snake_case key) of
         None \<Rightarrow> False
       | Some r \<Rightarrow>
           if is_obj v \<or> is_arr v
           then conforms v r (case dict_get applied key of None \<Rightarrow> empty_part (is_obj v) | Some a \<Rightarrow> a)
           else (case dict_get applied key of
                   None \<Rightarrow> True
                 | Some a \<Rightarrow> py_eq a r \<or> key = ''namespace'' \<and> r = Null)) schema"
| "conforms (Arr schema) (Arr resp) (Arr applied) \<longleftrightarrow>
     schema \<noteq> [] \<and> length (butlast schema) \<le> length resp \<and> length_permitted (last schema) (length resp) \<and>
     list_all (\<lambda>(i, v).
       if is_obj v \<or> is_arr v
       then conforms v (resp ! i) (if i < length applied then applied ! i else empty_part (is_obj v))
       else \<not> is_obj (resp ! i) \<and> \<not> is_arr (resp ! i) \<and>
         (i < length applied \<longrightarrow> py_eq (applied ! i) (resp ! i)))
       (List.enumerate 0 (butlast schema))"
| "conforms schema resp applied \<longleftrightarrow> False"
  by pat_completeness auto

termination
  by (relation "measure (\<lambda>(schema, resp, applied). size schema)") (auto simp: termination_simp)

lemma conforms_kind: "conforms s r a \<Longrightarrow> (is_obj s \<and> is_obj r \<and> is_obj a) \<or> (is_arr s \<and> is_arr r \<and> is_arr a)"
  by (induction s r a rule: conforms.induct) auto

lemma res_any_False: "res_any p xs = Inr False \<longleftrightarrow> (\<forall>x \<in> set xs. p x = Inr False)"
proof (induction xs)
  case (Cons x xs)
  then show ?case by (cases "p x") (auto simp: modified_or_def)
qed simp

text \<open>A loop that updates one key of a dictionary, or one index of a list, in every round.\<close>

lemma res_fold_keys:
  assumes "dict_ok items"
    and "\<And>k v e. (k, v) \<in> set items \<Longrightarrow> dict_get e k = dict_get d k \<Longrightarrow> wf_yaml (Obj e) \<Longrightarrow>
      \<exists>e' x. f (k, v) (Obj e) = Inr (Obj e') \<and> wf_yaml (Obj e') \<and> dict_get e' k = Some x \<and> P k v x \<and>
        (\<forall>j. j \<noteq> k \<longrightarrow> dict_get e' j = dict_get e j)"
    and "\<forall>k \<in> fst ` set items. dict_get e k = dict_get d k" and "wf_yaml (Obj e)"
  shows "\<exists>e'. res_fold f items (Obj e) = Inr (Obj e') \<and> wf_yaml (Obj e') \<and>
    (\<forall>(k, v) \<in> set items. \<exists>x. dict_get e' k = Some x \<and> P k v x) \<and>
    (\<forall>j. j \<notin> fst ` set items \<longrightarrow> dict_get e' j = dict_get e j)"
  using assms
proof (induction items arbitrary: e)
  case (Cons kv items)
  obtain k v where kv: "kv = (k, v)" by (cases kv)
  have "(k, v) \<in> set (kv # items)" "dict_get e k = dict_get d k" using Cons.prems(3) kv by simp_all
  from Cons.prems(2) [OF this Cons.prems(4)] obtain e1 x where e1: "f (k, v) (Obj e) = Inr (Obj e1)" "wf_yaml (Obj e1)"
    "dict_get e1 k = Some x" "P k v x" "\<And>j. j \<noteq> k \<Longrightarrow> dict_get e1 j = dict_get e j" by blast
  have "k \<notin> fst ` set items" using Cons.prems(1) kv by simp
  have same: "\<forall>j \<in> fst ` set items. dict_get e1 j = dict_get d j"
  proof
    fix j assume j: "j \<in> fst ` set items"
    with \<open>k \<notin> fst ` set items\<close> have "j \<noteq> k" by blast
    then have "dict_get e1 j = dict_get e j" by (rule e1(5))
    also have "\<dots> = dict_get d j" by (rule bspec [OF Cons.prems(3)]) (simp add: j)
    finally show "dict_get e1 j = dict_get d j" .
  qed
  have "dict_ok items" using Cons.prems(1) by simp
  then have "\<exists>e'. res_fold f items (Obj e1) = Inr (Obj e') \<and> wf_yaml (Obj e') \<and>
      (\<forall>(k, v) \<in> set items. \<exists>x. dict_get e' k = Some x \<and> P k v x) \<and>
      (\<forall>j. j \<notin> fst ` set items \<longrightarrow> dict_get e' j = dict_get e1 j)"
    by (rule Cons.IH [OF _ _ same e1(2)]) (rule Cons.prems(2), simp)
  then obtain e2 where
    e2: "res_fold f items (Obj e1) = Inr (Obj e2)" "wf_yaml (Obj e2)"
      "\<forall>(k, v) \<in> set items. \<exists>x. dict_get e2 k = Some x \<and> P k v x"
      "\<And>j. j \<notin> fst ` set items \<Longrightarrow> dict_get e2 j = dict_get e1 j" by blast
  have "dict_get e2 k = Some x" using e2(4) e1(3) \<open>k \<notin> fst ` set items\<close> by simp
  moreover have "dict_get e2 j = dict_get e j" if "j \<notin> fst ` set (kv # items)" for j
    using that e1(5) e2(4) kv by simp
  ultimately show ?case using e1(1,4) e2(1-3) kv by simp
qed simp

lemma res_fold_indices:
  assumes "\<And>i v zs. i < length vs \<Longrightarrow> vs ! i = v \<Longrightarrow> length zs = max (length ys) i \<Longrightarrow>
      (i < length ys \<longrightarrow> zs ! i = ys ! i) \<Longrightarrow> wf_yaml (Arr zs) \<Longrightarrow>
      \<exists>zs' x. f (i, v) (Arr zs) = Inr (Arr zs') \<and> wf_yaml (Arr zs') \<and> length zs' = max (length ys) (Suc i) \<and>
        zs' ! i = x \<and> P i v x \<and> (\<forall>j < length zs. j \<noteq> i \<longrightarrow> zs' ! j = zs ! j)"
    and "wf_yaml (Arr ys)"
  shows "n \<le> length vs \<Longrightarrow> \<exists>zs. res_fold f (take n (List.enumerate 0 vs)) (Arr ys) = Inr (Arr zs) \<and>
    wf_yaml (Arr zs) \<and> length zs = max (length ys) n \<and> (\<forall>i < n. P i (vs ! i) (zs ! i)) \<and>
    (\<forall>j. n \<le> j \<longrightarrow> j < length ys \<longrightarrow> zs ! j = ys ! j)"
proof (induction n)
  case (Suc n)
  then obtain zs where zs: "res_fold f (take n (List.enumerate 0 vs)) (Arr ys) = Inr (Arr zs)"
    "wf_yaml (Arr zs)" "length zs = max (length ys) n" "\<And>i. i < n \<Longrightarrow> P i (vs ! i) (zs ! i)"
    "\<And>j. n \<le> j \<Longrightarrow> j < length ys \<Longrightarrow> zs ! j = ys ! j" by auto
  have n: "n < length vs" using Suc.prems by simp
  from assms(1) [OF n refl zs(3) _ zs(2)] zs(5) obtain zs' where
    zs': "f (n, vs ! n) (Arr zs) = Inr (Arr zs')" "wf_yaml (Arr zs')" "length zs' = max (length ys) (Suc n)"
      "P n (vs ! n) (zs' ! n)" "\<And>j. j < length zs \<Longrightarrow> j \<noteq> n \<Longrightarrow> zs' ! j = zs ! j" by auto
  have "take (Suc n) (List.enumerate 0 vs) = take n (List.enumerate 0 vs) @ [(n, vs ! n)]"
    using n by (simp add: take_Suc_conv_app_nth nth_enumerate_eq)
  then have "res_fold f (take (Suc n) (List.enumerate 0 vs)) (Arr ys) = Inr (Arr zs')"
    using zs(1) zs'(1) by (simp add: res_fold_append)
  moreover have "P i (vs ! i) (zs' ! i)" if "i < Suc n" for i
    using that zs(3,4) zs'(4,5) by (cases "i = n") auto
  moreover have "zs' ! j = ys ! j" if "Suc n \<le> j" "j < length ys" for j
    using that zs(3,5) zs'(5) by auto
  ultimately show ?case using zs'(2,3) by blast
qed (use assms(2) in simp)

lemma update_key_Obj:
  assumes "f (case dict_get e k of None \<Rightarrow> empty_part b | Some a \<Rightarrow> a) = Inr a'"
    and "wf_yaml (Obj e)" and "wf_yaml a'"
  shows "\<exists>e'. update_key k b f (Obj e) = Inr (Obj e') \<and> wf_yaml (Obj e') \<and> dict_get e' k = Some a' \<and>
    (\<forall>j. j \<noteq> k \<longrightarrow> dict_get e' j = dict_get e j)"
proof (cases "dict_get e k")
  case None
  then have "k \<notin> dict_keys e" by (simp add: dict_get_None_iff)
  with None assms have "update_key k b f (Obj e) = Inr (Obj (dict_set k a' (dict_set k (empty_part b) e)))"
    by (simp add: update_key_def)
  moreover have "wf_yaml (Obj (dict_set k a' (dict_set k (empty_part b) e)))"
    using assms(2,3) by (intro wf_dict_set) simp_all
  ultimately show ?thesis by auto
next
  case (Some a)
  then have "k \<in> dict_keys e" by (simp add: dict_keys_iff)
  with Some assms have "update_key k b f (Obj e) = Inr (Obj (dict_set k a' e))" by (simp add: update_key_def)
  moreover have "wf_yaml (Obj (dict_set k a' e))" using assms(2,3) by (rule wf_dict_set)
  ultimately show ?thesis by auto
qed

lemma update_index_Arr:
  assumes "f (if i < length zs then zs ! i else empty_part b) = Inr a'" and "i \<le> length zs"
    and "wf_yaml (Arr zs)" and "wf_yaml a'"
  shows "\<exists>zs'. update_index i b f (Arr zs) = Inr (Arr zs') \<and> wf_yaml (Arr zs') \<and>
    length zs' = max (length zs) (Suc i) \<and> zs' ! i = a' \<and> (\<forall>j < length zs. j \<noteq> i \<longrightarrow> zs' ! j = zs ! j)"
proof (cases "i < length zs")
  case True
  with assms(1) have "update_index i b f (Arr zs) = Inr (Arr (zs[i := a']))" by (simp add: update_index_def)
  with True assms(3,4) show ?thesis
    by (auto simp: list_all_length nth_list_update)
next
  case False
  with assms(2) have "i = length zs" by simp
  with assms(1) have "update_index i b f (Arr zs) = Inr (Arr (zs @ [a']))" by (simp add: update_index_def)
  with \<open>i = length zs\<close> assms(3,4) show ?thesis by (auto simp: nth_append)
qed

section \<open>An applied resource is settled\<close>

definition settles :: "yaml \<Rightarrow> yaml \<Rightarrow> yaml \<Rightarrow> bool" where
  "settles schema resp applied \<longleftrightarrow>
     (\<exists>applied' observed. applied_from_resp schema resp applied = Inr applied' \<and> wf_yaml applied' \<and>
        observed_from_resp (is_obj schema) schema resp = Inr observed \<and>
        modified_by schema applied' observed = Inr False)"

text \<open>What is observed of one key, and how it is compared.\<close>

definition observed_entry :: "yaml \<Rightarrow> string \<times> yaml \<Rightarrow> (exn, string \<times> yaml) res" where
  "observed_entry resp p =
     (case p of (key, v) \<Rightarrow>
       let camel_key = camel_to_snake_case key in
       res_bind (contains_key camel_key resp) (\<lambda>present.
       if \<not> present then Inl KeyError
       else
         res_bind (get_key camel_key resp) (\<lambda>r.
         if is_obj v then res_bind (observed_from_resp True v r) (\<lambda>x. Inr (key, x))
         else if is_arr v then res_bind (observed_from_resp False v r) (\<lambda>x. Inr (key, x))
         else Inr (key, r))))"

definition unmodified_entry :: "string \<Rightarrow> yaml \<Rightarrow> yaml \<Rightarrow> yaml \<Rightarrow> bool" where
  "unmodified_entry key v x y \<longleftrightarrow>
     (if is_obj v \<or> is_arr v then modified_by v x y = Inr False
      else py_eq x y \<or> key = ''namespace'' \<and> y = Null)"

lemma conforms_ObjD:
  assumes "conforms (Obj schema) (Obj resp) (Obj applied)" and "(k, v) \<in> set schema"
  obtains r where "dict_get resp (camel_to_snake_case k) = Some r"
    "if is_obj v \<or> is_arr v
     then conforms v r (case dict_get applied k of None \<Rightarrow> empty_part (is_obj v) | Some a \<Rightarrow> a)
     else (case dict_get applied k of None \<Rightarrow> True | Some a \<Rightarrow> py_eq a r \<or> k = ''namespace'' \<and> r = Null)"
proof -
  have "case dict_get resp (camel_to_snake_case k) of
         None \<Rightarrow> False
       | Some r \<Rightarrow>
           if is_obj v \<or> is_arr v
           then conforms v r (case dict_get applied k of None \<Rightarrow> empty_part (is_obj v) | Some a \<Rightarrow> a)
           else (case dict_get applied k of
                   None \<Rightarrow> True
                 | Some a \<Rightarrow> py_eq a r \<or> k = ''namespace'' \<and> r = Null)"
    using bspec [OF assms(1)[unfolded conforms.simps list_all_iff] assms(2)] by simp
  then show thesis by (cases "dict_get resp (camel_to_snake_case k)") (simp_all add: that)
qed

definition applied_entry :: "yaml \<Rightarrow> string \<times> yaml \<Rightarrow> yaml \<Rightarrow> (exn, yaml) res" where
  "applied_entry resp p applied =
     (case p of (key, v) \<Rightarrow>
       let camel_key = camel_to_snake_case key in
       res_bind (contains_key camel_key resp) (\<lambda>present.
       if \<not> present then Inl KeyError
       else if is_obj v \<or> is_arr v then
         update_key key (is_obj v)
           (\<lambda>part. res_bind (get_key camel_key resp) (\<lambda>r. applied_from_resp v r part)) applied
       else copy_key key (get_key camel_key resp) applied))"

lemma applied_from_resp_Obj:
  "applied_from_resp (Obj schema) resp applied = res_fold (applied_entry resp) schema applied"
proof -
  have "applied_entry resp = (\<lambda>(key, v) applied.
       let camel_key = camel_to_snake_case key in
       res_bind (contains_key camel_key resp) (\<lambda>present.
       if \<not> present then Inl KeyError
       else if is_obj v \<or> is_arr v then
         update_key key (is_obj v)
           (\<lambda>part. res_bind (get_key camel_key resp) (\<lambda>r. applied_from_resp v r part)) applied
       else copy_key key (get_key camel_key resp) applied))"
    unfolding applied_entry_def by (intro ext) (simp add: split_def)
  then show ?thesis by (simp only: applied_from_resp.simps(1))
qed

lemma observed_from_resp_Obj:
  "observed_from_resp True (Obj schema) resp =
     res_bind (res_map (observed_entry resp) schema) (\<lambda>items. Inr (Obj items))"
proof -
  have "observed_entry resp = (\<lambda>(key, v).
       let camel_key = camel_to_snake_case key in
       res_bind (contains_key camel_key resp) (\<lambda>present.
       if \<not> present then Inl KeyError
       else
         res_bind (get_key camel_key resp) (\<lambda>r.
         if is_obj v then res_bind (observed_from_resp True v r) (\<lambda>x. Inr (key, x))
         else if is_arr v then res_bind (observed_from_resp False v r) (\<lambda>x. Inr (key, x))
         else Inr (key, r))))"
    unfolding observed_entry_def by (intro ext) (simp add: split_def)
  then show ?thesis by (simp only: observed_from_resp.simps(1))
qed

lemma settlesE:
  assumes "settles v r a"
  obtains a' y where "applied_from_resp v r a = Inr a'" "wf_yaml a'"
    "observed_from_resp (is_obj v) v r = Inr y" "modified_by v a' y = Inr False"
  using assms unfolding settles_def by blast

definition settled_key :: "yaml \<Rightarrow> string \<Rightarrow> yaml \<Rightarrow> yaml \<Rightarrow> bool" where
  "settled_key resp k v x \<longleftrightarrow> (\<exists>y. observed_entry resp (k, v) = Inr (k, y) \<and> unmodified_entry k v x y)"

lemma settles_key:
  assumes conf: "conforms (Obj schema) (Obj resp) (Obj applied)" and kv: "(k, v) \<in> set schema"
    and wf: "wf_yaml v" "wf_yaml (Obj resp)"
    and e: "dict_get e k = dict_get applied k" "wf_yaml (Obj e)"
    and parts: "\<And>r a. conforms v r a \<Longrightarrow> wf_yaml r \<Longrightarrow> wf_yaml a \<Longrightarrow> settles v r a"
  shows "\<exists>e' x. applied_entry (Obj resp) (k, v) (Obj e) = Inr (Obj e') \<and> wf_yaml (Obj e') \<and>
    dict_get e' k = Some x \<and> settled_key (Obj resp) k v x \<and> (\<forall>j. j \<noteq> k \<longrightarrow> dict_get e' j = dict_get e j)"
proof -
  obtain r where r: "dict_get resp (camel_to_snake_case k) = Some r" and
    c: "if is_obj v \<or> is_arr v
     then conforms v r (case dict_get e k of None \<Rightarrow> empty_part (is_obj v) | Some a \<Rightarrow> a)
     else (case dict_get e k of None \<Rightarrow> True | Some a \<Rightarrow> py_eq a r \<or> k = ''namespace'' \<and> r = Null)"
    unfolding e(1) by (rule conforms_ObjD [OF conf kv])
  have in_resp: "camel_to_snake_case k \<in> dict_keys resp" using r by (simp add: dict_keys_iff)
  have wfr: "wf_yaml r" using wf_ObjD [OF wf(2) r] .
  show ?thesis
  proof (cases "is_obj v \<or> is_arr v")
    case True
    let ?part = "case dict_get e k of None \<Rightarrow> empty_part (is_obj v) | Some a \<Rightarrow> a"
    let ?f = "\<lambda>part. res_bind (get_key (camel_to_snake_case k) (Obj resp)) (\<lambda>r. applied_from_resp v r part)"
    have "wf_yaml ?part" by (cases "dict_get e k") (simp_all add: wf_ObjD [OF e(2)])
    with True c obtain a' y where a': "applied_from_resp v r ?part = Inr a'" "wf_yaml a'"
      "observed_from_resp (is_obj v) v r = Inr y" "modified_by v a' y = Inr False"
      using settlesE [OF parts [OF _ wfr]] by metis
    from a'(1) r have "?f ?part = Inr a'" by simp
    from update_key_Obj [where f = ?f, OF this e(2) a'(2)] obtain e' where
      e': "update_key k (is_obj v) ?f (Obj e) = Inr (Obj e')" "wf_yaml (Obj e')"
        "dict_get e' k = Some a'" "\<forall>j. j \<noteq> k \<longrightarrow> dict_get e' j = dict_get e j" by blast
    have "is_obj v \<noteq> is_arr v" using True by (cases v) simp_all
    then have "observed_entry (Obj resp) (k, v) = Inr (k, y)"
      using a'(3) r in_resp
      by (cases "is_obj v") (simp_all add: observed_entry_def Let_def del: observed_from_resp.simps)
    with a'(4) True have "settled_key (Obj resp) k v a'" by (simp add: settled_key_def unmodified_entry_def)
    moreover have "applied_entry (Obj resp) (k, v) (Obj e) = Inr (Obj e')"
      using e'(1) in_resp True by (simp add: applied_entry_def Let_def)
    ultimately show ?thesis using e'(2-4) by blast
  next
    case leaf: False
    have o: "observed_entry (Obj resp) (k, v) = Inr (k, r)"
      using r in_resp leaf by (simp add: observed_entry_def Let_def)
    show ?thesis
    proof (cases "dict_get e k")
      case None
      then have "applied_entry (Obj resp) (k, v) (Obj e) = Inr (Obj (dict_set k r e))"
        using leaf r in_resp by (simp add: applied_entry_def copy_key_def dict_keys_iff Let_def)
      moreover have "wf_yaml (Obj (dict_set k r e))" using wf_dict_set [OF e(2) wfr] .
      moreover have "settled_key (Obj resp) k v r"
        using o leaf py_eq_refl [OF wfr] by (simp add: settled_key_def unmodified_entry_def)
      ultimately show ?thesis by auto
    next
      case (Some a)
      then have "applied_entry (Obj resp) (k, v) (Obj e) = Inr (Obj e)"
        using leaf r in_resp by (simp add: applied_entry_def copy_key_def dict_keys_iff Let_def)
      moreover have "settled_key (Obj resp) k v a"
        using o leaf c Some by (simp add: settled_key_def unmodified_entry_def)
      ultimately show ?thesis using Some e(2) by blast
    qed
  qed
qed

lemma modified_by_Obj_False:
  assumes "\<And>k v. (k, v) \<in> set schema \<Longrightarrow>
      \<exists>x y. dict_get d k = Some x \<and> dict_get e k = Some y \<and> unmodified_entry k v x y"
  shows "modified_by (Obj schema) (Obj d) (Obj e) = Inr False"
  unfolding modified_by.simps res_any_False
proof (rule ballI, clarify)
  fix k v assume "(k, v) \<in> set schema"
  from assms [OF this] obtain x y where
    xy: "dict_get d k = Some x" "dict_get e k = Some y" "unmodified_entry k v x y" by blast
  then have "k \<in> dict_keys d" "k \<in> dict_keys e" by (simp_all add: dict_keys_iff)
  with xy show "res_bind (contains_key k (Obj e)) (\<lambda>c. if \<not> c then Inr True
       else
         res_bind (contains_key k (Obj d)) (\<lambda>d'.
         if \<not> d' then Inr True
         else
           res_bind (get_key k (Obj d)) (\<lambda>x.
           res_bind (get_key k (Obj e)) (\<lambda>y.
           if is_obj v \<or> is_arr v then modified_by v x y
           else if k = ''namespace'' \<and> y = Null then Inr False
           else Inr (\<not> py_eq x y))))) = Inr False"
    by (cases "is_obj v \<or> is_arr v") (auto simp: unmodified_entry_def)
qed

lemma settles_Obj:
  assumes conf: "conforms (Obj schema) (Obj resp) (Obj applied)"
    and wf: "wf_yaml (Obj schema)" "wf_yaml (Obj resp)" "wf_yaml (Obj applied)"
    and parts: "\<And>k v r a. (k, v) \<in> set schema \<Longrightarrow> conforms v r a \<Longrightarrow> wf_yaml r \<Longrightarrow> wf_yaml a \<Longrightarrow> settles v r a"
  shows "settles (Obj schema) (Obj resp) (Obj applied)"
proof -
  have "\<exists>e'. res_fold (applied_entry (Obj resp)) schema (Obj applied) = Inr (Obj e') \<and> wf_yaml (Obj e') \<and>
      (\<forall>(k, v) \<in> set schema. \<exists>x. dict_get e' k = Some x \<and> settled_key (Obj resp) k v x) \<and>
      (\<forall>j. j \<notin> fst ` set schema \<longrightarrow> dict_get e' j = dict_get applied j)"
  proof (rule res_fold_keys [where d = applied])
    fix k v e assume kv: "(k, v) \<in> set schema" "dict_get e k = dict_get applied k" "wf_yaml (Obj e)"
    have "wf_yaml v" using wf(1) kv(1) by (auto simp: list_all_iff)
    then show "\<exists>e' x. applied_entry (Obj resp) (k, v) (Obj e) = Inr (Obj e') \<and> wf_yaml (Obj e') \<and>
        dict_get e' k = Some x \<and> settled_key (Obj resp) k v x \<and> (\<forall>j. j \<noteq> k \<longrightarrow> dict_get e' j = dict_get e j)"
      by (rule settles_key [OF conf kv(1) _ wf(2) kv(2,3)]) (rule parts [OF kv(1)])
  qed (use wf in simp_all)
  then obtain e' where e': "res_fold (applied_entry (Obj resp)) schema (Obj applied) = Inr (Obj e')" "wf_yaml (Obj e')"
    "\<forall>(k, v) \<in> set schema. \<exists>x. dict_get e' k = Some x \<and> settled_key (Obj resp) k v x" by blast
  have "\<forall>p \<in> set schema. \<exists>y. observed_entry (Obj resp) p = Inr (fst p, y) \<and>
      (\<exists>x. dict_get e' (fst p) = Some x \<and> unmodified_entry (fst p) (snd p) x y)"
    using e'(3) by (force simp: settled_key_def)
  then obtain g where g: "\<And>p. p \<in> set schema \<Longrightarrow> observed_entry (Obj resp) p = Inr (fst p, g p)"
    "\<And>p. p \<in> set schema \<Longrightarrow> \<exists>x. dict_get e' (fst p) = Some x \<and> unmodified_entry (fst p) (snd p) x (g p)"
    by metis
  let ?o = "map (\<lambda>p. (fst p, g p)) schema"
  have "res_map (observed_entry (Obj resp)) schema = Inr ?o"
    by (rule res_map_total) (rule g(1))
  then have obs: "observed_from_resp True (Obj schema) (Obj resp) = Inr (Obj ?o)"
    unfolding observed_from_resp_Obj by simp
  have keys: "dict_get ?o k = Some (g (k, v))" if "(k, v) \<in> set schema" for k v
    using wf(1) imageI [OF that, of "\<lambda>p. (fst p, g p)"] by (intro map_of_is_SomeI) (simp_all add: o_def)
  have "modified_by (Obj schema) (Obj e') (Obj ?o) = Inr False"
  proof (rule modified_by_Obj_False)
    fix k v assume "(k, v) \<in> set schema"
    from g(2) [OF this] keys [OF this] show "\<exists>x y. dict_get e' k = Some x \<and> dict_get ?o k = Some y \<and>
      unmodified_entry k v x y" by auto
  qed
  with e'(1,2) obs show ?thesis
    unfolding settles_def applied_from_resp_Obj by auto
qed

text \<open>The same for one index of a list.\<close>

definition applied_element :: "yaml \<Rightarrow> nat \<times> yaml \<Rightarrow> yaml \<Rightarrow> (exn, yaml) res" where
  "applied_element resp p applied =
     (case p of (i, v) \<Rightarrow>
       res_bind (len resp) (\<lambda>n.
       if i \<ge> n then Inr applied
       else if is_obj v then
         update_index i True
           (\<lambda>part. res_bind (get_index i resp) (\<lambda>r. applied_from_resp v r part)) applied
       else
         res_bind (get_index i resp) (\<lambda>r.
         if is_arr r then update_index i False (\<lambda>part. applied_from_resp v r part) applied
         else copy_index i (Inr r) applied)))"

lemma applied_from_resp_Arr:
  "applied_from_resp (Arr schema) resp applied =
     res_fold (applied_element resp) (List.enumerate 0 (butlast schema)) applied"
proof -
  have "applied_element resp = (\<lambda>(i, v) applied.
       res_bind (len resp) (\<lambda>n.
       if i \<ge> n then Inr applied
       else if is_obj v then
         update_index i True
           (\<lambda>part. res_bind (get_index i resp) (\<lambda>r. applied_from_resp v r part)) applied
       else
         res_bind (get_index i resp) (\<lambda>r.
         if is_arr r then update_index i False (\<lambda>part. applied_from_resp v r part) applied
         else copy_index i (Inr r) applied)))"
    unfolding applied_element_def by (intro ext) (simp add: split_def)
  then show ?thesis by (simp only: applied_from_resp.simps(2))
qed

definition observed_element :: "yaml list \<Rightarrow> nat \<Rightarrow> yaml \<Rightarrow> (exn, yaml) res" where
  "observed_element resp i v =
     (if is_obj (resp ! i) then observed_from_resp True v (resp ! i)
      else if is_arr (resp ! i) then observed_from_resp False v (resp ! i)
      else Inr (resp ! i))"

definition unmodified_element :: "yaml \<Rightarrow> yaml \<Rightarrow> yaml \<Rightarrow> bool" where
  "unmodified_element v x y \<longleftrightarrow> (if is_obj v \<or> is_arr v then modified_by v x y = Inr False else py_eq x y)"

definition settled_index :: "yaml list \<Rightarrow> nat \<Rightarrow> yaml \<Rightarrow> yaml \<Rightarrow> bool" where
  "settled_index resp i v x \<longleftrightarrow> (\<exists>y. observed_element resp i v = Inr y \<and> unmodified_element v x y)"

lemma conforms_ArrD:
  assumes "conforms (Arr schema) (Arr resp) (Arr applied)" and "i < length (butlast schema)"
  shows "i < length resp"
    and "if is_obj (butlast schema ! i) \<or> is_arr (butlast schema ! i)
      then conforms (butlast schema ! i) (resp ! i)
        (if i < length applied then applied ! i else empty_part (is_obj (butlast schema ! i)))
      else \<not> is_obj (resp ! i) \<and> \<not> is_arr (resp ! i) \<and> (i < length applied \<longrightarrow> py_eq (applied ! i) (resp ! i))"
proof -
  have "(i, butlast schema ! i) \<in> set (List.enumerate 0 (butlast schema))"
    using assms(2) by (simp add: in_set_enumerate_eq)
  moreover have "\<forall>x \<in> set (List.enumerate 0 (butlast schema)). case x of (i, v) \<Rightarrow>
      if is_obj v \<or> is_arr v
      then conforms v (resp ! i) (if i < length applied then applied ! i else empty_part (is_obj v))
      else \<not> is_obj (resp ! i) \<and> \<not> is_arr (resp ! i) \<and> (i < length applied \<longrightarrow> py_eq (applied ! i) (resp ! i))"
    using assms(1) unfolding conforms.simps list_all_iff by blast
  ultimately show "if is_obj (butlast schema ! i) \<or> is_arr (butlast schema ! i)
      then conforms (butlast schema ! i) (resp ! i)
        (if i < length applied then applied ! i else empty_part (is_obj (butlast schema ! i)))
      else \<not> is_obj (resp ! i) \<and> \<not> is_arr (resp ! i) \<and> (i < length applied \<longrightarrow> py_eq (applied ! i) (resp ! i))"
    by (metis (no_types, lifting) case_prod_conv)
  from assms show "i < length resp" unfolding conforms.simps by linarith
qed

lemma settles_index:
  assumes conf: "conforms (Arr schema) (Arr resp) (Arr applied)" and i: "i < length (butlast schema)"
    and v: "v = butlast schema ! i" and wf: "wf_yaml (Arr resp)"
    and zs: "length zs = max (length applied) i" "i < length applied \<longrightarrow> zs ! i = applied ! i" "wf_yaml (Arr zs)"
    and parts: "\<And>r a. conforms v r a \<Longrightarrow> wf_yaml r \<Longrightarrow> wf_yaml a \<Longrightarrow> settles v r a"
  shows "\<exists>zs'. applied_element (Arr resp) (i, v) (Arr zs) = Inr (Arr zs') \<and> wf_yaml (Arr zs') \<and>
    length zs' = max (length applied) (Suc i) \<and> settled_index resp i v (zs' ! i) \<and>
    (\<forall>j < length zs. j \<noteq> i \<longrightarrow> zs' ! j = zs ! j)"
proof -
  let ?r = "resp ! i"
  note n = conforms_ArrD(1) [OF conf i]
  note c = conforms_ArrD(2) [OF conf i, folded v]
  have wfr: "wf_yaml ?r" using wf n by (simp add: list_all_length)
  have le: "i \<le> length zs" using zs(1) by simp
  have lengths: "max (length zs) (Suc i) = max (length applied) (Suc i)" using zs(1) by simp
  show ?thesis
  proof (cases "is_obj v \<or> is_arr v")
    case True
    let ?part = "if i < length zs then zs ! i else empty_part (is_obj v)"
    have part: "?part = (if i < length applied then applied ! i else empty_part (is_obj v))"
      using zs(1,2) by auto
    have "wf_yaml ?part" using zs(3) by (simp add: list_all_length)
    with True c part have s: "settles v ?r ?part" and k: "conforms v ?r ?part" using parts wfr by simp_all
    from settlesE [OF s] obtain a' y where a': "applied_from_resp v ?r ?part = Inr a'" "wf_yaml a'"
      "observed_from_resp (is_obj v) v ?r = Inr y" "modified_by v a' y = Inr False" .
    have kinds: "is_obj ?r = is_obj v" "is_arr ?r = is_arr v" "is_obj v \<noteq> is_arr v"
      using conforms_kind [OF k] by (cases v; cases ?r; simp)+
    let ?f = "\<lambda>part. applied_from_resp v ?r part"
    from update_index_Arr [where f = ?f, OF a'(1) le zs(3) a'(2)] obtain zs' where
      zs': "update_index i (is_obj v) ?f (Arr zs) = Inr (Arr zs')" "wf_yaml (Arr zs')"
        "length zs' = max (length zs) (Suc i)" "zs' ! i = a'" "\<forall>j < length zs. j \<noteq> i \<longrightarrow> zs' ! j = zs ! j" by blast
    have "applied_element (Arr resp) (i, v) (Arr zs) = Inr (Arr zs')"
      using zs'(1) n kinds by (cases "is_obj v") (simp_all add: applied_element_def del: applied_from_resp.simps)
    moreover have "observed_element resp i v = Inr y"
      using a'(3) kinds by (cases "is_obj v") (simp_all add: observed_element_def del: observed_from_resp.simps)
    then have "settled_index resp i v (zs' ! i)"
      using a'(4) zs'(4) True by (auto simp: settled_index_def unmodified_element_def)
    ultimately show ?thesis using zs'(2,3,5) lengths by auto
  next
    case leaf: False
    with c have r: "\<not> is_obj ?r" "\<not> is_arr ?r" "i < length applied \<longrightarrow> py_eq (applied ! i) ?r" by auto
    have ob: "observed_element resp i v = Inr ?r" using r by (simp add: observed_element_def)
    show ?thesis
    proof (cases "i < length zs")
      case True
      have "applied_element (Arr resp) (i, v) (Arr zs) = Inr (Arr zs)"
        using True leaf n r by (simp add: applied_element_def copy_index_def)
      moreover have "settled_index resp i v (zs ! i)"
        using True ob leaf r zs(1,2) by (simp add: settled_index_def unmodified_element_def)
      ultimately show ?thesis using True zs(1,3) by auto
    next
      case False
      have "applied_element (Arr resp) (i, v) (Arr zs) = Inr (Arr (zs @ [?r]))"
        using False leaf n r by (simp add: applied_element_def copy_index_def)
      moreover have "settled_index resp i v ((zs @ [?r]) ! i)"
        using False le ob leaf py_eq_refl [OF wfr] by (simp add: settled_index_def unmodified_element_def nth_append)
      moreover have "wf_yaml (Arr (zs @ [?r]))" using zs(3) wfr by simp
      ultimately show ?thesis using False le zs(1)
        by (intro exI [of _ "zs @ [?r]"]) (simp add: nth_append)
    qed
  qed
qed

lemma length_violated_permitted:
  assumes "length_permitted (last schema) n" and "schema \<noteq> []"
  shows "length_violated (Arr schema) (Arr (ys @ [current_length n])) = Inr False"
  using assms
  by (auto simp: length_permitted_def length_violated_def current_length_def split: sum.splits option.splits)

lemma modified_by_Arr_False:
  assumes "length_violated (Arr schema) (Arr ys) = Inr False"
    and "\<And>i. i < length (butlast schema) \<Longrightarrow>
      i < length xs \<and> i < length ys \<and> unmodified_element (butlast schema ! i) (xs ! i) (ys ! i)"
  shows "modified_by (Arr schema) (Arr xs) (Arr ys) = Inr False"
proof -
  have "res_any (\<lambda>(i, v).
         res_bind (len (Arr ys)) (\<lambda>n.
         res_bind (len (Arr xs)) (\<lambda>m.
         if (i \<ge> n) \<noteq> (i \<ge> m) then Inr True
         else if i < n \<and> i < m then
           res_bind (get_index i (Arr xs)) (\<lambda>x.
           res_bind (get_index i (Arr ys)) (\<lambda>y.
           if is_obj v \<or> is_arr v then modified_by v x y
           else Inr (\<not> py_eq x y)))
         else Inr False))) (List.enumerate 0 (butlast schema)) = Inr False"
    unfolding res_any_False
  proof (rule ballI, clarify)
    fix i v assume "(i, v) \<in> set (List.enumerate 0 (butlast schema))"
    then have i: "i < length (butlast schema)" "v = butlast schema ! i" by (simp_all add: in_set_enumerate_eq)
    from assms(2) [OF i(1), folded i(2)] show "res_bind (len (Arr ys)) (\<lambda>n.
         res_bind (len (Arr xs)) (\<lambda>m.
         if (i \<ge> n) \<noteq> (i \<ge> m) then Inr True
         else if i < n \<and> i < m then
           res_bind (get_index i (Arr xs)) (\<lambda>x.
           res_bind (get_index i (Arr ys)) (\<lambda>y.
           if is_obj v \<or> is_arr v then modified_by v x y
           else Inr (\<not> py_eq x y)))
         else Inr False)) = Inr False"
      by (simp add: unmodified_element_def split: if_splits)
  qed
  with assms(1) show ?thesis unfolding modified_by.simps modified_or_def by simp
qed

lemma settles_Arr:
  assumes conf: "conforms (Arr schema) (Arr resp) (Arr applied)"
    and wf: "wf_yaml (Arr schema)" "wf_yaml (Arr resp)" "wf_yaml (Arr applied)"
    and parts: "\<And>v r a. v \<in> set (butlast schema) \<Longrightarrow> conforms v r a \<Longrightarrow> wf_yaml r \<Longrightarrow> wf_yaml a \<Longrightarrow> settles v r a"
  shows "settles (Arr schema) (Arr resp) (Arr applied)"
proof -
  let ?vs = "butlast schema" and ?n = "length resp"
  from conf have c: "schema \<noteq> []" "length ?vs \<le> ?n" "length_permitted (last schema) ?n"
    unfolding conforms.simps by blast+
  have "\<exists>zs. res_fold (applied_element (Arr resp)) (take (length ?vs) (List.enumerate 0 ?vs)) (Arr applied) = Inr (Arr zs) \<and>
    wf_yaml (Arr zs) \<and> length zs = max (length applied) (length ?vs) \<and>
    (\<forall>i < length ?vs. settled_index resp i (?vs ! i) (zs ! i)) \<and>
    (\<forall>j. length ?vs \<le> j \<longrightarrow> j < length applied \<longrightarrow> zs ! j = applied ! j)"
  proof (rule res_fold_indices [OF _ wf(3) order.refl])
    fix i v zs assume i: "i < length ?vs" "?vs ! i = v" and zs: "length zs = max (length applied) i"
      "i < length applied \<longrightarrow> zs ! i = applied ! i" "wf_yaml (Arr zs)"
    have "v \<in> set ?vs" using i nth_mem by blast
    from settles_index [OF conf i(1) i(2) [symmetric] wf(2) zs parts [OF this]]
    show "\<exists>zs' x. applied_element (Arr resp) (i, v) (Arr zs) = Inr (Arr zs') \<and> wf_yaml (Arr zs') \<and>
      length zs' = max (length applied) (Suc i) \<and> zs' ! i = x \<and> settled_index resp i v x \<and>
      (\<forall>j < length zs. j \<noteq> i \<longrightarrow> zs' ! j = zs ! j)" by blast
  qed
  then obtain zs where zs: "applied_from_resp (Arr schema) (Arr resp) (Arr applied) = Inr (Arr zs)"
    "wf_yaml (Arr zs)" "length zs = max (length applied) (length ?vs)"
    "\<And>i. i < length ?vs \<Longrightarrow> settled_index resp i (?vs ! i) (zs ! i)"
    unfolding applied_from_resp_Arr by auto
  obtain g where g: "\<And>i. i < length ?vs \<Longrightarrow> observed_element resp i (?vs ! i) = Inr (g i)"
    "\<And>i. i < length ?vs \<Longrightarrow> unmodified_element (?vs ! i) (zs ! i) (g i)"
    using zs(4) unfolding settled_index_def by metis
  let ?ys = "map (\<lambda>(i, v). g i) (List.enumerate 0 ?vs)"
  have "observed_from_resp False (Arr schema) (Arr resp) = Inr (Arr (?ys @ [current_length ?n]))"
  proof (cases "resp = []")
    case True
    with c(2) have "length ?vs = 0" by (simp only: list.size le_zero_eq)
    then have "?vs = []" by (simp only: length_0_conv)
    with True show ?thesis by simp
  next
    case False
    have "filter (\<lambda>(i, v). i < ?n) (List.enumerate 0 ?vs) = List.enumerate 0 ?vs"
      using c(2) by (auto simp: filter_id_conv in_set_enumerate_eq)
    moreover have "res_map (\<lambda>(i, v).
               res_bind (get_index i (Arr resp)) (\<lambda>r.
               if is_obj r then observed_from_resp True v r
               else if is_arr r then observed_from_resp False v r
               else Inr r)) (List.enumerate 0 ?vs) = Inr ?ys"
    proof (rule res_map_total, clarify)
      fix i v assume "(i, v) \<in> set (List.enumerate 0 ?vs)"
      then have i: "i < length ?vs" "v = ?vs ! i" by (simp_all add: in_set_enumerate_eq)
      from g(1) [OF i(1), folded i(2)] have "observed_element resp i v = Inr (g i)" .
      moreover have "get_index i (Arr resp) = Inr (resp ! i)" using i(1) c(2) by simp
      ultimately show "res_bind (get_index i (Arr resp)) (\<lambda>r.
               if is_obj r then observed_from_resp True v r
               else if is_arr r then observed_from_resp False v r
               else Inr r) = Inr (g i)" unfolding observed_element_def by simp
    qed
    ultimately show ?thesis using False by (simp del: get_index.simps)
  qed
  moreover have "modified_by (Arr schema) (Arr zs) (Arr (?ys @ [current_length ?n])) = Inr False"
  proof (rule modified_by_Arr_False)
    show "length_violated (Arr schema) (Arr (?ys @ [current_length ?n])) = Inr False"
      by (rule length_violated_permitted [OF c(3,1)])
    fix i assume i: "i < length ?vs"
    then have "(?ys @ [current_length ?n]) ! i = g i" by (simp add: nth_append nth_enumerate_eq)
    with i g(2) [OF i] zs(3) show "i < length zs \<and> i < length (?ys @ [current_length ?n]) \<and>
      unmodified_element (?vs ! i) (zs ! i) ((?ys @ [current_length ?n]) ! i)" by simp
  qed
  ultimately show ?thesis using zs(1,2) unfolding settles_def by auto
qed

section \<open>Properties\<close>

text \<open>
  C20. An application reaches a fixpoint: once the last applied and the last observed manifest
  of a resource have been updated from a response that conforms to what was applied, the resource
  is not modified, and no further update of it is triggered.
\<close>

theorem conforms_settles:
  assumes "conforms schema resp applied" and "wf_yaml schema" and "wf_yaml resp" and "wf_yaml applied"
  shows "settles schema resp applied"
  using assms
proof (induction "size schema" arbitrary: schema resp applied rule: less_induct)
  case less
  from conforms_kind [OF less.prems(1)] consider
    s r a where "schema = Obj s" "resp = Obj r" "applied = Obj a"
  | s r a where "schema = Arr s" "resp = Arr r" "applied = Arr a"
    by (auto simp: is_obj_iff is_arr_iff)
  then show ?case
  proof cases
    case (1 s r a)
    show ?thesis unfolding 1
    proof (rule settles_Obj)
      fix k v r' a' assume kv: "(k, v) \<in> set s" and c: "conforms v r' a'" "wf_yaml r'" "wf_yaml a'"
      have "wf_yaml v" using less.prems(2) kv unfolding 1 by (auto simp: list_all_iff)
      moreover have "size v < size schema" using size_yaml_dict [OF kv] 1 by simp
      ultimately show "settles v r' a'" using less.hyps c by blast
    qed (use less.prems 1 in simp_all)
  next
    case (2 s r a)
    show ?thesis unfolding 2
    proof (rule settles_Arr)
      fix v r' a' assume v: "v \<in> set (butlast s)" and c: "conforms v r' a'" "wf_yaml r'" "wf_yaml a'"
      have "wf_yaml v" using less.prems(2) in_set_butlastD [OF v] unfolding 2 by (auto simp: list_all_iff)
      moreover have "size v < size schema" using size_butlast [OF v] 2 by simp
      ultimately show "settles v r' a'" using less.hyps c by blast
    qed (use less.prems 2 in simp_all)
  qed
qed

definition example_schema :: yaml where
  "example_schema = Obj [(''apiVersion'', Text ''v1''), (''metadata'', Obj [(''name'', Text ''s''), (''namespace'', Null)]),
     (''spec'', Obj [(''clusterIP'', Null), (''ports'', Arr [Obj [(''port'', Null)], list_control 1])])]"

definition example_response :: yaml where
  "example_response = Obj [(''api_version'', Text ''v1''), (''metadata'', Obj [(''name'', Text ''s''), (''namespace'', Text ''n'')]),
     (''spec'', Obj [(''cluster_ip'', Text ''10.0.0.1''), (''ports'', Arr [Obj [(''port'', Integer 80), (''name'', Null)]])])]"

definition example_applied :: yaml where
  "example_applied = Obj [(''apiVersion'', Text ''v1''), (''metadata'', Obj [(''name'', Text ''s'')]),
     (''spec'', Obj [(''ports'', Arr [Obj [(''port'', Decimal 80)]])])]"

lemma example_keys:
  "camel_to_snake_case ''apiVersion'' = ''api_version''" "camel_to_snake_case ''clusterIP'' = ''cluster_ip''"
  "camel_to_snake_case ''metadata'' = ''metadata''" "camel_to_snake_case ''name'' = ''name''"
  "camel_to_snake_case ''namespace'' = ''namespace''" "camel_to_snake_case ''spec'' = ''spec''"
  "camel_to_snake_case ''ports'' = ''ports''" "camel_to_snake_case ''port'' = ''port''"
  by code_simp+

theorem conforms_settles_witness: "settles example_schema example_response example_applied"
proof (rule conforms_settles)
  show "conforms example_schema example_response example_applied"
    by (simp add: example_schema_def example_response_def example_applied_def example_keys list_control_def
        length_permitted_def empty_part_def)
qed (simp_all add: example_schema_def example_response_def example_applied_def list_control_def)

text \<open>The resources that do not contribute to the delta.\<close>

definition unchanged :: "manifests \<Rightarrow> yaml \<Rightarrow> bool" where
  "unchanged app desired \<longleftrightarrow>
     (\<exists>i r. resource_idx (mangled_observer_schema app) desired = Inr i \<and>
        current_resource (last_observed_manifest app) desired = Inr (Some r) \<and> truth r \<and>
        modified_by (mangled_observer_schema app ! i) desired r = Inr False)"

definition still_applied :: "manifests \<Rightarrow> yaml \<Rightarrow> bool" where
  "still_applied app current \<longleftrightarrow>
     (\<exists>b i. is_namespaced current = Inr b \<and> get_kubernetes_resource_idx b (last_applied_manifest app) current = Inr i)"

lemma classify_empty_iff:
  assumes "classify app p d = Inr d'"
  shows "\<not> delta_nonempty d' \<longleftrightarrow> \<not> delta_nonempty d \<and> unchanged app (snd p)"
proof -
  obtain n desired where p: "p = (n, desired)" by (cases p)
  from assms p obtain i c where c: "resource_idx (mangled_observer_schema app) desired = Inr i"
    "current_resource (last_observed_manifest app) desired = Inr c"
    by (auto simp: classify_def res_bind_Inr_iff)
  show ?thesis
  proof (cases c)
    case None
    with assms p c show ?thesis by (auto simp: classify_def unchanged_def delta_nonempty_def)
  next
    case (Some r)
    with assms p c show ?thesis
      by (cases "modified_by (mangled_observer_schema app ! i) desired r")
        (auto simp: classify_def unchanged_def delta_nonempty_def split: if_splits)
  qed
qed

lemma find_deleted_empty_iff:
  assumes "find_deleted app current d = Inr d'"
  shows "\<not> delta_nonempty d' \<longleftrightarrow> \<not> delta_nonempty d \<and> still_applied app current"
proof -
  from assms obtain b where b: "is_namespaced current = Inr b"
    by (auto simp: find_deleted_def res_bind_Inr_iff)
  with assms show ?thesis
    by (cases "get_kubernetes_resource_idx b (last_applied_manifest app) current")
      (auto simp: find_deleted_def still_applied_def delta_nonempty_def split: if_splits)
qed

lemma res_fold_iff:
  assumes "res_fold f xs s = Inr s'"
    and "\<And>x s s'. f x s = Inr s' \<Longrightarrow> P s' \<longleftrightarrow> P s \<and> Q x"
  shows "P s' \<longleftrightarrow> P s \<and> (\<forall>x \<in> set xs. Q x)"
  using assms(1)
proof (induction xs arbitrary: s)
  case (Cons x xs)
  then obtain t where t: "f x s = Inr t" "res_fold f xs t = Inr s'" by (auto simp: res_simps)
  with Cons.IH [OF t(2)] assms(2) [OF t(1)] show ?case by auto
qed simp

text \<open>
  C34. The delta that is calculated is empty exactly when every applied resource has an observed
  counterpart that does not differ from it in an observed value, and every observed resource is
  still applied.
\<close>

theorem delta_empty_exact:
  assumes "calculate app = Inr d"
  shows "\<not> delta_nonempty d \<longleftrightarrow>
    (\<forall>desired \<in> set (last_applied_manifest app). unchanged app desired) \<and>
    (\<forall>current \<in> set (last_observed_manifest app). still_applied app current)"
proof -
  let ?d = "\<lparr>new_resources = [], deleted_resources = [], modified_resources = []\<rparr>"
  from assms obtain d1 where d1: "res_fold (classify app) (List.enumerate 0 (last_applied_manifest app)) ?d = Inr d1"
    "res_fold (find_deleted app) (last_observed_manifest app) d1 = Inr d"
    by (auto simp: calculate_def res_simps)
  have "\<not> delta_nonempty d1 \<longleftrightarrow>
      \<not> delta_nonempty ?d \<and> (\<forall>p \<in> set (List.enumerate 0 (last_applied_manifest app)). unchanged app (snd p))"
    by (rule res_fold_iff [OF d1(1)]) (rule classify_empty_iff)
  also have "(\<forall>p \<in> set (List.enumerate 0 (last_applied_manifest app)). unchanged app (snd p)) \<longleftrightarrow>
      (\<forall>x \<in> set (last_applied_manifest app). unchanged app x)"
    by (metis (no_types, lifting) map_snd_enumerate image_iff list.set_map)
  finally have "\<not> delta_nonempty d1 \<longleftrightarrow> (\<forall>x \<in> set (last_applied_manifest app). unchanged app x)"
    by (simp add: delta_nonempty_def)
  moreover have "\<not> delta_nonempty d \<longleftrightarrow> \<not> delta_nonempty d1 \<and> (\<forall>x \<in> set (last_observed_manifest app). still_applied app x)"
    by (rule res_fold_iff [OF d1(2)]) (rule find_deleted_empty_iff)
  ultimately show ?thesis by simp
qed

definition example_app :: manifests where
  "example_app = \<lparr>spec_manifest = [], spec_observer_schema = [],
     mangled_observer_schema = [Obj [(''apiVersion'', Text ''v1''), (''kind'', Text ''Service''),
       (''metadata'', Obj [(''name'', Text ''s'')])]],
     last_applied_manifest = [Obj [(''apiVersion'', Text ''v1''), (''kind'', Text ''Service''),
       (''metadata'', Obj [(''name'', Text ''s'')])]],
     last_observed_manifest = []\<rparr>"

theorem delta_empty_exact_witness:
  "\<exists>d. calculate example_app = Inr d \<and> \<not> unchanged example_app (hd (last_applied_manifest example_app)) \<and> delta_nonempty d"
proof -
  have c: "calculate example_app =
      Inr \<lparr>new_resources = [0], deleted_resources = [], modified_resources = []\<rparr>"
    by (simp add: calculate_def example_app_def classify_def current_resource_def same_resource_def res_and_def
        same_entry_def same_in_metadata_def api_version_of_def)
  have "\<not> unchanged example_app (hd (last_applied_manifest example_app))"
    by (simp add: unchanged_def example_app_def current_resource_def)
  moreover have "hd (last_applied_manifest example_app) \<in> set (last_applied_manifest example_app)"
    by (simp add: example_app_def)
  ultimately show ?thesis using delta_empty_exact [OF c] c by blast
qed

text \<open>
  A list whose observer schema has the maximum length 0, which the documentation defines as
  no upper limit, is never settled: every response with an element differs from what was applied.
\<close>

theorem unlimited_length_modified:
  assumes "schema \<noteq> []" and "get_key max_key (last schema) = Inr (Integer 0)" and "resp \<noteq> []"
  shows "\<not> settles (Arr schema) (Arr resp) applied"
proof
  assume "settles (Arr schema) (Arr resp) applied"
  then obtain a' y where y: "observed_from_resp False (Arr schema) (Arr resp) = Inr y"
    "modified_by (Arr schema) a' y = Inr False" unfolding settles_def by auto
  from y(1) assms(3) obtain ys where ys: "y = Arr (ys @ [current_length (length resp)])"
    by (auto simp: res_simps)
  from y(2) have "length_violated (Arr schema) y = Inr False"
    unfolding modified_by.simps modified_or_def by (auto simp: res_simps split: if_splits simp del: modified_by.simps)
  with ys assms show False by (auto simp: length_violated_def current_length_def res_simps split: option.splits)
qed

theorem unlimited_length_modified_witness:
  "\<not> settles (Arr [Obj [(min_key, Integer 0), (max_key, Integer 0)]]) (Arr [Text ''a'']) (Arr [])"
  by (rule unlimited_length_modified) simp_all

lemma filter_enumerate_take:
  "n \<le> length xs \<Longrightarrow> filter (\<lambda>(i, v). i < n) (List.enumerate 0 xs) = take n (List.enumerate 0 xs)"
proof (induction xs rule: rev_induct)
  case (snoc x xs)
  show ?case
  proof (cases "n \<le> length xs")
    case True
    with snoc.IH show ?thesis by (simp add: enumerate_append_eq)
  next
    case False
    with snoc.prems have n: "n = Suc (length xs)" by simp
    have "filter (\<lambda>(i, v). i < n) (List.enumerate 0 (xs @ [x])) = List.enumerate 0 (xs @ [x])"
      unfolding n by (auto simp: filter_id_conv in_set_enumerate_eq)
    with n show ?thesis by simp
  qed
qed simp

text \<open>
  An observed element that neither the response nor what was applied contains counts as modified,
  because the control dictionary at the end of the observed list counts as an element.
\<close>

lemma absent_element_modified:
  assumes "length ys = length xs" and "length xs < length (butlast schema)"
  shows "modified_by (Arr schema) (Arr xs) (Arr (ys @ [current_length (length ys)])) \<noteq> Inr False"
proof
  assume "modified_by (Arr schema) (Arr xs) (Arr (ys @ [current_length (length ys)])) = Inr False"
  then have "\<forall>p \<in> set (List.enumerate 0 (butlast schema)). (case p of (i, v) \<Rightarrow>
         res_bind (len (Arr (ys @ [current_length (length ys)]))) (\<lambda>n.
         res_bind (len (Arr xs)) (\<lambda>m.
         if (i \<ge> n) \<noteq> (i \<ge> m) then Inr True
         else if i < n \<and> i < m then
           res_bind (get_index i (Arr xs)) (\<lambda>x.
           res_bind (get_index i (Arr (ys @ [current_length (length ys)]))) (\<lambda>y.
           if is_obj v \<or> is_arr v then modified_by v x y
           else Inr (\<not> py_eq x y)))
         else Inr False))) = Inr False"
    unfolding modified_by.simps modified_or_def res_bind_Inr_iff res_any_False [symmetric]
    by (auto split: if_splits simp del: modified_by.simps)
  moreover have "(length xs, butlast schema ! length xs) \<in> set (List.enumerate 0 (butlast schema))"
    using assms(2) by (simp add: in_set_enumerate_eq)
  ultimately show False using assms(1) by force
qed

lemma applied_from_resp_length:
  assumes "applied_from_resp (Arr schema) (Arr resp) (Arr applied) = Inr a'" and "length applied = length resp"
  shows "\<exists>zs. a' = Arr zs \<and> length zs = length resp"
proof (rule res_fold_invariant [OF assms(1)[unfolded applied_from_resp_Arr]])
  show "\<exists>zs. Arr applied = Arr zs \<and> length zs = length resp" using assms(2) by simp
  fix p a b assume a: "\<exists>zs. a = Arr zs \<and> length zs = length resp" and b: "applied_element (Arr resp) p a = Inr b"
  obtain i v where p: "p = (i, v)" by (cases p)
  from a obtain zs where zs: "a = Arr zs" "length zs = length resp" by blast
  show "\<exists>zs. b = Arr zs \<and> length zs = length resp"
  proof (cases "i < length resp")
    case True
    with b zs show ?thesis
      by (auto simp: p applied_element_def update_index_def copy_index_def res_simps split: if_splits
          simp del: applied_from_resp.simps)
  next
    case False
    with b zs show ?thesis by (auto simp: p applied_element_def)
  qed
qed

text \<open>
  A list whose observer schema observes more elements than were applied and than the cluster
  returns is never settled, although the documentation allows the additional elements to be
  absent.
\<close>

theorem absent_element_never_settles:
  assumes "length applied = length resp" and "length resp < length (butlast schema)" and "resp \<noteq> []"
  shows "\<not> settles (Arr schema) (Arr resp) (Arr applied)"
proof
  assume "settles (Arr schema) (Arr resp) (Arr applied)"
  then obtain a' y where a': "applied_from_resp (Arr schema) (Arr resp) (Arr applied) = Inr a'"
    and y: "observed_from_resp False (Arr schema) (Arr resp) = Inr y"
    and m: "modified_by (Arr schema) a' y = Inr False" unfolding settles_def by auto
  obtain zs where zs: "a' = Arr zs" "length zs = length resp"
    using applied_from_resp_length [OF a' assms(1)] by blast
  let ?vs = "filter (\<lambda>(i, v). i < length resp) (List.enumerate 0 (butlast schema))"
  have "?vs = take (length resp) (List.enumerate 0 (butlast schema))"
    using assms(2) by (intro filter_enumerate_take) simp
  then have l: "length ?vs = length resp" using assms(2) by simp
  from y assms(3) l obtain ys where "y = Arr (ys @ [current_length (length resp)])" "length ys = length resp"
    by (auto simp: res_simps dest!: res_map_length)
  with absent_element_modified [of ys zs schema] m zs assms(2) show False by simp
qed

theorem absent_element_never_settles_witness:
  "\<not> settles (Arr [Null, Null, Obj [(min_key, Integer 1), (max_key, Integer 4)]]) (Arr [Integer 80]) (Arr [Integer 80])"
  by (rule absent_element_never_settles) simp_all

end
