(* ===== verification/Application_Controller.thy ===== *)
theory Application_Controller
  imports Application_Hooks Resource_Delta Worker
begin

text \<open>
  The controller that creates, updates, migrates and deletes the Kubernetes resources of an
  application, \<open>KubernetesApplicationController\<close> of
  \<open>krake/krake/controller/kubernetes/application/application.py\<close>. A handler gets the application
  and returns it updated; when it raises, the copy that it worked on is not used any more.
\<close>

section \<open>Configuration\<close>

record controller_config =
  shutdown_timeout :: int
  failure_retry_count :: int
  failure_strategy :: string
  migration_max_retries :: int
  migration_delay :: int

abbreviation deletion_finalizer :: string where
  "deletion_finalizer \<equiv> ''kubernetes_resources_deletion''"

abbreviation set_finalizers :: "string list \<Rightarrow> k8s_application \<Rightarrow> k8s_application" where
  "set_finalizers fs app \<equiv> app\<lparr>metadata := (metadata app)\<lparr>finalizers := fs\<rparr>\<rparr>"

section \<open>Acceptance\<close>

definition scheduled_or_deleting :: "k8s_application \<Rightarrow> bool" where
  "scheduled_or_deleting app \<longleftrightarrow>
     (if deleted (metadata app) \<noteq> None
      then finalizers (metadata app) \<noteq> [] \<and> last (finalizers (metadata app)) = deletion_finalizer
      else if app_state app = App_FAILED then False
      else (case kube_controller_triggered app of
              None \<Rightarrow> False
            | Some t \<Rightarrow> t \<ge> modified (metadata app)))"

section \<open>Deletion of resources\<close>

definition delete_one ::
  "environment \<Rightarrow> kube_cluster \<Rightarrow> yaml \<Rightarrow> k8s_application \<Rightarrow> (controller, k8s_application) co" where
  "delete_one env cluster resource app =
     co_bind (delete_resource env cluster resource) (\<lambda>_. co_lift (resource_post_delete resource app))"

definition delete_observed :: "environment \<Rightarrow> k8s_application \<Rightarrow> (controller, k8s_application) co" where
  "delete_observed env app =
     (case app_running_on app of
        None \<Rightarrow> co_return app
      | Some r \<Rightarrow>
          let resources = last_observed_manifest (app_manifests app) in
          if resources = [] then co_return app
          else
            co_bind (read_cluster env r) (\<lambda>cluster.
            co_then for_cluster (co_fold (delete_one env cluster) resources app)))"

definition delete_manifest :: "environment \<Rightarrow> k8s_application \<Rightarrow> (controller, k8s_application) co" where
  "delete_manifest env app =
     co_bind (delete_observed env app) (\<lambda>app.
     case app_running_on app of
       None \<Rightarrow> co_return app
     | Some r \<Rightarrow>
         if r \<notin> set (owners (metadata app)) then co_raise ValueError
         else co_return
           (app\<lparr>metadata := (metadata app)\<lparr>owners := remove1 r (owners (metadata app))\<rparr>, app_running_on := None\<rparr>))"

text \<open>The deletion of an application; one that is gone already is left alone.\<close>

definition remove_finalizer :: "environment \<Rightarrow> k8s_application \<Rightarrow> (controller, k8s_application) co" where
  "remove_finalizer env app =
     (let fs = finalizers (metadata app) in
      if fs = [] then co_raise IndexError
      else if last fs \<noteq> deletion_finalizer then co_raise AssertionError
      else
        let app = set_finalizers (butlast fs) app in
        co_then (update_status env app) (co_then (update_app env app) (co_return app)))"

definition delete_application :: "environment \<Rightarrow> k8s_application \<Rightarrow> (controller, k8s_application) co" where
  "delete_application env app =
     (let app = app\<lparr>app_state := App_DELETING\<rparr> in
      co_bind
        (co_catch (co_then (update_status env app) (co_return True))
          (\<lambda>e. if e = ClientResponseError 404 then co_return False else co_raise e)) (\<lambda>exists.
      if \<not> exists then co_return app
      else co_bind (delete_manifest env app) (remove_finalizer env)))"

section \<open>Shutdown\<close>

definition grace_time :: "controller_config \<Rightarrow> k8s_application \<Rightarrow> int" where
  "grace_time cfg app = (case shutdown_grace_time app of None \<Rightarrow> shutdown_timeout cfg | Some t \<Rightarrow> t)"

definition trigger_shutdown ::
  "environment \<Rightarrow> controller_config \<Rightarrow> k8s_application \<Rightarrow> (controller, k8s_application) co" where
  "trigger_shutdown env cfg app =
     (if shutdown_grace_period app \<noteq> None then co_return app
      else
        co_bind (time_now env) (\<lambda>t.
        let app = app\<lparr>shutdown_grace_period := Some (t + grace_time cfg app)\<rparr> in
        co_then (update_status env app)
          (co_then (ask (\<lambda>_. Inr ()) (Start_shutdown_task app)) (co_return app))))"

definition check_shutdown_success ::
  "environment \<Rightarrow> controller_config \<Rightarrow> k8s_application \<Rightarrow> (controller, bool) co" where
  "check_shutdown_success env cfg app =
     co_then (ask (\<lambda>_. Inr ()) (Sleep (grace_time cfg app)))
       (co_catch
         (co_bind (ask (application_answer env) (Read_application (namespace (metadata app)) (name (metadata app))))
           (\<lambda>_. co_return False))
         (\<lambda>e. if e = ClientResponseError 404 then co_return True else co_raise e))"

text \<open>One attempt: \<open>None\<close> to try again. Every exception is swallowed.\<close>

definition shutdown_attempt ::
  "environment \<Rightarrow> controller_config \<Rightarrow> k8s_application \<Rightarrow> (controller, bool option) co" where
  "shutdown_attempt env cfg app =
     co_catch
       (if app_state app \<in> {App_DEGRADED, App_FAILED} then co_return (Some False)
        else
          case app_running_on app of
            None \<Rightarrow> co_raise AttributeError
          | Some r \<Rightarrow>
              co_bind (read_cluster env r) (\<lambda>cluster.
              co_then for_cluster
                (co_then (shutdown_app env app)
                  (co_bind (check_shutdown_success env cfg app) (\<lambda>success.
                   co_return (if success then Some True else None))))))
       (\<lambda>e. co_return None)"

fun run_attempts ::
  "environment \<Rightarrow> controller_config \<Rightarrow> k8s_application \<Rightarrow> nat \<Rightarrow> (controller, bool) co" where
  "run_attempts env cfg app 0 = co_return False"
| "run_attempts env cfg app (Suc n) =
     co_bind (shutdown_attempt env cfg app) (\<lambda>r.
       case r of Some b \<Rightarrow> co_return b | None \<Rightarrow> run_attempts env cfg app n)"

definition run_app_shutdown ::
  "environment \<Rightarrow> controller_config \<Rightarrow> k8s_application \<Rightarrow> (controller, bool) co" where
  "run_app_shutdown env cfg app =
     run_attempts env cfg app
       (nat ((case shutdown_retry_count app of None \<Rightarrow> failure_retry_count cfg | Some n \<Rightarrow> n) + 1))"

definition has_shutdown_strategy :: "controller_config \<Rightarrow> k8s_application \<Rightarrow> string \<Rightarrow> bool" where
  "has_shutdown_strategy cfg app strategy \<longleftrightarrow>
     (case shutdown_failure_strategy app of None \<Rightarrow> failure_strategy cfg | Some s \<Rightarrow> s) = strategy"

definition handle_shutdown_failure ::
  "environment \<Rightarrow> controller_config \<Rightarrow> k8s_application \<Rightarrow> (controller, unit) co" where
  "handle_shutdown_failure env cfg app =
     (if has_shutdown_strategy cfg app ''delete''
      then co_bind (delete_application env app) (\<lambda>_. co_return ())
      else update_status env (app\<lparr>app_state := App_DEGRADED\<rparr>))"

text \<open>
  The background task of a shutdown. It resets the grace period of its own copy of the
  application only, which nothing reads afterwards.
\<close>

definition shutdown_task ::
  "environment \<Rightarrow> controller_config \<Rightarrow> k8s_application \<Rightarrow> (controller, unit) co" where
  "shutdown_task env cfg app =
     co_catch
       (co_bind (run_app_shutdown env cfg app) (\<lambda>success.
        if success then co_return () else handle_shutdown_failure env cfg app))
       (\<lambda>e. co_return ())"

section \<open>Applying a delta\<close>

definition ensure_finalizer :: "environment \<Rightarrow> k8s_application \<Rightarrow> (controller, k8s_application) co" where
  "ensure_finalizer env app =
     (if deletion_finalizer \<in> set (finalizers (metadata app)) then co_return app
      else
        let app = set_finalizers (finalizers (metadata app) @ [deletion_finalizer]) app in
        co_then (update_app env app) (co_return app))"

text \<open>A new or modified resource is applied as it is when its turn comes.\<close>

definition apply_one ::
  "environment \<Rightarrow> kube_cluster \<Rightarrow> nat \<Rightarrow> k8s_application \<Rightarrow> (controller, k8s_application) co" where
  "apply_one env cluster i app =
     (let resource = last_applied_manifest (app_manifests app) ! i in
      co_bind (apply_resource env cluster resource) (\<lambda>resp.
      co_lift (resource_post_apply env cluster resource resp app)))"

definition apply_delta ::
  "environment \<Rightarrow> kube_cluster \<Rightarrow> delta \<Rightarrow> k8s_application \<Rightarrow> (controller, k8s_application) co" where
  "apply_delta env cluster d app =
     co_bind (co_fold (delete_one env cluster) (deleted_resources d) app) (\<lambda>app.
     co_bind (co_fold (apply_one env cluster) (new_resources d) app)
       (co_fold (apply_one env cluster) (modified_resources d)))"

definition scheduled_cluster :: "environment \<Rightarrow> k8s_application \<Rightarrow> (controller, kube_cluster) co" where
  "scheduled_cluster env app =
     (case app_scheduled_to app of None \<Rightarrow> co_raise AttributeError | Some r \<Rightarrow> read_cluster env r)"

definition apply_manifest ::
  "environment \<Rightarrow> delta \<Rightarrow> k8s_application \<Rightarrow> (controller, k8s_application) co" where
  "apply_manifest env d app =
     co_bind (ensure_finalizer env app) (\<lambda>app.
     co_bind (scheduled_cluster env app) (\<lambda>cluster.
     co_then for_cluster
       (co_bind (apply_delta env cluster d app) (\<lambda>app.
        co_return (app\<lparr>app_running_on := app_scheduled_to app\<rparr>)))))"

section \<open>Reconciliation\<close>

text \<open>
  The default observer schema, the last applied manifest and the mangling by the hooks
  \<open>complete\<close> and \<open>shutdown\<close>, which is part of the environment and changes the manifests.
\<close>

definition prepare_manifests :: "environment \<Rightarrow> k8s_application \<Rightarrow> (exn, k8s_application) res" where
  "prepare_manifests env app =
     res_bind (on_manifests generate_default_observer_schema app) (\<lambda>app.
     res_bind (on_manifests update_last_applied_manifest_from_spec app) (\<lambda>app.
     on_manifests (\<lambda>_. mangling env app) app))"

definition all_new :: "manifests \<Rightarrow> delta" where
  "all_new m = \<lparr>new_resources = [0..<length (last_applied_manifest m)],
     deleted_resources = [], modified_resources = []\<rparr>"

definition needed_changes :: "manifests \<Rightarrow> (exn, delta) res" where
  "needed_changes m = (if last_observed_manifest m = [] then Inr (all_new m) else calculate m)"

definition reconcile_application :: "environment \<Rightarrow> k8s_application \<Rightarrow> (controller, k8s_application) co" where
  "reconcile_application env app =
     (case app_scheduled_to app of
        None \<Rightarrow> co_raise InvalidStateError
      | Some r \<Rightarrow>
          co_bind (read_cluster env r) (\<lambda>_.
          co_bind (translate_tosca env app) (\<lambda>app.
          co_bind (co_lift (prepare_manifests env app)) (\<lambda>app.
          co_bind (co_lift (needed_changes (app_manifests app))) (\<lambda>d.
          if \<not> delta_nonempty d then co_return app
          else
            co_bind (ensure_finalizer env app) (\<lambda>app.
            let app = app\<lparr>app_state := if app_running_on app = None then App_CREATING else App_RECONCILING\<rparr> in
            co_then (update_status env app)
              (co_bind (apply_manifest env d app) (\<lambda>app.
               let app = app\<lparr>app_state := App_RUNNING, app_reason := None\<rparr> in
               co_then (update_status env app) (co_return app)))))))))"

section \<open>Migration\<close>

definition start_migration :: "environment \<Rightarrow> k8s_application \<Rightarrow> (controller, k8s_application) co" where
  "start_migration env app =
     co_bind (ensure_finalizer env app) (\<lambda>app.
     let app = app\<lparr>app_state := App_MIGRATING\<rparr> in
     co_then (update_status env app) (co_return app))"

text \<open>All resources are created on the cluster that the application is scheduled to.\<close>

definition create_on_target :: "environment \<Rightarrow> k8s_application \<Rightarrow> (controller, k8s_application) co" where
  "create_on_target env app =
     co_bind (scheduled_cluster env app) (\<lambda>_.
     co_bind (co_lift (prepare_manifests env app)) (\<lambda>app.
     apply_manifest env (all_new (app_manifests app)) app))"

definition migrate_application :: "environment \<Rightarrow> k8s_application \<Rightarrow> (controller, k8s_application) co" where
  "migrate_application env app =
     co_bind (start_migration env app) (\<lambda>app.
     co_bind (delete_manifest env app) (\<lambda>app.
     co_bind (create_on_target env app) (\<lambda>app.
     let app = app\<lparr>shutdown_grace_period := None, app_state := App_RUNNING, app_reason := None\<rparr> in
     co_then (update_status env app) (co_then (update_app env app) (co_return app)))))"

end
