(* ===== verification/Application_Transfer.thy ===== *)
theory Application_Transfer
  imports Application_Controller
begin

text \<open>
  The migration of an application with volumes: the files of its pods are packed on the old
  cluster, unpacked on the new one and compared by their checksums. The commands in the pods are
  requests of the environment.
\<close>

section \<open>Volumes\<close>

text \<open>\<open>for x in v\<close>\<close>

fun iterate :: "yaml \<Rightarrow> (exn, yaml list) res" where
  "iterate (Arr xs) = Inr xs"
| "iterate (Obj d) = Inr (map (\<lambda>(k, v). Text k) d)"
| "iterate (Text s) = Inr (map (\<lambda>c. Text [c]) s)"
| "iterate _ = Inl TypeError"

text \<open>\<open>v.get(key, fallback)\<close>\<close>

definition get_or :: "string \<Rightarrow> yaml \<Rightarrow> yaml \<Rightarrow> (exn, yaml) res" where
  "get_or k fallback v =
     (case v of
        Obj d \<Rightarrow> Inr (case dict_get d k of None \<Rightarrow> fallback | Some x \<Rightarrow> x)
      | _ \<Rightarrow> Inl AttributeError)"

text \<open>A manifest with an unexpected structure is skipped.\<close>

definition mounts_volume :: "yaml \<Rightarrow> bool" where
  "mounts_volume manifest \<longleftrightarrow>
     res_bind (get_or ''spec'' (Obj []) manifest) (\<lambda>spec.
     res_bind (get_or ''containers'' (Arr []) spec) (\<lambda>containers.
     res_bind (iterate containers) (\<lambda>cs.
     res_any (\<lambda>c. res_bind (get_or_none ''volumeMounts'' c) (\<lambda>m. Inr (truth m))) cs))) = Inr True"

definition check_for_volumes :: "k8s_application \<Rightarrow> bool" where
  "check_for_volumes app \<longleftrightarrow> list_ex mounts_volume (spec_manifest (app_manifests app))"

section \<open>Files\<close>

definition strip_slashes :: "string \<Rightarrow> string" where
  "strip_slashes s = dropWhile (\<lambda>c. c = CHR ''/'') s"

definition is_line_break :: "char \<Rightarrow> bool" where
  "is_line_break c \<longleftrightarrow> c \<in> set [CHR 0x0A, CHR 0x0B, CHR 0x0C, CHR 0x0D, CHR 0x1C, CHR 0x1D, CHR 0x1E, CHR 0x85]"

text \<open>\<open>s.splitlines()\<close>: a carriage return and a line feed are one break, the last line may be open.\<close>

function (sequential) split_lines :: "string \<Rightarrow> string list" where
  "split_lines [] = []"
| "split_lines s =
     (let line = takeWhile (\<lambda>c. \<not> is_line_break c) s;
          rest = dropWhile (\<lambda>c. \<not> is_line_break c) s
      in line #
        (if take 2 rest = [CHR 0x0D, CHR 0x0A] then split_lines (drop 2 rest) else split_lines (drop 1 rest)))"
  by pat_completeness auto

termination
proof (relation "measure length", goal_cases)
  case (2 c s line rest)
  then have "length rest \<le> Suc (length s)" using length_dropWhile_le [of _ "c # s"] by (simp del: dropWhile.simps)
  with 2 show ?case by (cases rest) auto
next
  case (3 c s line rest)
  then have "length rest \<le> Suc (length s)" using length_dropWhile_le [of _ "c # s"] by (simp del: dropWhile.simps)
  then show ?case by (cases rest) auto
qed simp

text \<open>
  One attempt to transfer a file. Packing it must succeed; the outcome of unpacking it is only
  seen in the checksum.
\<close>

definition transfer_attempt ::
  "environment \<Rightarrow> yaml \<Rightarrow> yaml \<Rightarrow> yaml \<Rightarrow> string \<Rightarrow> string \<Rightarrow> (controller, bool) co" where
  "transfer_attempt env src trg pod ns file =
     co_bind (ask (exec_answer env) (Exec src pod ns (Sha256sum (strip_slashes file)))) (\<lambda>sha_src.
     co_bind (ask (exec_answer env) (Exec src pod ns (Tar_pack file))) (\<lambda>packed.
     co_bind (ask (\<lambda>_. Inr ()) (Exec trg pod ns (Tar_unpack packed))) (\<lambda>_.
     co_bind (ask (exec_answer env) (Exec trg pod ns (Sha256sum (strip_slashes file)))) (\<lambda>sha_trg.
     co_return (sha_trg = sha_src)))))"

text \<open>The attempts that are left; the first one is made whatever the configuration says.\<close>

fun transfer_attempts ::
  "environment \<Rightarrow> yaml \<Rightarrow> yaml \<Rightarrow> yaml \<Rightarrow> string \<Rightarrow> string \<Rightarrow> nat \<Rightarrow> (controller, unit) co" where
  "transfer_attempts env src trg pod ns file 0 = co_raise MaxTriesError"
| "transfer_attempts env src trg pod ns file (Suc n) =
     co_bind (transfer_attempt env src trg pod ns file) (\<lambda>same.
       if same then co_return () else transfer_attempts env src trg pod ns file n)"

definition transfer_file ::
  "environment \<Rightarrow> controller_config \<Rightarrow> yaml \<Rightarrow> yaml \<Rightarrow> yaml \<Rightarrow> string \<Rightarrow> string \<Rightarrow> (controller, unit) co" where
  "transfer_file env cfg src trg pod ns file =
     transfer_attempts env src trg pod ns file (max 1 (nat (migration_max_retries cfg)))"

section \<open>Pods\<close>

text \<open>
  The pod is waited for until it runs; every failure to read it, be it a manifest without a name,
  is retried at once.
\<close>

definition pod_name :: "yaml \<Rightarrow> (exn, yaml) res" where
  "pod_name manifest = res_bind (get_key ''metadata'' manifest) (get_key ''name'')"

definition await_pod :: "environment \<Rightarrow> yaml \<Rightarrow> yaml \<Rightarrow> string \<Rightarrow> (controller, unit option) co" where
  "await_pod env src manifest ns =
     co_bind
       (co_catch
         (co_bind (co_lift (pod_name manifest)) (\<lambda>n.
          co_bind (ask (pod_phase env) (Read_pod src n ns)) (\<lambda>phase. co_return (Some phase))))
         (\<lambda>e. co_return None)) (\<lambda>r.
     case r of
       None \<Rightarrow> co_return None
     | Some phase \<Rightarrow>
         co_then (ask (\<lambda>_. Inr ()) (Sleep 1)) (co_return (if phase = ''Running'' then Some () else None)))"

definition find_files :: "environment \<Rightarrow> yaml \<Rightarrow> yaml \<Rightarrow> string \<Rightarrow> yaml \<Rightarrow> (controller, string) co" where
  "find_files env src manifest ns volume_mount =
     co_catch
       (co_bind (co_lift (pod_name manifest)) (\<lambda>n.
        co_bind (co_lift (get_key ''mountPath'' volume_mount)) (\<lambda>path.
        ask (exec_answer env) (Exec src n ns (Find_files path)))))
       (\<lambda>e. co_raise MigrationError)"

definition transfer_mount ::
  "environment \<Rightarrow> controller_config \<Rightarrow> yaml \<Rightarrow> yaml \<Rightarrow> yaml \<Rightarrow> string \<Rightarrow> yaml \<Rightarrow> unit \<Rightarrow> (controller, unit) co" where
  "transfer_mount env cfg src trg manifest ns volume_mount u =
     co_bind (find_files env src manifest ns volume_mount) (\<lambda>files.
     co_fold (\<lambda>file _.
       if file \<noteq> [] \<and> last file = CHR ''/'' then co_return ()
       else co_bind (co_lift (pod_name manifest)) (\<lambda>n. transfer_file env cfg src trg n ns file))
       (split_lines files) ())"

definition transfer_container ::
  "environment \<Rightarrow> controller_config \<Rightarrow> yaml \<Rightarrow> yaml \<Rightarrow> yaml \<Rightarrow> string \<Rightarrow> yaml \<Rightarrow> unit \<Rightarrow> (controller, unit) co" where
  "transfer_container env cfg src trg manifest ns container u =
     co_bind (co_lift (contains_key ''volumeMounts'' container)) (\<lambda>has.
     if \<not> has then co_return ()
     else
       co_then (co_loop (await_pod env src manifest ns))
         (co_bind (co_lift (res_bind (get_key ''volumeMounts'' container) iterate)) (\<lambda>mounts.
          co_fold (transfer_mount env cfg src trg manifest ns) mounts ())))"

text \<open>
  The namespace is asked for as an attribute of a dictionary, which has none: it is always the
  default.
\<close>

definition transfer_manifest ::
  "environment \<Rightarrow> controller_config \<Rightarrow> yaml \<Rightarrow> yaml \<Rightarrow> yaml \<Rightarrow> unit \<Rightarrow> (controller, unit) co" where
  "transfer_manifest env cfg src trg manifest u =
     co_bind (co_lift (res_bind (get_key ''kind'' manifest) (\<lambda>k. Inr (py_eq k (Text ''Pod''))))) (\<lambda>pod.
     if \<not> pod then co_return ()
     else
       co_bind (co_lift (get_key ''metadata'' manifest)) (\<lambda>_.
       co_bind (co_lift (res_bind (res_bind (get_key ''spec'' manifest) (get_key ''containers'')) iterate)) (\<lambda>cs.
       co_fold (transfer_container env cfg src trg manifest ''default'') cs ())))"

definition transfer_data ::
  "environment \<Rightarrow> controller_config \<Rightarrow> resource_ref option \<Rightarrow> resource_ref option \<Rightarrow> k8s_application \<Rightarrow>
     (controller, unit) co" where
  "transfer_data env cfg src trg app =
     (case (src, trg) of
        (Some r, Some t) \<Rightarrow>
          co_bind (read_cluster env r) (\<lambda>src_cluster.
          co_bind (read_cluster env t) (\<lambda>trg_cluster.
          co_fold (transfer_manifest env cfg (kubeconfig src_cluster) (kubeconfig trg_cluster))
            (spec_manifest (app_manifests app)) ()))
      | (Some r, None) \<Rightarrow> co_bind (read_cluster env r) (\<lambda>_. co_raise AttributeError)
      | _ \<Rightarrow> co_raise AttributeError)"

section \<open>Migration with volumes\<close>

text \<open>
  The application is read anew, and the copy that the caller holds is not updated. When the data
  cannot be transferred, the resources on the new cluster are deleted, and the application as it
  was before stays on the old cluster.
\<close>

definition reset_migration ::
  "environment \<Rightarrow> controller_config \<Rightarrow> k8s_application \<Rightarrow> k8s_application \<Rightarrow> (controller, k8s_application) co" where
  "reset_migration env cfg old app =
     co_bind (delete_manifest env app) (\<lambda>_.
     co_bind (time_now env) (\<lambda>t.
     let retries = migration_retries old + 1 in
     co_return (old\<lparr>app_scheduled_to := app_running_on old, migration_retries := retries,
       migration_timeout := t + migration_delay cfg * retries\<rparr>)))"

definition finish_migration ::
  "environment \<Rightarrow> k8s_application \<Rightarrow> k8s_application \<Rightarrow> (controller, k8s_application) co" where
  "finish_migration env old app =
     co_bind (delete_manifest env old) (\<lambda>_.
     co_return (app\<lparr>migration_retries := 0, migration_timeout := 0\<rparr>))"

definition migrate_application_with_volumes ::
  "environment \<Rightarrow> controller_config \<Rightarrow> k8s_application \<Rightarrow> (controller, unit) co" where
  "migrate_application_with_volumes env cfg app =
     co_bind (ask (application_answer env) (Read_application (namespace (metadata app)) (name (metadata app)))) (\<lambda>app.
     if app_scheduled_to app = app_running_on app then co_return ()
     else
       co_bind (start_migration env app) (\<lambda>old.
       co_bind (create_on_target env old) (\<lambda>app.
       co_bind
         (co_catch (co_then (transfer_data env cfg (app_running_on old) (app_running_on app) app) (co_return True))
           (\<lambda>e. if e = MaxTriesError \<or> e = MigrationError then co_return False else co_raise e)) (\<lambda>transferred.
       co_bind (if transferred then finish_migration env old app else reset_migration env cfg old app) (\<lambda>app.
       update_status env (app\<lparr>shutdown_grace_period := None, app_state := App_RUNNING\<rparr>))))))"

end
