(* ===== verification/Application_Worker.thy ===== *)
theory Application_Worker
  imports Application_Transfer
begin

text \<open>
  The dispatch of an application to its deletion, shutdown, migration or reconciliation, the
  workers of the application controller, and what its reflector and its observers do with an
  application (\<open>krake/krake/controller/kubernetes/application/application.py\<close>).
\<close>

section \<open>Dispatch\<close>

abbreviation has_shutdown_hook :: "k8s_application \<Rightarrow> bool" where
  "has_shutdown_hook app \<equiv> ''shutdown'' \<in> set (app_hooks app)"

text \<open>\<open>_delete\<close>: nothing is done while a shutdown is awaited.\<close>

definition received_deleted ::
  "environment \<Rightarrow> controller_config \<Rightarrow> k8s_application \<Rightarrow> (controller, unit) co" where
  "received_deleted env cfg app =
     co_catch
       (if has_shutdown_hook app \<and> app_state app = App_WAITING_FOR_CLEANING
        then co_bind (trigger_shutdown env cfg app) (\<lambda>_. co_return ())
        else if app_state app = App_READY_FOR_ACTION \<or> \<not> has_shutdown_hook app
        then co_then (unregister_observer env app) (co_bind (delete_application env app) (\<lambda>_. co_return ()))
        else co_return ())
       (\<lambda>e. if e = ClientResponseError 404 then co_return () else co_raise e)"

text \<open>An application with a shutdown hook is shut down before it is migrated.\<close>

definition shutdown_before_migration ::
  "environment \<Rightarrow> controller_config \<Rightarrow> k8s_application \<Rightarrow> (controller, unit) co" where
  "shutdown_before_migration env cfg app =
     co_bind
       (if app_state app \<in> {App_RUNNING, App_RECONCILING}
        then let app = app\<lparr>app_state := App_WAITING_FOR_CLEANING\<rparr> in
          co_then (update_status env app) (co_return app)
        else co_return app) (\<lambda>app.
     if app_state app = App_WAITING_FOR_CLEANING
     then co_bind (trigger_shutdown env cfg app) (\<lambda>_. co_return ())
     else co_return ())"

definition received_migrating ::
  "environment \<Rightarrow> controller_config \<Rightarrow> bool \<Rightarrow> k8s_application \<Rightarrow> (controller, unit) co" where
  "received_migrating env cfg start app =
     (if has_shutdown_hook app \<and> app_state app \<noteq> App_READY_FOR_ACTION
      then shutdown_before_migration env cfg app
      else
        co_then (unregister_observer env app)
          (co_bind
            (if check_for_volumes app
             then co_then (migrate_application_with_volumes env cfg app) (co_return app)
             else migrate_application env app)
            (register_observer env start)))"

definition received_reconciling ::
  "environment \<Rightarrow> bool \<Rightarrow> k8s_application \<Rightarrow> (controller, unit) co" where
  "received_reconciling env start app =
     co_then (unregister_observer env app)
       (co_bind (reconcile_application env app) (register_observer env start))"

definition resource_received ::
  "environment \<Rightarrow> controller_config \<Rightarrow> bool \<Rightarrow> k8s_application \<Rightarrow> (controller, unit) co" where
  "resource_received env cfg start app =
     (if deleted (metadata app) \<noteq> None then received_deleted env cfg app
      else if app_running_on app \<noteq> None \<and> app_running_on app \<noteq> app_scheduled_to app
      then received_migrating env cfg start app
      else received_reconciling env start app)"

section \<open>Workers\<close>

text \<open>The reason that is reported for an exception; \<open>None\<close> for one that ends the worker.\<close>

definition failure_reason :: "exn \<Rightarrow> reason_code option option" where
  "failure_reason e =
     (case e of
        ClientConnectorError \<Rightarrow> Some (Some KUBERNETES_ERROR)
      | ApiException _ \<Rightarrow> Some (Some KUBERNETES_ERROR)
      | ToscaParserException \<Rightarrow> Some (Some INVALID_TOSCA_MANIFEST)
      | RequestsConnectionError \<Rightarrow> Some (Some INVALID_TOSCA_MANIFEST)
      | _ \<Rightarrow> controller_error e)"

text \<open>The application as it was taken from the queue is reported as failed.\<close>

definition handle_application ::
  "environment \<Rightarrow> controller_config \<Rightarrow> k8s_application \<Rightarrow> (controller, unit) co" where
  "handle_application env cfg app =
     co_catch (resource_received env cfg True app)
       (\<lambda>e. case failure_reason e of
          None \<Rightarrow> co_raise e
        | Some code \<Rightarrow> update_status env (app\<lparr>app_reason := code, app_state := App_FAILED\<rparr>))"

text \<open>
  One turn of a worker. \<open>None\<close> if the queue is empty or the handling of the application does not
  return; an exception that the turn ends with ends the worker.
\<close>

definition app_handle_resource ::
  "environment \<Rightarrow> controller_config \<Rightarrow> (string, k8s_application) work_queue \<Rightarrow> controller \<Rightarrow>
     ((exn, unit) res \<times> (string, k8s_application) work_queue \<times> controller) option" where
  "app_handle_resource env cfg q s =
     (case wq_get q of
        None \<Rightarrow> None
      | Some (Inl e, q') \<Rightarrow> Some (Inl e, q', s)
      | Some (Inr (k, app), q') \<Rightarrow>
          map_option (\<lambda>(r, s'). (r, wq_done k q', s')) (handle_application env cfg app s))"

section \<open>The reflector and the observers\<close>

text \<open>
  At startup an observer is started for an application with resources; then, as for every event,
  the application is put into the queue if it is accepted.
\<close>

definition receive_app ::
  "k8s_application \<Rightarrow> (string, k8s_application) work_queue \<Rightarrow> (string, k8s_application) work_queue" where
  "receive_app app q =
     (if scheduled_or_deleting app then wq_put (uid (metadata app)) app None q else q)"

definition list_app ::
  "environment \<Rightarrow> k8s_application \<Rightarrow> (string, k8s_application) work_queue \<Rightarrow>
     (controller, (string, k8s_application) work_queue) co" where
  "list_app env app q =
     co_then
       (if app_running_on app = None then co_return ()
        else
          co_bind co_get (\<lambda>s.
          co_then
            (if uid (metadata app) \<in> dict_keys (observers s) then unregister_observer env app else co_return ())
            (register_observer env True app)))
       (co_return (receive_app app q))"

definition app_status_update :: "environment \<Rightarrow> k8s_application \<Rightarrow> (controller, unit) co" where
  "app_status_update env app =
     co_bind (time_now env) (\<lambda>t. update_status env (app\<lparr>kube_controller_triggered := Some t\<rparr>))"

end
