(* ===== verification/Application_Safety.thy ===== *)
theory Application_Safety
  imports Application_Worker
begin

text \<open>
  The application controller changes resources on clusters only while the application has its
  deletion finalizer at the API: a calculus for what is known of the finalizer along the requests
  of a handler, and the property of the workers.
\<close>

section \<open>The finalizer at the API\<close>

text \<open>
  Whether the application has the deletion finalizer at the API, as far as the controller knows:
  updates that succeed and reads of the application tell it.
\<close>

abbreviation has_finalizer :: "k8s_application \<Rightarrow> bool" where
  "has_finalizer app \<equiv> deletion_finalizer \<in> set (finalizers (metadata app))"

definition finalizer_after :: "environment \<Rightarrow> history \<Rightarrow> controller_request \<Rightarrow> bool \<Rightarrow> bool" where
  "finalizer_after env h r known =
     (case r of
        Update_application app \<Rightarrow> (case outcome env h of Inr _ \<Rightarrow> has_finalizer app | Inl _ \<Rightarrow> known)
      | Read_application _ _ \<Rightarrow> (case application_answer env h of Inr app \<Rightarrow> has_finalizer app | Inl _ \<Rightarrow> known)
      | _ \<Rightarrow> known)"

fun finalizer_known :: "environment \<Rightarrow> history \<Rightarrow> bool \<Rightarrow> controller_request list \<Rightarrow> bool" where
  "finalizer_known env pre known [] = known"
| "finalizer_known env pre known (r # rs) =
     finalizer_known env (pre @ [r]) (finalizer_after env (pre @ [r]) r known) rs"

definition kube_write :: "controller_request \<Rightarrow> bool" where
  "kube_write r \<longleftrightarrow> (case r of Kube c \<Rightarrow> call_verb c \<noteq> Read | _ \<Rightarrow> False)"

text \<open>Resources are only created, changed or deleted while the finalizer is known to be set.\<close>

fun writes_guarded :: "environment \<Rightarrow> history \<Rightarrow> bool \<Rightarrow> controller_request list \<Rightarrow> bool" where
  "writes_guarded env pre known [] \<longleftrightarrow> True"
| "writes_guarded env pre known (r # rs) \<longleftrightarrow>
     (kube_write r \<longrightarrow> known) \<and> writes_guarded env (pre @ [r]) (finalizer_after env (pre @ [r]) r known) rs"

lemma finalizer_known_append:
  "finalizer_known env pre known (a @ b) = finalizer_known env (pre @ a) (finalizer_known env pre known a) b"
  by (induction a arbitrary: pre known) auto

lemma writes_guarded_append:
  "writes_guarded env pre known (a @ b) \<longleftrightarrow>
     writes_guarded env pre known a \<and> writes_guarded env (pre @ a) (finalizer_known env pre known a) b"
  by (induction a arbitrary: pre known) auto

definition guarded_after ::
  "environment \<Rightarrow> controller \<Rightarrow> bool \<Rightarrow> ('a \<Rightarrow> bool \<Rightarrow> bool) \<Rightarrow> (exn, 'a) res \<Rightarrow> controller \<Rightarrow> bool" where
  "guarded_after env s known K r s' \<longleftrightarrow>
     (\<exists>h. sent s' = sent s @ h \<and> writes_guarded env (sent s) known h \<and>
        (case r of Inl _ \<Rightarrow> True | Inr x \<Rightarrow> K x (finalizer_known env (sent s) known h)))"

definition guarded :: "environment \<Rightarrow> bool \<Rightarrow> (controller, 'a) co \<Rightarrow> ('a \<Rightarrow> bool \<Rightarrow> bool) \<Rightarrow> bool" where
  "guarded env known m K \<longleftrightarrow> (\<forall>s. post m s (guarded_after env s known K))"

lemma guarded_after_trans:
  assumes "sent s1 = sent s @ h" and "writes_guarded env (sent s) known h"
    and "guarded_after env s1 (finalizer_known env (sent s) known h) K r s'"
  shows "guarded_after env s known K r s'"
  using assms by (auto simp: guarded_after_def writes_guarded_append finalizer_known_append split: sum.splits)

lemma guarded_bind:
  assumes "guarded env known m K" and "\<And>x k. K x k \<Longrightarrow> guarded env k (f x) L"
  shows "guarded env known (co_bind m f) L"
  unfolding guarded_def
proof
  fix s
  have m: "post m s (guarded_after env s known K)" using assms(1) by (simp add: guarded_def)
  show "post (co_bind m f) s (guarded_after env s known L)"
  proof (rule post_bindI [OF m])
    fix x s1
    assume "guarded_after env s known K (Inr x) s1"
    then obtain h where h: "sent s1 = sent s @ h" "writes_guarded env (sent s) known h"
      "K x (finalizer_known env (sent s) known h)" by (auto simp: guarded_after_def)
    from assms(2) [OF h(3)] have "post (f x) s1 (guarded_after env s1 (finalizer_known env (sent s) known h) L)"
      by (simp add: guarded_def)
    then show "post (f x) s1 (guarded_after env s known L)"
      by (rule post_mono) (rule guarded_after_trans [OF h(1,2)])
  qed (auto simp: guarded_after_def)
qed

lemma guarded_then:
  assumes "guarded env known m K" and "\<And>k. K () k \<Longrightarrow> guarded env k n L"
  shows "guarded env known (co_then m n) L"
  unfolding co_then_def
proof (rule guarded_bind [OF assms(1)])
  show "K x k \<Longrightarrow> guarded env k n L" for x k using assms(2) by (cases x) simp
qed

lemma guarded_catch:
  assumes "guarded env known m K" and "\<And>e k. guarded env k (h e) K"
  shows "guarded env known (co_catch m h) K"
  unfolding guarded_def
proof
  fix s
  have m: "post m s (guarded_after env s known K)" using assms(1) by (simp add: guarded_def)
  show "post (co_catch m h) s (guarded_after env s known K)"
    unfolding post_catch
  proof (rule post_mono [OF m])
    fix r s1
    assume r: "guarded_after env s known K r s1"
    show "case r of Inl e \<Rightarrow> post (h e) s1 (guarded_after env s known K) | Inr x \<Rightarrow> guarded_after env s known K (Inr x) s1"
    proof (cases r)
      case (Inl e)
      from r obtain a where a: "sent s1 = sent s @ a" "writes_guarded env (sent s) known a"
        by (auto simp: guarded_after_def)
      from assms(2) have "post (h e) s1 (guarded_after env s1 (finalizer_known env (sent s) known a) K)"
        by (simp add: guarded_def)
      then have "post (h e) s1 (guarded_after env s known K)"
        by (rule post_mono) (rule guarded_after_trans [OF a])
      with Inl show ?thesis by simp
    qed (use r in simp)
  qed
qed

lemma guarded_return: "K x known \<Longrightarrow> guarded env known (co_return x) K"
  and guarded_raise: "guarded env known (co_raise e) K"
  and guarded_lift: "(\<And>x. r = Inr x \<Longrightarrow> K x known) \<Longrightarrow> guarded env known (co_lift r) K"
  by (auto simp: guarded_def guarded_after_def post_simps split: sum.split)

lemma guarded_weaken:
  assumes "guarded env known m K" and "\<And>x k. K x k \<Longrightarrow> L x k"
  shows "guarded env known m L"
  unfolding guarded_def
proof
  fix s
  have "post m s (guarded_after env s known K)" using assms(1) by (simp add: guarded_def)
  then show "post m s (guarded_after env s known L)"
    by (rule post_mono) (use assms(2) in \<open>auto simp: guarded_after_def split: sum.splits\<close>)
qed

lemma guarded_bind_known:
  assumes "guarded env known m (\<lambda>_ k. k)" and "\<And>x. guarded env True (f x) L"
  shows "guarded env known (co_bind m f) L"
  by (rule guarded_bind [OF assms(1)]) (simp add: assms(2))

text \<open>What neither changes a resource nor tells anything of the finalizer.\<close>

definition harmless :: "controller_request \<Rightarrow> bool" where
  "harmless r \<longleftrightarrow>
     (case r of Kube c \<Rightarrow> call_verb c = Read | Update_application _ \<Rightarrow> False | Read_application _ _ \<Rightarrow> False | _ \<Rightarrow> True)"

text \<open>The same, or a change of a resource.\<close>

definition no_update :: "controller_request \<Rightarrow> bool" where
  "no_update r \<longleftrightarrow> (case r of Update_application _ \<Rightarrow> False | Read_application _ _ \<Rightarrow> False | _ \<Rightarrow> True)"

lemma finalizer_known_no_update: "list_all no_update h \<Longrightarrow> finalizer_known env pre known h = known"
  by (induction h arbitrary: pre known) (auto simp: no_update_def finalizer_after_def split: controller_request.splits)

lemma writes_guarded_harmless: "list_all harmless h \<Longrightarrow> writes_guarded env pre known h"
  by (induction h arbitrary: pre known)
    (auto simp: harmless_def kube_write_def split: controller_request.splits)

lemma writes_guarded_no_update: "list_all no_update h \<Longrightarrow> writes_guarded env pre True h"
  by (induction h arbitrary: pre) (auto simp: no_update_def finalizer_after_def split: controller_request.splits)

lemma harmless_no_update: "harmless r \<Longrightarrow> no_update r"
  by (auto simp: harmless_def no_update_def split: controller_request.splits)

lemma guarded_harmless:
  assumes "adds harmless m"
  shows "guarded env known m (\<lambda>x k. k = known)"
proof -
  have "finalizer_known env pre known h = known" if "list_all harmless h" for pre h
    using finalizer_known_no_update that harmless_no_update by (metis list.pred_mono_strong)
  then show ?thesis unfolding guarded_def guarded_after_def
    by (intro allI post_mono [OF adds_post [OF assms]]) (auto simp: writes_guarded_harmless split: sum.split)
qed

lemma guarded_no_update:
  assumes "adds no_update m"
  shows "guarded env True m (\<lambda>x k. k)"
  unfolding guarded_def guarded_after_def
  by (intro allI post_mono [OF adds_post [OF assms]])
    (auto simp: writes_guarded_no_update finalizer_known_no_update split: sum.split)

section \<open>The requests of the client and of the transfer\<close>

lemma adds_adapter_call:
  assumes "\<And>c. call_verb c = verb \<Longrightarrow> P (Kube c)"
  shows "adds P (adapter_call env config a verb i resource)"
proof (cases a)
  case (Api_adapter c)
  then show ?thesis
    by (auto simp: adapter_call_def Let_def call_arguments_def intro!: adds_intros assms)
next
  case (Api_adapter_custom d)
  then show ?thesis
    by (cases "crd_versions d")
      (auto simp: adapter_call_def Let_def call_arguments_def intro!: adds_intros assms)
qed

lemma adds_remember: "adds P m \<Longrightarrow> adds P (remember m)"
  by (auto simp: adds_def post_def remember_def split: option.splits)

lemma adds_get_resource_api:
  assumes "\<And>config n. P (Read_custom_resource_definition config n)"
  shows "adds P (get_resource_api env cluster i)"
proof -
  have "adds P (read_definition env config n apis)" for config n apis
    unfolding read_definition_def by (auto intro!: adds_intros assms split: exn.split)
  then have "adds P (custom_resource_apis env cluster)"
    unfolding custom_resource_apis_def by (auto intro!: adds_intros adds_remember split: option.split)
  then show ?thesis
    unfolding get_resource_api_def Let_def by (auto intro!: adds_intros split: yaml.split option.split)
qed

lemma adds_delete_resource:
  assumes "\<And>config n. P (Read_custom_resource_definition config n)" and "\<And>c. call_verb c = Delete \<Longrightarrow> P (Kube c)"
  shows "adds P (delete_resource env cluster resource)"
  unfolding delete_resource_def
  by (auto intro!: adds_intros adds_get_resource_api adds_adapter_call assms)

lemma adds_apply_resource:
  assumes "\<And>config n. P (Read_custom_resource_definition config n)" and "\<And>c. call_verb c \<noteq> Delete \<Longrightarrow> P (Kube c)"
  shows "adds P (apply_resource env cluster resource)"
proof -
  have "adds P (read_once env config a i resource)" for config a i
    unfolding read_once_def by (auto intro!: adds_intros adds_adapter_call assms(2) split: exn.split)
  then show ?thesis
    unfolding apply_resource_def
    by (auto intro!: adds_intros adds_get_resource_api adds_adapter_call assms split: if_splits)
qed

lemma adds_for_cluster [adds_intros]: "adds P for_cluster"
  unfolding for_cluster_def by (rule adds_modify) simp

lemma adds_transfer_file:
  assumes "\<And>config pod ns c. P (Exec config pod ns c)"
  shows "adds P (transfer_file env cfg src trg pod ns file)"
proof -
  have "adds P (transfer_attempts env src trg pod ns file n)" for n
    by (induction n) (auto simp: transfer_attempt_def intro!: adds_intros assms)
  then show ?thesis by (simp add: transfer_file_def)
qed

lemma adds_transfer_data:
  assumes "\<And>config pod ns c. P (Exec config pod ns c)" and "\<And>config pod ns. P (Read_pod config pod ns)"
    and "\<And>t. P (Sleep t)" and "\<And>ns n. P (Read_cluster ns n)"
  shows "adds P (transfer_data env cfg src trg app)"
proof -
  have "adds P (await_pod env config manifest ns)" for config manifest ns
    unfolding await_pod_def by (auto intro!: adds_intros assms split: option.split)
  moreover have "adds P (transfer_mount env cfg config config' manifest ns m u)" for config config' manifest ns m u
    unfolding transfer_mount_def find_files_def by (auto intro!: adds_intros adds_transfer_file assms)
  ultimately have "adds P (transfer_manifest env cfg config config' manifest u)" for config config' manifest u
    unfolding transfer_manifest_def transfer_container_def by (auto intro!: adds_intros)
  then show ?thesis
    unfolding transfer_data_def by (auto intro!: adds_intros assms split: option.split)
qed

section \<open>The metadata of an application\<close>

lemma on_manifests_metadata: "on_manifests f app = Inr app' \<Longrightarrow> metadata app' = metadata app"
  by (auto simp: on_manifests_def res_bind_Inr_iff)

lemma service_metadata:
  "set_service n a app = Inr app' \<Longrightarrow> metadata app' = metadata app"
  "del_service n app = Inr app' \<Longrightarrow> metadata app' = metadata app"
  by (auto simp: set_service_def del_service_def split: if_splits)

lemma register_service_metadata: "register_service env cluster resource resp app = Inr app' \<Longrightarrow> metadata app' = metadata app"
  by (auto simp: register_service_def res_bind_Inr_iff dest: service_metadata split: if_splits)

lemma post_apply_metadata:
  "resource_post_apply env cluster resource resp app = Inr app' \<Longrightarrow> metadata app' = metadata app"
  unfolding resource_post_apply_def res_bind_Inr_iff
  by (elim exE conjE) (simp only: on_manifests_metadata register_service_metadata)

lemma post_delete_metadata: "resource_post_delete resource app = Inr app' \<Longrightarrow> metadata app' = metadata app"
  by (auto simp: resource_post_delete_def unregister_service_def res_bind_Inr_iff
      dest!: on_manifests_metadata service_metadata split: if_splits)

lemma prepare_manifests_metadata: "prepare_manifests env app = Inr app' \<Longrightarrow> metadata app' = metadata app"
  unfolding prepare_manifests_def res_bind_Inr_iff
  by (elim exE conjE) (simp only: on_manifests_metadata)

section \<open>The finalizer guards all changes\<close>

abbreviation synced :: "k8s_application \<Rightarrow> bool \<Rightarrow> bool" where
  "synced app known \<equiv> has_finalizer app \<longrightarrow> known"

lemma adds_delete_observed:
  assumes "\<And>config n. P (Read_custom_resource_definition config n)" and "\<And>c. call_verb c = Delete \<Longrightarrow> P (Kube c)"
    and "\<And>ns n. P (Read_cluster ns n)"
  shows "adds P (delete_observed env app)"
  unfolding delete_observed_def Let_def delete_one_def
  by (auto intro!: adds_intros adds_delete_resource assms split: option.split)

lemma adds_delete_manifest:
  assumes "\<And>config n. P (Read_custom_resource_definition config n)" and "\<And>c. call_verb c = Delete \<Longrightarrow> P (Kube c)"
    and "\<And>ns n. P (Read_cluster ns n)"
  shows "adds P (delete_manifest env app)"
  unfolding delete_manifest_def
  by (auto intro!: adds_intros adds_delete_observed assms split: option.split)

lemma guarded_delete_manifest: "guarded env True (delete_manifest env app) (\<lambda>_ k. k)"
  by (intro guarded_no_update adds_delete_manifest) (simp_all add: no_update_def)

lemma guarded_status: "guarded env known (update_status env app) (\<lambda>_ k. k = known)"
  by (intro guarded_harmless adds_ask) (simp add: harmless_def)

lemma guarded_update_app: "guarded env known (update_app env app) (\<lambda>_ k. k = has_finalizer app)"
  by (auto simp: guarded_def guarded_after_def post_simps kube_write_def finalizer_after_def split: sum.split)

lemma guarded_scheduled_cluster: "guarded env known (scheduled_cluster env app) (\<lambda>_ k. k = known)"
  unfolding scheduled_cluster_def
  by (intro guarded_harmless) (auto intro!: adds_intros simp: harmless_def split: option.split)

lemma guarded_ensure_finalizer:
  "synced app known \<Longrightarrow> guarded env known (ensure_finalizer env app) (\<lambda>_ k. k)"
  unfolding ensure_finalizer_def Let_def
  by (auto intro!: guarded_return guarded_then [OF guarded_update_app])

lemma guarded_apply_delta: "guarded env True (apply_delta env cluster d app) (\<lambda>_ k. k)"
  unfolding apply_delta_def delete_one_def apply_one_def Let_def
  by (intro guarded_no_update) (auto intro!: adds_intros adds_delete_resource adds_apply_resource simp: no_update_def)

lemma guarded_apply_manifest: "guarded env True (apply_manifest env d app) (\<lambda>_ k. k)"
  unfolding apply_manifest_def
proof (rule guarded_bind [OF guarded_ensure_finalizer], simp)
  fix app and k :: bool assume k
  show "guarded env k (co_bind (scheduled_cluster env app) (\<lambda>cluster.
    co_then for_cluster
       (co_bind (apply_delta env cluster d app) (\<lambda>app.
        co_return (app\<lparr>app_running_on := app_scheduled_to app\<rparr>))))) (\<lambda>_ k. k)"
  proof (rule guarded_bind [OF guarded_scheduled_cluster])
    fix cluster k' assume "k' = k"
    with \<open>k\<close> have [simp]: k' by simp
    show "guarded env k' (co_then for_cluster
       (co_bind (apply_delta env cluster d app) (\<lambda>app.
        co_return (app\<lparr>app_running_on := app_scheduled_to app\<rparr>)))) (\<lambda>_ k. k)"
      by (rule guarded_then [OF guarded_harmless [OF adds_for_cluster]])
        (auto intro!: guarded_bind [OF guarded_apply_delta] guarded_return)
  qed
qed

lemma guarded_translate:
  assumes "synced app known"
  shows "guarded env known (translate_tosca env app) synced"
proof -
  have "guarded env known (let app = app\<lparr>app_state := App_TRANSLATING\<rparr> in
        co_then (update_status env app)
          (co_bind (co_lift (translation env app)) (\<lambda>manifest.
           let app = app\<lparr>app_manifests := (app_manifests app)\<lparr>spec_manifest := manifest\<rparr>\<rparr> in
           co_then (update_app env app) (co_return app)))) synced"
    unfolding Let_def
    by (rule guarded_then [OF guarded_status], rule guarded_bind [OF guarded_lift [where K = "\<lambda>_ _. True"]])
      (auto intro!: guarded_then [OF guarded_update_app] guarded_return)
  then show ?thesis using assms unfolding translate_tosca_def by (auto intro!: guarded_return guarded_raise)
qed

lemma guarded_prepare:
  "synced app known \<Longrightarrow> guarded env known (co_lift (prepare_manifests env app)) (\<lambda>app' k. synced app' k)"
  by (rule guarded_lift) (simp add: prepare_manifests_metadata)

lemma guarded_reconcile:
  assumes "synced app known"
  shows "guarded env known (reconcile_application env app) (\<lambda>_ _. True)"
proof (cases "app_scheduled_to app")
  case None
  then show ?thesis by (simp add: reconcile_application_def guarded_raise)
next
  case (Some r)
  have read: "guarded env known (read_cluster env r) (\<lambda>_ k. k = known)"
    by (intro guarded_harmless adds_read_cluster) (simp add: harmless_def)
  have rest: "guarded env k
      (co_bind (ensure_finalizer env app) (\<lambda>app.
            let app = app\<lparr>app_state := if app_running_on app = None then App_CREATING else App_RECONCILING\<rparr> in
            co_then (update_status env app)
              (co_bind (apply_manifest env d app) (\<lambda>app.
               let app = app\<lparr>app_state := App_RUNNING, app_reason := None\<rparr> in
               co_then (update_status env app) (co_return app))))) (\<lambda>_ _. True)"
    if "synced app k" for app d k
    unfolding Let_def
    by (rule guarded_bind [OF guarded_ensure_finalizer [OF that]], rule guarded_then [OF guarded_status])
      (auto intro!: guarded_bind [OF guarded_apply_manifest] guarded_then [OF guarded_status] guarded_return)
  have changes: "guarded env k (co_lift (needed_changes m)) (\<lambda>_ k'. k' = k)" for m k
    by (rule guarded_lift) simp
  show ?thesis
    unfolding reconcile_application_def Some option.case
    by (rule guarded_bind [OF read], rule guarded_bind [OF guarded_translate], use assms in simp,
        rule guarded_bind [OF guarded_prepare], assumption, rule guarded_bind [OF changes])
      (auto intro: rest guarded_return)
qed

lemma guarded_start_migration:
  "synced app known \<Longrightarrow> guarded env known (start_migration env app) (\<lambda>_ k. k)"
  unfolding start_migration_def Let_def
  by (auto intro!: guarded_bind [OF guarded_ensure_finalizer] guarded_then [OF guarded_status] guarded_return)

lemma guarded_create_on_target: "guarded env True (create_on_target env app) (\<lambda>_ k. k)"
  unfolding create_on_target_def
  by (rule guarded_bind [OF guarded_scheduled_cluster],
      rule guarded_bind [OF guarded_lift [where K = "\<lambda>_ k. k"]])
    (auto intro: guarded_apply_manifest)

lemma guarded_migrate:
  assumes "synced app known"
  shows "guarded env known (migrate_application env app) (\<lambda>_ _. True)"
  unfolding migrate_application_def Let_def
  by (rule guarded_bind [OF guarded_start_migration [OF assms]])
    (auto intro!: guarded_bind [OF guarded_delete_manifest] guarded_bind [OF guarded_create_on_target]
      guarded_then [OF guarded_status] guarded_then [OF guarded_update_app] guarded_return)

lemma guarded_read_application:
  "guarded env known (ask (application_answer env) (Read_application ns n)) synced"
  by (auto simp: guarded_def guarded_after_def post_simps kube_write_def finalizer_after_def split: sum.split)

lemma guarded_transfer: "guarded env known (transfer_data env cfg src trg app) (\<lambda>_ k. k = known)"
  by (intro guarded_harmless adds_transfer_data) (simp_all add: harmless_def)

lemma guarded_transferred:
  "guarded env True
     (co_catch (co_then (transfer_data env cfg src trg app) (co_return True))
       (\<lambda>e. if e = MaxTriesError \<or> e = MigrationError then co_return False else co_raise e)) (\<lambda>_ k. k)"
proof (rule guarded_no_update)
  have "adds no_update (transfer_data env cfg src trg app)"
    by (rule adds_transfer_data) (simp_all add: no_update_def)
  then show "adds no_update (co_catch (co_then (transfer_data env cfg src trg app) (co_return True))
       (\<lambda>e. if e = MaxTriesError \<or> e = MigrationError then co_return False else co_raise e))"
    by (auto intro!: adds_intros)
qed

lemma guarded_time: "guarded env known (time_now env) (\<lambda>_ k. k = known)"
  by (intro guarded_harmless adds_time_now)

lemma guarded_migrate_with_volumes:
  "guarded env known (migrate_application_with_volumes env cfg app) (\<lambda>_ _. True)"
proof -
  have settle: "guarded env True
      (if transferred then finish_migration env old app else reset_migration env cfg old app) (\<lambda>_ k. k)"
    for transferred old app
    unfolding finish_migration_def reset_migration_def Let_def
    by (auto intro!: guarded_bind [OF guarded_delete_manifest] guarded_bind [OF guarded_time] guarded_return)
  have last: "guarded env k (update_status env app) (\<lambda>_ _. True)" for k app
    by (rule guarded_weaken [OF guarded_status]) simp
  have rest: "guarded env k
      (co_bind (start_migration env app) (\<lambda>old.
       co_bind (create_on_target env old) (\<lambda>app.
       co_bind
         (co_catch (co_then (transfer_data env cfg (app_running_on old) (app_running_on app) app) (co_return True))
           (\<lambda>e. if e = MaxTriesError \<or> e = MigrationError then co_return False else co_raise e)) (\<lambda>transferred.
       co_bind (if transferred then finish_migration env old app else reset_migration env cfg old app) (\<lambda>app.
       update_status env (app\<lparr>shutdown_grace_period := None, app_state := App_RUNNING\<rparr>)))))) (\<lambda>_ _. True)"
    if "synced app k" for app k
    by (rule guarded_bind_known [OF guarded_start_migration [OF that]],
        rule guarded_bind_known [OF guarded_create_on_target],
        rule guarded_bind_known [OF guarded_transferred],
        rule guarded_bind_known [OF settle], rule last)
  show ?thesis
    unfolding migrate_application_with_volumes_def
    by (rule guarded_bind [OF guarded_read_application]) (auto intro: rest guarded_return)
qed

lemma adds_trigger_shutdown: "adds harmless (trigger_shutdown env cfg app)"
  unfolding trigger_shutdown_def Let_def by (auto intro!: adds_intros simp: harmless_def)

lemma guarded_trigger_shutdown: "guarded env known (trigger_shutdown env cfg app) (\<lambda>_ k. k = known)"
  by (rule guarded_harmless [OF adds_trigger_shutdown])

lemma guarded_register: "guarded env known (register_observer env start app) (\<lambda>_ _. True)"
  by (rule guarded_weaken [OF guarded_harmless]) (auto intro!: adds_intros simp: harmless_def)

lemma guarded_unregister: "guarded env known (unregister_observer env app) (\<lambda>_ k. k = known)"
  by (intro guarded_harmless adds_intros) (simp add: harmless_def)

lemma guarded_remove_finalizer: "guarded env known (remove_finalizer env app) (\<lambda>_ _. True)"
  unfolding remove_finalizer_def Let_def
  by (auto intro!: guarded_raise guarded_then [OF guarded_status] guarded_then [OF guarded_update_app] guarded_return)

lemma guarded_delete_application: "guarded env True (delete_application env app) (\<lambda>_ _. True)"
proof -
  have "adds harmless (co_catch (co_then (update_status env a) (co_return True))
          (\<lambda>e. if e = ClientResponseError 404 then co_return False else co_raise e))" for a
    by (auto intro!: adds_intros simp: harmless_def)
  note start = guarded_harmless [OF this]
  show ?thesis unfolding delete_application_def Let_def
    by (rule guarded_bind [OF start])
      (auto intro!: guarded_return guarded_bind [OF guarded_delete_manifest] guarded_remove_finalizer)
qed

lemma guarded_resource_received:
  assumes "synced app known" and "deleted (metadata app) \<noteq> None \<Longrightarrow> known"
  shows "guarded env known (resource_received env cfg start app) (\<lambda>_ _. True)"
proof -
  have ret: "guarded env k (co_return ()) (\<lambda>_ _. True)" for k by (rule guarded_return) simp
  have trigger: "guarded env known (co_bind (trigger_shutdown env cfg a) (\<lambda>_. co_return ())) (\<lambda>_ _. True)" for a
    by (rule guarded_bind [OF guarded_trigger_shutdown]) (rule ret)
  have "guarded env known (received_deleted env cfg app) (\<lambda>_ _. True)" if known
  proof -
    have "guarded env known (co_then (unregister_observer env app)
        (co_bind (delete_application env app) (\<lambda>_. co_return ()))) (\<lambda>_ _. True)"
      using that by (auto intro!: guarded_then [OF guarded_unregister] guarded_bind [OF guarded_delete_application] ret)
    then show ?thesis unfolding received_deleted_def
      by (intro guarded_catch) (auto intro: trigger ret guarded_raise)
  qed
  moreover have "guarded env known (shutdown_before_migration env cfg app) (\<lambda>_ _. True)"
  proof -
    have "guarded env known (if app_state app \<in> {App_RUNNING, App_RECONCILING}
        then let app = app\<lparr>app_state := App_WAITING_FOR_CLEANING\<rparr> in
          co_then (update_status env app) (co_return app)
        else co_return app) (\<lambda>_ k. k = known)"
      unfolding Let_def by (auto intro!: guarded_then [OF guarded_status] guarded_return)
    then show ?thesis unfolding shutdown_before_migration_def
      by (rule guarded_bind) (auto intro: trigger ret)
  qed
  moreover have "guarded env known (co_then (unregister_observer env app)
          (co_bind
            (if check_for_volumes app
             then co_then (migrate_application_with_volumes env cfg app) (co_return app)
             else migrate_application env app)
            (register_observer env start))) (\<lambda>_ _. True)"
    using assms(1)
    by (intro guarded_then [OF guarded_unregister])
      (auto intro!: guarded_bind [OF _ guarded_register] guarded_migrate
        guarded_then [OF guarded_migrate_with_volumes] guarded_return)
  moreover have "guarded env known (received_reconciling env start app) (\<lambda>_ _. True)"
    using assms(1) unfolding received_reconciling_def
    by (intro guarded_then [OF guarded_unregister]) (auto intro!: guarded_bind [OF guarded_reconcile guarded_register])
  ultimately show ?thesis using assms(2) unfolding resource_received_def received_migrating_def by auto
qed

section \<open>Properties\<close>

text \<open>
  C2. A worker creates, changes or deletes a Kubernetes resource of an application that the
  controller accepted only after the application has the deletion finalizer at the API, from the
  start or by an update that succeeded before; so the API cannot remove the application while it
  has resources. This holds for every answer of the API and of the clusters.
\<close>

theorem finalizer_guards_resources:
  assumes "scheduled_or_deleting app" and "handle_application env cfg app s = Some (r, s')"
  shows "\<exists>h. sent s' = sent s @ h \<and> writes_guarded env (sent s) (has_finalizer app) h"
proof -
  have "deleted (metadata app) \<noteq> None \<Longrightarrow> has_finalizer app"
    using assms(1) last_in_set [of "finalizers (metadata app)"] by (auto simp: scheduled_or_deleting_def)
  then have received: "guarded env (has_finalizer app) (resource_received env cfg True app) (\<lambda>_ _. True)"
    by (intro guarded_resource_received) simp_all
  have "guarded env k (case failure_reason e of None \<Rightarrow> co_raise e
      | Some code \<Rightarrow> update_status env (app\<lparr>app_reason := code, app_state := App_FAILED\<rparr>)) (\<lambda>_ _. True)" for e k
    by (auto intro: guarded_raise guarded_weaken [OF guarded_status] split: option.split)
  with received have "guarded env (has_finalizer app) (handle_application env cfg app) (\<lambda>_ _. True)"
    unfolding handle_application_def by (rule guarded_catch)
  then have "post (handle_application env cfg app) s (guarded_after env s (has_finalizer app) (\<lambda>_ _. True))"
    by (simp add: guarded_def)
  from postD [OF this assms(2)] show ?thesis by (auto simp: guarded_after_def)
qed

section \<open>An example\<close>

definition example_environment :: environment where
  "example_environment =
     \<lparr>cluster_answer = \<lambda>_. Inr \<lparr>kubeconfig = Obj [(''contexts'', Arr [Obj [(''context'', Obj [])]])], kube_custom_resources = []\<rparr>,
      application_answer = \<lambda>_. Inl (ClientResponseError 404),
      outcome = \<lambda>_. Inr (),
      definition_answer = \<lambda>_. Inl (ApiException 404),
      kube_answer = \<lambda>h. (case last h of
          Kube c \<Rightarrow> (case call_body c of
             None \<Rightarrow> Inl (ApiException 404)
           | Some _ \<Rightarrow> Inr (Model (Obj [(''api_version'', Text ''v1''), (''kind'', Text ''ConfigMap''),
               (''metadata'', Obj [(''name'', Text ''m'')])])))
        | _ \<Rightarrow> Inl TypeError),
      pod_phase = \<lambda>_. Inr ''Running'', exec_answer = \<lambda>_. Inr [], clock = \<lambda>h. int (length h),
      cluster_host = \<lambda>_. Inr (Text ''host''),
      library_class = \<lambda>c. c = ''CoreV1Api'',
      library_method = \<lambda>c m. m \<in> set [''read_namespaced_config_map'', ''create_namespaced_config_map'',
          ''patch_namespaced_config_map'', ''delete_namespaced_config_map''],
      translation = \<lambda>_. Inl ToscaParserException, mangling = \<lambda>app. Inr (app_manifests app)\<rparr>"

definition example_config :: controller_config where
  "example_config = \<lparr>shutdown_timeout = 60, failure_retry_count = 2, failure_strategy = ''give_up'',
     migration_max_retries = 10, migration_delay = 60\<rparr>"

definition example_map :: yaml where
  "example_map = Obj [(''apiVersion'', Text ''v1''), (''kind'', Text ''ConfigMap''), (''metadata'', Obj [(''name'', Text ''m'')])]"

definition example_ref :: "string \<Rightarrow> resource_ref" where
  "example_ref n = \<lparr>ref_api = ''kubernetes'', ref_namespace = Some ''ns'', ref_kind = ''Cluster'', ref_name = n\<rparr>"

definition scheduled_application :: k8s_application where
  "scheduled_application =
     \<lparr>api = ''kubernetes'', kind = ''Application'',
      metadata = \<lparr>name = ''app'', namespace = Some ''ns'', labels = [], inherit_labels = False, finalizers = [],
        uid = ''u'', created = 0, modified = 1, deleted = None, owners = [example_ref ''new'']\<rparr>,
      app_constraints = None, app_backoff = 1, app_backoff_delay = 1, app_backoff_limit = -1,
      auto_cluster_create = False, app_state = App_PENDING, app_reason = None,
      kube_controller_triggered = Some 2, app_scheduled = Some 2, app_scheduled_to = Some (example_ref ''new''),
      app_retries = None, scheduled_retry = None, auto_cluster_create_started = None, migration_timeout = 0,
      app_manifests = \<lparr>spec_manifest = [example_map], spec_observer_schema = [], mangled_observer_schema = [],
        last_applied_manifest = [], last_observed_manifest = []\<rparr>,
      app_tosca = Obj [], app_csar = None, app_hooks = [], shutdown_grace_time = None,
      shutdown_failure_strategy = None, shutdown_retry_count = None, app_running_on = None, app_services = [],
      app_health = None, shutdown_grace_period = None, migration_retries = 0\<rparr>"

definition idle :: controller where
  "idle = \<lparr>sent = [], observers = [], crd_cache = None\<rparr>"

theorem finalizer_guards_resources_witness:
  "\<exists>r s'. handle_application example_environment example_config scheduled_application idle = Some (r, s') \<and>
     list_ex kube_write (sent s') \<and> writes_guarded example_environment [] False (sent s')"
proof -
  have w: "case handle_application example_environment example_config scheduled_application idle of
      None \<Rightarrow> False | Some (r, s') \<Rightarrow> list_ex kube_write (sent s')" by code_simp
  then obtain r s' where h: "handle_application example_environment example_config scheduled_application idle = Some (r, s')"
    by (auto split: option.splits)
  have "scheduled_or_deleting scheduled_application" by code_simp
  from finalizer_guards_resources [OF this h] obtain t where
    "sent s' = sent idle @ t" "writes_guarded example_environment (sent idle) (has_finalizer scheduled_application) t"
    by blast
  with h w show ?thesis by (simp add: idle_def scheduled_application_def)
qed

end
