(* ===== verification/Application_Order.thy ===== *)
theory Application_Order
  imports Application_Safety
begin

text \<open>
  The order in which the application controller works: the finalizer of a deleted application is
  removed, and the resources of a migrated one are created, only after everything that was
  observed has been deleted from the cluster that the application ran on; and what a finished
  reconciliation has achieved.
\<close>

section \<open>What has been deleted\<close>

definition deletes :: "yaml \<Rightarrow> yaml \<Rightarrow> kube_call \<Rightarrow> bool" where
  "deletes config resource c \<longleftrightarrow>
     call_verb c = Delete \<and> call_config c = config \<and>
     (case get_immutables config resource of
        Inl _ \<Rightarrow> False
      | Inr i \<Rightarrow> call_name c = Some (res_name i) \<and> call_namespace c \<in> {None, Some (res_namespace i)})"

text \<open>The cluster has deleted the resource, or says that it does not exist.\<close>

definition deleted_in :: "environment \<Rightarrow> history \<Rightarrow> controller_request list \<Rightarrow> yaml \<Rightarrow> yaml \<Rightarrow> bool" where
  "deleted_in env pre h config resource \<longleftrightarrow>
     (\<exists>h1 c h2. h = h1 @ Kube c # h2 \<and> deletes config resource c \<and>
        (case kube_answer env (pre @ h1 @ [Kube c]) of Inl e \<Rightarrow> e = ApiException 404 | Inr _ \<Rightarrow> True))"

definition deleted_on ::
  "environment \<Rightarrow> history \<Rightarrow> controller_request list \<Rightarrow> resource_ref \<Rightarrow> yaml \<Rightarrow> bool" where
  "deleted_on env pre h r resource \<longleftrightarrow>
     (\<exists>h1 h2 cluster. h = h1 @ Read_cluster (ref_namespace r) (ref_name r) # h2 \<and>
        cluster_answer env (pre @ h1 @ [Read_cluster (ref_namespace r) (ref_name r)]) = Inr cluster \<and>
        deleted_in env (pre @ h1 @ [Read_cluster (ref_namespace r) (ref_name r)]) h2 (kubeconfig cluster) resource)"

lemma deleted_in_append: "deleted_in env pre h config x \<Longrightarrow> deleted_in env pre (h @ h') config x"
  unfolding deleted_in_def by force

lemma deleted_in_shift: "deleted_in env (pre @ a) h config x \<Longrightarrow> deleted_in env pre (a @ h) config x"
proof -
  assume "deleted_in env (pre @ a) h config x"
  then obtain h1 c h2 where h: "h = h1 @ Kube c # h2" "deletes config x c"
    "case kube_answer env ((pre @ a) @ h1 @ [Kube c]) of Inl e \<Rightarrow> e = ApiException 404 | Inr _ \<Rightarrow> True"
    unfolding deleted_in_def by blast
  show ?thesis unfolding deleted_in_def
    by (rule exI [of _ "a @ h1"], rule exI [of _ c], rule exI [of _ h2]) (use h in simp)
qed

lemma deleted_on_append: "deleted_on env pre h r x \<Longrightarrow> deleted_on env pre (h @ h') r x"
  unfolding deleted_on_def by (force dest: deleted_in_append)

lemma deleted_on_shift: "deleted_on env (pre @ a) h r x \<Longrightarrow> deleted_on env pre (a @ h) r x"
proof -
  let ?read = "Read_cluster (ref_namespace r) (ref_name r)"
  assume "deleted_on env (pre @ a) h r x"
  then obtain h1 h2 cluster where h: "h = h1 @ ?read # h2"
    "cluster_answer env ((pre @ a) @ h1 @ [?read]) = Inr cluster"
    "deleted_in env ((pre @ a) @ h1 @ [?read]) h2 (kubeconfig cluster) x"
    unfolding deleted_on_def by blast
  show ?thesis unfolding deleted_on_def
    by (rule exI [of _ "a @ h1"], rule exI [of _ h2], rule exI [of _ cluster]) (use h in simp)
qed

section \<open>Deleting what was observed\<close>

text \<open>A successful deletion of one resource.\<close>

lemma adapter_call_delete:
  assumes "get_immutables config resource = Inr i"
  shows "post (adapter_call env config a Delete i resource) s
    (\<lambda>r s'. case r of
       Inr _ \<Rightarrow> \<exists>c. sent s' = sent s @ [Kube c] \<and> deletes config resource c \<and> (\<exists>x. kube_answer env (sent s @ [Kube c]) = Inr x)
     | Inl e \<Rightarrow> e = ApiException 404 \<longrightarrow>
         (\<exists>c. sent s' = sent s @ [Kube c] \<and> deletes config resource c \<and> kube_answer env (sent s @ [Kube c]) = Inl e))"
  (is "post _ s ?Q")
proof -
  have step: "post (ask (kube_answer env) (Kube c)) s ?Q" if "deletes config resource c" for c
    using that by (auto simp: post_ask split: sum.split)
  have deletes: "deletes config resource c"
    if "call_verb c = Delete" "call_config c = config" "call_name c = Some (res_name i)"
      "call_namespace c \<in> {None, Some (res_namespace i)}" for c
    using that assms by (simp add: deletes_def)
  show ?thesis
  proof (cases a)
    case (Api_adapter cls)
    show ?thesis
    proof (cases "res_kind i")
      case (Text k)
      show ?thesis unfolding adapter_call_def Let_def Api_adapter adapter.case Text as_text.simps post_bind post_lift sum.case
        by (auto simp: call_arguments_def post_raise intro!: step deletes)
    qed (simp_all add: adapter_call_def Let_def Api_adapter post_simps)
  next
    case (Api_adapter_custom d)
    show ?thesis
      by (cases "crd_versions d")
        (auto simp: adapter_call_def Let_def Api_adapter_custom post_raise call_arguments_def intro!: step deletes)
  qed
qed

definition deletion :: "environment \<Rightarrow> yaml \<Rightarrow> yaml \<Rightarrow> controller \<Rightarrow> (exn, 'a) res \<Rightarrow> controller \<Rightarrow> bool" where
  "deletion env config resource s r s' \<longleftrightarrow>
     (\<exists>h. sent s' = sent s @ h \<and> (case r of Inl _ \<Rightarrow> True | Inr _ \<Rightarrow> deleted_in env (sent s) h config resource))"

lemma delete_resource_deletes:
  "post (delete_resource env cluster resource) s (deletion env (kubeconfig cluster) resource s)"
proof (cases "get_immutables (kubeconfig cluster) resource")
  case (Inl e)
  then show ?thesis by (simp add: delete_resource_def post_simps deletion_def)
next
  case (Inr i)
  let ?config = "kubeconfig cluster"
  have api: "post (get_resource_api env cluster i) s (\<lambda>r s'. \<exists>h. sent s' = sent s @ h)"
    by (rule post_mono [OF adds_post [where P = "\<lambda>_. True"]]) (auto intro: adds_get_resource_api)
  have delete: "post (co_catch (co_bind (adapter_call env ?config a Delete i resource) (\<lambda>resp. co_return (Some resp)))
      (\<lambda>e. if e = ApiException 404 then co_return None else co_raise e)) s1 (deletion env ?config resource s)"
    if h: "sent s1 = sent s @ h" for a h and s1 :: controller
  proof -
    have del: "deleted_in env (sent s) (h @ [Kube c]) ?config resource"
      if "deletes ?config resource c"
        "case kube_answer env (sent s1 @ [Kube c]) of Inl e \<Rightarrow> e = ApiException 404 | Inr _ \<Rightarrow> True" for c
      unfolding deleted_in_def using that h by (intro exI [of _ h] exI [of _ c] exI [of _ "[]"]) simp
    have grows: "post (adapter_call env ?config a Delete i resource) s1 (\<lambda>r s'. \<exists>h. sent s' = sent s1 @ h)"
      by (rule post_mono [OF adds_post [where P = "\<lambda>_. True"]]) (auto intro: adds_adapter_call)
    show ?thesis
      unfolding post_catch post_bind
      by (rule post_mono [OF post_conj [OF grows adapter_call_delete [OF Inr]]])
        (auto simp: post_return post_raise deletion_def h split: sum.splits intro!: del)
  qed
  show ?thesis
    unfolding delete_resource_def Inr post_bind post_lift sum.case
    by (rule post_mono [OF api]) (auto split: sum.split intro: delete simp: deletion_def)
qed

definition all_deleted_in ::
  "environment \<Rightarrow> yaml \<Rightarrow> yaml list \<Rightarrow> controller \<Rightarrow> controller \<Rightarrow> bool" where
  "all_deleted_in env config resources s s' \<longleftrightarrow>
     (\<exists>h. sent s' = sent s @ h \<and> (\<forall>x \<in> set resources. deleted_in env (sent s) h config x))"

definition all_deleted_on ::
  "environment \<Rightarrow> resource_ref \<Rightarrow> yaml list \<Rightarrow> controller \<Rightarrow> controller \<Rightarrow> bool" where
  "all_deleted_on env r resources s s' \<longleftrightarrow>
     (\<exists>h. sent s' = sent s @ h \<and> (\<forall>x \<in> set resources. deleted_on env (sent s) h r x))"

lemma delete_one_deletes:
  assumes "all_deleted_in env (kubeconfig cluster) before s s1"
  shows "post (delete_one env cluster x app) s1
    (\<lambda>r s'. case r of Inl _ \<Rightarrow> True | Inr _ \<Rightarrow> all_deleted_in env (kubeconfig cluster) (before @ [x]) s s')"
proof -
  let ?config = "kubeconfig cluster"
  from assms obtain h where h: "sent s1 = sent s @ h" "\<forall>y \<in> set before. deleted_in env (sent s) h ?config y"
    unfolding all_deleted_in_def by blast
  have "all_deleted_in env ?config (before @ [x]) s s'" if "deletion env ?config x s1 (Inr u) s'" for u :: "response option" and s'
  proof -
    from that obtain h' where h': "sent s' = sent s1 @ h'" "deleted_in env (sent s1) h' ?config x"
      unfolding deletion_def by auto
    have "deleted_in env (sent s) (h @ h') ?config x" using deleted_in_shift h(1) h'(2) by simp
    moreover have "\<forall>y \<in> set before. deleted_in env (sent s) (h @ h') ?config y" using h(2) deleted_in_append by blast
    ultimately show ?thesis unfolding all_deleted_in_def using h(1) h'(1) by auto
  qed
  then show ?thesis
    unfolding delete_one_def post_bind
    by (intro post_mono [OF delete_resource_deletes]) (auto simp: post_lift split: sum.split)
qed

lemma delete_fold_deletes:
  "post (co_fold (delete_one env cluster) resources app) s
    (\<lambda>r s'. case r of Inl _ \<Rightarrow> True | Inr _ \<Rightarrow> all_deleted_in env (kubeconfig cluster) resources s s')"
proof (rule post_fold [where I = "\<lambda>ys b s1. \<exists>before. resources = before @ ys \<and>
      all_deleted_in env (kubeconfig cluster) before s s1"])
  show "\<exists>before. resources = before @ resources \<and> all_deleted_in env (kubeconfig cluster) before s s"
    by (auto simp: all_deleted_in_def)
  fix y ys b and s1 :: controller
  assume "\<exists>before. resources = before @ y # ys \<and> all_deleted_in env (kubeconfig cluster) before s s1"
  then obtain before where b: "resources = before @ y # ys" "all_deleted_in env (kubeconfig cluster) before s s1"
    by blast
  show "post (delete_one env cluster y b) s1 (\<lambda>r s'. case r of
      Inl e \<Rightarrow> (case Inl e of Inl _ \<Rightarrow> True | Inr _ \<Rightarrow> all_deleted_in env (kubeconfig cluster) resources s s')
    | Inr b' \<Rightarrow> \<exists>before. resources = before @ ys \<and> all_deleted_in env (kubeconfig cluster) before s s')"
    by (rule post_mono [OF delete_one_deletes [OF b(2)]]) (use b(1) in \<open>auto split: sum.splits\<close>)
qed auto

lemma delete_observed_deletes:
  assumes "app_running_on app = Some r"
  shows "post (delete_observed env app) s
    (\<lambda>res s'. case res of Inl _ \<Rightarrow> True
       | Inr _ \<Rightarrow> all_deleted_on env r (last_observed_manifest (app_manifests app)) s s')"
proof (cases "last_observed_manifest (app_manifests app) = []")
  case True
  then show ?thesis using assms by (simp add: delete_observed_def post_return all_deleted_on_def)
next
  case False
  let ?read = "Read_cluster (ref_namespace r) (ref_name r)"
  have all: "all_deleted_on env r resources s s'"
    if "all_deleted_in env (kubeconfig cluster) resources (s\<lparr>sent := sent s @ [?read], crd_cache := None\<rparr>) s'"
      "cluster_answer env (sent s @ [?read]) = Inr cluster" for resources cluster s'
  proof -
    from that(1) obtain h where h: "sent s' = (sent s @ [?read]) @ h"
      "\<forall>x \<in> set resources. deleted_in env (sent s @ [?read]) h (kubeconfig cluster) x"
      unfolding all_deleted_in_def by auto
    then have "\<forall>x \<in> set resources. deleted_on env (sent s) ([?read] @ h) r x"
      unfolding deleted_on_def using that(2) by fastforce
    with h(1) show ?thesis unfolding all_deleted_on_def by auto
  qed
  have run: "post (co_then for_cluster (co_fold (delete_one env cluster) (last_observed_manifest (app_manifests app)) app))
      (s\<lparr>sent := sent s @ [?read]\<rparr>)
      (\<lambda>res s'. case res of Inl _ \<Rightarrow> True | Inr _ \<Rightarrow> all_deleted_on env r (last_observed_manifest (app_manifests app)) s s')"
    if "cluster_answer env (sent s @ [?read]) = Inr cluster" for cluster
    unfolding for_cluster_def post_then post_modify sum.case
    by (rule post_mono [OF delete_fold_deletes]) (use that in \<open>auto split: sum.splits intro: all\<close>)
  show ?thesis using False assms
    by (cases "cluster_answer env (sent s @ [?read])")
      (auto simp: delete_observed_def Let_def post_bind post_read_cluster intro: run)
qed

text \<open>The whole deletion, with the requests that it sends.\<close>

lemma delete_manifest_deletes:
  assumes "app_running_on app = Some r"
  shows "post (delete_manifest env app) s
    (\<lambda>res s'. case res of Inl _ \<Rightarrow> True
       | Inr _ \<Rightarrow> all_deleted_on env r (last_observed_manifest (app_manifests app)) s s')"
proof -
  have rest: "post (case app_running_on app' of None \<Rightarrow> co_return app' | Some r \<Rightarrow>
         if r \<notin> set (owners (metadata app')) then co_raise ValueError
         else co_return
           (app'\<lparr>metadata := (metadata app')\<lparr>owners := remove1 r (owners (metadata app'))\<rparr>, app_running_on := None\<rparr>)) s1
      (\<lambda>res s'. case res of Inl _ \<Rightarrow> True | Inr _ \<Rightarrow> P s')" if "P s1" for app' P and s1 :: controller
    using that by (auto simp: post_return post_raise split: option.split)
  show ?thesis
    unfolding delete_manifest_def
    by (rule post_bindI [OF delete_observed_deletes [OF assms]]) (auto intro: rest)
qed

section \<open>Two phases\<close>

text \<open>
  The requests come in two phases: those of the first satisfy \<open>Q\<close>, and the second begins only
  when all the resources have been deleted in the first.
\<close>

definition in_phases ::
  "environment \<Rightarrow> resource_ref \<Rightarrow> yaml list \<Rightarrow> (controller_request \<Rightarrow> bool) \<Rightarrow> controller \<Rightarrow> controller \<Rightarrow> bool" where
  "in_phases env r xs Q s s' \<longleftrightarrow>
     (\<exists>a b. sent s' = sent s @ a @ b \<and> list_all Q a \<and>
        (b \<noteq> [] \<longrightarrow> (\<forall>x \<in> set xs. deleted_on env (sent s) a r x)))"

definition phased ::
  "environment \<Rightarrow> resource_ref \<Rightarrow> yaml list \<Rightarrow> (controller_request \<Rightarrow> bool) \<Rightarrow> (controller, 'a) co \<Rightarrow> bool" where
  "phased env r xs Q m \<longleftrightarrow> (\<forall>s. post m s (\<lambda>_. in_phases env r xs Q s))"

lemma in_phases_first: "sent (s' :: controller) = sent (s :: controller) @ a \<Longrightarrow> list_all Q a \<Longrightarrow> in_phases env r xs Q s s'"
  unfolding in_phases_def by (rule exI [of _ a], rule exI [of _ "[]"]) simp

lemma in_phases_more:
  assumes "in_phases env r xs Q s s1" and "sent (s' :: controller) = sent s1 @ h" and "list_all Q h"
  shows "in_phases env r xs Q s s'"
proof -
  from assms(1) obtain a b where ab: "sent s1 = sent s @ a @ b" "list_all Q a"
    "b \<noteq> [] \<longrightarrow> (\<forall>x \<in> set xs. deleted_on env (sent s) a r x)" unfolding in_phases_def by blast
  show ?thesis
  proof (cases "b = []")
    case True
    with ab assms show ?thesis by (intro in_phases_first [of _ _ "a @ h"]) auto
  next
    case False
    with ab assms show ?thesis unfolding in_phases_def by (intro exI [of _ a] exI [of _ "b @ h"]) auto
  qed
qed

lemma in_phases_shift:
  assumes "sent (s1 :: controller) = sent (s :: controller) @ h" and "list_all Q h" and "in_phases env r xs Q s1 s'"
  shows "in_phases env r xs Q s s'"
proof -
  from assms(3) obtain a b where ab: "sent s' = sent s1 @ a @ b" "list_all Q a"
    "b \<noteq> [] \<longrightarrow> (\<forall>x \<in> set xs. deleted_on env (sent s1) a r x)" unfolding in_phases_def by blast
  then have "b \<noteq> [] \<longrightarrow> (\<forall>x \<in> set xs. deleted_on env (sent s) (h @ a) r x)"
    using deleted_on_shift assms(1) by simp
  with ab assms(1,2) show ?thesis unfolding in_phases_def by (intro exI [of _ "h @ a"] exI [of _ b]) auto
qed

lemma phased_adds: "adds Q m \<Longrightarrow> phased env r xs Q m"
  unfolding phased_def by (auto elim!: post_mono [OF adds_post] intro: in_phases_first)

lemma phased_before:
  assumes "adds Q m" and "\<And>s. post m s (\<lambda>r _. case r of Inl _ \<Rightarrow> True | Inr x \<Rightarrow> R x)"
    and "\<And>x. R x \<Longrightarrow> phased env r xs Q (f x)"
  shows "phased env r xs Q (co_bind m f)"
  unfolding phased_def
proof (rule allI, rule post_bindI [OF post_conj [OF adds_post [OF assms(1)] assms(2)]])
  fix e and s s1 :: controller
  assume "(\<exists>h. sent s1 = sent s @ h \<and> list_all Q h) \<and> (case Inl e of Inl _ \<Rightarrow> True | Inr x \<Rightarrow> R x)"
  then show "in_phases env r xs Q s s1" using in_phases_first by blast
next
  fix x and s s1 :: controller
  assume x: "(\<exists>h. sent s1 = sent s @ h \<and> list_all Q h) \<and> (case Inr x of Inl _ \<Rightarrow> True | Inr x \<Rightarrow> R x)"
  then obtain h where h: "sent s1 = sent s @ h" "list_all Q h" by blast
  have "post (f x) s1 (\<lambda>_. in_phases env r xs Q s1)" using assms(3) x by (simp add: phased_def)
  then show "post (f x) s1 (\<lambda>_. in_phases env r xs Q s)" by (rule post_mono) (rule in_phases_shift [OF h])
qed

lemma phased_then: "adds Q m \<Longrightarrow> phased env r xs Q n \<Longrightarrow> phased env r xs Q (co_then m n)"
  unfolding co_then_def by (rule phased_before [where R = "\<lambda>_. True"]) (auto simp: post_def split: option.split sum.split)

lemma phased_after:
  assumes "phased env r xs Q m" and "\<And>x. adds Q (f x)"
  shows "phased env r xs Q (co_bind m f)"
  unfolding phased_def
proof
  fix s :: controller
  have more: "post (f x) s1 (\<lambda>_. in_phases env r xs Q s)" if "in_phases env r xs Q s s1" for x and s1 :: controller
    by (rule post_mono [OF adds_post [OF assms(2)]]) (use that in_phases_more in blast)
  show "post (co_bind m f) s (\<lambda>_. in_phases env r xs Q s)"
    by (rule post_bindI [OF assms(1)[unfolded phased_def, rule_format]]) (auto intro: more)
qed

lemma phased_catch:
  assumes "phased env r xs Q m" and "\<And>e. adds Q (h e)"
  shows "phased env r xs Q (co_catch m h)"
  unfolding phased_def
proof
  fix s :: controller
  have more: "post (h e) s1 (\<lambda>_. in_phases env r xs Q s)" if "in_phases env r xs Q s s1" for e and s1 :: controller
    by (rule post_mono [OF adds_post [OF assms(2)]]) (use that in_phases_more in blast)
  show "post (co_catch m h) s (\<lambda>_. in_phases env r xs Q s)"
    unfolding post_catch
    by (rule post_mono [OF assms(1)[unfolded phased_def, rule_format]]) (auto split: sum.split intro: more)
qed

lemma phased_delete_manifest:
  assumes r: "app_running_on app = Some r" and Q: "adds Q (delete_manifest env app)"
    and later: "\<And>x. adds (\<lambda>_. True) (f x)"
  shows "phased env r (last_observed_manifest (app_manifests app)) Q (co_bind (delete_manifest env app) f)"
  unfolding phased_def
proof (rule allI, rule post_bindI [OF post_conj [OF adds_post [OF Q] delete_manifest_deletes [OF r]]])
  let ?xs = "last_observed_manifest (app_manifests app)"
  fix e and s s1 :: controller
  assume "(\<exists>h. sent s1 = sent s @ h \<and> list_all Q h) \<and>
    (case Inl e :: exn + k8s_application of Inl _ \<Rightarrow> True | Inr _ \<Rightarrow> all_deleted_on env r ?xs s s1)"
  then show "in_phases env r ?xs Q s s1" using in_phases_first by blast
next
  let ?xs = "last_observed_manifest (app_manifests app)"
  fix x and s s1 :: controller
  assume a: "(\<exists>h. sent s1 = sent s @ h \<and> list_all Q h) \<and>
    (case Inr x :: exn + k8s_application of Inl _ \<Rightarrow> True | Inr _ \<Rightarrow> all_deleted_on env r ?xs s s1)"
  then obtain h where h: "sent s1 = sent s @ h" "list_all Q h" "\<forall>x \<in> set ?xs. deleted_on env (sent s) h r x"
    unfolding all_deleted_on_def by auto
  show "post (f x) s1 (\<lambda>_. in_phases env r ?xs Q s)"
  proof (rule post_mono [OF adds_post [OF later]])
    fix res and s' :: controller assume "\<exists>h'. sent s' = sent s1 @ h' \<and> list_all (\<lambda>_. True) h'"
    with h show "in_phases env r ?xs Q s s'" unfolding in_phases_def by force
  qed
qed

lemma in_phases_until:
  assumes "in_phases env r xs Q s s'" and "sent s' = sent s @ a @ q # b" and "\<not> Q q" and "x \<in> set xs"
  shows "deleted_on env (sent s) a r x"
proof -
  from assms(1,2) obtain a0 b0 where ab: "a @ q # b = a0 @ b0" "list_all Q a0"
    "b0 \<noteq> [] \<longrightarrow> (\<forall>x \<in> set xs. deleted_on env (sent s) a0 r x)" unfolding in_phases_def by auto
  have "q \<notin> set a0" using ab(2) assms(3) by (auto simp: list_all_iff)
  from ab(1) obtain us where us: "a = a0 @ us \<and> us @ q # b = b0 \<or> a @ us = a0 \<and> q # b = us @ b0"
    unfolding append_eq_append_conv2 by blast
  with \<open>q \<notin> set a0\<close> obtain c where c: "a = a0 @ c" "b0 = c @ q # b" by (cases us) auto
  then show ?thesis using ab(3) assms(4) deleted_on_append by auto
qed

section \<open>The deletion of an application\<close>

definition no_app_update :: "controller_request \<Rightarrow> bool" where
  "no_app_update q \<longleftrightarrow> (case q of Update_application _ \<Rightarrow> False | _ \<Rightarrow> True)"

lemma adds_remove_finalizer: "adds (\<lambda>_. True) (remove_finalizer env app)"
  unfolding remove_finalizer_def Let_def by (auto intro!: adds_intros)

lemma phased_delete_application:
  assumes "app_running_on app = Some r"
  shows "phased env r (last_observed_manifest (app_manifests app)) no_app_update (delete_application env app)"
proof -
  have "phased env r (last_observed_manifest (app_manifests app)) no_app_update
      (co_bind (delete_manifest env (app\<lparr>app_state := App_DELETING\<rparr>)) (remove_finalizer env))"
    using phased_delete_manifest [of "app\<lparr>app_state := App_DELETING\<rparr>" r no_app_update env "remove_finalizer env"] assms
      adds_delete_manifest [of no_app_update env] adds_remove_finalizer
    by (simp add: no_app_update_def)
  then show ?thesis
    unfolding delete_application_def Let_def
    by (intro phased_before [where R = "\<lambda>_. True"])
      (auto simp: no_app_update_def post_def split: option.split sum.split intro!: adds_intros phased_adds)
qed

lemma app_update_sent:
  assumes "list_ex (\<lambda>q. \<not> no_app_update q) h"
  obtains before app rest where "h = before @ Update_application app # rest"
proof -
  from assms obtain q where q: "q \<in> set h" "\<not> no_app_update q" by (auto simp: list_ex_iff)
  from q(2) obtain app where "q = Update_application app" by (cases q) (simp_all add: no_app_update_def)
  with q that show ?thesis by (metis split_list)
qed

lemma phased_received_deleted:
  assumes "app_running_on app = Some r"
  shows "phased env r (last_observed_manifest (app_manifests app)) no_app_update (received_deleted env cfg app)"
proof -
  have "phased env r (last_observed_manifest (app_manifests app)) no_app_update
      (co_then (unregister_observer env app) (co_bind (delete_application env app) (\<lambda>_. co_return ())))"
    by (intro phased_then phased_after phased_delete_application assms) (auto simp: no_app_update_def intro!: adds_intros)
  moreover have "adds no_app_update (trigger_shutdown env cfg app)"
    by (auto simp: trigger_shutdown_def Let_def no_app_update_def intro!: adds_intros)
  ultimately show ?thesis
    unfolding received_deleted_def by (intro phased_catch) (auto intro!: phased_adds adds_intros)
qed

lemma adds_report: "adds no_app_update (case failure_reason e of None \<Rightarrow> co_raise e
    | Some code \<Rightarrow> update_status env (app\<lparr>app_reason := code, app_state := App_FAILED\<rparr>))"
  by (auto simp: no_app_update_def split: option.split intro!: adds_intros)

text \<open>
  C4. When a worker handles a deleted application that runs on a cluster, it updates the
  application, which is how its finalizer is removed, only after each resource that was last
  observed has been deleted from that cluster, or was reported as missing there, with the
  credentials that the cluster had when it was read.
\<close>

theorem app_finalizer_removed_last:
  assumes "deleted (metadata app) \<noteq> None" and "app_running_on app = Some r"
    and "handle_application env cfg app s = Some (res, s')"
    and "sent s' = sent s @ before @ Update_application app' # rest"
    and "x \<in> set (last_observed_manifest (app_manifests app))"
  shows "deleted_on env (sent s) before r x"
proof -
  have "phased env r (last_observed_manifest (app_manifests app)) no_app_update (handle_application env cfg app)"
    unfolding handle_application_def
    by (intro phased_catch adds_report) (use assms(1,2) in \<open>simp add: resource_received_def phased_received_deleted\<close>)
  then have "in_phases env r (last_observed_manifest (app_manifests app)) no_app_update s s'"
    using assms(3) unfolding phased_def by (blast dest: postD)
  from in_phases_until [OF this assms(4) _ assms(5)] show ?thesis by (simp add: no_app_update_def)
qed

definition deleted_application :: k8s_application where
  "deleted_application = scheduled_application
     \<lparr>metadata := (metadata scheduled_application)\<lparr>deleted := Some 5, finalizers := [deletion_finalizer],
        owners := [example_ref ''old'', example_ref ''new'']\<rparr>,
      app_running_on := Some (example_ref ''old''), app_state := App_RUNNING,
      app_manifests := (app_manifests scheduled_application)
        \<lparr>last_applied_manifest := [example_map], last_observed_manifest := [example_map]\<rparr>\<rparr>"

theorem app_finalizer_removed_last_witness:
  "\<exists>before s' app' rest. sent s' = before @ Update_application app' # rest \<and>
     handle_application example_environment example_config deleted_application idle = Some (Inr (), s') \<and>
     deleted_on example_environment [] before (example_ref ''old'') example_map"
proof -
  let ?run = "handle_application example_environment example_config deleted_application idle"
  have "case ?run of Some (Inr _, s') \<Rightarrow> list_ex (\<lambda>q. \<not> no_app_update q) (sent s') | _ \<Rightarrow> False"
    by code_simp
  from case_returned [OF this] obtain s' where s': "?run = Some (Inr (), s')" "list_ex (\<lambda>q. \<not> no_app_update q) (sent s')"
    by auto
  from app_update_sent [OF s'(2)] obtain before app' rest where split: "sent s' = before @ Update_application app' # rest"
    by blast
  then have sent: "sent s' = sent idle @ before @ Update_application app' # rest" by (simp add: idle_def)
  have app: "deleted (metadata deleted_application) \<noteq> None"
    "app_running_on deleted_application = Some (example_ref ''old'')"
    "example_map \<in> set (last_observed_manifest (app_manifests deleted_application))"
    by (simp_all add: deleted_application_def)
  from app_finalizer_removed_last [OF app(1,2) s'(1) sent app(3)] s'(1) split show ?thesis
    by (auto simp: idle_def)
qed

section \<open>The migration of an application\<close>

definition no_creation :: "controller_request \<Rightarrow> bool" where
  "no_creation q \<longleftrightarrow> (case q of Kube c \<Rightarrow> call_verb c \<notin> {Create, Patch} | _ \<Rightarrow> True)"

lemma start_migration_keeps:
  "post (start_migration env app) s (\<lambda>res _. case res of Inl _ \<Rightarrow> True
     | Inr app' \<Rightarrow> app_running_on app' = app_running_on app \<and> app_manifests app' = app_manifests app)"
  by (auto simp: start_migration_def ensure_finalizer_def Let_def post_simps split: sum.split)

lemma adds_ensure_finalizer:
  "(\<And>app. P (Update_application app)) \<Longrightarrow> adds P (ensure_finalizer env app)"
  unfolding ensure_finalizer_def Let_def by (auto intro!: adds_intros)

lemma adds_start_migration:
  "(\<And>app. P (Update_application app)) \<Longrightarrow> (\<And>app. P (Update_application_status app)) \<Longrightarrow> adds P (start_migration env app)"
  unfolding start_migration_def Let_def by (auto intro!: adds_intros adds_ensure_finalizer)

lemma adds_everything: "adds (\<lambda>_. True) (create_on_target env app)"
  unfolding create_on_target_def apply_manifest_def scheduled_cluster_def apply_delta_def delete_one_def apply_one_def Let_def
  by (auto intro!: adds_intros adds_ensure_finalizer adds_delete_resource adds_apply_resource split: option.split)

lemma phased_migrate:
  assumes "app_running_on app = Some r"
  shows "phased env r (last_observed_manifest (app_manifests app)) no_creation (migrate_application env app)"
  unfolding migrate_application_def
proof (rule phased_before [OF adds_start_migration start_migration_keeps])
  fix app' :: k8s_application
  assume "app_running_on app' = app_running_on app \<and> app_manifests app' = app_manifests app"
  then have keeps: "app_running_on app' = Some r" "app_manifests app' = app_manifests app" using assms by simp_all
  have del: "adds no_creation (delete_manifest env app')" by (rule adds_delete_manifest) (simp_all add: no_creation_def)
  show "phased env r (last_observed_manifest (app_manifests app)) no_creation (co_bind (delete_manifest env app') (\<lambda>app.
      co_bind (create_on_target env app) (\<lambda>app.
      let app = app\<lparr>shutdown_grace_period := None, app_state := App_RUNNING, app_reason := None\<rparr> in
      co_then (update_status env app) (co_then (update_app env app) (co_return app)))))"
    unfolding keeps(2) [symmetric] Let_def
    by (rule phased_delete_manifest [OF keeps(1) del]) (auto intro!: adds_intros adds_everything)
qed (simp_all add: no_creation_def)

lemma phased_received_migrating:
  assumes "app_running_on app = Some r" and "\<not> check_for_volumes app"
  shows "phased env r (last_observed_manifest (app_manifests app)) no_creation (received_migrating env cfg start app)"
proof -
  have "adds no_creation (shutdown_before_migration env cfg app)"
    by (auto simp: shutdown_before_migration_def trigger_shutdown_def Let_def no_creation_def intro!: adds_intros)
  moreover have "phased env r (last_observed_manifest (app_manifests app)) no_creation
      (co_then (unregister_observer env app) (co_bind (migrate_application env app) (register_observer env start)))"
    by (intro phased_then phased_after phased_migrate assms) (auto simp: no_creation_def intro!: adds_intros)
  ultimately show ?thesis using assms(2) unfolding received_migrating_def by (simp add: phased_adds)
qed

text \<open>
  C6. When a worker handles an application that runs on another cluster than it is scheduled to,
  and that mounts no volumes, it creates or patches resources only after each resource that was
  last observed has been deleted from the old cluster, or was reported as missing there.
\<close>

theorem migration_deletes_first:
  assumes "deleted (metadata app) = None" and "app_running_on app = Some r" and "app_scheduled_to app \<noteq> Some r"
    and "\<not> check_for_volumes app"
    and "handle_application env cfg app s = Some (res, s')"
    and "sent s' = sent s @ before @ Kube c # rest" and "call_verb c = Create \<or> call_verb c = Patch"
    and "x \<in> set (last_observed_manifest (app_manifests app))"
  shows "deleted_on env (sent s) before r x"
proof -
  have "adds no_creation (case failure_reason e of None \<Rightarrow> co_raise e
    | Some code \<Rightarrow> update_status env (app\<lparr>app_reason := code, app_state := App_FAILED\<rparr>))" for e
    by (auto simp: no_creation_def split: option.split intro!: adds_intros)
  then have "phased env r (last_observed_manifest (app_manifests app)) no_creation (handle_application env cfg app)"
    unfolding handle_application_def
    by (rule phased_catch [rotated])
      (use assms(1-4) in \<open>simp add: resource_received_def phased_received_migrating\<close>)
  then have "in_phases env r (last_observed_manifest (app_manifests app)) no_creation s s'"
    using assms(5) unfolding phased_def by (blast dest: postD)
  from in_phases_until [OF this assms(6) _ assms(8)] assms(7) show ?thesis by (auto simp: no_creation_def)
qed

definition migrated_application :: k8s_application where
  "migrated_application = deleted_application
     \<lparr>metadata := (metadata deleted_application)\<lparr>deleted := None\<rparr>\<rparr>"

lemma creation_sent:
  assumes "list_ex (\<lambda>q. \<not> no_creation q) h"
  obtains before c rest where "h = before @ Kube c # rest" "call_verb c = Create \<or> call_verb c = Patch"
proof -
  from assms obtain q where q: "q \<in> set h" "\<not> no_creation q" by (auto simp: list_ex_iff)
  from q(2) obtain c where "q = Kube c" "call_verb c = Create \<or> call_verb c = Patch"
    by (cases q) (simp_all add: no_creation_def)
  with q that show ?thesis by (metis split_list)
qed

theorem migration_deletes_first_witness:
  "\<exists>before s' c rest. sent s' = before @ Kube c # rest \<and> call_verb c \<in> {Create, Patch} \<and>
     handle_application example_environment example_config migrated_application idle = Some (Inr (), s') \<and>
     deleted_on example_environment [] before (example_ref ''old'') example_map"
proof -
  let ?run = "handle_application example_environment example_config migrated_application idle"
  have "case ?run of Some (Inr _, s') \<Rightarrow> list_ex (\<lambda>q. \<not> no_creation q) (sent s') | _ \<Rightarrow> False"
    by code_simp
  from case_returned [OF this] obtain s' where s': "?run = Some (Inr (), s')" "list_ex (\<lambda>q. \<not> no_creation q) (sent s')"
    by auto
  from creation_sent [OF s'(2)] obtain before c rest where
    split: "sent s' = before @ Kube c # rest" "call_verb c = Create \<or> call_verb c = Patch" by blast
  then have sent: "sent s' = sent idle @ before @ Kube c # rest" by (simp add: idle_def)
  have app: "deleted (metadata migrated_application) = None"
    "app_running_on migrated_application = Some (example_ref ''old'')"
    "app_scheduled_to migrated_application \<noteq> Some (example_ref ''old'')"
    "\<not> check_for_volumes migrated_application"
    "example_map \<in> set (last_observed_manifest (app_manifests migrated_application))"
    by code_simp+
  from migration_deletes_first [OF app(1-4) s'(1) sent split(2) app(5)] s'(1) split show ?thesis
    by (auto simp: idle_def)
qed

end
