(* ===== verification/Application_Observer.thy ===== *)
theory Application_Observer
  imports Kubernetes_Client Observer_Schema
begin

text \<open>
  The observer of an application, \<open>KubernetesApplicationObserver\<close> in
  \<open>krake/krake/controller/kubernetes/hooks.py\<close>: it reads the resources of the application from the
  cluster, and finds the state, the number of pods and the observed manifest.
\<close>

section \<open>Pods\<close>

text \<open>The numbers are taken from responses, in which a number may be missing.\<close>

record pod_counts =
  pods_desired :: yaml
  pods_running :: yaml
  pods_completed :: yaml
  pods_failed :: yaml

record observed_status =
  pods :: "pod_counts option"
  pods_state :: application_state
  observed_resources :: "yaml list"

definition no_pods :: pod_counts where
  "no_pods = \<lparr>pods_desired = Integer 0, pods_running = Integer 0, pods_completed = Integer 0, pods_failed = Integer 0\<rparr>"

definition int_or :: "int \<Rightarrow> yaml \<Rightarrow> yaml" where
  "int_or n v = (if as_int v = None then Integer n else v)"

definition pod_health :: "response \<Rightarrow> yaml \<Rightarrow> pod_counts \<times> application_state \<Rightarrow> (exn, pod_counts \<times> application_state) res" where
  "pod_health resp status = (\<lambda>(h, state).
     res_bind (get_attr ''container_statuses'' status) (\<lambda>cs.
     res_bind (get_index 0 cs) (\<lambda>c.
     res_bind (get_attr ''state'' c) (\<lambda>s.
     let h = h\<lparr>pods_desired := Integer 1\<rparr> in
     res_bind (get_attr ''terminated'' s) (\<lambda>terminated.
     if terminated \<noteq> Null
     then
       res_bind (response_attr ''spec'' resp) (\<lambda>spec.
       res_bind (get_attr ''restart_policy'' spec) (\<lambda>policy.
       Inr (h\<lparr>pods_running := Integer 0\<rparr>, if policy = Text ''Never'' then App_COMPLETED else App_RESTARTING)))
     else
       res_bind (get_attr ''waiting'' s) (\<lambda>waiting.
       if waiting \<noteq> Null
       then
         res_bind (get_attr ''reason'' waiting) (\<lambda>reason.
         Inr (if reason = Text ''CrashLoopBackOff'' then (h\<lparr>pods_running := Integer 0\<rparr>, App_DEGRADED) else (h, state)))
       else Inr (h\<lparr>pods_running := Integer 1\<rparr>, App_RUNNING)))))))"

definition replicated_health :: "bool \<Rightarrow> yaml \<Rightarrow> pod_counts \<Rightarrow> (exn, pod_counts \<times> application_state) res" where
  "replicated_health daemon status h =
     res_bind (get_attr (if daemon then ''current_number_scheduled'' else ''replicas'') status) (\<lambda>desired.
     res_bind (get_attr (if daemon then ''desired_number_scheduled'' else ''ready_replicas'') status) (\<lambda>ready.
     let running = int_or 0 ready in
     Inr (h\<lparr>pods_desired := desired, pods_running := running\<rparr>,
       if py_eq running desired then App_RUNNING else App_DEGRADED)))"

definition job_health :: "response \<Rightarrow> yaml \<Rightarrow> pod_counts \<times> application_state \<Rightarrow> (exn, pod_counts \<times> application_state) res" where
  "job_health resp status = (\<lambda>(h, state).
     res_bind (res_bind (response_attr ''spec'' resp) (get_attr ''completions'')) (\<lambda>completions.
     res_bind (get_attr ''active'' status) (\<lambda>running.
     res_bind (get_attr ''succeeded'' status) (\<lambda>succeeded.
     res_bind (get_attr ''failed'' status) (\<lambda>failed.
     Inr (h\<lparr>pods_desired := int_or 1 completions, pods_running := int_or 0 running,
         pods_completed := int_or 0 succeeded, pods_failed := int_or 0 failed\<rparr>,
       if as_int succeeded \<noteq> None \<and> py_eq succeeded completions then App_COMPLETED else state))))))"

definition set_container_health :: "response \<Rightarrow> observed_status \<Rightarrow> (exn, observed_status) res" where
  "set_container_health resp st =
     (let h = (case pods st of None \<Rightarrow> no_pods | Some h \<Rightarrow> h);
          found = (\<lambda>(h, state). Inr (st\<lparr>pods := Some h, pods_state := state\<rparr>)) in
      case response_attr ''status'' resp of
        Inl e \<Rightarrow> found (h, pods_state st)
      | Inr status \<Rightarrow>
          if status = Null then found (h, pods_state st)
          else
            res_bind (response_attr ''kind'' resp) (\<lambda>kind.
            if kind = Text ''Pod'' then res_bind (pod_health resp status (h, pods_state st)) found
            else if kind \<in> set (map Text [''Deployment'', ''StatefulSet'', ''ReplicaSet'', ''DaemonSet''])
            then res_bind (replicated_health (kind = Text ''DaemonSet'') status h) found
            else if kind = Text ''Job'' then res_bind (job_health resp status (h, pods_state st)) found
            else found (h, pods_state st)))"

section \<open>Polling\<close>

text \<open>
  The client of an observer knows the kubeconfig of the cluster, but none of its custom resources.
\<close>

definition observer_client :: "kube_cluster \<Rightarrow> kube_cluster" where
  "observer_client cluster = cluster\<lparr>kube_custom_resources := []\<rparr>"

text \<open>What is read of one resource: \<open>None\<close> if the status stays as it was, \<open>Some None\<close> if it is missing.\<close>

definition read_observed :: "environment \<Rightarrow> kube_cluster \<Rightarrow> yaml \<Rightarrow> (controller, response option option) co" where
  "read_observed env cluster desired =
     co_catch
       (co_bind (co_lift (get_immutables (kubeconfig cluster) desired)) (\<lambda>i.
        co_bind (get_resource_api env (observer_client cluster) i) (\<lambda>a.
        co_bind (adapter_call env (kubeconfig cluster) a Read i desired) (\<lambda>resp. co_return (Some (Some resp))))))
       (\<lambda>e. case e of
          ApiException status \<Rightarrow> co_return (if status = 404 then Some None else None)
        | ClientConnectorError \<Rightarrow> co_return None
        | _ \<Rightarrow> co_raise e)"

text \<open>\<open>resp.to_dict()\<close>\<close>

fun to_dict :: "response \<Rightarrow> (exn, yaml) res" where
  "to_dict (Model v) = Inr v"
| "to_dict (Plain v) = Inl AttributeError"

definition observe_response :: "yaml \<Rightarrow> response \<Rightarrow> observed_status \<Rightarrow> (exn, observed_status) res" where
  "observe_response schema resp st =
     res_bind (set_container_health resp st) (\<lambda>st.
     res_bind (to_dict resp) (\<lambda>v.
     res_bind (observed_from_resp True schema v) (\<lambda>m.
     Inr (st\<lparr>observed_resources := observed_resources st @ [m]\<rparr>))))"

fun poll_resources ::
  "environment \<Rightarrow> kube_cluster \<Rightarrow> yaml list \<Rightarrow> yaml list \<Rightarrow> observed_status \<Rightarrow> (controller, observed_status option) co" where
  "poll_resources env cluster schemas [] st = co_return (Some st)"
| "poll_resources env cluster schemas (d # ds) st =
     co_bind (co_lift (resource_idx schemas d)) (\<lambda>i.
     co_then for_cluster
       (co_bind (read_observed env cluster d) (\<lambda>r.
        case r of
          None \<Rightarrow> co_return None
        | Some None \<Rightarrow> poll_resources env cluster schemas ds st
        | Some (Some resp) \<Rightarrow>
            co_bind (co_lift (observe_response (schemas ! i) resp st)) (poll_resources env cluster schemas ds))))"

definition poll_application ::
  "environment \<Rightarrow> kube_cluster \<Rightarrow> manifests \<Rightarrow> observed_status \<Rightarrow> (controller, observed_status) co" where
  "poll_application env cluster m st =
     co_bind (poll_resources env cluster (mangled_observer_schema m) (last_applied_manifest m)
         (st\<lparr>observed_resources := []\<rparr>)) (\<lambda>r.
     co_return (case r of None \<Rightarrow> st | Some st' \<Rightarrow> st'))"

section \<open>What the observer finds\<close>

text \<open>
  An observer cannot observe a resource that the Kubernetes library has no class for, a custom
  resource: whatever custom resources the cluster has, the observer raises an
  \<open>UnsupportedResourceError\<close>, which ends its task, and no request is sent for the resource.
\<close>

theorem custom_resource_unobservable:
  assumes "last_applied_manifest m = d # ds" and "resource_idx (mangled_observer_schema m) d = Inr j"
    and "get_immutables (kubeconfig cluster) d = Inr i" and "res_kind i = Text k"
    and "\<not> library_class env (class_name (res_group i) (res_version i))"
  shows "poll_application env cluster m st s = Some (Inl UnsupportedResourceError, s\<lparr>crd_cache := Some (Inr [])\<rparr>)"
  using assms
  by (simp add: poll_application_def read_observed_def get_resource_api_def custom_resource_apis_def observer_client_def
      remember_def for_cluster_def co_bind_def co_then_def co_lift_def co_modify_def co_catch_def co_get_def co_return_def
      co_raise_def Let_def)

text \<open>
  The health of a deployment: it is running if and only if as many of its replicas are ready as it
  has.  A deployment that is scaled to zero has no number of replicas in its status, and is degraded.
\<close>

lemma deployment_health:
  assumes "response_attr ''kind'' resp = Inr (Text ''Deployment'')" and "response_attr ''status'' resp = Inr (Obj d)"
    and "dict_get d ''replicas'' = Some r" and "dict_get d ''ready_replicas'' = Some (Integer n)"
    and "set_container_health resp st = Inr st'"
  shows "pods_state st' = (if py_eq (Integer n) r then App_RUNNING else App_DEGRADED)"
  using assms
  by (auto simp: set_container_health_def replicated_health_def int_or_def res_simps Let_def)

lemma deployment_without_replicas:
  assumes "response_attr ''kind'' resp = Inr (Text ''Deployment'')" and "response_attr ''status'' resp = Inr (Obj d)"
    and "dict_get d ''replicas'' = Some Null" and "dict_get d ''ready_replicas'' = Some Null"
    and "set_container_health resp st = Inr st'"
  shows "pods_state st' = App_DEGRADED"
  using assms
  by (auto simp: set_container_health_def replicated_health_def int_or_def res_simps Let_def)

section \<open>An example\<close>

definition example_observation :: environment where
  "example_observation =
     \<lparr>cluster_answer = \<lambda>_. Inl (ClientResponseError 404), application_answer = \<lambda>_. Inl (ClientResponseError 404),
      outcome = \<lambda>_. Inr (), definition_answer = \<lambda>_. Inl (ApiException 404), kube_answer = \<lambda>_. Inl (ApiException 404),
      pod_phase = \<lambda>_. Inr ''Running'', exec_answer = \<lambda>_. Inr [], clock = \<lambda>_. 0, cluster_host = \<lambda>_. Inr (Text ''host''),
      library_class = \<lambda>c. c = ''CoreV1Api'', library_method = \<lambda>_ _. True,
      translation = \<lambda>_. Inl ToscaParserException, mangling = \<lambda>app. Inr (app_manifests app)\<rparr>"

definition example_custom :: yaml where
  "example_custom = Obj [(''apiVersion'', Text ''stable.example.com/v1''), (''kind'', Text ''CronTab''),
     (''metadata'', Obj [(''name'', Text ''c'')])]"

definition example_observed_kube :: kube_cluster where
  "example_observed_kube = \<lparr>kubeconfig = Obj [(''contexts'', Arr [Obj [(''context'', Obj [])]])],
     kube_custom_resources = [''crontabs.stable.example.com'']\<rparr>"

definition example_observed_manifests :: manifests where
  "example_observed_manifests = \<lparr>spec_manifest = [example_custom], spec_observer_schema = [], mangled_observer_schema = [example_custom],
     last_applied_manifest = [example_custom], last_observed_manifest = []\<rparr>"

theorem custom_resource_unobservable_witness:
  "poll_application example_observation example_observed_kube example_observed_manifests
     \<lparr>pods = None, pods_state = App_RUNNING, observed_resources = [example_custom]\<rparr>
     \<lparr>sent = [], observers = [], crd_cache = None\<rparr> =
   Some (Inl UnsupportedResourceError, \<lparr>sent = [], observers = [], crd_cache = Some (Inr [])\<rparr>)"
proof -
  have m: "last_applied_manifest example_observed_manifests = [example_custom]" "mangled_observer_schema example_observed_manifests = [example_custom]"
    by (simp_all add: example_observed_manifests_def)
  have j: "resource_idx (mangled_observer_schema example_observed_manifests) example_custom = Inr 0"
    unfolding m(2) by code_simp
  have i: "get_immutables (kubeconfig example_observed_kube) example_custom =
      Inr \<lparr>res_group = ''stable.example.com'', res_version = ''v1'', res_kind = Text ''CronTab'', res_name = Text ''c'',
        res_namespace = Text ''default''\<rparr>"
    by code_simp
  have "\<not> library_class example_observation (class_name ''stable.example.com'' ''v1'')" by code_simp
  with custom_resource_unobservable [OF m(1) j i] show ?thesis by simp
qed

end
