(* ===== verification/Texts.thy ===== *)
theory Texts
  imports Krake_Data
begin

text \<open>
  Texts that several controllers build: an optional value in a formatted text, and the base 64
  encoding of secrets and certificates (\<open>krake/krake/controller/magnum.py\<close>, \<open>controller/kubernetes/hooks.py\<close>).
\<close>

definition text_of :: "string option \<Rightarrow> string" where
  "text_of s = (case s of None \<Rightarrow> ''None'' | Some t \<Rightarrow> t)"

text \<open>Base 64, for texts of ASCII characters.\<close>

definition base64_char :: "nat \<Rightarrow> char" where
  "base64_char n =
     ''ABCDEFGHIJKLMNOPQRSTUVWXYZabcdefghijklmnopqrstuvwxyz0123456789+/'' ! (n mod 64)"

fun base64 :: "nat list \<Rightarrow> string" where
  "base64 [] = []"
| "base64 [a] = [base64_char (a div 4), base64_char (a * 16), CHR ''='', CHR ''='']"
| "base64 [a, b] =
     [base64_char (a div 4), base64_char (a mod 4 * 16 + b div 16), base64_char (b mod 16 * 4), CHR ''='']"
| "base64 (a # b # c # s) =
     base64_char (a div 4) # base64_char (a mod 4 * 16 + b div 16) #
     base64_char (b mod 16 * 4 + c div 64) # base64_char c # base64 s"

definition encode_to_64 :: "string \<Rightarrow> string" where
  "encode_to_64 s = base64 (map of_char s)"

end
