(* ===== verification/Hook_Mangling.thy ===== *)
theory Hook_Mangling
  imports Kubernetes_Data Observer_Schema Texts
begin

text \<open>
  The hooks \<open>complete\<close> and \<open>shutdown\<close> of \<open>krake/krake/controller/kubernetes/hooks.py\<close>, which change
  the manifests of an application before they are applied: secrets are added, and containers get
  environment variables and volumes. The observer schema is extended along with the manifests.
  The code changes nested objects in place; here each function returns the new objects.
\<close>

section \<open>Operations on nested values\<close>

text \<open>\<open>reduce(getitem, keys, v)\<close>, and a change of what it finds.\<close>

fun item_at :: "string list \<Rightarrow> yaml \<Rightarrow> (exn, yaml) res" where
  "item_at [] v = Inr v"
| "item_at (k # ks) v = res_bind (get_key k v) (item_at ks)"

fun put_at :: "string list \<Rightarrow> yaml \<Rightarrow> yaml \<Rightarrow> (exn, yaml) res" where
  "put_at [] x v = Inr x"
| "put_at (k # ks) x v = res_bind (get_key k v) (\<lambda>w. res_bind (put_at ks x w) (\<lambda>w'. set_key k w' v))"

text \<open>\<open>v[:-1]\<close>, the elements over which \<open>for\<close> goes, \<open>v.insert(-1, x)\<close> and \<open>v[-1][key] += 1\<close>.\<close>

fun but_last :: "yaml \<Rightarrow> (exn, yaml) res" where
  "but_last (Arr xs) = Inr (Arr (butlast xs))"
| "but_last (Text s) = Inr (Text (butlast s))"
| "but_last _ = Inl TypeError"

fun elements :: "yaml \<Rightarrow> (exn, yaml list) res" where
  "elements (Arr xs) = Inr xs"
| "elements (Obj d) = Inr (map (\<lambda>(k, v). Text k) d)"
| "elements (Text s) = Inr (map (\<lambda>c. Text [c]) s)"
| "elements _ = Inl TypeError"

fun insert_before_last :: "yaml \<Rightarrow> yaml \<Rightarrow> (exn, yaml) res" where
  "insert_before_last x (Arr xs) = Inr (Arr (if xs = [] then [x] else butlast xs @ [x, last xs]))"
| "insert_before_last x _ = Inl AttributeError"

fun add_one :: "yaml \<Rightarrow> (exn, yaml) res" where
  "add_one (Integer i) = Inr (Integer (i + 1))"
| "add_one (Boolean b) = Inr (Integer (if b then 2 else 1))"
| "add_one (Decimal x) = Inr (Decimal (x + 1))"
| "add_one _ = Inl TypeError"

fun replace_last :: "yaml \<Rightarrow> yaml \<Rightarrow> (exn, yaml) res" where
  "replace_last x (Arr xs) = (if xs = [] then Inl IndexError else Inr (Arr (butlast xs @ [x])))"
| "replace_last x _ = Inl TypeError"

definition count_last :: "string \<Rightarrow> yaml \<Rightarrow> (exn, yaml) res" where
  "count_last k v =
     res_bind (get_last v) (\<lambda>c. res_bind (get_key k c) (\<lambda>n. res_bind (add_one n) (\<lambda>n'.
     res_bind (set_key k n' c) (\<lambda>c'. replace_last c' v))))"

text \<open>\<open>if key not in v: v.update({key: x})\<close>\<close>

definition ensure_key :: "string \<Rightarrow> yaml \<Rightarrow> yaml \<Rightarrow> (exn, yaml) res" where
  "ensure_key k x v =
     res_bind (contains_key k v) (\<lambda>b.
     if b then Inr v else (case v of Obj d \<Rightarrow> Inr (Obj (dict_set k x d)) | _ \<Rightarrow> Inl AttributeError))"

section \<open>Injection of a sub-resource\<close>

text \<open>A tuple of paths has a first one.\<close>

record sub_resource =
  sub_group :: string
  sub_name :: string
  sub_body :: yaml
  sub_path :: "string list"
  sub_other_paths :: "string list list"

text \<open>\<open>name in [g["name"] for g in v]\<close>\<close>

definition has_name :: "string \<Rightarrow> yaml \<Rightarrow> (exn, bool) res" where
  "has_name n v =
     res_bind (elements v) (\<lambda>gs. res_bind (res_map (get_key ''name'') gs) (\<lambda>ns. Inr (list_ex (py_eq (Text n)) ns)))"

definition empty_list_schema :: yaml where
  "empty_list_schema = Arr [list_control 0]"

text \<open>
  \<open>inject\<close>: an entry of the same name in the group stays as it is, since a dictionary never has the
  attribute \<open>body\<close>.
\<close>

definition inject_entry :: "sub_resource \<Rightarrow> yaml \<Rightarrow> (exn, yaml) res" where
  "inject_entry s target =
     res_bind (get_key (sub_group s) target) (\<lambda>g.
     res_bind (has_name (sub_name s) g) (\<lambda>present.
     if present then Inr target
     else res_bind (append_item (sub_body s) g) (\<lambda>g'. set_key (sub_group s) g' target)))"

definition observe_entry :: "sub_resource \<Rightarrow> yaml \<Rightarrow> (exn, yaml) res" where
  "observe_entry s observed =
     res_bind (get_key (sub_group s) observed) (\<lambda>g.
     res_bind (res_bind (but_last g) (has_name (sub_name s))) (\<lambda>present.
     if present then Inr observed
     else
       res_bind (insert_before_last (default_schema (sub_body s)) g) (\<lambda>g.
       res_bind (count_last min_key g) (\<lambda>g.
       res_bind (count_last max_key g) (\<lambda>g. set_key (sub_group s) g observed)))))"

definition inject :: "sub_resource \<Rightarrow> yaml \<Rightarrow> yaml \<Rightarrow> (exn, yaml \<times> yaml) res" where
  "inject s target observed =
     res_bind (ensure_key (sub_group s) (Arr []) target) (\<lambda>target.
     res_bind (ensure_key (sub_group s) empty_list_schema observed) (\<lambda>observed.
     res_bind (inject_entry s target) (\<lambda>target.
     res_bind (observe_entry s observed) (\<lambda>observed. Inr (target, observed)))))"

section \<open>Mangling\<close>

text \<open>The first of the paths that exists in a resource; otherwise the last one, without a value.\<close>

fun find_path :: "string list \<Rightarrow> string list list \<Rightarrow> yaml \<Rightarrow> (exn, string list \<times> yaml option) res" where
  "find_path ks paths r =
     (case item_at ks r of
        Inr v \<Rightarrow> Inr (ks, Some v)
      | Inl e \<Rightarrow>
          if e \<noteq> KeyError then Inl e
          else (case paths of [] \<Rightarrow> Inr (ks, None) | ks' # paths' \<Rightarrow> find_path ks' paths' r))"

text \<open>\<open>create_path\<close> puts \<open>None\<close> at the end of the path.\<close>

fun create_path :: "string list \<Rightarrow> yaml \<Rightarrow> (exn, yaml) res" where
  "create_path [] v = Inl IndexError"
| "create_path [k] v = set_key k Null v"
| "create_path (k # l # ks) v =
     res_bind (contains_key k v) (\<lambda>b.
     res_bind (if b then Inr v else set_key k (Obj []) v) (\<lambda>v.
     res_bind (get_key k v) (\<lambda>w.
     res_bind (create_path (l # ks) w) (\<lambda>w'. set_key k w' v))))"

definition observed_part :: "string list \<Rightarrow> yaml \<Rightarrow> (exn, yaml \<times> yaml) res" where
  "observed_part ks schema =
     (case item_at ks schema of
        Inr v \<Rightarrow> Inr (v, schema)
      | Inl e \<Rightarrow>
          if e \<noteq> KeyError then Inl e
          else res_bind (create_path ks schema) (\<lambda>schema. res_bind (item_at ks schema) (\<lambda>v. Inr (v, schema))))"

text \<open>The elements of a list one after the other, each with its part of the schema.\<close>

fun inject_elements :: "sub_resource \<Rightarrow> nat \<Rightarrow> yaml list \<Rightarrow> yaml \<Rightarrow> (exn, yaml list \<times> yaml) res" where
  "inject_elements s i [] observed = Inr ([], observed)"
| "inject_elements s i (x # xs) observed =
     res_bind (res_bind (but_last observed) len) (\<lambda>n.
     let j = (if n \<le> i then n else i) in
     res_bind (if n \<le> i then insert_before_last (Obj []) observed else Inr observed) (\<lambda>observed.
     res_bind (get_index j observed) (\<lambda>part.
     res_bind (inject s x part) (\<lambda>(x', part').
     res_bind (set_index j part' observed) (\<lambda>observed.
     res_bind (inject_elements s (Suc i) xs observed) (\<lambda>(xs', observed). Inr (x' # xs', observed)))))))"

definition inject_at :: "sub_resource \<Rightarrow> yaml option \<Rightarrow> yaml \<Rightarrow> (exn, yaml \<times> yaml) res" where
  "inject_at s target observed =
     (case target of
        Some (Arr xs) \<Rightarrow> res_bind (inject_elements s 0 xs observed) (\<lambda>(xs, observed). Inr (Arr xs, observed))
      | Some (Obj d) \<Rightarrow> inject s (Obj d) observed
      | _ \<Rightarrow> Inl InvalidManifestError)"

definition mangle_with :: "sub_resource \<Rightarrow> yaml \<times> yaml list \<Rightarrow> (exn, yaml \<times> yaml list) res" where
  "mangle_with s = (\<lambda>(resource, schemas).
     res_bind (resource_idx schemas resource) (\<lambda>i.
     res_bind (find_path (sub_path s) (sub_other_paths s) resource) (\<lambda>(ks, target).
     res_bind (observed_part ks (schemas ! i)) (\<lambda>(observed, schema).
     res_bind (inject_at s target observed) (\<lambda>(target', observed').
     res_bind (put_at ks target' resource) (\<lambda>resource'.
     res_bind (put_at ks observed' schema) (\<lambda>schema'. Inr (resource', schemas[i := schema']))))))))"

definition hook_resources :: "string list" where
  "hook_resources = [''Pod'', ''Deployment'', ''ReplicationController'']"

definition mangle_resource :: "sub_resource list \<Rightarrow> yaml \<times> yaml list \<Rightarrow> (exn, yaml \<times> yaml list) res" where
  "mangle_resource items = (\<lambda>(resource, schemas).
     res_bind (get_key ''kind'' resource) (\<lambda>k.
     if list_ex (\<lambda>h. py_eq k (Text h)) hook_resources then res_fold mangle_with items (resource, schemas)
     else Inr (resource, schemas)))"

text \<open>Sub-resources into all resources; and resources of a hook, with their default schemas.\<close>

fun mangle_sub_resources :: "sub_resource list \<Rightarrow> yaml list \<Rightarrow> yaml list \<Rightarrow> (exn, yaml list \<times> yaml list) res" where
  "mangle_sub_resources items [] schemas = Inr ([], schemas)"
| "mangle_sub_resources items (r # rs) schemas =
     res_bind (mangle_resource items (r, schemas)) (\<lambda>(r', schemas).
     res_bind (mangle_sub_resources items rs schemas) (\<lambda>(rs', schemas). Inr (r' # rs', schemas)))"

definition mangle_resources :: "yaml list \<Rightarrow> yaml list \<Rightarrow> yaml list \<Rightarrow> (exn, yaml list \<times> yaml list) res" where
  "mangle_resources items resources schemas =
     res_bind (res_map default_schema_first_level items) (\<lambda>new. Inr (resources @ items, schemas @ new))"

section \<open>The objects of the Kubernetes library\<close>

text \<open>
  The dictionaries that \<open>attribute_map\<close> makes of the objects that the hooks build, with the
  attributes in the order of the classes of the library.
\<close>

definition secret :: "string \<Rightarrow> (string \<times> string) list \<Rightarrow> yaml \<Rightarrow> yaml" where
  "secret n items ns =
     Obj [(''apiVersion'', Text ''v1''),
       (''data'', Obj (fold (\<lambda>(k, v). dict_set k (Text v)) items [])),
       (''kind'', Text ''Secret''),
       (''metadata'', Obj [(''name'', Text n), (''namespace'', ns)]),
       (''type'', Text ''Opaque'')]"

definition pod_path :: "string list" where
  "pod_path = [''spec'', ''containers'']"

definition template_path :: "string list" where
  "template_path = [''spec'', ''template'', ''spec'', ''containers'']"

definition env_var :: "string \<Rightarrow> string \<Rightarrow> sub_resource" where
  "env_var secret_name n =
     \<lparr>sub_group = ''env'', sub_name = n,
      sub_body = Obj [(''name'', Text n),
        (''valueFrom'', Obj [(''secretKeyRef'', Obj [(''key'', Text (map to_lower n)), (''name'', Text secret_name)])])],
      sub_path = template_path, sub_other_paths = [pod_path]\<rparr>"

definition volumes :: "string \<Rightarrow> string \<Rightarrow> string \<Rightarrow> sub_resource list" where
  "volumes secret_name volume_name mount_path =
     [\<lparr>sub_group = ''volumes'', sub_name = volume_name,
       sub_body = Obj [(''name'', Text volume_name), (''secret'', Obj [(''secretName'', Text secret_name)])],
       sub_path = butlast template_path, sub_other_paths = [butlast pod_path]\<rparr>,
      \<lparr>sub_group = ''volumeMounts'', sub_name = volume_name,
       sub_body = Obj [(''mountPath'', Text mount_path), (''name'', Text volume_name)],
       sub_path = template_path, sub_other_paths = [pod_path]\<rparr>]"

section \<open>The hooks\<close>

datatype hook_kind = Complete_hook | Shutdown_hook

fun hook_text :: "hook_kind \<Rightarrow> string" where
  "hook_text Complete_hook = ''complete''"
| "hook_text Shutdown_hook = ''shutdown''"

record hook_config =
  external_endpoint :: "string option"
  cert_dest :: string
  env_token :: string
  env_url :: string

text \<open>
  What the hooks take from elsewhere: the endpoint of the API, the certificates of the TLS context
  (\<open>None\<close> without TLS) in the text format, the certificate that signs others, a new token, a new
  certificate with its key, the replacement of the path of a URL, and the order in which a set of
  namespaces is iterated over.
\<close>

record hook_env =
  api_endpoint :: string
  ca_certificates :: "string list option"
  intermediate_certificate :: "hook_kind \<Rightarrow> (exn, string) res"
  token_urlsafe :: "hook_kind \<Rightarrow> string"
  generate_certificate :: "hook_kind \<Rightarrow> (exn, string \<times> string) res"
  with_path :: "string \<Rightarrow> string \<Rightarrow> string"
  set_order :: "yaml list \<Rightarrow> yaml list"

text \<open>The token, the certificate and the key that the status of an application keeps for a hook.\<close>

record hook_credentials =
  hook_token :: "string option"
  hook_cert :: "string option"
  hook_key :: "string option"

definition create_hook_url :: "hook_env \<Rightarrow> hook_kind \<Rightarrow> string \<Rightarrow> string option \<Rightarrow> string \<Rightarrow> string" where
  "create_hook_url env k n ns endpoint =
     with_path env endpoint
       (''/kubernetes/namespaces/'' @ text_of ns @ ''/applications/'' @ n @ ''/'' @ hook_text k)"

definition secret_token ::
  "hook_env \<Rightarrow> hook_kind \<Rightarrow> hook_config \<Rightarrow> string \<Rightarrow> string \<Rightarrow> string option \<Rightarrow> string \<Rightarrow> string \<Rightarrow> yaml \<Rightarrow> yaml" where
  "secret_token env k cfg secret_name n ns endpoint token resource_namespace =
     secret secret_name
       [(map to_lower (env_token cfg), encode_to_64 token),
        (map to_lower (env_url cfg), encode_to_64 (create_hook_url env k n ns endpoint))] resource_namespace"

definition encode_option :: "string option \<Rightarrow> (exn, string) res" where
  "encode_option s = (case s of None \<Rightarrow> Inl AttributeError | Some t \<Rightarrow> Inr (encode_to_64 t))"

definition secret_certs ::
  "string \<Rightarrow> string list \<Rightarrow> (exn, string) res \<Rightarrow> hook_credentials \<Rightarrow> yaml \<Rightarrow> (exn, yaml) res" where
  "secret_certs secret_name cas intermediate cred ns =
     res_bind intermediate (\<lambda>i.
     res_bind (encode_option (hook_cert cred)) (\<lambda>c.
     res_bind (encode_option (hook_key cred)) (\<lambda>k.
     Inr (secret secret_name
       [(''ca-bundle.pem'', encode_to_64 (concat cas @ i)), (''cert.pem'', c), (''key.pem'', k)] ns))))"

definition env_vars :: "hook_config \<Rightarrow> string \<Rightarrow> sub_resource list" where
  "env_vars cfg secret_name = [env_var secret_name (env_token cfg), env_var secret_name (env_url cfg)]"

text \<open>The namespaces of the resources, as a set: equal values are the same, and must be hashable.\<close>

definition resource_namespace :: "yaml \<Rightarrow> (exn, yaml) res" where
  "resource_namespace r =
     res_bind (get_key ''metadata'' r) (\<lambda>m.
     case m of
       Obj d \<Rightarrow>
         let ns = (case dict_get d ''namespace'' of None \<Rightarrow> Text ''default'' | Some v \<Rightarrow> v) in
         if is_obj ns \<or> is_arr ns then Inl TypeError else Inr ns
     | _ \<Rightarrow> Inl AttributeError)"

definition collect :: "yaml list \<Rightarrow> yaml list" where
  "collect vs = fold (\<lambda>v seen. if list_ex (py_eq v) seen then seen else seen @ [v]) vs []"

definition resource_namespaces :: "hook_env \<Rightarrow> yaml list \<Rightarrow> (exn, yaml list) res" where
  "resource_namespaces env resources =
     res_bind (res_map resource_namespace resources) (\<lambda>vs. Inr (set_order env (collect vs)))"

definition secret_name :: "string \<Rightarrow> hook_kind \<Rightarrow> string \<Rightarrow> string" where
  "secret_name n k suffix = n @ ''-krake-'' @ hook_text k @ ''-secret-'' @ suffix"

definition volume_name :: "string \<Rightarrow> hook_kind \<Rightarrow> string" where
  "volume_name n k = n @ ''-krake-'' @ hook_text k @ ''-volume''"

definition ca_certs :: "hook_env \<Rightarrow> string list" where
  "ca_certs env = (case ca_certificates env of None \<Rightarrow> [] | Some cas \<Rightarrow> cas)"

definition hook_items ::
  "hook_env \<Rightarrow> hook_kind \<Rightarrow> hook_config \<Rightarrow> string \<Rightarrow> string option \<Rightarrow> string \<Rightarrow> hook_credentials \<Rightarrow> yaml list \<Rightarrow>
     (exn, yaml list) res" where
  "hook_items env k cfg n ns endpoint cred namespaces =
     res_bind
       (if ca_certs env = [] then Inr []
        else res_map (secret_certs (secret_name n k ''certs'') (ca_certs env) (intermediate_certificate env k) cred) namespaces)
       (\<lambda>certs. Inr (certs @
          map (secret_token env k cfg (secret_name n k ''token'') n ns endpoint (text_of (hook_token cred))) namespaces))"

definition hook_sub_items :: "hook_env \<Rightarrow> hook_kind \<Rightarrow> hook_config \<Rightarrow> string \<Rightarrow> sub_resource list" where
  "hook_sub_items env k cfg n =
     (if ca_certs env = [] then [] else volumes (secret_name n k ''certs'') (volume_name n k) (cert_dest cfg)) @
     env_vars cfg (secret_name n k ''token'')"

definition mangle_app ::
  "hook_env \<Rightarrow> hook_kind \<Rightarrow> hook_config \<Rightarrow> string \<Rightarrow> string option \<Rightarrow> string \<Rightarrow> hook_credentials \<Rightarrow> manifests \<Rightarrow>
     (exn, manifests) res" where
  "mangle_app env k cfg n ns endpoint cred m =
     res_bind (resource_namespaces env (last_applied_manifest m)) (\<lambda>namespaces.
     res_bind (hook_items env k cfg n ns endpoint cred namespaces) (\<lambda>items.
     res_bind (mangle_resources items (last_applied_manifest m) (mangled_observer_schema m)) (\<lambda>(resources, schemas).
     res_bind (mangle_sub_resources (hook_sub_items env k cfg n) resources schemas) (\<lambda>(resources, schemas).
     Inr (m\<lparr>last_applied_manifest := resources, mangled_observer_schema := schemas\<rparr>)))))"

text \<open>The credentials are made once for an application.\<close>

definition credentials_of :: "hook_env \<Rightarrow> hook_kind \<Rightarrow> hook_credentials \<Rightarrow> (exn, hook_credentials) res" where
  "credentials_of env k cred =
     (let cred = cred\<lparr>hook_token := (case hook_token cred of
            None \<Rightarrow> Some (token_urlsafe env k) | Some t \<Rightarrow> Some (if t = [] then token_urlsafe env k else t))\<rparr> in
      if ca_certificates env \<noteq> None \<and> hook_cert cred = None \<and> hook_key cred = None
      then res_bind (generate_certificate env k) (\<lambda>(c, p). Inr (cred\<lparr>hook_cert := Some c, hook_key := Some p\<rparr>))
      else Inr cred)"

definition endpoint_of :: "hook_env \<Rightarrow> hook_config \<Rightarrow> string" where
  "endpoint_of env cfg =
     (case external_endpoint cfg of None \<Rightarrow> api_endpoint env | Some e \<Rightarrow> if e = [] then api_endpoint env else e)"

definition run_hook ::
  "hook_env \<Rightarrow> hook_kind \<Rightarrow> hook_config \<Rightarrow> hook_credentials \<times> k8s_application \<Rightarrow>
     (exn, hook_credentials \<times> k8s_application) res" where
  "run_hook env k cfg = (\<lambda>(cred, app).
     if hook_text k \<notin> set (app_hooks app) then Inr (cred, app)
     else
       res_bind (credentials_of env k cred) (\<lambda>cred.
       res_bind (mangle_app env k cfg (name (metadata app)) (namespace (metadata app)) (endpoint_of env cfg) cred
           (app_manifests app)) (\<lambda>m.
       Inr (cred, app\<lparr>app_manifests := m\<rparr>))))"

definition complete where "complete env = run_hook env Complete_hook"
definition shutdown where "shutdown env = run_hook env Shutdown_hook"

text \<open>The handlers of \<open>ApplicationMangling\<close>, in the order of their registration.\<close>

definition application_mangling ::
  "hook_env \<Rightarrow> hook_config \<Rightarrow> hook_config \<Rightarrow> hook_credentials \<Rightarrow> hook_credentials \<Rightarrow> k8s_application \<Rightarrow>
     (exn, hook_credentials \<times> hook_credentials \<times> k8s_application) res" where
  "application_mangling env ccfg scfg c s app =
     res_bind (complete env ccfg (c, app)) (\<lambda>(c, app).
     res_bind (shutdown env scfg (s, app)) (\<lambda>(s, app). Inr (c, s, app)))"

end
