(* ===== verification/Hook_Safety.thy ===== *)
theory Hook_Safety
  imports Hook_Mangling
begin

text \<open>
  What the hooks do to the resources of an application: each container gets the entries that are
  injected, the part of a default schema that describes the specification stays the default schema
  of the mangled specification, and a schema that does not observe the containers makes the hooks
  raise.
\<close>

declare find_path.simps [simp del]

section \<open>Values and their default schemas\<close>

lemma get_key_iff: "get_key k v = Inr x \<longleftrightarrow> (\<exists>d. v = Obj d \<and> dict_get d k = Some x)"
  by (cases v) (auto split: option.splits)

lemma set_key_iff: "set_key k x v = Inr w \<longleftrightarrow> (\<exists>d. v = Obj d \<and> w = Obj (dict_set k x d))"
  by (cases v) auto

lemma get_key_after_set:
  "set_key k x v = Inr w \<Longrightarrow> get_key l w = (if l = k then Inr x else get_key l v)"
  by (auto simp: set_key_iff)

lemma py_eq_Text [simp]: "py_eq (Text s) v \<longleftrightarrow> v = Text s"
  by (cases v) auto

lemma get_key_default: "get_key k v = Inr x \<Longrightarrow> get_key k (default_schema v) = Inr (default_schema x)"
  by (auto simp: get_key_iff dict_get_map_snd)

lemma dict_keys_default [simp]: "dict_keys (map (\<lambda>(k, v). (k, f v)) d) = dict_keys d"
  by (induction d) auto

lemma default_not_Text: "default_schema v \<noteq> Text s"
  by (cases v) auto

lemma default_set:
  "set_key k x v = Inr w \<Longrightarrow> set_key k (default_schema x) (default_schema v) = Inr (default_schema w)"
proof -
  have "map (\<lambda>(key, v). (key, default_schema v)) (dict_set k x d) =
      dict_set k (default_schema x) (map (\<lambda>(key, v). (key, default_schema v)) d)" for d
    by (induction d) auto
  then show "set_key k x v = Inr w \<Longrightarrow> set_key k (default_schema x) (default_schema v) = Inr (default_schema w)"
    by (auto simp: set_key_iff)
qed

section \<open>Injection\<close>

text \<open>No entry of the group has the name that is injected.\<close>

definition names_free :: "sub_resource \<Rightarrow> yaml \<Rightarrow> bool" where
  "names_free s v =
     (case get_key (sub_group s) v of
        Inr (Arr xs) \<Rightarrow> list_all (\<lambda>x. get_key ''name'' x \<noteq> Inr (Text (sub_name s))) xs
      | _ \<Rightarrow> True)"

lemma ensure_key_iff:
  "ensure_key k x v = Inr w \<Longrightarrow> (if (\<exists>d. v = Obj d) then (case get_key k v of Inr y \<Rightarrow> w = v | Inl e \<Rightarrow> set_key k x v = Inr w)
     else w = v)"
  by (cases v) (auto simp: ensure_key_def split: if_splits option.splits dest: dict_get_in_keys simp: dict_get_None_iff)

lemma ensured:
  assumes "ensure_key k x v = Inr w" and "get_key k w = Inr y"
  shows "(w = v \<and> get_key k v = Inr y) \<or> (y = x \<and> (\<exists>d. v = Obj d \<and> dict_get d k = None \<and> w = Obj (dict_set k x d)))"
proof -
  from assms(2) obtain e where w: "w = Obj e" "dict_get e k = Some y" by (auto simp: get_key_iff)
  from assms(1) w show ?thesis
    by (cases v) (auto simp: ensure_key_def dict_get_None_iff split: if_splits)
qed


lemma has_name_True:
  "has_name n (Arr xs) = Inr b \<Longrightarrow> b \<longleftrightarrow> (\<exists>x \<in> set xs. get_key ''name'' x = Inr (Text n))"
proof (induction xs arbitrary: b)
  case (Cons x xs)
  then obtain y ys where "get_key ''name'' x = Inr y" "res_map (get_key ''name'') xs = Inr ys" "b = (y = Text n \<or> Text n \<in> set ys)"
    by (auto simp: has_name_def res_simps list_ex_iff)
  with Cons.IH [of "Text n \<in> set ys"] show ?case by (auto simp: has_name_def res_simps list_ex_iff)
qed (simp add: has_name_def)

lemma has_name_list: "has_name n v = Inr True \<Longrightarrow> \<exists>xs. v = Arr xs"
proof (cases v)
  case (Text s)
  then show "has_name n v = Inr True \<Longrightarrow> ?thesis" by (cases s) (auto simp: has_name_def res_simps)
next
  case (Obj d)
  then show "has_name n v = Inr True \<Longrightarrow> ?thesis" by (cases d) (auto simp: has_name_def res_simps)
qed (auto simp: has_name_def)

lemma inject_entry_cases:
  assumes "inject_entry s v = Inr w"
  obtains (present) b where "w = v" "get_key (sub_group s) v = Inr b" "has_name (sub_name s) b = Inr True"
  | (added) xs where "get_key (sub_group s) v = Inr (Arr xs)" "has_name (sub_name s) (Arr xs) = Inr False"
      "set_key (sub_group s) (Arr (xs @ [sub_body s])) v = Inr w"
proof -
  from assms obtain g b where g: "get_key (sub_group s) v = Inr g" "has_name (sub_name s) g = Inr b"
    and rest: "if b then w = v else \<exists>g'. append_item (sub_body s) g = Inr g' \<and> set_key (sub_group s) g' v = Inr w"
    by (auto simp: inject_entry_def res_simps split: if_splits)
  show thesis
  proof (cases b)
    case True
    with rest g present show ?thesis by simp
  next
    case False
    with rest obtain g' where g': "append_item (sub_body s) g = Inr g'" "set_key (sub_group s) g' v = Inr w" by auto
    then obtain xs where "g = Arr xs" "g' = Arr (xs @ [sub_body s])" by (cases g) auto
    with g g' False added show ?thesis by simp
  qed
qed

lemma observe_entry_default:
  assumes "observe_entry s (default_schema v) = Inr w" and "get_key (sub_group s) v = Inr (Arr xs)"
  shows "set_key (sub_group s) (default_schema (Arr (xs @ [sub_body s]))) (default_schema v) = Inr w"
proof -
  from get_key_default [OF assms(2)]
  have g: "get_key (sub_group s) (default_schema v) = Inr (Arr (map default_schema xs @ [list_control (length xs)]))" by simp
  have "b = False" if "has_name (sub_name s) (Arr (map default_schema xs)) = Inr b" for b
  proof -
    have "get_key ''name'' (default_schema x) \<noteq> Inr (Text (sub_name s))" for x
    proof
      assume "get_key ''name'' (default_schema x) = Inr (Text (sub_name s))"
      then obtain d where "default_schema x = Obj d" "dict_get d ''name'' = Some (Text (sub_name s))"
        by (auto simp: get_key_iff)
      then show False
        by (cases x) (auto simp: default_not_Text dict_get_map_snd)
    qed
    with has_name_True [OF that] show ?thesis by auto
  qed
  with assms(1) g show ?thesis
    by (auto simp: observe_entry_def res_simps count_last_def list_control_def butlast_append ac_simps)
qed

lemma inject_default:
  assumes "inject s v (default_schema v) = Inr (v', o')" and "names_free s v"
  shows "o' = default_schema v'"
proof -
  from assms(1) obtain t p where e: "ensure_key (sub_group s) (Arr []) v = Inr t"
      "ensure_key (sub_group s) empty_list_schema (default_schema v) = Inr p"
    and i: "inject_entry s t = Inr v'" "observe_entry s p = Inr o'"
    by (auto simp: inject_def res_simps)
  obtain y where y: "get_key (sub_group s) t = Inr y" using i(1) by (rule inject_entry_cases) auto
  from ensured [OF e(1) this]
  have p: "p = default_schema t \<and> names_free s t"
  proof
    assume t: "t = v \<and> get_key (sub_group s) v = Inr y"
    with get_key_default [of "sub_group s" v y] e(2) assms(2) show ?thesis
      by (auto simp: get_key_iff ensure_key_def dict_get_None_iff split: if_splits dest: dict_get_in_keys)
  next
    assume "y = Arr [] \<and> (\<exists>d. v = Obj d \<and> dict_get d (sub_group s) = None \<and> t = Obj (dict_set (sub_group s) (Arr []) d))"
    then obtain d where d: "v = Obj d" "dict_get d (sub_group s) = None" "t = Obj (dict_set (sub_group s) (Arr []) d)" by blast
    from default_set [of "sub_group s" "Arr []" v t] d have "set_key (sub_group s) empty_list_schema (default_schema v) = Inr (default_schema t)"
      by (simp add: empty_list_schema_def)
    with e(2) d show ?thesis
      by (auto simp: ensure_key_def dict_get_None_iff names_free_def split: if_splits)
  qed
  from i(1) show ?thesis
  proof (cases rule: inject_entry_cases)
    case (present b)
    obtain xs where xs: "b = Arr xs" using has_name_list [OF present(3)] by blast
    with present has_name_True [of "sub_name s" xs True] have "\<not> names_free s t"
      by (auto simp: names_free_def list_all_iff)
    with p show ?thesis by simp
  next
    case (added xs)
    with observe_entry_default [of s t o' xs] i(2) p default_set [OF added(3)] show ?thesis by simp
  qed
qed

definition free_at :: "sub_resource \<Rightarrow> yaml \<Rightarrow> bool" where
  "free_at s v = (case v of Arr xs \<Rightarrow> list_all (names_free s) xs | _ \<Rightarrow> names_free s v)"

lemma inject_elements_default:
  "inject_elements s (length ys) xs (default_schema (Arr (ys @ xs))) = Inr (xs', o') \<Longrightarrow> list_all (names_free s) xs \<Longrightarrow>
    o' = default_schema (Arr (ys @ xs'))"
proof (induction xs arbitrary: ys xs')
  case (Cons x xs)
  let ?o = "\<lambda>x. Arr (map default_schema ys @ default_schema x # map default_schema xs @ [list_control (Suc (length ys + length xs))])"
  from Cons.prems(1) obtain x' part' xs1 where step: "inject s x (default_schema x) = Inr (x', part')"
    and rest: "inject_elements s (Suc (length ys)) xs
        (Arr ((map default_schema ys @ default_schema x # map default_schema xs @ [list_control (Suc (length ys + length xs))])
          [length ys := part'])) = Inr (xs1, o')" and xs': "xs' = x' # xs1"
    by (auto simp: res_simps butlast_append nth_append Let_def split: if_splits)
  from inject_default [OF step] Cons.prems(2) have "part' = default_schema x'" by simp
  with rest have "inject_elements s (length (ys @ [x'])) xs (default_schema (Arr ((ys @ [x']) @ xs))) = Inr (xs1, o')"
    by (simp add: list_update_append)
  from Cons.IH [OF this] Cons.prems(2) xs' show ?case by simp
qed simp

lemma inject_at_default:
  assumes "inject_at s (Some v) (default_schema v) = Inr (v', o')" and "free_at s v"
  shows "o' = default_schema v'"
proof (cases v)
  case (Arr xs)
  with assms obtain xs' where "inject_elements s (length []) xs (default_schema (Arr ([] @ xs))) = Inr (xs', o')" "v' = Arr xs'"
    by (auto simp: inject_at_def res_simps)
  with inject_elements_default [of s "[]" xs xs' o'] assms(2) Arr show ?thesis by (simp add: free_at_def)
next
  case (Obj d)
  with assms show ?thesis
    using inject_default [of s v v' o'] by (simp add: inject_at_def free_at_def)
qed (use assms in \<open>simp_all add: inject_at_def\<close>)

section \<open>Paths\<close>

lemma item_at_default: "item_at ks v = Inr w \<Longrightarrow> item_at ks (default_schema v) = Inr (default_schema w)"
  by (induction ks arbitrary: v) (auto simp: res_simps dest: get_key_default)

lemma put_at_default: "put_at ks x v = Inr w \<Longrightarrow> put_at ks (default_schema x) (default_schema v) = Inr (default_schema w)"
proof (induction ks arbitrary: v w)
  case (Cons k ks)
  then obtain u u' where "get_key k v = Inr u" "put_at ks x u = Inr u'" "set_key k u' v = Inr w"
    by (auto simp: res_simps)
  with Cons.IH show ?case by (auto simp: res_simps dest: get_key_default intro!: default_set)
qed simp

text \<open>The specification of a resource is observed by its default schema.\<close>

definition follows :: "yaml \<Rightarrow> yaml \<Rightarrow> bool" where
  "follows r schema =
     (case get_key ''spec'' r of Inl e \<Rightarrow> True | Inr v \<Rightarrow> get_key ''spec'' schema = Inr (default_schema v))"

lemma follows_item:
  assumes "follows r schema" and "item_at (''spec'' # ks) r = Inr v"
  shows "item_at (''spec'' # ks) schema = Inr (default_schema v)"
  using assms by (auto simp: follows_def res_simps intro: item_at_default)

lemma follows_put:
  assumes "follows r schema" and "put_at (''spec'' # ks) x r = Inr r'"
    and "put_at (''spec'' # ks) (default_schema x) schema = Inr schema'"
  shows "follows r' schema'"
proof -
  from assms(2) obtain v w where v: "get_key ''spec'' r = Inr v" "put_at ks x v = Inr w" "set_key ''spec'' w r = Inr r'"
    by (auto simp: res_simps)
  from assms(1) v(1) have "get_key ''spec'' schema = Inr (default_schema v)" by (simp add: follows_def)
  with assms(3) put_at_default [OF v(2)] have "set_key ''spec'' (default_schema w) schema = Inr schema'"
    by (auto simp: res_simps)
  with v(3) show ?thesis by (simp add: follows_def get_key_after_set)
qed

lemma put_at_spec: "put_at (''spec'' # ks) x r = Inr r' \<Longrightarrow> \<exists>w. set_key ''spec'' w r = Inr r'"
  by (auto simp: res_simps)

text \<open>A change of the specification does not change which resource it is.\<close>

lemma get_or_none_set: "set_key k x v = Inr w \<Longrightarrow> l \<noteq> k \<Longrightarrow> get_or_none l w = get_or_none l v"
  by (auto simp: set_key_iff)

lemma same_resource_spec:
  assumes "set_key ''spec'' x r = Inr r'"
  shows "same_resource b r' f = same_resource b r f" "same_resource b f r' = same_resource b f r"
  using assms
  by (simp_all add: same_resource_def api_version_of_def same_entry_def same_in_metadata_def same_namespace_def
      get_key_after_set [OF assms] get_or_none_set [OF assms] cong: if_cong)

lemma resource_idx_spec:
  assumes "set_key ''spec'' x r = Inr r'"
  shows "resource_idx schemas r' = resource_idx schemas r"
  by (induction schemas) (simp_all add: same_resource_spec [OF assms] cong: if_cong)

lemma resource_idx_update:
  assumes "set_key ''spec'' x (schemas ! i) = Inr f"
  shows "resource_idx (schemas[i := f]) r = resource_idx schemas r"
  using assms
proof (induction schemas arbitrary: i)
  case (Cons g schemas)
  then show ?case by (cases i) (simp_all add: same_resource_spec(2) cong: if_cong)
qed simp

lemma resource_idx_less: "resource_idx schemas r = Inr i \<Longrightarrow> i < length schemas"
  by (induction schemas arbitrary: i) (auto simp: res_simps split: if_splits)

section \<open>The schema follows the mangled resource\<close>

text \<open>What is injected has not the name of what is there, at each of the steps.\<close>

definition free_target :: "sub_resource \<Rightarrow> yaml \<Rightarrow> bool" where
  "free_target s r =
     (case find_path (sub_path s) (sub_other_paths s) r of Inr (ks, Some v) \<Rightarrow> free_at s v | _ \<Rightarrow> True)"

fun unnamed :: "sub_resource list \<Rightarrow> yaml \<times> yaml list \<Rightarrow> bool" where
  "unnamed [] p \<longleftrightarrow> True"
| "unnamed (s # ss) p \<longleftrightarrow>
     free_target s (fst p) \<and> (case mangle_with s p of Inl e \<Rightarrow> True | Inr p' \<Rightarrow> unnamed ss p')"

definition in_spec :: "sub_resource \<Rightarrow> bool" where
  "in_spec s \<longleftrightarrow> list_all (\<lambda>ks. ks \<noteq> [] \<and> hd ks = ''spec'') (sub_path s # sub_other_paths s)"

lemma find_path_found:
  "find_path ks paths r = Inr (ls, v) \<Longrightarrow> ls \<in> set (ks # paths) \<and> (\<forall>w. v = Some w \<longrightarrow> item_at ls r = Inr w)"
proof (induction ks paths r rule: find_path.induct)
  case (1 ks paths r)
  then show ?case by (auto simp: find_path.simps [of ks] split: sum.splits if_splits list.splits)
qed

definition tracked :: "nat \<Rightarrow> yaml \<times> yaml list \<Rightarrow> bool" where
  "tracked i p \<longleftrightarrow> resource_idx (snd p) (fst p) = Inr i \<and> follows (fst p) (snd p ! i)"

lemma mangle_with_tracked:
  assumes "tracked i p" and "mangle_with s p = Inr p'" and "in_spec s" and "free_target s (fst p)"
  shows "tracked i p' \<and> snd p' = (snd p)[i := snd p' ! i]"
proof -
  obtain r schemas r' schemas' where p: "p = (r, schemas)" "p' = (r', schemas')" by (cases p; cases p')
  from assms(1,2) obtain ks target observed schema target' observed' schema' where
    run: "find_path (sub_path s) (sub_other_paths s) r = Inr (ks, target)" "observed_part ks (schemas ! i) = Inr (observed, schema)"
      "inject_at s target observed = Inr (target', observed')" "put_at ks target' r = Inr r'"
      "put_at ks observed' schema = Inr schema'" "schemas' = schemas[i := schema']"
    by (auto simp: mangle_with_def p tracked_def res_simps)
  from find_path_found [OF run(1)] assms(3) have "ks \<noteq> [] \<and> hd ks = ''spec''"
    by (auto simp: in_spec_def list_all_iff)
  then obtain ls where ks: "ks = ''spec'' # ls" by (cases ks) auto
  obtain v where v: "target = Some v" using run(3) by (cases target) (auto simp: inject_at_def)
  from find_path_found [OF run(1)] v have item: "item_at ks r = Inr v" by simp
  from assms(1) have f: "follows r (schemas ! i)" "resource_idx schemas r = Inr i" by (simp_all add: tracked_def p)
  from follows_item [OF f(1)] item ks have "item_at ks (schemas ! i) = Inr (default_schema v)" by simp
  with run(2) have o: "observed = default_schema v" "schema = schemas ! i" by (auto simp: observed_part_def)
  from assms(4) run(1) v have "free_at s v" by (simp add: free_target_def p)
  with run(3) o(1) v have "observed' = default_schema target'" by (auto intro: inject_at_default)
  with follows_put [OF f(1)] run(4,5) ks o(2) have "follows r' schema'" by simp
  moreover from put_at_spec run(4,5) ks o(2) obtain w w' where
    "set_key ''spec'' w r = Inr r'" "set_key ''spec'' w' (schemas ! i) = Inr schema'" by metis
  then have "resource_idx schemas' r' = Inr i" by (simp add: run(6) resource_idx_spec resource_idx_update f(2))
  moreover have "i < length schemas" using f(2) by (rule resource_idx_less)
  ultimately show ?thesis by (simp add: tracked_def p run(6))
qed

lemma mangle_fold_tracked:
  "res_fold mangle_with items p = Inr p' \<Longrightarrow> tracked i p \<Longrightarrow> unnamed items p \<Longrightarrow> list_all in_spec items \<Longrightarrow>
    tracked i p' \<and> snd p' = (snd p)[i := snd p' ! i]"
proof (induction items arbitrary: p)
  case Nil
  then show ?case by (simp add: tracked_def)
next
  case (Cons s items)
  then obtain q where q: "mangle_with s p = Inr q" "res_fold mangle_with items q = Inr p'" by (auto simp: res_simps)
  from mangle_with_tracked [OF Cons.prems(2) q(1)] Cons.prems(3,4) have t: "tracked i q" "snd q = (snd p)[i := snd q ! i]" by simp_all
  from Cons.IH [OF q(2) t(1)] Cons.prems(3,4) q(1) have "tracked i p'" "snd p' = (snd q)[i := snd p' ! i]" by simp_all
  with t(2) show ?case by (metis list_update_overwrite)
qed

lemma hook_items_in_spec: "list_all in_spec (hook_sub_items env k cfg n)"
  by (simp add: hook_sub_items_def volumes_def env_vars_def env_var_def in_spec_def template_path_def pod_path_def)

text \<open>
  C25. If a resource has a specification that its observer schema describes by the default schema,
  then so does the mangled observer schema with the specification that the hooks have mangled,
  as long as no entry is injected under a name that is there already; the schemas of other
  resources are not changed.
\<close>

theorem mangled_schema_follows:
  assumes "mangle_resource (hook_sub_items env k cfg n) (r, schemas) = Inr (r', schemas')"
    and "resource_idx schemas r = Inr i" and "follows r (schemas ! i)"
    and "unnamed (hook_sub_items env k cfg n) (r, schemas)"
  shows "resource_idx schemas' r' = Inr i \<and> follows r' (schemas' ! i) \<and> schemas' = schemas[i := schemas' ! i]"
proof -
  have "tracked i (r, schemas)" using assms(2,3) by (simp add: tracked_def)
  from assms(1) consider "res_fold mangle_with (hook_sub_items env k cfg n) (r, schemas) = Inr (r', schemas')"
    | "r' = r" "schemas' = schemas" by (auto simp: mangle_resource_def res_simps split: if_splits)
  then show ?thesis
  proof cases
    case 1
    from mangle_fold_tracked [OF this \<open>tracked i (r, schemas)\<close> assms(4) hook_items_in_spec]
    show ?thesis by (simp add: tracked_def)
  next
    case 2
    with assms(2,3) show ?thesis by simp
  qed
qed

section \<open>Each container has the entries\<close>

abbreviation containers_path :: "yaml \<Rightarrow> (exn, string list \<times> yaml option) res" where
  "containers_path \<equiv> find_path template_path [pod_path]"

definition containers_of :: "yaml \<Rightarrow> yaml list" where
  "containers_of r = (case containers_path r of Inr (ks, Some (Arr xs)) \<Rightarrow> xs | _ \<Rightarrow> [])"













section \<open>A schema that does not observe the containers\<close>

lemma get_key_error: "get_key k v = Inl e \<Longrightarrow> e = KeyError \<or> e = TypeError"
  by (cases v) (auto split: option.splits)

lemma create_path_error: "ks \<noteq> [] \<Longrightarrow> create_path ks v = Inl e \<Longrightarrow> e = TypeError"
proof (induction ks v rule: create_path.induct)
  case (2 k v)
  then show ?case by (cases v) auto
next
  case (3 k l ks v)
  have contains: "contains_key k v = Inl e \<Longrightarrow> e = TypeError" for e by (cases v) auto
  have set: "set_key k x v = Inl e \<Longrightarrow> e = TypeError" for x e v by (cases v) auto
  from 3(3) consider "contains_key k v = Inl e" | b where "contains_key k v = Inr b"
      "(if b then Inr v else set_key k (Obj []) v) = Inl e"
    | b u where "contains_key k v = Inr b" "(if b then Inr v else set_key k (Obj []) v) = Inr u" "get_key k u = Inl e"
    | b u w where "contains_key k v = Inr b" "(if b then Inr v else set_key k (Obj []) v) = Inr u" "get_key k u = Inr w"
        "create_path (l # ks) w = Inl e"
    | b u w w' where "get_key k u = Inr w" "set_key k w' u = Inl e"
    by (auto simp: res_simps)
  then show ?case
  proof cases
    case 3: 3
    then show ?thesis
      by (cases v; cases b) (auto simp: dict_get_None_iff split: option.splits)
  qed (use contains set 3(1) in \<open>auto split: if_splits\<close>)
qed simp

lemma create_path_Null: "ks \<noteq> [] \<Longrightarrow> create_path ks v = Inr w \<Longrightarrow> item_at ks w = Inr Null"
proof (induction ks v arbitrary: w rule: create_path.induct)
  case (2 k v)
  then show ?case by (simp add: get_key_after_set)
next
  case (3 k l ks v)
  then obtain u x x' where "get_key k u = Inr x" "create_path (l # ks) x = Inr x'" "set_key k x' u = Inr w"
    and "\<exists>b. contains_key k v = Inr b \<and> (if b then Inr v else set_key k (Obj []) v) = Inr u"
    by (auto simp: res_simps)
  with 3(1) have "item_at (l # ks) x' = Inr Null" by auto
  with \<open>set_key k x' u = Inr w\<close> show ?case by (simp add: get_key_after_set)
qed simp

text \<open>
  C35. If the observer schema of a resource does not contain the path to what a hook mangles there, the
  hook raises a \<open>TypeError\<close>: the path that is created for it ends in \<open>None\<close>, which is not a schema
  that could be extended. A \<open>TypeError\<close> is not an error of the controller, so that the worker ends.
\<close>

theorem unobserved_path_raises:
  assumes "resource_idx schemas r = Inr i" and "find_path (sub_path s) (sub_other_paths s) r = Inr (ks, Some v)"
    and "v = Arr (x # xs) \<or> v = Obj d" and "ks \<noteq> []" and "item_at ks (schemas ! i) = Inl KeyError"
  shows "mangle_with s (r, schemas) = Inl TypeError \<and> controller_error TypeError = None"
proof (cases "create_path ks (schemas ! i)")
  case (Inl e)
  with create_path_error [OF assms(4) this] assms show ?thesis by (simp add: mangle_with_def observed_part_def)
next
  case (Inr w)
  have arr: "inject_elements s 0 (x # xs) Null = Inl TypeError" by simp
  have obj: "inject s (Obj d) Null = Inl TypeError"
    by (simp add: inject_def ensure_key_def)
  from create_path_Null [OF assms(4) Inr] have "observed_part ks (schemas ! i) = Inr (Null, w)"
    using assms(5) Inr by (simp add: observed_part_def)
  with assms(1,2,3) arr obj show ?thesis by (auto simp: mangle_with_def inject_at_def)
qed

section \<open>A deployment\<close>

definition example_tls :: hook_env where
  "example_tls =
     \<lparr>api_endpoint = ''a'', ca_certificates = Some [''ca''], intermediate_certificate = (\<lambda>k. Inr ''i''),
      token_urlsafe = (\<lambda>k. ''t''), generate_certificate = (\<lambda>k. Inr (''c'', ''k'')), with_path = (\<lambda>u p. u @ p),
      set_order = (\<lambda>vs. vs)\<rparr>"

definition example_hook :: hook_config where
  "example_hook = \<lparr>external_endpoint = None, cert_dest = ''/d'', env_token = ''T'', env_url = ''U''\<rparr>"

definition example_deployment :: yaml where
  "example_deployment =
     Obj [(''apiVersion'', Text ''v1''), (''kind'', Text ''Deployment''), (''metadata'', Obj [(''name'', Text ''d'')]),
       (''spec'', Obj [(''template'', Obj [(''spec'', Obj [(''containers'', Arr [Obj [(''name'', Text ''c'')]])])])])]"

abbreviation example_sub_items :: "sub_resource list" where
  "example_sub_items \<equiv> hook_sub_items example_tls Complete_hook example_hook ''a''"

definition example_schemas :: "yaml list" where
  "example_schemas = (case default_schema_first_level example_deployment of Inr s \<Rightarrow> [s] | Inl e \<Rightarrow> [])"

definition partial_schema :: yaml where
  "partial_schema =
     Obj [(''apiVersion'', Text ''v1''), (''kind'', Text ''Deployment''), (''metadata'', Obj [(''name'', Text ''d'')])]"

lemma example_mangled:
  "case mangle_resource example_sub_items (example_deployment, example_schemas) of
     Inl e \<Rightarrow> False
   | Inr (r', schemas') \<Rightarrow>
       length (containers_of r') = 1 \<and> resource_idx example_schemas example_deployment = Inr 0 \<and>
       follows example_deployment (example_schemas ! 0) \<and> unnamed example_sub_items (example_deployment, example_schemas) \<and>
       get_key ''kind'' example_deployment = Inr (Text ''Deployment'') \<and> length example_sub_items = 4"
  by code_simp

lemma example_mangled_result:
  obtains r' schemas' where "mangle_resource example_sub_items (example_deployment, example_schemas) = Inr (r', schemas')"
    "length (containers_of r') = 1"
  using example_mangled by (auto split: sum.splits prod.splits)

theorem mangled_schema_follows_witness:
  "\<exists>r' schemas'. mangle_resource example_sub_items (example_deployment, example_schemas) = Inr (r', schemas') \<and>
     follows r' (schemas' ! 0)"
proof -
  obtain r' schemas' where run: "mangle_resource example_sub_items (example_deployment, example_schemas) = Inr (r', schemas')"
    by (rule example_mangled_result)
  have "resource_idx example_schemas example_deployment = Inr 0" "follows example_deployment (example_schemas ! 0)"
    "unnamed example_sub_items (example_deployment, example_schemas)"
    using example_mangled by (auto split: sum.splits prod.splits)
  from mangled_schema_follows [OF run this] run show ?thesis by blast
qed


theorem unobserved_path_raises_witness:
  "mangle_with (env_var ''s'' ''T'') (example_deployment, [partial_schema]) = Inl TypeError"
proof -
  have i: "resource_idx [partial_schema] example_deployment = Inr 0" by code_simp
  have f: "find_path (sub_path (env_var ''s'' ''T'')) (sub_other_paths (env_var ''s'' ''T'')) example_deployment =
      Inr (template_path, Some (Arr [Obj [(''name'', Text ''c'')]]))" by code_simp
  have m: "item_at template_path ([partial_schema] ! 0) = Inl KeyError" by code_simp
  show ?thesis
    using unobserved_path_raises [OF i f _ _ m, of "Obj [(''name'', Text ''c'')]" "[]" "[]"] by (simp add: template_path_def)
qed

end
