(* ===== verification/Coroutine_Relations.thy ===== *)
theory Coroutine_Relations
  imports Coroutines
begin

text \<open>
  What a coroutine does to the state, whatever it returns: \<open>keeps R m\<close> if \<open>m\<close> takes each state to
  one that is related by \<open>R\<close>. For a reflexive and transitive relation the constructs of coroutines
  keep it if their parts do, so that a frame condition is proved by the structure of the code.
\<close>

definition keeps :: "('s \<Rightarrow> 's \<Rightarrow> bool) \<Rightarrow> ('s, 'a) co \<Rightarrow> bool" where
  "keeps R m \<longleftrightarrow> (\<forall>s. post m s (\<lambda>r s'. R s s'))"

lemma keepsI: "(\<And>s. post m s (\<lambda>r s'. R s s')) \<Longrightarrow> keeps R m"
  by (simp add: keeps_def)

lemma keeps_post: "keeps R m \<Longrightarrow> post m s (\<lambda>r s'. R s s')"
  by (simp add: keeps_def)

lemma keeps_mono: "keeps R m \<Longrightarrow> (\<And>s s'. R s s' \<Longrightarrow> S s s') \<Longrightarrow> keeps S m"
  by (auto simp: keeps_def intro: post_mono)

locale state_relation =
  fixes R :: "'s \<Rightarrow> 's \<Rightarrow> bool"
  assumes R_refl: "R s s" and R_trans: "R s t \<Longrightarrow> R t u \<Longrightarrow> R s u"
begin

lemma keeps_after:
  assumes "keeps R m" and "R s t"
  shows "post m t (\<lambda>r u. R s u)"
proof -
  from assms(1) have "post m t (\<lambda>r u. R t u)" by (rule keeps_post)
  then show ?thesis by (rule post_mono) (rule R_trans [OF assms(2)])
qed

lemma keeps_return: "keeps R (co_return x)"
  by (simp add: keeps_def post_return R_refl)

lemma keeps_raise: "keeps R (co_raise e)"
  by (simp add: keeps_def post_raise R_refl)

lemma keeps_lift: "keeps R (co_lift r)"
  by (simp add: keeps_def post_lift R_refl)

lemma keeps_bind:
  assumes "keeps R m" and "\<And>x. keeps R (f x)"
  shows "keeps R (co_bind m f)"
proof (rule keepsI)
  fix s
  show "post (co_bind m f) s (\<lambda>r s'. R s s')"
  proof (rule post_bindI [OF keeps_post [OF assms(1)]])
    fix x s' assume "R s s'"
    with assms(2) show "post (f x) s' (\<lambda>r s'. R s s')" by (rule keeps_after)
  qed
qed

lemma keeps_then: "keeps R m \<Longrightarrow> keeps R n \<Longrightarrow> keeps R (co_then m n)"
  unfolding co_then_def by (rule keeps_bind)

lemma keeps_catch:
  assumes "keeps R m" and "\<And>e. keeps R (h e)"
  shows "keeps R (co_catch m h)"
proof (rule keepsI)
  fix s
  show "post (co_catch m h) s (\<lambda>r s'. R s s')"
    unfolding post_catch
  proof (rule post_mono [OF keeps_post [OF assms(1)]])
    fix r s' assume "R s s'"
    with keeps_after [OF assms(2)]
    show "case r of Inl e \<Rightarrow> post (h e) s' (\<lambda>r s'. R s s') | Inr x \<Rightarrow> R s s'" by (auto split: sum.split)
  qed
qed

lemma keeps_loop:
  assumes "keeps R body"
  shows "keeps R (co_loop body)"
proof (rule keepsI)
  fix s
  show "post (co_loop body) s (\<lambda>r s'. R s s')"
  proof (rule post_loop [where I = "R s"])
    show "R s s" by (rule R_refl)
    fix t assume "R s t"
    from keeps_after [OF assms this]
    show "post body t (\<lambda>r s'. case r of Inl e \<Rightarrow> R s s' | Inr None \<Rightarrow> R s s' | Inr (Some x) \<Rightarrow> R s s')"
      by (rule post_mono) (auto split: sum.split option.split)
  qed
qed

lemma keeps_machine:
  assumes "\<And>a. keeps R (act a)"
  shows "keeps R (co_machine act a)"
proof (rule keepsI, rule postI)
  fix s r t assume run: "co_machine act a s = Some (r, t)"
  have "act = act \<longrightarrow> R s t"
  proof (rule co_machine.raw_induct [of "\<lambda>f a s p. f = act \<longrightarrow> R s (snd p)", OF _ run, simplified snd_conv])
    fix machine f b u p
    assume IH: "\<And>f a s q. machine f a s = Some q \<Longrightarrow> f = act \<longrightarrow> R s (snd q)"
      and step: "Option.bind (f b u) (\<lambda>(r, s'). case r of Inl e \<Rightarrow> Some (Inl e, s') | Inr None \<Rightarrow> Some (Inr (), s')
        | Inr (Some b) \<Rightarrow> machine f b s') = Some p"
    show "f = act \<longrightarrow> R u (snd p)"
    proof
      assume f: "f = act"
      from step obtain q v where q: "f b u = Some (q, v)" and
        rest: "(case q of Inl e \<Rightarrow> Some (Inl e, v) | Inr None \<Rightarrow> Some (Inr (), v) | Inr (Some b) \<Rightarrow> machine f b v) = Some p"
        by (auto simp: bind_eq_Some_conv)
      from postD [OF keeps_post [OF assms] q [unfolded f]] have "R u v" .
      moreover have "R v (snd p)" if "q = Inr (Some b)" "machine f b v = Some p" for b
        using IH [OF that(2)] f by simp
      ultimately show "R u (snd p)" using rest R_refl R_trans by (auto split: sum.splits option.splits)
    qed
  qed
  then show "R s t" by simp
qed

lemmas keeps_intros =
  keeps_return keeps_raise keeps_lift keeps_bind keeps_then keeps_catch keeps_loop keeps_machine

end

text \<open>The equality of what a function observes of the state.\<close>

interpretation unchanged: state_relation "\<lambda>s t. f t = f s" for f
  by unfold_locales simp_all

section \<open>Termination\<close>

text \<open>\<open>returns m s\<close>: the coroutine returns or raises.\<close>

definition returns :: "('s, 'a) co \<Rightarrow> 's \<Rightarrow> bool" where
  "returns m s \<longleftrightarrow> m s \<noteq> None"

lemma returns_basic [simp]:
  "returns (co_return x) s" "returns (co_raise e) s" "returns (co_lift r) s"
  by (simp_all add: returns_def co_return_def co_raise_def co_lift_def)

lemma returns_bind:
  assumes "returns m s" and "\<And>x s'. m s = Some (Inr x, s') \<Longrightarrow> returns (f x) s'"
  shows "returns (co_bind m f) s"
  using assms by (auto simp: returns_def co_bind_def split: sum.split)

lemma returns_then:
  assumes "returns m s" and "\<And>s'. m s = Some (Inr (), s') \<Longrightarrow> returns n s'"
  shows "returns (co_then m n) s"
  unfolding co_then_def by (rule returns_bind [OF assms(1)]) (use assms(2) in simp)

lemma returns_catch:
  assumes "returns m s" and "\<And>e s'. m s = Some (Inl e, s') \<Longrightarrow> returns (h e) s'"
  shows "returns (co_catch m h) s"
  using assms by (auto simp: returns_def co_catch_def split: sum.split)

definition total :: "('s, 'a) co \<Rightarrow> bool" where
  "total m \<longleftrightarrow> (\<forall>s. returns m s)"

lemma total_returns: "total m \<Longrightarrow> returns m s"
  by (simp add: total_def)

lemma total_basic: "total (co_return x)" "total (co_raise e)" "total (co_lift r)"
  by (simp_all add: total_def)

lemma total_bind: "total m \<Longrightarrow> (\<And>x. total (f x)) \<Longrightarrow> total (co_bind m f)"
  by (auto simp: total_def intro: returns_bind)

lemma total_then: "total m \<Longrightarrow> total n \<Longrightarrow> total (co_then m n)"
  by (auto simp: total_def intro: returns_then)

lemma total_catch: "total m \<Longrightarrow> (\<And>e. total (h e)) \<Longrightarrow> total (co_catch m h)"
  by (auto simp: total_def intro: returns_catch)

lemmas total_intros = total_basic total_bind total_then total_catch

text \<open>What only the last part of a sequence decides.\<close>

lemma post_last: "(\<And>e s. Q (Inl e) s) \<Longrightarrow> (\<And>x s. post (f x) s Q) \<Longrightarrow> post (co_bind m f) s Q"
  by (rule post_bindI [where P = "\<lambda>r s. True"]) (simp_all add: post_def split: option.split)

lemma post_last_then: "(\<And>e s. Q (Inl e) s) \<Longrightarrow> (\<And>s. post n s Q) \<Longrightarrow> post (co_then m n) s Q"
  unfolding co_then_def by (rule post_last)

text \<open>A loop ends if its rounds do and a measure decreases as long as it goes on.\<close>

lemma returns_loop:
  assumes "\<And>s. I s \<Longrightarrow> returns body s"
    and "\<And>s s'. I s \<Longrightarrow> body s = Some (Inr None, s') \<Longrightarrow> I s' \<and> (f s' :: nat) < f s"
    and "I s"
  shows "returns (co_loop body) s"
  using assms(3)
proof (induction "f s" arbitrary: s rule: less_induct)
  case less
  obtain r s' where b: "body s = Some (r, s')" using assms(1) [OF less.prems] by (auto simp: returns_def)
  show ?case
  proof (cases r)
    case (Inl e)
    with b show ?thesis unfolding returns_def by (subst co_loop.simps) simp
  next
    case (Inr x)
    show ?thesis
    proof (cases x)
      case None
      with b Inr assms(2) [OF less.prems] have "returns (co_loop body) s'" by (intro less.hyps) simp_all
      with b Inr None show ?thesis unfolding returns_def by (subst co_loop.simps) simp
    next
      case (Some y)
      with b Inr show ?thesis unfolding returns_def by (subst co_loop.simps) simp
    qed
  qed
qed

end
