(* ===== verification/Cluster_Controller.thy ===== *)
theory Cluster_Controller
  imports Scheduler_Data Garbage_Collector Controller_Base Worker Coroutine_Relations Manifest
begin

text \<open>
  The controller of Kubernetes clusters (\<open>krake/krake/controller/kubernetes/cluster/cluster.py\<close>) with
  the observers of clusters (\<open>KubernetesClusterObserver\<close> in \<open>controller/kubernetes/hooks.py\<close>): the
  workers decide which clusters have an observer, and the observers find out the state of a cluster.
\<close>

section \<open>Data\<close>

record node_condition =
  condition_type :: string
  condition_status :: string
  condition_reason :: "string option"
  condition_message :: "string option"

record cluster_node =
  node_name :: string
  node_conditions :: "node_condition list"

record observed_cluster = cluster +
  cl_kubeconfig :: yaml
  cl_nodes :: "cluster_node list"
  cl_triggered :: "time option"
  cl_retries :: "int option"
  cl_scheduled_retry :: "time option"
  cl_backoff_limit :: int

section \<open>The observer of a cluster\<close>

definition ends_with :: "string \<Rightarrow> string \<Rightarrow> bool" where
  "ends_with suffix s \<longleftrightarrow> length suffix \<le> length s \<and> drop (length s - length suffix) s = suffix"

definition condition_problem :: "node_condition \<Rightarrow> cluster_state option" where
  "condition_problem c =
     (let t = map to_lower (condition_type c) in
      if ends_with ''pressure'' t \<and> condition_status c = ''True'' then Some Cl_UNHEALTHY
      else if t = ''ready'' \<and> condition_status c \<noteq> ''True'' then Some Cl_NOTREADY
      else None)"

text \<open>The first problem, in the order of the nodes and of their conditions.\<close>

fun first_problem :: "node_condition list \<Rightarrow> cluster_state option" where
  "first_problem [] = None"
| "first_problem (c # cs) = (case condition_problem c of None \<Rightarrow> first_problem cs | Some p \<Rightarrow> Some p)"

definition polled_state :: "cluster_state \<Rightarrow> cluster_node list \<Rightarrow> cluster_state" where
  "polled_state old ns =
     (if old = Cl_FAILING_METRICS then old
      else if old = Cl_OFFLINE then Cl_CONNECTING
      else (case first_problem (concat (map node_conditions ns)) of None \<Rightarrow> Cl_ONLINE | Some p \<Rightarrow> p))"

fun is_unreachable :: "exn \<Rightarrow> bool" where
  "is_unreachable ClientConnectorError \<longleftrightarrow> True"
| "is_unreachable (ApiException s) \<longleftrightarrow> True"
| "is_unreachable _ \<longleftrightarrow> False"

text \<open>The nodes as the cluster lists them; their conditions may be missing.\<close>

type_synonym listed_nodes = "(string \<times> node_condition list option) list"

definition read_node :: "string \<times> node_condition list option \<Rightarrow> (exn, cluster_node) res" where
  "read_node = (\<lambda>(n, cs). case cs of None \<Rightarrow> Inl TypeError | Some cs \<Rightarrow> Inr \<lparr>node_name = n, node_conditions = cs\<rparr>)"

text \<open>\<open>poll_resource\<close>: the loading of the kubeconfig and the list of the nodes are the arguments.\<close>

definition poll_cluster :: "(exn, unit) res \<Rightarrow> (exn, listed_nodes) res \<Rightarrow> observed_cluster \<Rightarrow> (exn, observed_cluster) res" where
  "poll_cluster loaded listed c =
     res_bind loaded (\<lambda>_.
     case listed of
       Inl e \<Rightarrow> if is_unreachable e then Inr (c\<lparr>cl_nodes := [], cl_state := Cl_OFFLINE\<rparr>) else Inl e
     | Inr raw \<Rightarrow>
         res_bind (res_map read_node raw) (\<lambda>ns.
         Inr (c\<lparr>cl_nodes := ns, cl_state := polled_state (cl_state c) ns\<rparr>)))"

text \<open>\<open>on_status_update\<close>: the update that is sent at the time \<open>t\<close>.\<close>

definition on_cluster_status :: "time \<Rightarrow> observed_cluster \<Rightarrow> observed_cluster" where
  "on_cluster_status t c = c\<lparr>cl_triggered := Some t\<rparr>"

text \<open>
  The rounds of an observer: what is loaded and listed, the time, and what the API answers to an
  update. The result is what was sent, and the resource at the end; an exception ends the task.
\<close>

record cluster_round =
  round_config :: "(exn, unit) res"
  round_nodes :: "(exn, listed_nodes) res"
  round_time :: time
  round_answer :: "observed_cluster \<Rightarrow> observed_cluster option"

definition observe_cluster ::
  "cluster_round \<Rightarrow> observed_cluster \<Rightarrow> (exn, observed_cluster list \<times> observed_cluster) res" where
  "observe_cluster w c =
     res_bind (poll_cluster (round_config w) (round_nodes w) c) (\<lambda>polled.
     Inr (case observe_resource (\<lambda>_. ''Cluster'') (\<lambda>c. c) (\<lambda>s _. s) cl_state
            (\<lambda>u. round_answer w (on_cluster_status (round_time w) u)) polled c of
       (sent, c') \<Rightarrow> (map (on_cluster_status (round_time w)) sent, c')))"

fun run_observer :: "cluster_round list \<Rightarrow> observed_cluster \<Rightarrow> (exn, observed_cluster list \<times> observed_cluster) res" where
  "run_observer [] c = Inr ([], c)"
| "run_observer (w # ws) c =
     res_bind (observe_cluster w c) (\<lambda>(sent, c').
     res_bind (run_observer ws c') (\<lambda>(sents, c''). Inr (sent @ sents, c'')))"

section \<open>The state of the controller\<close>

datatype cluster_request =
    Put_cluster_status observed_cluster
  | Start_task string
  | Stop_task string

type_synonym cluster_log = "cluster_request list"

text \<open>The observers by the uid of their cluster, with the cluster that each was made for or has last got.\<close>

record cluster_controller =
  cluster_requests :: cluster_log
  cluster_observers :: "(string, observed_cluster) dict"

record cluster_env =
  stored_answer :: "cluster_log \<Rightarrow> (exn, unit) res"
  task_answer :: "cluster_log \<Rightarrow> (exn, unit) res"
  cluster_clock :: "cluster_log \<Rightarrow> time"
  cluster_differs :: "observed_cluster \<Rightarrow> observed_cluster \<Rightarrow> bool"

definition cluster_ask :: "(cluster_log \<Rightarrow> (exn, 'a) res) \<Rightarrow> cluster_request \<Rightarrow> (cluster_controller, 'a) co" where
  "cluster_ask answer r s =
     (let h = cluster_requests s @ [r] in Some (answer h, s\<lparr>cluster_requests := h\<rparr>))"

lemma post_cluster_ask [post_simps]:
  "post (cluster_ask answer r) s Q \<longleftrightarrow>
     Q (answer (cluster_requests s @ [r])) (s\<lparr>cluster_requests := cluster_requests s @ [r]\<rparr>)"
  by (simp add: post_def cluster_ask_def Let_def)

section \<open>The observers\<close>

definition register_cluster_observer :: "observed_cluster \<Rightarrow> (cluster_controller, unit) co" where
  "register_cluster_observer c =
     co_then (cluster_ask (\<lambda>_. Inr ()) (Start_task (uid (metadata c))))
       (co_modify (\<lambda>s. s\<lparr>cluster_observers := dict_set (uid (metadata c)) c (cluster_observers s)\<rparr>))"

text \<open>The task that is stopped may have ended with an exception, which is raised here.\<close>

definition unregister_cluster_observer :: "cluster_env \<Rightarrow> observed_cluster \<Rightarrow> (cluster_controller, unit) co" where
  "unregister_cluster_observer env c =
     co_bind co_get (\<lambda>s.
     case dict_get (cluster_observers s) (uid (metadata c)) of
       None \<Rightarrow> co_return ()
     | Some _ \<Rightarrow>
         co_then (co_modify (\<lambda>s. s\<lparr>cluster_observers := dict_del (uid (metadata c)) (cluster_observers s)\<rparr>))
           (co_catch (cluster_ask (task_answer env) (Stop_task (uid (metadata c))))
             (\<lambda>e. if e = TimeoutError then co_return () else co_raise e)))"

text \<open>Which clusters have no observer.\<close>

definition unobserved :: "observed_cluster \<Rightarrow> bool" where
  "unobserved c \<longleftrightarrow> deleted (metadata c) \<noteq> None \<or> cl_state c \<in> {Cl_CREATING, Cl_RECONCILING}"

definition cluster_received :: "cluster_env \<Rightarrow> observed_cluster \<Rightarrow> (cluster_controller, unit) co" where
  "cluster_received env c =
     co_bind co_get (\<lambda>s.
     if unobserved c then unregister_cluster_observer env c
     else
       case dict_get (cluster_observers s) (uid (metadata c)) of
         None \<Rightarrow> register_cluster_observer c
       | Some seen \<Rightarrow>
           if cluster_differs env c seen
           then co_then (unregister_cluster_observer env c) (register_cluster_observer c)
           else co_return ())"

section \<open>Workers\<close>

definition accept_accessible :: "observed_cluster \<Rightarrow> bool" where
  "accept_accessible c \<longleftrightarrow> cl_state c \<noteq> Cl_FAILED \<and> truth (cl_kubeconfig c)"

text \<open>\<open>list_cluster\<close>, up to the queue.\<close>

definition list_cluster :: "cluster_env \<Rightarrow> observed_cluster \<Rightarrow> (cluster_controller, unit) co" where
  "list_cluster env c =
     (if cl_triggered c = None then co_return ()
      else co_then (unregister_cluster_observer env c) (register_cluster_observer c))"

type_synonym observed_cluster_queue = "(string, observed_cluster) work_queue"

definition receive_cluster :: "observed_cluster \<Rightarrow> observed_cluster_queue \<Rightarrow> observed_cluster_queue" where
  "receive_cluster c q = (if accept_accessible c then wq_put (uid (metadata c)) c None q else q)"

text \<open>\<open>_update_retry_fields\<close> reads \<open>cluster.state\<close>, an attribute that no cluster has.\<close>

definition update_cluster_retries :: "observed_cluster \<Rightarrow> (exn, observed_cluster) res" where
  "update_cluster_retries c = Inl AttributeError"

text \<open>Errors of the cluster's API and of the controller; \<open>None\<close> for an exception that ends the worker.\<close>

fun cluster_failure :: "exn \<Rightarrow> reason_code option option" where
  "cluster_failure (ApiException s) = Some (Some KUBERNETES_ERROR)"
| "cluster_failure e = controller_error e"

fun is_api_exception :: "exn \<Rightarrow> bool" where
  "is_api_exception (ApiException s) \<longleftrightarrow> True"
| "is_api_exception _ \<longleftrightarrow> False"

definition degraded_cluster :: "bool \<Rightarrow> int \<Rightarrow> observed_cluster \<Rightarrow> (exn, observed_cluster) res" where
  "degraded_cluster by_api n c =
     (if n > 0 then update_cluster_retries (c\<lparr>cl_state := Cl_DEGRADED\<rparr>)
      else if cl_backoff_limit c = -1
      then (if by_api then Inr (c\<lparr>cl_state := Cl_DEGRADED\<rparr>) else update_cluster_retries (c\<lparr>cl_state := Cl_DEGRADED\<rparr>))
      else Inr (c\<lparr>cl_state := Cl_OFFLINE\<rparr>))"

definition with_retries :: "observed_cluster \<Rightarrow> int \<times> observed_cluster" where
  "with_retries c =
     (let n = (case cl_retries c of None \<Rightarrow> cl_backoff_limit c | Some n \<Rightarrow> n) in (n, c\<lparr>cl_retries := Some n\<rparr>))"

text \<open>Whether it is time for a cluster; the comparison with a time that is not set raises.\<close>

definition its_time :: "cluster_env \<Rightarrow> observed_cluster \<Rightarrow> (cluster_controller, bool) co" where
  "its_time env c =
     (if cl_state c \<noteq> Cl_DEGRADED then co_return True
      else
        co_bind co_get (\<lambda>s.
        case cl_scheduled_retry c of
          None \<Rightarrow> co_raise TypeError
        | Some t \<Rightarrow> co_return (cluster_clock env (cluster_requests s) \<ge> t)))"

definition handle_cluster :: "cluster_env \<Rightarrow> observed_cluster \<Rightarrow> (cluster_controller, unit) co" where
  "handle_cluster env c =
     (case with_retries c of
        (n, c) \<Rightarrow>
          co_catch
            (co_bind (its_time env c) (\<lambda>now. if now then cluster_received env c else co_return ()))
            (\<lambda>e. case cluster_failure e of
               None \<Rightarrow> co_raise e
             | Some code \<Rightarrow>
                 co_bind (co_lift (degraded_cluster (is_api_exception e) n (c\<lparr>cl_reason := code\<rparr>))) (\<lambda>c.
                 cluster_ask (stored_answer env) (Put_cluster_status c))))"

text \<open>A turn of a worker, and what the reflector puts into the queue meanwhile.\<close>

definition observed_cluster_turn ::
  "cluster_env \<Rightarrow> cluster_controller \<Rightarrow> (observed_cluster \<Rightarrow> observed_cluster list) \<Rightarrow> observed_cluster \<Rightarrow> observed_cluster_queue \<Rightarrow>
     ((exn, unit) res \<times> cluster_controller) option \<times> observed_cluster_queue" where
  "observed_cluster_turn env s arrivals c q = (handle_cluster env c s, fold receive_cluster (arrivals c) q)"

definition handle_clusters ::
  "cluster_env \<Rightarrow> cluster_controller \<Rightarrow> (observed_cluster \<Rightarrow> observed_cluster list) \<Rightarrow> observed_cluster_queue \<Rightarrow>
     ((exn, ((exn, unit) res \<times> cluster_controller) option) res \<times> observed_cluster_queue) option" where
  "handle_clusters env s arrivals = worker_turn (observed_cluster_turn env s arrivals)"

interpretation cluster_worker: queue_worker "observed_cluster_turn env s arrivals" for env s arrivals
proof
  fix P c q assume q: "wq_inv P (q :: observed_cluster_queue)"
  have "wq_inv P (fold receive_cluster cs q)" for cs
    using q by (induction cs arbitrary: q) (simp_all add: receive_cluster_def wq_inv_put)
  then show "wq_inv P (snd (observed_cluster_turn env s arrivals c q))" by (simp add: observed_cluster_turn_def)
qed

end
