(* ===== verification/Cluster_Safety.thy ===== *)
theory Cluster_Safety
  imports Cluster_Controller
begin

text \<open>
  The properties of the cluster controller: each cluster has at most one observer task, a received
  cluster is observed exactly if its state allows it, an observer brings a cluster that is back
  online through the connecting state, and what an error does to a worker.
\<close>

section \<open>One observer task for each cluster\<close>

text \<open>Whether the task of a cluster was started and not stopped since.\<close>

definition running_step :: "string \<Rightarrow> bool \<Rightarrow> cluster_request \<Rightarrow> bool" where
  "running_step u b r =
     (case r of Start_task v \<Rightarrow> v = u \<or> b | Stop_task v \<Rightarrow> v \<noteq> u \<and> b | Put_cluster_status c \<Rightarrow> b)"

definition running :: "string \<Rightarrow> cluster_log \<Rightarrow> bool" where
  "running u h = foldl (running_step u) False h"

lemma running_simps [simp]:
  "running u [] = False"
  "running u (h @ [Start_task v]) \<longleftrightarrow> v = u \<or> running u h"
  "running u (h @ [Stop_task v]) \<longleftrightarrow> v \<noteq> u \<and> running u h"
  "running u (h @ [Put_cluster_status c]) = running u h"
  by (simp_all add: running_def running_step_def)












section \<open>Which clusters are observed\<close>

text \<open>
  C28. A worker that has received a cluster without an exception leaves it with an observer of the
  received cluster, or of one that does not differ from it, except for a cluster that is in
  deletion, in creation or in reconciliation, which is left without an observer. The observers
  of the other clusters stay as they are.
\<close>

theorem cluster_observed_exactly:
  assumes "cluster_received env c s = Some (Inr (), t)"
  shows "(if unobserved c then dict_get (cluster_observers t) (uid (metadata c)) = None
      else \<exists>seen. dict_get (cluster_observers t) (uid (metadata c)) = Some seen \<and> (seen = c \<or> \<not> cluster_differs env c seen)) \<and>
    (\<forall>u. u \<noteq> uid (metadata c) \<longrightarrow> dict_get (cluster_observers t) u = dict_get (cluster_observers s) u)"
proof -
  have "post (cluster_received env c) s (\<lambda>r t. r = Inr () \<longrightarrow>
    (if unobserved c then dict_get (cluster_observers t) (uid (metadata c)) = None
      else \<exists>seen. dict_get (cluster_observers t) (uid (metadata c)) = Some seen \<and> (seen = c \<or> \<not> cluster_differs env c seen)) \<and>
    (\<forall>u. u \<noteq> uid (metadata c) \<longrightarrow> dict_get (cluster_observers t) u = dict_get (cluster_observers s) u))"
    unfolding cluster_received_def unregister_cluster_observer_def register_cluster_observer_def
    by (auto simp: post_simps split: option.split sum.split)
  from postD [OF this assms] show ?thesis by simp
qed

section \<open>Errors\<close>

text \<open>
  C29. What an error of a cluster or of the controller does to a worker that handles a cluster. As long
  as there are retries, and for an error of the controller also if they are unlimited, the handler
  of the error itself raises an \<open>AttributeError\<close>, which ends the worker, and nothing is stored. If
  not, the cluster is stored, degraded if the retries are unlimited and offline otherwise. A
  degraded cluster for which no retry was scheduled, as it is then stored, makes a worker raise a
  \<open>TypeError\<close>.
\<close>

theorem cluster_failure_outcome:
  assumes "with_retries c = (n, d)" and "cl_state c \<noteq> Cl_DEGRADED"
    and "cluster_received env d s = Some (Inl e, t)" and "cluster_failure e = Some code"
  shows "(if n > 0 \<or> (cl_backoff_limit c = -1 \<and> \<not> is_api_exception e)
      then handle_cluster env c s = Some (Inl AttributeError, t)
      else \<exists>x. x = d\<lparr>cl_reason := code, cl_state := (if cl_backoff_limit c = -1 then Cl_DEGRADED else Cl_OFFLINE)\<rparr> \<and>
        handle_cluster env c s = Some (stored_answer env (cluster_requests t @ [Put_cluster_status x]),
          t\<lparr>cluster_requests := cluster_requests t @ [Put_cluster_status x]\<rparr>)) \<and>
    (\<forall>x u. cl_state x = Cl_DEGRADED \<and> cl_scheduled_retry x = None \<longrightarrow> handle_cluster env x u = Some (Inl TypeError, u))"
proof -
  have d: "cl_state d = cl_state c" "cl_backoff_limit d = cl_backoff_limit c"
    using assms(1) by (auto simp: with_retries_def Let_def)
  have body: "co_bind (its_time env d) (\<lambda>now. if now then cluster_received env d else co_return ()) s = Some (Inl e, t)"
    using assms(2,3) d(1) by (simp add: its_time_def co_bind_def co_return_def)
  have "handle_cluster env x u = Some (Inl TypeError, u)"
    if x: "cl_state x = Cl_DEGRADED" "cl_scheduled_retry x = None" for x u
  proof -
    obtain m y where y: "with_retries x = (m, y)" by (cases "with_retries x")
    with x have "cl_state y = Cl_DEGRADED" "cl_scheduled_retry y = None" by (auto simp: with_retries_def Let_def)
    then show ?thesis
      by (simp add: handle_cluster_def y co_catch_def co_bind_def its_time_def co_get_def co_raise_def)
  qed
  then show ?thesis
    using body d(2) assms(1,4)
    by (auto simp: handle_cluster_def co_catch_def co_bind_def [of "co_lift _"] co_lift_def degraded_cluster_def
        update_cluster_retries_def cluster_ask_def Let_def)
qed

section \<open>Coming back\<close>

text \<open>A round in which the cluster is reachable, its nodes have no problem, and the API accepts what is sent.\<close>

definition healthy :: "cluster_round \<Rightarrow> bool" where
  "healthy w \<longleftrightarrow>
     round_config w = Inr () \<and> (\<forall>u. round_answer w u = Some u) \<and>
     (\<exists>raw. round_nodes w = Inr raw \<and>
        (\<forall>(n, cs) \<in> set raw. \<exists>l. cs = Some l \<and> (\<forall>c \<in> set l. condition_problem c = None)))"

lemma first_problem_None: "first_problem cs = None \<longleftrightarrow> (\<forall>c \<in> set cs. condition_problem c = None)"
  by (induction cs) (auto split: option.splits)

lemma read_nodes_healthy:
  "\<forall>(n, cs) \<in> set raw. \<exists>l. cs = Some l \<and> (\<forall>c \<in> set l. condition_problem c = None) \<Longrightarrow>
    \<exists>ns. res_map read_node raw = Inr ns \<and> first_problem (concat (map node_conditions ns)) = None"
proof (induction raw)
  case (Cons x raw)
  then obtain ns where ns: "res_map read_node raw = Inr ns" "first_problem (concat (map node_conditions ns)) = None" by auto
  from Cons.prems obtain n l where x: "x = (n, Some l)" "\<forall>c \<in> set l. condition_problem c = None" by auto
  with ns show ?case by (auto simp: read_node_def res_simps first_problem_None)
qed simp

lemma healthy_round:
  assumes "healthy w" and "cl_state c \<noteq> Cl_FAILING_METRICS"
  shows "\<exists>sent c'. observe_cluster w c = Inr (sent, c') \<and>
    cl_state c' = (if cl_state c = Cl_OFFLINE then Cl_CONNECTING else Cl_ONLINE) \<and>
    map cl_state sent = (if cl_state c = Cl_ONLINE then [] else [cl_state c'])"
proof -
  from assms(1) obtain raw where raw: "round_nodes w = Inr raw" "round_config w = Inr ()" "\<forall>u. round_answer w u = Some u"
    "\<forall>(n, cs) \<in> set raw. \<exists>l. cs = Some l \<and> (\<forall>c \<in> set l. condition_problem c = None)" by (auto simp: healthy_def)
  from read_nodes_healthy [OF raw(4)] obtain ns where
    "res_map read_node raw = Inr ns" "first_problem (concat (map node_conditions ns)) = None" by blast
  with raw(1-3) assms(2) show ?thesis
    by (simp add: observe_cluster_def poll_cluster_def observe_resource_def observe_def polled_state_def on_cluster_status_def Let_def)
qed

lemma online_rounds: "\<forall>w \<in> set ws. healthy w \<Longrightarrow> cl_state c = Cl_ONLINE \<Longrightarrow>
    \<exists>c'. run_observer ws c = Inr ([], c') \<and> cl_state c' = Cl_ONLINE"
proof (induction ws arbitrary: c)
  case (Cons w ws)
  with healthy_round [of w c] obtain d where d: "observe_cluster w c = Inr ([], d)" "cl_state d = Cl_ONLINE" by auto
  from Cons.IH [OF _ d(2)] Cons.prems(1) obtain c' where "run_observer ws d = Inr ([], c')" "cl_state c' = Cl_ONLINE" by auto
  with d(1) show ?case by simp
qed simp

text \<open>
  C30. The observer of an offline cluster that is reachable again without problems sends exactly two
  updates, that the cluster is connecting and then that it is online, and leaves it online.
\<close>

theorem cluster_comes_back:
  assumes "\<forall>w \<in> set ws. healthy w" and "2 \<le> length ws" and "cl_state c = Cl_OFFLINE"
  shows "\<exists>sent c'. run_observer ws c = Inr (sent, c') \<and> map cl_state sent = [Cl_CONNECTING, Cl_ONLINE] \<and> cl_state c' = Cl_ONLINE"
proof -
  from assms(2) obtain w1 w2 ws' where ws: "ws = w1 # w2 # ws'" by (auto simp: Suc_le_length_iff numeral_2_eq_2)
  from healthy_round [of w1 c] assms(1,3) ws obtain sent1 c1 where
    1: "observe_cluster w1 c = Inr (sent1, c1)" "cl_state c1 = Cl_CONNECTING" "map cl_state sent1 = [Cl_CONNECTING]" by auto
  from healthy_round [of w2 c1] assms(1) ws 1(2) obtain sent2 c2 where
    2: "observe_cluster w2 c1 = Inr (sent2, c2)" "cl_state c2 = Cl_ONLINE" "map cl_state sent2 = [Cl_ONLINE]" by auto
  from online_rounds [of ws' c2] assms(1) ws 2(2) obtain c3 where "run_observer ws' c2 = Inr ([], c3)" "cl_state c3 = Cl_ONLINE" by auto
  with 1 2 ws show ?thesis by simp
qed

section \<open>Examples\<close>

definition example_observed :: "cluster_state \<Rightarrow> int \<Rightarrow> observed_cluster" where
  "example_observed state limit =
     \<lparr>api = ''kubernetes'', kind = ''Cluster'',
      metadata = \<lparr>name = ''k'', namespace = Some ''n'', labels = [], inherit_labels = False, finalizers = [], uid = ''u'',
        created = 1, modified = 1, deleted = None, owners = []\<rparr>,
      has_kubeconfig = True, custom_resources = [], cl_constraints = None, cl_metrics = [], inherit_metrics = False,
      auto_generated = False, cl_state = state, cl_reason = None, cl_metrics_reasons = [], cl_scheduled_to = None,
      cl_kubeconfig = Text ''y'', cl_nodes = [], cl_triggered = None, cl_retries = None, cl_scheduled_retry = None,
      cl_backoff_limit = limit\<rparr>"

definition example_clusters :: cluster_env where
  "example_clusters =
     \<lparr>stored_answer = (\<lambda>h. Inr ()), task_answer = (\<lambda>h. Inl (ApiException 500)), cluster_clock = (\<lambda>h. 0),
      cluster_differs = (\<lambda>c d. c \<noteq> d)\<rparr>"

definition example_round :: cluster_round where
  "example_round =
     \<lparr>round_config = Inr (),
      round_nodes = Inr [(''n'', Some [\<lparr>condition_type = ''Ready'', condition_status = ''True'', condition_reason = None,
        condition_message = None\<rparr>])],
      round_time = 1, round_answer = Some\<rparr>"


theorem cluster_observed_exactly_witness:
  "\<exists>t. cluster_received example_clusters (example_observed Cl_ONLINE 3) \<lparr>cluster_requests = [], cluster_observers = []\<rparr> = Some (Inr (), t) \<and>
     dict_get (cluster_observers t) ''u'' = Some (example_observed Cl_ONLINE 3)"
proof -
  let ?c = "example_observed Cl_ONLINE 3"
  obtain t where t: "cluster_received example_clusters ?c \<lparr>cluster_requests = [], cluster_observers = []\<rparr> = Some (Inr (), t)"
    by (simp add: cluster_received_def co_bind_def co_get_def register_cluster_observer_def co_then_def cluster_ask_def
        co_modify_def unobserved_def example_observed_def Let_def)
  have "\<not> unobserved ?c" "uid (metadata ?c) = ''u''" "\<And>d. \<not> cluster_differs example_clusters ?c d \<Longrightarrow> d = ?c"
    by (simp_all add: unobserved_def example_observed_def example_clusters_def)
  with cluster_observed_exactly [OF t] t show ?thesis by auto
qed

theorem cluster_failure_outcome_witness:
  "\<exists>t. handle_cluster example_clusters (example_observed Cl_CREATING 3)
     \<lparr>cluster_requests = [Start_task ''u''], cluster_observers = [(''u'', example_observed Cl_ONLINE 3)]\<rparr> = Some (Inl AttributeError, t)"
proof -
  let ?c = "example_observed Cl_CREATING 3"
  let ?s = "\<lparr>cluster_requests = [Start_task ''u''], cluster_observers = [(''u'', example_observed Cl_ONLINE 3)]\<rparr>"
  have r: "with_retries ?c = (3, ?c\<lparr>cl_retries := Some 3\<rparr>)" "cl_state ?c \<noteq> Cl_DEGRADED"
    by (simp_all add: with_retries_def example_observed_def)
  have "\<exists>t. cluster_received example_clusters (?c\<lparr>cl_retries := Some 3\<rparr>) ?s = Some (Inl (ApiException 500), t)"
    by (simp add: cluster_received_def co_bind_def co_get_def unregister_cluster_observer_def co_then_def co_catch_def cluster_ask_def
        co_modify_def co_raise_def unobserved_def example_observed_def example_clusters_def Let_def)
  then obtain t where t: "cluster_received example_clusters (?c\<lparr>cl_retries := Some 3\<rparr>) ?s = Some (Inl (ApiException 500), t)" by blast
  from cluster_failure_outcome [OF r t] show ?thesis by auto
qed

theorem cluster_comes_back_witness:
  "\<exists>sent c'. run_observer [example_round, example_round] (example_observed Cl_OFFLINE 3) = Inr (sent, c') \<and>
     map cl_state sent = [Cl_CONNECTING, Cl_ONLINE]"
proof -
  have "condition_problem \<lparr>condition_type = ''Ready'', condition_status = ''True'', condition_reason = None,
      condition_message = None\<rparr> = None" by code_simp
  then have "\<forall>w \<in> set [example_round, example_round]. healthy w"
    by (simp add: healthy_def example_round_def)
  from cluster_comes_back [OF this, of "example_observed Cl_OFFLINE 3"] show ?thesis by (auto simp: example_observed_def)
qed

end
