(* ===== verification/Serializable.thy ===== *)
theory Serializable
  imports Manifest
begin

text \<open>
  The data classes of \<open>krake/krake/data/serializable.py\<close>: their fields with the markers
  \<open>subresource\<close>, \<open>readonly\<close> and \<open>immutable\<close>, the values that the generated schemas accept, the
  initialization from keyword arguments, and the update of an object from another one. An object
  is represented by its attributes, as a nested value: an enumeration by the name of its member, a
  timestamp by a number, a constraint by its text.
\<close>

section \<open>Classes\<close>

record field_info =
  field_name :: string
  subresource :: bool
  readonly :: bool
  immutable :: bool
  field_default :: "yaml option"

datatype field_type =
    String_field
  | Integer_field
  | Float_field
  | Boolean_field
  | Date_field
  | Dictionary_field
  | Constraint_field
  | Enumeration "string list"
  | List_of field_type
  | Dict_of field_type
  | Union_of "field_type list"
  | Serializable_type "(field_info \<times> field_type) list"
  | Polymorphic_type "(string \<times> (field_info \<times> field_type) list) list"

type_synonym fields = "(field_info \<times> field_type) list"

definition plain :: "string \<Rightarrow> field_info" where
  "plain n = \<lparr>field_name = n, subresource = False, readonly = False, immutable = False, field_default = None\<rparr>"

definition optional :: "string \<Rightarrow> yaml \<Rightarrow> field_info" where
  "optional n v = (plain n)\<lparr>field_default := Some v\<rparr>"

section \<open>Values of a class\<close>

text \<open>\<open>None\<close> is only accepted by a field with the default \<open>None\<close>.\<close>

abbreviation nullable :: "field_info \<Rightarrow> bool" where
  "nullable i \<equiv> field_default i = Some Null"

function (sequential) conforms :: "field_type \<Rightarrow> yaml \<Rightarrow> bool" where
  "conforms String_field v \<longleftrightarrow> (case v of Text _ \<Rightarrow> True | _ \<Rightarrow> False)"
| "conforms Integer_field v \<longleftrightarrow> (case v of Integer _ \<Rightarrow> True | _ \<Rightarrow> False)"
| "conforms Float_field v \<longleftrightarrow> (case v of Decimal _ \<Rightarrow> True | _ \<Rightarrow> False)"
| "conforms Boolean_field v \<longleftrightarrow> (case v of Boolean _ \<Rightarrow> True | _ \<Rightarrow> False)"
| "conforms Date_field v \<longleftrightarrow> (case v of Integer _ \<Rightarrow> True | _ \<Rightarrow> False)"
| "conforms Dictionary_field v \<longleftrightarrow> is_obj v \<and> wf_yaml v"
| "conforms Constraint_field v \<longleftrightarrow> (case v of Text _ \<Rightarrow> True | _ \<Rightarrow> False)"
| "conforms (Enumeration ns) v \<longleftrightarrow> (case v of Text n \<Rightarrow> n \<in> set ns | _ \<Rightarrow> False)"
| "conforms (List_of t) v \<longleftrightarrow> (case v of Arr xs \<Rightarrow> list_all (conforms t) xs | _ \<Rightarrow> False)"
| "conforms (Dict_of t) v \<longleftrightarrow> (case v of Obj d \<Rightarrow> dict_ok d \<and> list_all (\<lambda>(k, x). conforms t x) d | _ \<Rightarrow> False)"
| "conforms (Union_of ts) v \<longleftrightarrow> list_ex (\<lambda>t. conforms t v) ts"
| "conforms (Serializable_type fs) v \<longleftrightarrow>
     (case v of
        Obj d \<Rightarrow> map fst d = map (\<lambda>(i, t). field_name i) fs \<and>
          list_all (\<lambda>(f, e). snd e = Null \<and> nullable (fst f) \<or> conforms (snd f) (snd e)) (zip fs d)
      | _ \<Rightarrow> False)"
| "conforms (Polymorphic_type vs) v \<longleftrightarrow>
     list_ex (\<lambda>(n, fs). case v of
        Obj [(k, u), (l, x)] \<Rightarrow> k = ''type'' \<and> u = Text n \<and> l = n \<and> conforms (Serializable_type fs) x
      | _ \<Rightarrow> False) vs"
  by pat_completeness auto

termination
  by (relation "measures [\<lambda>(t, v). size v, \<lambda>(t, v). size t]")
    (auto simp: termination_simp size_list_estimation' dest!: set_zip_rightD)

section \<open>Initialization\<close>

text \<open>
  \<open>__init__\<close> without the validation of \<open>__post_init__\<close>; a keyword argument that is no field, or a
  field without value and default, is a \<open>TypeError\<close>.
\<close>

fun init_fields :: "fields \<Rightarrow> (string, yaml) dict \<Rightarrow> (exn, (string, yaml) dict) res" where
  "init_fields [] kwargs = (if kwargs = [] then Inr [] else Inl TypeError)"
| "init_fields ((i, t) # fs) kwargs =
     res_bind
       (case dict_get kwargs (field_name i) of
          Some v \<Rightarrow> Inr v
        | None \<Rightarrow> (case field_default i of Some v \<Rightarrow> Inr v | None \<Rightarrow> Inl TypeError)) (\<lambda>v.
     res_bind (init_fields fs (dict_del (field_name i) kwargs)) (\<lambda>d. Inr ((field_name i, v) # d)))"

definition init_object :: "fields \<Rightarrow> (string, yaml) dict \<Rightarrow> (exn, yaml) res" where
  "init_object fs kwargs = res_bind (init_fields fs kwargs) (\<lambda>d. Inr (Obj d))"

section \<open>Fields that the user does not control\<close>

text \<open>
  The fields of a polymorphic container are not marked, so its subtypes are not searched. The
  names of nested fields are joined by dots.
\<close>

function (sequential) readonly_fields :: "string option \<Rightarrow> fields \<Rightarrow> string list" where
  "readonly_fields pre [] = []"
| "readonly_fields pre ((i, t) # fs) =
     (let n = (case pre of None \<Rightarrow> field_name i | Some p \<Rightarrow> p @ ''.'' @ field_name i) in
      case t of
        Serializable_type gs \<Rightarrow> readonly_fields (Some n) gs
      | Polymorphic_type _ \<Rightarrow> []
      | List_of (Serializable_type gs) \<Rightarrow> if readonly i then [n] else readonly_fields (Some n) gs
      | _ \<Rightarrow> if readonly i then [n] else []) @ readonly_fields pre fs"
  by pat_completeness auto

termination
  by (relation "measure (\<lambda>(pre, fs). size_list (size_prod (\<lambda>_. 0) size) fs)") auto

definition subresources_fields :: "fields \<Rightarrow> string list" where
  "subresources_fields fs = map (\<lambda>(i, t). field_name i) (filter (\<lambda>(i, t). subresource i) fs)"

definition fields_ignored_by_creation :: "fields \<Rightarrow> string list" where
  "fields_ignored_by_creation fs = readonly_fields None fs @ subresources_fields fs"

text \<open>
  The objects that the schema without these fields loads: an excluded field is \<open>None\<close>.
\<close>

function (sequential) conforms_without :: "string list \<Rightarrow> string option \<Rightarrow> fields \<Rightarrow> yaml \<Rightarrow> bool" where
  "conforms_without ignored pre fs (Obj d) \<longleftrightarrow>
     map fst d = map (\<lambda>(i, t). field_name i) fs \<and>
     list_all (\<lambda>(f, e).
       let n = (case pre of None \<Rightarrow> field_name (fst f) | Some p \<Rightarrow> p @ ''.'' @ field_name (fst f)) in
       if n \<in> set ignored then snd e = Null
       else if snd e = Null then nullable (fst f)
       else
         (case snd f of
            Serializable_type gs \<Rightarrow> conforms_without ignored (Some n) gs (snd e)
          | t \<Rightarrow> conforms t (snd e))) (zip fs d)"
| "conforms_without ignored pre fs v \<longleftrightarrow> False"
  by pat_completeness auto

termination
  by (relation "measure (\<lambda>(ignored, pre, fs, v). size v)") (auto simp: termination_simp dest!: set_zip_rightD)

definition conforms_creation :: "fields \<Rightarrow> yaml \<Rightarrow> bool" where
  "conforms_creation fs v \<longleftrightarrow> conforms_without (fields_ignored_by_creation fs) None fs v"

section \<open>Update\<close>

text \<open>A polymorphic container takes over the type and the subtype.\<close>

definition update_polymorphic :: "yaml \<Rightarrow> (exn, yaml) res" where
  "update_polymorphic overwrite =
     res_bind (get_attr ''type'' overwrite) (\<lambda>t.
     case t of
       Text n \<Rightarrow> res_bind (get_attr n overwrite) (\<lambda>v. Inr (Obj [(''type'', t), (n, v)]))
     | _ \<Rightarrow> Inl TypeError)"

fun update_object :: "fields \<Rightarrow> yaml \<Rightarrow> yaml \<Rightarrow> (exn, yaml) res" where
  "update_object [] self overwrite = Inr self"
| "update_object ((i, t) # fs) self overwrite =
     res_bind
       (if subresource i \<or> readonly i then Inr self
        else
          res_bind (get_attr (field_name i) self) (\<lambda>current.
          res_bind (get_attr (field_name i) overwrite) (\<lambda>value.
          if immutable i then (if py_eq current value then Inr self else Inl ValueError)
          else
            res_bind
              (case t of
                 Serializable_type gs \<Rightarrow>
                   if value = Null \<or> current = Null then Inr value else update_object gs current value
               | Polymorphic_type vs \<Rightarrow>
                   if value = Null \<or> current = Null then Inr value else update_polymorphic value
               | _ \<Rightarrow> Inr value) (\<lambda>v.
            set_attr (field_name i) v self)))) (\<lambda>self.
     update_object fs self overwrite)"

section \<open>Nested attributes\<close>

fun get_path :: "string list \<Rightarrow> yaml \<Rightarrow> (exn, yaml) res" where
  "get_path [] v = Inr v"
| "get_path (k # ks) v = res_bind (get_attr k v) (get_path ks)"

fun set_path :: "string list \<Rightarrow> yaml \<Rightarrow> yaml \<Rightarrow> (exn, yaml) res" where
  "set_path [] x v = Inr x"
| "set_path [k] x v = set_attr k x v"
| "set_path (k # ks) x v = res_bind (get_attr k v) (\<lambda>u. res_bind (set_path ks x u) (\<lambda>u'. set_attr k u' v))"

section \<open>The update field by field\<close>

definition new_value :: "field_info \<Rightarrow> field_type \<Rightarrow> yaml \<Rightarrow> yaml \<Rightarrow> (exn, yaml) res" where
  "new_value i t current value =
     (if subresource i \<or> readonly i then Inr current
      else if immutable i then (if py_eq current value then Inr current else Inl ValueError)
      else
        (case t of
           Serializable_type gs \<Rightarrow> if value = Null \<or> current = Null then Inr value else update_object gs current value
         | Polymorphic_type vs \<Rightarrow> if value = Null \<or> current = Null then Inr value else update_polymorphic value
         | _ \<Rightarrow> Inr value))"

abbreviation names :: "fields \<Rightarrow> string list" where
  "names fs \<equiv> map (\<lambda>(i, t). field_name i) fs"

lemma dict_set_same: "dict_get d k = Some v \<Longrightarrow> dict_set k v d = d"
  by (induction d) auto

lemma dict_set_middle: "k \<notin> fst ` set p \<Longrightarrow> dict_set k v (p @ (k, c) # q) = p @ (k, v) # q"
  by (induction p) auto

lemma update_object_step:
  assumes "get_attr (field_name i) self = Inr c" and "get_attr (field_name i) overwrite = Inr v"
  shows "update_object ((i, t) # fs) self overwrite =
    res_bind (new_value i t c v) (\<lambda>x. res_bind (set_attr (field_name i) x self) (\<lambda>self. update_object fs self overwrite))"
proof -
  from assms(1) obtain d where d: "self = Obj d" "dict_get d (field_name i) = Some c"
    by (cases self) (auto split: option.splits)
  then have "set_attr (field_name i) c self = Inr self" by (simp add: dict_set_same)
  then show ?thesis using assms by (simp add: new_value_def res_bind_assoc)
qed

lemma update_object_split:
  assumes "map fst q = names fs" and "distinct (map fst (p @ q))"
    and "\<forall>(k, c) \<in> set q. \<exists>v. get_attr k overwrite = Inr v"
  shows "update_object fs (Obj (p @ q)) overwrite =
    res_bind (res_map (\<lambda>(f, k, c). res_bind (get_attr k overwrite) (new_value (fst f) (snd f) c)) (zip fs q))
      (\<lambda>vs. Inr (Obj (p @ zip (map fst q) vs)))"
  using assms
proof (induction fs arbitrary: p q)
  case (Cons f fs)
  obtain i t where f: "f = (i, t)" by (cases f)
  with Cons.prems(1) obtain c q' where q: "q = (field_name i, c) # q'" "map fst q' = names fs" by auto
  from Cons.prems(3) q obtain v where v: "get_attr (field_name i) overwrite = Inr v" by auto
  have fresh: "field_name i \<notin> fst ` set p" using Cons.prems(2) q by auto
  then have "dict_get p (field_name i) = None" by (simp add: map_of_eq_None_iff)
  then have c: "get_attr (field_name i) (Obj (p @ q)) = Inr c" using q by (simp add: map_add_def)
  have IH: "update_object fs (Obj ((p @ [(field_name i, x)]) @ q')) overwrite =
    res_bind (res_map (\<lambda>(f, k, c). res_bind (get_attr k overwrite) (new_value (fst f) (snd f) c)) (zip fs q'))
      (\<lambda>vs. Inr (Obj ((p @ [(field_name i, x)]) @ zip (map fst q') vs)))" for x
    by (rule Cons.IH) (use Cons.prems q in auto)
  show ?case
    unfolding f update_object_step [OF c v]
    using q IH fresh v by (simp add: dict_set_middle res_bind_assoc)
qed simp

lemma update_object_fieldwise:
  assumes "map fst d = names fs" and "map fst e = names fs" and "distinct (names fs)"
  shows "update_object fs (Obj d) (Obj e) =
    res_bind (res_map (\<lambda>(f, c, v). new_value (fst f) (snd f) c v) (zip fs (zip (map snd d) (map snd e))))
      (\<lambda>vs. Inr (Obj (zip (names fs) vs)))"
proof -
  have lookup: "res_map (\<lambda>(f, k, c). res_bind (get_attr k (Obj e)) (new_value (fst f) (snd f) c)) (zip fs d) =
      res_map (\<lambda>(f, c, v). new_value (fst f) (snd f) c v) (zip fs (zip (map snd d) (map snd e)))"
  proof -
    have "get_attr (fst (d ! n)) (Obj e) = Inr (snd (e ! n))" if n: "n < length fs" for n
    proof -
      have len: "length e = length fs" "length d = length fs" using assms(1,2) by (metis length_map)+
      have "fst (d ! n) = fst (e ! n)" using assms(1,2) n len by (metis nth_map)
      moreover have "(fst (e ! n), snd (e ! n)) \<in> set e" using n len by simp
      then have "dict_get e (fst (e ! n)) = Some (snd (e ! n))"
        using assms(2,3) by (intro map_of_is_SomeI) simp_all
      ultimately show ?thesis by simp
    qed
    note get = this
    have len: "length e = length fs" "length d = length fs" using assms(1,2) by (metis length_map)+
    have cong: "res_map g xs = res_map h ys"
      if "length xs = length ys" "\<And>n. n < length xs \<Longrightarrow> g (xs ! n) = h (ys ! n)" for g h and xs :: "'x list" and ys :: "'y list"
      using that
    proof (induction xs ys rule: list_induct2)
      case (Cons x xs y ys)
      have "g x = h y" using Cons.prems [of 0] by simp
      moreover have "res_map g xs = res_map h ys" by (rule Cons.IH) (use Cons.prems [of "Suc n" for n] in auto)
      ultimately show ?case by simp
    qed simp
    show ?thesis
    proof (rule cong)
      show "length (zip fs d) = length (zip fs (zip (map snd d) (map snd e)))" using len by simp
      fix n assume "n < length (zip fs d)"
      then have n: "n < length fs" by simp
      then show "(\<lambda>(f, k, c). res_bind (get_attr k (Obj e)) (new_value (fst f) (snd f) c)) (zip fs d ! n) =
          (\<lambda>(f, c, v). new_value (fst f) (snd f) c v) (zip fs (zip (map snd d) (map snd e)) ! n)"
        using get [OF n] len by (simp add: case_prod_beta del: get_attr.simps)
    qed
  qed
  have "\<forall>(k, c) \<in> set d. \<exists>v. get_attr k (Obj e) = Inr v"
  proof clarify
    fix k c assume "(k, c) \<in> set d"
    then have "k \<in> set (map fst d)" by force
    then have "k \<in> fst ` set e" using assms(1,2) by (metis list.set_map)
    then obtain v where "dict_get e k = Some v" by (metis dict_keys_def dict_keys_iff)
    then show "\<exists>v. get_attr k (Obj e) = Inr v" by simp
  qed
  from update_object_split [of d fs "[]", OF assms(1) _ this] show ?thesis
    using assms lookup by simp
qed

section \<open>Types\<close>

lemma size_variant: "(n, fs) \<in> set vs \<Longrightarrow> size_list g fs \<le> size_list (\<lambda>v. Suc (size_list g (snd v))) vs"
  by (induction vs) auto

lemma size_field: "f \<in> set fs \<Longrightarrow> g (snd f) \<le> size_list (\<lambda>f. Suc (g (snd f))) fs"
  by (induction fs) auto

text \<open>The names of the fields of a class are distinct, and no subtype is called \<open>type\<close>.\<close>

function (sequential) well_named :: "field_type \<Rightarrow> bool" where
  "well_named (Serializable_type fs) \<longleftrightarrow> distinct (names fs) \<and> list_all (\<lambda>f. well_named (snd f)) fs"
| "well_named (Polymorphic_type vs) \<longleftrightarrow>
     ''type'' \<notin> set (map fst vs) \<and> list_all (\<lambda>(n, fs). well_named (Serializable_type fs)) vs"
| "well_named (List_of t) \<longleftrightarrow> well_named t"
| "well_named (Dict_of t) \<longleftrightarrow> well_named t"
| "well_named (Union_of ts) \<longleftrightarrow> list_all well_named ts"
| "well_named t \<longleftrightarrow> True"
  by pat_completeness auto

termination
  by (relation "measure size")
    (auto simp: less_Suc_eq_le size_variant size_field size_list_estimation')

lemma well_named_field: "well_named (Serializable_type fs) \<Longrightarrow> (i, t) \<in> set fs \<Longrightarrow> well_named t"
  by (auto simp: list_all_iff)

definition accepts :: "field_info \<times> field_type \<Rightarrow> yaml \<Rightarrow> bool" where
  "accepts f x \<longleftrightarrow> x = Null \<and> nullable (fst f) \<or> conforms (snd f) x"

lemma conforms_object:
  "conforms (Serializable_type fs) v \<longleftrightarrow> (\<exists>xs. v = Obj (zip (names fs) xs) \<and> list_all2 accepts fs xs)"
proof
  assume c: "conforms (Serializable_type fs) v"
  then obtain d where d: "v = Obj d" "map fst d = names fs"
    "list_all (\<lambda>(f, e). snd e = Null \<and> nullable (fst f) \<or> conforms (snd f) (snd e)) (zip fs d)"
    by (cases v) auto
  have len: "length d = length fs" using d(2) by (metis length_map)
  have "d = zip (names fs) (map snd d)" using d(2) by (metis zip_map_fst_snd)
  moreover have "list_all2 accepts fs (map snd d)"
    using d(3) len by (auto simp: list_all2_conv_all_nth list_all_length accepts_def)
  ultimately show "\<exists>xs. v = Obj (zip (names fs) xs) \<and> list_all2 accepts fs xs" using d(1) by blast
next
  assume "\<exists>xs. v = Obj (zip (names fs) xs) \<and> list_all2 accepts fs xs"
  then obtain xs where v: "v = Obj (zip (names fs) xs)" and xs: "list_all2 accepts fs xs" by blast
  then have "length xs = length fs" by (simp add: list_all2_lengthD)
  then show "conforms (Serializable_type fs) v"
    using v xs by (auto simp: list_all2_conv_all_nth list_all_length accepts_def)
qed

lemma update_object_values:
  assumes "length xs = length fs" and "length ys = length fs" and "distinct (names fs)"
  shows "update_object fs (Obj (zip (names fs) xs)) (Obj (zip (names fs) ys)) =
    res_bind (res_map (\<lambda>(f, c, v). new_value (fst f) (snd f) c v) (zip fs (zip xs ys)))
      (\<lambda>vs. Inr (Obj (zip (names fs) vs)))"
  using update_object_fieldwise [of "zip (names fs) xs" fs "zip (names fs) ys"] assms by simp

text \<open>The rule by which facts on the update are proved: a fact on each field.\<close>

lemma update_objectE:
  assumes "conforms (Serializable_type fs) self" and "conforms (Serializable_type fs) overwrite"
    and "distinct (names fs)" and "update_object fs self overwrite = Inr new"
  obtains cs vs xs where "self = Obj (zip (names fs) cs)" and "overwrite = Obj (zip (names fs) vs)"
    and "new = Obj (zip (names fs) xs)"
    and "length cs = length fs" and "length vs = length fs" and "length xs = length fs"
    and "\<And>n. n < length fs \<Longrightarrow>
      accepts (fs ! n) (cs ! n) \<and> accepts (fs ! n) (vs ! n) \<and> new_value (fst (fs ! n)) (snd (fs ! n)) (cs ! n) (vs ! n) = Inr (xs ! n)"
proof -
  from assms(1) obtain cs where cs: "self = Obj (zip (names fs) cs)" "list_all2 accepts fs cs"
    unfolding conforms_object by blast
  from assms(2) obtain vs where vs: "overwrite = Obj (zip (names fs) vs)" "list_all2 accepts fs vs"
    unfolding conforms_object by blast
  have len: "length cs = length fs" "length vs = length fs" using cs(2) vs(2) by (auto dest: list_all2_lengthD)
  from assms(4) obtain xs where
    xs: "res_map (\<lambda>(f, c, v). new_value (fst f) (snd f) c v) (zip fs (zip cs vs)) = Inr xs" "new = Obj (zip (names fs) xs)"
    unfolding cs(1) vs(1) update_object_values [OF len assms(3)] by (auto simp: res_bind_Inr_iff)
  from res_map_Inr [OF xs(1)] have x: "length xs = length fs"
    "\<And>n. n < length fs \<Longrightarrow> new_value (fst (fs ! n)) (snd (fs ! n)) (cs ! n) (vs ! n) = Inr (xs ! n)"
    using len by (auto simp: list_all2_conv_all_nth)
  show ?thesis
    by (rule that [OF cs(1) vs(1) xs(2) len x(1)]) (use cs(2) vs(2) x(2) in \<open>simp_all add: list_all2_conv_all_nth\<close>)
qed

lemma conforms_container:
  "conforms (Polymorphic_type vs) v \<longleftrightarrow>
     (\<exists>(n, fs) \<in> set vs. \<exists>x. v = Obj [(''type'', Text n), (n, x)] \<and> conforms (Serializable_type fs) x)"
proof -
  have "(case v of Obj [(k, u), (l, x)] \<Rightarrow> k = ''type'' \<and> u = Text n \<and> l = n \<and> conforms (Serializable_type fs) x
      | _ \<Rightarrow> False) \<longleftrightarrow> (\<exists>x. v = Obj [(''type'', Text n), (n, x)] \<and> conforms (Serializable_type fs) x)" for n fs
    by (auto split: yaml.splits list.splits simp del: conforms.simps)
  then show ?thesis by (auto simp: list_ex_iff simp del: conforms.simps(12))
qed

lemma update_polymorphic_same:
  assumes "conforms (Polymorphic_type vs) v" and "''type'' \<notin> set (map fst vs)"
  shows "update_polymorphic v = Inr v"
proof -
  from assms(1) obtain n fs x where v: "v = Obj [(''type'', Text n), (n, x)]" "(n, fs) \<in> set vs"
    unfolding conforms_container by auto
  then have "n \<noteq> ''type''" using assms(2) by force
  with v show ?thesis by (simp add: update_polymorphic_def)
qed

lemma accepted_polymorphic:
  assumes "accepts (i, Polymorphic_type vs) v" and "well_named (Polymorphic_type vs)" and "v \<noteq> Null"
  shows "update_polymorphic v = Inr v"
proof (rule update_polymorphic_same)
  show "conforms (Polymorphic_type vs) v" using assms(1,3) by (simp add: accepts_def del: conforms.simps)
  show "''type'' \<notin> set (map fst vs)" using assms(2) by simp
qed

lemma nested_size: "n < length cs \<Longrightarrow> length cs = length ks \<Longrightarrow> size (cs ! n) < size (Obj (zip ks cs))"
proof -
  assume n: "n < length cs" "length cs = length ks"
  then have "(ks ! n, cs ! n) \<in> set (zip ks cs)" by (metis length_zip min.idem nth_mem nth_zip)
  then show ?thesis using size_yaml_dict by simp
qed

lemma update_object_conforms:
  assumes "well_named (Serializable_type fs)"
    and "conforms (Serializable_type fs) self" and "conforms (Serializable_type fs) overwrite"
    and "update_object fs self overwrite = Inr new"
  shows "conforms (Serializable_type fs) new"
  using assms
proof (induction self arbitrary: fs overwrite new rule: measure_induct_rule [of size])
  case (less self)
  from less.prems(1) have distinct: "distinct (names fs)" by simp
  from update_objectE [OF less.prems(2,3) distinct less.prems(4)] obtain cs vs xs where
    self: "self = Obj (zip (names fs) cs)" and new: "new = Obj (zip (names fs) xs)"
    and len: "length cs = length fs" "length xs = length fs"
    and fields: "\<And>n. n < length fs \<Longrightarrow> accepts (fs ! n) (cs ! n) \<and> accepts (fs ! n) (vs ! n) \<and>
      new_value (fst (fs ! n)) (snd (fs ! n)) (cs ! n) (vs ! n) = Inr (xs ! n)" by metis
  have "accepts (fs ! n) (xs ! n)" if n: "n < length fs" for n
  proof -
    obtain i t where f: "fs ! n = (i, t)" by (cases "fs ! n")
    have wt: "well_named t" by (rule well_named_field [OF less.prems(1)]) (use f nth_mem [OF n] in simp)
    from fields [OF n] f have c: "accepts (i, t) (cs ! n)" and v: "accepts (i, t) (vs ! n)"
      and x: "new_value i t (cs ! n) (vs ! n) = Inr (xs ! n)" by simp_all
    show ?thesis
    proof (cases "xs ! n = cs ! n \<or> xs ! n = vs ! n")
      case True
      with c v f show ?thesis by auto
    next
      case False
      have poly: "t = Polymorphic_type ws \<Longrightarrow> vs ! n \<noteq> Null \<Longrightarrow> update_polymorphic (vs ! n) = Inr (vs ! n)" for ws
        using accepted_polymorphic v wt by blast
      from False x poly obtain gs where gs: "t = Serializable_type gs" "cs ! n \<noteq> Null" "vs ! n \<noteq> Null"
        "update_object gs (cs ! n) (vs ! n) = Inr (xs ! n)"
        by (cases t) (auto simp: new_value_def split: if_splits)
      have "size (cs ! n) < size self" unfolding self by (rule nested_size) (use n len in simp_all)
      then have "conforms t (xs ! n)"
        using less.IH [of "cs ! n" gs "vs ! n" "xs ! n"] gs wt c v unfolding accepts_def by (simp del: conforms.simps)
      with f show ?thesis by (simp add: accepts_def del: conforms.simps)
    qed
  qed
  then show ?case unfolding new conforms_object using len by (auto simp: list_all2_conv_all_nth)
qed

section \<open>What an update changes\<close>

lemma get_attr_zip:
  assumes "distinct ns" and "length xs = length ns" and "n < length ns"
  shows "get_attr (ns ! n) (Obj (zip ns xs)) = Inr (xs ! n)"
proof -
  have "(ns ! n, xs ! n) \<in> set (zip ns xs)" using assms by (auto simp: set_zip)
  then have "dict_get (zip ns xs) (ns ! n) = Some (xs ! n)" using assms by (intro map_of_is_SomeI) simp_all
  then show ?thesis by simp
qed

lemma update_object_field:
  assumes "distinct (names fs)" and "conforms (Serializable_type fs) self" and "conforms (Serializable_type fs) overwrite"
    and "update_object fs self overwrite = Inr new" and "(i, t) \<in> set fs"
  obtains c v x where "get_attr (field_name i) self = Inr c" and "get_attr (field_name i) overwrite = Inr v"
    and "get_attr (field_name i) new = Inr x" and "accepts (i, t) c" and "accepts (i, t) v"
    and "new_value i t c v = Inr x"
proof -
  from update_objectE [OF assms(2,3,1,4)] obtain cs vs xs where
    objs: "self = Obj (zip (names fs) cs)" "overwrite = Obj (zip (names fs) vs)" "new = Obj (zip (names fs) xs)"
    and len: "length cs = length fs" "length vs = length fs" "length xs = length fs"
    and fields: "\<And>n. n < length fs \<Longrightarrow> accepts (fs ! n) (cs ! n) \<and> accepts (fs ! n) (vs ! n) \<and>
      new_value (fst (fs ! n)) (snd (fs ! n)) (cs ! n) (vs ! n) = Inr (xs ! n)" by metis
  from assms(5) obtain n where n: "n < length fs" "fs ! n = (i, t)" by (auto simp: in_set_conv_nth)
  then have name: "names fs ! n = field_name i" by simp
  have get: "get_attr (field_name i) (Obj (zip (names fs) ys)) = Inr (ys ! n)" if "length ys = length fs" for ys
    using get_attr_zip [of "names fs" ys n] assms(1) that n name by simp
  show ?thesis
    by (rule that [of "cs ! n" "vs ! n" "xs ! n"]) (use objs get len fields [OF n(1)] n(2) in simp_all)
qed

text \<open>The attributes that an update never changes, and those that it takes over.\<close>

fun protected_path :: "fields \<Rightarrow> string list \<Rightarrow> bool" where
  "protected_path fs [] \<longleftrightarrow> False"
| "protected_path fs (k # ks) \<longleftrightarrow>
     list_ex (\<lambda>(i, t). field_name i = k \<and>
       (subresource i \<or> readonly i \<or> immutable i \<or>
        (case t of Serializable_type gs \<Rightarrow> \<not> nullable i \<and> protected_path gs ks | _ \<Rightarrow> False))) fs"

fun updated_path :: "fields \<Rightarrow> string list \<Rightarrow> bool" where
  "updated_path fs [] \<longleftrightarrow> False"
| "updated_path fs (k # ks) \<longleftrightarrow>
     list_ex (\<lambda>(i, t). field_name i = k \<and> \<not> subresource i \<and> \<not> readonly i \<and> \<not> immutable i \<and>
       (case t of
          Serializable_type gs \<Rightarrow> \<not> nullable i \<and> updated_path gs ks
        | Polymorphic_type vs \<Rightarrow> \<not> nullable i
        | _ \<Rightarrow> True)) fs"

lemma conforms_not_Null: "conforms (Serializable_type fs) v \<Longrightarrow> v \<noteq> Null"
  and container_not_Null: "conforms (Polymorphic_type vs) v \<Longrightarrow> v \<noteq> Null"
  unfolding conforms_object conforms_container by auto

lemma update_object_keeps:
  assumes "well_named (Serializable_type fs)"
    and "conforms (Serializable_type fs) self" and "conforms (Serializable_type fs) overwrite"
    and "update_object fs self overwrite = Inr new" and "protected_path fs p"
  shows "get_path p new = get_path p self"
  using assms
proof (induction p arbitrary: fs self overwrite new)
  case (Cons k ks)
  from Cons.prems(5) obtain i t where it: "(i, t) \<in> set fs" "field_name i = k"
    "subresource i \<or> readonly i \<or> immutable i \<or>
      (case t of Serializable_type gs \<Rightarrow> \<not> nullable i \<and> protected_path gs ks | _ \<Rightarrow> False)"
    by (auto simp: list_ex_iff)
  have "distinct (names fs)" using Cons.prems(1) by simp
  from update_object_field [OF this Cons.prems(2-4) it(1)] obtain c v x where
    get: "get_attr k self = Inr c" "get_attr k new = Inr x" and cv: "accepts (i, t) c" "accepts (i, t) v"
    and x: "new_value i t c v = Inr x" using it(2) by metis
  show ?case
  proof (cases "subresource i \<or> readonly i \<or> immutable i")
    case True
    then have "x = c" using x by (auto simp: new_value_def split: if_splits)
    then show ?thesis using get by simp
  next
    case False
    with it(3) obtain gs where gs: "t = Serializable_type gs" "\<not> nullable i" "protected_path gs ks"
      by (auto split: field_type.splits)
    have conf: "conforms (Serializable_type gs) c" "conforms (Serializable_type gs) v"
      using cv gs(1,2) by (simp_all add: accepts_def del: conforms.simps)
    then have "update_object gs c v = Inr x"
      using x gs(1) False conforms_not_Null [OF conf(1)] conforms_not_Null [OF conf(2)] by (simp add: new_value_def)
    moreover have "well_named (Serializable_type gs)" using well_named_field [OF Cons.prems(1) it(1)] gs(1) by simp
    ultimately have "get_path ks x = get_path ks c" using Cons.IH conf gs(3) by blast
    then show ?thesis using get by simp
  qed
qed simp

lemma update_object_takes:
  assumes "well_named (Serializable_type fs)"
    and "conforms (Serializable_type fs) self" and "conforms (Serializable_type fs) overwrite"
    and "update_object fs self overwrite = Inr new" and "updated_path fs p"
  shows "get_path p new = get_path p overwrite"
  using assms
proof (induction p arbitrary: fs self overwrite new)
  case (Cons k ks)
  from Cons.prems(5) obtain i t where it: "(i, t) \<in> set fs" "field_name i = k"
    "\<not> subresource i" "\<not> readonly i" "\<not> immutable i"
    "case t of Serializable_type gs \<Rightarrow> \<not> nullable i \<and> updated_path gs ks | Polymorphic_type vs \<Rightarrow> \<not> nullable i | _ \<Rightarrow> True"
    by (auto simp: list_ex_iff)
  have "distinct (names fs)" using Cons.prems(1) by simp
  from update_object_field [OF this Cons.prems(2-4) it(1)] obtain c v x where
    get: "get_attr k overwrite = Inr v" "get_attr k new = Inr x" and cv: "accepts (i, t) c" "accepts (i, t) v"
    and x: "new_value i t c v = Inr x" using it(2) by metis
  have wt: "well_named t" by (rule well_named_field [OF Cons.prems(1) it(1)])
  show ?case
  proof (cases "\<exists>gs. t = Serializable_type gs")
    case True
    then obtain gs where gs: "t = Serializable_type gs" by blast
    have conf: "conforms (Serializable_type gs) c" "conforms (Serializable_type gs) v"
      using cv gs it(6) by (simp_all add: accepts_def del: conforms.simps)
    then have "update_object gs c v = Inr x"
      using x gs it(3-5) conforms_not_Null [OF conf(1)] conforms_not_Null [OF conf(2)] by (simp add: new_value_def)
    then have "get_path ks x = get_path ks v" using Cons.IH conf gs it(6) wt by auto
    then show ?thesis using get by simp
  next
    case False
    have "t = Polymorphic_type vs \<Longrightarrow> v \<noteq> Null \<Longrightarrow> update_polymorphic v = Inr v" for vs
      using accepted_polymorphic cv(2) wt by blast
    then have "x = v" using x False it(3-5) by (cases t) (auto simp: new_value_def split: if_splits)
    then show ?thesis using get by simp
  qed
qed simp

section \<open>Repeated updates\<close>

lemma conforms_wf: "well_named t \<Longrightarrow> conforms t v \<Longrightarrow> wf_yaml v"
proof (induction t v rule: conforms.induct)
  case (12 fs v)
  from 12(3) obtain xs where v: "v = Obj (zip (names fs) xs)" and xs: "list_all2 accepts fs xs"
    unfolding conforms_object by blast
  have len: "length xs = length fs" using xs by (auto dest: list_all2_lengthD)
  have "wf_yaml (xs ! n)" if n: "n < length fs" for n
  proof -
    have "(fs ! n, names fs ! n, xs ! n) \<in> set (zip fs (zip (names fs) xs))" using n len by (auto simp: set_zip)
    moreover have "well_named (snd (fs ! n))" by (rule well_named_field [OF 12(2), of "fst (fs ! n)"]) (use n in simp)
    moreover have "accepts (fs ! n) (xs ! n)" using xs n by (simp add: list_all2_conv_all_nth)
    ultimately show ?thesis using 12(1) [OF v, of "(fs ! n, names fs ! n, xs ! n)"] by (auto simp: accepts_def)
  qed
  then show ?case using v 12(2) len by (auto simp: list_all_length)
next
  case (13 vs v)
  from 13(3) obtain n fs x where v: "(n, fs) \<in> set vs" "v = Obj [(''type'', Text n), (n, x)]"
    "conforms (Serializable_type fs) x" unfolding conforms_container by auto
  moreover have "well_named (Serializable_type fs)" "n \<noteq> ''type''"
    using 13(2) v(1) by (force simp: list_all_iff simp del: well_named.simps(1))+
  moreover have "wf_yaml x" if "well_named (Serializable_type fs)"
    using 13(1) v that by (fastforce simp del: conforms.simps well_named.simps)
  ultimately show ?case by simp
next
  case (10 t v)
  then show ?case by (cases v) (auto simp: list_all_iff)
next
  case (9 t v)
  then show ?case by (cases v) (auto simp: list_all_iff)
next
  case (11 ts v)
  then show ?case by (auto simp: list_all_iff list_ex_iff)
qed (auto split: yaml.splits)

lemma res_map_nth:
  assumes "length ys = length xs" and "\<And>n. n < length xs \<Longrightarrow> f (xs ! n) = Inr (ys ! n)"
  shows "res_map f xs = Inr ys"
  using assms
proof (induction ys xs rule: list_induct2)
  case (Cons y ys x xs)
  have "f x = Inr y" using Cons.prems [of 0] by simp
  moreover have "res_map f xs = Inr ys" by (rule Cons.IH) (use Cons.prems [of "Suc n" for n] in auto)
  ultimately show ?case by simp
qed simp

lemma update_objectI:
  assumes "distinct (names fs)" and "length cs = length fs" and "length vs = length fs" and "length xs = length fs"
    and "\<And>n. n < length fs \<Longrightarrow> new_value (fst (fs ! n)) (snd (fs ! n)) (cs ! n) (vs ! n) = Inr (xs ! n)"
  shows "update_object fs (Obj (zip (names fs) cs)) (Obj (zip (names fs) vs)) = Inr (Obj (zip (names fs) xs))"
proof -
  have "res_map (\<lambda>(f, c, v). new_value (fst f) (snd f) c v) (zip fs (zip cs vs)) = Inr xs"
    by (rule res_map_nth) (use assms in simp_all)
  then show ?thesis unfolding update_object_values [OF assms(2,3,1)] by simp
qed

text \<open>An object does not change if it is updated from itself, or again from the same object.\<close>

lemma update_object_self:
  assumes "well_named (Serializable_type fs)" and "conforms (Serializable_type fs) v"
  shows "update_object fs v v = Inr v"
  using assms
proof (induction v arbitrary: fs rule: measure_induct_rule [of size])
  case (less v)
  from less.prems(2) obtain xs where v: "v = Obj (zip (names fs) xs)" and xs: "list_all2 accepts fs xs"
    unfolding conforms_object by blast
  have len: "length xs = length fs" using xs by (auto dest: list_all2_lengthD)
  have "new_value (fst (fs ! n)) (snd (fs ! n)) (xs ! n) (xs ! n) = Inr (xs ! n)" if n: "n < length fs" for n
  proof -
    obtain i t where f: "fs ! n = (i, t)" by (cases "fs ! n")
    have wt: "well_named t" by (rule well_named_field [OF less.prems(1)]) (use f nth_mem [OF n] in simp)
    have x: "accepts (i, t) (xs ! n)" using xs n f by (auto simp: list_all2_conv_all_nth)
    then have "wf_yaml (xs ! n)" using conforms_wf [OF wt] by (auto simp: accepts_def)
    then have eq: "py_eq (xs ! n) (xs ! n)" by (rule py_eq_refl)
    have nested: "update_object gs (xs ! n) (xs ! n) = Inr (xs ! n)" if "t = Serializable_type gs" "xs ! n \<noteq> Null" for gs
    proof (rule less.IH)
      show "size (xs ! n) < size v" unfolding v by (rule nested_size) (use n len in simp_all)
      show "well_named (Serializable_type gs)" using wt that(1) by simp
      show "conforms (Serializable_type gs) (xs ! n)" using x that by (simp add: accepts_def del: conforms.simps)
    qed
    have "update_polymorphic (xs ! n) = Inr (xs ! n)" if "t = Polymorphic_type ws" "xs ! n \<noteq> Null" for ws
      using accepted_polymorphic x wt that by blast
    with nested eq show ?thesis unfolding f by (cases t) (simp_all add: new_value_def)
  qed
  moreover have "distinct (names fs)" using less.prems(1) by simp
  ultimately show ?case unfolding v using update_objectI len by blast
qed

lemma update_object_again:
  assumes "well_named (Serializable_type fs)"
    and "conforms (Serializable_type fs) self" and "conforms (Serializable_type fs) overwrite"
    and "update_object fs self overwrite = Inr new"
  shows "update_object fs new overwrite = Inr new"
  using assms
proof (induction self arbitrary: fs overwrite new rule: measure_induct_rule [of size])
  case (less self)
  from less.prems(1) have distinct: "distinct (names fs)" by simp
  from update_objectE [OF less.prems(2,3) distinct less.prems(4)] obtain cs vs xs where
    objs: "self = Obj (zip (names fs) cs)" "overwrite = Obj (zip (names fs) vs)" "new = Obj (zip (names fs) xs)"
    and len: "length cs = length fs" "length vs = length fs" "length xs = length fs"
    and fields: "\<And>n. n < length fs \<Longrightarrow> accepts (fs ! n) (cs ! n) \<and> accepts (fs ! n) (vs ! n) \<and>
      new_value (fst (fs ! n)) (snd (fs ! n)) (cs ! n) (vs ! n) = Inr (xs ! n)" by metis
  have "new_value (fst (fs ! n)) (snd (fs ! n)) (xs ! n) (vs ! n) = Inr (xs ! n)" if n: "n < length fs" for n
  proof -
    obtain i t where f: "fs ! n = (i, t)" by (cases "fs ! n")
    have wt: "well_named t" by (rule well_named_field [OF less.prems(1)]) (use f nth_mem [OF n] in simp)
    from fields [OF n] f have c: "accepts (i, t) (cs ! n)" and v: "accepts (i, t) (vs ! n)"
      and x: "new_value i t (cs ! n) (vs ! n) = Inr (xs ! n)" by simp_all
    show ?thesis
    proof (cases "subresource i \<or> readonly i \<or> immutable i \<or> \<not> (\<exists>gs. t = Serializable_type gs)")
      case True
      have "update_polymorphic (vs ! n) = Inr (vs ! n)" if "t = Polymorphic_type ws" "vs ! n \<noteq> Null" for ws
        using accepted_polymorphic v wt that by blast
      with True x show ?thesis unfolding f by (cases t) (auto simp: new_value_def split: if_splits)
    next
      case False
      then obtain gs where gs: "t = Serializable_type gs" by blast
      show ?thesis
      proof (cases "vs ! n = Null \<or> cs ! n = Null")
        case True
        then have "xs ! n = vs ! n" using x gs False by (auto simp: new_value_def)
        moreover have "vs ! n \<noteq> Null \<Longrightarrow> update_object gs (vs ! n) (vs ! n) = Inr (vs ! n)"
          using v wt gs by (intro update_object_self) (simp_all add: accepts_def del: conforms.simps)
        ultimately show ?thesis using gs False unfolding f by (simp add: new_value_def)
      next
        case nonnull: False
        then have up: "update_object gs (cs ! n) (vs ! n) = Inr (xs ! n)" using x gs False by (simp add: new_value_def)
        have conf: "conforms (Serializable_type gs) (cs ! n)" "conforms (Serializable_type gs) (vs ! n)"
          using c v gs nonnull by (simp_all add: accepts_def del: conforms.simps)
        have "xs ! n \<noteq> Null"
          using update_object_conforms [OF _ conf up] wt gs conforms_not_Null by simp
        moreover have "update_object gs (xs ! n) (vs ! n) = Inr (xs ! n)"
        proof (rule less.IH [OF _ _ conf up])
          show "size (cs ! n) < size self" unfolding objs by (rule nested_size) (use n len in simp_all)
          show "well_named (Serializable_type gs)" using wt gs by simp
        qed
        ultimately show ?thesis using gs False nonnull unfolding f by (simp add: new_value_def)
      qed
    qed
  qed
  then show ?case unfolding objs by (rule update_objectI [OF distinct len(3,2,3)])
qed

text \<open>The only exception of an update is that of an immutable attribute.\<close>

lemma update_object_error:
  assumes "well_named (Serializable_type fs)"
    and "conforms (Serializable_type fs) self" and "conforms (Serializable_type fs) overwrite"
    and "update_object fs self overwrite = Inl e"
  shows "e = ValueError"
  using assms
proof (induction self arbitrary: fs overwrite rule: measure_induct_rule [of size])
  case (less self)
  from less.prems(1) have distinct: "distinct (names fs)" by simp
  from less.prems(2) obtain cs where cs: "self = Obj (zip (names fs) cs)" "list_all2 accepts fs cs"
    unfolding conforms_object by blast
  from less.prems(3) obtain vs where vs: "overwrite = Obj (zip (names fs) vs)" "list_all2 accepts fs vs"
    unfolding conforms_object by blast
  have len: "length cs = length fs" "length vs = length fs" using cs(2) vs(2) by (auto dest: list_all2_lengthD)
  have raised: "res_map g xs = Inl e \<Longrightarrow> \<exists>x \<in> set xs. g x = Inl e" for g :: "_ \<Rightarrow> (exn, yaml) res" and xs
    by (induction xs) (auto simp: res_bind_Inl_iff)
  have "res_map (\<lambda>(f, c, v). new_value (fst f) (snd f) c v) (zip fs (zip cs vs)) = Inl e"
    using less.prems(4) unfolding cs(1) vs(1) update_object_values [OF len distinct] by (auto simp: res_bind_Inl_iff)
  from raised [OF this] obtain n where n: "n < length fs"
    "new_value (fst (fs ! n)) (snd (fs ! n)) (cs ! n) (vs ! n) = Inl e"
    using len by (fastforce simp: set_zip dest: sym)
  obtain i t where f: "fs ! n = (i, t)" by (cases "fs ! n")
  have wt: "well_named t" by (rule well_named_field [OF less.prems(1)]) (use f nth_mem [OF n(1)] in simp)
  have c: "accepts (i, t) (cs ! n)" and v: "accepts (i, t) (vs ! n)"
    using cs(2) vs(2) n(1) f by (auto simp: list_all2_conv_all_nth)
  have e: "new_value i t (cs ! n) (vs ! n) = Inl e" using n(2) f by simp
  show ?case
  proof (cases "\<exists>gs. t = Serializable_type gs \<and> update_object gs (cs ! n) (vs ! n) = Inl e \<and> cs ! n \<noteq> Null \<and> vs ! n \<noteq> Null")
    case True
    then obtain gs where gs: "t = Serializable_type gs" "update_object gs (cs ! n) (vs ! n) = Inl e"
      "cs ! n \<noteq> Null" "vs ! n \<noteq> Null" by blast
    show ?thesis
    proof (rule less.IH [OF _ _ _ _ gs(2)])
      show "size (cs ! n) < size self" unfolding cs(1) by (rule nested_size) (use n len in simp_all)
      show "well_named (Serializable_type gs)" using wt gs(1) by simp
      show "conforms (Serializable_type gs) (cs ! n)" "conforms (Serializable_type gs) (vs ! n)"
        using c v gs by (simp_all add: accepts_def del: conforms.simps)
    qed
  next
    case False
    have "update_polymorphic (vs ! n) = Inr (vs ! n)" if "t = Polymorphic_type ws" "vs ! n \<noteq> Null" for ws
      using accepted_polymorphic v wt that by blast
    with False e show ?thesis by (cases t) (auto simp: new_value_def split: if_splits)
  qed
qed

end
