(* ===== verification/Api_Models.thy ===== *)
theory Api_Models
  imports Serializable
begin

text \<open>
  The classes of the resources that the API serves: \<open>krake/krake/data/core.py\<close>,
  \<open>krake/krake/data/kubernetes.py\<close>, \<open>krake/krake/data/infrastructure.py\<close> and
  \<open>krake/krake/data/openstack.py\<close>, with the templates of their keys in the database. The
  validators of single fields are not part of these tables.
\<close>

section \<open>Common parts\<close>

definition required_enum :: "string \<Rightarrow> string list \<Rightarrow> field_info \<times> field_type" where
  "required_enum n ns = (plain n, Enumeration ns)"

definition string_field :: "string \<Rightarrow> field_info \<times> field_type" where
  "string_field n = (plain n, String_field)"

definition optional_string :: "string \<Rightarrow> field_info \<times> field_type" where
  "optional_string n = (optional n Null, String_field)"

definition status_field :: "fields \<Rightarrow> field_info \<times> field_type" where
  "status_field fs = ((plain ''status'')\<lparr>subresource := True\<rparr>, Serializable_type fs)"

definition resource_ref_fields :: fields where
  "resource_ref_fields =
     [string_field ''api'', optional_string ''namespace'', string_field ''kind'', string_field ''name'']"

definition metadata_fields :: fields where
  "metadata_fields =
     [((plain ''name'')\<lparr>immutable := True\<rparr>, String_field),
      ((optional ''namespace'' Null)\<lparr>immutable := True\<rparr>, String_field),
      (optional ''labels'' (Obj []), Dictionary_field),
      (optional ''inherit_labels'' (Boolean False), Boolean_field),
      (optional ''finalizers'' (Arr []), List_of String_field),
      ((plain ''uid'')\<lparr>readonly := True\<rparr>, String_field),
      ((plain ''created'')\<lparr>readonly := True\<rparr>, Date_field),
      ((plain ''modified'')\<lparr>readonly := True\<rparr>, Date_field),
      ((optional ''deleted'' Null)\<lparr>readonly := True\<rparr>, Date_field),
      (optional ''owners'' (Arr []), List_of (Serializable_type resource_ref_fields))]"

definition reason_fields :: fields where
  "reason_fields =
     [required_enum ''code''
        [''INTERNAL_ERROR'', ''INVALID_RESOURCE'', ''UNSUPPORTED_RESOURCE'', ''INVALID_CUSTOM_RESOURCE'',
         ''INVALID_TOSCA_MANIFEST'', ''CLUSTER_NOT_REACHABLE'', ''NO_SUITABLE_RESOURCE'', ''KUBERNETES_ERROR'',
         ''CREATE_FAILED'', ''RECONCILE_FAILED'', ''RECONFIGURE_FAILED'', ''DELETE_FAILED'', ''RETRIEVE_FAILED'',
         ''NOT_FOUND'', ''OPENSTACK_ERROR'', ''INVALID_CLUSTER_TEMPLATE'', ''INVALID_METRIC'',
         ''UNREACHABLE_METRICS_PROVIDER'', ''UNKNOWN_METRIC'', ''UNKNOWN_METRICS_PROVIDER''],
      string_field ''message'']"

definition base_status_fields :: fields where
  "base_status_fields = [(optional ''reason'' Null, Serializable_type reason_fields)]"

definition metrics_reasons_field :: "field_info \<times> field_type" where
  "metrics_reasons_field = (optional ''metrics_reasons'' (Obj []), Dict_of (Serializable_type reason_fields))"

definition optional_ref :: "string \<Rightarrow> field_info \<times> field_type" where
  "optional_ref n = (optional n Null, Serializable_type resource_ref_fields)"

definition metric_ref_fields :: fields where
  "metric_ref_fields =
     [string_field ''name'', (plain ''weight'', Float_field), (optional ''namespaced'' (Boolean False), Boolean_field)]"

definition metrics_field :: "field_info \<times> field_type" where
  "metrics_field = (optional ''metrics'' (Arr []), List_of (Serializable_type metric_ref_fields))"

text \<open>A resource: its API, its kind, its metadata, and its own fields.\<close>

record api_class =
  class_api :: string
  class_kind :: string
  class_key :: string
  class_fields :: fields

definition api_object :: "string \<Rightarrow> string \<Rightarrow> string \<Rightarrow> fields \<Rightarrow> api_class" where
  "api_object a k key fs =
     \<lparr>class_api = a, class_kind = k, class_key = key,
      class_fields =
        [(optional ''api'' (Text a), Enumeration [a]), (optional ''kind'' (Text k), Enumeration [k]),
         (plain ''metadata'', Serializable_type metadata_fields)] @ fs\<rparr>"

section \<open>Core\<close>

definition role_rule_fields :: fields where
  "role_rule_fields =
     [string_field ''api'', (plain ''resources'', List_of String_field), (plain ''namespaces'', List_of String_field),
      (plain ''verbs'', List_of (Enumeration [''create'', ''list'', ''list_all'', ''get'', ''update'', ''delete'']))]"

definition role_class :: api_class where
  "role_class = api_object ''core'' ''Role'' ''/core/roles/{name}''
     [(plain ''rules'', List_of (Serializable_type role_rule_fields))]"

definition role_binding_class :: api_class where
  "role_binding_class = api_object ''core'' ''RoleBinding'' ''/core/rolebindings/{name}''
     [(plain ''users'', List_of String_field), (plain ''roles'', List_of String_field)]"

definition metric_spec_provider_fields :: fields where
  "metric_spec_provider_fields = [string_field ''name'', string_field ''metric'']"

definition metric_spec_fields :: fields where
  "metric_spec_fields =
     [(plain ''allowed_values'', List_of Integer_field), (plain ''min'', Float_field), (plain ''max'', Float_field),
      (plain ''provider'', Serializable_type metric_spec_provider_fields)]"

definition global_metric_class :: api_class where
  "global_metric_class = api_object ''core'' ''GlobalMetric'' ''/core/globalmetrics/{name}''
     [(plain ''spec'', Serializable_type metric_spec_fields)]"

definition metric_class :: api_class where
  "metric_class = api_object ''core'' ''Metric'' ''/core/metrics/{namespace}/{name}''
     [(plain ''spec'', Serializable_type metric_spec_fields)]"

definition metrics_provider_types :: field_type where
  "metrics_provider_types = Polymorphic_type
     [(''prometheus'', [string_field ''url'']),
      (''influx'', [string_field ''url'', string_field ''token'', string_field ''org'', string_field ''bucket'']),
      (''kafka'', [string_field ''comparison_column'', string_field ''value_column'', string_field ''table'', string_field ''url'']),
      (''static'', [(plain ''metrics'', Dict_of Float_field)])]"

definition global_metrics_provider_class :: api_class where
  "global_metrics_provider_class = api_object ''core'' ''GlobalMetricsProvider'' ''/core/globalmetricsproviders/{name}''
     [(plain ''spec'', metrics_provider_types)]"

definition metrics_provider_class :: api_class where
  "metrics_provider_class = api_object ''core'' ''MetricsProvider'' ''/core/metricsproviders/{namespace}/{name}''
     [(plain ''spec'', metrics_provider_types)]"

section \<open>Kubernetes\<close>

definition cloud_constraints_fields :: fields where
  "cloud_constraints_fields = [(optional ''labels'' Null, List_of Constraint_field), (optional ''metrics'' Null, List_of Constraint_field)]"

definition cluster_cloud_constraints_fields :: fields where
  "cluster_cloud_constraints_fields = [(plain ''cloud'', Serializable_type cloud_constraints_fields)]"

definition cluster_constraints_fields :: fields where
  "cluster_constraints_fields =
     [(optional ''labels'' Null, List_of Constraint_field), (optional ''custom_resources'' (Arr []), List_of String_field),
      (optional ''metrics'' Null, List_of Constraint_field)]"

definition constraints_fields :: fields where
  "constraints_fields =
     [(plain ''cluster'', Serializable_type cluster_constraints_fields), (optional ''migration'' (Boolean True), Boolean_field)]"

definition backoff_fields :: fields where
  "backoff_fields =
     [(optional ''backoff'' (Integer 1), Integer_field), (optional ''backoff_delay'' (Integer 1), Integer_field),
      (optional ''backoff_limit'' (Integer (-1)), Integer_field)]"

definition application_spec_fields :: fields where
  "application_spec_fields =
     [(plain ''manifest'', List_of Dictionary_field),
      (optional ''tosca'' (Obj []), Union_of [Dictionary_field, String_field]),
      optional_string ''csar'',
      (optional ''observer_schema'' (Arr []), List_of Dictionary_field),
      (plain ''constraints'', Serializable_type constraints_fields),
      (optional ''hooks'' (Arr []), List_of String_field),
      (optional ''shutdown_grace_time'' Null, Integer_field),
      optional_string ''shutdown_failure_strategy'',
      (optional ''shutdown_retry_count'' Null, Integer_field)] @
     backoff_fields @
     [(optional ''storage_migration'' (Text ''none''), String_field),
      (optional ''auto_cluster_create'' (Boolean False), Boolean_field)]"

definition container_health_fields :: fields where
  "container_health_fields =
     [(optional ''desired_pods'' (Integer 0), Integer_field), (optional ''running_pods'' (Integer 0), Integer_field),
      (optional ''completed_pods'' (Integer 0), Integer_field), (optional ''failed_pods'' (Integer 0), Integer_field)]"

definition application_status_fields :: fields where
  "application_status_fields = base_status_fields @
     [(optional ''state'' (Text ''PENDING''), Enumeration
        [''PENDING'', ''CREATING'', ''RUNNING'', ''RECONCILING'', ''TRANSLATING'', ''RETRYING'', ''RESTARTING'',
         ''WAITING_FOR_CLEANING'', ''READY_FOR_ACTION'', ''MIGRATING'', ''WAITING_FOR_CLUSTER_CREATION'', ''DELETING'',
         ''DELETED'', ''DEGRADED'', ''FAILED'', ''COMPLETED'']),
      (optional ''container_health''
         (Obj [(''desired_pods'', Integer 0), (''running_pods'', Integer 0), (''completed_pods'', Integer 0),
               (''failed_pods'', Integer 0)]), Serializable_type container_health_fields),
      (optional ''kube_controller_triggered'' Null, Date_field),
      (optional ''scheduled'' Null, Date_field),
      optional_ref ''scheduled_to'',
      optional_ref ''running_on'',
      (optional ''retries'' Null, Integer_field),
      (optional ''scheduled_retry'' Null, Date_field),
      (optional ''services'' (Obj []), Dictionary_field),
      (optional ''mangled_observer_schema'' (Arr []), List_of Dictionary_field),
      (optional ''last_observed_manifest'' (Arr []), List_of Dictionary_field),
      (optional ''last_applied_manifest'' (Arr []), List_of Dictionary_field),
      optional_string ''complete_token'', optional_string ''complete_cert'', optional_string ''complete_key'',
      optional_string ''shutdown_token'', optional_string ''shutdown_cert'', optional_string ''shutdown_key'',
      (optional ''shutdown_grace_period'' Null, Date_field),
      optional_string ''auto_cluster_create_started'',
      (optional ''migration_retries'' (Integer 0), Integer_field),
      (optional ''migration_timeout'' (Integer 0), Integer_field)]"

definition application_class :: api_class where
  "application_class = api_object ''kubernetes'' ''Application'' ''/kubernetes/applications/{namespace}/{name}''
     [(plain ''spec'', Serializable_type application_spec_fields), status_field application_status_fields]"

definition cluster_spec_fields :: fields where
  "cluster_spec_fields =
     [(optional ''kubeconfig'' (Obj []), Dictionary_field), (optional ''tosca'' (Obj []), Dictionary_field),
      (optional ''custom_resources'' (Arr []), List_of String_field),
      (plain ''constraints'', Serializable_type cluster_cloud_constraints_fields),
      metrics_field,
      (optional ''inherit_metrics'' (Boolean False), Boolean_field)] @
     backoff_fields @
     [(optional ''auto_generated'' (Boolean False), Boolean_field)]"

definition cluster_node_fields :: fields where
  "cluster_node_fields =
     [(optional ''api'' (Text ''kubernetes''), String_field), (optional ''kind'' (Text ''ClusterNode''), String_field),
      (plain ''metadata'', Serializable_type [string_field ''name'']),
      (optional ''status'' Null, Serializable_type
         [(plain ''conditions'', List_of (Serializable_type
            [string_field ''message'', string_field ''reason'', string_field ''status'', string_field ''type'']))])]"

definition cluster_status_fields :: fields where
  "cluster_status_fields = base_status_fields @
     [(optional ''kube_controller_triggered'' Null, Date_field),
      (optional ''state'' (Text ''PENDING''), Enumeration
        [''PENDING'', ''ONLINE'', ''CONNECTING'', ''OFFLINE'', ''UNHEALTHY'', ''NOTREADY'', ''FAILING_METRICS'',
         ''CREATING'', ''RECONCILING'', ''DELETING'', ''FAILING_RECONCILIATION'', ''FAILED'', ''DEGRADED'']),
      metrics_reasons_field,
      (optional ''last_applied_tosca'' (Obj []), Dictionary_field),
      (optional ''nodes'' (Arr []), List_of (Serializable_type cluster_node_fields)),
      optional_string ''cluster_id'',
      (optional ''scheduled'' Null, Date_field),
      optional_ref ''scheduled_to'',
      optional_ref ''running_on'',
      (optional ''retries'' (Integer 0), Integer_field)]"

definition cluster_class :: api_class where
  "cluster_class = api_object ''kubernetes'' ''Cluster'' ''/kubernetes/clusters/{namespace}/{name}''
     [(plain ''spec'', Serializable_type cluster_spec_fields), status_field cluster_status_fields]"

section \<open>Infrastructure\<close>

definition infrastructure_provider_types :: field_type where
  "infrastructure_provider_types = Polymorphic_type
     [(''im'', [string_field ''url'', optional_string ''username'', optional_string ''password'', optional_string ''token''])]"

definition global_infrastructure_provider_class :: api_class where
  "global_infrastructure_provider_class = api_object ''infrastructure'' ''GlobalInfrastructureProvider''
     ''/infrastructure/globalinfrastructureproviders/{name}'' [(plain ''spec'', infrastructure_provider_types)]"

definition infrastructure_provider_class :: api_class where
  "infrastructure_provider_class = api_object ''infrastructure'' ''InfrastructureProvider''
     ''/infrastructure/infrastructureproviders/{namespace}/{name}'' [(plain ''spec'', infrastructure_provider_types)]"

definition openstack_auth_types :: field_type where
  "openstack_auth_types = Polymorphic_type
     [(''password'',
        [(optional ''version'' (Text ''3''), String_field),
         (plain ''user'', Serializable_type
           [string_field ''username'', string_field ''password'', (optional ''domain_name'' (Text ''Default''), String_field),
            optional_string ''comment'']),
         (plain ''project'', Serializable_type
           [string_field ''name'', (optional ''domain_id'' (Text ''default''), String_field), optional_string ''comment''])])]"

definition cloud_types :: field_type where
  "cloud_types = Polymorphic_type
     [(''openstack'',
        [string_field ''url'', (plain ''auth'', openstack_auth_types), metrics_field,
         (plain ''infrastructure_provider'', Serializable_type
           [string_field ''name'', (optional ''namespaced'' (Boolean False), Boolean_field)])])]"

definition cloud_status_fields :: fields where
  "cloud_status_fields =
     [(optional ''state'' (Text ''ONLINE''), Enumeration [''ONLINE'', ''FAILING_METRICS'']), metrics_reasons_field]"

definition global_cloud_class :: api_class where
  "global_cloud_class = api_object ''infrastructure'' ''GlobalCloud'' ''/infrastructure/globalclouds/{name}''
     [(plain ''spec'', cloud_types), status_field cloud_status_fields]"

definition cloud_class :: api_class where
  "cloud_class = api_object ''infrastructure'' ''Cloud'' ''/infrastructure/clouds/{namespace}/{name}''
     [(plain ''spec'', cloud_types), status_field cloud_status_fields]"

section \<open>OpenStack\<close>

definition auth_types :: field_type where
  "auth_types = Polymorphic_type
     [(''password'',
        [(plain ''user'', Serializable_type [string_field ''id'', string_field ''password'', optional_string ''comment'']),
         (plain ''project'', Serializable_type [string_field ''id'', optional_string ''comment''])]),
      (''application_credential'', [string_field ''id'', string_field ''secret''])]"

definition project_spec_fields :: fields where
  "project_spec_fields = [string_field ''url'', (plain ''auth'', auth_types), string_field ''template'', metrics_field]"

definition project_class :: api_class where
  "project_class = api_object ''openstack'' ''Project'' ''/openstack/projects/{namespace}/{name}''
     [(plain ''spec'', Serializable_type project_spec_fields), status_field cloud_status_fields]"

definition magnum_cluster_spec_fields :: fields where
  "magnum_cluster_spec_fields =
     [((optional ''master_count'' Null)\<lparr>immutable := True\<rparr>, Integer_field),
      (optional ''node_count'' Null, Integer_field),
      metrics_field,
      (optional ''constraints'' Null, Serializable_type
        [(optional ''project'' Null, Serializable_type [(optional ''labels'' Null, List_of Constraint_field)])])]"

definition magnum_cluster_status_fields :: fields where
  "magnum_cluster_status_fields = base_status_fields @
     [(optional ''state'' (Text ''PENDING''), Enumeration
        [''PENDING'', ''CREATING'', ''RUNNING'', ''RECONCILING'', ''DELETING'', ''FAILED'']),
      optional_ref ''project'',
      ((optional ''template'' Null)\<lparr>immutable := True\<rparr>, String_field),
      optional_string ''cluster_id'',
      (optional ''node_count'' Null, Integer_field),
      optional_string ''api_address'',
      (optional ''master_addresses'' Null, List_of String_field),
      (optional ''node_addresses'' Null, List_of String_field),
      optional_ref ''cluster'']"

definition magnum_cluster_class :: api_class where
  "magnum_cluster_class = api_object ''openstack'' ''MagnumCluster'' ''/openstack/magnumclusters/{namespace}/{name}''
     [(plain ''spec'', Serializable_type magnum_cluster_spec_fields), status_field magnum_cluster_status_fields]"

section \<open>Bodies of bindings and hooks\<close>

definition binding_fields :: "string \<Rightarrow> string \<Rightarrow> fields \<Rightarrow> fields" where
  "binding_fields a k fs =
     [(optional ''api'' (Text a), Enumeration [a]), (optional ''kind'' (Text k), Enumeration [k])] @ fs"

definition cluster_binding_fields :: fields where
  "cluster_binding_fields = binding_fields ''kubernetes'' ''ClusterBinding'' [(plain ''cluster'', Serializable_type resource_ref_fields)]"

definition cloud_binding_fields :: fields where
  "cloud_binding_fields = binding_fields ''infrastructure'' ''CloudBinding'' [(plain ''cloud'', Serializable_type resource_ref_fields)]"

definition magnum_cluster_binding_fields :: fields where
  "magnum_cluster_binding_fields = binding_fields ''openstack'' ''MagnumClusterBinding''
     [(plain ''project'', Serializable_type resource_ref_fields), string_field ''template'']"

definition application_complete_fields :: fields where
  "application_complete_fields = binding_fields ''kubernetes'' ''Complete'' [optional_string ''token'']"

definition application_shutdown_fields :: fields where
  "application_shutdown_fields = binding_fields ''kubernetes'' ''Shutdown'' [optional_string ''token'']"

section \<open>All classes\<close>

definition api_classes :: "api_class list" where
  "api_classes =
     [role_class, role_binding_class, global_metric_class, metric_class, global_metrics_provider_class,
      metrics_provider_class, application_class, cluster_class, global_infrastructure_provider_class,
      infrastructure_provider_class, global_cloud_class, cloud_class, project_class, magnum_cluster_class]"

abbreviation class_type :: "api_class \<Rightarrow> field_type" where
  "class_type c \<equiv> Serializable_type (class_fields c)"

lemma api_classes_well_named: "c \<in> set api_classes \<Longrightarrow> well_named (class_type c)"
proof -
  have "list_all (\<lambda>c. well_named (class_type c)) api_classes" by code_simp
  then show "c \<in> set api_classes \<Longrightarrow> ?thesis" by (simp add: list_all_iff)
qed

text \<open>The attributes that only the API sets, and those that the user replaces with an update.\<close>

definition api_controlled :: "string list list" where
  "api_controlled =
     [[''metadata'', ''name''], [''metadata'', ''namespace''], [''metadata'', ''uid''], [''metadata'', ''created''],
      [''metadata'', ''modified''], [''metadata'', ''deleted'']]"

definition user_controlled :: "string list list" where
  "user_controlled =
     [[''metadata'', ''labels''], [''metadata'', ''inherit_labels''], [''metadata'', ''finalizers''], [''metadata'', ''owners'']]"

lemma api_controlled_protected:
  assumes "c \<in> set api_classes" and "p \<in> set api_controlled"
  shows "protected_path (class_fields c) p"
proof -
  have "list_all (\<lambda>c. list_all (protected_path (class_fields c)) api_controlled) api_classes" by code_simp
  with assms show ?thesis by (auto simp: list_all_iff)
qed

lemma user_controlled_updated:
  assumes "c \<in> set api_classes" and "p \<in> set user_controlled"
  shows "updated_path (class_fields c) p"
proof -
  have "list_all (\<lambda>c. list_all (updated_path (class_fields c)) user_controlled) api_classes" by code_simp
  with assms show ?thesis by (auto simp: list_all_iff)
qed

end
