(* ===== verification/Database.thy ===== *)
theory Database
  imports Api_Models Coroutines
begin

text \<open>
  The database abstraction \<open>krake/krake/api/database.py\<close> and the keys of
  \<open>krake/krake/data/__init__.py\<close>. The etcd server is an environment whose answers depend on all
  requests before; \<open>etcd_laws\<close> is what its documentation promises: a sequence of revisions of the
  stored keys that all answers agree with. The conversion of the stored values by marshmallow is
  part of the environment as well.
\<close>

section \<open>Keys\<close>

datatype key_part = Literal char | Param string

lemma length_after_param: "length (dropWhile P (tl s)) - Suc 0 < Suc (length s)"
  using length_dropWhile_le [of P "tl s"] by simp

text \<open>The parameters of a template are what the pattern \<open>\{(.+?)\}\<close> finds.\<close>

function (sequential) key_parts :: "string \<Rightarrow> key_part list" where
  "key_parts [] = []"
| "key_parts (c # s) =
     (if c = CHR ''{'' \<and> s \<noteq> [] \<and> CHR ''}'' \<in> set (tl s)
      then Param (hd s # takeWhile (\<lambda>x. x \<noteq> CHR ''}'') (tl s)) #
        key_parts (tl (dropWhile (\<lambda>x. x \<noteq> CHR ''}'') (tl s)))
      else Literal c # key_parts s)"
  by pat_completeness auto

termination by (relation "measure length") (auto simp: length_after_param)

definition parameters :: "string \<Rightarrow> string list" where
  "parameters template = concat (map (\<lambda>p. case p of Param n \<Rightarrow> [n] | Literal _ \<Rightarrow> []) (key_parts template))"

fun format_parts :: "(string \<Rightarrow> (exn, string) res) \<Rightarrow> key_part list \<Rightarrow> (exn, string) res" where
  "format_parts value [] = Inr []"
| "format_parts value (Literal c # ps) = res_bind (format_parts value ps) (\<lambda>s. Inr (c # s))"
| "format_parts value (Param n # ps) =
     res_bind (value n) (\<lambda>v. res_bind (format_parts value ps) (\<lambda>s. Inr (v @ s)))"

text \<open>How \<open>str.format\<close> writes a name or a missing namespace.\<close>

fun key_text :: "yaml \<Rightarrow> (exn, string) res" where
  "key_text (Text s) = Inr s"
| "key_text Null = Inr ''None''"
| "key_text _ = Inl TypeError"

definition format_object :: "string \<Rightarrow> yaml \<Rightarrow> (exn, string) res" where
  "format_object template obj =
     res_bind (get_attr ''metadata'' obj) (\<lambda>m.
     format_parts (\<lambda>n. res_bind (get_attr n m) key_text) (key_parts template))"

definition format_kwargs :: "string \<Rightarrow> (string, string) dict \<Rightarrow> (exn, string) res" where
  "format_kwargs template kwargs =
     (if list_all (\<lambda>(k, v). k \<in> set (parameters template)) kwargs
      then format_parts (\<lambda>n. case dict_get kwargs n of Some v \<Rightarrow> Inr v | None \<Rightarrow> Inl TypeError) (key_parts template)
      else Inl TypeError)"

fun prefix_parts :: "(string, string) dict \<Rightarrow> key_part list \<Rightarrow> string \<times> (string, string) dict" where
  "prefix_parts kwargs [] = ([], kwargs)"
| "prefix_parts kwargs (Literal c # ps) = (let (s, rest) = prefix_parts kwargs ps in (c # s, rest))"
| "prefix_parts kwargs (Param n # ps) =
     (case dict_get kwargs n of
        None \<Rightarrow> ([], kwargs)
      | Some v \<Rightarrow> (let (s, rest) = prefix_parts (dict_del n kwargs) ps in (v @ s, rest)))"

definition key_prefix :: "string \<Rightarrow> (string, string) dict \<Rightarrow> (exn, string) res" where
  "key_prefix template kwargs =
     (let (s, rest) = prefix_parts kwargs (key_parts template) in if rest = [] then Inr s else Inl TypeError)"

text \<open>
  The pattern that a template is turned into: each parameter matches one or more of the characters
  \<open>[.a-zA-Z0-9_:-]\<close>; \<open>$\<close> also matches before a line break at the end.
\<close>

definition is_key_char :: "char \<Rightarrow> bool" where
  "is_key_char c \<longleftrightarrow> is_upper c \<or> is_lower c \<or> is_digit c \<or> c \<in> set ''._:-''"

fun matches_parts :: "key_part list \<Rightarrow> string \<Rightarrow> bool" where
  "matches_parts [] s \<longleftrightarrow> s = [] \<or> s = ''\<newline>''"
| "matches_parts (Literal c # ps) s \<longleftrightarrow> (case s of [] \<Rightarrow> False | x # r \<Rightarrow> x = c \<and> matches_parts ps r)"
| "matches_parts (Param n # ps) s \<longleftrightarrow>
     list_ex (\<lambda>i. list_all is_key_char (take i s) \<and> matches_parts ps (drop i s)) [1..<Suc (length s)]"

definition key_matches :: "string \<Rightarrow> string \<Rightarrow> bool" where
  "key_matches template key = matches_parts (key_parts template) key"

section \<open>Requests to the database\<close>

record kv =
  kv_key :: string
  kv_value :: yaml
  create_revision :: nat
  mod_revision :: nat
  kv_version :: nat

datatype txn_compare = Not_exists | Modified_at nat
datatype txn_operation = Put_value yaml | Delete_key

datatype db_request =
    Range string "nat option"
  | Range_prefix string
  | Commit string txn_compare txn_operation
  | Next_event string
  | Watch string

type_synonym db_log = "db_request list"

text \<open>An event of the database: the key and value that were put, or the key that was deleted.\<close>

record etcd_event =
  event_deleted :: bool
  event_kv :: kv

record api_env =
  range_answer :: "db_log \<Rightarrow> (exn, kv list) res"
  commit_answer :: "db_log \<Rightarrow> (exn, bool \<times> nat) res"
  event_answer :: "db_log \<Rightarrow> (exn, etcd_event) res option"
  watch_answer :: "db_log \<Rightarrow> (exn, etcd_event list) res"
  api_clock :: "db_log \<Rightarrow> time"
  new_uuid :: "db_log \<Rightarrow> string"
  decode :: "fields \<Rightarrow> yaml \<Rightarrow> (exn, yaml) res"
  decode_creation :: "fields \<Rightarrow> yaml \<Rightarrow> (exn, yaml) res"
  identity_answer :: "string \<Rightarrow> string \<Rightarrow> (exn, int \<times> yaml) res"

definition db_ask :: "(db_log \<Rightarrow> (exn, 'a) res) \<Rightarrow> db_request \<Rightarrow> (db_log, 'a) co" where
  "db_ask answer q h = Some (answer (h @ [q]), h @ [q])"

text \<open>The next event that is watched may never come.\<close>

definition db_wait :: "(db_log \<Rightarrow> (exn, 'a) res option) \<Rightarrow> db_request \<Rightarrow> (db_log, 'a) co" where
  "db_wait answer q h = map_option (\<lambda>r. (r, h @ [q])) (answer (h @ [q]))"

definition api_now :: "api_env \<Rightarrow> (db_log, time) co" where
  "api_now env = co_bind co_get (\<lambda>h. co_return (api_clock env h))"

definition uuid4 :: "api_env \<Rightarrow> (db_log, string) co" where
  "uuid4 env = co_bind co_get (\<lambda>h. co_return (new_uuid env h))"

section \<open>Sessions\<close>

record revision =
  rev_key :: string
  rev_created :: nat
  rev_modified :: nat
  rev_version :: nat

definition from_kv :: "kv \<Rightarrow> revision" where
  "from_kv x = \<lparr>rev_key = kv_key x, rev_created = create_revision x, rev_modified = mod_revision x, rev_version = kv_version x\<rparr>"

text \<open>An object with the revision that is attached to it when it is loaded.\<close>

type_synonym loaded = "yaml \<times> revision option"

definition load_instance :: "api_env \<Rightarrow> api_class \<Rightarrow> kv \<Rightarrow> (exn, loaded) res" where
  "load_instance env c x = res_bind (decode env (class_fields c) (kv_value x)) (\<lambda>v. Inr (v, Some (from_kv x)))"

definition get_by_key :: "api_env \<Rightarrow> api_class \<Rightarrow> string \<Rightarrow> nat option \<Rightarrow> (db_log, loaded option) co" where
  "get_by_key env c k revision =
     co_bind (db_ask (range_answer env) (Range k revision)) (\<lambda>xs.
     case xs of
       [] \<Rightarrow> co_return None
     | x # _ \<Rightarrow> co_bind (co_lift (load_instance env c x)) (\<lambda>v. co_return (Some v)))"

definition session_get :: "api_env \<Rightarrow> api_class \<Rightarrow> (string, string) dict \<Rightarrow> (db_log, loaded option) co" where
  "session_get env c kwargs =
     co_bind (co_lift (format_kwargs (class_key c) kwargs)) (\<lambda>k. get_by_key env c k None)"

text \<open>The stored values that \<open>all\<close> iterates over; each is loaded when its turn comes.\<close>

definition session_range :: "api_env \<Rightarrow> api_class \<Rightarrow> (string, string) dict \<Rightarrow> (db_log, kv list) co" where
  "session_range env c kwargs =
     co_bind (co_lift (key_prefix (class_key c) kwargs)) (\<lambda>p.
     co_bind (db_ask (range_answer env) (Range_prefix p)) (\<lambda>xs.
     co_return (filter (\<lambda>x. key_matches (class_key c) (kv_key x)) xs)))"

definition session_all :: "api_env \<Rightarrow> api_class \<Rightarrow> (string, string) dict \<Rightarrow> (db_log, loaded list) co" where
  "session_all env c kwargs =
     co_bind (session_range env c kwargs) (\<lambda>xs. co_lift (res_map (load_instance env c) xs))"

definition is_new :: "revision option \<Rightarrow> bool" where
  "is_new revn \<longleftrightarrow> (case revn of None \<Rightarrow> True | Some r \<Rightarrow> rev_version r = 0)"

definition session_put :: "api_env \<Rightarrow> api_class \<Rightarrow> loaded \<Rightarrow> (db_log, revision) co" where
  "session_put env c x =
     (let (v, revn) = x in
      co_bind (co_lift (format_object (class_key c) v)) (\<lambda>k.
      co_bind (db_ask (commit_answer env)
          (Commit k (if is_new revn then Not_exists else Modified_at (rev_modified (the revn))) (Put_value v))) (\<lambda>(succeeded, n).
      if \<not> succeeded then co_raise TransactionError
      else co_return
        (if is_new revn then \<lparr>rev_key = k, rev_created = n, rev_modified = n, rev_version = 1\<rparr>
         else (the revn)\<lparr>rev_modified := n, rev_version := rev_version (the revn) + 1\<rparr>))))"

definition session_delete :: "api_env \<Rightarrow> api_class \<Rightarrow> loaded \<Rightarrow> (db_log, revision) co" where
  "session_delete env c x =
     (let (v, revn) = x in
      co_bind (co_lift (format_object (class_key c) v)) (\<lambda>k.
      case revn of
        None \<Rightarrow> co_raise ValueError
      | Some r \<Rightarrow>
          co_bind (db_ask (commit_answer env) (Commit k (Modified_at (rev_modified r)) Delete_key)) (\<lambda>(succeeded, n).
          if \<not> succeeded then co_raise TransactionError
          else co_return (r\<lparr>rev_modified := n, rev_version := 0\<rparr>))))"

text \<open>What a watcher yields for an event; nothing for a key that does not match the template.\<close>

definition watcher_event ::
  "api_env \<Rightarrow> api_class \<Rightarrow> etcd_event \<Rightarrow> (exn, (yaml option \<times> revision) option) res" where
  "watcher_event env c e =
     (if \<not> key_matches (class_key c) (kv_key (event_kv e)) then Inr None
      else if event_deleted e then Inr (Some (None, from_kv (event_kv e)))
      else res_bind (load_instance env c (event_kv e)) (\<lambda>(v, revn). Inr (Some (Some v, the revn))))"

section \<open>The promises of etcd\<close>

definition compare_holds :: "txn_compare \<Rightarrow> kv option \<Rightarrow> bool" where
  "compare_holds c x \<longleftrightarrow>
     (case c of Not_exists \<Rightarrow> x = None | Modified_at m \<Rightarrow> (case x of None \<Rightarrow> False | Some x \<Rightarrow> mod_revision x = m))"

type_synonym store = "nat \<Rightarrow> string \<Rightarrow> kv option"

text \<open>
  The stored keys at each revision: a key that changes gets the new revision. A read sees some
  revision; a transaction that succeeded compared the revision before its own and changed only
  its key.
\<close>

definition etcd_store :: "store \<Rightarrow> bool" where
  "etcd_store store \<longleftrightarrow>
     (\<forall>k. store 0 k = None) \<and>
     (\<forall>n k x. store n k = Some x \<longrightarrow> kv_key x = k \<and> kv_version x \<noteq> 0) \<and>
     (\<forall>n k x. store (Suc n) k \<noteq> store n k \<longrightarrow> store (Suc n) k = Some x \<longrightarrow> mod_revision x = Suc n) \<and>
     (\<forall>n k x. store (Suc n) k = Some x \<longrightarrow> store (Suc n) k \<noteq> store n k \<longrightarrow>
        create_revision x = (case store n k of None \<Rightarrow> Suc n | Some y \<Rightarrow> create_revision y))"

definition etcd_laws :: "api_env \<Rightarrow> store \<Rightarrow> bool" where
  "etcd_laws env store \<longleftrightarrow>
     etcd_store store \<and>
     (\<forall>h k xs. range_answer env (h @ [Range k None]) = Inr xs \<longrightarrow>
        (\<exists>n. xs = (case store n k of None \<Rightarrow> [] | Some x \<Rightarrow> [x]))) \<and>
     (\<forall>h k n xs. range_answer env (h @ [Range k (Some n)]) = Inr xs \<longrightarrow>
        xs = (case store n k of None \<Rightarrow> [] | Some x \<Rightarrow> [x])) \<and>
     (\<forall>h p xs. range_answer env (h @ [Range_prefix p]) = Inr xs \<longrightarrow>
        (\<exists>n. \<forall>x. x \<in> set xs \<longleftrightarrow> store n (kv_key x) = Some x \<and> take (length p) (kv_key x) = p)) \<and>
     (\<forall>h k c p r. commit_answer env (h @ [Commit k c p]) = Inr (True, r) \<longrightarrow>
        (\<exists>n. r = Suc n \<and> compare_holds c (store n k) \<and>
           (case p of Delete_key \<Rightarrow> store r k = None | Put_value v \<Rightarrow> (\<exists>x. store r k = Some x \<and> kv_value x = v)) \<and>
           (\<forall>l. l \<noteq> k \<longrightarrow> store r l = store n l)))"

end
