(* ===== verification/Api_Client.thy ===== *)
theory Api_Client
  imports Database
begin

text \<open>
  The client library \<open>krake/krake/client\<close>: the methods of \<open>CoreApi\<close>, \<open>KubernetesApi\<close>,
  \<open>InfrastructureApi\<close> and \<open>OpenStackApi\<close>, each with the request it sends and the class it reads the
  response as, and the watcher that reads the lines of a watch. The HTTP session of aiohttp is a
  part of the environment. An object stands for its serialized form.
\<close>

section \<open>Requests and responses\<close>

record client_request =
  sent_method :: string
  sent_path :: string
  sent_query :: "(string, string) dict"
  sent_json :: "yaml option"

text \<open>
  What the iteration over the content of a response gives: lines, and the exception that ends it.
\<close>

datatype stream_line = End_of_file | Heartbeat | Document yaml | Not_json | Broken exn

record client_response =
  resp_status :: int
  resp_json :: "(exn, yaml) res"
  resp_content :: "stream_line list"

text \<open>
  The session raises for the responses with an error status. The conversion by marshmallow is part
  of the environment, as it is for the server.
\<close>

record 's client_env =
  session_request :: "client_request \<Rightarrow> ('s, client_response) co"
  client_decode :: "fields \<Rightarrow> yaml \<Rightarrow> (exn, yaml) res"

definition str_format :: "string \<Rightarrow> (string, string) dict \<Rightarrow> (exn, string) res" where
  "str_format template kwargs =
     format_parts (\<lambda>k. case dict_get kwargs k of Some v \<Rightarrow> Inr v | None \<Rightarrow> Inl KeyError) (key_parts template)"

definition send :: "'s client_env \<Rightarrow> string \<Rightarrow> string \<Rightarrow> (string, string) dict \<Rightarrow> yaml option \<Rightarrow>
    ('s, client_response) co" where
  "send env m template kwargs json =
     co_bind (co_lift (str_format template kwargs)) (\<lambda>path.
     session_request env \<lparr>sent_method = m, sent_path = path, sent_query = [], sent_json = json\<rparr>)"

definition receive :: "'s client_env \<Rightarrow> fields \<Rightarrow> client_response \<Rightarrow> ('s, yaml) co" where
  "receive env fs resp = co_lift (res_bind (resp_json resp) (client_decode env fs))"

definition get_json :: "'s client_env \<Rightarrow> string \<Rightarrow> (string, string) dict \<Rightarrow> fields \<Rightarrow> ('s, yaml) co" where
  "get_json env template kwargs fs = co_bind (send env ''GET'' template kwargs None) (receive env fs)"

definition post_json :: "'s client_env \<Rightarrow> string \<Rightarrow> (string, string) dict \<Rightarrow> fields \<Rightarrow> yaml \<Rightarrow> ('s, yaml) co" where
  "post_json env template kwargs fs body = co_bind (send env ''POST'' template kwargs (Some body)) (receive env fs)"

definition put_json :: "'s client_env \<Rightarrow> string \<Rightarrow> (string, string) dict \<Rightarrow> fields \<Rightarrow> yaml \<Rightarrow> ('s, yaml) co" where
  "put_json env template kwargs fs body = co_bind (send env ''PUT'' template kwargs (Some body)) (receive env fs)"

definition delete_json :: "'s client_env \<Rightarrow> string \<Rightarrow> (string, string) dict \<Rightarrow> fields \<Rightarrow> ('s, yaml option) co" where
  "delete_json env template kwargs fs =
     co_bind (send env ''DELETE'' template kwargs None) (\<lambda>resp.
     if resp_status resp = 204 then co_return None
     else co_bind (receive env fs resp) (\<lambda>v. co_return (Some v)))"

text \<open>The classes of the lists.\<close>

definition list_fields :: "api_class \<Rightarrow> fields" where
  "list_fields c =
     [(optional ''api'' (Text (class_api c)), Enumeration [class_api c]),
      (optional ''kind'' (Text (class_kind c @ ''List'')), Enumeration [class_kind c @ ''List'']),
      (plain ''metadata'', Serializable_type []), (plain ''items'', List_of (class_type c))]"

section \<open>The watcher\<close>

definition watch_event_fields :: fields where
  "watch_event_fields = [required_enum ''type'' [''ADDED'', ''MODIFIED'', ''DELETED''], (plain ''object'', Dictionary_field)]"

definition read_event :: "'s client_env \<Rightarrow> fields \<Rightarrow> yaml \<Rightarrow> (exn, yaml) res" where
  "read_event env fs v =
     res_bind (client_decode env watch_event_fields v) (\<lambda>event.
     res_bind (res_bind (get_attr ''object'' event) (client_decode env fs)) (\<lambda>obj.
     set_attr ''object'' obj event))"

text \<open>The events that the watcher yields, and the exception that ends it, if there is one.\<close>

fun watch :: "'s client_env \<Rightarrow> fields \<Rightarrow> stream_line list \<Rightarrow> yaml list \<times> exn option" where
  "watch env fs [] = ([], None)"
| "watch env fs (End_of_file # ls) = ([], None)"
| "watch env fs (Heartbeat # ls) = watch env fs ls"
| "watch env fs (Not_json # ls) = ([], Some ValueError)"
| "watch env fs (Broken e # ls) = ([], if e = ClientPayloadError then None else Some e)"
| "watch env fs (Document v # ls) =
     (case read_event env fs v of
        Inl e \<Rightarrow> ([], Some e)
      | Inr event \<Rightarrow> (event # fst (watch env fs ls), snd (watch env fs ls)))"

record watcher =
  watch_path :: string
  watch_query :: "(string, string) dict"
  watch_model :: fields

definition new_watcher :: "string \<Rightarrow> (string, string) dict \<Rightarrow> int option \<Rightarrow> fields \<Rightarrow> (exn, watcher) res" where
  "new_watcher template kwargs heartbeat fs =
     res_bind (str_format template kwargs) (\<lambda>path.
     Inr \<lparr>watch_path = path,
       watch_query = (''watch'', []) # (case heartbeat of None \<Rightarrow> [] | Some t \<Rightarrow> [(''heartbeat'', str_of_int t)]),
       watch_model = fs\<rparr>)"

text \<open>Entering the context opens the stream.\<close>

definition open_watch :: "'s client_env \<Rightarrow> watcher \<Rightarrow> ('s, stream_line list) co" where
  "open_watch env w =
     co_bind
       (session_request env
         \<lparr>sent_method = ''GET'', sent_path = watch_path w, sent_query = watch_query w, sent_json = None\<rparr>) (\<lambda>resp.
     co_return (resp_content resp))"

definition run_watch :: "'s client_env \<Rightarrow> watcher \<Rightarrow> ('s, yaml list \<times> exn option) co" where
  "run_watch env w = co_bind (open_watch env w) (\<lambda>ls. co_return (watch env (watch_model w) ls))"

section \<open>Core\<close>

definition create_global_metric_client :: "'s client_env \<Rightarrow> yaml \<Rightarrow> ('s, yaml) co" where
  "create_global_metric_client env body =
     post_json env ''/core/globalmetrics'' [] (class_fields global_metric_class) body"

definition delete_global_metric_client :: "'s client_env \<Rightarrow> string \<Rightarrow> ('s, yaml option) co" where
  "delete_global_metric_client env n =
     delete_json env ''/core/globalmetrics/{name}'' [(''name'', n)] (class_fields global_metric_class)"

definition list_global_metrics_client :: "'s client_env \<Rightarrow> ('s, yaml) co" where
  "list_global_metrics_client env =
     get_json env ''/core/globalmetrics'' [] (list_fields global_metric_class)"

definition watch_global_metrics_client :: "int option \<Rightarrow> (exn, watcher) res" where
  "watch_global_metrics_client heartbeat =
     new_watcher ''/core/globalmetrics'' [] heartbeat (class_fields global_metric_class)"

definition read_global_metric_client :: "'s client_env \<Rightarrow> string \<Rightarrow> ('s, yaml) co" where
  "read_global_metric_client env n =
     get_json env ''/core/globalmetrics/{name}'' [(''name'', n)] (class_fields global_metric_class)"

definition update_global_metric_client :: "'s client_env \<Rightarrow> yaml \<Rightarrow> string \<Rightarrow> ('s, yaml) co" where
  "update_global_metric_client env body n =
     put_json env ''/core/globalmetrics/{name}'' [(''name'', n)] (class_fields global_metric_class) body"

definition create_global_metrics_provider_client :: "'s client_env \<Rightarrow> yaml \<Rightarrow> ('s, yaml) co" where
  "create_global_metrics_provider_client env body =
     post_json env ''/core/globalmetricsproviders'' [] (class_fields global_metrics_provider_class) body"

definition delete_global_metrics_provider_client :: "'s client_env \<Rightarrow> string \<Rightarrow> ('s, yaml option) co" where
  "delete_global_metrics_provider_client env n =
     delete_json env ''/core/globalmetricsproviders/{name}'' [(''name'', n)] (class_fields global_metrics_provider_class)"

definition list_global_metrics_providers_client :: "'s client_env \<Rightarrow> ('s, yaml) co" where
  "list_global_metrics_providers_client env =
     get_json env ''/core/globalmetricsproviders'' [] (list_fields global_metrics_provider_class)"

definition watch_global_metrics_providers_client :: "int option \<Rightarrow> (exn, watcher) res" where
  "watch_global_metrics_providers_client heartbeat =
     new_watcher ''/core/globalmetricsproviders'' [] heartbeat (class_fields global_metrics_provider_class)"

definition read_global_metrics_provider_client :: "'s client_env \<Rightarrow> string \<Rightarrow> ('s, yaml) co" where
  "read_global_metrics_provider_client env n =
     get_json env ''/core/globalmetricsproviders/{name}'' [(''name'', n)] (class_fields global_metrics_provider_class)"

definition update_global_metrics_provider_client :: "'s client_env \<Rightarrow> yaml \<Rightarrow> string \<Rightarrow> ('s, yaml) co" where
  "update_global_metrics_provider_client env body n =
     put_json env ''/core/globalmetricsproviders/{name}'' [(''name'', n)] (class_fields global_metrics_provider_class) body"

definition create_metric_client :: "'s client_env \<Rightarrow> yaml \<Rightarrow> string \<Rightarrow> ('s, yaml) co" where
  "create_metric_client env body ns =
     post_json env ''/core/namespaces/{namespace}/metrics'' [(''namespace'', ns)] (class_fields metric_class) body"

definition delete_metric_client :: "'s client_env \<Rightarrow> string \<Rightarrow> string \<Rightarrow> ('s, yaml option) co" where
  "delete_metric_client env n ns =
     delete_json env ''/core/namespaces/{namespace}/metrics/{name}'' [(''name'', n), (''namespace'', ns)] (class_fields metric_class)"

definition list_metrics_client :: "'s client_env \<Rightarrow> string option \<Rightarrow> ('s, yaml) co" where
  "list_metrics_client env ns =
     (case ns of
        None \<Rightarrow> get_json env ''/core/metrics'' [] (list_fields metric_class)
      | Some t \<Rightarrow>
          if t = [] then get_json env ''/core/metrics'' [] (list_fields metric_class)
          else get_json env ''/core/namespaces/{namespace}/metrics'' [(''namespace'', t)] (list_fields metric_class))"

definition watch_metrics_client :: "string option \<Rightarrow> int option \<Rightarrow> (exn, watcher) res" where
  "watch_metrics_client ns heartbeat =
     (case ns of
        None \<Rightarrow> new_watcher ''/core/metrics'' [] heartbeat (class_fields metric_class)
      | Some t \<Rightarrow>
          if t = [] then new_watcher ''/core/metrics'' [] heartbeat (class_fields metric_class)
          else new_watcher ''/core/namespaces/{namespace}/metrics'' [(''namespace'', t)] heartbeat (class_fields metric_class))"

definition read_metric_client :: "'s client_env \<Rightarrow> string \<Rightarrow> string \<Rightarrow> ('s, yaml) co" where
  "read_metric_client env n ns =
     get_json env ''/core/namespaces/{namespace}/metrics/{name}'' [(''name'', n), (''namespace'', ns)] (class_fields metric_class)"

definition update_metric_client :: "'s client_env \<Rightarrow> yaml \<Rightarrow> string \<Rightarrow> string \<Rightarrow> ('s, yaml) co" where
  "update_metric_client env body n ns =
     put_json env ''/core/namespaces/{namespace}/metrics/{name}'' [(''name'', n), (''namespace'', ns)] (class_fields metric_class) body"

definition create_metrics_provider_client :: "'s client_env \<Rightarrow> yaml \<Rightarrow> string \<Rightarrow> ('s, yaml) co" where
  "create_metrics_provider_client env body ns =
     post_json env ''/core/namespaces/{namespace}/metricsproviders'' [(''namespace'', ns)] (class_fields metrics_provider_class) body"

definition delete_metrics_provider_client :: "'s client_env \<Rightarrow> string \<Rightarrow> string \<Rightarrow> ('s, yaml option) co" where
  "delete_metrics_provider_client env n ns =
     delete_json env ''/core/namespaces/{namespace}/metricsproviders/{name}'' [(''name'', n), (''namespace'', ns)] (class_fields metrics_provider_class)"

definition list_metrics_providers_client :: "'s client_env \<Rightarrow> string option \<Rightarrow> ('s, yaml) co" where
  "list_metrics_providers_client env ns =
     (case ns of
        None \<Rightarrow> get_json env ''/core/metricsproviders'' [] (list_fields metrics_provider_class)
      | Some t \<Rightarrow>
          if t = [] then get_json env ''/core/metricsproviders'' [] (list_fields metrics_provider_class)
          else get_json env ''/core/namespaces/{namespace}/metricsproviders'' [(''namespace'', t)] (list_fields metrics_provider_class))"

definition watch_metrics_providers_client :: "string option \<Rightarrow> int option \<Rightarrow> (exn, watcher) res" where
  "watch_metrics_providers_client ns heartbeat =
     (case ns of
        None \<Rightarrow> new_watcher ''/core/metricsproviders'' [] heartbeat (class_fields metrics_provider_class)
      | Some t \<Rightarrow>
          if t = [] then new_watcher ''/core/metricsproviders'' [] heartbeat (class_fields metrics_provider_class)
          else new_watcher ''/core/namespaces/{namespace}/metricsproviders'' [(''namespace'', t)] heartbeat (class_fields metrics_provider_class))"

definition read_metrics_provider_client :: "'s client_env \<Rightarrow> string \<Rightarrow> string \<Rightarrow> ('s, yaml) co" where
  "read_metrics_provider_client env n ns =
     get_json env ''/core/namespaces/{namespace}/metricsproviders/{name}'' [(''name'', n), (''namespace'', ns)] (class_fields metrics_provider_class)"

definition update_metrics_provider_client :: "'s client_env \<Rightarrow> yaml \<Rightarrow> string \<Rightarrow> string \<Rightarrow> ('s, yaml) co" where
  "update_metrics_provider_client env body n ns =
     put_json env ''/core/namespaces/{namespace}/metricsproviders/{name}'' [(''name'', n), (''namespace'', ns)] (class_fields metrics_provider_class) body"

definition create_role_client :: "'s client_env \<Rightarrow> yaml \<Rightarrow> ('s, yaml) co" where
  "create_role_client env body =
     post_json env ''/core/roles'' [] (class_fields role_class) body"

definition delete_role_client :: "'s client_env \<Rightarrow> string \<Rightarrow> ('s, yaml option) co" where
  "delete_role_client env n =
     delete_json env ''/core/roles/{name}'' [(''name'', n)] (class_fields role_class)"

definition list_roles_client :: "'s client_env \<Rightarrow> ('s, yaml) co" where
  "list_roles_client env =
     get_json env ''/core/roles'' [] (list_fields role_class)"

definition watch_roles_client :: "int option \<Rightarrow> (exn, watcher) res" where
  "watch_roles_client heartbeat =
     new_watcher ''/core/roles'' [] heartbeat (class_fields role_class)"

definition read_role_client :: "'s client_env \<Rightarrow> string \<Rightarrow> ('s, yaml) co" where
  "read_role_client env n =
     get_json env ''/core/roles/{name}'' [(''name'', n)] (class_fields role_class)"

definition update_role_client :: "'s client_env \<Rightarrow> yaml \<Rightarrow> string \<Rightarrow> ('s, yaml) co" where
  "update_role_client env body n =
     put_json env ''/core/roles/{name}'' [(''name'', n)] (class_fields role_class) body"

definition create_role_binding_client :: "'s client_env \<Rightarrow> yaml \<Rightarrow> ('s, yaml) co" where
  "create_role_binding_client env body =
     post_json env ''/core/rolebindings'' [] (class_fields role_binding_class) body"

definition delete_role_binding_client :: "'s client_env \<Rightarrow> string \<Rightarrow> ('s, yaml option) co" where
  "delete_role_binding_client env n =
     delete_json env ''/core/rolebindings/{name}'' [(''name'', n)] (class_fields role_binding_class)"

definition list_role_bindings_client :: "'s client_env \<Rightarrow> ('s, yaml) co" where
  "list_role_bindings_client env =
     get_json env ''/core/rolebindings'' [] (list_fields role_binding_class)"

definition watch_role_bindings_client :: "int option \<Rightarrow> (exn, watcher) res" where
  "watch_role_bindings_client heartbeat =
     new_watcher ''/core/rolebindings'' [] heartbeat (class_fields role_binding_class)"

definition read_role_binding_client :: "'s client_env \<Rightarrow> string \<Rightarrow> ('s, yaml) co" where
  "read_role_binding_client env n =
     get_json env ''/core/rolebindings/{name}'' [(''name'', n)] (class_fields role_binding_class)"

definition update_role_binding_client :: "'s client_env \<Rightarrow> yaml \<Rightarrow> string \<Rightarrow> ('s, yaml) co" where
  "update_role_binding_client env body n =
     put_json env ''/core/rolebindings/{name}'' [(''name'', n)] (class_fields role_binding_class) body"

section \<open>Kubernetes\<close>

definition create_application_client :: "'s client_env \<Rightarrow> yaml \<Rightarrow> string \<Rightarrow> ('s, yaml) co" where
  "create_application_client env body ns =
     post_json env ''/kubernetes/namespaces/{namespace}/applications'' [(''namespace'', ns)] (class_fields application_class) body"

definition delete_application_client :: "'s client_env \<Rightarrow> string \<Rightarrow> string \<Rightarrow> ('s, yaml option) co" where
  "delete_application_client env ns n =
     delete_json env ''/kubernetes/namespaces/{namespace}/applications/{name}'' [(''namespace'', ns), (''name'', n)] (class_fields application_class)"

definition list_applications_client :: "'s client_env \<Rightarrow> string \<Rightarrow> ('s, yaml) co" where
  "list_applications_client env ns =
     get_json env ''/kubernetes/namespaces/{namespace}/applications'' [(''namespace'', ns)] (list_fields application_class)"

definition watch_applications_client :: "string \<Rightarrow> int option \<Rightarrow> (exn, watcher) res" where
  "watch_applications_client ns heartbeat =
     new_watcher ''/kubernetes/namespaces/{namespace}/applications'' [(''namespace'', ns)] heartbeat (class_fields application_class)"

definition list_all_applications_client :: "'s client_env \<Rightarrow> ('s, yaml) co" where
  "list_all_applications_client env =
     get_json env ''/kubernetes/applications'' [] (list_fields application_class)"

definition watch_all_applications_client :: "int option \<Rightarrow> (exn, watcher) res" where
  "watch_all_applications_client heartbeat =
     new_watcher ''/kubernetes/applications'' [] heartbeat (class_fields application_class)"

definition read_application_client :: "'s client_env \<Rightarrow> string \<Rightarrow> string \<Rightarrow> ('s, yaml) co" where
  "read_application_client env ns n =
     get_json env ''/kubernetes/namespaces/{namespace}/applications/{name}'' [(''namespace'', ns), (''name'', n)] (class_fields application_class)"

definition update_application_client :: "'s client_env \<Rightarrow> yaml \<Rightarrow> string \<Rightarrow> string \<Rightarrow> ('s, yaml) co" where
  "update_application_client env body ns n =
     put_json env ''/kubernetes/namespaces/{namespace}/applications/{name}'' [(''namespace'', ns), (''name'', n)] (class_fields application_class) body"

definition update_application_binding_client :: "'s client_env \<Rightarrow> yaml \<Rightarrow> string \<Rightarrow> string \<Rightarrow> ('s, yaml) co" where
  "update_application_binding_client env body ns n =
     put_json env ''/kubernetes/namespaces/{namespace}/applications/{name}/binding'' [(''namespace'', ns), (''name'', n)] (class_fields application_class) body"

definition update_application_complete_client :: "'s client_env \<Rightarrow> yaml \<Rightarrow> string \<Rightarrow> string \<Rightarrow> ('s, yaml) co" where
  "update_application_complete_client env body ns n =
     put_json env ''/kubernetes/namespaces/{namespace}/applications/{name}/complete'' [(''namespace'', ns), (''name'', n)] (class_fields application_class) body"

definition update_application_shutdown_client :: "'s client_env \<Rightarrow> yaml \<Rightarrow> string \<Rightarrow> string \<Rightarrow> ('s, yaml) co" where
  "update_application_shutdown_client env body ns n =
     put_json env ''/kubernetes/namespaces/{namespace}/applications/{name}/shutdown'' [(''namespace'', ns), (''name'', n)] (class_fields application_class) body"

definition update_application_status_client :: "'s client_env \<Rightarrow> yaml \<Rightarrow> string \<Rightarrow> string \<Rightarrow> ('s, yaml) co" where
  "update_application_status_client env body ns n =
     put_json env ''/kubernetes/namespaces/{namespace}/applications/{name}/status'' [(''namespace'', ns), (''name'', n)] (class_fields application_class) body"

definition create_cluster_client :: "'s client_env \<Rightarrow> yaml \<Rightarrow> string \<Rightarrow> ('s, yaml) co" where
  "create_cluster_client env body ns =
     post_json env ''/kubernetes/namespaces/{namespace}/clusters'' [(''namespace'', ns)] (class_fields cluster_class) body"

definition delete_cluster_client :: "'s client_env \<Rightarrow> string \<Rightarrow> string \<Rightarrow> ('s, yaml option) co" where
  "delete_cluster_client env ns n =
     delete_json env ''/kubernetes/namespaces/{namespace}/clusters/{name}'' [(''namespace'', ns), (''name'', n)] (class_fields cluster_class)"

definition list_clusters_client :: "'s client_env \<Rightarrow> string \<Rightarrow> ('s, yaml) co" where
  "list_clusters_client env ns =
     get_json env ''/kubernetes/namespaces/{namespace}/clusters'' [(''namespace'', ns)] (list_fields cluster_class)"

definition watch_clusters_client :: "string \<Rightarrow> int option \<Rightarrow> (exn, watcher) res" where
  "watch_clusters_client ns heartbeat =
     new_watcher ''/kubernetes/namespaces/{namespace}/clusters'' [(''namespace'', ns)] heartbeat (class_fields cluster_class)"

definition list_all_clusters_client :: "'s client_env \<Rightarrow> ('s, yaml) co" where
  "list_all_clusters_client env =
     get_json env ''/kubernetes/clusters'' [] (list_fields cluster_class)"

definition watch_all_clusters_client :: "int option \<Rightarrow> (exn, watcher) res" where
  "watch_all_clusters_client heartbeat =
     new_watcher ''/kubernetes/clusters'' [] heartbeat (class_fields cluster_class)"

definition read_cluster_client :: "'s client_env \<Rightarrow> string \<Rightarrow> string \<Rightarrow> ('s, yaml) co" where
  "read_cluster_client env ns n =
     get_json env ''/kubernetes/namespaces/{namespace}/clusters/{name}'' [(''namespace'', ns), (''name'', n)] (class_fields cluster_class)"

definition update_cluster_client :: "'s client_env \<Rightarrow> yaml \<Rightarrow> string \<Rightarrow> string \<Rightarrow> ('s, yaml) co" where
  "update_cluster_client env body ns n =
     put_json env ''/kubernetes/namespaces/{namespace}/clusters/{name}'' [(''namespace'', ns), (''name'', n)] (class_fields cluster_class) body"

definition update_cluster_binding_client :: "'s client_env \<Rightarrow> yaml \<Rightarrow> string \<Rightarrow> string \<Rightarrow> ('s, yaml) co" where
  "update_cluster_binding_client env body ns n =
     put_json env ''/kubernetes/namespaces/{namespace}/clusters/{name}/binding'' [(''namespace'', ns), (''name'', n)] (class_fields cluster_class) body"

definition update_cluster_status_client :: "'s client_env \<Rightarrow> yaml \<Rightarrow> string \<Rightarrow> string \<Rightarrow> ('s, yaml) co" where
  "update_cluster_status_client env body ns n =
     put_json env ''/kubernetes/namespaces/{namespace}/clusters/{name}/status'' [(''namespace'', ns), (''name'', n)] (class_fields cluster_class) body"

section \<open>Infrastructure\<close>

definition create_global_infrastructure_provider_client :: "'s client_env \<Rightarrow> yaml \<Rightarrow> ('s, yaml) co" where
  "create_global_infrastructure_provider_client env body =
     post_json env ''/infrastructure/globalinfrastructureproviders'' [] (class_fields global_infrastructure_provider_class) body"

definition delete_global_infrastructure_provider_client :: "'s client_env \<Rightarrow> string \<Rightarrow> ('s, yaml option) co" where
  "delete_global_infrastructure_provider_client env n =
     delete_json env ''/infrastructure/globalinfrastructureproviders/{name}'' [(''name'', n)] (class_fields global_infrastructure_provider_class)"

definition list_global_infrastructure_providers_client :: "'s client_env \<Rightarrow> ('s, yaml) co" where
  "list_global_infrastructure_providers_client env =
     get_json env ''/infrastructure/globalinfrastructureproviders'' [] (list_fields global_infrastructure_provider_class)"

definition watch_global_infrastructure_providers_client :: "int option \<Rightarrow> (exn, watcher) res" where
  "watch_global_infrastructure_providers_client heartbeat =
     new_watcher ''/infrastructure/globalinfrastructureproviders'' [] heartbeat (class_fields global_infrastructure_provider_class)"

definition read_global_infrastructure_provider_client :: "'s client_env \<Rightarrow> string \<Rightarrow> ('s, yaml) co" where
  "read_global_infrastructure_provider_client env n =
     get_json env ''/infrastructure/globalinfrastructureproviders/{name}'' [(''name'', n)] (class_fields global_infrastructure_provider_class)"

definition update_global_infrastructure_provider_client :: "'s client_env \<Rightarrow> yaml \<Rightarrow> string \<Rightarrow> ('s, yaml) co" where
  "update_global_infrastructure_provider_client env body n =
     put_json env ''/infrastructure/globalinfrastructureproviders/{name}'' [(''name'', n)] (class_fields global_infrastructure_provider_class) body"

definition create_infrastructure_provider_client :: "'s client_env \<Rightarrow> yaml \<Rightarrow> string \<Rightarrow> ('s, yaml) co" where
  "create_infrastructure_provider_client env body ns =
     post_json env ''/infrastructure/namespaces/{namespace}/infrastructureproviders'' [(''namespace'', ns)] (class_fields infrastructure_provider_class) body"

definition delete_infrastructure_provider_client :: "'s client_env \<Rightarrow> string \<Rightarrow> string \<Rightarrow> ('s, yaml option) co" where
  "delete_infrastructure_provider_client env ns n =
     delete_json env ''/infrastructure/namespaces/{namespace}/infrastructureproviders/{name}'' [(''namespace'', ns), (''name'', n)] (class_fields infrastructure_provider_class)"

definition list_infrastructure_providers_client :: "'s client_env \<Rightarrow> string \<Rightarrow> ('s, yaml) co" where
  "list_infrastructure_providers_client env ns =
     get_json env ''/infrastructure/namespaces/{namespace}/infrastructureproviders'' [(''namespace'', ns)] (list_fields infrastructure_provider_class)"

definition watch_infrastructure_providers_client :: "string \<Rightarrow> int option \<Rightarrow> (exn, watcher) res" where
  "watch_infrastructure_providers_client ns heartbeat =
     new_watcher ''/infrastructure/namespaces/{namespace}/infrastructureproviders'' [(''namespace'', ns)] heartbeat (class_fields infrastructure_provider_class)"

definition list_all_infrastructure_providers_client :: "'s client_env \<Rightarrow> ('s, yaml) co" where
  "list_all_infrastructure_providers_client env =
     get_json env ''/infrastructure/infrastructureproviders'' [] (list_fields infrastructure_provider_class)"

definition watch_all_infrastructure_providers_client :: "int option \<Rightarrow> (exn, watcher) res" where
  "watch_all_infrastructure_providers_client heartbeat =
     new_watcher ''/infrastructure/infrastructureproviders'' [] heartbeat (class_fields infrastructure_provider_class)"

definition read_infrastructure_provider_client :: "'s client_env \<Rightarrow> string \<Rightarrow> string \<Rightarrow> ('s, yaml) co" where
  "read_infrastructure_provider_client env ns n =
     get_json env ''/infrastructure/namespaces/{namespace}/infrastructureproviders/{name}'' [(''namespace'', ns), (''name'', n)] (class_fields infrastructure_provider_class)"

definition update_infrastructure_provider_client :: "'s client_env \<Rightarrow> yaml \<Rightarrow> string \<Rightarrow> string \<Rightarrow> ('s, yaml) co" where
  "update_infrastructure_provider_client env body ns n =
     put_json env ''/infrastructure/namespaces/{namespace}/infrastructureproviders/{name}'' [(''namespace'', ns), (''name'', n)] (class_fields infrastructure_provider_class) body"

definition create_global_cloud_client :: "'s client_env \<Rightarrow> yaml \<Rightarrow> ('s, yaml) co" where
  "create_global_cloud_client env body =
     post_json env ''/infrastructure/globalclouds'' [] (class_fields global_cloud_class) body"

definition delete_global_cloud_client :: "'s client_env \<Rightarrow> string \<Rightarrow> ('s, yaml option) co" where
  "delete_global_cloud_client env n =
     delete_json env ''/infrastructure/globalclouds/{name}'' [(''name'', n)] (class_fields global_cloud_class)"

definition list_global_clouds_client :: "'s client_env \<Rightarrow> ('s, yaml) co" where
  "list_global_clouds_client env =
     get_json env ''/infrastructure/globalclouds'' [] (list_fields global_cloud_class)"

definition watch_global_clouds_client :: "int option \<Rightarrow> (exn, watcher) res" where
  "watch_global_clouds_client heartbeat =
     new_watcher ''/infrastructure/globalclouds'' [] heartbeat (class_fields global_cloud_class)"

definition read_global_cloud_client :: "'s client_env \<Rightarrow> string \<Rightarrow> ('s, yaml) co" where
  "read_global_cloud_client env n =
     get_json env ''/infrastructure/globalclouds/{name}'' [(''name'', n)] (class_fields global_cloud_class)"

definition update_global_cloud_client :: "'s client_env \<Rightarrow> yaml \<Rightarrow> string \<Rightarrow> ('s, yaml) co" where
  "update_global_cloud_client env body n =
     put_json env ''/infrastructure/globalclouds/{name}'' [(''name'', n)] (class_fields global_cloud_class) body"

definition update_global_cloud_status_client :: "'s client_env \<Rightarrow> yaml \<Rightarrow> string \<Rightarrow> ('s, yaml) co" where
  "update_global_cloud_status_client env body n =
     put_json env ''/infrastructure/globalclouds/{name}/status'' [(''name'', n)] (class_fields global_cloud_class) body"

definition create_cloud_client :: "'s client_env \<Rightarrow> yaml \<Rightarrow> string \<Rightarrow> ('s, yaml) co" where
  "create_cloud_client env body ns =
     post_json env ''/infrastructure/namespaces/{namespace}/clouds'' [(''namespace'', ns)] (class_fields cloud_class) body"

definition delete_cloud_client :: "'s client_env \<Rightarrow> string \<Rightarrow> string \<Rightarrow> ('s, yaml option) co" where
  "delete_cloud_client env ns n =
     delete_json env ''/infrastructure/namespaces/{namespace}/clouds/{name}'' [(''namespace'', ns), (''name'', n)] (class_fields cloud_class)"

definition list_clouds_client :: "'s client_env \<Rightarrow> string \<Rightarrow> ('s, yaml) co" where
  "list_clouds_client env ns =
     get_json env ''/infrastructure/namespaces/{namespace}/clouds'' [(''namespace'', ns)] (list_fields cloud_class)"

definition watch_clouds_client :: "string \<Rightarrow> int option \<Rightarrow> (exn, watcher) res" where
  "watch_clouds_client ns heartbeat =
     new_watcher ''/infrastructure/namespaces/{namespace}/clouds'' [(''namespace'', ns)] heartbeat (class_fields cloud_class)"

definition list_all_clouds_client :: "'s client_env \<Rightarrow> ('s, yaml) co" where
  "list_all_clouds_client env =
     get_json env ''/infrastructure/clouds'' [] (list_fields cloud_class)"

definition watch_all_clouds_client :: "int option \<Rightarrow> (exn, watcher) res" where
  "watch_all_clouds_client heartbeat =
     new_watcher ''/infrastructure/clouds'' [] heartbeat (class_fields cloud_class)"

definition read_cloud_client :: "'s client_env \<Rightarrow> string \<Rightarrow> string \<Rightarrow> ('s, yaml) co" where
  "read_cloud_client env ns n =
     get_json env ''/infrastructure/namespaces/{namespace}/clouds/{name}'' [(''namespace'', ns), (''name'', n)] (class_fields cloud_class)"

definition update_cloud_client :: "'s client_env \<Rightarrow> yaml \<Rightarrow> string \<Rightarrow> string \<Rightarrow> ('s, yaml) co" where
  "update_cloud_client env body ns n =
     put_json env ''/infrastructure/namespaces/{namespace}/clouds/{name}'' [(''namespace'', ns), (''name'', n)] (class_fields cloud_class) body"

definition update_cloud_status_client :: "'s client_env \<Rightarrow> yaml \<Rightarrow> string \<Rightarrow> string \<Rightarrow> ('s, yaml) co" where
  "update_cloud_status_client env body ns n =
     put_json env ''/infrastructure/namespaces/{namespace}/clouds/{name}/status'' [(''namespace'', ns), (''name'', n)] (class_fields cloud_class) body"

section \<open>OpenStack\<close>

definition create_magnum_cluster_client :: "'s client_env \<Rightarrow> yaml \<Rightarrow> string \<Rightarrow> ('s, yaml) co" where
  "create_magnum_cluster_client env body ns =
     post_json env ''/openstack/namespaces/{namespace}/magnumclusters'' [(''namespace'', ns)] (class_fields magnum_cluster_class) body"

definition delete_magnum_cluster_client :: "'s client_env \<Rightarrow> string \<Rightarrow> string \<Rightarrow> ('s, yaml option) co" where
  "delete_magnum_cluster_client env ns n =
     delete_json env ''/openstack/namespaces/{namespace}/magnumclusters/{name}'' [(''namespace'', ns), (''name'', n)] (class_fields magnum_cluster_class)"

definition list_magnum_clusters_client :: "'s client_env \<Rightarrow> string \<Rightarrow> ('s, yaml) co" where
  "list_magnum_clusters_client env ns =
     get_json env ''/openstack/namespaces/{namespace}/magnumclusters'' [(''namespace'', ns)] (list_fields magnum_cluster_class)"

definition watch_magnum_clusters_client :: "string \<Rightarrow> int option \<Rightarrow> (exn, watcher) res" where
  "watch_magnum_clusters_client ns heartbeat =
     new_watcher ''/openstack/namespaces/{namespace}/magnumclusters'' [(''namespace'', ns)] heartbeat (class_fields magnum_cluster_class)"

definition list_all_magnum_clusters_client :: "'s client_env \<Rightarrow> ('s, yaml) co" where
  "list_all_magnum_clusters_client env =
     get_json env ''/openstack/magnumclusters'' [] (list_fields magnum_cluster_class)"

definition watch_all_magnum_clusters_client :: "int option \<Rightarrow> (exn, watcher) res" where
  "watch_all_magnum_clusters_client heartbeat =
     new_watcher ''/openstack/magnumclusters'' [] heartbeat (class_fields magnum_cluster_class)"

definition read_magnum_cluster_client :: "'s client_env \<Rightarrow> string \<Rightarrow> string \<Rightarrow> ('s, yaml) co" where
  "read_magnum_cluster_client env ns n =
     get_json env ''/openstack/namespaces/{namespace}/magnumclusters/{name}'' [(''namespace'', ns), (''name'', n)] (class_fields magnum_cluster_class)"

definition update_magnum_cluster_client :: "'s client_env \<Rightarrow> yaml \<Rightarrow> string \<Rightarrow> string \<Rightarrow> ('s, yaml) co" where
  "update_magnum_cluster_client env body ns n =
     put_json env ''/openstack/namespaces/{namespace}/magnumclusters/{name}'' [(''namespace'', ns), (''name'', n)] (class_fields magnum_cluster_class) body"

definition update_magnum_cluster_binding_client :: "'s client_env \<Rightarrow> yaml \<Rightarrow> string \<Rightarrow> string \<Rightarrow> ('s, yaml) co" where
  "update_magnum_cluster_binding_client env body ns n =
     put_json env ''/openstack/namespaces/{namespace}/magnumclusters/{name}/binding'' [(''namespace'', ns), (''name'', n)] (class_fields magnum_cluster_class) body"

definition update_magnum_cluster_status_client :: "'s client_env \<Rightarrow> yaml \<Rightarrow> string \<Rightarrow> string \<Rightarrow> ('s, yaml) co" where
  "update_magnum_cluster_status_client env body ns n =
     put_json env ''/openstack/namespaces/{namespace}/magnumclusters/{name}/status'' [(''namespace'', ns), (''name'', n)] (class_fields magnum_cluster_class) body"

definition create_project_client :: "'s client_env \<Rightarrow> yaml \<Rightarrow> string \<Rightarrow> ('s, yaml) co" where
  "create_project_client env body ns =
     post_json env ''/openstack/namespaces/{namespace}/projects'' [(''namespace'', ns)] (class_fields project_class) body"

definition delete_project_client :: "'s client_env \<Rightarrow> string \<Rightarrow> string \<Rightarrow> ('s, yaml option) co" where
  "delete_project_client env ns n =
     delete_json env ''/openstack/namespaces/{namespace}/projects/{name}'' [(''namespace'', ns), (''name'', n)] (class_fields project_class)"

definition list_projects_client :: "'s client_env \<Rightarrow> string \<Rightarrow> ('s, yaml) co" where
  "list_projects_client env ns =
     get_json env ''/openstack/namespaces/{namespace}/projects'' [(''namespace'', ns)] (list_fields project_class)"

definition watch_projects_client :: "string \<Rightarrow> int option \<Rightarrow> (exn, watcher) res" where
  "watch_projects_client ns heartbeat =
     new_watcher ''/openstack/namespaces/{namespace}/projects'' [(''namespace'', ns)] heartbeat (class_fields project_class)"

definition list_all_projects_client :: "'s client_env \<Rightarrow> ('s, yaml) co" where
  "list_all_projects_client env =
     get_json env ''/openstack/projects'' [] (list_fields project_class)"

definition watch_all_projects_client :: "int option \<Rightarrow> (exn, watcher) res" where
  "watch_all_projects_client heartbeat =
     new_watcher ''/openstack/projects'' [] heartbeat (class_fields project_class)"

definition read_project_client :: "'s client_env \<Rightarrow> string \<Rightarrow> string \<Rightarrow> ('s, yaml) co" where
  "read_project_client env ns n =
     get_json env ''/openstack/namespaces/{namespace}/projects/{name}'' [(''namespace'', ns), (''name'', n)] (class_fields project_class)"

definition update_project_client :: "'s client_env \<Rightarrow> yaml \<Rightarrow> string \<Rightarrow> string \<Rightarrow> ('s, yaml) co" where
  "update_project_client env body ns n =
     put_json env ''/openstack/namespaces/{namespace}/projects/{name}'' [(''namespace'', ns), (''name'', n)] (class_fields project_class) body"

definition update_project_status_client :: "'s client_env \<Rightarrow> yaml \<Rightarrow> string \<Rightarrow> string \<Rightarrow> ('s, yaml) co" where
  "update_project_status_client env body ns n =
     put_json env ''/openstack/namespaces/{namespace}/projects/{name}/status'' [(''namespace'', ns), (''name'', n)] (class_fields project_class) body"

end
