(* ===== verification/Api_Handlers.thy ===== *)
theory Api_Handlers
  imports Database
begin

text \<open>
  The request handlers of the API: the decorators of \<open>krake/krake/api/helpers.py\<close>, and the handlers
  for creating, reading, updating, deleting, listing and watching resources that the modules
  \<open>core.py\<close>, \<open>kubernetes.py\<close>, \<open>infrastructure.py\<close> and \<open>openstack.py\<close> of \<open>krake/krake/api\<close> have for each of
  their classes, as functions of the class.
\<close>

section \<open>Requests\<close>

text \<open>
  The \<open>Authorization\<close> header and the subject of the client certificate if there are any, the user
  that the authentication finds, the parameters of the path and of the query, and the body,
  \<open>None\<close> if it is not valid JSON.
\<close>

record http_request =
  req_method :: string
  auth_header :: "string option"
  peer_subject :: "(string \<times> string) list list option"
  req_user :: string
  match_info :: "(string, string) dict"
  query_string :: "(string, string) dict"
  json_body :: "yaml option"

type_synonym handler = "http_request \<Rightarrow> (db_log, yaml) co"

abbreviation not_found :: exn where "not_found \<equiv> HttpProblemError 404 ''not-found-error''"
abbreviation update_error :: exn where "update_error \<equiv> HttpProblemError 400 ''update-error''"
abbreviation already_exists :: exn where "already_exists \<equiv> HttpProblemError 409 ''resource-already-exists''"

section \<open>Decorators\<close>

definition load :: "api_env \<Rightarrow> api_class \<Rightarrow> (http_request \<Rightarrow> loaded \<Rightarrow> (db_log, yaml) co) \<Rightarrow> handler" where
  "load env c handler request =
     (case dict_get (match_info request) ''name'' of
        None \<Rightarrow> co_raise KeyError
      | Some n \<Rightarrow>
          let kwargs =
            (case dict_get (match_info request) ''namespace'' of
               None \<Rightarrow> [(''name'', n)]
             | Some ns \<Rightarrow> if ns = [] then [(''name'', n)] else [(''name'', n), (''namespace'', ns)]) in
          co_bind (session_get env c kwargs) (\<lambda>x.
          case x of
            None \<Rightarrow> co_raise not_found
          | Some e \<Rightarrow> handler request e))"

definition use_schema :: "(yaml \<Rightarrow> (exn, yaml) res) \<Rightarrow> (http_request \<Rightarrow> yaml \<Rightarrow> (db_log, yaml) co) \<Rightarrow> handler" where
  "use_schema schema handler request =
     (case json_body request of
        None \<Rightarrow> co_raise (HTTPException 415)
      | Some raw \<Rightarrow>
          (case schema raw of
             Inl e \<Rightarrow> co_raise (if e = ValidationError then HttpProblemError 422 [] else e)
           | Inr body \<Rightarrow> handler request body))"

definition full_schema :: "api_env \<Rightarrow> api_class \<Rightarrow> yaml \<Rightarrow> (exn, yaml) res" where
  "full_schema env c = decode env (class_fields c)"

definition create_schema :: "api_env \<Rightarrow> api_class \<Rightarrow> yaml \<Rightarrow> (exn, yaml) res" where
  "create_schema env c = decode_creation env (class_fields c)"

section \<open>Creation\<close>

fun init_subresources :: "fields \<Rightarrow> yaml \<Rightarrow> (exn, yaml) res" where
  "init_subresources [] obj = Inr obj"
| "init_subresources ((i, t) # fs) obj =
     res_bind
       (if subresource i
        then (case t of
            Serializable_type gs \<Rightarrow> res_bind (init_object gs []) (\<lambda>v. set_attr (field_name i) v obj)
          | _ \<Rightarrow> Inl TypeError)
        else Inr obj) (init_subresources fs)"

definition text_or_none :: "string option \<Rightarrow> yaml" where
  "text_or_none s = (case s of None \<Rightarrow> Null | Some t \<Rightarrow> Text t)"

text \<open>
  The attributes that the API sets; the namespace only for a resource that has one. The classes of
  \<open>core\<close> have no subresources.
\<close>

definition initialized ::
  "api_class \<Rightarrow> string option option \<Rightarrow> string \<Rightarrow> time \<Rightarrow> yaml \<Rightarrow> (exn, yaml) res" where
  "initialized c ns u t body =
     res_bind (case ns of None \<Rightarrow> Inr body | Some n \<Rightarrow> set_path [''metadata'', ''namespace''] (text_or_none n) body) (\<lambda>obj.
     res_bind (set_path [''metadata'', ''uid''] (Text u) obj) (\<lambda>obj.
     res_bind (set_path [''metadata'', ''created''] (Integer t) obj) (\<lambda>obj.
     res_bind (set_path [''metadata'', ''modified''] (Integer t) obj) (\<lambda>obj.
     init_subresources (class_fields c) obj))))"

definition request_namespace :: "bool \<Rightarrow> http_request \<Rightarrow> string option option" where
  "request_namespace namespaced request =
     (if namespaced then Some (dict_get (match_info request) ''namespace'') else None)"

definition create_object :: "api_env \<Rightarrow> api_class \<Rightarrow> bool \<Rightarrow> http_request \<Rightarrow> yaml \<Rightarrow> (db_log, yaml) co" where
  "create_object env c namespaced request body =
     co_bind (api_now env) (\<lambda>t.
     co_bind (uuid4 env) (\<lambda>u.
     co_lift (initialized c (request_namespace namespaced request) u t body)))"

text \<open>A resource whose key exists is a conflict, as the transaction finds out.\<close>

definition create_resource :: "api_env \<Rightarrow> api_class \<Rightarrow> bool \<Rightarrow> http_request \<Rightarrow> yaml \<Rightarrow> (db_log, yaml) co" where
  "create_resource env c namespaced request body =
     co_bind (create_object env c namespaced request body) (\<lambda>obj.
     co_bind
       (co_catch (session_put env c (obj, None))
         (\<lambda>e. if e = TransactionError then co_raise already_exists else co_raise e)) (\<lambda>_.
     co_return obj))"

text \<open>The key is looked up first; if it is taken meanwhile, the transaction fails.\<close>

definition create_checked :: "api_env \<Rightarrow> api_class \<Rightarrow> bool \<Rightarrow> http_request \<Rightarrow> yaml \<Rightarrow> (db_log, yaml) co" where
  "create_checked env c namespaced request body =
     co_bind (co_lift (res_bind (get_path [''metadata'', ''name''] body) key_text)) (\<lambda>n.
     co_bind
       (session_get env c
         ((''name'', n) # (if namespaced
           then [(''namespace'', case dict_get (match_info request) ''namespace'' of None \<Rightarrow> ''None'' | Some ns \<Rightarrow> ns)]
           else []))) (\<lambda>existing.
     case existing of
       Some _ \<Rightarrow> co_raise already_exists
     | None \<Rightarrow>
         co_bind (create_object env c namespaced request body) (\<lambda>obj.
         co_bind (session_put env c (obj, None)) (\<lambda>_. co_return obj))))"

section \<open>Reading\<close>

definition read_resource :: "http_request \<Rightarrow> loaded \<Rightarrow> (db_log, yaml) co" where
  "read_resource request entity = co_return (fst entity)"

section \<open>Deletion\<close>

definition put_entity :: "api_env \<Rightarrow> api_class \<Rightarrow> loaded \<Rightarrow> yaml \<Rightarrow> (db_log, yaml) co" where
  "put_entity env c entity v = co_bind (session_put env c (v, snd entity)) (\<lambda>_. co_return v)"

text \<open>The resource is marked; its finalizers delay the removal.\<close>

definition marked_deleted :: "time \<Rightarrow> yaml \<Rightarrow> (exn, yaml) res" where
  "marked_deleted t v =
     res_bind (set_path [''metadata'', ''deleted''] (Integer t) v) (\<lambda>v.
     res_bind (get_path [''metadata'', ''finalizers''] v) (\<lambda>fs.
     res_bind (append_item (Text ''cascade_deletion'') fs) (\<lambda>fs.
     set_path [''metadata'', ''finalizers''] fs v)))"

definition is_deleted :: "yaml \<Rightarrow> (exn, bool) res" where
  "is_deleted v = res_bind (get_path [''metadata'', ''deleted''] v) (\<lambda>d. Inr (d \<noteq> Null))"

definition mark_resource ::
  "api_env \<Rightarrow> api_class \<Rightarrow> (yaml \<Rightarrow> (exn, yaml) res) \<Rightarrow> loaded \<Rightarrow> (db_log, yaml) co" where
  "mark_resource env c prepare entity =
     co_bind (co_lift (is_deleted (fst entity))) (\<lambda>deleted.
     if deleted then co_return (fst entity)
     else
       co_bind (co_lift (prepare (fst entity))) (\<lambda>v.
       co_bind (api_now env) (\<lambda>t.
       co_bind (co_lift (marked_deleted t v)) (put_entity env c entity))))"

definition delete_marked :: "api_env \<Rightarrow> api_class \<Rightarrow> http_request \<Rightarrow> loaded \<Rightarrow> (db_log, yaml) co" where
  "delete_marked env c request entity = mark_resource env c Inr entity"

text \<open>A forced deletion removes the resource at once, whatever its finalizers are.\<close>

definition is_forced :: "http_request \<Rightarrow> bool" where
  "is_forced request \<longleftrightarrow> dict_get (query_string request) ''force'' = Some ''True''"

definition force_delete :: "api_env \<Rightarrow> api_class \<Rightarrow> loaded \<Rightarrow> (db_log, yaml) co" where
  "force_delete env c entity =
     co_bind (session_delete env c entity) (\<lambda>_.
     co_bind (api_now env) (\<lambda>t.
     co_lift (set_path [''metadata'', ''deleted''] (Integer t) (fst entity))))"

definition delete_forcible ::
  "api_env \<Rightarrow> api_class \<Rightarrow> (yaml \<Rightarrow> (exn, yaml) res) \<Rightarrow> http_request \<Rightarrow> loaded \<Rightarrow> (db_log, yaml) co" where
  "delete_forcible env c prepare request entity =
     (if is_forced request then force_delete env c entity else mark_resource env c prepare entity)"

text \<open>An application with a shutdown hook is shut down first.\<close>

definition await_shutdown :: "yaml \<Rightarrow> (exn, yaml) res" where
  "await_shutdown v =
     res_bind (get_path [''spec'', ''hooks''] v) (\<lambda>hooks.
     res_bind (contains_key ''shutdown'' hooks) (\<lambda>b.
     if b then set_path [''status'', ''state''] (Text ''WAITING_FOR_CLEANING'') v else Inr v))"

section \<open>Update\<close>

fun items :: "yaml \<Rightarrow> (exn, yaml list) res" where
  "items (Arr xs) = Inr xs"
| "items _ = Inl TypeError"

text \<open>\<open>set(body.metadata.finalizers) <= set(entity.metadata.finalizers)\<close>, for lists of strings.\<close>

definition only_removes_finalizers :: "yaml \<Rightarrow> yaml \<Rightarrow> (exn, bool) res" where
  "only_removes_finalizers body entity =
     res_bind (res_bind (get_path [''metadata'', ''finalizers''] body) items) (\<lambda>xs.
     res_bind (res_bind (get_path [''metadata'', ''finalizers''] entity) items) (\<lambda>ys.
     Inr (list_all (\<lambda>x. x \<in> set ys) xs)))"

definition updated :: "fields \<Rightarrow> yaml \<Rightarrow> yaml \<Rightarrow> (exn, yaml) res" where
  "updated fs entity body =
     (case update_object fs entity body of
        Inl e \<Rightarrow> Inl (if e = ValueError then update_error else e)
      | Inr v \<Rightarrow> Inr v)"

text \<open>Whether the request is refused, by the update of a resource in deletion.\<close>

definition check_finalizers :: "yaml \<Rightarrow> yaml \<Rightarrow> (exn, unit) res" where
  "check_finalizers body entity =
     res_bind (is_deleted entity) (\<lambda>deleted.
     if \<not> deleted then Inr ()
     else
       res_bind (only_removes_finalizers body entity) (\<lambda>b.
       if b then Inr () else Inl (HttpProblemError 409 ''update-error'')))"

text \<open>A resource in deletion without finalizers is removed from the database.\<close>

definition is_finished :: "yaml \<Rightarrow> (exn, bool) res" where
  "is_finished v =
     res_bind (is_deleted v) (\<lambda>deleted.
     res_bind (get_path [''metadata'', ''finalizers''] v) (\<lambda>fs. Inr (deleted \<and> \<not> truth fs)))"

definition store_updated :: "api_env \<Rightarrow> api_class \<Rightarrow> loaded \<Rightarrow> yaml \<Rightarrow> (db_log, yaml) co" where
  "store_updated env c entity v =
     co_bind (co_lift (is_finished v)) (\<lambda>finished.
     if finished then co_bind (session_delete env c (v, snd entity)) (\<lambda>_. co_return v)
     else put_entity env c entity v)"

definition modify_resource ::
  "api_env \<Rightarrow> api_class \<Rightarrow> http_request \<Rightarrow> yaml \<Rightarrow> loaded \<Rightarrow> (db_log, yaml) co" where
  "modify_resource env c request body entity =
     co_bind (co_lift (check_finalizers body (fst entity))) (\<lambda>_.
     if py_eq body (fst entity) then co_raise update_error
     else
       co_bind (co_lift (updated (class_fields c) (fst entity) body)) (\<lambda>v.
       co_bind (api_now env) (\<lambda>t.
       co_bind (co_lift (set_path [''metadata'', ''modified''] (Integer t) v)) (store_updated env c entity))))"

text \<open>The update of a global metrics provider without changes succeeds.\<close>

definition update_if_changed ::
  "api_env \<Rightarrow> api_class \<Rightarrow> http_request \<Rightarrow> yaml \<Rightarrow> loaded \<Rightarrow> (db_log, yaml) co" where
  "update_if_changed env c request body entity =
     co_bind (co_lift (check_finalizers body (fst entity))) (\<lambda>_.
     if py_eq body (fst entity) then co_return (fst entity)
     else
       co_bind (co_lift (updated (class_fields c) (fst entity) body)) (\<lambda>v.
       co_bind (api_now env) (\<lambda>t.
       co_bind (co_lift (set_path [''metadata'', ''modified''] (Integer t) v)) (store_updated env c entity))))"

definition status_type :: "api_class \<Rightarrow> fields" where
  "status_type c =
     concat (map (\<lambda>(i, t). case t of Serializable_type fs \<Rightarrow> if field_name i = ''status'' then fs else [] | _ \<Rightarrow> [])
       (class_fields c))"

definition status_updated :: "api_class \<Rightarrow> yaml \<Rightarrow> yaml \<Rightarrow> (exn, yaml) res" where
  "status_updated c entity body =
     res_bind (get_attr ''status'' body) (\<lambda>source.
     res_bind (get_attr ''status'' entity) (\<lambda>dest.
     res_bind (updated (status_type c) dest source) (\<lambda>v. set_attr ''status'' v entity)))"

definition update_status_resource ::
  "api_env \<Rightarrow> api_class \<Rightarrow> http_request \<Rightarrow> yaml \<Rightarrow> loaded \<Rightarrow> (db_log, yaml) co" where
  "update_status_resource env c request body entity =
     co_bind (co_lift (status_updated c (fst entity) body)) (put_entity env c entity)"

section \<open>Listing and watching\<close>

definition namespace_kwargs :: "http_request \<Rightarrow> (string, string) dict" where
  "namespace_kwargs request =
     (case dict_get (match_info request) ''namespace'' of None \<Rightarrow> [] | Some ns \<Rightarrow> [(''namespace'', ns)])"

definition list_object :: "api_class \<Rightarrow> yaml list \<Rightarrow> yaml" where
  "list_object c xs =
     Obj [(''api'', Text (class_api c)), (''kind'', Text (class_kind c @ ''List'')), (''metadata'', Obj []), (''items'', Arr xs)]"

definition list_resources :: "api_env \<Rightarrow> api_class \<Rightarrow> handler" where
  "list_resources env c request =
     co_bind (session_all env c (namespace_kwargs request)) (\<lambda>xs. co_return (list_object c (map fst xs)))"

definition watch_object :: "string \<Rightarrow> yaml \<Rightarrow> yaml" where
  "watch_object event v = Obj [(''type'', Text event), (''object'', v)]"

text \<open>
  One event of a watched namespace; the object of a deletion is read at the revision before. An
  event without object cannot be serialized.
\<close>

definition watch_event :: "api_env \<Rightarrow> api_class \<Rightarrow> yaml option \<times> revision \<Rightarrow> (db_log, yaml) co" where
  "watch_event env c e =
     (let (obj, r) = e in
      case obj of
        Some v \<Rightarrow> co_return (watch_object (if rev_created r = rev_modified r then ''ADDED'' else ''MODIFIED'') v)
      | None \<Rightarrow>
          co_bind (get_by_key env c (rev_key r) (Some (rev_modified r - 1))) (\<lambda>x.
          case x of
            None \<Rightarrow> co_raise AttributeError
          | Some (v, _) \<Rightarrow> co_return (watch_object ''DELETED'' v)))"

text \<open>The lines that are written for the events.\<close>

definition watch_lines :: "api_env \<Rightarrow> api_class \<Rightarrow> etcd_event list \<Rightarrow> (db_log, yaml list) co" where
  "watch_lines env c events =
     co_fold (\<lambda>e lines.
       co_bind (co_lift (watcher_event env c e)) (\<lambda>x.
       case x of
         None \<Rightarrow> co_return lines
       | Some y \<Rightarrow> co_bind (watch_event env c y) (\<lambda>line. co_return (lines @ [line])))) events []"

text \<open>
  The stream of the events that the database reports until the client closes the connection. The
  flag \<open>watch\<close> is set by any value.
\<close>

definition watch_resources :: "api_env \<Rightarrow> api_class \<Rightarrow> handler" where
  "watch_resources env c request =
     co_bind (co_lift (key_prefix (class_key c) (namespace_kwargs request))) (\<lambda>p.
     co_bind (db_ask (watch_answer env) (Watch p)) (\<lambda>events.
     co_bind (watch_lines env c events) (\<lambda>lines. co_return (Arr lines))))"

definition list_or_watch :: "api_env \<Rightarrow> api_class \<Rightarrow> handler" where
  "list_or_watch env c request =
     (if dict_get (query_string request) ''watch'' = None then list_resources env c request
      else watch_resources env c request)"

section \<open>Waiting for a state\<close>

text \<open>
  \<open>obj.status.state.equals(text)\<close>: only the states of an application can be compared.
\<close>

definition to_upper :: "char \<Rightarrow> char" where
  "to_upper c = (if is_lower c then char_of (of_char c - (32 :: nat)) else c)"

definition state_equals :: "api_class \<Rightarrow> yaml \<Rightarrow> string \<Rightarrow> (exn, bool) res" where
  "state_equals c v s =
     res_bind (get_path [''status'', ''state''] v) (\<lambda>state.
     if class_kind c = ''Application'' then Inr (state = Text (map to_upper s)) else Inl AttributeError)"

text \<open>
  The keyword arguments of the watch: the namespace replaces the name.
\<close>

definition blocking_kwargs :: "yaml \<Rightarrow> (exn, (string, string) dict) res" where
  "blocking_kwargs v =
     res_bind (get_path [''metadata'', ''name''] v) (\<lambda>n.
     res_bind (get_path [''metadata'', ''namespace''] v) (\<lambda>ns.
     Inr (case ns of
            Text t \<Rightarrow> if t = [] then (case n of Text m \<Rightarrow> [(''name'', m)] | _ \<Rightarrow> []) else [(''namespace'', t)]
          | _ \<Rightarrow> (case n of Text m \<Rightarrow> [(''name'', m)] | _ \<Rightarrow> []))))"

text \<open>
  One event of the watch: \<open>None\<close> to wait for the next one. The time is only looked at when an
  event comes. The decorated handlers respond with the resource that they were given and have
  changed, so the response stands for that resource too.
\<close>

definition blocking_event ::
  "api_env \<Rightarrow> api_class \<Rightarrow> string \<Rightarrow> time \<Rightarrow> string \<Rightarrow> yaml \<Rightarrow> (db_log, yaml option) co" where
  "blocking_event env c p t_end mode resp =
     co_bind (db_wait (event_answer env) (Next_event p)) (\<lambda>e.
     co_bind (co_lift (watcher_event env c e)) (\<lambda>x.
     case x of
       None \<Rightarrow> co_return None
     | Some (obj, _) \<Rightarrow>
         co_bind (api_now env) (\<lambda>t.
         if t > t_end then co_return (Some resp)
         else
           (case obj of
              Some v \<Rightarrow>
                co_bind (co_lift (state_equals c v mode)) (\<lambda>b. co_return (if b then Some v else None))
            | None \<Rightarrow>
                if mode = ''deleted''
                then co_bind (co_lift (set_path [''status'', ''state''] (Text ''DELETED'') resp)) (\<lambda>v. co_return (Some v))
                else co_return None))))"

definition blocking ::
  "api_env \<Rightarrow> api_class \<Rightarrow> http_request \<Rightarrow> (db_log, yaml) co \<Rightarrow> (db_log, yaml) co" where
  "blocking env c request handler =
     co_bind handler (\<lambda>resp.
     case dict_get (query_string request) ''blocking'' of
       None \<Rightarrow> co_return resp
     | Some mode \<Rightarrow>
         if mode = ''False'' then co_return resp
         else
           co_bind (co_lift (blocking_kwargs resp)) (\<lambda>kwargs.
           co_bind (api_now env) (\<lambda>t.
           co_bind (co_lift (key_prefix (class_key c) kwargs)) (\<lambda>p.
           co_loop (blocking_event env c p (t + 60) mode resp)))))"

section \<open>Bindings, hooks and retries\<close>

text \<open>\<open>if ref not in owners: owners.append(ref)\<close>\<close>

definition add_owner :: "yaml \<Rightarrow> yaml \<Rightarrow> (exn, yaml) res" where
  "add_owner ref v =
     res_bind (get_path [''metadata'', ''owners''] v) (\<lambda>xs.
     res_bind (items xs) (\<lambda>os.
     if list_ex (py_eq ref) os then Inr v
     else res_bind (append_item ref xs) (\<lambda>xs. set_path [''metadata'', ''owners''] xs v)))"

definition bound_application :: "time \<Rightarrow> yaml \<Rightarrow> yaml \<Rightarrow> (exn, yaml) res" where
  "bound_application t ref v =
     res_bind (set_path [''status'', ''scheduled''] (Integer t) v) (\<lambda>v.
     res_bind (set_path [''status'', ''kube_controller_triggered''] (Integer t) v) (\<lambda>v.
     res_bind (set_path [''status'', ''scheduled_to''] ref v) (add_owner ref)))"

definition store_application_binding :: "api_env \<Rightarrow> http_request \<Rightarrow> yaml \<Rightarrow> loaded \<Rightarrow> (db_log, yaml) co" where
  "store_application_binding env request body app =
     co_bind (api_now env) (\<lambda>t.
     co_bind (co_lift (res_bind (get_attr ''cluster'' body) (\<lambda>ref. bound_application t ref (fst app))))
       (put_entity env application_class app))"

definition bound_cluster :: "time \<Rightarrow> yaml \<Rightarrow> yaml \<Rightarrow> (exn, yaml) res" where
  "bound_cluster t ref v =
     res_bind (set_path [''status'', ''scheduled''] (Integer t) v) (\<lambda>v.
     res_bind (set_path [''status'', ''scheduled_to''] ref v) (add_owner ref))"

definition store_cluster_binding :: "api_env \<Rightarrow> http_request \<Rightarrow> yaml \<Rightarrow> loaded \<Rightarrow> (db_log, yaml) co" where
  "store_cluster_binding env request body entity =
     co_bind (api_now env) (\<lambda>t.
     co_bind (co_lift (res_bind (get_attr ''cloud'' body) (\<lambda>ref. bound_cluster t ref (fst entity))))
       (put_entity env cluster_class entity))"

definition bound_magnum_cluster :: "yaml \<Rightarrow> yaml \<Rightarrow> yaml \<Rightarrow> (exn, yaml) res" where
  "bound_magnum_cluster project template v =
     res_bind (set_path [''status'', ''project''] project v) (\<lambda>v.
     res_bind (set_path [''status'', ''template''] template v) (add_owner project))"

definition store_magnum_binding :: "api_env \<Rightarrow> http_request \<Rightarrow> yaml \<Rightarrow> loaded \<Rightarrow> (db_log, yaml) co" where
  "store_magnum_binding env request body entity =
     co_bind
       (co_lift (res_bind (get_attr ''project'' body) (\<lambda>project.
          res_bind (get_attr ''template'' body) (\<lambda>template. bound_magnum_cluster project template (fst entity)))))
       (put_entity env magnum_cluster_class entity)"

text \<open>The token of a hook, which must be set and equal that of the body.\<close>

definition check_token :: "string \<Rightarrow> yaml \<Rightarrow> yaml \<Rightarrow> (exn, unit) res" where
  "check_token attr body app =
     res_bind (get_path [''status'', attr] app) (\<lambda>expected.
     if expected = Null then Inl (HTTPException 401)
     else
       res_bind (get_attr ''token'' body) (\<lambda>given.
       if py_eq expected given then Inr () else Inl (HTTPException 401)))"

definition completed :: "time \<Rightarrow> yaml \<Rightarrow> (exn, yaml) res" where
  "completed t v =
     res_bind (set_path [''status'', ''state''] (Text ''READY_FOR_ACTION'') v)
       (set_path [''metadata'', ''deleted''] (Integer t))"

definition complete_application :: "api_env \<Rightarrow> http_request \<Rightarrow> yaml \<Rightarrow> loaded \<Rightarrow> (db_log, yaml) co" where
  "complete_application env request body app =
     co_bind (co_lift (check_token ''complete_token'' body (fst app))) (\<lambda>_.
     co_bind (api_now env) (\<lambda>t.
     co_bind (co_lift (completed t (fst app))) (put_entity env application_class app)))"

definition shut_down :: "yaml \<Rightarrow> (exn, yaml) res" where
  "shut_down v =
     res_bind (get_path [''status'', ''state''] v) (\<lambda>state.
     if state \<in> {Text ''WAITING_FOR_CLEANING'', Text ''DEGRADED''}
     then
       res_bind (set_path [''status'', ''state''] (Text ''READY_FOR_ACTION'') v)
         (set_path [''status'', ''shutdown_grace_period''] Null)
     else Inr v)"

definition shutdown_application :: "api_env \<Rightarrow> http_request \<Rightarrow> yaml \<Rightarrow> loaded \<Rightarrow> (db_log, yaml) co" where
  "shutdown_application env request body app =
     co_bind (co_lift (check_token ''shutdown_token'' body (fst app))) (\<lambda>_.
     co_bind (co_lift (shut_down (fst app))) (put_entity env application_class app))"

definition retried :: "yaml \<Rightarrow> (exn, yaml) res" where
  "retried v =
     res_bind (get_path [''status'', ''state''] v) (\<lambda>state.
     if state = Text ''DEGRADED''
     then
       res_bind (set_path [''status'', ''state''] (Text ''WAITING_FOR_CLEANING'') v)
         (set_path [''status'', ''shutdown_grace_period''] Null)
     else Inl update_error)"

definition retry_entity :: "api_env \<Rightarrow> http_request \<Rightarrow> loaded \<Rightarrow> (db_log, yaml) co" where
  "retry_entity env request entity =
     co_bind (co_lift (retried (fst entity))) (put_entity env application_class entity)"

end
