(* ===== verification/Api_Auth.thy ===== *)
theory Api_Auth
  imports Api_Handlers "HOL-Library.List_Lexorder"
begin

text \<open>
  Authentication and authorization: \<open>krake/krake/api/auth.py\<close> and the middlewares
  \<open>krake/krake/api/middlewares.py\<close>. The answers of Keystone and Keycloak are part of the environment.
\<close>

section \<open>Authentication\<close>

type_synonym authenticator = "http_request \<Rightarrow> (db_log, string option) co"

definition static_authentication :: "string \<Rightarrow> authenticator" where
  "static_authentication n request = co_return (Some n)"

fun common_name :: "(string \<times> string) list list \<Rightarrow> (exn, string) res" where
  "common_name [] = Inl ValueError"
| "common_name (rdn # subject) =
     (case dict_get rdn ''commonName'' of Some v \<Rightarrow> Inr v | None \<Rightarrow> common_name subject)"

definition client_certificate_authentication :: authenticator where
  "client_certificate_authentication request =
     co_return
       (case peer_subject request of
          None \<Rightarrow> None
        | Some subject \<Rightarrow> (case common_name subject of Inl _ \<Rightarrow> None | Inr n \<Rightarrow> Some n))"

text \<open>The token is checked at the identity service, whose answer tells the user.\<close>

definition token_authentication ::
  "api_env \<Rightarrow> string \<Rightarrow> string \<Rightarrow> (yaml \<Rightarrow> (exn, yaml) res) \<Rightarrow> authenticator" where
  "token_authentication env endpoint problem user_of request =
     (case auth_header request of
        None \<Rightarrow> co_return None
      | Some token \<Rightarrow>
          if token = [] then co_return None
          else
            co_bind (co_lift (identity_answer env endpoint token)) (\<lambda>(status, answer).
            if status \<noteq> 200 then co_raise (HttpProblemError 401 problem)
            else
              co_bind (co_lift (user_of answer)) (\<lambda>u.
              co_return (case u of Text n \<Rightarrow> Some n | _ \<Rightarrow> None))))"

definition keystone_authentication :: "api_env \<Rightarrow> string \<Rightarrow> authenticator" where
  "keystone_authentication env endpoint =
     token_authentication env (endpoint @ ''/auth/tokens'') ''invalid-keystone-token''
       (\<lambda>answer. res_bind (get_key ''token'' answer) (\<lambda>t. res_bind (get_key ''user'' t) (get_key ''name'')))"

definition keycloak_authentication :: "api_env \<Rightarrow> string \<Rightarrow> string \<Rightarrow> authenticator" where
  "keycloak_authentication env endpoint realm =
     token_authentication env (endpoint @ ''/auth/realms/'' @ realm @ ''/protocol/openid-connect/userinfo'')
       ''invalid-keycloak-token'' (get_key ''preferred_username'')"

fun authenticated :: "authenticator list \<Rightarrow> http_request \<Rightarrow> (db_log, string option) co" where
  "authenticated [] request = co_return None"
| "authenticated (a # authenticators) request =
     co_bind (a request) (\<lambda>user.
     case user of None \<Rightarrow> authenticated authenticators request | Some _ \<Rightarrow> co_return user)"

abbreviation anonymous :: string where "anonymous \<equiv> ''system:anonymous''"

definition authentication :: "authenticator list \<Rightarrow> bool \<Rightarrow> handler \<Rightarrow> handler" where
  "authentication authenticators allow_anonymous handler request =
     co_bind (authenticated authenticators request) (\<lambda>user.
     case user of
       Some u \<Rightarrow> handler (request\<lparr>req_user := u\<rparr>)
     | None \<Rightarrow>
         if \<not> allow_anonymous \<and> req_method request \<noteq> ''OPTIONS'' then co_raise (HTTPException 401)
         else handler (request\<lparr>req_user := anonymous\<rparr>))"

section \<open>Authorization\<close>

datatype api_verb = Create_verb | List_verb | List_all_verb | Get_verb | Update_verb | Delete_verb

fun verb_name :: "api_verb \<Rightarrow> string" where
  "verb_name Create_verb = ''create''"
| "verb_name List_verb = ''list''"
| "verb_name List_all_verb = ''list_all''"
| "verb_name Get_verb = ''get''"
| "verb_name Update_verb = ''update''"
| "verb_name Delete_verb = ''delete''"

record authorization_request =
  auth_api :: string
  auth_namespace :: "string option"
  auth_resource :: string
  auth_verb :: api_verb

type_synonym authorizer = "http_request \<Rightarrow> authorization_request \<Rightarrow> (db_log, unit) co"

definition always_allow :: authorizer where
  "always_allow request a = co_return ()"

definition always_deny :: authorizer where
  "always_deny request a = co_raise (HTTPException 403)"

text \<open>Whether a rule of a role allows the request; an empty string stands for everything.\<close>

definition mentions :: "string \<Rightarrow> yaml \<Rightarrow> string \<Rightarrow> (exn, bool) res" where
  "mentions attr v s = res_bind (get_attr attr v) (contains_key s)"

definition rule_allows :: "authorization_request \<Rightarrow> yaml \<Rightarrow> (exn, bool) res" where
  "rule_allows a rule =
     res_bind (get_attr ''api'' rule) (\<lambda>api.
     if api \<noteq> Text (auth_api a) \<and> api \<noteq> Text [] then Inr False
     else
       res_bind (mentions ''verbs'' rule (verb_name (auth_verb a))) (\<lambda>verb.
       if \<not> verb then Inr False
       else
         res_bind (mentions ''resources'' rule (auth_resource a)) (\<lambda>resource.
         res_bind (if resource then Inr True else mentions ''resources'' rule []) (\<lambda>resource.
         if \<not> resource then Inr False
         else
           (case auth_namespace a of
              None \<Rightarrow> Inr True
            | Some ns \<Rightarrow>
                res_bind (mentions ''namespaces'' rule ns) (\<lambda>b.
                if b then Inr True else mentions ''namespaces'' rule []))))))"

fun any_rule :: "authorization_request \<Rightarrow> yaml list \<Rightarrow> (exn, bool) res" where
  "any_rule a [] = Inr False"
| "any_rule a (r # rules) = res_bind (rule_allows a r) (\<lambda>b. if b then Inr True else any_rule a rules)"

definition role_allows :: "authorization_request \<Rightarrow> yaml \<Rightarrow> (exn, bool) res" where
  "role_allows a role = res_bind (res_bind (get_attr ''rules'' role) items) (any_rule a)"

text \<open>
  The roles of the user, one after the other as \<open>_fetch_roles\<close> yields them, until one of them allows
  the request. A role that a binding names but that does not exist is skipped.
\<close>

fun rbac_roles ::
  "api_env \<Rightarrow> authorization_request \<Rightarrow> yaml list \<Rightarrow> string list \<Rightarrow> (db_log, bool \<times> string list) co" where
  "rbac_roles env a [] seen = co_return (False, seen)"
| "rbac_roles env a (Text n # rest) seen =
     (if n \<in> set seen then rbac_roles env a rest seen
      else
        co_bind (session_get env role_class [(''name'', n)]) (\<lambda>role.
        case role of
          None \<Rightarrow> rbac_roles env a rest (n # seen)
        | Some (v, _) \<Rightarrow>
            co_bind (co_lift (role_allows a v)) (\<lambda>b.
            if b then co_return (True, n # seen) else rbac_roles env a rest (n # seen))))"
| "rbac_roles env a (v # rest) seen = co_raise TypeError"

fun rbac_bindings ::
  "api_env \<Rightarrow> authorization_request \<Rightarrow> string \<Rightarrow> kv list \<Rightarrow> string list \<Rightarrow> (db_log, bool) co" where
  "rbac_bindings env a user [] seen = co_return False"
| "rbac_bindings env a user (x # xs) seen =
     co_bind (co_lift (load_instance env role_binding_class x)) (\<lambda>(binding, _).
     co_bind (co_lift (mentions ''users'' binding user)) (\<lambda>b.
     if \<not> b then rbac_bindings env a user xs seen
     else
       co_bind (co_lift (res_bind (get_attr ''roles'' binding) items)) (\<lambda>rest.
       co_bind (rbac_roles env a rest seen) (\<lambda>(granted, seen).
       if granted then co_return True else rbac_bindings env a user xs seen))))"

definition rbac :: "api_env \<Rightarrow> authorizer" where
  "rbac env request a =
     (if req_user request = anonymous then co_raise (HTTPException 401)
      else
        co_bind (session_range env role_binding_class []) (\<lambda>xs.
        co_bind (rbac_bindings env a (req_user request) xs []) (\<lambda>granted.
        if granted then co_return () else co_raise (HTTPException 403))))"

definition load_authorizer :: "api_env \<Rightarrow> string \<Rightarrow> (exn, authorizer) res" where
  "load_authorizer env mode =
     (if mode = ''always-allow'' then Inr always_allow
      else if mode = ''always-deny'' then Inr always_deny
      else if mode = ''RBAC'' then Inr (rbac env)
      else Inl ValueError)"

definition protected :: "authorizer \<Rightarrow> string \<Rightarrow> string \<Rightarrow> api_verb \<Rightarrow> handler \<Rightarrow> handler" where
  "protected authorize a r v handler request =
     co_then
       (authorize request
         \<lparr>auth_api = a, auth_namespace = dict_get (match_info request) ''namespace'', auth_resource = r, auth_verb = v\<rparr>)
       (handler request)"

section \<open>Middlewares\<close>

text \<open>A handler whose transaction fails is run again, a limited number of times.\<close>

fun retry_attempts :: "handler \<Rightarrow> http_request \<Rightarrow> nat \<Rightarrow> (db_log, yaml) co" where
  "retry_attempts handler request 0 = co_raise (HttpProblemError 409 ''transaction-error'')"
| "retry_attempts handler request (Suc n) =
     co_catch (handler request) (\<lambda>e. if e = TransactionError then retry_attempts handler request n else co_raise e)"

definition retry_transaction :: "int \<Rightarrow> handler \<Rightarrow> handler" where
  "retry_transaction retry handler request = retry_attempts handler request (nat (retry + 1))"

text \<open>The status that the client sees; every other exception is an internal error.\<close>

fun response_status :: "exn \<Rightarrow> int" where
  "response_status (HTTPException s) = s"
| "response_status (HttpProblemError s t) = s"
| "response_status _ = 500"

text \<open>
  The middlewares around a handler, in the order of \<open>create_app\<close>, and how an authentication is
  configured.
\<close>

definition serve :: "authenticator list \<Rightarrow> bool \<Rightarrow> int \<Rightarrow> handler \<Rightarrow> handler" where
  "serve authenticators allow_anonymous retry handler =
     authentication authenticators allow_anonymous (retry_transaction retry handler)"

datatype auth_strategy = Static string | Keystone string | Keycloak string string | No_strategy

definition load_authentication :: "api_env \<Rightarrow> auth_strategy \<Rightarrow> bool \<Rightarrow> authenticator list" where
  "load_authentication env strategy client_ca =
     (case strategy of
        Static n \<Rightarrow> [static_authentication n]
      | Keystone endpoint \<Rightarrow> [keystone_authentication env endpoint]
      | Keycloak endpoint realm \<Rightarrow> [keycloak_authentication env endpoint realm]
      | No_strategy \<Rightarrow> []) @
     (if client_ca then [client_certificate_authentication] else [])"

section \<open>The application\<close>

text \<open>The user and the roles that are bound to it, as \<open>/me\<close> shows them.\<close>

fun texts :: "yaml list \<Rightarrow> (exn, string list) res" where
  "texts [] = Inr []"
| "texts (Text s # vs) = res_bind (texts vs) (\<lambda>ss. Inr (s # ss))"
| "texts (v # vs) = Inl TypeError"

fun bound_roles :: "string \<Rightarrow> yaml list \<Rightarrow> (exn, string list) res" where
  "bound_roles user [] = Inr []"
| "bound_roles user (b # bindings) =
     res_bind (mentions ''users'' b user) (\<lambda>bound.
     res_bind (if bound then res_bind (res_bind (get_attr ''roles'' b) items) texts else Inr []) (\<lambda>roles.
     res_bind (bound_roles user bindings) (\<lambda>rest. Inr (roles @ rest))))"

definition me :: "api_env \<Rightarrow> handler" where
  "me env request =
     co_bind (session_all env role_binding_class []) (\<lambda>bindings.
     co_bind (co_lift (bound_roles (req_user request) (map fst bindings))) (\<lambda>roles.
     co_return (Obj [(''user'', Text (req_user request)), (''roles'', Arr (map Text (sort (remdups roles))))])))"

definition release :: handler where
  "release request = co_return (Text ''You released the Krake.'')"

text \<open>The configuration of the server, as far as its requests depend on it.\<close>

record api_config =
  config_strategy :: auth_strategy
  config_client_ca :: bool
  config_allow_anonymous :: bool
  config_authorization :: string
  config_retry :: int

end
