(* ===== verification/Api_Endpoints.thy ===== *)
theory Api_Endpoints
  imports Api_Auth
begin

text \<open>
  The request handlers of \<open>krake/krake/api/core.py\<close>, \<open>krake/krake/api/kubernetes.py\<close>,
  \<open>krake/krake/api/infrastructure.py\<close> and \<open>krake/krake/api/openstack.py\<close>, with their decorators in
  their order, and the routes that lead to them.
\<close>

section \<open>Core\<close>

definition create_global_metric :: "api_env \<Rightarrow> authorizer \<Rightarrow> handler" where
  "create_global_metric env auth =
     protected auth ''core'' ''globalmetrics'' Create_verb
       (use_schema (create_schema env global_metric_class) (create_resource env global_metric_class False))"

definition delete_global_metric :: "api_env \<Rightarrow> authorizer \<Rightarrow> handler" where
  "delete_global_metric env auth =
     protected auth ''core'' ''globalmetrics'' Delete_verb
       (load env global_metric_class (delete_marked env global_metric_class))"

definition list_or_watch_global_metrics :: "api_env \<Rightarrow> authorizer \<Rightarrow> handler" where
  "list_or_watch_global_metrics env auth =
     protected auth ''core'' ''globalmetrics'' List_verb
       (list_or_watch env global_metric_class)"

definition read_global_metric :: "api_env \<Rightarrow> authorizer \<Rightarrow> handler" where
  "read_global_metric env auth =
     protected auth ''core'' ''globalmetrics'' Get_verb
       (load env global_metric_class read_resource)"

definition update_global_metric :: "api_env \<Rightarrow> authorizer \<Rightarrow> handler" where
  "update_global_metric env auth =
     protected auth ''core'' ''globalmetrics'' Update_verb
       (use_schema (full_schema env global_metric_class)
       (\<lambda>request body. load env global_metric_class (\<lambda>request entity. modify_resource env global_metric_class request body entity) request))"

definition create_global_metrics_provider :: "api_env \<Rightarrow> authorizer \<Rightarrow> handler" where
  "create_global_metrics_provider env auth =
     protected auth ''core'' ''globalmetricsproviders'' Create_verb
       (use_schema (create_schema env global_metrics_provider_class) (create_resource env global_metrics_provider_class False))"

definition delete_global_metrics_provider :: "api_env \<Rightarrow> authorizer \<Rightarrow> handler" where
  "delete_global_metrics_provider env auth =
     protected auth ''core'' ''globalmetricsproviders'' Delete_verb
       (load env global_metrics_provider_class (delete_marked env global_metrics_provider_class))"

definition list_or_watch_global_metrics_providers :: "api_env \<Rightarrow> authorizer \<Rightarrow> handler" where
  "list_or_watch_global_metrics_providers env auth =
     protected auth ''core'' ''globalmetricsproviders'' List_verb
       (list_or_watch env global_metrics_provider_class)"

definition read_global_metrics_provider :: "api_env \<Rightarrow> authorizer \<Rightarrow> handler" where
  "read_global_metrics_provider env auth =
     protected auth ''core'' ''globalmetricsproviders'' Get_verb
       (load env global_metrics_provider_class read_resource)"

definition update_global_metrics_provider :: "api_env \<Rightarrow> authorizer \<Rightarrow> handler" where
  "update_global_metrics_provider env auth =
     protected auth ''core'' ''globalmetricsproviders'' Update_verb
       (use_schema (full_schema env global_metrics_provider_class)
       (\<lambda>request body. load env global_metrics_provider_class (\<lambda>request entity. update_if_changed env global_metrics_provider_class request body entity) request))"

definition create_role :: "api_env \<Rightarrow> authorizer \<Rightarrow> handler" where
  "create_role env auth =
     protected auth ''core'' ''roles'' Create_verb
       (use_schema (create_schema env role_class) (create_resource env role_class False))"

definition delete_role :: "api_env \<Rightarrow> authorizer \<Rightarrow> handler" where
  "delete_role env auth =
     protected auth ''core'' ''roles'' Delete_verb
       (load env role_class (delete_marked env role_class))"

definition list_or_watch_roles :: "api_env \<Rightarrow> authorizer \<Rightarrow> handler" where
  "list_or_watch_roles env auth =
     protected auth ''core'' ''roles'' List_verb
       (list_or_watch env role_class)"

definition read_role :: "api_env \<Rightarrow> authorizer \<Rightarrow> handler" where
  "read_role env auth =
     protected auth ''core'' ''roles'' Get_verb
       (load env role_class read_resource)"

definition update_role :: "api_env \<Rightarrow> authorizer \<Rightarrow> handler" where
  "update_role env auth =
     protected auth ''core'' ''roles'' Update_verb
       (use_schema (full_schema env role_class)
       (\<lambda>request body. load env role_class (\<lambda>request entity. modify_resource env role_class request body entity) request))"

definition create_role_binding :: "api_env \<Rightarrow> authorizer \<Rightarrow> handler" where
  "create_role_binding env auth =
     protected auth ''core'' ''rolebindings'' Create_verb
       (use_schema (create_schema env role_binding_class) (create_resource env role_binding_class False))"

definition delete_role_binding :: "api_env \<Rightarrow> authorizer \<Rightarrow> handler" where
  "delete_role_binding env auth =
     protected auth ''core'' ''rolebindings'' Delete_verb
       (load env role_binding_class (delete_marked env role_binding_class))"

definition list_or_watch_role_bindings :: "api_env \<Rightarrow> authorizer \<Rightarrow> handler" where
  "list_or_watch_role_bindings env auth =
     protected auth ''core'' ''rolebindings'' List_verb
       (list_or_watch env role_binding_class)"

definition read_role_binding :: "api_env \<Rightarrow> authorizer \<Rightarrow> handler" where
  "read_role_binding env auth =
     protected auth ''core'' ''rolebindings'' Get_verb
       (load env role_binding_class read_resource)"

definition update_role_binding :: "api_env \<Rightarrow> authorizer \<Rightarrow> handler" where
  "update_role_binding env auth =
     protected auth ''core'' ''rolebindings'' Update_verb
       (use_schema (full_schema env role_binding_class)
       (\<lambda>request body. load env role_binding_class (\<lambda>request entity. modify_resource env role_binding_class request body entity) request))"

definition create_metric :: "api_env \<Rightarrow> authorizer \<Rightarrow> handler" where
  "create_metric env auth =
     protected auth ''core'' ''metrics'' Create_verb
       (use_schema (create_schema env metric_class) (create_resource env metric_class True))"

definition delete_metric :: "api_env \<Rightarrow> authorizer \<Rightarrow> handler" where
  "delete_metric env auth =
     protected auth ''core'' ''metrics'' Delete_verb
       (load env metric_class (delete_marked env metric_class))"

definition list_or_watch_metrics :: "api_env \<Rightarrow> authorizer \<Rightarrow> handler" where
  "list_or_watch_metrics env auth =
     protected auth ''core'' ''metrics'' List_verb
       (list_or_watch env metric_class)"

definition read_metric :: "api_env \<Rightarrow> authorizer \<Rightarrow> handler" where
  "read_metric env auth =
     protected auth ''core'' ''metrics'' Get_verb
       (load env metric_class read_resource)"

definition update_metric :: "api_env \<Rightarrow> authorizer \<Rightarrow> handler" where
  "update_metric env auth =
     protected auth ''core'' ''metrics'' Update_verb
       (use_schema (full_schema env metric_class)
       (\<lambda>request body. load env metric_class (\<lambda>request entity. modify_resource env metric_class request body entity) request))"

definition create_metrics_provider :: "api_env \<Rightarrow> authorizer \<Rightarrow> handler" where
  "create_metrics_provider env auth =
     protected auth ''core'' ''metricsproviders'' Create_verb
       (use_schema (create_schema env metrics_provider_class) (create_resource env metrics_provider_class True))"

definition delete_metrics_provider :: "api_env \<Rightarrow> authorizer \<Rightarrow> handler" where
  "delete_metrics_provider env auth =
     protected auth ''core'' ''metricsproviders'' Delete_verb
       (load env metrics_provider_class (delete_marked env metrics_provider_class))"

definition list_or_watch_metrics_providers :: "api_env \<Rightarrow> authorizer \<Rightarrow> handler" where
  "list_or_watch_metrics_providers env auth =
     protected auth ''core'' ''metricsproviders'' List_verb
       (list_or_watch env metrics_provider_class)"

definition read_metrics_provider :: "api_env \<Rightarrow> authorizer \<Rightarrow> handler" where
  "read_metrics_provider env auth =
     protected auth ''core'' ''metricsproviders'' Get_verb
       (load env metrics_provider_class read_resource)"

definition update_metrics_provider :: "api_env \<Rightarrow> authorizer \<Rightarrow> handler" where
  "update_metrics_provider env auth =
     protected auth ''core'' ''metricsproviders'' Update_verb
       (use_schema (full_schema env metrics_provider_class)
       (\<lambda>request body. load env metrics_provider_class (\<lambda>request entity. modify_resource env metrics_provider_class request body entity) request))"

section \<open>Kubernetes\<close>

definition create_application :: "api_env \<Rightarrow> authorizer \<Rightarrow> handler" where
  "create_application env auth =
     protected auth ''kubernetes'' ''applications'' Create_verb
       (use_schema (create_schema env application_class)
       (\<lambda>request body. blocking env application_class request (create_resource env application_class True request body)))"

definition delete_application :: "api_env \<Rightarrow> authorizer \<Rightarrow> handler" where
  "delete_application env auth =
     protected auth ''kubernetes'' ''applications'' Delete_verb
       (load env application_class (\<lambda>request entity.
       blocking env application_class request (delete_forcible env application_class await_shutdown request entity)))"

definition list_or_watch_applications :: "api_env \<Rightarrow> authorizer \<Rightarrow> handler" where
  "list_or_watch_applications env auth =
     protected auth ''kubernetes'' ''applications'' List_verb
       (list_or_watch env application_class)"

definition read_application :: "api_env \<Rightarrow> authorizer \<Rightarrow> handler" where
  "read_application env auth =
     protected auth ''kubernetes'' ''applications'' Get_verb
       (load env application_class read_resource)"

definition update_application :: "api_env \<Rightarrow> authorizer \<Rightarrow> handler" where
  "update_application env auth =
     protected auth ''kubernetes'' ''applications'' Update_verb
       (use_schema (full_schema env application_class)
       (\<lambda>request body. load env application_class (\<lambda>request entity. modify_resource env application_class request body entity) request))"

definition update_application_binding :: "api_env \<Rightarrow> authorizer \<Rightarrow> handler" where
  "update_application_binding env auth =
     protected auth ''kubernetes'' ''applications/binding'' Update_verb
       (use_schema (decode env cluster_binding_fields)
       (\<lambda>request body. load env application_class (\<lambda>request entity. store_application_binding env request body entity) request))"

definition update_application_complete :: "api_env \<Rightarrow> authorizer \<Rightarrow> handler" where
  "update_application_complete env auth =
     protected auth ''kubernetes'' ''applications/complete'' Update_verb
       (use_schema (decode env application_complete_fields)
       (\<lambda>request body. load env application_class (\<lambda>request entity. complete_application env request body entity) request))"

definition update_application_shutdown :: "api_env \<Rightarrow> authorizer \<Rightarrow> handler" where
  "update_application_shutdown env auth =
     protected auth ''kubernetes'' ''applications/shutdown'' Update_verb
       (use_schema (decode env application_shutdown_fields)
       (\<lambda>request body. load env application_class (\<lambda>request entity. shutdown_application env request body entity) request))"

definition update_application_status :: "api_env \<Rightarrow> authorizer \<Rightarrow> handler" where
  "update_application_status env auth =
     protected auth ''kubernetes'' ''applications/status'' Update_verb
       (use_schema (full_schema env application_class)
       (\<lambda>request body. load env application_class (\<lambda>request entity. update_status_resource env application_class request body entity) request))"

definition retry_application :: "api_env \<Rightarrow> authorizer \<Rightarrow> handler" where
  "retry_application env auth =
     protected auth ''kubernetes'' ''applications/status'' Update_verb
       (load env application_class (retry_entity env))"

definition create_cluster :: "api_env \<Rightarrow> authorizer \<Rightarrow> handler" where
  "create_cluster env auth =
     protected auth ''kubernetes'' ''clusters'' Create_verb
       (use_schema (create_schema env cluster_class)
       (\<lambda>request body. blocking env cluster_class request (create_resource env cluster_class True request body)))"

definition delete_cluster :: "api_env \<Rightarrow> authorizer \<Rightarrow> handler" where
  "delete_cluster env auth =
     protected auth ''kubernetes'' ''clusters'' Delete_verb
       (load env cluster_class (\<lambda>request entity.
       blocking env cluster_class request (delete_forcible env cluster_class Inr request entity)))"

definition list_or_watch_clusters :: "api_env \<Rightarrow> authorizer \<Rightarrow> handler" where
  "list_or_watch_clusters env auth =
     protected auth ''kubernetes'' ''clusters'' List_verb
       (list_or_watch env cluster_class)"

definition read_cluster :: "api_env \<Rightarrow> authorizer \<Rightarrow> handler" where
  "read_cluster env auth =
     protected auth ''kubernetes'' ''clusters'' Get_verb
       (load env cluster_class read_resource)"

definition update_cluster :: "api_env \<Rightarrow> authorizer \<Rightarrow> handler" where
  "update_cluster env auth =
     protected auth ''kubernetes'' ''clusters'' Update_verb
       (use_schema (full_schema env cluster_class)
       (\<lambda>request body. load env cluster_class (\<lambda>request entity. modify_resource env cluster_class request body entity) request))"

definition update_cluster_binding :: "api_env \<Rightarrow> authorizer \<Rightarrow> handler" where
  "update_cluster_binding env auth =
     protected auth ''kubernetes'' ''clusters/binding'' Update_verb
       (use_schema (decode env cloud_binding_fields)
       (\<lambda>request body. load env cluster_class (\<lambda>request entity. store_cluster_binding env request body entity) request))"

definition update_cluster_status :: "api_env \<Rightarrow> authorizer \<Rightarrow> handler" where
  "update_cluster_status env auth =
     protected auth ''kubernetes'' ''clusters/status'' Update_verb
       (use_schema (full_schema env cluster_class)
       (\<lambda>request body. load env cluster_class (\<lambda>request entity. update_status_resource env cluster_class request body entity) request))"

section \<open>Infrastructure\<close>

definition create_global_infrastructure_provider :: "api_env \<Rightarrow> authorizer \<Rightarrow> handler" where
  "create_global_infrastructure_provider env auth =
     protected auth ''infrastructure'' ''globalinfrastructureproviders'' Create_verb
       (use_schema (create_schema env global_infrastructure_provider_class) (create_checked env global_infrastructure_provider_class False))"

definition delete_global_infrastructure_provider :: "api_env \<Rightarrow> authorizer \<Rightarrow> handler" where
  "delete_global_infrastructure_provider env auth =
     protected auth ''infrastructure'' ''globalinfrastructureproviders'' Delete_verb
       (load env global_infrastructure_provider_class (delete_marked env global_infrastructure_provider_class))"

definition list_or_watch_global_infrastructure_providers :: "api_env \<Rightarrow> authorizer \<Rightarrow> handler" where
  "list_or_watch_global_infrastructure_providers env auth =
     protected auth ''infrastructure'' ''globalinfrastructureproviders'' List_verb
       (list_or_watch env global_infrastructure_provider_class)"

definition read_global_infrastructure_provider :: "api_env \<Rightarrow> authorizer \<Rightarrow> handler" where
  "read_global_infrastructure_provider env auth =
     protected auth ''infrastructure'' ''globalinfrastructureproviders'' Get_verb
       (load env global_infrastructure_provider_class read_resource)"

definition update_global_infrastructure_provider :: "api_env \<Rightarrow> authorizer \<Rightarrow> handler" where
  "update_global_infrastructure_provider env auth =
     protected auth ''infrastructure'' ''globalinfrastructureproviders'' Update_verb
       (use_schema (full_schema env global_infrastructure_provider_class)
       (\<lambda>request body. load env global_infrastructure_provider_class (\<lambda>request entity. modify_resource env global_infrastructure_provider_class request body entity) request))"

definition create_infrastructure_provider :: "api_env \<Rightarrow> authorizer \<Rightarrow> handler" where
  "create_infrastructure_provider env auth =
     protected auth ''infrastructure'' ''infrastructureproviders'' Create_verb
       (use_schema (create_schema env infrastructure_provider_class) (create_checked env infrastructure_provider_class True))"

definition delete_infrastructure_provider :: "api_env \<Rightarrow> authorizer \<Rightarrow> handler" where
  "delete_infrastructure_provider env auth =
     protected auth ''infrastructure'' ''infrastructureproviders'' Delete_verb
       (load env infrastructure_provider_class (delete_marked env infrastructure_provider_class))"

definition list_or_watch_infrastructure_providers :: "api_env \<Rightarrow> authorizer \<Rightarrow> handler" where
  "list_or_watch_infrastructure_providers env auth =
     protected auth ''infrastructure'' ''infrastructureproviders'' List_verb
       (list_or_watch env infrastructure_provider_class)"

definition read_infrastructure_provider :: "api_env \<Rightarrow> authorizer \<Rightarrow> handler" where
  "read_infrastructure_provider env auth =
     protected auth ''infrastructure'' ''infrastructureproviders'' Get_verb
       (load env infrastructure_provider_class read_resource)"

definition update_infrastructure_provider :: "api_env \<Rightarrow> authorizer \<Rightarrow> handler" where
  "update_infrastructure_provider env auth =
     protected auth ''infrastructure'' ''infrastructureproviders'' Update_verb
       (use_schema (full_schema env infrastructure_provider_class)
       (\<lambda>request body. load env infrastructure_provider_class (\<lambda>request entity. modify_resource env infrastructure_provider_class request body entity) request))"

definition create_global_cloud :: "api_env \<Rightarrow> authorizer \<Rightarrow> handler" where
  "create_global_cloud env auth =
     protected auth ''infrastructure'' ''globalclouds'' Create_verb
       (use_schema (create_schema env global_cloud_class) (create_checked env global_cloud_class False))"

definition delete_global_cloud :: "api_env \<Rightarrow> authorizer \<Rightarrow> handler" where
  "delete_global_cloud env auth =
     protected auth ''infrastructure'' ''globalclouds'' Delete_verb
       (load env global_cloud_class (delete_marked env global_cloud_class))"

definition list_or_watch_global_clouds :: "api_env \<Rightarrow> authorizer \<Rightarrow> handler" where
  "list_or_watch_global_clouds env auth =
     protected auth ''infrastructure'' ''globalclouds'' List_verb
       (list_or_watch env global_cloud_class)"

definition read_global_cloud :: "api_env \<Rightarrow> authorizer \<Rightarrow> handler" where
  "read_global_cloud env auth =
     protected auth ''infrastructure'' ''globalclouds'' Get_verb
       (load env global_cloud_class read_resource)"

definition update_global_cloud :: "api_env \<Rightarrow> authorizer \<Rightarrow> handler" where
  "update_global_cloud env auth =
     protected auth ''infrastructure'' ''globalclouds'' Update_verb
       (use_schema (full_schema env global_cloud_class)
       (\<lambda>request body. load env global_cloud_class (\<lambda>request entity. modify_resource env global_cloud_class request body entity) request))"

definition update_global_cloud_status :: "api_env \<Rightarrow> authorizer \<Rightarrow> handler" where
  "update_global_cloud_status env auth =
     protected auth ''infrastructure'' ''globalclouds/status'' Update_verb
       (use_schema (full_schema env global_cloud_class)
       (\<lambda>request body. load env global_cloud_class (\<lambda>request entity. update_status_resource env global_cloud_class request body entity) request))"

definition create_cloud :: "api_env \<Rightarrow> authorizer \<Rightarrow> handler" where
  "create_cloud env auth =
     protected auth ''infrastructure'' ''clouds'' Create_verb
       (use_schema (create_schema env cloud_class) (create_checked env cloud_class True))"

definition delete_cloud :: "api_env \<Rightarrow> authorizer \<Rightarrow> handler" where
  "delete_cloud env auth =
     protected auth ''infrastructure'' ''clouds'' Delete_verb
       (load env cloud_class (delete_marked env cloud_class))"

definition list_or_watch_clouds :: "api_env \<Rightarrow> authorizer \<Rightarrow> handler" where
  "list_or_watch_clouds env auth =
     protected auth ''infrastructure'' ''clouds'' List_verb
       (list_or_watch env cloud_class)"

definition read_cloud :: "api_env \<Rightarrow> authorizer \<Rightarrow> handler" where
  "read_cloud env auth =
     protected auth ''infrastructure'' ''clouds'' Get_verb
       (load env cloud_class read_resource)"

definition update_cloud :: "api_env \<Rightarrow> authorizer \<Rightarrow> handler" where
  "update_cloud env auth =
     protected auth ''infrastructure'' ''clouds'' Update_verb
       (use_schema (full_schema env cloud_class)
       (\<lambda>request body. load env cloud_class (\<lambda>request entity. modify_resource env cloud_class request body entity) request))"

definition update_cloud_status :: "api_env \<Rightarrow> authorizer \<Rightarrow> handler" where
  "update_cloud_status env auth =
     protected auth ''infrastructure'' ''clouds/status'' Update_verb
       (use_schema (full_schema env cloud_class)
       (\<lambda>request body. load env cloud_class (\<lambda>request entity. update_status_resource env cloud_class request body entity) request))"

section \<open>OpenStack\<close>

definition create_magnum_cluster :: "api_env \<Rightarrow> authorizer \<Rightarrow> handler" where
  "create_magnum_cluster env auth =
     protected auth ''openstack'' ''magnumclusters'' Create_verb
       (use_schema (create_schema env magnum_cluster_class) (create_checked env magnum_cluster_class True))"

definition delete_magnum_cluster :: "api_env \<Rightarrow> authorizer \<Rightarrow> handler" where
  "delete_magnum_cluster env auth =
     protected auth ''openstack'' ''magnumclusters'' Delete_verb
       (load env magnum_cluster_class (delete_marked env magnum_cluster_class))"

definition list_or_watch_magnum_clusters :: "api_env \<Rightarrow> authorizer \<Rightarrow> handler" where
  "list_or_watch_magnum_clusters env auth =
     protected auth ''openstack'' ''magnumclusters'' List_verb
       (list_or_watch env magnum_cluster_class)"

definition read_magnum_cluster :: "api_env \<Rightarrow> authorizer \<Rightarrow> handler" where
  "read_magnum_cluster env auth =
     protected auth ''openstack'' ''magnumclusters'' Get_verb
       (load env magnum_cluster_class read_resource)"

definition update_magnum_cluster :: "api_env \<Rightarrow> authorizer \<Rightarrow> handler" where
  "update_magnum_cluster env auth =
     protected auth ''openstack'' ''magnumclusters'' Update_verb
       (use_schema (full_schema env magnum_cluster_class)
       (\<lambda>request body. load env magnum_cluster_class (\<lambda>request entity. modify_resource env magnum_cluster_class request body entity) request))"

definition update_magnum_cluster_binding :: "api_env \<Rightarrow> authorizer \<Rightarrow> handler" where
  "update_magnum_cluster_binding env auth =
     protected auth ''openstack'' ''magnumclusters/binding'' Update_verb
       (load env magnum_cluster_class
       (\<lambda>request entity. use_schema (decode env magnum_cluster_binding_fields) (\<lambda>request body. store_magnum_binding env request body entity) request))"

definition update_magnum_cluster_status :: "api_env \<Rightarrow> authorizer \<Rightarrow> handler" where
  "update_magnum_cluster_status env auth =
     protected auth ''openstack'' ''magnumclusters/status'' Update_verb
       (use_schema (full_schema env magnum_cluster_class)
       (\<lambda>request body. load env magnum_cluster_class (\<lambda>request entity. update_status_resource env magnum_cluster_class request body entity) request))"

definition create_project :: "api_env \<Rightarrow> authorizer \<Rightarrow> handler" where
  "create_project env auth =
     protected auth ''openstack'' ''projects'' Create_verb
       (use_schema (create_schema env project_class) (create_checked env project_class True))"

definition delete_project :: "api_env \<Rightarrow> authorizer \<Rightarrow> handler" where
  "delete_project env auth =
     protected auth ''openstack'' ''projects'' Delete_verb
       (load env project_class (delete_marked env project_class))"

definition list_or_watch_projects :: "api_env \<Rightarrow> authorizer \<Rightarrow> handler" where
  "list_or_watch_projects env auth =
     protected auth ''openstack'' ''projects'' List_verb
       (list_or_watch env project_class)"

definition read_project :: "api_env \<Rightarrow> authorizer \<Rightarrow> handler" where
  "read_project env auth =
     protected auth ''openstack'' ''projects'' Get_verb
       (load env project_class read_resource)"

definition update_project :: "api_env \<Rightarrow> authorizer \<Rightarrow> handler" where
  "update_project env auth =
     protected auth ''openstack'' ''projects'' Update_verb
       (use_schema (full_schema env project_class)
       (\<lambda>request body. load env project_class (\<lambda>request entity. modify_resource env project_class request body entity) request))"

definition update_project_status :: "api_env \<Rightarrow> authorizer \<Rightarrow> handler" where
  "update_project_status env auth =
     protected auth ''openstack'' ''projects/status'' Update_verb
       (use_schema (full_schema env project_class)
       (\<lambda>request body. load env project_class (\<lambda>request entity. update_status_resource env project_class request body entity) request))"

section \<open>Routes\<close>

text \<open>The method, the path and the handler of every route.\<close>

definition core_routes :: "api_env \<Rightarrow> authorizer \<Rightarrow> (string \<times> string \<times> handler) list" where
  "core_routes env auth =
     [
      (''POST'', ''/core/globalmetrics'', create_global_metric env auth),
      (''DELETE'', ''/core/globalmetrics/{name}'', delete_global_metric env auth),
      (''GET'', ''/core/globalmetrics'', list_or_watch_global_metrics env auth),
      (''GET'', ''/core/globalmetrics/{name}'', read_global_metric env auth),
      (''PUT'', ''/core/globalmetrics/{name}'', update_global_metric env auth),
      (''POST'', ''/core/globalmetricsproviders'', create_global_metrics_provider env auth),
      (''DELETE'', ''/core/globalmetricsproviders/{name}'', delete_global_metrics_provider env auth),
      (''GET'', ''/core/globalmetricsproviders'', list_or_watch_global_metrics_providers env auth),
      (''GET'', ''/core/globalmetricsproviders/{name}'', read_global_metrics_provider env auth),
      (''PUT'', ''/core/globalmetricsproviders/{name}'', update_global_metrics_provider env auth),
      (''POST'', ''/core/roles'', create_role env auth),
      (''DELETE'', ''/core/roles/{name}'', delete_role env auth),
      (''GET'', ''/core/roles'', list_or_watch_roles env auth),
      (''GET'', ''/core/roles/{name}'', read_role env auth),
      (''PUT'', ''/core/roles/{name}'', update_role env auth),
      (''POST'', ''/core/rolebindings'', create_role_binding env auth),
      (''DELETE'', ''/core/rolebindings/{name}'', delete_role_binding env auth),
      (''GET'', ''/core/rolebindings'', list_or_watch_role_bindings env auth),
      (''GET'', ''/core/rolebindings/{name}'', read_role_binding env auth),
      (''PUT'', ''/core/rolebindings/{name}'', update_role_binding env auth),
      (''POST'', ''/core/namespaces/{namespace}/metrics'', create_metric env auth),
      (''DELETE'', ''/core/namespaces/{namespace}/metrics/{name}'', delete_metric env auth),
      (''GET'', ''/core/namespaces/{namespace}/metrics'', list_or_watch_metrics env auth),
      (''GET'', ''/core/metrics'', list_or_watch_metrics env auth),
      (''GET'', ''/core/namespaces/{namespace}/metrics/{name}'', read_metric env auth),
      (''PUT'', ''/core/namespaces/{namespace}/metrics/{name}'', update_metric env auth),
      (''POST'', ''/core/namespaces/{namespace}/metricsproviders'', create_metrics_provider env auth),
      (''DELETE'', ''/core/namespaces/{namespace}/metricsproviders/{name}'', delete_metrics_provider env auth),
      (''GET'', ''/core/namespaces/{namespace}/metricsproviders'', list_or_watch_metrics_providers env auth),
      (''GET'', ''/core/metricsproviders'', list_or_watch_metrics_providers env auth),
      (''GET'', ''/core/namespaces/{namespace}/metricsproviders/{name}'', read_metrics_provider env auth),
      (''PUT'', ''/core/namespaces/{namespace}/metricsproviders/{name}'', update_metrics_provider env auth)]"

definition kubernetes_routes :: "api_env \<Rightarrow> authorizer \<Rightarrow> (string \<times> string \<times> handler) list" where
  "kubernetes_routes env auth =
     [
      (''POST'', ''/kubernetes/namespaces/{namespace}/applications'', create_application env auth),
      (''DELETE'', ''/kubernetes/namespaces/{namespace}/applications/{name}'', delete_application env auth),
      (''GET'', ''/kubernetes/namespaces/{namespace}/applications'', list_or_watch_applications env auth),
      (''GET'', ''/kubernetes/applications'', list_or_watch_applications env auth),
      (''GET'', ''/kubernetes/namespaces/{namespace}/applications/{name}'', read_application env auth),
      (''PUT'', ''/kubernetes/namespaces/{namespace}/applications/{name}'', update_application env auth),
      (''PUT'', ''/kubernetes/namespaces/{namespace}/applications/{name}/binding'', update_application_binding env auth),
      (''PUT'', ''/kubernetes/namespaces/{namespace}/applications/{name}/complete'', update_application_complete env auth),
      (''PUT'', ''/kubernetes/namespaces/{namespace}/applications/{name}/shutdown'', update_application_shutdown env auth),
      (''PUT'', ''/kubernetes/namespaces/{namespace}/applications/{name}/status'', update_application_status env auth),
      (''PUT'', ''/kubernetes/namespaces/{namespace}/applications/{name}/retry'', retry_application env auth),
      (''POST'', ''/kubernetes/namespaces/{namespace}/clusters'', create_cluster env auth),
      (''DELETE'', ''/kubernetes/namespaces/{namespace}/clusters/{name}'', delete_cluster env auth),
      (''GET'', ''/kubernetes/namespaces/{namespace}/clusters'', list_or_watch_clusters env auth),
      (''GET'', ''/kubernetes/clusters'', list_or_watch_clusters env auth),
      (''GET'', ''/kubernetes/namespaces/{namespace}/clusters/{name}'', read_cluster env auth),
      (''PUT'', ''/kubernetes/namespaces/{namespace}/clusters/{name}'', update_cluster env auth),
      (''PUT'', ''/kubernetes/namespaces/{namespace}/clusters/{name}/binding'', update_cluster_binding env auth),
      (''PUT'', ''/kubernetes/namespaces/{namespace}/clusters/{name}/status'', update_cluster_status env auth)]"

definition infrastructure_routes :: "api_env \<Rightarrow> authorizer \<Rightarrow> (string \<times> string \<times> handler) list" where
  "infrastructure_routes env auth =
     [
      (''POST'', ''/infrastructure/globalinfrastructureproviders'', create_global_infrastructure_provider env auth),
      (''DELETE'', ''/infrastructure/globalinfrastructureproviders/{name}'', delete_global_infrastructure_provider env auth),
      (''GET'', ''/infrastructure/globalinfrastructureproviders'', list_or_watch_global_infrastructure_providers env auth),
      (''GET'', ''/infrastructure/globalinfrastructureproviders/{name}'', read_global_infrastructure_provider env auth),
      (''PUT'', ''/infrastructure/globalinfrastructureproviders/{name}'', update_global_infrastructure_provider env auth),
      (''POST'', ''/infrastructure/namespaces/{namespace}/infrastructureproviders'', create_infrastructure_provider env auth),
      (''DELETE'', ''/infrastructure/namespaces/{namespace}/infrastructureproviders/{name}'', delete_infrastructure_provider env auth),
      (''GET'', ''/infrastructure/namespaces/{namespace}/infrastructureproviders'', list_or_watch_infrastructure_providers env auth),
      (''GET'', ''/infrastructure/infrastructureproviders'', list_or_watch_infrastructure_providers env auth),
      (''GET'', ''/infrastructure/namespaces/{namespace}/infrastructureproviders/{name}'', read_infrastructure_provider env auth),
      (''PUT'', ''/infrastructure/namespaces/{namespace}/infrastructureproviders/{name}'', update_infrastructure_provider env auth),
      (''POST'', ''/infrastructure/globalclouds'', create_global_cloud env auth),
      (''DELETE'', ''/infrastructure/globalclouds/{name}'', delete_global_cloud env auth),
      (''GET'', ''/infrastructure/globalclouds'', list_or_watch_global_clouds env auth),
      (''GET'', ''/infrastructure/globalclouds/{name}'', read_global_cloud env auth),
      (''PUT'', ''/infrastructure/globalclouds/{name}'', update_global_cloud env auth),
      (''PUT'', ''/infrastructure/globalclouds/{name}/status'', update_global_cloud_status env auth),
      (''POST'', ''/infrastructure/namespaces/{namespace}/clouds'', create_cloud env auth),
      (''DELETE'', ''/infrastructure/namespaces/{namespace}/clouds/{name}'', delete_cloud env auth),
      (''GET'', ''/infrastructure/namespaces/{namespace}/clouds'', list_or_watch_clouds env auth),
      (''GET'', ''/infrastructure/clouds'', list_or_watch_clouds env auth),
      (''GET'', ''/infrastructure/namespaces/{namespace}/clouds/{name}'', read_cloud env auth),
      (''PUT'', ''/infrastructure/namespaces/{namespace}/clouds/{name}'', update_cloud env auth),
      (''PUT'', ''/infrastructure/namespaces/{namespace}/clouds/{name}/status'', update_cloud_status env auth)]"

definition openstack_routes :: "api_env \<Rightarrow> authorizer \<Rightarrow> (string \<times> string \<times> handler) list" where
  "openstack_routes env auth =
     [
      (''POST'', ''/openstack/namespaces/{namespace}/magnumclusters'', create_magnum_cluster env auth),
      (''DELETE'', ''/openstack/namespaces/{namespace}/magnumclusters/{name}'', delete_magnum_cluster env auth),
      (''GET'', ''/openstack/namespaces/{namespace}/magnumclusters'', list_or_watch_magnum_clusters env auth),
      (''GET'', ''/openstack/magnumclusters'', list_or_watch_magnum_clusters env auth),
      (''GET'', ''/openstack/namespaces/{namespace}/magnumclusters/{name}'', read_magnum_cluster env auth),
      (''PUT'', ''/openstack/namespaces/{namespace}/magnumclusters/{name}'', update_magnum_cluster env auth),
      (''PUT'', ''/openstack/namespaces/{namespace}/magnumclusters/{name}/binding'', update_magnum_cluster_binding env auth),
      (''PUT'', ''/openstack/namespaces/{namespace}/magnumclusters/{name}/status'', update_magnum_cluster_status env auth),
      (''POST'', ''/openstack/namespaces/{namespace}/projects'', create_project env auth),
      (''DELETE'', ''/openstack/namespaces/{namespace}/projects/{name}'', delete_project env auth),
      (''GET'', ''/openstack/namespaces/{namespace}/projects'', list_or_watch_projects env auth),
      (''GET'', ''/openstack/projects'', list_or_watch_projects env auth),
      (''GET'', ''/openstack/namespaces/{namespace}/projects/{name}'', read_project env auth),
      (''PUT'', ''/openstack/namespaces/{namespace}/projects/{name}'', update_project env auth),
      (''PUT'', ''/openstack/namespaces/{namespace}/projects/{name}/status'', update_project_status env auth)]"

definition endpoints :: "api_env \<Rightarrow> authorizer \<Rightarrow> (string \<times> string \<times> handler) list" where
  "endpoints env auth =
     [(''GET'', ''/me'', me env), (''GET'', ''/release'', release)] @
     core_routes env auth @ kubernetes_routes env auth @ infrastructure_routes env auth @ openstack_routes env auth"

text \<open>The application: every route behind the middlewares.\<close>

definition create_app :: "api_env \<Rightarrow> api_config \<Rightarrow> (exn, (string \<times> string \<times> handler) list) res" where
  "create_app env config =
     res_bind (load_authorizer env (config_authorization config)) (\<lambda>auth.
     Inr (map (\<lambda>(m, p, handler).
         (m, p, serve (load_authentication env (config_strategy config) (config_client_ca config))
            (config_allow_anonymous config) (config_retry config) handler))
       (endpoints env auth)))"

end
