(* ===== verification/Api_Invariant.thy ===== *)
theory Api_Invariant
  imports Api_Endpoints "HOL-Library.Sublist"
begin

text \<open>
  What the API promises of a stored resource: it conforms to its class and has the key of its
  name and namespace; a later version of it keeps its identity, stays in deletion once it is, and
  then only loses finalizers. The changes that the handlers of \<open>Api_Handlers\<close> make keep this.
\<close>

section \<open>Attributes at a path\<close>

definition field_named :: "string \<Rightarrow> fields \<Rightarrow> (field_info \<times> field_type) option" where
  "field_named k fs = List.find (\<lambda>f. field_name (fst f) = k) fs"

fun path_field :: "fields \<Rightarrow> string list \<Rightarrow> (field_info \<times> field_type) option" where
  "path_field fs [] = None"
| "path_field fs [k] = field_named k fs"
| "path_field fs (k # ks) =
     (case field_named k fs of
        Some (i, Serializable_type gs) \<Rightarrow> if nullable i then None else path_field gs ks
      | _ \<Rightarrow> None)"

abbreviation apart :: "string list \<Rightarrow> string list \<Rightarrow> bool" where
  "apart p q \<equiv> \<not> prefix p q \<and> \<not> prefix q p"

lemma get_path_end [simp]: "res_bind r (get_path []) = r"
  by (cases r) simp_all

lemma get_set_attr: "set_attr k x v = Inr w \<Longrightarrow> get_attr k w = Inr x"
  by (cases v) auto

lemma get_set_attr_other: "set_attr k x v = Inr w \<Longrightarrow> l \<noteq> k \<Longrightarrow> get_attr l w = get_attr l v"
  by (cases v) auto

lemma get_set_path: "set_path p x v = Inr w \<Longrightarrow> get_path p w = Inr x"
  by (induction p x v arbitrary: w rule: set_path.induct) (auto simp: get_set_attr res_bind_Inr_iff)

lemma get_set_path_other: "set_path p x v = Inr w \<Longrightarrow> apart p q \<Longrightarrow> get_path q w = get_path q v"
proof (induction p x v arbitrary: w q rule: set_path.induct)
  case (2 k x v)
  then obtain l ls where q: "q = l # ls" "l \<noteq> k" by (cases q) auto
  then show ?case using 2 by (simp add: get_set_attr_other)
next
  case (3 k k' ks x v)
  then obtain l ls where q: "q = l # ls" by (cases q) auto
  from "3.prems"(1) obtain u u' where u: "get_attr k v = Inr u" "set_path (k' # ks) x u = Inr u'" "set_attr k u' v = Inr w"
    by (auto simp: res_bind_Inr_iff)
  show ?case
  proof (cases "l = k")
    case True
    with "3.prems"(2) q have "apart (k' # ks) ls" by simp
    from "3.IH" [OF u(1,2) this] show ?thesis using q True u get_set_attr [OF u(3)] by simp
  next
    case False
    then show ?thesis using q get_set_attr_other [OF u(3)] by simp
  qed
qed simp

lemma field_named_get:
  assumes "distinct (names fs)" and "conforms (Serializable_type fs) v" and "field_named k fs = Some f"
  shows "f \<in> set fs" and "field_name (fst f) = k" and "\<exists>x. get_attr k v = Inr x \<and> accepts f x"
proof -
  from assms(3) show f: "f \<in> set fs" "field_name (fst f) = k"
    unfolding field_named_def by (auto simp: find_Some_iff)
  from assms(2) obtain xs where v: "v = Obj (zip (names fs) xs)" and xs: "list_all2 accepts fs xs"
    unfolding conforms_object by blast
  from f(1) obtain n where n: "n < length fs" "fs ! n = f" by (auto simp: in_set_conv_nth)
  have len: "length xs = length fs" using xs by (auto dest: list_all2_lengthD)
  have "get_attr (names fs ! n) v = Inr (xs ! n)" unfolding v by (rule get_attr_zip) (use assms(1) n len in auto)
  moreover have "names fs ! n = k" using n f(2) by (simp add: case_prod_beta)
  moreover have "accepts f (xs ! n)" using list_all2_nthD [OF xs n(1)] n(2) by simp
  ultimately show "\<exists>x. get_attr k v = Inr x \<and> accepts f x" by auto
qed

lemma field_named_set:
  assumes "distinct (names fs)" and "conforms (Serializable_type fs) v" and "field_named k fs = Some f" and "accepts f x"
  shows "\<exists>w. set_attr k x v = Inr w \<and> conforms (Serializable_type fs) w"
proof -
  from field_named_get [OF assms(1-3)] have f: "f \<in> set fs" "field_name (fst f) = k" by auto
  from assms(2) obtain xs where v: "v = Obj (zip (names fs) xs)" and xs: "list_all2 accepts fs xs"
    unfolding conforms_object by blast
  from f(1) obtain n where n: "n < length fs" "fs ! n = f" by (auto simp: in_set_conv_nth)
  have len: "length xs = length fs" using xs by (auto dest: list_all2_lengthD)
  have k: "names fs ! n = k" using n f(2) by (simp add: case_prod_beta)
  have split: "zip (names fs) ys = take n (zip (names fs) ys) @ (k, ys ! n) # drop (Suc n) (zip (names fs) ys)"
    if "length ys = length fs" for ys
    using id_take_nth_drop [of n "zip (names fs) ys"] n(1) k that by simp
  have fresh: "k \<notin> fst ` set (take n (zip (names fs) xs))"
  proof
    assume "k \<in> fst ` set (take n (zip (names fs) xs))"
    then obtain m where "m < n" "names fs ! m = k" using n(1) len by (auto simp: in_set_conv_nth)
    with assms(1) n(1) k show False using nth_eq_iff_index_eq [of "names fs" m n] by simp
  qed
  have "dict_set k x (zip (names fs) xs) = take n (zip (names fs) xs) @ (k, x) # drop (Suc n) (zip (names fs) xs)"
    by (subst split [OF len]) (rule dict_set_middle [OF fresh])
  also have "\<dots> = zip (names fs) (xs[n := x])"
    using split [of "xs[n := x]"] n(1) len by (simp add: take_zip drop_zip)
  finally have "set_attr k x v = Inr (Obj (zip (names fs) (xs[n := x])))" using v by simp
  moreover have "list_all2 accepts fs (xs[n := x])"
    using list_all2_update_cong [OF xs, of f x n] assms(4) n by (metis list_update_id)
  ultimately show ?thesis unfolding conforms_object by blast
qed

lemma path_field_get:
  assumes "well_named (Serializable_type fs)" and "conforms (Serializable_type fs) v" and "path_field fs p = Some f"
  shows "\<exists>x. get_path p v = Inr x \<and> accepts f x"
  using assms
proof (induction fs p arbitrary: v rule: path_field.induct)
  case (2 fs k)
  from field_named_get(3) [of fs v k f] 2 show ?case by auto
next
  case (3 fs k k' ks)
  from "3.prems"(3) obtain i gs where g: "field_named k fs = Some (i, Serializable_type gs)" "\<not> nullable i"
    "path_field gs (k' # ks) = Some f"
    by (auto split: option.splits prod.splits field_type.splits if_splits)
  have d: "distinct (names fs)" using "3.prems"(1) by simp
  from field_named_get [OF d "3.prems"(2) g(1)] obtain x where x: "get_attr k v = Inr x" "accepts (i, Serializable_type gs) x"
    and mem: "(i, Serializable_type gs) \<in> set fs"
    by auto
  have c: "conforms (Serializable_type gs) x" using x(2) g(2) by (simp add: accepts_def del: conforms.simps)
  have wn: "well_named (Serializable_type gs)" by (rule well_named_field [OF "3.prems"(1) mem])
  from "3.IH" [OF g(1) refl refl g(2) wn c g(3)] show ?case using x(1) by simp
qed simp

lemma path_field_set:
  assumes "well_named (Serializable_type fs)" and "conforms (Serializable_type fs) v" and "path_field fs p = Some f"
    and "accepts f x"
  shows "\<exists>w. set_path p x v = Inr w \<and> conforms (Serializable_type fs) w"
  using assms
proof (induction fs p arbitrary: v rule: path_field.induct)
  case (2 fs k)
  from field_named_set [of fs v k f x] 2 show ?case by auto
next
  case (3 fs k k' ks)
  from "3.prems"(3) obtain i gs where g: "field_named k fs = Some (i, Serializable_type gs)" "\<not> nullable i"
    "path_field gs (k' # ks) = Some f"
    by (auto split: option.splits prod.splits field_type.splits if_splits)
  have d: "distinct (names fs)" using "3.prems"(1) by simp
  from field_named_get [OF d "3.prems"(2) g(1)] obtain u where u: "get_attr k v = Inr u" "accepts (i, Serializable_type gs) u"
    and mem: "(i, Serializable_type gs) \<in> set fs"
    by auto
  have c: "conforms (Serializable_type gs) u" using u(2) g(2) by (simp add: accepts_def del: conforms.simps)
  have wn: "well_named (Serializable_type gs)" by (rule well_named_field [OF "3.prems"(1) mem])
  from "3.IH" [OF g(1) refl refl g(2) wn c g(3) "3.prems"(4)] obtain u' where
    u': "set_path (k' # ks) x u = Inr u'" "conforms (Serializable_type gs) u'"
    by blast
  have "accepts (i, Serializable_type gs) u'" using u'(2) by (simp add: accepts_def del: conforms.simps)
  from field_named_set [OF d "3.prems"(2) g(1) this] show ?case using u(1) u'(1) by simp
qed simp

section \<open>The life of a resource\<close>

definition identity_paths :: "string list list" where
  "identity_paths =
     [[''metadata'', ''name''], [''metadata'', ''namespace''], [''metadata'', ''uid''], [''metadata'', ''created'']]"

definition in_deletion :: "yaml \<Rightarrow> bool" where
  "in_deletion v \<longleftrightarrow> is_deleted v = Inr True"

definition finalizers_of :: "yaml \<Rightarrow> yaml list" where
  "finalizers_of v = (case get_path [''metadata'', ''finalizers''] v of Inr (Arr xs) \<Rightarrow> xs | _ \<Rightarrow> [])"

text \<open>The second value is a later version of the first.\<close>

definition later :: "yaml \<Rightarrow> yaml \<Rightarrow> bool" where
  "later v w \<longleftrightarrow>
     list_all (\<lambda>p. get_path p w = get_path p v) identity_paths \<and>
     (in_deletion v \<longrightarrow> in_deletion w \<and> set (finalizers_of w) \<subseteq> set (finalizers_of v))"

lemma later_refl [simp]: "later v v"
  by (simp add: later_def list_all_iff)

lemma later_trans [trans]: "later u v \<Longrightarrow> later v w \<Longrightarrow> later u w"
  by (auto simp: later_def list_all_iff)

text \<open>A resource is stored under the key of its class, as an object of its class.\<close>

definition well_stored :: "api_class \<Rightarrow> string \<Rightarrow> yaml \<Rightarrow> bool" where
  "well_stored c k v \<longleftrightarrow> conforms (class_type c) v \<and> format_object (class_key c) v = Inr k"

lemma metadata_field:
  assumes "c \<in> set api_classes"
  shows "path_field (class_fields c) [''metadata'', n] = field_named n metadata_fields"
proof -
  have "list_all (\<lambda>c. field_named ''metadata'' (class_fields c) = Some (plain ''metadata'', Serializable_type metadata_fields))
      api_classes"
    by code_simp
  then have "field_named ''metadata'' (class_fields c) = Some (plain ''metadata'', Serializable_type metadata_fields)"
    using assms by (simp add: list_all_iff)
  then show ?thesis by (simp add: plain_def)
qed

lemma metadata_fields_named:
  "field_named ''name'' metadata_fields = Some ((plain ''name'')\<lparr>immutable := True\<rparr>, String_field)"
  "field_named ''namespace'' metadata_fields = Some ((optional ''namespace'' Null)\<lparr>immutable := True\<rparr>, String_field)"
  "field_named ''finalizers'' metadata_fields = Some (optional ''finalizers'' (Arr []), List_of String_field)"
  "field_named ''created'' metadata_fields = Some ((plain ''created'')\<lparr>readonly := True\<rparr>, Date_field)"
  "field_named ''uid'' metadata_fields = Some ((plain ''uid'')\<lparr>readonly := True\<rparr>, String_field)"
  "field_named ''modified'' metadata_fields = Some ((plain ''modified'')\<lparr>readonly := True\<rparr>, Date_field)"
  "field_named ''deleted'' metadata_fields = Some ((optional ''deleted'' Null)\<lparr>readonly := True\<rparr>, Date_field)"
  "field_named ''owners'' metadata_fields = Some (optional ''owners'' (Arr []), List_of (Serializable_type resource_ref_fields))"
  by code_simp+

lemma metadata_get:
  assumes "c \<in> set api_classes" and "conforms (class_type c) v" and "field_named n metadata_fields = Some f"
  shows "\<exists>x. get_path [''metadata'', n] v = Inr x \<and> accepts f x"
  by (rule path_field_get [OF api_classes_well_named [OF assms(1)] assms(2)]) (simp only: metadata_field [OF assms(1)] assms(3))

lemma get_finalizers:
  assumes "c \<in> set api_classes" and "conforms (class_type c) v"
  shows "get_path [''metadata'', ''finalizers''] v = Inr (Arr (finalizers_of v))"
    and "list_all (conforms String_field) (finalizers_of v)"
proof -
  from metadata_get [OF assms metadata_fields_named(3)] obtain x where
    x: "get_path [''metadata'', ''finalizers''] v = Inr x" "accepts (optional ''finalizers'' (Arr []), List_of String_field) x"
    by blast
  from x(2) obtain xs where xs: "x = Arr xs" "list_all (conforms String_field) xs"
    by (auto simp: accepts_def optional_def split: yaml.splits)
  with x(1) show "get_path [''metadata'', ''finalizers''] v = Inr (Arr (finalizers_of v))"
    and "list_all (conforms String_field) (finalizers_of v)"
    by (simp_all add: finalizers_of_def)
qed

lemma get_deleted:
  assumes "c \<in> set api_classes" and "conforms (class_type c) v"
  shows "is_deleted v = Inr (in_deletion v)"
proof -
  from metadata_get [OF assms metadata_fields_named(7)] obtain x where "get_path [''metadata'', ''deleted''] v = Inr x" by blast
  then show ?thesis by (simp add: in_deletion_def is_deleted_def)
qed

lemma in_deletion_cong: "get_path [''metadata'', ''deleted''] w = get_path [''metadata'', ''deleted''] v \<Longrightarrow> in_deletion w = in_deletion v"
  by (simp add: in_deletion_def is_deleted_def)

lemma finalizers_of_cong:
  "get_path [''metadata'', ''finalizers''] w = get_path [''metadata'', ''finalizers''] v \<Longrightarrow> finalizers_of w = finalizers_of v"
  by (simp add: finalizers_of_def)

text \<open>The key depends on the name and the namespace only.\<close>

lemma format_parts_cong:
  "(\<And>n. Param n \<in> set ps \<Longrightarrow> f n = g n) \<Longrightarrow> format_parts f ps = format_parts g ps"
proof (induction ps)
  case (Cons p ps)
  then show ?case by (cases p) auto
qed simp

lemma key_params:
  assumes "c \<in> set api_classes" and "Param n \<in> set (key_parts (class_key c))"
  shows "n \<in> {''name'', ''namespace''}"
proof -
  have "list_all (\<lambda>c. list_all (\<lambda>p. case p of Param n \<Rightarrow> n = ''name'' \<or> n = ''namespace'' | _ \<Rightarrow> True) (key_parts (class_key c))) api_classes"
    by code_simp
  with assms show ?thesis by (auto simp: list_all_iff dest!: bspec [of _ _ c] bspec [of _ _ "Param n"])
qed

lemma later_key:
  assumes "c \<in> set api_classes" and "conforms (class_type c) v" and "conforms (class_type c) w" and "later v w"
  shows "format_object (class_key c) w = format_object (class_key c) v"
proof -
  have same: "get_path [''metadata'', n] w = get_path [''metadata'', n] v" if "n \<in> {''name'', ''namespace''}" for n
    using assms(4) that by (auto simp: later_def identity_paths_def)
  have meta: "\<exists>m. get_attr ''metadata'' u = Inr m" if "conforms (class_type c) u" for u
    using metadata_get [OF assms(1) that metadata_fields_named(1)] by (auto simp: res_bind_Inr_iff)
  from meta [OF assms(2)] meta [OF assms(3)] obtain m m' where
    m: "get_attr ''metadata'' v = Inr m" "get_attr ''metadata'' w = Inr m'"
    by blast
  have "get_attr n m' = get_attr n m" if "n \<in> {''name'', ''namespace''}" for n
    using same [OF that] m by (simp del: get_attr.simps)
  then have "format_parts (\<lambda>n. res_bind (get_attr n m') key_text) (key_parts (class_key c)) =
      format_parts (\<lambda>n. res_bind (get_attr n m) key_text) (key_parts (class_key c))"
    by (intro format_parts_cong) (use key_params [OF assms(1)] in auto)
  then show ?thesis using m by (simp add: format_object_def del: get_attr.simps)
qed

lemma later_well_stored:
  assumes "c \<in> set api_classes" and "well_stored c k v" and "conforms (class_type c) w" and "later v w"
  shows "well_stored c k w"
  using later_key [OF assms(1) _ assms(3,4)] assms(2,3) by (simp add: well_stored_def)

section \<open>The changes of the handlers\<close>

text \<open>A change that keeps the class and leads to a later version.\<close>

definition develops :: "api_class \<Rightarrow> yaml \<Rightarrow> (exn, yaml) res \<Rightarrow> bool" where
  "develops c v r \<longleftrightarrow> (\<forall>w. r = Inr w \<longrightarrow> conforms (class_type c) w \<and> later v w)"

lemma developsI: "(\<And>w. r = Inr w \<Longrightarrow> conforms (class_type c) w \<and> later v w) \<Longrightarrow> develops c v r"
  by (simp add: develops_def)

lemma develops_error [simp]: "develops c v (Inl e)"
  by (simp add: develops_def)

lemma develops_self: "conforms (class_type c) v \<Longrightarrow> develops c v (Inr v)"
  by (simp add: develops_def)

lemma develops_bind:
  assumes "develops c v r" and "\<And>w. conforms (class_type c) w \<Longrightarrow> later v w \<Longrightarrow> r = Inr w \<Longrightarrow> develops c w (f w)"
  shows "develops c v (res_bind r f)"
  using assms unfolding develops_def by (cases r) (auto intro: later_trans)

lemma develops_after: "(\<And>x. r = Inr x \<Longrightarrow> develops c v (f x)) \<Longrightarrow> develops c v (res_bind r f)"
  by (cases r) simp_all

text \<open>An attribute that has no say in the life of the resource.\<close>

definition free_path :: "string list \<Rightarrow> bool" where
  "free_path p \<longleftrightarrow>
     list_all (apart p) ([''metadata'', ''deleted''] # [''metadata'', ''finalizers''] # identity_paths)"

lemma develops_set:
  assumes "c \<in> set api_classes" and "conforms (class_type c) v" and "path_field (class_fields c) p = Some f"
    and "accepts f x" and "free_path p"
  shows "develops c v (set_path p x v)"
proof (rule developsI)
  fix w assume w: "set_path p x v = Inr w"
  from path_field_set [OF api_classes_well_named [OF assms(1)] assms(2-4)] w have "conforms (class_type c) w" by simp
  moreover have "get_path q w = get_path q v" if "apart p q" for q by (rule get_set_path_other [OF w that])
  then have "later v w"
    using assms(5) in_deletion_cong [of w v] finalizers_of_cong [of w v]
    by (auto simp: later_def free_path_def identity_paths_def simp del: get_path.simps)
  ultimately show "conforms (class_type c) w \<and> later v w" ..
qed

lemma develops_set_deleted:
  assumes "c \<in> set api_classes" and "conforms (class_type c) v"
  shows "develops c v (set_path [''metadata'', ''deleted''] (Integer t) v)"
proof (rule developsI)
  fix w assume w: "set_path [''metadata'', ''deleted''] (Integer t) v = Inr w"
  have "path_field (class_fields c) [''metadata'', ''deleted''] = Some ((optional ''deleted'' Null)\<lparr>readonly := True\<rparr>, Date_field)"
    by (simp add: metadata_field [OF assms(1)] metadata_fields_named del: path_field.simps)
  from path_field_set [OF api_classes_well_named [OF assms(1)] assms(2) this, of "Integer t"] w
  have "conforms (class_type c) w" by (simp add: accepts_def)
  moreover have "in_deletion w" using get_set_path [OF w] by (simp add: in_deletion_def is_deleted_def del: get_path.simps)
  moreover have "get_path q w = get_path q v" if "apart [''metadata'', ''deleted''] q" for q by (rule get_set_path_other [OF w that])
  then have "list_all (\<lambda>p. get_path p w = get_path p v) identity_paths" "finalizers_of w = finalizers_of v"
    using finalizers_of_cong [of w v] by (auto simp: identity_paths_def simp del: get_path.simps)
  ultimately show "conforms (class_type c) w \<and> later v w" by (simp add: later_def)
qed

text \<open>The settings of the handlers.\<close>

definition settable :: "api_class \<Rightarrow> string list \<Rightarrow> yaml \<Rightarrow> bool" where
  "settable c p x \<longleftrightarrow> free_path p \<and> (case path_field (class_fields c) p of None \<Rightarrow> False | Some f \<Rightarrow> accepts f x)"

lemma develops_settable:
  assumes "c \<in> set api_classes" and "conforms (class_type c) v" and "settable c p x"
  shows "develops c v (set_path p x v)"
  using assms(3) unfolding settable_def
  by (auto split: option.splits intro: develops_set [OF assms(1,2)])

lemma controlled_classes: "application_class \<in> set api_classes" "cluster_class \<in> set api_classes" "magnum_cluster_class \<in> set api_classes"
  by (simp_all add: api_classes_def)

lemma settable_application:
  "settable application_class [''status'', ''scheduled''] (Integer t)"
  "settable application_class [''status'', ''kube_controller_triggered''] (Integer t)"
  "settable application_class [''status'', ''state''] (Text ''WAITING_FOR_CLEANING'')"
  "settable application_class [''status'', ''state''] (Text ''READY_FOR_ACTION'')"
  "settable application_class [''status'', ''shutdown_grace_period''] Null"
  by code_simp+

lemma settable_cluster: "settable cluster_class [''status'', ''scheduled''] (Integer t)"
  by code_simp

lemma settable_modified: "c \<in> set api_classes \<Longrightarrow> settable c [''metadata'', ''modified''] (Integer t)"
  unfolding settable_def metadata_field metadata_fields_named
  by (simp add: accepts_def free_path_def identity_paths_def)

abbreviation is_ref :: "yaml \<Rightarrow> bool" where
  "is_ref \<equiv> conforms (Serializable_type resource_ref_fields)"

lemma settable_ref:
  assumes "is_ref x"
  shows "settable application_class [''status'', ''scheduled_to''] x"
    and "settable cluster_class [''status'', ''scheduled_to''] x"
    and "settable magnum_cluster_class [''status'', ''project''] x"
proof -
  have f: "path_field (class_fields application_class) [''status'', ''scheduled_to''] = Some (optional_ref ''scheduled_to'')"
    "path_field (class_fields cluster_class) [''status'', ''scheduled_to''] = Some (optional_ref ''scheduled_to'')"
    "path_field (class_fields magnum_cluster_class) [''status'', ''project''] = Some (optional_ref ''project'')"
    by code_simp+
  show "settable application_class [''status'', ''scheduled_to''] x"
    and "settable cluster_class [''status'', ''scheduled_to''] x"
    and "settable magnum_cluster_class [''status'', ''project''] x"
    using assms unfolding settable_def f
    by (simp_all add: accepts_def optional_ref_def free_path_def identity_paths_def del: conforms.simps)
qed

lemma settable_template:
  assumes "conforms String_field x"
  shows "settable magnum_cluster_class [''status'', ''template''] x"
proof -
  have f: "path_field (class_fields magnum_cluster_class) [''status'', ''template''] =
      Some ((optional ''template'' Null)\<lparr>immutable := True\<rparr>, String_field)"
    by code_simp
  show ?thesis using assms unfolding settable_def f
    by (simp add: accepts_def free_path_def identity_paths_def)
qed

lemma settable_owners:
  assumes "c \<in> set api_classes" and "list_all is_ref xs"
  shows "settable c [''metadata'', ''owners''] (Arr xs)"
  using assms(2) unfolding settable_def metadata_field [OF assms(1)] metadata_fields_named
  by (simp add: accepts_def free_path_def identity_paths_def)

lemma get_owners:
  assumes "c \<in> set api_classes" and "conforms (class_type c) v"
  obtains xs where "get_path [''metadata'', ''owners''] v = Inr (Arr xs)" and "list_all is_ref xs"
proof -
  from metadata_get [OF assms metadata_fields_named(8)] obtain x where
    x: "get_path [''metadata'', ''owners''] v = Inr x"
      "accepts (optional ''owners'' (Arr []), List_of (Serializable_type resource_ref_fields)) x"
    by blast
  from x(2) obtain xs where "x = Arr xs" "list_all is_ref xs"
    unfolding accepts_def optional_def by (cases x) auto
  with x(1) show ?thesis by (blast intro: that)
qed

lemma develops_add_owner:
  assumes "c \<in> set api_classes" and "conforms (class_type c) v" and "is_ref ref"
  shows "develops c v (add_owner ref v)"
proof -
  from get_owners [OF assms(1,2)] obtain xs where xs: "get_path [''metadata'', ''owners''] v = Inr (Arr xs)" "list_all is_ref xs" .
  have "settable c [''metadata'', ''owners''] (Arr (xs @ [ref]))"
    by (rule settable_owners [OF assms(1)]) (use xs(2) assms(3) in \<open>simp del: conforms.simps\<close>)
  from develops_settable [OF assms(1,2) this] develops_self [OF assms(2)] show ?thesis
    unfolding add_owner_def xs(1) by (simp del: set_path.simps)
qed

lemma develops_marked_deleted:
  assumes "c \<in> set api_classes" and "conforms (class_type c) v" and "\<not> in_deletion v"
  shows "develops c v (marked_deleted t v)"
proof (rule developsI)
  fix w assume "marked_deleted t v = Inr w"
  then obtain u fs where u: "set_path [''metadata'', ''deleted''] (Integer t) v = Inr u"
    and fs: "res_bind (get_path [''metadata'', ''finalizers''] u) (append_item (Text ''cascade_deletion'')) = Inr fs"
    and w: "set_path [''metadata'', ''finalizers''] fs u = Inr w"
    unfolding marked_deleted_def res_bind_Inr_iff by blast
  from develops_set_deleted [OF assms(1,2)] u have c: "conforms (class_type c) u" and l: "later v u"
    by (auto simp: develops_def)
  note g = get_finalizers [OF assms(1) c]
  from fs g(1) have fs: "fs = Arr (finalizers_of u @ [Text ''cascade_deletion''])" by (simp del: get_path.simps)
  have "path_field (class_fields c) [''metadata'', ''finalizers''] = Some (optional ''finalizers'' (Arr []), List_of String_field)"
    by (simp only: metadata_field [OF assms(1)] metadata_fields_named)
  from path_field_set [OF api_classes_well_named [OF assms(1)] c this, of fs] w g(2)
  have "conforms (class_type c) w" by (simp add: accepts_def fs)
  moreover have "get_path q w = get_path q u" if "apart [''metadata'', ''finalizers''] q" for q
    by (rule get_set_path_other [OF w that])
  then have "later v w" using l assms(3) by (auto simp: later_def identity_paths_def simp del: get_path.simps)
  ultimately show "conforms (class_type c) w \<and> later v w" ..
qed

lemma develops_await_shutdown:
  assumes "conforms (class_type application_class) v"
  shows "develops application_class v (await_shutdown v)"
  unfolding await_shutdown_def
  using develops_settable [OF controlled_classes(1) assms settable_application(3)] develops_self [OF assms]
  by (intro develops_after) (simp del: set_path.simps)

lemma develops_bound_application:
  assumes "conforms (class_type application_class) v" and "is_ref ref"
  shows "develops application_class v (bound_application t ref v)"
  unfolding bound_application_def
  by (intro develops_bind develops_settable develops_add_owner controlled_classes settable_application settable_ref assms)

lemma develops_bound_cluster:
  assumes "conforms (class_type cluster_class) v" and "is_ref ref"
  shows "develops cluster_class v (bound_cluster t ref v)"
  unfolding bound_cluster_def
  by (intro develops_bind develops_settable develops_add_owner controlled_classes settable_cluster settable_ref assms)

lemma develops_bound_magnum_cluster:
  assumes "conforms (class_type magnum_cluster_class) v" and "is_ref ref" and "conforms String_field template"
  shows "develops magnum_cluster_class v (bound_magnum_cluster ref template v)"
  unfolding bound_magnum_cluster_def
  by (intro develops_bind develops_settable develops_add_owner controlled_classes settable_template settable_ref assms)

lemma develops_completed:
  assumes "conforms (class_type application_class) v"
  shows "develops application_class v (completed t v)"
  unfolding completed_def
  by (intro develops_bind develops_settable develops_set_deleted controlled_classes settable_application assms)

lemma develops_shut_down:
  assumes "conforms (class_type application_class) v"
  shows "develops application_class v (shut_down v)"
proof -
  have "develops application_class v
      (res_bind (set_path [''status'', ''state''] (Text ''READY_FOR_ACTION'') v)
        (set_path [''status'', ''shutdown_grace_period''] Null))"
    by (intro develops_bind develops_settable controlled_classes settable_application assms)
  with develops_self [OF assms] show ?thesis
    unfolding shut_down_def by (intro develops_after) (simp del: set_path.simps)
qed

lemma develops_retried:
  assumes "conforms (class_type application_class) v"
  shows "develops application_class v (retried v)"
proof -
  have "develops application_class v
      (res_bind (set_path [''status'', ''state''] (Text ''WAITING_FOR_CLEANING'') v)
        (set_path [''status'', ''shutdown_grace_period''] Null))"
    by (intro develops_bind develops_settable controlled_classes settable_application assms)
  then show ?thesis
    unfolding retried_def by (intro develops_after) (simp del: set_path.simps)
qed

text \<open>An update that the check of the finalizers lets through.\<close>

lemma list_all_subset: "list_all (\<lambda>x. x \<in> A) xs \<longleftrightarrow> set xs \<subseteq> A"
  by (auto simp: list_all_iff)

lemma check_finalizersD:
  assumes "c \<in> set api_classes" and "conforms (class_type c) v" and "conforms (class_type c) body"
    and "check_finalizers body v = Inr ()" and "in_deletion v"
  shows "set (finalizers_of body) \<subseteq> set (finalizers_of v)"
  using assms(4,5) get_finalizers(1) [OF assms(1,2)] get_finalizers(1) [OF assms(1,3)]
  by (simp add: check_finalizers_def only_removes_finalizers_def in_deletion_def list_all_subset
      del: get_path.simps split: if_splits)

lemma develops_updated:
  assumes "c \<in> set api_classes" and "conforms (class_type c) v" and "conforms (class_type c) body"
    and "check_finalizers body v = Inr ()"
  shows "develops c v (updated (class_fields c) v body)"
proof (rule developsI)
  fix w assume "updated (class_fields c) v body = Inr w"
  then have w: "update_object (class_fields c) v body = Inr w" by (simp add: updated_def split: sum.splits)
  note wn = api_classes_well_named [OF assms(1)]
  have keeps: "get_path p w = get_path p v" if "p \<in> set api_controlled" for p
    by (rule update_object_keeps [OF wn assms(2,3) w api_controlled_protected [OF assms(1) that]])
  have "in_deletion w = in_deletion v"
    by (rule in_deletion_cong) (rule keeps, simp add: api_controlled_def)
  moreover have "finalizers_of w = finalizers_of body"
    by (rule finalizers_of_cong, rule update_object_takes [OF wn assms(2,3) w user_controlled_updated [OF assms(1)]])
      (simp add: user_controlled_def)
  moreover have "list_all (\<lambda>p. get_path p w = get_path p v) identity_paths"
    unfolding list_all_iff by (intro ballI keeps) (auto simp: identity_paths_def api_controlled_def)
  moreover have "conforms (class_type c) w" by (rule update_object_conforms [OF wn assms(2,3) w])
  ultimately show "conforms (class_type c) w \<and> later v w"
    using check_finalizersD [OF assms] by (simp add: later_def del: conforms.simps)
qed

lemma status_fields:
  assumes "c \<in> set api_classes" and "field_named ''status'' (class_fields c) \<noteq> None"
  obtains i where "field_named ''status'' (class_fields c) = Some (i, Serializable_type (status_type c))" and "\<not> nullable i"
proof -
  have "list_all (\<lambda>c. case field_named ''status'' (class_fields c) of
      None \<Rightarrow> True | Some (i, t) \<Rightarrow> t = Serializable_type (status_type c) \<and> \<not> nullable i) api_classes"
    by code_simp
  then have "case field_named ''status'' (class_fields c) of
      None \<Rightarrow> True | Some (i, t) \<Rightarrow> t = Serializable_type (status_type c) \<and> \<not> nullable i"
    using assms(1) by (simp add: list_all_iff)
  with assms(2) show ?thesis using that by (auto split: option.splits prod.splits)
qed

lemma develops_status_updated:
  assumes "c \<in> set api_classes" and "field_named ''status'' (class_fields c) \<noteq> None"
    and "conforms (class_type c) v" and "conforms (class_type c) body"
  shows "develops c v (status_updated c v body)"
proof -
  from status_fields [OF assms(1,2)] obtain i where
    i: "field_named ''status'' (class_fields c) = Some (i, Serializable_type (status_type c))" "\<not> nullable i" .
  note wn = api_classes_well_named [OF assms(1)]
  have d: "distinct (names (class_fields c))" using wn by simp
  have get: "\<exists>x. get_attr ''status'' u = Inr x \<and> conforms (Serializable_type (status_type c)) x"
    if "conforms (class_type c) u" for u
    using field_named_get(3) [OF d that i(1)] i(2) by (auto simp: accepts_def simp del: conforms.simps)
  have wns: "well_named (Serializable_type (status_type c))"
    by (rule well_named_field [OF wn field_named_get(1) [OF d assms(3) i(1)]])
  from get [OF assms(3)] get [OF assms(4)] obtain dest source where
    dest: "get_attr ''status'' v = Inr dest" "conforms (Serializable_type (status_type c)) dest" and
    source: "get_attr ''status'' body = Inr source" "conforms (Serializable_type (status_type c)) source"
    by blast
  show ?thesis
    unfolding status_updated_def dest(1) source(1) res_bind.simps
  proof (rule develops_after)
    fix x assume "updated (status_type c) dest source = Inr x"
    then have "update_object (status_type c) dest source = Inr x" by (simp add: updated_def split: sum.splits)
    from update_object_conforms [OF wns dest(2) source(2) this] have "settable c [''status''] x"
      unfolding settable_def path_field.simps i(1)
      by (simp add: accepts_def free_path_def identity_paths_def del: conforms.simps)
    from develops_settable [OF assms(1,3) this] show "develops c v (set_attr ''status'' x v)" by simp
  qed
qed

end
