(* ===== verification/Api_Creation.thy ===== *)
theory Api_Creation
  imports Api_Invariant
begin

text \<open>
  The object that a request to create a resource stores conforms to its class: the schema of the
  request leaves out what only the API sets, and the handler sets it.
\<close>

section \<open>Objects by their attributes\<close>

lemma field_named_own:
  assumes "distinct (names fs)" and "f \<in> set fs"
  shows "field_named (field_name (fst f)) fs = Some f"
  using assms
proof (induction fs)
  case (Cons g fs)
  show ?case
  proof (cases "f = g")
    case False
    with Cons.prems have "field_name (fst f) \<noteq> field_name (fst g)" by (cases g; cases f) force
    with False Cons show ?thesis by (auto simp: field_named_def)
  qed (simp add: field_named_def)
qed simp

lemma conforms_iff_get:
  assumes "distinct (names fs)"
  shows "conforms (Serializable_type fs) (Obj d) \<longleftrightarrow>
    map fst d = names fs \<and> (\<forall>f \<in> set fs. \<exists>x. dict_get d (field_name (fst f)) = Some x \<and> accepts f x)"
proof
  assume c: "conforms (Serializable_type fs) (Obj d)"
  have "\<exists>x. dict_get d (field_name (fst f)) = Some x \<and> accepts f x" if "f \<in> set fs" for f
  proof -
    from field_named_get(3) [OF assms c field_named_own [OF assms that]] show ?thesis
      by (auto split: option.splits)
  qed
  with c show "map fst d = names fs \<and> (\<forall>f \<in> set fs. \<exists>x. dict_get d (field_name (fst f)) = Some x \<and> accepts f x)"
    by simp
next
  assume r: "map fst d = names fs \<and> (\<forall>f \<in> set fs. \<exists>x. dict_get d (field_name (fst f)) = Some x \<and> accepts f x)"
  then have len: "length d = length fs" by (metis length_map)
  have "accepts (fs ! n) (map snd d ! n)" if n: "n < length fs" for n
  proof -
    from r n obtain x where x: "dict_get d (field_name (fst (fs ! n))) = Some x" "accepts (fs ! n) x" by fastforce
    have "fst (d ! n) = field_name (fst (fs ! n))"
      using r n len by (metis (mono_tags, lifting) case_prod_beta nth_map)
    moreover have "(fst (d ! n), snd (d ! n)) \<in> set d" using n len by simp
    then have "dict_get d (fst (d ! n)) = Some (snd (d ! n))" using r assms by (intro map_of_is_SomeI) simp_all
    ultimately show ?thesis using x n len by simp
  qed
  then have "list_all2 accepts fs (map snd d)" using len by (simp add: list_all2_conv_all_nth)
  moreover have "d = zip (names fs) (map snd d)" using r by (metis zip_map_fst_snd)
  ultimately show "conforms (Serializable_type fs) (Obj d)" unfolding conforms_object by auto
qed

section \<open>What the schema of a creation leaves out\<close>

function (sequential) untouched :: "string list \<Rightarrow> string \<Rightarrow> fields \<Rightarrow> bool" where
  "untouched ignored pre fs \<longleftrightarrow>
     list_all (\<lambda>f. pre @ CHR ''.'' # field_name (fst f) \<notin> set ignored \<and>
       (case snd f of Serializable_type gs \<Rightarrow> untouched ignored (pre @ CHR ''.'' # field_name (fst f)) gs | _ \<Rightarrow> True)) fs"
  by pat_completeness auto

termination
proof (relation "measure (\<lambda>(ignored, pre, fs). size_list (size_prod (\<lambda>_. 0) size) fs)", goal_cases)
  case (2 ignored pre fs f gs)
  then have "size_prod (\<lambda>_. 0) size f \<le> size_list (size_prod (\<lambda>_. 0) size) fs" by (simp add: size_list_estimation')
  then show ?case using 2 by (cases f) simp
qed simp

lemma conforms_untouched:
  assumes "untouched ignored pre fs" and "conforms_without ignored (Some pre) fs v"
  shows "conforms (Serializable_type fs) v"
  using assms
proof (induction v arbitrary: pre fs rule: measure_induct_rule [of size])
  case (less v)
  from less.prems(2) obtain d where d: "v = Obj d" "map fst d = names fs" by (cases v) auto
  have len: "length d = length fs" using d(2) by (metis length_map)
  have "snd (d ! n) = Null \<and> nullable (fst (fs ! n)) \<or> conforms (snd (fs ! n)) (snd (d ! n))" if n: "n < length fs" for n
  proof -
    let ?n = "pre @ CHR ''.'' # field_name (fst (fs ! n))"
    from less.prems(1) n have u: "?n \<notin> set ignored"
      "case snd (fs ! n) of Serializable_type gs \<Rightarrow> untouched ignored ?n gs | _ \<Rightarrow> True"
      by (auto simp: list_all_length simp del: untouched.simps simp: untouched.simps [of ignored pre fs])
    have w:
      "if snd (d ! n) = Null then nullable (fst (fs ! n))
       else (case snd (fs ! n) of Serializable_type gs \<Rightarrow> conforms_without ignored (Some ?n) gs (snd (d ! n)) | t \<Rightarrow> conforms t (snd (d ! n)))"
    proof -
      have "\<forall>m < length fs.
          if pre @ CHR ''.'' # field_name (fst (fs ! m)) \<in> set ignored then snd (d ! m) = Null
          else if snd (d ! m) = Null then nullable (fst (fs ! m))
          else (case snd (fs ! m) of
              Serializable_type gs \<Rightarrow> conforms_without ignored (Some (pre @ CHR ''.'' # field_name (fst (fs ! m)))) gs (snd (d ! m))
            | t \<Rightarrow> conforms t (snd (d ! m)))"
        using less.prems(2) len by (simp add: d list_all_length Let_def del: conforms.simps split del: if_split)
      from this [rule_format, OF n] u(1) show ?thesis by (simp del: conforms.simps)
    qed
    have "size (snd (d ! n)) < size v"
      using n len size_yaml_dict [of "fst (d ! n)" "snd (d ! n)" d] by (simp add: d(1))
    note IH = less.IH [OF this]
    show ?thesis
    proof (cases "snd (d ! n) = Null")
      case False
      then show ?thesis using w u(2) IH by (auto simp del: conforms.simps untouched.simps split: field_type.splits)
    qed (use w in simp)
  qed
  then show ?case using d len by (auto simp: list_all_length)
qed

definition full_name :: "string option \<Rightarrow> string \<Rightarrow> string" where
  "full_name pre n = (case pre of None \<Rightarrow> n | Some p \<Rightarrow> p @ ''.'' @ n)"

definition left_out :: "string list \<Rightarrow> string \<Rightarrow> field_info \<times> field_type \<Rightarrow> yaml \<Rightarrow> bool" where
  "left_out ignored n f x \<longleftrightarrow>
     (if n \<in> set ignored then x = Null
      else if x = Null then nullable (fst f)
      else (case snd f of Serializable_type gs \<Rightarrow> conforms_without ignored (Some n) gs x | t \<Rightarrow> conforms t x))"

lemma without_get:
  assumes "distinct (names fs)" and "conforms_without ignored pre fs v"
  shows "\<exists>d. v = Obj d \<and> map fst d = names fs \<and> (\<forall>f \<in> set fs. \<exists>x. dict_get d (field_name (fst f)) = Some x \<and>
    left_out ignored (full_name pre (field_name (fst f))) f x)"
proof -
  from assms(2) obtain d where d: "v = Obj d" "map fst d = names fs" by (cases v) auto
  have len: "length d = length fs" using d(2) by (metis length_map)
  show ?thesis
  proof (rule exI [of _ d], intro conjI ballI)
    fix f assume "f \<in> set fs"
    then obtain n where n: "n < length fs" "fs ! n = f" by (auto simp: in_set_conv_nth)
    have k: "fst (d ! n) = field_name (fst f)" using d(2) n len by (metis (mono_tags, lifting) case_prod_beta nth_map)
    have "(fst (d ! n), snd (d ! n)) \<in> set d" using n len by simp
    then have "dict_get d (fst (d ! n)) = Some (snd (d ! n))" using d(2) assms(1) by (intro map_of_is_SomeI) simp_all
    then have get: "dict_get d (field_name (fst f)) = Some (snd (d ! n))" using k by simp
    have z: "(f, d ! n) \<in> set (zip fs d)" using n len by (auto simp: set_zip)
    note assms(2)[unfolded d(1) conforms_without.simps list_all_iff, THEN conjunct2, THEN bspec, OF z, unfolded prod.case]
    then have "left_out ignored (full_name pre (field_name (fst f))) f (snd (d ! n))"
      unfolding left_out_def full_name_def Let_def .
    with get show "\<exists>x. dict_get d (field_name (fst f)) = Some x \<and> left_out ignored (full_name pre (field_name (fst f))) f x"
      by blast
  qed (use d in auto)
qed

text \<open>The classes: what is left out is what the handler sets.\<close>

definition metadata_ignored :: "string list" where
  "metadata_ignored = [''metadata.uid'', ''metadata.created'', ''metadata.modified'', ''metadata.deleted'']"

definition creatable :: "api_class \<Rightarrow> bool" where
  "creatable c \<longleftrightarrow>
     (let ignored = fields_ignored_by_creation (class_fields c) in
      list_all (\<lambda>g. (''metadata.'' @ field_name (fst g) \<in> set ignored) = (''metadata.'' @ field_name (fst g) \<in> set metadata_ignored))
        metadata_fields \<and>
      list_all (\<lambda>f.
        if field_name (fst f) = ''metadata''
        then f = (plain ''metadata'', Serializable_type metadata_fields) \<and> ''metadata'' \<notin> set ignored
        else if subresource (fst f)
        then (case snd f of
            Serializable_type gs \<Rightarrow> (case init_object gs [] of Inr v \<Rightarrow> conforms (snd f) v | Inl _ \<Rightarrow> False)
          | _ \<Rightarrow> False)
        else field_name (fst f) \<notin> set ignored \<and>
          (case snd f of Serializable_type gs \<Rightarrow> untouched ignored (field_name (fst f)) gs | _ \<Rightarrow> True)) (class_fields c))"

lemma api_classes_creatable: "c \<in> set api_classes \<Longrightarrow> creatable c"
proof -
  have "list_all creatable api_classes" by code_simp
  then show "c \<in> set api_classes \<Longrightarrow> ?thesis" by (simp add: list_all_iff)
qed

section \<open>What the handler sets\<close>

lemma map_fst_dict_set: "k \<in> fst ` set d \<Longrightarrow> map fst (dict_set k v d) = map fst d"
  by (induction d) auto

lemma keys_dict_set: "fst ` set (dict_set k v d) = insert k (fst ` set d)"
  by (induction d) auto

lemma set_metadata:
  "dict_get d ''metadata'' = Some (Obj m) \<Longrightarrow>
    set_path [''metadata'', k] x (Obj d) = Inr (Obj (dict_set ''metadata'' (Obj (dict_set k x m)) d))"
  by simp

lemma init_subresources_get:
  assumes "init_subresources fs (Obj d) = Inr w" and "distinct (names fs)" and "set (names fs) \<subseteq> fst ` set d"
  shows "\<exists>d'. w = Obj d' \<and> map fst d' = map fst d \<and>
    (\<forall>k. (\<forall>f \<in> set fs. subresource (fst f) \<longrightarrow> field_name (fst f) \<noteq> k) \<longrightarrow> dict_get d' k = dict_get d k) \<and>
    (\<forall>f \<in> set fs. subresource (fst f) \<longrightarrow>
      (\<exists>gs v. snd f = Serializable_type gs \<and> init_object gs [] = Inr v \<and> dict_get d' (field_name (fst f)) = Some v))"
  using assms
proof (induction fs arbitrary: d)
  case (Cons f fs)
  obtain i t where f: "f = (i, t)" by (cases f)
  show ?case
  proof (cases "subresource i")
    case False
    then have "init_subresources fs (Obj d) = Inr w" using Cons.prems(1) f by simp
    from Cons.IH [OF this] Cons.prems(2,3) f False show ?thesis by auto
  next
    case True
    with Cons.prems(1) f obtain gs v where
      t: "t = Serializable_type gs" "init_object gs [] = Inr v"
      and w: "init_subresources fs (Obj (dict_set (field_name i) v d)) = Inr w"
      by (cases t) (auto simp: res_bind_Inr_iff)
    have keys: "map fst (dict_set (field_name i) v d) = map fst d"
      by (rule map_fst_dict_set) (use Cons.prems(3) f in auto)
    then have fst: "fst ` set (dict_set (field_name i) v d) = fst ` set d" by (metis list.set_map)
    have "distinct (names fs)" "set (names fs) \<subseteq> fst ` set (dict_set (field_name i) v d)"
      using Cons.prems(2,3) f unfolding fst by auto
    from Cons.IH [OF w this] obtain d' where
      d': "w = Obj d'" "map fst d' = map fst d"
      "\<forall>k. (\<forall>f \<in> set fs. subresource (fst f) \<longrightarrow> field_name (fst f) \<noteq> k) \<longrightarrow> dict_get d' k = dict_get (dict_set (field_name i) v d) k"
      "\<forall>f \<in> set fs. subresource (fst f) \<longrightarrow>
        (\<exists>gs v. snd f = Serializable_type gs \<and> init_object gs [] = Inr v \<and> dict_get d' (field_name (fst f)) = Some v)"
      unfolding keys by blast
    have other: "field_name (fst g) \<noteq> field_name i" if "g \<in> set fs" for g
      using Cons.prems(2) f that by (cases g) force
    then have own: "dict_get d' (field_name i) = Some v" using d'(3) by (auto dest!: spec [of _ "field_name i"])
    show ?thesis
      by (rule exI [of _ d']) (use d' own t f True in auto)
  qed
qed auto

definition set_metadata_values :: "string option option \<Rightarrow> string \<Rightarrow> time \<Rightarrow> (string, yaml) dict \<Rightarrow> (string, yaml) dict" where
  "set_metadata_values ns u t e =
     dict_set ''modified'' (Integer t) (dict_set ''created'' (Integer t) (dict_set ''uid'' (Text u)
       (case ns of None \<Rightarrow> e | Some n \<Rightarrow> dict_set ''namespace'' (text_or_none n) e)))"

lemma initialized_metadata:
  assumes "dict_get d ''metadata'' = Some (Obj e)" and "initialized c ns u t (Obj d) = Inr w"
  shows "\<exists>d'. init_subresources (class_fields c) (Obj d') = Inr w \<and> map fst d' = map fst d \<and>
    dict_get d' = (dict_get d)(''metadata'' \<mapsto> Obj (set_metadata_values ns u t e))"
proof -
  have keys: "''metadata'' \<in> fst ` set d" using assms(1) by (force dest: map_of_SomeD)
  have step: "\<exists>d'. set_path [''metadata'', k] x (Obj d) = Inr (Obj d') \<and> map fst d' = map fst d \<and>
      dict_get d' = (dict_get d)(''metadata'' \<mapsto> Obj (dict_set k x e))"
    if "dict_get d ''metadata'' = Some (Obj e)" for d e k x
  proof -
    have "''metadata'' \<in> fst ` set d" using that by (force dest: map_of_SomeD)
    then show ?thesis unfolding set_metadata [OF that] by (simp add: map_fst_dict_set fun_eq_iff)
  qed
  obtain e1 where e1: "e1 = (case ns of None \<Rightarrow> e | Some n \<Rightarrow> dict_set ''namespace'' (text_or_none n) e)" by blast
  obtain d1 where d1: "(case ns of None \<Rightarrow> Inr (Obj d) | Some n \<Rightarrow> set_path [''metadata'', ''namespace''] (text_or_none n) (Obj d)) = Inr (Obj d1)"
    "map fst d1 = map fst d" "dict_get d1 = (dict_get d)(''metadata'' \<mapsto> Obj e1)"
  proof (cases ns)
    case None
    then show ?thesis using that [of d] assms(1) e1 by (simp add: fun_eq_iff)
  next
    case (Some n)
    with step [OF assms(1), of "''namespace''" "text_or_none n"] e1 that show ?thesis by (simp del: set_path.simps) blast
  qed
  then have g1: "dict_get d1 ''metadata'' = Some (Obj e1)" by simp
  obtain d2 where d2: "set_path [''metadata'', ''uid''] (Text u) (Obj d1) = Inr (Obj d2)" "map fst d2 = map fst d1"
    "dict_get d2 = (dict_get d1)(''metadata'' \<mapsto> Obj (dict_set ''uid'' (Text u) e1))"
    using step [OF g1] by blast
  then have g2: "dict_get d2 ''metadata'' = Some (Obj (dict_set ''uid'' (Text u) e1))" by simp
  obtain d3 where d3: "set_path [''metadata'', ''created''] (Integer t) (Obj d2) = Inr (Obj d3)" "map fst d3 = map fst d2"
    "dict_get d3 = (dict_get d2)(''metadata'' \<mapsto> Obj (dict_set ''created'' (Integer t) (dict_set ''uid'' (Text u) e1)))"
    using step [OF g2] by blast
  then have g3: "dict_get d3 ''metadata'' = Some (Obj (dict_set ''created'' (Integer t) (dict_set ''uid'' (Text u) e1)))" by simp
  obtain d4 where d4: "set_path [''metadata'', ''modified''] (Integer t) (Obj d3) = Inr (Obj d4)" "map fst d4 = map fst d3"
    "dict_get d4 = (dict_get d3)(''metadata'' \<mapsto>
      Obj (dict_set ''modified'' (Integer t) (dict_set ''created'' (Integer t) (dict_set ''uid'' (Text u) e1))))"
    using step [OF g3] by blast
  have "init_subresources (class_fields c) (Obj d4) = Inr w"
    using assms(2) unfolding initialized_def d1(1) res_bind.simps d2(1) d3(1) d4(1) .
  moreover have "map fst d4 = map fst d" using d1(2) d2(2) d3(2) d4(2) by simp
  moreover have "dict_get d4 = (dict_get d)(''metadata'' \<mapsto> Obj (set_metadata_values ns u t e))"
    unfolding set_metadata_values_def e1 [symmetric] d4(3) d3(3) d2(3) d1(3) by simp
  ultimately show ?thesis by blast
qed

lemma initialized_conforms:
  assumes "c \<in> set api_classes" and "conforms_creation (class_fields c) body"
    and "initialized c ns u t body = Inr w"
  shows "conforms (class_type c) w" and "\<not> in_deletion w"
proof -
  let ?fs = "class_fields c"
  let ?ig = "fields_ignored_by_creation ?fs"
  note creatable = api_classes_creatable [OF assms(1), unfolded creatable_def Let_def, THEN conjunct2, unfolded list_all_iff, rule_format]
  note ignored = api_classes_creatable [OF assms(1), unfolded creatable_def Let_def, THEN conjunct1, unfolded list_all_iff, rule_format]
  have distinct: "distinct (names ?fs)" using api_classes_well_named [OF assms(1)] by simp
  have meta: "(plain ''metadata'', Serializable_type metadata_fields) \<in> set ?fs"
  proof -
    have "list_all (\<lambda>c. (plain ''metadata'', Serializable_type metadata_fields) \<in> set (class_fields c)) api_classes" by code_simp
    with assms(1) show ?thesis by (simp add: list_all_iff)
  qed
  have mdistinct: "distinct (names metadata_fields)" by code_simp
  from without_get [OF distinct assms(2)[unfolded conforms_creation_def]] obtain d where
    d: "body = Obj d" "map fst d = names ?fs" and
    fields: "\<And>f. f \<in> set ?fs \<Longrightarrow> \<exists>x. dict_get d (field_name (fst f)) = Some x \<and> left_out ?ig (field_name (fst f)) f x"
    unfolding full_name_def option.case by blast
  from fields [OF meta] creatable [OF meta] obtain m where
    m: "dict_get d ''metadata'' = Some m" "conforms_without ?ig (Some ''metadata'') metadata_fields m"
    by (auto simp: plain_def left_out_def split: if_splits)
  from without_get [OF mdistinct m(2)] obtain e where
    e: "m = Obj e" "map fst e = names metadata_fields" and
    mfields: "\<And>f. f \<in> set metadata_fields \<Longrightarrow>
      \<exists>x. dict_get e (field_name (fst f)) = Some x \<and> left_out ?ig (''metadata'' @ ''.'' @ field_name (fst f)) f x"
    unfolding full_name_def option.case by blast
  let ?e = "set_metadata_values ns u t e"
  have normal: "\<exists>x. dict_get e (field_name (fst f)) = Some x \<and> accepts f x"
    if "f \<in> set metadata_fields" and "''metadata.'' @ field_name (fst f) \<notin> set metadata_ignored" for f
  proof -
    have "case snd f of Serializable_type gs \<Rightarrow> False | _ \<Rightarrow> True"
      using that(1) unfolding metadata_fields_def by (auto simp: string_field_def)
    moreover from ignored [OF that(1)] that(2) have "''metadata'' @ ''.'' @ field_name (fst f) \<notin> set ?ig" by simp
    ultimately show ?thesis using mfields [OF that(1)]
      by (auto simp: left_out_def accepts_def simp del: conforms.simps split: field_type.splits if_splits)
  qed
  have undeleted: "dict_get e ''deleted'' = Some Null"
    using mfields [of "((optional ''deleted'' Null)\<lparr>readonly := True\<rparr>, Date_field)"]
      ignored [of "((optional ''deleted'' Null)\<lparr>readonly := True\<rparr>, Date_field)"]
    by (simp add: metadata_fields_def optional_def plain_def left_out_def metadata_ignored_def)
  have metadata: "conforms (Serializable_type metadata_fields) (Obj ?e)"
    unfolding conforms_iff_get [OF mdistinct]
  proof (intro conjI ballI)
    have "{''modified'', ''created'', ''uid'', ''namespace''} \<subseteq> set (map fst e)"
      unfolding e(2) by (auto simp: metadata_fields_def optional_def plain_def)
    then have "{''modified'', ''created'', ''uid'', ''namespace''} \<subseteq> fst ` set e" by simp
    then show "map fst ?e = names metadata_fields"
      unfolding set_metadata_values_def e(2) [symmetric]
      by (simp add: map_fst_dict_set keys_dict_set split: option.split)
  next
    fix f assume f: "f \<in> set metadata_fields"
    note own = field_named_own [OF mdistinct f]
    have "\<exists>x. dict_get ?e (field_name (fst f)) = Some x \<and> accepts f x"
      if k: "field_name (fst f) \<in> {''modified'', ''created'', ''uid'', ''namespace'', ''deleted''}"
    proof -
      have "field_name (fst f) = ''namespace'' \<Longrightarrow> \<exists>x. dict_get e ''namespace'' = Some x \<and> accepts f x"
        using normal [OF f] by (simp add: metadata_ignored_def)
      with k own show ?thesis
        by (elim insertE emptyE)
          (auto simp: metadata_fields_named set_metadata_values_def undeleted accepts_def optional_def text_or_none_def
            split: option.split)
    qed
    moreover have "\<exists>x. dict_get ?e (field_name (fst f)) = Some x \<and> accepts f x"
      if "field_name (fst f) \<notin> {''modified'', ''created'', ''uid'', ''namespace'', ''deleted''}"
      using that normal [OF f] by (auto simp: set_metadata_values_def metadata_ignored_def split: option.split)
    ultimately show "\<exists>x. dict_get ?e (field_name (fst f)) = Some x \<and> accepts f x" by blast
  qed
  from initialized_metadata [of d e c ns u t w] m(1) assms(3) d(1) e(1) obtain d' where
    d': "init_subresources ?fs (Obj d') = Inr w" "map fst d' = map fst d"
    "dict_get d' = (dict_get d)(''metadata'' \<mapsto> Obj ?e)"
    by blast
  have "set (names ?fs) \<subseteq> fst ` set d'" using d(2) d'(2) by (metis list.set_map subset_refl)
  from init_subresources_get [OF d'(1) distinct this] obtain d'' where
    w: "w = Obj d''" "map fst d'' = map fst d'" and
    other: "\<And>k. \<forall>f \<in> set ?fs. subresource (fst f) \<longrightarrow> field_name (fst f) \<noteq> k \<Longrightarrow> dict_get d'' k = dict_get d' k" and
    sub: "\<And>f. f \<in> set ?fs \<Longrightarrow> subresource (fst f) \<Longrightarrow>
      \<exists>gs v. snd f = Serializable_type gs \<and> init_object gs [] = Inr v \<and> dict_get d'' (field_name (fst f)) = Some v"
    by blast
  have not_sub: "dict_get d'' (field_name (fst f)) = dict_get d' (field_name (fst f))"
    if "f \<in> set ?fs" "\<not> subresource (fst f)" for f
  proof (rule other, intro ballI impI notI)
    fix g assume g: "g \<in> set ?fs" "subresource (fst g)" "field_name (fst g) = field_name (fst f)"
    with distinct that(1) have "g = f" by (auto simp: distinct_map inj_on_def case_prod_beta dest!: bspec)
    with g that show False by simp
  qed
  have mw: "dict_get d'' ''metadata'' = Some (Obj ?e)"
    using not_sub [OF meta] d'(3) by (simp add: plain_def)
  show "conforms (class_type c) w"
    unfolding w(1) conforms_iff_get [OF distinct]
  proof (intro conjI ballI)
    show "map fst d'' = names ?fs" using w(2) d'(2) d(2) by simp
    fix f assume f: "f \<in> set ?fs"
    note cf = creatable [OF f]
    show "\<exists>x. dict_get d'' (field_name (fst f)) = Some x \<and> accepts f x"
    proof (cases "field_name (fst f) = ''metadata''")
      case True
      with cf have "f = (plain ''metadata'', Serializable_type metadata_fields)" by simp
      with mw metadata show ?thesis by (simp add: accepts_def plain_def del: conforms.simps)
    next
      case no_meta: False
      show ?thesis
      proof (cases "subresource (fst f)")
        case True
        with sub [OF f] cf no_meta show ?thesis by (auto simp: accepts_def simp del: conforms.simps)
      next
        case False
        from fields [OF f] obtain x where x: "dict_get d (field_name (fst f)) = Some x" "left_out ?ig (field_name (fst f)) f x" by blast
        from cf no_meta False x(2) have "accepts f x"
          by (auto simp: left_out_def accepts_def simp del: conforms.simps untouched.simps
              intro: conforms_untouched split: field_type.splits if_splits)
        with x(1) not_sub [OF f False] d'(3) no_meta show ?thesis by simp
      qed
    qed
  qed
  have "dict_get ?e ''deleted'' = Some Null"
    using undeleted by (simp add: set_metadata_values_def split: option.split)
  with mw show "\<not> in_deletion w" by (simp add: w(1) in_deletion_def is_deleted_def)
qed

end
