(* ===== verification/Api_Safety.thy ===== *)
theory Api_Safety
  imports Api_Creation
begin

text \<open>
  What the API does to the stored resources. Every transaction that a handler commits is a step of
  the life of a resource: the creation of a new one, a later version of the stored one, or the
  removal of one that is in deletion or whose deletion is forced. The transactions are optimistic:
  what is compared is the revision that was read, and \<open>etcd_laws\<close> make this an atomic read and write.
\<close>

section \<open>Assumptions about the environment\<close>

text \<open>
  What the schemas of marshmallow promise: they load objects of the class only, and the stored
  form of an object as this object.
\<close>

definition schema_laws :: "api_env \<Rightarrow> bool" where
  "schema_laws env \<longleftrightarrow>
     (\<forall>fs v w. decode env fs v = Inr w \<longrightarrow> conforms (Serializable_type fs) w) \<and>
     (\<forall>fs v. conforms (Serializable_type fs) v \<longrightarrow> decode env fs v = Inr v) \<and>
     (\<forall>fs v w. decode_creation env fs v = Inr w \<longrightarrow> conforms_creation fs w)"

text \<open>The promises of etcd, one by one.\<close>

lemma etcd_key:
  assumes "etcd_store store" and "store n k = Some x"
  shows "kv_key x = k" and "kv_version x \<noteq> 0"
  using assms unfolding etcd_store_def by blast+

lemma etcd_modified:
  assumes "etcd_store store" and "store (Suc n) k \<noteq> store n k" and "store (Suc n) k = Some x"
  shows "mod_revision x = Suc n"
  using assms unfolding etcd_store_def by blast

lemma etcd_created:
  assumes "etcd_store store" and "store (Suc n) k = Some x" and "store (Suc n) k \<noteq> store n k"
  shows "create_revision x = (case store n k of None \<Rightarrow> Suc n | Some y \<Rightarrow> create_revision y)"
  using assms unfolding etcd_store_def by blast

lemma laws_store: "etcd_laws env store \<Longrightarrow> etcd_store store"
  by (simp add: etcd_laws_def)

lemma etcd_range:
  assumes "etcd_laws env store" and "range_answer env (h @ [Range k None]) = Inr (x # xs)"
  shows "\<exists>n. store n k = Some x"
proof -
  from assms(1) have "\<forall>h k xs. range_answer env (h @ [Range k None]) = Inr xs \<longrightarrow>
      (\<exists>n. xs = (case store n k of None \<Rightarrow> [] | Some x \<Rightarrow> [x]))"
    unfolding etcd_laws_def by (elim conjE) assumption
  with assms(2) obtain n where "x # xs = (case store n k of None \<Rightarrow> [] | Some x \<Rightarrow> [x])" by blast
  then show ?thesis by (cases "store n k") auto
qed

lemma etcd_commit:
  assumes "etcd_laws env store" and "commit_answer env (h @ [Commit k c p]) = Inr (True, Suc n)"
  shows "compare_holds c (store n k)"
    and "case p of Delete_key \<Rightarrow> store (Suc n) k = None | Put_value v \<Rightarrow> \<exists>x. store (Suc n) k = Some x \<and> kv_value x = v"
    and "l \<noteq> k \<Longrightarrow> store (Suc n) l = store n l"
proof -
  from assms(1) have "\<forall>h k c p r. commit_answer env (h @ [Commit k c p]) = Inr (True, r) \<longrightarrow>
      (\<exists>n. r = Suc n \<and> compare_holds c (store n k) \<and>
         (case p of Delete_key \<Rightarrow> store r k = None | Put_value v \<Rightarrow> (\<exists>x. store r k = Some x \<and> kv_value x = v)) \<and>
         (\<forall>l. l \<noteq> k \<longrightarrow> store r l = store n l))"
    unfolding etcd_laws_def by (elim conjE) assumption
  with assms(2) have "compare_holds c (store n k) \<and>
      (case p of Delete_key \<Rightarrow> store (Suc n) k = None | Put_value v \<Rightarrow> (\<exists>x. store (Suc n) k = Some x \<and> kv_value x = v)) \<and>
      (\<forall>l. l \<noteq> k \<longrightarrow> store (Suc n) l = store n l)"
    by blast
  then show "compare_holds c (store n k)"
    and "case p of Delete_key \<Rightarrow> store (Suc n) k = None | Put_value v \<Rightarrow> \<exists>x. store (Suc n) k = Some x \<and> kv_value x = v"
    and "l \<noteq> k \<Longrightarrow> store (Suc n) l = store n l"
    by auto
qed

text \<open>A revision of a key determines its value.\<close>

lemma store_since:
  assumes "etcd_store store" and "store n k = Some x"
  shows "mod_revision x \<le> n \<and> store (mod_revision x) k = Some x"
  using assms(2)
proof (induction n)
  case 0
  then show ?case using assms(1) by (simp add: etcd_store_def)
next
  case (Suc n)
  show ?case
  proof (cases "store (Suc n) k = store n k")
    case True
    with Suc show ?thesis by simp
  next
    case False
    from etcd_modified [OF assms(1) this Suc.prems] have "mod_revision x = Suc n" .
    with Suc.prems show ?thesis by simp
  qed
qed

lemma same_revision:
  assumes "etcd_store store" and "store n k = Some x" and "store m k = Some y" and "mod_revision x = mod_revision y"
  shows "x = y"
proof -
  have "store (mod_revision x) k = Some x" "store (mod_revision x) k = Some y"
    using store_since [OF assms(1,2)] store_since [OF assms(1,3)] unfolding assms(4) by blast+
  then show ?thesis by simp
qed

section \<open>Keys of classes\<close>

fun literal_prefix :: "key_part list \<Rightarrow> string" where
  "literal_prefix (Literal c # ps) = c # literal_prefix ps"
| "literal_prefix _ = []"

abbreviation class_prefix :: "api_class \<Rightarrow> string" where
  "class_prefix c \<equiv> literal_prefix (key_parts (class_key c))"

definition belongs :: "api_class \<Rightarrow> string \<Rightarrow> bool" where
  "belongs c k \<longleftrightarrow> prefix (class_prefix c) k"

lemma format_parts_prefix: "format_parts f ps = Inr k \<Longrightarrow> prefix (literal_prefix ps) k"
  by (induction ps arbitrary: k rule: literal_prefix.induct) (auto simp: res_bind_Inr_iff)

lemma format_object_belongs: "format_object (class_key c) v = Inr k \<Longrightarrow> belongs c k"
  by (auto simp: format_object_def res_bind_Inr_iff belongs_def intro: format_parts_prefix)

lemma format_kwargs_belongs: "format_kwargs (class_key c) kwargs = Inr k \<Longrightarrow> belongs c k"
  by (auto simp: format_kwargs_def belongs_def intro: format_parts_prefix split: if_splits)

lemma belongs_unique:
  assumes "c \<in> set api_classes" and "c' \<in> set api_classes" and "belongs c k" and "belongs c' k"
  shows "class_key c = class_key c'"
proof -
  have "list_all (\<lambda>c. list_all (\<lambda>c'. prefix (class_prefix c) (class_prefix c') \<longrightarrow> class_key c = class_key c') api_classes) api_classes"
    by code_simp
  then have "prefix (class_prefix c) (class_prefix c') \<longrightarrow> class_key c = class_key c'"
    "prefix (class_prefix c') (class_prefix c) \<longrightarrow> class_key c' = class_key c"
    using assms(1,2) by (auto simp: list_all_iff)
  moreover have "prefix (class_prefix c) (class_prefix c') \<or> prefix (class_prefix c') (class_prefix c)"
    using assms(3,4) unfolding belongs_def by (rule prefix_same_cases)
  ultimately show ?thesis by auto
qed

section \<open>Allowed changes\<close>

definition all_well_stored :: "(string \<Rightarrow> kv option) \<Rightarrow> bool" where
  "all_well_stored stored \<longleftrightarrow>
     (\<forall>k x. stored k = Some x \<longrightarrow> list_all (\<lambda>c. belongs c k \<longrightarrow> well_stored c k (kv_value x)) api_classes)"

definition change_allowed :: "bool \<Rightarrow> string \<Rightarrow> kv option \<Rightarrow> kv option \<Rightarrow> bool" where
  "change_allowed forced k old new \<longleftrightarrow>
     list_ex (\<lambda>c. belongs c k \<and>
       (case old of
          None \<Rightarrow> (case new of None \<Rightarrow> False | Some y \<Rightarrow> well_stored c k (kv_value y) \<and> \<not> in_deletion (kv_value y))
        | Some x \<Rightarrow>
            (case new of
               None \<Rightarrow> in_deletion (kv_value x) \<or> forced \<and> c \<in> {application_class, cluster_class}
             | Some y \<Rightarrow> well_stored c k (kv_value y) \<and> later (kv_value x) (kv_value y)))) api_classes"

definition commit_ok :: "api_env \<Rightarrow> store \<Rightarrow> bool \<Rightarrow> db_log \<Rightarrow> db_request \<Rightarrow> bool" where
  "commit_ok env store forced g q \<longleftrightarrow>
     (\<forall>k c p n. q = Commit k c p \<longrightarrow> commit_answer env (g @ [q]) = Inr (True, Suc n) \<longrightarrow>
        (\<forall>m \<le> n. all_well_stored (store m)) \<longrightarrow> change_allowed forced k (store n k) (store (Suc n) k))"

definition good :: "api_env \<Rightarrow> store \<Rightarrow> bool \<Rightarrow> db_log \<Rightarrow> bool" where
  "good env store forced h \<longleftrightarrow> (\<forall>g q es. h = g @ q # es \<longrightarrow> commit_ok env store forced g q)"

lemma good_snoc: "good env store forced (h @ [q]) \<longleftrightarrow> good env store forced h \<and> commit_ok env store forced h q"
proof
  assume g: "good env store forced (h @ [q])"
  show "good env store forced h \<and> commit_ok env store forced h q"
    unfolding good_def
  proof (intro conjI allI impI)
    fix g' q' es assume "h = g' @ q' # es"
    then have "h @ [q] = g' @ q' # (es @ [q])" by simp
    with g show "commit_ok env store forced g' q'" unfolding good_def by blast
  next
    show "commit_ok env store forced h q" using g unfolding good_def by auto
  qed
next
  assume g: "good env store forced h \<and> commit_ok env store forced h q"
  show "good env store forced (h @ [q])"
    unfolding good_def
  proof (intro allI impI)
    fix g' q' es assume h: "h @ [q] = g' @ q' # es"
    show "commit_ok env store forced g' q'"
    proof (cases es rule: rev_cases)
      case Nil
      with h g show ?thesis by simp
    next
      case (snoc es' x)
      with h have "h = g' @ q' # es'" by simp
      with g show ?thesis unfolding good_def by blast
    qed
  qed
qed

section \<open>Handlers that only make allowed changes\<close>

definition safe :: "api_env \<Rightarrow> store \<Rightarrow> bool \<Rightarrow> (db_log, 'a) co \<Rightarrow> bool" where
  "safe env store forced m \<longleftrightarrow>
     (\<forall>h. good env store forced h \<longrightarrow> post m h (\<lambda>r h'. good env store forced h'))"

definition yields :: "(db_log, 'a) co \<Rightarrow> ('a \<Rightarrow> bool) \<Rightarrow> bool" where
  "yields m V \<longleftrightarrow> (\<forall>h. post m h (\<lambda>r h'. case r of Inl e \<Rightarrow> True | Inr x \<Rightarrow> V x))"

named_theorems safe_intros "rules for handlers that only make allowed changes"

lemma safe_return [safe_intros]: "safe env store forced (co_return x)"
  and safe_raise [safe_intros]: "safe env store forced (co_raise e)"
  and safe_lift [safe_intros]: "safe env store forced (co_lift r)"
  and safe_now [safe_intros]: "safe env store forced (api_now env')"
  and safe_uuid4 [safe_intros]: "safe env store forced (uuid4 env')"
  by (simp_all add: safe_def post_simps api_now_def uuid4_def)

lemma safe_yields:
  assumes "safe env store forced m" and "yields m V" and "\<And>x. V x \<Longrightarrow> safe env store forced (f x)"
  shows "safe env store forced (co_bind m f)"
  unfolding safe_def
proof (intro allI impI)
  fix h assume h: "good env store forced h"
  have "post m h (\<lambda>r h'. good env store forced h' \<and> (case r of Inl e \<Rightarrow> True | Inr x \<Rightarrow> V x))"
    using assms(1,2) h unfolding safe_def yields_def by (intro post_conj) auto
  then show "post (co_bind m f) h (\<lambda>r h'. good env store forced h')"
    by (rule post_bindI) (use assms(3) in \<open>auto simp: safe_def\<close>)
qed

lemma safe_bind [safe_intros]:
  assumes "safe env store forced m" and "\<And>x. safe env store forced (f x)"
  shows "safe env store forced (co_bind m f)"
  by (rule safe_yields [OF assms(1), where V = "\<lambda>_. True"]) (use assms(2) in \<open>auto simp: yields_def post_def split: option.split sum.split\<close>)

lemma safe_lift_bind [safe_intros]:
  assumes "\<And>x. r = Inr x \<Longrightarrow> safe env store forced (f x)"
  shows "safe env store forced (co_bind (co_lift r) f)"
  by (rule safe_yields [OF safe_lift, where V = "\<lambda>x. r = Inr x"]) (use assms in \<open>auto simp: yields_def post_lift split: sum.split\<close>)

lemma safe_if:
  "safe env store forced m \<Longrightarrow> safe env store forced n \<Longrightarrow> safe env store forced (if b then m else n)"
  by simp

lemma safe_then [safe_intros]:
  assumes "safe env store forced m" and "safe env store forced n"
  shows "safe env store forced (co_then m n)"
  unfolding co_then_def by (rule safe_bind [OF assms])

lemma safe_catch [safe_intros]:
  assumes "safe env store forced m" and "\<And>e. safe env store forced (f e)"
  shows "safe env store forced (co_catch m f)"
  unfolding safe_def post_catch
proof (intro allI impI)
  fix h assume "good env store forced h"
  with assms(1) have "post m h (\<lambda>r h'. good env store forced h')" by (simp add: safe_def)
  then show "post m h (\<lambda>r h'. case r of
      Inl e \<Rightarrow> post (f e) h' (\<lambda>r h'. good env store forced h') | Inr x \<Rightarrow> good env store forced h')"
    by (rule post_mono) (use assms(2) in \<open>auto simp: safe_def split: sum.split\<close>)
qed

lemma safe_fold [safe_intros]:
  assumes "\<And>x b. safe env store forced (f x b)"
  shows "safe env store forced (co_fold f xs b)"
  by (induction xs arbitrary: b) (auto intro!: safe_intros assms)

lemma safe_loop [safe_intros]:
  assumes "safe env store forced m"
  shows "safe env store forced (co_loop m)"
  unfolding safe_def
proof (intro allI impI)
  fix h assume "good env store forced h"
  then show "post (co_loop m) h (\<lambda>r h'. good env store forced h')"
  proof (rule post_loop)
    fix h assume "good env store forced h"
    with assms have "post m h (\<lambda>r h'. good env store forced h')" by (simp add: safe_def)
    then show "post m h (\<lambda>r h'. case r of
        Inl e \<Rightarrow> good env store forced h' | Inr None \<Rightarrow> good env store forced h' | Inr (Some x) \<Rightarrow> good env store forced h')"
      by (rule post_mono) (auto split: sum.split option.split)
  qed
qed

lemma safe_ask [safe_intros]:
  assumes "\<And>k c p. q \<noteq> Commit k c p"
  shows "safe env store forced (db_ask answer q)"
  using assms by (auto simp: safe_def post_def db_ask_def good_snoc commit_ok_def)

lemma safe_wait [safe_intros]:
  assumes "\<And>k c p. q \<noteq> Commit k c p"
  shows "safe env store forced (db_wait answer q)"
  using assms by (auto simp: safe_def post_def db_wait_def good_snoc commit_ok_def split: option.split)

section \<open>Sessions\<close>

text \<open>An object that was loaded, with the revision that is attached to it.\<close>

definition loaded_from :: "api_env \<Rightarrow> store \<Rightarrow> api_class \<Rightarrow> loaded \<Rightarrow> bool" where
  "loaded_from env store c e \<longleftrightarrow>
     (\<exists>n k x. store n k = Some x \<and> belongs c k \<and> decode env (class_fields c) (kv_value x) = Inr (fst e) \<and>
       snd e = Some (from_kv x))"

lemma loaded_conforms: "schema_laws env \<Longrightarrow> loaded_from env store c e \<Longrightarrow> conforms (class_type c) (fst e)"
  by (auto simp: loaded_from_def schema_laws_def)

lemma yields_session_get:
  assumes "etcd_laws env store"
  shows "yields (session_get env c kwargs) (\<lambda>e. case e of None \<Rightarrow> True | Some e \<Rightarrow> loaded_from env store c e)"
  unfolding yields_def
proof
  fix h
  show "post (session_get env c kwargs) h
    (\<lambda>r h'. case r of Inl e \<Rightarrow> True | Inr x \<Rightarrow> (case x of None \<Rightarrow> True | Some e \<Rightarrow> loaded_from env store c e))"
  proof (rule postI)
    fix r h' assume run: "session_get env c kwargs h = Some (r, h')"
    show "case r of Inl e \<Rightarrow> True | Inr x \<Rightarrow> (case x of None \<Rightarrow> True | Some e \<Rightarrow> loaded_from env store c e)"
    proof (cases r)
      case (Inr o')
      show ?thesis
      proof (cases o')
        case (Some e)
        with run Inr obtain k x xs where k: "format_kwargs (class_key c) kwargs = Inr k"
          and x: "range_answer env (h @ [Range k None]) = Inr (x # xs)" and e: "load_instance env c x = Inr e"
          by (auto simp: session_get_def get_by_key_def co_bind_def co_lift_def db_ask_def co_return_def
              split: sum.splits list.splits)
        from e have "decode env (class_fields c) (kv_value x) = Inr (fst e)" "snd e = Some (from_kv x)"
          by (auto simp: load_instance_def res_bind_Inr_iff)
        with etcd_range [OF assms x] format_kwargs_belongs [OF k] have "loaded_from env store c e"
          unfolding loaded_from_def by blast
        with Some Inr show ?thesis by simp
      qed (simp add: Inr)
    qed simp
  qed
qed

lemma safe_session_get [safe_intros]: "safe env store forced (session_get env' c kwargs)"
  unfolding session_get_def get_by_key_def by (intro safe_intros) (auto intro!: safe_intros split: list.split)

text \<open>The transaction of a creation.\<close>

lemma commit_new_ok:
  assumes "etcd_laws env store" and "c \<in> set api_classes" and "conforms (class_type c) v" and "\<not> in_deletion v"
    and "format_object (class_key c) v = Inr k"
  shows "commit_ok env store forced g (Commit k Not_exists (Put_value v))"
  unfolding commit_ok_def
proof (intro allI impI)
  fix k' cmp p n
  assume "Commit k Not_exists (Put_value v) = Commit k' cmp p"
    and "commit_answer env (g @ [Commit k Not_exists (Put_value v)]) = Inr (True, Suc n)"
  then have k': "k' = k" and ok: "commit_answer env (g @ [Commit k Not_exists (Put_value v)]) = Inr (True, Suc n)" by auto
  from etcd_commit(1) [OF assms(1) ok] have "store n k = None" by (simp add: compare_holds_def)
  moreover from etcd_commit(2) [OF assms(1) ok] obtain x where "store (Suc n) k = Some x" "kv_value x = v" by auto
  ultimately show "change_allowed forced k' (store n k') (store (Suc n) k')"
    using assms(2-5) format_object_belongs [OF assms(5)]
    unfolding change_allowed_def list_ex_iff k' well_stored_def by (intro bexI [of _ c]) simp_all
qed

text \<open>The transactions on a loaded object compare with the revision that was loaded.\<close>

lemma compared_revision:
  assumes "etcd_laws env store" and "schema_laws env" and "c \<in> set api_classes"
    and "loaded_from env store c (v, Some r)"
    and "format_object (class_key c) w = format_object (class_key c) v"
    and "format_object (class_key c) w = Inr k"
    and "commit_answer env (g @ [Commit k (Modified_at (rev_modified r)) p]) = Inr (True, Suc n)"
    and "\<forall>m \<le> n. all_well_stored (store m)"
  shows "\<exists>x. store n k = Some x \<and> kv_value x = v"
proof -
  from assms(4) obtain m l x where x: "store m l = Some x" "belongs c l"
    "decode env (class_fields c) (kv_value x) = Inr v" "r = from_kv x"
    unfolding loaded_from_def by auto
  from etcd_commit(1) [OF assms(1,7)] obtain y where y: "store n k = Some y" "mod_revision y = mod_revision x"
    using x(4) by (auto simp: compare_holds_def from_kv_def split: option.splits)
  from store_since [OF laws_store [OF assms(1)] y(1)] y(2) have "mod_revision x \<le> n" by simp
  with assms(8) store_since [OF laws_store [OF assms(1)] x(1)] x(2) assms(3) have ws: "well_stored c l (kv_value x)"
    by (auto simp: all_well_stored_def list_all_iff)
  then have "decode env (class_fields c) (kv_value x) = Inr (kv_value x)"
    using assms(2) by (simp add: schema_laws_def well_stored_def del: conforms.simps)
  with x(3) have v: "kv_value x = v" by simp
  with ws assms(5,6) have "l = k" by (simp add: well_stored_def)
  with same_revision [OF laws_store [OF assms(1)] y(1)] x(1) y(2) v y(1) show ?thesis by auto
qed

lemma commit_later_ok:
  assumes "etcd_laws env store" and "schema_laws env" and "c \<in> set api_classes"
    and "loaded_from env store c (v, Some r)" and "conforms (class_type c) w" and "later v w"
    and "format_object (class_key c) w = Inr k"
  shows "commit_ok env store forced g (Commit k (Modified_at (rev_modified r)) (Put_value w))"
  unfolding commit_ok_def
proof (intro allI impI)
  fix k' cmp p n
  assume eq: "Commit k (Modified_at (rev_modified r)) (Put_value w) = Commit k' cmp p"
    and ok: "commit_answer env (g @ [Commit k (Modified_at (rev_modified r)) (Put_value w)]) = Inr (True, Suc n)"
    and ws: "\<forall>m \<le> n. all_well_stored (store m)"
  from loaded_conforms [OF assms(2,4)] have v: "conforms (class_type c) v" by (simp del: conforms.simps)
  note key = later_key [OF assms(3) v assms(5,6)]
  from compared_revision [OF assms(1-4) key assms(7) ok ws] obtain x where x: "store n k = Some x" "kv_value x = v" by blast
  from etcd_commit(2) [OF assms(1) ok] obtain y where y: "store (Suc n) k = Some y" "kv_value y = w" by auto
  show "change_allowed forced k' (store n k') (store (Suc n) k')"
    using eq x y assms(3,5-7) format_object_belongs [OF assms(7)]
    unfolding change_allowed_def list_ex_iff well_stored_def by (intro bexI [of _ c]) simp_all
qed

lemma commit_delete_ok:
  assumes "etcd_laws env store" and "schema_laws env" and "c \<in> set api_classes"
    and "loaded_from env store c (v, Some r)"
    and "in_deletion v \<or> forced \<and> c \<in> {application_class, cluster_class}"
    and "format_object (class_key c) w = format_object (class_key c) v"
    and "format_object (class_key c) w = Inr k"
  shows "commit_ok env store forced g (Commit k (Modified_at (rev_modified r)) Delete_key)"
  unfolding commit_ok_def
proof (intro allI impI)
  fix k' cmp p n
  assume eq: "Commit k (Modified_at (rev_modified r)) Delete_key = Commit k' cmp p"
    and ok: "commit_answer env (g @ [Commit k (Modified_at (rev_modified r)) Delete_key]) = Inr (True, Suc n)"
    and ws: "\<forall>m \<le> n. all_well_stored (store m)"
  from compared_revision [OF assms(1-4,6,7) ok ws] obtain x where x: "store n k = Some x" "kv_value x = v" by blast
  from etcd_commit(2) [OF assms(1) ok] have "store (Suc n) k = None" by simp
  then show "change_allowed forced k' (store n k') (store (Suc n) k')"
    using eq x assms(3,5) format_object_belongs [OF assms(7)]
    unfolding change_allowed_def list_ex_iff by (intro bexI [of _ c]) auto
qed

lemma safe_ask_commit:
  assumes "\<And>g. commit_ok env store forced g q"
  shows "safe env store forced (db_ask answer q)"
  using assms by (auto simp: safe_def post_def db_ask_def good_snoc)

lemma safe_put_new:
  assumes "etcd_laws env store" and "c \<in> set api_classes" and "conforms (class_type c) v" and "\<not> in_deletion v"
  shows "safe env store forced (session_put env c (v, None))"
  unfolding session_put_def Let_def prod.case
  by (intro safe_intros safe_bind [OF safe_ask_commit])
    (auto simp: is_new_def intro!: safe_intros commit_new_ok assms)

lemma loaded_not_new:
  assumes "etcd_laws env store" and "loaded_from env store c e"
  shows "\<exists>r. snd e = Some r \<and> \<not> is_new (snd e)"
proof -
  from assms(2) obtain n k x where x: "store n k = Some x" "snd e = Some (from_kv x)"
    unfolding loaded_from_def by blast
  from etcd_key [OF laws_store [OF assms(1)] x(1)] x(2) show ?thesis by (simp add: is_new_def from_kv_def)
qed

lemma safe_put_later:
  assumes "etcd_laws env store" and "schema_laws env" and "c \<in> set api_classes"
    and "loaded_from env store c e" and "conforms (class_type c) w" and "later (fst e) w"
  shows "safe env store forced (session_put env c (w, snd e))"
proof -
  from loaded_not_new [OF assms(1,4)] obtain r where r: "snd e = Some r" "\<not> is_new (snd e)" by blast
  with assms(4) have l: "loaded_from env store c (fst e, Some r)" by (metis prod.collapse)
  show ?thesis
    unfolding session_put_def Let_def prod.case
    by (intro safe_intros safe_bind [OF safe_ask_commit])
      (use r in \<open>auto intro!: safe_intros commit_later_ok [OF assms(1-3) l assms(5,6)]\<close>)
qed

lemma safe_delete:
  assumes "etcd_laws env store" and "schema_laws env" and "c \<in> set api_classes"
    and "loaded_from env store c e"
    and "in_deletion (fst e) \<or> forced \<and> c \<in> {application_class, cluster_class}"
    and "format_object (class_key c) w = format_object (class_key c) (fst e)"
  shows "safe env store forced (session_delete env c (w, snd e))"
proof -
  from loaded_not_new [OF assms(1,4)] obtain r where r: "snd e = Some r" by blast
  with assms(4) have l: "loaded_from env store c (fst e, Some r)" by (metis prod.collapse)
  show ?thesis
    unfolding session_delete_def Let_def prod.case r option.case
    by (intro safe_intros safe_bind [OF safe_ask_commit])
      (auto intro!: safe_intros commit_delete_ok [OF assms(1-3) l assms(5,6)])
qed

section \<open>Handlers\<close>

definition reliable :: "api_env \<Rightarrow> store \<Rightarrow> bool" where
  "reliable env store \<longleftrightarrow> etcd_laws env store \<and> schema_laws env"

lemma safe_load:
  assumes "reliable env store" and "\<And>e. loaded_from env store c e \<Longrightarrow> safe env store forced (handler request e)"
  shows "safe env store forced (load env c handler request)"
proof -
  have "etcd_laws env store" using assms(1) by (simp add: reliable_def)
  note got = safe_yields [OF safe_session_get yields_session_get [OF this]]
  show ?thesis
    unfolding load_def Let_def
    by (auto split: option.split intro!: safe_intros got assms(2))
qed

lemma safe_use_schema:
  assumes "\<And>raw body. schema raw = Inr body \<Longrightarrow> safe env store forced (handler request body)"
  shows "safe env store forced (use_schema schema handler request)"
  unfolding use_schema_def using assms by (auto split: option.split sum.split intro!: safe_intros)

lemma safe_put_entity:
  assumes "reliable env store" and "c \<in> set api_classes" and "loaded_from env store c e"
    and "conforms (class_type c) v" and "later (fst e) v"
  shows "safe env store forced (put_entity env c e v)"
  unfolding put_entity_def
  by (intro safe_bind safe_return safe_put_later) (use assms in \<open>simp_all add: reliable_def\<close>)

lemma safe_put_developed:
  assumes "reliable env store" and "c \<in> set api_classes" and "loaded_from env store c e"
    and "develops c (fst e) r"
  shows "safe env store forced (co_bind (co_lift r) (put_entity env c e))"
  by (rule safe_lift_bind, rule safe_put_entity [OF assms(1-3)]) (use assms(4) in \<open>auto simp: develops_def\<close>)

lemma reliable_conforms: "reliable env store \<Longrightarrow> loaded_from env store c e \<Longrightarrow> conforms (class_type c) (fst e)"
  unfolding reliable_def by (blast dest: loaded_conforms)

lemma full_schema_conforms: "reliable env store \<Longrightarrow> full_schema env c raw = Inr body \<Longrightarrow> conforms (class_type c) body"
  unfolding reliable_def schema_laws_def full_schema_def by blast

lemma decode_conforms: "reliable env store \<Longrightarrow> decode env fs raw = Inr body \<Longrightarrow> conforms (Serializable_type fs) body"
  unfolding reliable_def schema_laws_def by blast

text \<open>Creation\<close>

lemma safe_put_initialized:
  assumes "reliable env store" and "c \<in> set api_classes" and "create_schema env c raw = Inr body"
    and "initialized c ns u t body = Inr w"
  shows "safe env store forced (session_put env c (w, None))"
proof -
  have "conforms_creation (class_fields c) body"
    using assms(1,3) by (auto simp: reliable_def schema_laws_def create_schema_def)
  from initialized_conforms [OF assms(2) this assms(4)] assms(1) show ?thesis
    by (intro safe_put_new assms(2)) (simp_all add: reliable_def)
qed

lemma yields_create_object:
  "yields (create_object env c namespaced request body) (\<lambda>w. \<exists>u t. initialized c (request_namespace namespaced request) u t body = Inr w)"
  by (auto simp: yields_def create_object_def api_now_def uuid4_def post_simps split: sum.split)

lemma safe_create_object: "safe env store forced (create_object env' c namespaced request body)"
  unfolding create_object_def by (intro safe_intros)

lemma safe_create_resource:
  assumes "reliable env store" and "c \<in> set api_classes" and "create_schema env c raw = Inr body"
  shows "safe env store forced (create_resource env c namespaced request body)"
  unfolding create_resource_def
  by (rule safe_yields [OF safe_create_object yields_create_object])
    (auto intro!: safe_intros safe_put_initialized [OF assms])

lemma safe_create_checked:
  assumes "reliable env store" and "c \<in> set api_classes" and "create_schema env c raw = Inr body"
  shows "safe env store forced (create_checked env c namespaced request body)"
proof -
  have "safe env store forced
      (co_bind (create_object env c namespaced request body) (\<lambda>obj. co_bind (session_put env c (obj, None)) (\<lambda>_. co_return obj)))"
    by (rule safe_yields [OF safe_create_object yields_create_object])
      (auto intro!: safe_intros safe_put_initialized [OF assms])
  then show ?thesis
    unfolding create_checked_def by (auto intro!: safe_intros split: option.split)
qed

text \<open>Deletion\<close>

lemma safe_mark_resource:
  assumes "reliable env store" and "c \<in> set api_classes" and "loaded_from env store c e"
    and "develops c (fst e) (prepare (fst e))" and "\<And>w. prepare (fst e) = Inr w \<Longrightarrow> in_deletion w = in_deletion (fst e)"
  shows "safe env store forced (mark_resource env c prepare e)"
proof -
  have marked: "develops c (fst e) (marked_deleted t w)" if "prepare (fst e) = Inr w" "\<not> in_deletion (fst e)" for t w
  proof -
    have "develops c (fst e) (res_bind (prepare (fst e)) (marked_deleted t))"
    proof (rule develops_bind [OF assms(4)])
      fix w assume "conforms (class_type c) w" "prepare (fst e) = Inr w"
      with assms(5) that(2) show "develops c w (marked_deleted t w)" by (intro develops_marked_deleted assms(2)) auto
    qed
    then show ?thesis by (simp add: that(1))
  qed
  show ?thesis
    unfolding mark_resource_def
    by (auto intro!: safe_intros safe_put_developed [OF assms(1-3)] marked
        simp: get_deleted [OF assms(2) reliable_conforms [OF assms(1,3)]])
qed

lemma safe_delete_marked:
  assumes "reliable env store" and "c \<in> set api_classes" and "loaded_from env store c e"
  shows "safe env store forced (delete_marked env c request e)"
  unfolding delete_marked_def
  by (intro safe_mark_resource assms) (auto intro: develops_self reliable_conforms [OF assms(1,3)])

lemma safe_force_delete:
  assumes "reliable env store" and "c \<in> {application_class, cluster_class}" and "loaded_from env store c e" and "forced"
  shows "safe env store forced (force_delete env c e)"
proof -
  have "safe env store forced (session_delete env c (fst e, snd e))"
    by (rule safe_delete) (use assms controlled_classes in \<open>auto simp: reliable_def\<close>)
  then show ?thesis unfolding force_delete_def by (intro safe_intros) simp_all
qed

lemma safe_delete_forcible:
  assumes "reliable env store" and "c \<in> {application_class, cluster_class}" and "loaded_from env store c e"
    and "is_forced request \<Longrightarrow> forced"
    and "develops c (fst e) (prepare (fst e))" and "\<And>w. prepare (fst e) = Inr w \<Longrightarrow> in_deletion w = in_deletion (fst e)"
  shows "safe env store forced (delete_forcible env c prepare request e)"
proof -
  have "c \<in> set api_classes" using assms(2) controlled_classes by auto
  with assms show ?thesis
    unfolding delete_forcible_def by (auto intro!: safe_force_delete safe_mark_resource)
qed

lemma await_shutdown_in_deletion: "await_shutdown v = Inr w \<Longrightarrow> in_deletion w = in_deletion v"
  by (auto simp: await_shutdown_def res_bind_Inr_iff simp del: get_path.simps set_path.simps split: if_splits
      intro!: in_deletion_cong dest!: get_set_path_other)

text \<open>Updates\<close>

lemma updated_in_deletion:
  assumes "c \<in> set api_classes" and "conforms (class_type c) v" and "conforms (class_type c) body"
    and "updated (class_fields c) v body = Inr w"
  shows "in_deletion w = in_deletion v"
proof -
  have "update_object (class_fields c) v body = Inr w" using assms(4) by (simp add: updated_def split: sum.splits)
  note keeps = update_object_keeps [OF api_classes_well_named [OF assms(1)] assms(2,3) this api_controlled_protected [OF assms(1)]]
  show ?thesis by (rule in_deletion_cong, rule keeps) (simp add: api_controlled_def)
qed

lemma safe_store_updated:
  assumes "reliable env store" and "c \<in> set api_classes" and "loaded_from env store c e"
    and "conforms (class_type c) w" and "later (fst e) w" and "in_deletion w = in_deletion (fst e)"
  shows "safe env store forced (store_updated env c e w)"
proof -
  note v = reliable_conforms [OF assms(1,3)]
  have "safe env store forced (session_delete env c (w, snd e))" if "in_deletion w"
    by (rule safe_delete)
      (use assms that later_key [OF assms(2) v assms(4,5)] in \<open>auto simp: reliable_def\<close>)
  then show ?thesis
    unfolding store_updated_def is_finished_def get_deleted [OF assms(2,4)]
    by (auto intro!: safe_intros safe_put_entity [OF assms(1-5)] simp: res_bind_Inr_iff)
qed

lemma safe_update:
  assumes "reliable env store" and "c \<in> set api_classes" and "loaded_from env store c e"
    and "conforms (class_type c) body" and "check_finalizers body (fst e) = Inr ()"
  shows "safe env store forced
    (co_bind (co_lift (updated (class_fields c) (fst e) body)) (\<lambda>v.
     co_bind (api_now env) (\<lambda>t.
     co_bind (co_lift (set_path [''metadata'', ''modified''] (Integer t) v)) (store_updated env c e))))"
proof (intro safe_lift_bind safe_bind [OF safe_now])
  fix v t w
  assume v: "updated (class_fields c) (fst e) body = Inr v"
    and w: "set_path [''metadata'', ''modified''] (Integer t) v = Inr w"
  note conf = reliable_conforms [OF assms(1,3)]
  from develops_updated [OF assms(2) conf assms(4,5)] v have c: "conforms (class_type c) v" "later (fst e) v"
    by (simp_all add: develops_def del: conforms.simps)
  from develops_settable [OF assms(2) c(1) settable_modified [OF assms(2)]] w
  have "conforms (class_type c) w" "later v w" by (auto simp: develops_def simp del: conforms.simps)
  moreover have "in_deletion w = in_deletion v"
    by (rule in_deletion_cong, rule get_set_path_other [OF w]) simp
  ultimately show "safe env store forced (store_updated env c e w)"
    using updated_in_deletion [OF assms(2) conf assms(4) v] c(2)
    by (intro safe_store_updated assms(1-3)) (auto intro: later_trans)
qed

lemma safe_modify_resource:
  assumes "reliable env store" and "c \<in> set api_classes" and "loaded_from env store c e"
    and "conforms (class_type c) body"
  shows "safe env store forced (modify_resource env c request body e)"
    and "safe env store forced (update_if_changed env c request body e)"
  unfolding modify_resource_def update_if_changed_def
  by (rule safe_lift_bind, rule safe_if, rule safe_raise, rule safe_update [OF assms], simp)
    (rule safe_lift_bind, rule safe_if, rule safe_return, rule safe_update [OF assms], simp)

lemma safe_update_status_resource:
  assumes "reliable env store" and "c \<in> set api_classes" and "field_named ''status'' (class_fields c) \<noteq> None"
    and "conforms (class_type c) body" and "loaded_from env store c e"
  shows "safe env store forced (update_status_resource env c request body e)"
  unfolding update_status_resource_def
  by (intro safe_put_developed develops_status_updated assms reliable_conforms [OF assms(1,5)])

text \<open>Bindings, hooks and retries\<close>

lemma binding_ref:
  assumes "conforms (Serializable_type fs) body" and "distinct (names fs)"
    and "field_named k fs = Some (plain k, Serializable_type resource_ref_fields)"
  shows "\<exists>ref. get_attr k body = Inr ref \<and> is_ref ref"
  using field_named_get(3) [OF assms(2,1,3)] by (auto simp: accepts_def plain_def simp del: conforms.simps)

lemma binding_fields_named:
  "field_named ''cluster'' cluster_binding_fields = Some (plain ''cluster'', Serializable_type resource_ref_fields)"
  "field_named ''cloud'' cloud_binding_fields = Some (plain ''cloud'', Serializable_type resource_ref_fields)"
  "field_named ''project'' magnum_cluster_binding_fields = Some (plain ''project'', Serializable_type resource_ref_fields)"
  "field_named ''template'' magnum_cluster_binding_fields = Some (plain ''template'', String_field)"
  "distinct (names cluster_binding_fields)" "distinct (names cloud_binding_fields)" "distinct (names magnum_cluster_binding_fields)"
  by code_simp+

lemma safe_store_application_binding:
  assumes "reliable env store" and "conforms (Serializable_type cluster_binding_fields) body"
    and "loaded_from env store application_class e"
  shows "safe env store forced (store_application_binding env request body e)"
proof -
  from binding_ref [OF assms(2) binding_fields_named(5,1)] obtain ref where ref: "get_attr ''cluster'' body = Inr ref" "is_ref ref" by blast
  show ?thesis
    unfolding store_application_binding_def ref(1) res_bind.simps
    by (intro safe_bind [OF safe_now] safe_put_developed develops_bound_application controlled_classes assms ref(2)
        reliable_conforms [OF assms(1,3)])
qed

lemma safe_store_cluster_binding:
  assumes "reliable env store" and "conforms (Serializable_type cloud_binding_fields) body"
    and "loaded_from env store cluster_class e"
  shows "safe env store forced (store_cluster_binding env request body e)"
proof -
  from binding_ref [OF assms(2) binding_fields_named(6,2)] obtain ref where ref: "get_attr ''cloud'' body = Inr ref" "is_ref ref" by blast
  show ?thesis
    unfolding store_cluster_binding_def ref(1) res_bind.simps
    by (intro safe_bind [OF safe_now] safe_put_developed develops_bound_cluster controlled_classes assms ref(2)
        reliable_conforms [OF assms(1,3)])
qed

lemma safe_store_magnum_binding:
  assumes "reliable env store" and "conforms (Serializable_type magnum_cluster_binding_fields) body"
    and "loaded_from env store magnum_cluster_class e"
  shows "safe env store forced (store_magnum_binding env request body e)"
proof -
  from binding_ref [OF assms(2) binding_fields_named(7,3)] obtain ref where ref: "get_attr ''project'' body = Inr ref" "is_ref ref" by blast
  from field_named_get(3) [OF binding_fields_named(7) assms(2) binding_fields_named(4)] obtain template where
    t: "get_attr ''template'' body = Inr template" "conforms String_field template"
    by (auto simp: accepts_def plain_def simp del: conforms.simps)
  show ?thesis
    unfolding store_magnum_binding_def ref(1) t(1) res_bind.simps
    by (intro safe_put_developed develops_bound_magnum_cluster controlled_classes assms ref(2) t(2)
        reliable_conforms [OF assms(1,3)])
qed

lemma safe_hooks:
  assumes "reliable env store" and "loaded_from env store application_class e"
  shows "safe env store forced (complete_application env request body e)"
    and "safe env store forced (shutdown_application env request body e)"
    and "safe env store forced (retry_entity env request e)"
proof -
  note v = reliable_conforms [OF assms]
  note put = safe_put_developed [OF assms(1) controlled_classes(1) assms(2)]
  show "safe env store forced (complete_application env request body e)"
    unfolding complete_application_def
    by (intro safe_bind [OF safe_lift] safe_bind [OF safe_now] put develops_completed v)
  show "safe env store forced (shutdown_application env request body e)"
    unfolding shutdown_application_def by (intro safe_bind [OF safe_lift] put develops_shut_down v)
  show "safe env store forced (retry_entity env request e)"
    unfolding retry_entity_def by (intro put develops_retried v)
qed

text \<open>Requests that change nothing\<close>

lemma safe_get_by_key [safe_intros]: "safe env store forced (get_by_key env' c k rv)"
  unfolding get_by_key_def by (auto intro!: safe_intros split: list.split)

lemma safe_session_range [safe_intros]: "safe env store forced (session_range env' c kwargs)"
  unfolding session_range_def by (auto intro!: safe_intros)

lemma safe_session_all [safe_intros]: "safe env store forced (session_all env' c kwargs)"
  unfolding session_all_def by (auto intro!: safe_intros)

lemma safe_read [safe_intros]: "safe env store forced (read_resource request e)"
  unfolding read_resource_def by (rule safe_return)

lemma safe_list_or_watch [safe_intros]: "safe env store forced (list_or_watch env' c request)"
  unfolding list_or_watch_def list_resources_def watch_resources_def watch_lines_def watch_event_def Let_def
  by (auto intro!: safe_intros split: option.split prod.split)

lemma safe_blocking:
  assumes "safe env store forced m"
  shows "safe env store forced (blocking env' c request m)"
  unfolding blocking_def blocking_event_def
  by (auto intro!: safe_bind [OF assms] safe_intros split: option.split prod.split)

section \<open>Authentication, authorization and retries\<close>

lemma safe_authentication:
  assumes "\<And>a r. a \<in> set authenticators \<Longrightarrow> safe env store forced (a r)" and "\<And>u. safe env store forced (handler (request\<lparr>req_user := u\<rparr>))"
  shows "safe env store forced (authentication authenticators allow_anonymous handler request)"
proof -
  have "safe env store forced (authenticated authenticators request)"
    using assms(1) by (induction authenticators) (auto intro!: safe_intros split: option.split)
  then show ?thesis
    unfolding authentication_def using assms(2) by (auto intro!: safe_bind safe_raise split: option.split)
qed

lemma safe_load_authentication: "a \<in> set (load_authentication env' strategy client_ca) \<Longrightarrow> safe env store forced (a r)"
  by (auto simp: load_authentication_def static_authentication_def keystone_authentication_def keycloak_authentication_def
      client_certificate_authentication_def token_authentication_def
      intro!: safe_intros split: auth_strategy.splits if_splits option.split prod.split)

lemma safe_rbac: "safe env store forced (rbac env' request a)"
proof -
  have roles: "safe env store forced (rbac_roles e a ns seen)" for e a ns seen
    by (induction e a ns seen rule: rbac_roles.induct)
      (auto intro!: safe_intros split: option.split prod.split)
  have "safe env store forced (rbac_bindings e a user xs seen)" for e a user xs seen
    by (induction e a user xs seen rule: rbac_bindings.induct)
      (auto intro!: safe_intros roles split: prod.split)
  then show ?thesis unfolding rbac_def by (auto intro!: safe_intros)
qed

lemma safe_load_authorizer: "load_authorizer env' mode = Inr auth \<Longrightarrow> safe env store forced (auth request a)"
  by (auto simp: load_authorizer_def always_allow_def always_deny_def safe_rbac intro!: safe_intros split: if_splits)

lemma safe_retry_attempts:
  assumes "safe env store forced (handler request)"
  shows "safe env store forced (retry_attempts handler request n)"
  by (induction n) (auto intro!: safe_intros assms)

lemma safe_serve:
  assumes "\<And>u. safe env store forced (handler (request\<lparr>req_user := u\<rparr>))"
  shows "safe env store forced (serve (load_authentication env' strategy client_ca) allow_anonymous retry handler request)"
  unfolding serve_def retry_transaction_def
  by (intro safe_authentication safe_load_authentication safe_retry_attempts assms)

lemma safe_protected:
  assumes "\<And>r a. safe env store forced (auth r a)" and "safe env store forced (handler request)"
  shows "safe env store forced (protected auth n rs v handler request)"
  unfolding protected_def by (intro safe_then assms)

section \<open>All endpoints\<close>

definition allowing :: "api_env \<Rightarrow> store \<Rightarrow> bool \<Rightarrow> http_request \<Rightarrow> authorizer \<Rightarrow> bool" where
  "allowing env store forced request auth \<longleftrightarrow>
     reliable env store \<and> (\<forall>r a. safe env store forced (auth r a)) \<and> (is_forced request \<longrightarrow> forced)"

text \<open>The shapes of the handlers.\<close>

lemma safe_creating:
  assumes "allowing env store forced request auth" and "c \<in> set api_classes"
  shows "safe env store forced (protected auth n rs v (use_schema (create_schema env c) (create_resource env c ns)) request)"
    and "safe env store forced (protected auth n rs v (use_schema (create_schema env c) (create_checked env c ns)) request)"
    and "safe env store forced (protected auth n rs v (use_schema (create_schema env c)
      (\<lambda>request body. blocking env c request (create_resource env c ns request body))) request)"
  using assms unfolding allowing_def
  by (auto intro!: safe_protected safe_use_schema safe_blocking intro: safe_create_resource safe_create_checked)

lemma safe_listing:
  assumes "allowing env store forced request auth"
  shows "safe env store forced (protected auth n rs v (list_or_watch env c) request)"
  using assms unfolding allowing_def by (auto intro!: safe_protected safe_list_or_watch)

lemma safe_loading:
  assumes "allowing env store forced request auth"
  shows "safe env store forced (protected auth n rs v (load env c read_resource) request)"
    and "safe env store forced (protected auth n rs v (load env application_class (retry_entity env)) request)"
    and "c \<in> set api_classes \<Longrightarrow> safe env store forced (protected auth n rs v (load env c (delete_marked env c)) request)"
  using assms unfolding allowing_def
  by (auto intro!: safe_protected safe_load safe_read safe_hooks intro: safe_delete_marked)

lemma safe_deleting:
  assumes "allowing env store forced request auth"
  shows "safe env store forced (protected auth n rs v (load env application_class
      (\<lambda>request entity. blocking env application_class request (delete_forcible env application_class await_shutdown request entity))) request)"
    and "safe env store forced (protected auth n rs v (load env cluster_class
      (\<lambda>request entity. blocking env cluster_class request (delete_forcible env cluster_class Inr request entity))) request)"
  using assms unfolding allowing_def
  by (auto intro!: safe_protected safe_load safe_blocking safe_delete_forcible develops_await_shutdown develops_self
      intro: reliable_conforms dest: await_shutdown_in_deletion simp del: conforms.simps)

lemma safe_updating:
  assumes "allowing env store forced request auth" and "c \<in> set api_classes"
  shows "safe env store forced (protected auth n rs v (use_schema (full_schema env c)
      (\<lambda>request body. load env c (\<lambda>request entity. modify_resource env c request body entity) request)) request)"
    and "safe env store forced (protected auth n rs v (use_schema (full_schema env c)
      (\<lambda>request body. load env c (\<lambda>request entity. update_if_changed env c request body entity) request)) request)"
    and "field_named ''status'' (class_fields c) \<noteq> None \<Longrightarrow> safe env store forced (protected auth n rs v (use_schema (full_schema env c)
      (\<lambda>request body. load env c (\<lambda>request entity. update_status_resource env c request body entity) request)) request)"
  using assms unfolding allowing_def
  by (auto intro!: safe_protected safe_use_schema safe_load safe_modify_resource safe_update_status_resource
      intro: full_schema_conforms simp del: conforms.simps)

lemma safe_binding:
  assumes "allowing env store forced request auth"
  shows "safe env store forced (protected auth n rs v (use_schema (decode env cluster_binding_fields)
      (\<lambda>request body. load env application_class (\<lambda>request entity. store_application_binding env request body entity) request)) request)"
    and "safe env store forced (protected auth n rs v (use_schema (decode env cloud_binding_fields)
      (\<lambda>request body. load env cluster_class (\<lambda>request entity. store_cluster_binding env request body entity) request)) request)"
    and "safe env store forced (protected auth n rs v (load env magnum_cluster_class
      (\<lambda>request entity. use_schema (decode env magnum_cluster_binding_fields)
        (\<lambda>request body. store_magnum_binding env request body entity) request)) request)"
    and "safe env store forced (protected auth n rs v (use_schema schema
      (\<lambda>request body. load env application_class (\<lambda>request entity. complete_application env request body entity) request)) request)"
    and "safe env store forced (protected auth n rs v (use_schema schema
      (\<lambda>request body. load env application_class (\<lambda>request entity. shutdown_application env request body entity) request)) request)"
  using assms unfolding allowing_def
  by (auto intro!: safe_protected safe_use_schema safe_load safe_store_application_binding safe_store_cluster_binding safe_store_magnum_binding safe_hooks
      intro: decode_conforms simp del: conforms.simps)

lemmas safe_shapes = safe_creating safe_listing safe_loading safe_deleting safe_updating safe_binding

lemma status_classes:
  "list_all (\<lambda>c. field_named ''status'' (class_fields c) \<noteq> None)
    [application_class, cluster_class, magnum_cluster_class, global_cloud_class, cloud_class, project_class]"
  by code_simp

lemma in_api_classes:
  "set [role_class, role_binding_class, global_metric_class, metric_class, global_metrics_provider_class,
    metrics_provider_class, application_class, cluster_class, global_infrastructure_provider_class,
    infrastructure_provider_class, global_cloud_class, cloud_class, project_class, magnum_cluster_class] \<subseteq> set api_classes"
  by (simp add: api_classes_def)

lemmas class_facts = in_api_classes [simplified, unfolded insert_subset] status_classes [unfolded list.pred_inject]

lemma safe_core_routes:
  assumes "allowing env store forced request auth" and "(m, p, handler) \<in> set (core_routes env auth)"
  shows "safe env store forced (handler request)"
  using assms(2) class_facts unfolding core_routes_def
    create_global_metric_def delete_global_metric_def list_or_watch_global_metrics_def read_global_metric_def
    update_global_metric_def create_global_metrics_provider_def delete_global_metrics_provider_def
    list_or_watch_global_metrics_providers_def read_global_metrics_provider_def
    update_global_metrics_provider_def create_role_def delete_role_def list_or_watch_roles_def read_role_def
    update_role_def create_role_binding_def delete_role_binding_def list_or_watch_role_bindings_def
    read_role_binding_def update_role_binding_def create_metric_def delete_metric_def
    list_or_watch_metrics_def read_metric_def update_metric_def create_metrics_provider_def
    delete_metrics_provider_def list_or_watch_metrics_providers_def read_metrics_provider_def
    update_metrics_provider_def
  by (auto intro!: safe_shapes assms(1) simp del: conforms.simps)

lemma safe_kubernetes_routes:
  assumes "allowing env store forced request auth" and "(m, p, handler) \<in> set (kubernetes_routes env auth)"
  shows "safe env store forced (handler request)"
  using assms(2) class_facts unfolding kubernetes_routes_def
    create_application_def delete_application_def list_or_watch_applications_def read_application_def
    update_application_def update_application_binding_def update_application_complete_def
    update_application_shutdown_def update_application_status_def retry_application_def create_cluster_def
    delete_cluster_def list_or_watch_clusters_def read_cluster_def update_cluster_def
    update_cluster_binding_def update_cluster_status_def
  by (auto intro!: safe_shapes assms(1) simp del: conforms.simps)

lemma safe_infrastructure_routes:
  assumes "allowing env store forced request auth" and "(m, p, handler) \<in> set (infrastructure_routes env auth)"
  shows "safe env store forced (handler request)"
  using assms(2) class_facts unfolding infrastructure_routes_def
    create_global_infrastructure_provider_def delete_global_infrastructure_provider_def
    list_or_watch_global_infrastructure_providers_def read_global_infrastructure_provider_def
    update_global_infrastructure_provider_def create_infrastructure_provider_def
    delete_infrastructure_provider_def list_or_watch_infrastructure_providers_def
    read_infrastructure_provider_def update_infrastructure_provider_def create_global_cloud_def
    delete_global_cloud_def list_or_watch_global_clouds_def read_global_cloud_def update_global_cloud_def
    update_global_cloud_status_def create_cloud_def delete_cloud_def list_or_watch_clouds_def read_cloud_def
    update_cloud_def update_cloud_status_def
  by (auto intro!: safe_shapes assms(1) simp del: conforms.simps)

lemma safe_openstack_routes:
  assumes "allowing env store forced request auth" and "(m, p, handler) \<in> set (openstack_routes env auth)"
  shows "safe env store forced (handler request)"
  using assms(2) class_facts unfolding openstack_routes_def
    create_magnum_cluster_def delete_magnum_cluster_def list_or_watch_magnum_clusters_def
    read_magnum_cluster_def update_magnum_cluster_def update_magnum_cluster_binding_def
    update_magnum_cluster_status_def create_project_def delete_project_def list_or_watch_projects_def
    read_project_def update_project_def update_project_status_def
  by (auto intro!: safe_shapes assms(1) simp del: conforms.simps)

lemma safe_endpoints:
  assumes "allowing env store forced request auth" and "(m, p, handler) \<in> set (endpoints env auth)"
  shows "safe env store forced (handler request)"
  using assms unfolding endpoints_def
  by (auto intro: safe_core_routes safe_kubernetes_routes safe_infrastructure_routes safe_openstack_routes
      simp: me_def release_def intro!: safe_intros)

end
