(* ===== verification/Api_Lifecycle.thy ===== *)
theory Api_Lifecycle
  imports Api_Safety
begin

text \<open>
  The properties of the API server: each transaction is an allowed change of the stored resource,
  so that a database which only API servers write to holds well-formed resources, whose identity
  does not change, which stay in deletion and then only lose finalizers.
\<close>

section \<open>Requests that the application handles\<close>

text \<open>The request led to a transaction that etcd committed as the next revision.\<close>

definition commits :: "api_env \<Rightarrow> store \<Rightarrow> handler \<Rightarrow> http_request \<Rightarrow> string \<Rightarrow> nat \<Rightarrow> bool" where
  "commits env store handler request k n \<longleftrightarrow>
     (\<exists>r g c q es. handler request [] = Some (r, g @ Commit k c q # es) \<and>
        commit_answer env (g @ [Commit k c q]) = Inr (True, Suc n))"

lemma good_Nil [simp]: "good env store forced []"
  by (simp add: good_def)

lemma allowing_authorizer:
  assumes "reliable env store" and "load_authorizer env mode = Inr auth"
  shows "allowing env store (is_forced request) (request\<lparr>req_user := u\<rparr>) auth"
  using assms safe_load_authorizer by (auto simp: allowing_def is_forced_def)

lemma safe_app:
  assumes "reliable env store" and "create_app env config = Inr routes" and "(m, p, handler) \<in> set routes"
  shows "safe env store (is_forced request) (handler request)"
proof -
  from assms(2) obtain auth where auth: "load_authorizer env (config_authorization config) = Inr auth"
    and routes: "routes = map (\<lambda>(m, p, handler).
         (m, p, serve (load_authentication env (config_strategy config) (config_client_ca config))
            (config_allow_anonymous config) (config_retry config) handler)) (endpoints env auth)"
    by (auto simp: create_app_def res_bind_Inr_iff)
  from assms(3) routes obtain inner where inner: "(m, p, inner) \<in> set (endpoints env auth)"
    and handler: "handler = serve (load_authentication env (config_strategy config) (config_client_ca config))
      (config_allow_anonymous config) (config_retry config) inner"
    by auto
  show ?thesis
    unfolding handler
    by (rule safe_serve) (rule safe_endpoints [OF allowing_authorizer [OF assms(1) auth] inner])
qed

lemma commits_allowed:
  assumes "reliable env store" and "create_app env config = Inr routes" and "(m, p, handler) \<in> set routes"
    and "commits env store handler request k n" and "\<forall>m \<le> n. all_well_stored (store m)"
  shows "change_allowed (is_forced request) k (store n k) (store (Suc n) k)"
    and "l \<noteq> k \<Longrightarrow> store (Suc n) l = store n l"
proof -
  from assms(4) obtain r g c q es where run: "handler request [] = Some (r, g @ Commit k c q # es)"
    and ok: "commit_answer env (g @ [Commit k c q]) = Inr (True, Suc n)"
    unfolding commits_def by blast
  from safe_app [OF assms(1-3)] have "post (handler request) [] (\<lambda>r h. good env store (is_forced request) h)"
    by (simp add: safe_def)
  from postD [OF this run] have "commit_ok env store (is_forced request) g (Commit k c q)" unfolding good_def by blast
  with ok assms(5) show "change_allowed (is_forced request) k (store n k) (store (Suc n) k)" unfolding commit_ok_def by blast
  show "l \<noteq> k \<Longrightarrow> store (Suc n) l = store n l"
    using assms(1) etcd_commit(3) [OF _ ok] by (simp add: reliable_def)
qed

section \<open>A database that only API servers write to\<close>

text \<open>
  Any number of servers, with any configuration, handle any requests; what counts is the order in
  which etcd commits their transactions.
\<close>

definition handled_change :: "store \<Rightarrow> nat \<Rightarrow> bool" where
  "handled_change store n \<longleftrightarrow>
     (\<exists>env config routes m p handler request k.
        reliable env store \<and> create_app env config = Inr routes \<and> (m, p, handler) \<in> set routes \<and>
        commits env store handler request k n)"

definition api_store :: "store \<Rightarrow> bool" where
  "api_store store \<longleftrightarrow> etcd_store store \<and> (\<forall>n. store (Suc n) = store n \<or> handled_change store n)"

lemma change_allowed_well_stored:
  assumes "change_allowed forced k old new" and "new = Some y" and "c \<in> set api_classes" and "belongs c k"
  shows "well_stored c k (kv_value y)"
proof -
  from assms(1,2) obtain c' where c': "c' \<in> set api_classes" "belongs c' k" "well_stored c' k (kv_value y)"
    unfolding change_allowed_def list_ex_iff by (auto split: option.splits)
  from belongs_unique [OF assms(3) c'(1) assms(4) c'(2)] have "class_key c = class_key c'" .
  moreover have "distinct (map class_key api_classes)" by code_simp
  ultimately have "c = c'" using assms(3) c'(1) by (auto simp: distinct_map dest: inj_onD)
  with c'(3) show ?thesis by simp
qed

lemma api_store_well_stored:
  assumes "api_store store"
  shows "all_well_stored (store n)"
proof (induction n rule: less_induct)
  case (less n)
  show ?case
  proof (cases n)
    case 0
    with assms show ?thesis by (simp add: api_store_def etcd_store_def all_well_stored_def)
  next
    case (Suc j)
    then have before: "\<forall>m \<le> j. all_well_stored (store m)" using less by simp
    show ?thesis
    proof (cases "store (Suc j) = store j")
      case True
      with before Suc show ?thesis by simp
    next
      case False
      with assms obtain env config routes m p handler request k where
        c: "reliable env store" "create_app env config = Inr routes" "(m, p, handler) \<in> set routes"
          "commits env store handler request k j"
        unfolding api_store_def handled_change_def by blast
      note change = commits_allowed [OF c before]
      show ?thesis
        unfolding all_well_stored_def list_all_iff Suc
      proof (intro allI impI ballI)
        fix l x c assume x: "store (Suc j) l = Some x" "c \<in> set api_classes" "belongs c l"
        show "well_stored c l (kv_value x)"
        proof (cases "l = k")
          case True
          with change_allowed_well_stored [OF change(1)] x show ?thesis by simp
        next
          case False
          with change(2) x before show ?thesis by (auto simp: all_well_stored_def list_all_iff)
        qed
      qed
    qed
  qed
qed

text \<open>Between two revisions with the same creation, the key was never deleted.\<close>

lemma created_before: "etcd_store store \<Longrightarrow> store n k = Some x \<Longrightarrow> create_revision x \<le> n"
proof (induction n arbitrary: x)
  case 0
  then show ?case by (simp add: etcd_store_def)
next
  case (Suc n)
  show ?case
  proof (cases "store (Suc n) k = store n k")
    case True
    with Suc show ?thesis by fastforce
  next
    case False
    from etcd_created [OF Suc.prems this] show ?thesis
      using Suc.IH [OF Suc.prems(1)] by (auto split: option.splits intro: le_SucI)
  qed
qed

lemma one_life:
  assumes "api_store store" and "store m k = Some x" and "c \<in> set api_classes" and "belongs c k"
  shows "store (m + d) k = Some y \<Longrightarrow> create_revision y = create_revision x \<Longrightarrow> later (kv_value x) (kv_value y)"
proof (induction d arbitrary: y)
  case 0
  with assms(2) show ?case by simp
next
  case (Suc d)
  have es: "etcd_store store" using assms(1) by (simp add: api_store_def)
  from Suc.prems(1) have y: "store (Suc (m + d)) k = Some y" by simp
  show ?case
  proof (cases "store (Suc (m + d)) k = store (m + d) k")
    case True
    with Suc y show ?thesis by simp
  next
    case False
    from created_before [OF es assms(2)] Suc.prems(2) have "create_revision y \<noteq> Suc (m + d)" by simp
    with etcd_created [OF es y False] obtain z where z: "store (m + d) k = Some z" "create_revision z = create_revision y"
      by (auto split: option.splits)
    from Suc.IH [OF z(1)] z(2) Suc.prems(2) have xz: "later (kv_value x) (kv_value z)" by simp
    from False have "store (Suc (m + d)) \<noteq> store (m + d)" by auto
    with assms(1) obtain env config routes m' p handler request l where
      c: "reliable env store" "create_app env config = Inr routes" "(m', p, handler) \<in> set routes"
        "commits env store handler request l (m + d)"
      unfolding api_store_def handled_change_def by blast
    note change = commits_allowed [OF c] api_store_well_stored [OF assms(1)]
    have "l = k" using change(2) [of k] api_store_well_stored [OF assms(1)] False by blast
    with change(1) change(3) have "change_allowed (is_forced request) k (store (m + d) k) (store (Suc (m + d)) k)" by blast
    then have "later (kv_value z) (kv_value y)"
      unfolding change_allowed_def z(1) y list_ex_iff by auto
    with xz show ?thesis by (rule later_trans)
  qed
qed

section \<open>A role that is created and deleted\<close>

definition example_metadata :: "yaml list \<Rightarrow> yaml \<Rightarrow> yaml \<Rightarrow> yaml \<Rightarrow> yaml" where
  "example_metadata fs u t d =
     Obj [(''name'', Text ''admin''), (''namespace'', Null), (''labels'', Obj []), (''inherit_labels'', Boolean False),
          (''finalizers'', Arr fs), (''uid'', u), (''created'', t), (''modified'', t), (''deleted'', d),
          (''owners'', Arr [])]"

definition example_role :: "yaml \<Rightarrow> yaml" where
  "example_role m = Obj [(''api'', Text ''core''), (''kind'', Text ''Role''), (''metadata'', m), (''rules'', Arr [])]"

definition example_body :: yaml where
  "example_body = example_role (example_metadata [] Null Null Null)"

definition example_created :: yaml where
  "example_created = example_role (example_metadata [] (Text ''u'') (Integer 7) Null)"

definition example_marked :: yaml where
  "example_marked = example_role (example_metadata [Text ''cascade_deletion''] (Text ''u'') (Integer 7) (Integer 7))"

abbreviation example_key :: string where "example_key \<equiv> ''/core/roles/admin''"

definition example_kv :: "yaml \<Rightarrow> nat \<Rightarrow> kv" where
  "example_kv v n = \<lparr>kv_key = example_key, kv_value = v, create_revision = 1, mod_revision = n, kv_version = n\<rparr>"

definition example_store :: store where
  "example_store n k =
     (if k \<noteq> example_key \<or> n = 0 then None
      else Some (if n = 1 then example_kv example_created 1 else example_kv example_marked 2))"

definition example_env :: api_env where
  "example_env =
     \<lparr>range_answer = (\<lambda>h. case last h of
        Range k (Some n) \<Rightarrow> Inr (case example_store n k of None \<Rightarrow> [] | Some x \<Rightarrow> [x])
      | Range k None \<Rightarrow> Inr (case example_store 1 k of None \<Rightarrow> [] | Some x \<Rightarrow> [x])
      | Range_prefix p \<Rightarrow> Inr (if p = ''/core/roles/'' then [example_kv example_created 1] else [])
      | _ \<Rightarrow> Inr []),
      commit_answer = (\<lambda>h.
        if h = [Commit example_key Not_exists (Put_value example_created)] then Inr (True, 1)
        else if h = [Range example_key None, Commit example_key (Modified_at 1) (Put_value example_marked)] then Inr (True, 2)
        else Inr (False, 0)),
      event_answer = (\<lambda>h. None),
      watch_answer = (\<lambda>h. Inr []),
      api_clock = (\<lambda>h. 7),
      new_uuid = (\<lambda>h. ''u''),
      decode = (\<lambda>fs v. if conforms (Serializable_type fs) v then Inr v else Inl ValidationError),
      decode_creation = (\<lambda>fs v. if conforms_creation fs v then Inr v else Inl ValidationError),
      identity_answer = (\<lambda>e t. Inl RuntimeError)\<rparr>"

definition example_config :: api_config where
  "example_config = \<lparr>config_strategy = Static ''system'', config_client_ca = False, config_allow_anonymous = False,
     config_authorization = ''always-allow'', config_retry = 1\<rparr>"

definition example_request :: "string \<Rightarrow> (string, string) dict \<Rightarrow> yaml option \<Rightarrow> http_request" where
  "example_request m info body = \<lparr>req_method = m, auth_header = None, peer_subject = None, req_user = [],
     match_info = info, query_string = [], json_body = body\<rparr>"

abbreviation example_handler :: "handler \<Rightarrow> handler" where
  "example_handler h \<equiv> serve (load_authentication example_env (Static ''system'') False) False 1 h"

lemma example_store_laws: "etcd_store example_store"
  unfolding etcd_store_def
  by (auto simp: example_store_def example_kv_def split: if_splits)

lemma example_reliable: "reliable example_env example_store"
proof -
  have "etcd_laws example_env example_store"
    unfolding etcd_laws_def
  proof (intro conjI allI impI example_store_laws)
    fix h p xs assume "range_answer example_env (h @ [Range_prefix p]) = Inr xs"
    then have xs: "xs = (if p = ''/core/roles/'' then [example_kv example_created 1] else [])" by (simp add: example_env_def)
    show "\<exists>n. \<forall>x. x \<in> set xs \<longleftrightarrow> example_store n (kv_key x) = Some x \<and> take (length p) (kv_key x) = p"
    proof (cases "p = ''/core/roles/''")
      case True
      then show ?thesis by (intro exI [of _ 1]) (auto simp: xs example_store_def example_kv_def)
    next
      case False
      then show ?thesis by (intro exI [of _ 0]) (simp add: xs example_store_def)
    qed
  next
    fix h k c p r assume "commit_answer example_env (h @ [Commit k c p]) = Inr (True, r)"
    then consider "k = example_key" "c = Not_exists" "p = Put_value example_created" "r = 1"
      | "k = example_key" "c = Modified_at 1" "p = Put_value example_marked" "r = 2"
      by (auto simp: example_env_def split: if_splits)
    then show "\<exists>n. r = Suc n \<and> compare_holds c (example_store n k) \<and>
        (case p of Delete_key \<Rightarrow> example_store r k = None
         | Put_value v \<Rightarrow> \<exists>x. example_store r k = Some x \<and> kv_value x = v) \<and>
        (\<forall>l. l \<noteq> k \<longrightarrow> example_store r l = example_store n l)"
    proof cases
      case 1
      then show ?thesis by (intro exI [of _ 0]) (simp add: example_store_def example_kv_def compare_holds_def)
    next
      case 2
      then show ?thesis by (intro exI [of _ 1]) (simp add: example_store_def example_kv_def compare_holds_def)
    qed
  qed (auto simp: example_env_def intro: exI [of _ 1])
  moreover have "schema_laws example_env"
    by (auto simp: schema_laws_def example_env_def simp del: conforms.simps split: if_splits)
  ultimately show ?thesis by (simp add: reliable_def)
qed

lemma example_routes:
  "\<exists>routes. create_app example_env example_config = Inr routes \<and>
     (''POST'', ''/core/roles'', example_handler (create_role example_env always_allow)) \<in> set routes \<and>
     (''DELETE'', ''/core/roles/{name}'', example_handler (delete_role example_env always_allow)) \<in> set routes"
  by (simp add: create_app_def example_config_def load_authorizer_def endpoints_def core_routes_def)

lemma commitsI:
  assumes "handler request [] = Some (r, g @ Commit k c q # es)" and "commit_answer env (g @ [Commit k c q]) = Inr (True, Suc n)"
  shows "commits env store handler request k n"
  using assms unfolding commits_def by blast

lemma example_creation:
  "commits example_env example_store (example_handler (create_role example_env always_allow))
     (example_request ''POST'' [] (Some example_body)) example_key 0"
proof (rule commitsI)
  show "example_handler (create_role example_env always_allow) (example_request ''POST'' [] (Some example_body)) [] =
      Some (Inr example_created, [] @ Commit example_key Not_exists (Put_value example_created) # [])"
    by code_simp
qed (simp add: example_env_def)

lemma example_deletion:
  "commits example_env example_store (example_handler (delete_role example_env always_allow))
     (example_request ''DELETE'' [(''name'', ''admin'')] None) example_key 1"
proof (rule commitsI)
  show "example_handler (delete_role example_env always_allow) (example_request ''DELETE'' [(''name'', ''admin'')] None) [] =
      Some (Inr example_marked,
        [Range example_key None] @ Commit example_key (Modified_at 1) (Put_value example_marked) # [])"
    by code_simp
qed (simp add: example_env_def)

lemma example_api_store: "api_store example_store"
  unfolding api_store_def
proof (intro conjI allI example_store_laws)
  fix n :: nat
  from example_routes obtain routes where
    r: "create_app example_env example_config = Inr routes"
      "(''POST'', ''/core/roles'', example_handler (create_role example_env always_allow)) \<in> set routes"
      "(''DELETE'', ''/core/roles/{name}'', example_handler (delete_role example_env always_allow)) \<in> set routes"
    by blast
  consider "n = 0" | "n = 1" | "n > 1" by linarith
  then show "example_store (Suc n) = example_store n \<or> handled_change example_store n"
  proof cases
    case 1
    with example_reliable r(1,2) example_creation show ?thesis unfolding handled_change_def by blast
  next
    case 2
    with example_reliable r(1,3) example_deletion show ?thesis unfolding handled_change_def by blast
  next
    case 3
    then show ?thesis by (auto simp: example_store_def fun_eq_iff)
  qed
qed

lemma example_class: "role_class \<in> set api_classes" "belongs role_class example_key"
  by (simp add: api_classes_def) code_simp

section \<open>Properties\<close>

text \<open>
  C1. Every transaction that the API commits for a request is an atomic change of one resource: it
  creates a resource that is not in deletion; or it replaces the resource, as it was stored at this
  moment, by a later version of it, with the same name, namespace, uid and creation time, which is
  in deletion if the resource was, and then has only finalizers that it had; or it removes a
  resource that is in deletion, or an application or cluster whose deletion the request forces. No
  other key is changed. What was stored before must be objects of their classes under their keys.
\<close>

theorem api_commits_allowed:
  assumes "reliable env store" and "create_app env config = Inr routes" and "(m, p, handler) \<in> set routes"
    and "commits env store handler request k n" and "\<forall>j \<le> n. all_well_stored (store j)"
  shows "change_allowed (is_forced request) k (store n k) (store (Suc n) k) \<and> (\<forall>l. l \<noteq> k \<longrightarrow> store (Suc n) l = store n l)"
  using commits_allowed [OF assms] by blast

theorem api_commits_allowed_witness:
  "change_allowed False example_key (example_store 1 example_key) (example_store 2 example_key)"
proof -
  from example_routes obtain routes where
    r: "create_app example_env example_config = Inr routes"
      "(''DELETE'', ''/core/roles/{name}'', example_handler (delete_role example_env always_allow)) \<in> set routes"
    by blast
  have "\<not> is_forced (example_request ''DELETE'' [(''name'', ''admin'')] None)" by (simp add: is_forced_def example_request_def)
  with api_commits_allowed [OF example_reliable r example_deletion] api_store_well_stored [OF example_api_store]
  show ?thesis by (simp add: numeral_2_eq_2)
qed

text \<open>
  C5. If only API servers write to the database, then at every revision the value under a key of one
  of the classes is an object of this class, whose name and namespace make up the key.
\<close>

theorem api_store_invariant:
  assumes "api_store store" and "c \<in> set api_classes" and "belongs c k" and "store n k = Some x"
  shows "conforms (class_type c) (kv_value x) \<and> format_object (class_key c) (kv_value x) = Inr k"
  using api_store_well_stored [OF assms(1), of n] assms(2-4)
  by (simp add: all_well_stored_def list_all_iff well_stored_def del: conforms.simps)

theorem api_store_invariant_witness: "conforms (class_type role_class) example_marked"
  using api_store_invariant [OF example_api_store example_class, of 2 "example_kv example_marked 2"]
  by (simp add: example_store_def example_kv_def del: conforms.simps)

text \<open>
  C3. If only API servers write to the database, then a resource, from its creation to its removal,
  keeps its name, its namespace, its uid and its creation time; once its deletion is requested it
  stays in deletion, and no finalizer that it does not have is added.
\<close>

theorem resource_life:
  assumes "api_store store" and "c \<in> set api_classes" and "belongs c k"
    and "store m k = Some x" and "store n k = Some y" and "m \<le> n" and "create_revision y = create_revision x"
  shows "list_all (\<lambda>p. get_path p (kv_value y) = get_path p (kv_value x)) identity_paths \<and>
    (in_deletion (kv_value x) \<longrightarrow>
      in_deletion (kv_value y) \<and> set (finalizers_of (kv_value y)) \<subseteq> set (finalizers_of (kv_value x)))"
  using one_life [OF assms(1,4,2,3), of "n - m" y] assms(5-7) by (simp add: later_def)

theorem resource_life_witness:
  "list_all (\<lambda>p. get_path p example_marked = get_path p example_created) identity_paths"
  using resource_life [OF example_api_store example_class, of 1 "example_kv example_created 1" 2 "example_kv example_marked 2"]
  by (simp add: example_store_def example_kv_def)

end
