(* ===== verification/Api_Access.thy ===== *)
theory Api_Access
  imports Api_Lifecycle
begin

text \<open>
  Which requests the role based access control lets through: exactly those that a rule of a role
  of the user allows.
\<close>

section \<open>Rules\<close>

definition texts_of :: "string \<Rightarrow> yaml \<Rightarrow> string set" where
  "texts_of attr v = {s. \<exists>xs. get_attr attr v = Inr (Arr xs) \<and> Text s \<in> set xs}"

definition rule_grants :: "authorization_request \<Rightarrow> yaml \<Rightarrow> bool" where
  "rule_grants a rule \<longleftrightarrow>
     get_attr ''api'' rule \<in> {Inr (Text (auth_api a)), Inr (Text [])} \<and>
     verb_name (auth_verb a) \<in> texts_of ''verbs'' rule \<and>
     texts_of ''resources'' rule \<inter> {auth_resource a, []} \<noteq> {} \<and>
     (case auth_namespace a of None \<Rightarrow> True | Some ns \<Rightarrow> texts_of ''namespaces'' rule \<inter> {ns, []} \<noteq> {})"

definition role_grants :: "authorization_request \<Rightarrow> yaml \<Rightarrow> bool" where
  "role_grants a role \<longleftrightarrow> (\<exists>rules. get_attr ''rules'' role = Inr (Arr rules) \<and> (\<exists>rule \<in> set rules. rule_grants a rule))"

lemma get_listed:
  assumes "distinct (names fs)" and "conforms (Serializable_type fs) v" and "field_named k fs = Some (plain k, List_of t)"
  obtains xs where "get_attr k v = Inr (Arr xs)" and "list_all (conforms t) xs"
proof -
  from field_named_get(3) [OF assms] obtain x where "get_attr k v = Inr x" "conforms (List_of t) x"
    by (auto simp: accepts_def plain_def simp del: conforms.simps)
  with that show ?thesis by (cases x) auto
qed

lemma mentions_exact:
  assumes "get_attr attr v = Inr (Arr xs)" and "list_all (conforms t) xs" and "t = String_field \<or> (\<exists>ns. t = Enumeration ns)"
  shows "mentions attr v s = Inr (s \<in> texts_of attr v)"
proof -
  have "list_ex (py_eq (Text s)) ys \<longleftrightarrow> Text s \<in> set ys" if "list_all (conforms t) ys" for ys
    using that assms(3) by (induction ys) (auto split: yaml.splits)
  then show ?thesis using assms(1,2) by (simp add: mentions_def texts_of_def del: get_attr.simps)
qed

lemma conforms_String: "conforms String_field v \<longleftrightarrow> (\<exists>s. v = Text s)"
  by (cases v) auto

lemma rule_fields_named:
  "distinct (names role_rule_fields)"
  "field_named ''api'' role_rule_fields = Some (plain ''api'', String_field)"
  "field_named ''verbs'' role_rule_fields = Some (plain ''verbs'', List_of (Enumeration
     [''create'', ''list'', ''list_all'', ''get'', ''update'', ''delete'']))"
  "field_named ''resources'' role_rule_fields = Some (plain ''resources'', List_of String_field)"
  "field_named ''namespaces'' role_rule_fields = Some (plain ''namespaces'', List_of String_field)"
  by code_simp+

lemma rule_allows_exact:
  assumes "conforms (Serializable_type role_rule_fields) rule"
  shows "rule_allows a rule = Inr (rule_grants a rule)"
proof -
  note d = rule_fields_named(1)
  from field_named_get(3) [OF d assms rule_fields_named(2)] obtain s where api: "get_attr ''api'' rule = Inr (Text s)"
    by (auto simp: accepts_def plain_def conforms_String simp del: conforms.simps)
  have verbs: "mentions ''verbs'' rule s = Inr (s \<in> texts_of ''verbs'' rule)" for s
    by (rule get_listed [OF d assms rule_fields_named(3)], rule mentions_exact) auto
  have resources: "mentions ''resources'' rule s = Inr (s \<in> texts_of ''resources'' rule)" for s
    by (rule get_listed [OF d assms rule_fields_named(4)], rule mentions_exact) auto
  have namespaces: "mentions ''namespaces'' rule s = Inr (s \<in> texts_of ''namespaces'' rule)" for s
    by (rule get_listed [OF d assms rule_fields_named(5)], rule mentions_exact) auto
  show ?thesis
    unfolding rule_allows_def verbs resources namespaces api
    by (auto simp: rule_grants_def api split: option.split)
qed

lemma any_rule_exact:
  "list_all (conforms (Serializable_type role_rule_fields)) rules \<Longrightarrow>
    any_rule a rules = Inr (\<exists>rule \<in> set rules. rule_grants a rule)"
  by (induction rules) (auto simp: rule_allows_exact simp del: conforms.simps)

lemma role_class_fields:
  "distinct (names (class_fields role_class))"
  "field_named ''rules'' (class_fields role_class) = Some (plain ''rules'', List_of (Serializable_type role_rule_fields))"
  "distinct (names (class_fields role_binding_class))"
  "field_named ''users'' (class_fields role_binding_class) = Some (plain ''users'', List_of String_field)"
  "field_named ''roles'' (class_fields role_binding_class) = Some (plain ''roles'', List_of String_field)"
  by code_simp+

lemma role_allows_exact:
  assumes "conforms (class_type role_class) role"
  shows "role_allows a role = Inr (role_grants a role)"
proof -
  from get_listed [OF role_class_fields(1) assms role_class_fields(2)] obtain rules where
    "get_attr ''rules'' role = Inr (Arr rules)" "list_all (conforms (Serializable_type role_rule_fields)) rules" .
  then show ?thesis by (simp add: role_allows_def role_grants_def any_rule_exact del: get_attr.simps conforms.simps)
qed

section \<open>Roles of a user\<close>

text \<open>
  The database does not change while the request is handled; its roles and bindings are objects of
  their classes, which the schemas load.
\<close>

definition snapshot :: "api_env \<Rightarrow> (string \<Rightarrow> kv option) \<Rightarrow> kv list \<Rightarrow> bool" where
  "snapshot env stored bindings \<longleftrightarrow>
     schema_laws env \<and>
     (\<forall>h k. range_answer env (h @ [Range k None]) = Inr (case stored k of None \<Rightarrow> [] | Some x \<Rightarrow> [x])) \<and>
     (\<forall>h. range_answer env (h @ [Range_prefix ''/core/rolebindings/'']) = Inr bindings) \<and>
     (\<forall>k x. stored k = Some x \<longrightarrow> belongs role_class k \<longrightarrow> conforms (class_type role_class) (kv_value x)) \<and>
     list_all (\<lambda>x. key_matches (class_key role_binding_class) (kv_key x) \<and>
       conforms (class_type role_binding_class) (kv_value x)) bindings"

definition named_role_grants :: "(string \<Rightarrow> kv option) \<Rightarrow> authorization_request \<Rightarrow> string \<Rightarrow> bool" where
  "named_role_grants stored a n \<longleftrightarrow> (\<exists>x. stored (''/core/roles/'' @ n) = Some x \<and> role_grants a (kv_value x))"

definition user_granted :: "(string \<Rightarrow> kv option) \<Rightarrow> kv list \<Rightarrow> authorization_request \<Rightarrow> string \<Rightarrow> bool" where
  "user_granted stored bindings a user \<longleftrightarrow>
     (\<exists>b \<in> set bindings. user \<in> texts_of ''users'' (kv_value b) \<and>
        (\<exists>n \<in> texts_of ''roles'' (kv_value b). named_role_grants stored a n))"

lemma role_key: "format_kwargs (class_key role_class) [(''name'', n)] = Inr (''/core/roles/'' @ n)"
proof -
  have parts: "key_parts (class_key role_class) = map Literal ''/core/roles/'' @ [Param ''name'']" by code_simp
  have "parameters (class_key role_class) = [''name'']" by code_simp
  then show ?thesis by (simp add: format_kwargs_def parts)
qed

lemma role_belongs: "belongs role_class (''/core/roles/'' @ n)"
  by (rule format_kwargs_belongs [OF role_key])

lemma get_role:
  assumes "snapshot env stored bindings"
  shows "\<exists>h'. session_get env role_class [(''name'', n)] h =
    Some (Inr (case stored (''/core/roles/'' @ n) of None \<Rightarrow> None | Some x \<Rightarrow> Some (kv_value x, Some (from_kv x))), h')"
proof -
  from assms have answer: "range_answer env (h @ [Range (''/core/roles/'' @ n) None]) =
      Inr (case stored (''/core/roles/'' @ n) of None \<Rightarrow> [] | Some x \<Rightarrow> [x])"
    unfolding snapshot_def by blast
  show ?thesis
  proof (cases "stored (''/core/roles/'' @ n)")
    case None
    with answer show ?thesis
      by (simp add: session_get_def role_key get_by_key_def co_bind_def co_lift_def db_ask_def co_return_def)
  next
    case (Some x)
    with assms role_belongs have "conforms (class_type role_class) (kv_value x)" unfolding snapshot_def by blast
    with assms have "decode env (class_fields role_class) (kv_value x) = Inr (kv_value x)"
      unfolding snapshot_def schema_laws_def by blast
    with answer Some show ?thesis
      by (simp add: session_get_def role_key get_by_key_def load_instance_def co_bind_def co_lift_def db_ask_def co_return_def)
  qed
qed

text \<open>The loops over the roles and over the bindings; \<open>seen\<close> holds names that granted nothing.\<close>

lemma rbac_roles_exact:
  assumes "snapshot env stored bindings" and "list_all (conforms String_field) ns"
    and "\<forall>n \<in> set seen. \<not> named_role_grants stored a n"
  shows "\<exists>b seen' h'. rbac_roles env a ns seen h = Some (Inr (b, seen'), h') \<and>
    (b \<longleftrightarrow> (\<exists>n. Text n \<in> set ns \<and> named_role_grants stored a n)) \<and>
    (\<not> b \<longrightarrow> (\<forall>n \<in> set seen'. \<not> named_role_grants stored a n))"
  using assms(2,3)
proof (induction ns arbitrary: seen h)
  case Nil
  then show ?case by (intro exI [of _ False] exI [of _ seen] exI [of _ h]) (simp add: co_return_def)
next
  case (Cons v ns)
  then obtain n where v: "v = Text n" by (auto simp: conforms_String simp del: conforms.simps)
  have IH: "\<exists>b seen' h'. rbac_roles env a ns seen h = Some (Inr (b, seen'), h') \<and>
      (b \<longleftrightarrow> (\<exists>n. Text n \<in> set ns \<and> named_role_grants stored a n)) \<and>
      (\<not> b \<longrightarrow> (\<forall>n \<in> set seen'. \<not> named_role_grants stored a n))"
    if "\<forall>n \<in> set seen. \<not> named_role_grants stored a n" for seen h
    by (rule Cons.IH) (use Cons.prems(1) that in \<open>simp_all del: conforms.simps\<close>)
  show ?case
  proof (cases "n \<in> set seen")
    case True
    with Cons.prems(2) have "\<not> named_role_grants stored a n" by blast
    with IH [OF Cons.prems(2), of h] True v show ?thesis by auto
  next
    case False
    from get_role [OF assms(1), of n h] obtain h1 where get: "session_get env role_class [(''name'', n)] h =
      Some (Inr (case stored (''/core/roles/'' @ n) of None \<Rightarrow> None | Some x \<Rightarrow> Some (kv_value x, Some (from_kv x))), h1)" by blast
    show ?thesis
    proof (cases "named_role_grants stored a n")
      case True
      then obtain x where x: "stored (''/core/roles/'' @ n) = Some x" "role_grants a (kv_value x)"
        unfolding named_role_grants_def by blast
      with assms(1) role_belongs have "conforms (class_type role_class) (kv_value x)" unfolding snapshot_def by blast
      from role_allows_exact [OF this] x(2) have "role_allows a (kv_value x) = Inr True" by simp
      with get x(1) False v have "rbac_roles env a (v # ns) seen h = Some (Inr (True, n # seen), h1)"
        by (simp add: co_bind_def co_lift_def co_return_def)
      with True v show ?thesis by auto
    next
      case no: False
      have run: "rbac_roles env a (v # ns) seen h = rbac_roles env a ns (n # seen) h1"
      proof (cases "stored (''/core/roles/'' @ n)")
        case None
        with get False v show ?thesis by (simp add: co_bind_def)
      next
        case (Some x)
        with assms(1) role_belongs have "conforms (class_type role_class) (kv_value x)" unfolding snapshot_def by blast
        from role_allows_exact [OF this] no Some have "role_allows a (kv_value x) = Inr False"
          by (simp add: named_role_grants_def)
        with get Some False v show ?thesis by (simp add: co_bind_def co_lift_def)
      qed
      have "\<forall>m \<in> set (n # seen). \<not> named_role_grants stored a m" using no Cons.prems(2) by simp
      from IH [OF this, of h1] no v show ?thesis unfolding run by auto
    qed
  qed
qed

lemma rbac_bindings_exact:
  assumes "snapshot env stored bindings" and "set xs \<subseteq> set bindings"
    and "\<forall>n \<in> set seen. \<not> named_role_grants stored a n"
  shows "\<exists>h'. rbac_bindings env a user xs seen h = Some (Inr (user_granted stored xs a user), h')"
  using assms(2,3)
proof (induction xs arbitrary: seen h)
  case Nil
  then show ?case by (simp add: co_return_def user_granted_def)
next
  case (Cons x xs)
  from assms(1) Cons.prems(1) have c: "conforms (class_type role_binding_class) (kv_value x)"
    by (auto simp: snapshot_def list_all_iff simp del: conforms.simps)
  with assms(1) have "decode env (class_fields role_binding_class) (kv_value x) = Inr (kv_value x)"
    unfolding snapshot_def schema_laws_def by blast
  then have load: "load_instance env role_binding_class x = Inr (kv_value x, Some (from_kv x))"
    by (simp add: load_instance_def)
  from get_listed [OF role_class_fields(3) c role_class_fields(4)] obtain us where
    us: "get_attr ''users'' (kv_value x) = Inr (Arr us)" "list_all (conforms String_field) us" .
  have users: "mentions ''users'' (kv_value x) user = Inr (user \<in> texts_of ''users'' (kv_value x))"
    by (rule mentions_exact [OF us]) simp
  from get_listed [OF role_class_fields(3) c role_class_fields(5)] obtain ns where
    ns: "get_attr ''roles'' (kv_value x) = Inr (Arr ns)" "list_all (conforms String_field) ns" .
  have IH: "\<exists>h'. rbac_bindings env a user xs seen h = Some (Inr (user_granted stored xs a user), h')"
    if "\<forall>n \<in> set seen. \<not> named_role_grants stored a n" for seen h
    by (rule Cons.IH) (use Cons.prems(1) that in simp_all)
  show ?case
  proof (cases "user \<in> texts_of ''users'' (kv_value x)")
    case False
    then have "user_granted stored (x # xs) a user = user_granted stored xs a user" by (simp add: user_granted_def)
    moreover have "rbac_bindings env a user (x # xs) seen h = rbac_bindings env a user xs seen h"
      using load users False by (simp add: co_bind_def co_lift_def)
    ultimately show ?thesis using IH [OF Cons.prems(2), of h] by simp
  next
    case True
    from rbac_roles_exact [OF assms(1) ns(2) Cons.prems(2), of h] obtain b seen' h' where
      r: "rbac_roles env a ns seen h = Some (Inr (b, seen'), h')"
        "b \<longleftrightarrow> (\<exists>n. Text n \<in> set ns \<and> named_role_grants stored a n)"
        "\<not> b \<longrightarrow> (\<forall>n \<in> set seen'. \<not> named_role_grants stored a n)" by blast
    have run: "rbac_bindings env a user (x # xs) seen h =
        (if b then Some (Inr True, h') else rbac_bindings env a user xs seen' h')"
      using load users True ns(1) r(1) by (simp add: co_bind_def co_lift_def co_return_def del: get_attr.simps)
    have g: "user_granted stored (x # xs) a user \<longleftrightarrow> b \<or> user_granted stored xs a user"
      using True ns(1) r(2) by (auto simp: user_granted_def texts_of_def simp del: get_attr.simps)
    show ?thesis
    proof (cases b)
      case True
      with run g show ?thesis by simp
    next
      case False
      with r(3) IH [of seen' h'] run g show ?thesis by simp
    qed
  qed
qed

lemma binding_prefix: "key_prefix (class_key role_binding_class) [] = Inr ''/core/rolebindings/''"
  by code_simp

text \<open>
  C16. The role based access control decides every request: an anonymous one is refused with status
  401; any other is let through exactly if a binding that lists the user names an existing role
  with a rule for the API group, the verb, the resource and, if the request has one, the namespace,
  where an empty string in the rule stands for everything; else it is refused with status 403. The
  roles are read from the database as it is while the request is handled.
\<close>

theorem rbac_exact:
  assumes "snapshot env stored bindings"
  shows "\<exists>h'. rbac env request a h = Some
    (if req_user request = ''system:anonymous'' then Inl (HTTPException 401)
     else if user_granted stored bindings a (req_user request) then Inr ()
     else Inl (HTTPException 403), h')"
proof -
  have range: "session_range env role_binding_class [] h =
      Some (Inr (filter (\<lambda>x. key_matches (class_key role_binding_class) (kv_key x)) bindings), h @ [Range_prefix ''/core/rolebindings/''])"
    using assms by (simp add: session_range_def binding_prefix co_bind_def co_lift_def db_ask_def co_return_def snapshot_def)
  have "filter (\<lambda>x. key_matches (class_key role_binding_class) (kv_key x)) bindings = bindings"
    using assms by (simp add: snapshot_def list_all_iff filter_id_conv)
  moreover obtain h' where "rbac_bindings env a (req_user request) bindings [] (h @ [Range_prefix ''/core/rolebindings/'']) =
      Some (Inr (user_granted stored bindings a (req_user request)), h')"
    using rbac_bindings_exact [OF assms subset_refl] by fastforce
  ultimately show ?thesis using range by (simp add: rbac_def co_bind_def co_return_def co_raise_def)
qed

definition example_rules :: yaml where
  "example_rules = Obj [(''api'', Text ''core''), (''kind'', Text ''Role''),
     (''metadata'', example_metadata [] (Text ''u'') (Integer 7) Null),
     (''rules'', Arr [Obj [(''api'', Text ''core''), (''resources'', Arr [Text []]), (''namespaces'', Arr [Text ''n'']),
        (''verbs'', Arr [Text ''list''])]])]"

definition example_binding :: yaml where
  "example_binding = Obj [(''api'', Text ''core''), (''kind'', Text ''RoleBinding''),
     (''metadata'', example_metadata [] (Text ''v'') (Integer 7) Null),
     (''users'', Arr [Text ''bob'']), (''roles'', Arr [Text ''admin''])]"

definition example_stored :: "string \<Rightarrow> kv option" where
  "example_stored k = (if k = example_key then Some (example_kv example_rules 1) else None)"

definition example_bindings :: "kv list" where
  "example_bindings = [(example_kv example_binding 1)\<lparr>kv_key := ''/core/rolebindings/admin''\<rparr>]"

definition example_access :: api_env where
  "example_access = example_env
     \<lparr>range_answer := \<lambda>h. case last h of
        Range k _ \<Rightarrow> Inr (case example_stored k of None \<Rightarrow> [] | Some x \<Rightarrow> [x])
      | _ \<Rightarrow> Inr example_bindings\<rparr>"

lemma example_snapshot: "snapshot example_access example_stored example_bindings"
proof -
  have "conforms (class_type role_class) example_rules" "conforms (class_type role_binding_class) example_binding"
    "key_matches (class_key role_binding_class) ''/core/rolebindings/admin''"
    by code_simp+
  then show ?thesis
    using example_reliable unfolding snapshot_def schema_laws_def reliable_def
    by (auto simp: example_access_def example_stored_def example_bindings_def example_kv_def simp del: conforms.simps
        split: if_splits)
qed

theorem rbac_exact_witness:
  "\<exists>h'. rbac example_access ((example_request ''GET'' [] None)\<lparr>req_user := ''bob''\<rparr>)
     \<lparr>auth_api = ''core'', auth_namespace = Some ''m'', auth_resource = ''metrics'', auth_verb = List_verb\<rparr> [] =
   Some (Inl (HTTPException 403), h')"
proof -
  let ?a = "\<lparr>auth_api = ''core'', auth_namespace = Some ''m'', auth_resource = ''metrics'', auth_verb = List_verb\<rparr>"
  have "\<not> user_granted example_stored example_bindings ?a ''bob''"
    by (simp add: user_granted_def example_bindings_def example_kv_def example_binding_def texts_of_def
        named_role_grants_def example_stored_def role_grants_def example_rules_def rule_grants_def)
  with rbac_exact [OF example_snapshot, of "(example_request ''GET'' [] None)\<lparr>req_user := ''bob''\<rparr>" ?a "[]"]
  show ?thesis by simp
qed

end
