(* ===== verification/Api_Listing.thy ===== *)
theory Api_Listing
  imports Api_Access
begin

text \<open>
  Reading from the API: a list has exactly the stored resources of the namespace, a watch reports
  every change as what it is, and an update takes over what the user controls and nothing else.
\<close>

section \<open>Keys with a namespace\<close>

lemma split_once:
  assumes "x @ c # y = a @ c # z" and "c \<notin> set a" and "c \<notin> set z"
  shows "x = a \<and> y = z"
proof -
  from assms(1) have "count_list (x @ c # y) c = count_list (a @ c # z) c" by simp
  with assms(2,3) have "c \<notin> set x" by (simp add: count_notin count_list_0_iff)
  then have "takeWhile (\<lambda>d. d \<noteq> c) (x @ c # y) = x" by (subst takeWhile_append2) auto
  moreover from assms(2) have "takeWhile (\<lambda>d. d \<noteq> c) (a @ c # z) = a" by (subst takeWhile_append2) auto
  ultimately have "x = a" using assms(1) by simp
  with assms(1) show ?thesis by simp
qed

definition namespaced :: "api_class \<Rightarrow> bool" where
  "namespaced c \<longleftrightarrow> Param ''namespace'' \<in> set (key_parts (class_key c))"

lemma key_shape:
  assumes "c \<in> set api_classes"
  shows "key_parts (class_key c) = map Literal (class_prefix c) @
    (if namespaced c then [Param ''namespace'', Literal CHR ''/'', Param ''name''] else [Param ''name''])"
proof -
  have "list_all (\<lambda>c. key_parts (class_key c) = map Literal (class_prefix c) @
    (if namespaced c then [Param ''namespace'', Literal CHR ''/'', Param ''name''] else [Param ''name''])) api_classes"
    by code_simp
  with assms show ?thesis by (simp add: list_all_iff)
qed

lemma format_literals: "format_parts f (map Literal p @ ps) = res_bind (format_parts f ps) (\<lambda>s. Inr (p @ s))"
  by (induction p) (simp_all add: res_bind_assoc, cases "format_parts f ps", simp_all)

lemma prefix_literals: "prefix_parts kwargs (map Literal p @ ps) = (p @ fst (prefix_parts kwargs ps), snd (prefix_parts kwargs ps))"
  by (induction p) (simp_all add: case_prod_beta)

lemma matches_literals: "matches_parts (map Literal p @ ps) k \<longleftrightarrow> (\<exists>s. k = p @ s \<and> matches_parts ps s)"
  by (induction p arbitrary: k) (auto split: list.split)

lemma key_char_no_slash: "\<not> is_key_char CHR ''/''"
  by (simp add: is_key_char_def is_upper_def is_lower_def is_digit_def)

lemma matches_param:
  "matches_parts (Param n # ps) s \<longleftrightarrow>
    (\<exists>a r. s = a @ r \<and> a \<noteq> [] \<and> list_all is_key_char a \<and> matches_parts ps r)"
proof
  assume "matches_parts (Param n # ps) s"
  then obtain i where i: "i \<in> set [1..<Suc (length s)]" "list_all is_key_char (take i s)" "matches_parts ps (drop i s)"
    by (auto simp: list_ex_iff)
  have "s = take i s @ drop i s" "take i s \<noteq> []" using i(1) by auto
  with i(2,3) show "\<exists>a r. s = a @ r \<and> a \<noteq> [] \<and> list_all is_key_char a \<and> matches_parts ps r" by blast
next
  assume "\<exists>a r. s = a @ r \<and> a \<noteq> [] \<and> list_all is_key_char a \<and> matches_parts ps r"
  then obtain a r where s: "s = a @ r" "a \<noteq> []" "list_all is_key_char a" "matches_parts ps r" by blast
  then have "0 < length a" "length a \<le> length s" by auto
  then have "length a \<in> set [1..<Suc (length s)]" by (simp only: set_upt atLeastLessThan_iff) linarith
  with s show "matches_parts (Param n # ps) s"
    unfolding matches_parts.simps list_ex_iff by (intro bexI [of _ "length a"]) simp_all
qed

text \<open>The namespace that the key has is the one of the resource.\<close>

lemma key_namespace:
  assumes "c \<in> set api_classes" and "namespaced c" and "key_matches (class_key c) k" and "well_stored c k v"
  obtains ns rest where "k = class_prefix c @ ns @ CHR ''/'' # rest" and "CHR ''/'' \<notin> set ns" and "CHR ''/'' \<notin> set rest"
    and "res_bind (get_path [''metadata'', ''namespace''] v) key_text = Inr ns"
proof -
  obtain pre where pre: "class_prefix c = pre" by blast
  have parts: "key_parts (class_key c) = map Literal pre @ [Param ''namespace'', Literal CHR ''/'', Param ''name'']"
    using key_shape [OF assms(1)] assms(2) pre by simp
  from assms(3) obtain s where s: "k = pre @ s" "matches_parts [Param ''namespace'', Literal CHR ''/'', Param ''name''] s"
    unfolding key_matches_def parts matches_literals by blast
  from s(2) obtain a r where a: "s = a @ r" "list_all is_key_char a" "matches_parts [Literal CHR ''/'', Param ''name''] r"
    unfolding matches_param by blast
  from a(3) obtain r' where r: "r = CHR ''/'' # r'" "matches_parts [Param ''name''] r'" by (auto split: list.splits)
  from r(2) obtain b t where b: "r' = b @ t" "list_all is_key_char b" "t = [] \<or> t = ''\<newline>''"
    unfolding matches_param matches_parts.simps(1) by blast
  have slash: "CHR ''/'' \<notin> set a" "CHR ''/'' \<notin> set r'"
    using a(2) b key_char_no_slash by (auto simp: list_all_iff)
  from assms(4) have "format_object (class_key c) v = Inr k" by (simp add: well_stored_def)
  then obtain m x n y where m: "get_attr ''metadata'' v = Inr m"
    and x: "get_attr ''namespace'' m = Inr x" "key_text x = Inr n"
    and y: "k = pre @ n @ CHR ''/'' # y"
    unfolding format_object_def parts format_literals
    by (auto simp: res_bind_Inr_iff simp del: get_attr.simps)
  from y s(1) a(1) r(1) have "n @ CHR ''/'' # y = a @ CHR ''/'' # r'" by simp
  from split_once [OF this slash] have n: "n = a" "y = r'" by auto
  have "res_bind (get_path [''metadata'', ''namespace''] v) key_text = Inr a"
    using m x n by (simp del: get_attr.simps)
  with that [of a r'] slash s(1) a(1) r(1) pre show ?thesis by simp
qed

section \<open>Lists\<close>

text \<open>Whether the request asks for the namespace of the resource, or for all resources.\<close>

definition in_namespace :: "http_request \<Rightarrow> yaml \<Rightarrow> bool" where
  "in_namespace request v \<longleftrightarrow>
     (case dict_get (match_info request) ''namespace'' of
        None \<Rightarrow> True
      | Some ns \<Rightarrow> res_bind (get_path [''metadata'', ''namespace''] v) key_text = Inr ns)"

lemma etcd_range_prefix:
  assumes "etcd_laws env store" and "range_answer env (h @ [Range_prefix p]) = Inr xs"
  shows "\<exists>n. \<forall>x. x \<in> set xs \<longleftrightarrow> store n (kv_key x) = Some x \<and> take (length p) (kv_key x) = p"
proof -
  from assms(1) have "\<forall>h p xs. range_answer env (h @ [Range_prefix p]) = Inr xs \<longrightarrow>
      (\<exists>n. \<forall>x. x \<in> set xs \<longleftrightarrow> store n (kv_key x) = Some x \<and> take (length p) (kv_key x) = p)"
    unfolding etcd_laws_def by (elim conjE) assumption
  with assms(2) show ?thesis by blast
qed

lemma matches_belongs:
  assumes "c \<in> set api_classes" and "key_matches (class_key c) k"
  shows "belongs c k"
proof -
  obtain pre where pre: "class_prefix c = pre" by blast
  from key_shape [OF assms(1)] assms(2) show ?thesis
    unfolding key_matches_def belongs_def pre by (auto simp: matches_literals)
qed

text \<open>Among the keys that the template matches, the prefix selects the namespace.\<close>

lemma prefix_selects:
  assumes "c \<in> set api_classes" and "key_prefix (class_key c) (namespace_kwargs request) = Inr p"
    and "key_matches (class_key c) k" and "well_stored c k v"
  shows "take (length p) k = p \<longleftrightarrow> in_namespace request v"
proof -
  obtain pre where pre: "class_prefix c = pre" by blast
  from matches_belongs [OF assms(1,3)] have start: "take (length pre) k = pre"
    unfolding belongs_def pre by (auto elim: prefixE)
  show ?thesis
  proof (cases "dict_get (match_info request) ''namespace''")
    case None
    with assms(2) key_shape [OF assms(1)] pre have "p = pre"
      by (auto simp: namespace_kwargs_def key_prefix_def prefix_literals split: if_splits)
    with None start show ?thesis by (simp add: in_namespace_def)
  next
    case (Some ns)
    have nsd: "namespaced c" and p: "p = pre @ ns @ ''/''"
    proof -
      show "namespaced c"
        using assms(2) key_shape [OF assms(1)] pre Some
        by (auto simp: namespace_kwargs_def key_prefix_def prefix_literals split: if_splits)
      then show "p = pre @ ns @ ''/''"
        using assms(2) key_shape [OF assms(1)] pre Some
        by (auto simp: namespace_kwargs_def key_prefix_def prefix_literals split: if_splits)
    qed
    from key_namespace [OF assms(1) nsd assms(3,4)] pre obtain m rest where
      k: "k = pre @ m @ CHR ''/'' # rest" and slash: "CHR ''/'' \<notin> set m" "CHR ''/'' \<notin> set rest"
      and m: "res_bind (get_path [''metadata'', ''namespace''] v) key_text = Inr m" by metis
    have "take (length p) k = p \<longleftrightarrow> ns = m"
    proof
      assume "take (length p) k = p"
      then have "k = p @ drop (length p) k" by (metis append_take_drop_id)
      with k p have "ns @ CHR ''/'' # drop (length p) k = m @ CHR ''/'' # rest" by simp
      from split_once [OF this slash] show "ns = m" ..
    qed (simp add: k p)
    with Some m show ?thesis by (auto simp: in_namespace_def)
  qed
qed

text \<open>
  C18. A list that the API returns, of all resources of a class or of those of a namespace, has
  exactly the objects of this class, and of the namespace, that the database held at one revision,
  each as it was stored, except for those whose keys have other characters than the template
  accepts. What is stored must be objects of their classes under their keys.
\<close>

theorem list_exact:
  assumes "reliable env store" and "\<forall>n. all_well_stored (store n)" and "c \<in> set api_classes"
    and "list_resources env c request h = Some (Inr result, h')"
  shows "\<exists>n objs. result = list_object c objs \<and>
    set objs = {kv_value x | x k. store n k = Some x \<and> key_matches (class_key c) k \<and> in_namespace request (kv_value x)}"
proof -
  have laws: "etcd_laws env store" "schema_laws env" using assms(1) by (simp_all add: reliable_def)
  from assms(4) obtain p xs ls where p: "key_prefix (class_key c) (namespace_kwargs request) = Inr p"
    and xs: "range_answer env (h @ [Range_prefix p]) = Inr xs"
    and ls: "res_map (load_instance env c) (filter (\<lambda>x. key_matches (class_key c) (kv_key x)) xs) = Inr ls"
    and result: "result = list_object c (map fst ls)"
    by (auto simp: list_resources_def session_all_def session_range_def co_bind_def co_lift_def co_return_def db_ask_def
        split: sum.splits)
  from etcd_range_prefix [OF laws(1) xs] obtain n where
    n: "\<And>x. x \<in> set xs \<longleftrightarrow> store n (kv_key x) = Some x \<and> take (length p) (kv_key x) = p" by blast
  have ws: "well_stored c k (kv_value x)" if "store n k = Some x" "key_matches (class_key c) k" for k x
    using assms(2,3) matches_belongs [OF assms(3) that(2)] that(1) by (auto simp: all_well_stored_def list_all_iff)
  have load: "load_instance env c x = Inr (kv_value x, Some (from_kv x))" if "store n k = Some x" "key_matches (class_key c) k" for k x
  proof -
    have "decode env (class_fields c) (kv_value x) = Inr (kv_value x)"
      using ws [OF that] laws(2) unfolding well_stored_def schema_laws_def by blast
    then show ?thesis by (simp add: load_instance_def)
  qed
  have "ls = map (\<lambda>x. (kv_value x, Some (from_kv x))) (filter (\<lambda>x. key_matches (class_key c) (kv_key x)) xs)"
  proof -
    have "res_map (load_instance env c) ys = Inr (map (\<lambda>x. (kv_value x, Some (from_kv x))) ys)"
      if "set ys \<subseteq> {x \<in> set xs. key_matches (class_key c) (kv_key x)}" for ys
      using that by (induction ys) (auto simp: n load)
    from this [of "filter (\<lambda>x. key_matches (class_key c) (kv_key x)) xs"] ls show ?thesis by auto
  qed
  then have "set (map fst ls) = kv_value ` {x \<in> set xs. key_matches (class_key c) (kv_key x)}" by force
  also have "\<dots> = {kv_value x | x k. store n k = Some x \<and> key_matches (class_key c) k \<and> in_namespace request (kv_value x)}"
  proof (intro equalityI subsetI)
    fix v assume "v \<in> kv_value ` {x \<in> set xs. key_matches (class_key c) (kv_key x)}"
    then obtain x where x: "v = kv_value x" "store n (kv_key x) = Some x" "take (length p) (kv_key x) = p"
      "key_matches (class_key c) (kv_key x)" by (auto simp: n)
    with prefix_selects [OF assms(3) p x(4) ws [OF x(2,4)]]
    show "v \<in> {kv_value x | x k. store n k = Some x \<and> key_matches (class_key c) k \<and> in_namespace request (kv_value x)}" by blast
  next
    fix v assume "v \<in> {kv_value x | x k. store n k = Some x \<and> key_matches (class_key c) k \<and> in_namespace request (kv_value x)}"
    then obtain x k where x: "v = kv_value x" "store n k = Some x" "key_matches (class_key c) k" "in_namespace request (kv_value x)" by blast
    have key: "kv_key x = k" by (rule etcd_key [OF laws_store [OF laws(1)] x(2)])
    with prefix_selects [OF assms(3) p x(3) ws [OF x(2,3)]] x have "x \<in> set xs" by (simp add: n)
    with x key show "v \<in> kv_value ` {x \<in> set xs. key_matches (class_key c) (kv_key x)}" by blast
  qed
  finally show ?thesis using result by blast
qed

lemma example_list:
  "list_resources example_env role_class (example_request ''GET'' [] None) [] =
     Some (Inr (list_object role_class [example_created]), [Range_prefix ''/core/roles/''])"
  by code_simp

theorem list_exact_witness:
  "\<exists>n objs. list_object role_class [example_created] = list_object role_class objs \<and>
     set objs = {kv_value x | x k. example_store n k = Some x \<and> key_matches (class_key role_class) k \<and>
       in_namespace (example_request ''GET'' [] None) (kv_value x)}"
  using list_exact [OF example_reliable _ example_class(1) example_list] api_store_well_stored [OF example_api_store] by blast

section \<open>Watches\<close>

text \<open>The event of the change to a revision, and the line that is due for it.\<close>

definition event_of :: "store \<Rightarrow> nat \<times> string \<Rightarrow> etcd_event" where
  "event_of store e =
     (let (n, k) = e in
      case store (Suc n) k of
        None \<Rightarrow> \<lparr>event_deleted = True, event_kv =
          \<lparr>kv_key = k, kv_value = Null, create_revision = 0, mod_revision = Suc n, kv_version = 0\<rparr>\<rparr>
      | Some x \<Rightarrow> \<lparr>event_deleted = False, event_kv = x\<rparr>)"

definition line_of :: "store \<Rightarrow> nat \<times> string \<Rightarrow> yaml" where
  "line_of store e =
     (let (n, k) = e in
      case (store n k, store (Suc n) k) of
        (None, Some y) \<Rightarrow> watch_object ''ADDED'' (kv_value y)
      | (Some x, Some y) \<Rightarrow> watch_object ''MODIFIED'' (kv_value y)
      | (Some x, None) \<Rightarrow> watch_object ''DELETED'' (kv_value x)
      | (None, None) \<Rightarrow> Null)"

lemma etcd_range_at:
  assumes "etcd_laws env store" and "range_answer env (h @ [Range k (Some n)]) = Inr xs"
  shows "xs = (case store n k of None \<Rightarrow> [] | Some x \<Rightarrow> [x])"
proof -
  from assms(1) have "\<forall>h k n xs. range_answer env (h @ [Range k (Some n)]) = Inr xs \<longrightarrow>
      xs = (case store n k of None \<Rightarrow> [] | Some x \<Rightarrow> [x])"
    unfolding etcd_laws_def by (elim conjE) assumption
  with assms(2) show ?thesis by blast
qed

lemma watch_one:
  assumes "reliable env store" and "all_well_stored (store n)" "all_well_stored (store (Suc n))" and "c \<in> set api_classes"
    and "\<And>h. \<exists>xs. range_answer env (h @ [Range k (Some n)]) = Inr xs"
    and "key_matches (class_key c) k" and "store (Suc n) k \<noteq> store n k"
  shows "\<exists>x h'. watcher_event env c (event_of store (n, k)) = Inr (Some x) \<and> watch_event env c x h = Some (Inr (line_of store (n, k)), h')"
proof -
  have laws: "etcd_laws env store" "schema_laws env" using assms(1) by (simp_all add: reliable_def)
  note es = laws_store [OF laws(1)]
  have load: "load_instance env c x = Inr (kv_value x, Some (from_kv x))" if "store m k = Some x" "m = n \<or> m = Suc n" for m x
  proof -
    have "all_well_stored (store m)" using assms(2,3) that(2) by auto
    with matches_belongs [OF assms(4,6)] assms(4) that(1) have "well_stored c k (kv_value x)"
      by (auto simp: all_well_stored_def list_all_iff)
    then have "decode env (class_fields c) (kv_value x) = Inr (kv_value x)"
      using laws(2) unfolding well_stored_def schema_laws_def by blast
    then show ?thesis by (simp add: load_instance_def)
  qed
  show ?thesis
  proof (cases "store (Suc n) k")
    case (Some y)
    have key: "kv_key y = k" by (rule etcd_key [OF es Some])
    have mod: "mod_revision y = Suc n" by (rule etcd_modified [OF es assms(7) Some])
    note created = etcd_created [OF es Some assms(7)]
    have "create_revision y = Suc n \<longleftrightarrow> store n k = None"
    proof (cases "store n k")
      case (Some x)
      with created_before [OF es Some] created show ?thesis by simp
    qed (use created in simp)
    with Some load [OF Some] key mod assms(6) show ?thesis
      by (auto simp: watcher_event_def event_of_def watch_event_def line_of_def from_kv_def co_return_def split: option.split)
  next
    case None
    with assms(7) obtain x where x: "store n k = Some x" by (cases "store n k") auto
    from assms(5) [of h] obtain xs where xs: "range_answer env (h @ [Range k (Some n)]) = Inr xs" by blast
    from etcd_range_at [OF laws(1) xs] x have "xs = [x]" by simp
    with None x xs load [OF x] assms(6) show ?thesis
      by (simp add: watcher_event_def event_of_def watch_event_def line_of_def from_kv_def get_by_key_def
          co_return_def co_bind_def co_lift_def db_ask_def)
  qed
qed

lemma watch_lines_from:
  assumes "reliable env store" and "\<forall>n. all_well_stored (store n)" and "c \<in> set api_classes"
    and "\<forall>h k n. \<exists>xs. range_answer env (h @ [Range k (Some n)]) = Inr xs"
    and "list_all (\<lambda>(n, k). key_matches (class_key c) k \<and> store (Suc n) k \<noteq> store n k) es"
  shows "\<exists>h'. co_fold (\<lambda>e lines.
       co_bind (co_lift (watcher_event env c e)) (\<lambda>x.
       case x of
         None \<Rightarrow> co_return lines
       | Some y \<Rightarrow> co_bind (watch_event env c y) (\<lambda>line. co_return (lines @ [line])))) (map (event_of store) es) ls h =
     Some (Inr (ls @ map (line_of store) es), h')"
  using assms(5)
proof (induction es arbitrary: ls h)
  case Nil
  then show ?case by (simp add: co_return_def)
next
  case (Cons e es)
  obtain n k where e: "e = (n, k)" by (cases e)
  from Cons.prems e have k: "key_matches (class_key c) k" "store (Suc n) k \<noteq> store n k" by simp_all
  from watch_one [of env store n c k h] assms(1-4) k obtain x h1 where
    x: "watcher_event env c (event_of store (n, k)) = Inr (Some x)" "watch_event env c x h = Some (Inr (line_of store (n, k)), h1)"
    by blast
  from Cons.IH [of "ls @ [line_of store (n, k)]" h1] Cons.prems x e show ?case
    by (auto simp: co_bind_def co_lift_def co_return_def)
qed

text \<open>
  The stream of a watch has one line for each change of a watched resource, in the order of the
  changes: \<open>ADDED\<close> with the new object if the key had no value before, \<open>MODIFIED\<close> with the new object
  if it had one, and \<open>DELETED\<close> with the last object if the key was removed. The events are those
  of the changes of the database, whose past revisions can be read.
\<close>

theorem watch_faithful:
  assumes "reliable env store" and "\<forall>n. all_well_stored (store n)" and "c \<in> set api_classes"
    and "\<forall>h k n. \<exists>xs. range_answer env (h @ [Range k (Some n)]) = Inr xs"
    and "list_all (\<lambda>(n, k). key_matches (class_key c) k \<and> store (Suc n) k \<noteq> store n k) es"
  shows "\<exists>h'. watch_lines env c (map (event_of store) es) h = Some (Inr (map (line_of store) es), h')"
  using watch_lines_from [OF assms, of "[]" h] by (simp add: watch_lines_def)

theorem watch_faithful_witness:
  "\<exists>h'. watch_lines example_env role_class (map (event_of example_store) [(0, example_key), (1, example_key)]) [] =
     Some (Inr [watch_object ''ADDED'' example_created, watch_object ''MODIFIED'' example_marked], h')"
proof -
  have "list_all (\<lambda>(n, k). key_matches (class_key role_class) k \<and> example_store (Suc n) k \<noteq> example_store n k)
      [(0, example_key), (1, example_key)]"
    by code_simp
  moreover have "\<forall>h k n. \<exists>xs. range_answer example_env (h @ [Range k (Some n)]) = Inr xs" by (simp add: example_env_def)
  moreover have "\<forall>n. all_well_stored (example_store n)" using api_store_well_stored [OF example_api_store] by blast
  ultimately have "\<exists>h'. watch_lines example_env role_class (map (event_of example_store) [(0, example_key), (1, example_key)]) [] =
      Some (Inr (map (line_of example_store) [(0, example_key), (1, example_key)]), h')"
    using watch_faithful [OF example_reliable _ example_class(1)] by blast
  then show ?thesis by (simp add: line_of_def example_store_def example_kv_def)
qed

section \<open>Updates\<close>

text \<open>
  C19. The update of a resource from a body of its class either refuses the request with status 400,
  or gives an object of the class in which the attributes of the API (name, namespace, uid, times
  and deletion), all read-only and immutable fields and the subresources are as before, and all
  other fields are those of the body; the same update again changes nothing.
\<close>

theorem update_exact:
  assumes "c \<in> set api_classes" and "conforms (class_type c) v" and "conforms (class_type c) body"
  shows "case updated (class_fields c) v body of
      Inl e \<Rightarrow> e = HttpProblemError 400 ''update-error''
    | Inr w \<Rightarrow> conforms (class_type c) w \<and>
        (\<forall>p. p \<in> set api_controlled \<or> protected_path (class_fields c) p \<longrightarrow> get_path p w = get_path p v) \<and>
        (\<forall>p. p \<in> set user_controlled \<or> updated_path (class_fields c) p \<longrightarrow> get_path p w = get_path p body) \<and>
        updated (class_fields c) w body = Inr w"
proof (cases "update_object (class_fields c) v body")
  case (Inl e)
  with update_object_error [OF api_classes_well_named [OF assms(1)] assms(2,3)] show ?thesis by (simp add: updated_def)
next
  case (Inr w)
  note wn = api_classes_well_named [OF assms(1)]
  have w: "updated (class_fields c) v body = Inr w" using Inr by (simp add: updated_def)
  show ?thesis
    unfolding w sum.case
  proof (intro conjI allI impI)
    show "conforms (class_type c) w" by (rule update_object_conforms [OF wn assms(2,3) Inr])
    show "updated (class_fields c) w body = Inr w"
      using update_object_again [OF wn assms(2,3) Inr] by (simp add: updated_def)
    show "get_path p w = get_path p v" if "p \<in> set api_controlled \<or> protected_path (class_fields c) p" for p
      using that update_object_keeps [OF wn assms(2,3) Inr] api_controlled_protected [OF assms(1)] by blast
    show "get_path p w = get_path p body" if "p \<in> set user_controlled \<or> updated_path (class_fields c) p" for p
      using that update_object_takes [OF wn assms(2,3) Inr] user_controlled_updated [OF assms(1)] by blast
  qed
qed

theorem update_exact_witness:
  "\<exists>w. updated (class_fields role_class) example_created example_marked = Inr w \<and>
     get_path [''metadata'', ''deleted''] w = Inr Null \<and>
     get_path [''metadata'', ''finalizers''] w = Inr (Arr [Text ''cascade_deletion''])"
proof -
  have c: "conforms (class_type role_class) example_created" "conforms (class_type role_class) example_marked" by code_simp+
  have "case updated (class_fields role_class) example_created example_marked of Inl e \<Rightarrow> False | Inr w \<Rightarrow> True" by code_simp
  then obtain w where w: "updated (class_fields role_class) example_created example_marked = Inr w"
    by (cases "updated (class_fields role_class) example_created example_marked") auto
  from update_exact [OF example_class(1) c] w
  have "get_path [''metadata'', ''deleted''] w = get_path [''metadata'', ''deleted''] example_created"
    "get_path [''metadata'', ''finalizers''] w = get_path [''metadata'', ''finalizers''] example_marked"
    by (simp_all add: api_controlled_def user_controlled_def del: get_path.simps conforms.simps)
  with w show ?thesis
    by (simp add: example_created_def example_marked_def example_role_def example_metadata_def)
qed

end
