(* ===== verification/Api_Composition.thy ===== *)
theory Api_Composition
  imports Api_Client Api_Listing
begin

text \<open>
  The client library and the API together: the request of each method of the client is routed to
  the handler that is meant for it, with the arguments of the method as parameters, and the watcher
  sees exactly the changes of the database. The router of aiohttp is a parameter;
  \<open>router_laws\<close> is what its documentation promises.
\<close>

section \<open>Templates and paths\<close>

fun split_on :: "('a \<Rightarrow> bool) \<Rightarrow> 'a list \<Rightarrow> 'a list list" where
  "split_on P [] = [[]]"
| "split_on P (x # xs) =
     (if P x then [] # split_on P xs
      else (case split_on P xs of [] \<Rightarrow> [[x]] | y # ys \<Rightarrow> (x # y) # ys))"

lemma split_on_not_Nil [simp]: "split_on P xs \<noteq> []"
  by (induction xs) (auto split: list.split)

lemma split_on_Cons: "\<not> P x \<Longrightarrow> split_on P (x # xs) = (x # hd (split_on P xs)) # tl (split_on P xs)"
  by (cases "split_on P xs") auto

lemma split_on_append:
  "(\<And>x. x \<in> set a \<Longrightarrow> \<not> P x) \<Longrightarrow> split_on P (a @ xs) = (a @ hd (split_on P xs)) # tl (split_on P xs)"
proof (induction a)
  case Nil
  show ?case by (simp del: split_on.simps)
next
  case (Cons y ys)
  then have "split_on P (y # (ys @ xs)) = (y # hd (split_on P (ys @ xs))) # tl (split_on P (ys @ xs))"
    by (intro split_on_Cons) simp
  with Cons show ?case by (simp del: split_on.simps)
qed

text \<open>What a parameter of a route matches, and what the client may be given for it.\<close>

definition path_segment :: "string \<Rightarrow> bool" where
  "path_segment s \<longleftrightarrow> s \<noteq> [] \<and> CHR ''/'' \<notin> set s \<and> CHR ''{'' \<notin> set s \<and> CHR ''}'' \<notin> set s"

definition template_segments :: "string \<Rightarrow> key_part list list" where
  "template_segments t = split_on (\<lambda>p. p = Literal CHR ''/'') (key_parts t)"

definition path_segments :: "string \<Rightarrow> string list" where
  "path_segments p = split_on (\<lambda>c. c = CHR ''/'') p"

fun literal_text :: "key_part list \<Rightarrow> string option" where
  "literal_text [] = Some []"
| "literal_text (Literal c # ps) = map_option (Cons c) (literal_text ps)"
| "literal_text (Param n # ps) = None"

fun match_segments :: "key_part list list \<Rightarrow> string list \<Rightarrow> (string, string) dict option" where
  "match_segments [] [] = Some []"
| "match_segments ([Param n] # segs) (s # ss) =
     (if path_segment s then map_option (Cons (n, s)) (match_segments segs ss) else None)"
| "match_segments (seg # segs) (s # ss) = (if literal_text seg = Some s then match_segments segs ss else None)"
| "match_segments _ _ = None"

definition match_template :: "string \<Rightarrow> string \<Rightarrow> (string, string) dict option" where
  "match_template t p = match_segments (template_segments t) (path_segments p)"

text \<open>Two templates that no path matches both.\<close>

fun disjoint_segments :: "key_part list list \<Rightarrow> key_part list list \<Rightarrow> bool" where
  "disjoint_segments [] [] \<longleftrightarrow> False"
| "disjoint_segments (x # xs) (y # ys) \<longleftrightarrow>
     (case (literal_text x, literal_text y) of (Some s, Some t) \<Rightarrow> s \<noteq> t | _ \<Rightarrow> False) \<or> disjoint_segments xs ys"
| "disjoint_segments [] (y # ys) \<longleftrightarrow> True"
| "disjoint_segments (x # xs) [] \<longleftrightarrow> True"

lemma match_literal:
  "literal_text seg = Some t \<Longrightarrow>
    match_segments (seg # segs) (s # ss) = (if t = s then match_segments segs ss else None)"
  by (cases "(seg # segs, s # ss)" rule: match_segments.cases) auto

lemma match_Cons:
  assumes "match_segments (seg # segs) ss = Some args"
  obtains s rest args' where "ss = s # rest" and "match_segments segs rest = Some args'"
    and "\<And>t. literal_text seg = Some t \<Longrightarrow> t = s"
proof (cases ss)
  case (Cons s rest)
  show thesis
  proof (cases "literal_text seg")
    case None
    with assms Cons obtain args' where "match_segments segs rest = Some args'"
      by (cases "(seg # segs, s # rest)" rule: match_segments.cases) (auto split: if_splits)
    with Cons None that show thesis by simp
  next
    case (Some t)
    with assms Cons that show thesis by (auto simp: match_literal split: if_splits)
  qed
qed (use assms in simp)

lemma disjoint_sound:
  "disjoint_segments xs ys \<Longrightarrow> match_segments xs ss = Some a \<Longrightarrow> match_segments ys ss = Some b \<Longrightarrow> False"
proof (induction xs ys arbitrary: ss a b rule: disjoint_segments.induct)
  case (2 x xs y ys)
  from 2(3) obtain s rest a' where s: "ss = s # rest" "match_segments xs rest = Some a'"
    and lx: "\<And>t. literal_text x = Some t \<Longrightarrow> t = s" by (rule match_Cons) blast
  from 2(4) obtain s' rest' b' where s': "ss = s' # rest'" "match_segments ys rest' = Some b'"
    and ly: "\<And>t. literal_text y = Some t \<Longrightarrow> t = s'" by (rule match_Cons) blast
  from s(1) s'(1) have eq: "s' = s" "rest' = rest" by simp_all
  from lx ly eq(1) have "\<not> (case (literal_text x, literal_text y) of (Some s, Some t) \<Rightarrow> s \<noteq> t | _ \<Rightarrow> False)"
    by (auto split: option.splits)
  with 2(2) have "disjoint_segments xs ys" by simp
  from 2(1) [OF this s(2)] s'(2) eq(2) show ?case by simp
next
  case (3 y ys)
  then show ?case by (cases ss) auto
next
  case (4 x xs)
  then show ?case by (cases ss) auto
qed simp

text \<open>The segments of a formatted path are the formatted segments of its template.\<close>

lemma format_segments:
  assumes "format_parts f ps = Inr s" and "\<And>n v. f n = Inr v \<Longrightarrow> CHR ''/'' \<notin> set v"
  shows "list_all2 (\<lambda>seg t. format_parts f seg = Inr t)
    (split_on (\<lambda>p. p = Literal CHR ''/'') ps) (path_segments s)"
  using assms(1)
proof (induction ps arbitrary: s)
  case Nil
  then show ?case by (simp add: path_segments_def)
next
  case (Cons p ps)
  let ?S = "split_on (\<lambda>p. p = Literal CHR ''/'') ps"
  obtain v r where p: "s = v @ r" "format_parts f ps = Inr r"
    and v: "case p of Literal c \<Rightarrow> v = [c] | Param n \<Rightarrow> f n = Inr v"
    using Cons.prems by (cases p) (auto simp: res_bind_Inr_iff)
  from Cons.IH [OF p(2)] have IH: "list_all2 (\<lambda>seg t. format_parts f seg = Inr t) ?S (path_segments r)" .
  show ?case
  proof (cases "p = Literal CHR ''/''")
    case True
    with v p(1) IH show ?thesis by (simp add: path_segments_def)
  next
    case False
    from IH have heads: "format_parts f (hd ?S) = Inr (hd (path_segments r))"
      "list_all2 (\<lambda>seg t. format_parts f seg = Inr t) (tl ?S) (tl (path_segments r))"
      by (cases ?S; cases "path_segments r"; simp)+
    have "CHR ''/'' \<notin> set v" using False v assms(2) by (auto split: key_part.splits)
    then have "path_segments s = (v @ hd (path_segments r)) # tl (path_segments r)"
      unfolding p(1) path_segments_def by (intro split_on_append) auto
    moreover have "split_on (\<lambda>p. p = Literal CHR ''/'') (p # ps) = (p # hd ?S) # tl ?S"
      using False by (intro split_on_Cons) simp
    moreover have "format_parts f (p # hd ?S) = Inr (v @ hd (path_segments r))"
      using v heads(1) by (cases p) auto
    ultimately show ?thesis using heads(2) by simp
  qed
qed

lemma format_parts_Param: "format_parts f ps = Inr s \<Longrightarrow> Param n \<in> set ps \<Longrightarrow> \<exists>v. f n = Inr v"
  by (induction f ps arbitrary: s rule: format_parts.induct) (auto simp: res_bind_Inr_iff)

lemma format_literal: "literal_text seg = Some t \<Longrightarrow> format_parts f seg = Inr s \<longleftrightarrow> s = t"
  by (induction seg arbitrary: t s rule: literal_text.induct) (auto simp: res_bind_Inr_iff)

definition simple_segment :: "key_part list \<Rightarrow> bool" where
  "simple_segment seg \<longleftrightarrow> literal_text seg \<noteq> None \<or> (\<exists>n. seg = [Param n])"

fun segment_params :: "key_part list \<Rightarrow> string list" where
  "segment_params [Param n] = [n]"
| "segment_params _ = []"

lemma simple_segment_iff: "simple_segment seg \<longleftrightarrow> literal_text seg \<noteq> None \<or> segment_params seg \<noteq> []"
  by (cases seg rule: segment_params.cases) (auto simp: simple_segment_def)

lemma match_formatted:
  assumes "list_all2 (\<lambda>seg t. format_parts f seg = Inr t) segs ss" and "list_all simple_segment segs"
    and "\<And>n v. f n = Inr v \<Longrightarrow> path_segment v"
  shows "match_segments segs ss = Some (map (\<lambda>n. (n, projr (f n))) (concat (map segment_params segs)))"
  using assms(1,2)
proof (induction segs ss rule: list_all2_induct)
  case Nil
  show ?case by simp
next
  case (Cons seg segs s ss)
  from Cons.prems have seg: "simple_segment seg" and segs: "list_all simple_segment segs" by simp_all
  show ?case
  proof (cases "literal_text seg")
    case None
    then obtain n where n: "seg = [Param n]" using seg by (auto simp: simple_segment_def)
    with Cons.hyps(1) have "f n = Inr s" by (auto simp: res_bind_Inr_iff)
    with n assms(3) Cons.IH [OF segs] show ?thesis by simp
  next
    case (Some t)
    then have "segment_params seg = []" by (cases seg rule: segment_params.cases) auto
    with Some Cons.hyps(1) Cons.IH [OF segs] show ?thesis by (simp add: match_literal format_literal)
  qed
qed

section \<open>Routes\<close>

text \<open>
  A request is dispatched to the route whose method is the same and whose template matches the path,
  if there is only one, with the values that the parameters match.
\<close>

type_synonym router =
  "(string \<times> string \<times> handler) list \<Rightarrow> string \<Rightarrow> string \<Rightarrow> (handler \<times> (string, string) dict) option"

definition router_laws :: "router \<Rightarrow> bool" where
  "router_laws router \<longleftrightarrow>
     (\<forall>routes m p t h args.
        (m, t, h) \<in> set routes \<and> match_template t p = Some args \<and>
        (\<forall>(m', t', h') \<in> set routes. m' = m \<and> match_template t' p \<noteq> None \<longrightarrow> t' = t \<and> h' = h) \<longrightarrow>
        router routes m p = Some (h, args))"

definition first_match :: router where
  "first_match routes m p =
     (case List.find (\<lambda>(m', t, h). m' = m \<and> match_template t p \<noteq> None) routes of
        None \<Rightarrow> None
      | Some (m', t, h) \<Rightarrow> Some (h, the (match_template t p)))"

lemma first_match_laws: "router_laws first_match"
  unfolding router_laws_def
proof (intro allI impI)
  fix routes :: "(string \<times> string \<times> handler) list" and m p t h args
  assume a: "(m, t, h) \<in> set routes \<and> match_template t p = Some args \<and>
    (\<forall>(m', t', h') \<in> set routes. m' = m \<and> match_template t' p \<noteq> None \<longrightarrow> t' = t \<and> h' = h)"
  let ?P = "\<lambda>(m', t, h). m' = m \<and> match_template t p \<noteq> None"
  have "List.find ?P routes \<noteq> None" using a by (auto simp: find_None_iff)
  then obtain x where x: "List.find ?P routes = Some x" by blast
  obtain m' t' h' where x': "x = (m', t', h')" by (cases x)
  from x have "x \<in> set routes" "?P x" by (auto simp: find_Some_iff in_set_conv_nth)
  with a x' have "x = (m, t, h)" by auto
  with x a show "first_match routes m p = Some (h, args)" by (simp add: first_match_def)
qed

text \<open>The methods and templates of the routes, in groups by method.\<close>

definition route_names :: "(string \<times> string) list" where
  "route_names =
     [(''GET'', ''/me''), (''GET'', ''/release'')] @
     [
      (''POST'', ''/core/globalmetrics''),
      (''DELETE'', ''/core/globalmetrics/{name}''),
      (''GET'', ''/core/globalmetrics''),
      (''GET'', ''/core/globalmetrics/{name}''),
      (''PUT'', ''/core/globalmetrics/{name}''),
      (''POST'', ''/core/globalmetricsproviders''),
      (''DELETE'', ''/core/globalmetricsproviders/{name}''),
      (''GET'', ''/core/globalmetricsproviders''),
      (''GET'', ''/core/globalmetricsproviders/{name}''),
      (''PUT'', ''/core/globalmetricsproviders/{name}''),
      (''POST'', ''/core/roles''),
      (''DELETE'', ''/core/roles/{name}''),
      (''GET'', ''/core/roles''),
      (''GET'', ''/core/roles/{name}''),
      (''PUT'', ''/core/roles/{name}''),
      (''POST'', ''/core/rolebindings''),
      (''DELETE'', ''/core/rolebindings/{name}''),
      (''GET'', ''/core/rolebindings''),
      (''GET'', ''/core/rolebindings/{name}''),
      (''PUT'', ''/core/rolebindings/{name}''),
      (''POST'', ''/core/namespaces/{namespace}/metrics''),
      (''DELETE'', ''/core/namespaces/{namespace}/metrics/{name}''),
      (''GET'', ''/core/namespaces/{namespace}/metrics''),
      (''GET'', ''/core/metrics''),
      (''GET'', ''/core/namespaces/{namespace}/metrics/{name}''),
      (''PUT'', ''/core/namespaces/{namespace}/metrics/{name}''),
      (''POST'', ''/core/namespaces/{namespace}/metricsproviders''),
      (''DELETE'', ''/core/namespaces/{namespace}/metricsproviders/{name}''),
      (''GET'', ''/core/namespaces/{namespace}/metricsproviders''),
      (''GET'', ''/core/metricsproviders''),
      (''GET'', ''/core/namespaces/{namespace}/metricsproviders/{name}''),
      (''PUT'', ''/core/namespaces/{namespace}/metricsproviders/{name}''),
      (''POST'', ''/kubernetes/namespaces/{namespace}/applications''),
      (''DELETE'', ''/kubernetes/namespaces/{namespace}/applications/{name}''),
      (''GET'', ''/kubernetes/namespaces/{namespace}/applications''),
      (''GET'', ''/kubernetes/applications''),
      (''GET'', ''/kubernetes/namespaces/{namespace}/applications/{name}''),
      (''PUT'', ''/kubernetes/namespaces/{namespace}/applications/{name}''),
      (''PUT'', ''/kubernetes/namespaces/{namespace}/applications/{name}/binding''),
      (''PUT'', ''/kubernetes/namespaces/{namespace}/applications/{name}/complete''),
      (''PUT'', ''/kubernetes/namespaces/{namespace}/applications/{name}/shutdown''),
      (''PUT'', ''/kubernetes/namespaces/{namespace}/applications/{name}/status''),
      (''PUT'', ''/kubernetes/namespaces/{namespace}/applications/{name}/retry''),
      (''POST'', ''/kubernetes/namespaces/{namespace}/clusters''),
      (''DELETE'', ''/kubernetes/namespaces/{namespace}/clusters/{name}''),
      (''GET'', ''/kubernetes/namespaces/{namespace}/clusters''),
      (''GET'', ''/kubernetes/clusters''),
      (''GET'', ''/kubernetes/namespaces/{namespace}/clusters/{name}''),
      (''PUT'', ''/kubernetes/namespaces/{namespace}/clusters/{name}''),
      (''PUT'', ''/kubernetes/namespaces/{namespace}/clusters/{name}/binding''),
      (''PUT'', ''/kubernetes/namespaces/{namespace}/clusters/{name}/status''),
      (''POST'', ''/infrastructure/globalinfrastructureproviders''),
      (''DELETE'', ''/infrastructure/globalinfrastructureproviders/{name}''),
      (''GET'', ''/infrastructure/globalinfrastructureproviders''),
      (''GET'', ''/infrastructure/globalinfrastructureproviders/{name}''),
      (''PUT'', ''/infrastructure/globalinfrastructureproviders/{name}''),
      (''POST'', ''/infrastructure/namespaces/{namespace}/infrastructureproviders''),
      (''DELETE'', ''/infrastructure/namespaces/{namespace}/infrastructureproviders/{name}''),
      (''GET'', ''/infrastructure/namespaces/{namespace}/infrastructureproviders''),
      (''GET'', ''/infrastructure/infrastructureproviders''),
      (''GET'', ''/infrastructure/namespaces/{namespace}/infrastructureproviders/{name}''),
      (''PUT'', ''/infrastructure/namespaces/{namespace}/infrastructureproviders/{name}''),
      (''POST'', ''/infrastructure/globalclouds''),
      (''DELETE'', ''/infrastructure/globalclouds/{name}''),
      (''GET'', ''/infrastructure/globalclouds''),
      (''GET'', ''/infrastructure/globalclouds/{name}''),
      (''PUT'', ''/infrastructure/globalclouds/{name}''),
      (''PUT'', ''/infrastructure/globalclouds/{name}/status''),
      (''POST'', ''/infrastructure/namespaces/{namespace}/clouds''),
      (''DELETE'', ''/infrastructure/namespaces/{namespace}/clouds/{name}''),
      (''GET'', ''/infrastructure/namespaces/{namespace}/clouds''),
      (''GET'', ''/infrastructure/clouds''),
      (''GET'', ''/infrastructure/namespaces/{namespace}/clouds/{name}''),
      (''PUT'', ''/infrastructure/namespaces/{namespace}/clouds/{name}''),
      (''PUT'', ''/infrastructure/namespaces/{namespace}/clouds/{name}/status''),
      (''POST'', ''/openstack/namespaces/{namespace}/magnumclusters''),
      (''DELETE'', ''/openstack/namespaces/{namespace}/magnumclusters/{name}''),
      (''GET'', ''/openstack/namespaces/{namespace}/magnumclusters''),
      (''GET'', ''/openstack/magnumclusters''),
      (''GET'', ''/openstack/namespaces/{namespace}/magnumclusters/{name}''),
      (''PUT'', ''/openstack/namespaces/{namespace}/magnumclusters/{name}''),
      (''PUT'', ''/openstack/namespaces/{namespace}/magnumclusters/{name}/binding''),
      (''PUT'', ''/openstack/namespaces/{namespace}/magnumclusters/{name}/status''),
      (''POST'', ''/openstack/namespaces/{namespace}/projects''),
      (''DELETE'', ''/openstack/namespaces/{namespace}/projects/{name}''),
      (''GET'', ''/openstack/namespaces/{namespace}/projects''),
      (''GET'', ''/openstack/projects''),
      (''GET'', ''/openstack/namespaces/{namespace}/projects/{name}''),
      (''PUT'', ''/openstack/namespaces/{namespace}/projects/{name}''),
      (''PUT'', ''/openstack/namespaces/{namespace}/projects/{name}/status'')]"

lemma endpoints_names: "map (\<lambda>(m, t, h). (m, t)) (endpoints env auth) = route_names"
  by (simp add: endpoints_def core_routes_def kubernetes_routes_def infrastructure_routes_def openstack_routes_def
      route_names_def)

fun pairwise_disjoint :: "key_part list list list \<Rightarrow> bool" where
  "pairwise_disjoint [] \<longleftrightarrow> True"
| "pairwise_disjoint (x # xs) \<longleftrightarrow> list_all (disjoint_segments x) xs \<and> pairwise_disjoint xs"

definition templates_of :: "string \<Rightarrow> string list" where
  "templates_of m = map snd (filter (\<lambda>(k, t). k = m) route_names)"

lemma route_templates_disjoint:
  "list_all (\<lambda>m. pairwise_disjoint (map template_segments (templates_of m))) [''GET'', ''PUT'', ''POST'', ''DELETE'']"
  by code_simp

lemma route_templates_simple: "list_all (\<lambda>(m, t). list_all (\<lambda>seg. literal_text seg \<noteq> None \<or> segment_params seg \<noteq> []) (template_segments t)) route_names"
  by code_simp

lemma route_methods: "list_all (\<lambda>(m, t). m \<in> set [''GET'', ''PUT'', ''POST'', ''DELETE'']) route_names"
  by code_simp

lemma route_method: "(m, t) \<in> set route_names \<Longrightarrow> m \<in> set [''GET'', ''PUT'', ''POST'', ''DELETE'']"
  using route_methods by (auto simp only: list_all_iff)

lemma not_disjoint_self: "\<not> disjoint_segments xs xs"
  by (induction xs) (auto split: option.splits)

lemma pairwise_disjoint_distinct: "pairwise_disjoint (map f ts) \<Longrightarrow> distinct ts"
  by (induction ts) (auto simp: list_all_iff not_disjoint_self)

lemma templates_disjoint:
  assumes "(m, t) \<in> set route_names"
  shows "pairwise_disjoint (map template_segments (templates_of m))"
  using route_templates_disjoint route_method [OF assms] by (simp only: list_all_iff)

lemma distinct_groups: "(\<And>m t. (m, t) \<in> set xs \<Longrightarrow> distinct (map snd (filter (\<lambda>(k, t). k = m) xs))) \<Longrightarrow> distinct xs"
proof (induction xs)
  case (Cons x xs)
  obtain k t where x: "x = (k, t)" by (cases x)
  have "distinct (map snd (filter (\<lambda>(k, t). k = m) xs))" if "(m, u) \<in> set xs" for m u
    using Cons.prems [of m u] that by (auto split: if_splits)
  with Cons.IH have "distinct xs" by blast
  moreover have "x \<notin> set xs" using Cons.prems [of k t] x by force
  ultimately show ?case by simp
qed simp

lemma route_names_distinct: "distinct route_names"
  by (rule distinct_groups) (use pairwise_disjoint_distinct templates_disjoint in \<open>unfold templates_of_def, blast\<close>)

definition params :: "string \<Rightarrow> string list" where
  "params t = concat (map segment_params (template_segments t))"

lemma route_parameters: "list_all (\<lambda>(m, t). parameters t = params t) route_names"
  by code_simp

lemma endpoint_name: "(m, t, h) \<in> set (endpoints env auth) \<Longrightarrow> (m, t) \<in> set route_names"
  unfolding endpoints_names [of env auth, symmetric] by force

lemma endpoint_unique:
  assumes "(m, t, h) \<in> set (endpoints env auth)" and "(m, t, h') \<in> set (endpoints env auth)"
  shows "h' = h"
proof -
  have "distinct (map (\<lambda>(m, t, h). (m, t)) (endpoints env auth))"
    by (simp only: endpoints_names route_names_distinct)
  then have "inj_on (\<lambda>(m, t, h). (m, t)) (set (endpoints env auth))" by (simp only: distinct_map)
  from inj_onD [OF this _ assms] show ?thesis by simp
qed

lemma pairwise_disjointD:
  "pairwise_disjoint xs \<Longrightarrow> x \<in> set xs \<Longrightarrow> y \<in> set xs \<Longrightarrow> x \<noteq> y \<Longrightarrow> disjoint_segments x y \<or> disjoint_segments y x"
  by (induction xs) (auto simp: list_all_iff)

lemma pairwise_disjoint_map:
  assumes "pairwise_disjoint (map f ts)" and "t \<in> set ts" and "t' \<in> set ts" and "t \<noteq> t'" and "distinct ts"
  shows "disjoint_segments (f t) (f t') \<or> disjoint_segments (f t') (f t)"
  using assms by (induction ts) (auto simp: list_all_iff)

text \<open>No path is matched by two routes of the same method.\<close>

lemma routes_unambiguous:
  assumes "(m, t) \<in> set route_names" and "(m, t') \<in> set route_names"
    and "match_template t p = Some a" and "match_template t' p = Some b"
  shows "t' = t"
proof (rule ccontr)
  assume ne: "t' \<noteq> t"
  note disjoint = templates_disjoint [OF assms(1)]
  have "t \<in> set (templates_of m)" "t' \<in> set (templates_of m)"
    using assms(1,2) by (force simp: templates_of_def)+
  from pairwise_disjoint_map [OF disjoint this ne [symmetric] pairwise_disjoint_distinct [OF disjoint]]
  show False
    using assms(3,4) unfolding match_template_def by (elim disjE) (erule (2) disjoint_sound)+
qed

section \<open>A client that talks to the API\<close>

text \<open>
  The request that reaches a handler, behind the middlewares, and the response: an exception is
  answered with its status, which the session of the client raises again. \<open>base\<close> has what does not
  depend on the call, as the certificate of the client; \<open>transmit\<close> is how the lines of a stream
  reach the client.
\<close>

definition served :: "api_env \<Rightarrow> api_config \<Rightarrow> handler \<Rightarrow> handler" where
  "served env config h =
     serve (load_authentication env (config_strategy config) (config_client_ca config))
       (config_allow_anonymous config) (config_retry config) h"

definition answered ::
  "http_request \<Rightarrow> handler \<Rightarrow> string \<Rightarrow> (string, string) dict \<Rightarrow> (string, string) dict \<Rightarrow> yaml option \<Rightarrow>
     (db_log, yaml) co" where
  "answered base h m args query json =
     co_catch (h (base\<lparr>req_method := m, match_info := args, query_string := query, json_body := json\<rparr>))
       (\<lambda>e. co_raise (ClientResponseError (response_status e)))"

fun stream_of :: "yaml \<Rightarrow> yaml list" where
  "stream_of (Arr vs) = vs"
| "stream_of v = [v]"

definition api_session ::
  "router \<Rightarrow> (string \<times> string \<times> handler) list \<Rightarrow> http_request \<Rightarrow> (yaml list \<Rightarrow> stream_line list) \<Rightarrow>
     client_request \<Rightarrow> (db_log, client_response) co" where
  "api_session router routes base transmit r =
     (case router routes (sent_method r) (sent_path r) of
        None \<Rightarrow> co_raise (ClientResponseError 404)
      | Some (h, args) \<Rightarrow>
          co_bind (answered base h (sent_method r) args (sent_query r) (sent_json r)) (\<lambda>v.
          co_return \<lparr>resp_status = 200, resp_json = Inr v, resp_content = transmit (stream_of v)\<rparr>))"

definition api_client ::
  "api_env \<Rightarrow> router \<Rightarrow> (string \<times> string \<times> handler) list \<Rightarrow> http_request \<Rightarrow> (yaml list \<Rightarrow> stream_line list) \<Rightarrow>
     db_log client_env" where
  "api_client env router routes base transmit =
     \<lparr>session_request = api_session router routes base transmit, client_decode = decode env\<rparr>"

lemma routed:
  assumes "router_laws router" and "create_app env config = Inr routes"
    and "load_authorizer env (config_authorization config) = Inr auth"
    and "(m, t, h) \<in> set (endpoints env auth)" and "str_format t kwargs = Inr p"
    and "\<forall>(k, v) \<in> set kwargs. path_segment v"
  shows "router routes m p = Some (served env config h, map (\<lambda>n. (n, the (dict_get kwargs n))) (params t))"
proof -
  let ?f = "\<lambda>k. case dict_get kwargs k of Some v \<Rightarrow> Inr v | None \<Rightarrow> Inl KeyError"
  have routes: "routes = map (\<lambda>(m, p, h). (m, p, served env config h)) (endpoints env auth)"
    using assms(2,3) by (simp add: create_app_def served_def)
  have name: "(m, t) \<in> set route_names" by (rule endpoint_name [OF assms(4)])
  have seg: "path_segment v" if "?f n = Inr v" for n v
    using that assms(6) by (auto split: option.splits dest: map_of_SomeD)
  have found: "dict_get kwargs n \<noteq> None" if "n \<in> set (params t)" for n
  proof -
    have "parameters t = params t" using route_parameters name by (auto simp: list_all_iff)
    with that have "n \<in> set (parameters t)" by simp
    then have "Param n \<in> set (key_parts t)" by (auto simp: parameters_def split: key_part.splits)
    from format_parts_Param [OF assms(5) [unfolded str_format_def] this] show ?thesis by (cases "dict_get kwargs n") auto
  qed
  have simple: "list_all simple_segment (template_segments t)"
    using route_templates_simple name unfolding list_all_iff simple_segment_iff by auto
  have "list_all2 (\<lambda>seg s. format_parts ?f seg = Inr s) (template_segments t) (path_segments p)"
    unfolding template_segments_def using assms(5) [unfolded str_format_def]
    by (rule format_segments) (use seg in \<open>auto simp: path_segment_def\<close>)
  from match_formatted [OF this simple seg]
  have "match_template t p = Some (map (\<lambda>n. (n, projr (?f n))) (params t))"
    by (simp add: match_template_def params_def)
  also have "map (\<lambda>n. (n, projr (?f n))) (params t) = map (\<lambda>n. (n, the (dict_get kwargs n))) (params t)"
    by (auto split: option.splits dest!: found)
  finally have matched: "match_template t p = Some (map (\<lambda>n. (n, the (dict_get kwargs n))) (params t))" .
  have "(m, t, served env config h) \<in> set routes" using assms(4) routes by force
  moreover have "t' = t \<and> h' = served env config h"
    if r: "(m, t', h') \<in> set routes" and other: "match_template t' p \<noteq> None" for t' h'
  proof -
    from r routes obtain g where g: "(m, t', g) \<in> set (endpoints env auth)" "h' = served env config g" by auto
    from other obtain b where "match_template t' p = Some b" by blast
    from routes_unambiguous [OF name endpoint_name [OF g(1)] matched this] have "t' = t" .
    with g endpoint_unique [OF assms(4)] show ?thesis by blast
  qed
  ultimately show ?thesis using assms(1) matched unfolding router_laws_def by blast
qed

section \<open>The handlers of the calls\<close>

text \<open>
  A call of the client: what it does, the handler, the method and the parameters of its route, the
  body, and the class of the result.
\<close>

type_synonym client_call =
  "(db_log, yaml option) co \<times> (api_env \<Rightarrow> authorizer \<Rightarrow> handler) \<times> string \<times> (string, string) dict \<times> yaml option \<times> fields"

definition some_result :: "('s, 'a) co \<Rightarrow> ('s, 'a option) co" where
  "some_result m = co_bind m (\<lambda>x. co_return (Some x))"

fun handled :: "api_env \<Rightarrow> api_config \<Rightarrow> authorizer \<Rightarrow> http_request \<Rightarrow> client_call \<Rightarrow> bool" where
  "handled env config auth base (call, h, m, args, json, fs) \<longleftrightarrow>
     call = some_result (co_bind (answered base (served env config (h env auth)) m args [] json) (\<lambda>v. co_lift (decode env fs v)))"

lemma format_parts_total:
  "\<forall>n. Param n \<in> set ps \<longrightarrow> (\<exists>v. f n = Inr v) \<Longrightarrow> \<exists>s. format_parts f ps = Inr s"
  by (induction f ps rule: format_parts.induct) fastforce+

text \<open>The parameters of the templates, computed once.\<close>

lemma route_params: "list_all (\<lambda>(t, ps). params t = ps)
    [
      (''/core/globalmetrics'', []),
      (''/core/globalmetrics/{name}'', [''name'']),
      (''/core/globalmetricsproviders'', []),
      (''/core/globalmetricsproviders/{name}'', [''name'']),
      (''/core/metrics'', []),
      (''/core/metricsproviders'', []),
      (''/core/namespaces/{namespace}/metrics'', [''namespace'']),
      (''/core/namespaces/{namespace}/metrics/{name}'', [''namespace'', ''name'']),
      (''/core/namespaces/{namespace}/metricsproviders'', [''namespace'']),
      (''/core/namespaces/{namespace}/metricsproviders/{name}'', [''namespace'', ''name'']),
      (''/core/rolebindings'', []),
      (''/core/rolebindings/{name}'', [''name'']),
      (''/core/roles'', []),
      (''/core/roles/{name}'', [''name'']),
      (''/infrastructure/clouds'', []),
      (''/infrastructure/globalclouds'', []),
      (''/infrastructure/globalclouds/{name}'', [''name'']),
      (''/infrastructure/globalclouds/{name}/status'', [''name'']),
      (''/infrastructure/globalinfrastructureproviders'', []),
      (''/infrastructure/globalinfrastructureproviders/{name}'', [''name'']),
      (''/infrastructure/infrastructureproviders'', []),
      (''/infrastructure/namespaces/{namespace}/clouds'', [''namespace'']),
      (''/infrastructure/namespaces/{namespace}/clouds/{name}'', [''namespace'', ''name'']),
      (''/infrastructure/namespaces/{namespace}/clouds/{name}/status'', [''namespace'', ''name'']),
      (''/infrastructure/namespaces/{namespace}/infrastructureproviders'', [''namespace'']),
      (''/infrastructure/namespaces/{namespace}/infrastructureproviders/{name}'', [''namespace'', ''name'']),
      (''/kubernetes/applications'', []),
      (''/kubernetes/clusters'', []),
      (''/kubernetes/namespaces/{namespace}/applications'', [''namespace'']),
      (''/kubernetes/namespaces/{namespace}/applications/{name}'', [''namespace'', ''name'']),
      (''/kubernetes/namespaces/{namespace}/applications/{name}/binding'', [''namespace'', ''name'']),
      (''/kubernetes/namespaces/{namespace}/applications/{name}/complete'', [''namespace'', ''name'']),
      (''/kubernetes/namespaces/{namespace}/applications/{name}/retry'', [''namespace'', ''name'']),
      (''/kubernetes/namespaces/{namespace}/applications/{name}/shutdown'', [''namespace'', ''name'']),
      (''/kubernetes/namespaces/{namespace}/applications/{name}/status'', [''namespace'', ''name'']),
      (''/kubernetes/namespaces/{namespace}/clusters'', [''namespace'']),
      (''/kubernetes/namespaces/{namespace}/clusters/{name}'', [''namespace'', ''name'']),
      (''/kubernetes/namespaces/{namespace}/clusters/{name}/binding'', [''namespace'', ''name'']),
      (''/kubernetes/namespaces/{namespace}/clusters/{name}/status'', [''namespace'', ''name'']),
      (''/openstack/magnumclusters'', []),
      (''/openstack/namespaces/{namespace}/magnumclusters'', [''namespace'']),
      (''/openstack/namespaces/{namespace}/magnumclusters/{name}'', [''namespace'', ''name'']),
      (''/openstack/namespaces/{namespace}/magnumclusters/{name}/binding'', [''namespace'', ''name'']),
      (''/openstack/namespaces/{namespace}/magnumclusters/{name}/status'', [''namespace'', ''name'']),
      (''/openstack/namespaces/{namespace}/projects'', [''namespace'']),
      (''/openstack/namespaces/{namespace}/projects/{name}'', [''namespace'', ''name'']),
      (''/openstack/namespaces/{namespace}/projects/{name}/status'', [''namespace'', ''name'']),
      (''/openstack/projects'', [])]"
  by code_simp

lemmas params_simps = route_params [unfolded list.pred_inject prod.case]

lemma co_bind_assoc: "co_bind (co_bind m f) g = co_bind m (\<lambda>x. co_bind (f x) g)"
  by (rule ext) (simp add: co_bind_def split: option.splits sum.splits)

lemma co_bind_return [simp]: "co_bind (co_return x) f = f x"
  by (rule ext) (simp add: co_bind_def co_return_def)

lemma co_bind_lift [simp]: "co_bind (co_lift (Inr x)) f = f x"
  by (rule ext) (simp add: co_bind_def co_lift_def)

text \<open>An API server, a router for its routes, and a client that sends its requests there.\<close>

locale routed_api =
  fixes env :: api_env and config :: api_config and router :: router
    and routes :: "(string \<times> string \<times> handler) list" and auth :: authorizer
    and base :: http_request and transmit :: "yaml list \<Rightarrow> stream_line list"
  assumes laws: "router_laws router"
    and app: "create_app env config = Inr routes"
    and authorizer: "load_authorizer env (config_authorization config) = Inr auth"
begin

abbreviation client :: "db_log client_env" where
  "client \<equiv> api_client env router routes base transmit"

lemma send_routed:
  assumes "(m, t, h) \<in> set (endpoints env auth)" and "list_all (\<lambda>n. n \<in> dict_keys kwargs) (params t)"
    and "list_all (\<lambda>(k, v). path_segment v) kwargs"
  shows "\<exists>p. str_format t kwargs = Inr p \<and> (\<forall>q j. session_request client
      \<lparr>sent_method = m, sent_path = p, sent_query = q, sent_json = j\<rparr> =
    co_bind (answered base (served env config h) m (map (\<lambda>n. (n, the (dict_get kwargs n))) (params t)) q j)
      (\<lambda>v. co_return \<lparr>resp_status = 200, resp_json = Inr v, resp_content = transmit (stream_of v)\<rparr>))"
proof -
  have "parameters t = params t"
    using route_parameters endpoint_name [OF assms(1)] by (auto simp: list_all_iff)
  moreover have "n \<in> set (parameters t)" if "Param n \<in> set (key_parts t)" for n
    using that by (force simp: parameters_def)
  ultimately have "\<forall>n. Param n \<in> set (key_parts t) \<longrightarrow> n \<in> dict_keys kwargs"
    using assms(2) by (simp add: list_all_iff)
  then have "\<forall>n. Param n \<in> set (key_parts t) \<longrightarrow>
      (\<exists>v. (case dict_get kwargs n of Some v \<Rightarrow> Inr v | None \<Rightarrow> Inl KeyError) = Inr v)"
    by (metis dict_keys_iff option.simps(5))
  from format_parts_total [OF this] obtain p where p: "str_format t kwargs = Inr p"
    unfolding str_format_def by blast
  have "\<forall>(k, v) \<in> set kwargs. path_segment v" using assms(3) by (simp add: list_all_iff)
  from routed [OF laws app authorizer assms(1) p this] p show ?thesis
    by (simp add: api_client_def api_session_def)
qed

lemma handled_json:
  assumes "(m, t, h env auth) \<in> set (endpoints env auth)" and "list_all (\<lambda>n. n \<in> dict_keys kwargs) (params t)"
    and "list_all (\<lambda>(k, v). path_segment v) kwargs" and "map (\<lambda>n. (n, the (dict_get kwargs n))) (params t) = args"
  shows "handled env config auth base
    (some_result (co_bind (send client m t kwargs json) (receive client fs)), h, m, args, json, fs)"
  using send_routed [OF assms(1-3)] assms(4)
  by (auto simp: send_def receive_def co_bind_assoc) (simp add: api_client_def)

lemma handled_get:
  assumes "(''GET'', t, h env auth) \<in> set (endpoints env auth)" and "list_all (\<lambda>n. n \<in> dict_keys kwargs) (params t)"
    and "list_all (\<lambda>(k, v). path_segment v) kwargs" and "map (\<lambda>n. (n, the (dict_get kwargs n))) (params t) = args"
  shows "handled env config auth base (some_result (get_json client t kwargs fs), h, ''GET'', args, None, fs)"
  unfolding get_json_def by (rule handled_json [where h = h, OF assms])

lemma handled_post:
  assumes "(''POST'', t, h env auth) \<in> set (endpoints env auth)" and "list_all (\<lambda>n. n \<in> dict_keys kwargs) (params t)"
    and "list_all (\<lambda>(k, v). path_segment v) kwargs" and "map (\<lambda>n. (n, the (dict_get kwargs n))) (params t) = args"
  shows "handled env config auth base (some_result (post_json client t kwargs fs body), h, ''POST'', args, Some body, fs)"
  unfolding post_json_def by (rule handled_json [where h = h, OF assms])

lemma handled_put:
  assumes "(''PUT'', t, h env auth) \<in> set (endpoints env auth)" and "list_all (\<lambda>n. n \<in> dict_keys kwargs) (params t)"
    and "list_all (\<lambda>(k, v). path_segment v) kwargs" and "map (\<lambda>n. (n, the (dict_get kwargs n))) (params t) = args"
  shows "handled env config auth base (some_result (put_json client t kwargs fs body), h, ''PUT'', args, Some body, fs)"
  unfolding put_json_def by (rule handled_json [where h = h, OF assms])

lemma handled_delete:
  assumes "(''DELETE'', t, h env auth) \<in> set (endpoints env auth)" and "list_all (\<lambda>n. n \<in> dict_keys kwargs) (params t)"
    and "list_all (\<lambda>(k, v). path_segment v) kwargs" and "map (\<lambda>n. (n, the (dict_get kwargs n))) (params t) = args"
  shows "handled env config auth base (delete_json client t kwargs fs, h, ''DELETE'', args, None, fs)"
proof -
  have "delete_json client t kwargs fs = some_result (co_bind (send client ''DELETE'' t kwargs None) (receive client fs))"
    using send_routed [OF assms(1-3)]
    by (auto simp: delete_json_def some_result_def send_def receive_def co_bind_assoc)
  with handled_json [where h = h, OF assms, of None fs] show ?thesis by simp
qed

end

definition core_calls :: "db_log client_env \<Rightarrow> yaml \<Rightarrow> string \<Rightarrow> string \<Rightarrow> client_call list" where
  "core_calls env body ns n =
     [
       (some_result (create_global_metric_client env body), Api_Endpoints.create_global_metric, ''POST'', [], Some body, class_fields global_metric_class),
       ((delete_global_metric_client env n), Api_Endpoints.delete_global_metric, ''DELETE'', [(''name'', n)], None, class_fields global_metric_class),
       (some_result (list_global_metrics_client env), Api_Endpoints.list_or_watch_global_metrics, ''GET'', [], None, list_fields global_metric_class),
       (some_result (read_global_metric_client env n), Api_Endpoints.read_global_metric, ''GET'', [(''name'', n)], None, class_fields global_metric_class),
       (some_result (update_global_metric_client env body n), Api_Endpoints.update_global_metric, ''PUT'', [(''name'', n)], Some body, class_fields global_metric_class),
       (some_result (create_global_metrics_provider_client env body), Api_Endpoints.create_global_metrics_provider, ''POST'', [], Some body, class_fields global_metrics_provider_class),
       ((delete_global_metrics_provider_client env n), Api_Endpoints.delete_global_metrics_provider, ''DELETE'', [(''name'', n)], None, class_fields global_metrics_provider_class),
       (some_result (list_global_metrics_providers_client env), Api_Endpoints.list_or_watch_global_metrics_providers, ''GET'', [], None, list_fields global_metrics_provider_class),
       (some_result (read_global_metrics_provider_client env n), Api_Endpoints.read_global_metrics_provider, ''GET'', [(''name'', n)], None, class_fields global_metrics_provider_class),
       (some_result (update_global_metrics_provider_client env body n), Api_Endpoints.update_global_metrics_provider, ''PUT'', [(''name'', n)], Some body, class_fields global_metrics_provider_class),
       (some_result (create_metric_client env body ns), Api_Endpoints.create_metric, ''POST'', [(''namespace'', ns)], Some body, class_fields metric_class),
       ((delete_metric_client env n ns), Api_Endpoints.delete_metric, ''DELETE'', [(''namespace'', ns), (''name'', n)], None, class_fields metric_class),
       (some_result (list_metrics_client env (Some ns)), Api_Endpoints.list_or_watch_metrics, ''GET'', [(''namespace'', ns)], None, list_fields metric_class),
       (some_result (list_metrics_client env None), Api_Endpoints.list_or_watch_metrics, ''GET'', [], None, list_fields metric_class),
       (some_result (read_metric_client env n ns), Api_Endpoints.read_metric, ''GET'', [(''namespace'', ns), (''name'', n)], None, class_fields metric_class),
       (some_result (update_metric_client env body n ns), Api_Endpoints.update_metric, ''PUT'', [(''namespace'', ns), (''name'', n)], Some body, class_fields metric_class),
       (some_result (create_metrics_provider_client env body ns), Api_Endpoints.create_metrics_provider, ''POST'', [(''namespace'', ns)], Some body, class_fields metrics_provider_class),
       ((delete_metrics_provider_client env n ns), Api_Endpoints.delete_metrics_provider, ''DELETE'', [(''namespace'', ns), (''name'', n)], None, class_fields metrics_provider_class),
       (some_result (list_metrics_providers_client env (Some ns)), Api_Endpoints.list_or_watch_metrics_providers, ''GET'', [(''namespace'', ns)], None, list_fields metrics_provider_class),
       (some_result (list_metrics_providers_client env None), Api_Endpoints.list_or_watch_metrics_providers, ''GET'', [], None, list_fields metrics_provider_class),
       (some_result (read_metrics_provider_client env n ns), Api_Endpoints.read_metrics_provider, ''GET'', [(''namespace'', ns), (''name'', n)], None, class_fields metrics_provider_class),
       (some_result (update_metrics_provider_client env body n ns), Api_Endpoints.update_metrics_provider, ''PUT'', [(''namespace'', ns), (''name'', n)], Some body, class_fields metrics_provider_class),
       (some_result (create_role_client env body), Api_Endpoints.create_role, ''POST'', [], Some body, class_fields role_class),
       ((delete_role_client env n), Api_Endpoints.delete_role, ''DELETE'', [(''name'', n)], None, class_fields role_class),
       (some_result (list_roles_client env), Api_Endpoints.list_or_watch_roles, ''GET'', [], None, list_fields role_class),
       (some_result (read_role_client env n), Api_Endpoints.read_role, ''GET'', [(''name'', n)], None, class_fields role_class),
       (some_result (update_role_client env body n), Api_Endpoints.update_role, ''PUT'', [(''name'', n)], Some body, class_fields role_class),
       (some_result (create_role_binding_client env body), Api_Endpoints.create_role_binding, ''POST'', [], Some body, class_fields role_binding_class),
       ((delete_role_binding_client env n), Api_Endpoints.delete_role_binding, ''DELETE'', [(''name'', n)], None, class_fields role_binding_class),
       (some_result (list_role_bindings_client env), Api_Endpoints.list_or_watch_role_bindings, ''GET'', [], None, list_fields role_binding_class),
       (some_result (read_role_binding_client env n), Api_Endpoints.read_role_binding, ''GET'', [(''name'', n)], None, class_fields role_binding_class),
       (some_result (update_role_binding_client env body n), Api_Endpoints.update_role_binding, ''PUT'', [(''name'', n)], Some body, class_fields role_binding_class)]"

definition kubernetes_calls :: "db_log client_env \<Rightarrow> yaml \<Rightarrow> string \<Rightarrow> string \<Rightarrow> client_call list" where
  "kubernetes_calls env body ns n =
     [
       (some_result (create_application_client env body ns), Api_Endpoints.create_application, ''POST'', [(''namespace'', ns)], Some body, class_fields application_class),
       ((delete_application_client env ns n), Api_Endpoints.delete_application, ''DELETE'', [(''namespace'', ns), (''name'', n)], None, class_fields application_class),
       (some_result (list_applications_client env ns), Api_Endpoints.list_or_watch_applications, ''GET'', [(''namespace'', ns)], None, list_fields application_class),
       (some_result (list_all_applications_client env), Api_Endpoints.list_or_watch_applications, ''GET'', [], None, list_fields application_class),
       (some_result (read_application_client env ns n), Api_Endpoints.read_application, ''GET'', [(''namespace'', ns), (''name'', n)], None, class_fields application_class),
       (some_result (update_application_client env body ns n), Api_Endpoints.update_application, ''PUT'', [(''namespace'', ns), (''name'', n)], Some body, class_fields application_class),
       (some_result (update_application_binding_client env body ns n), Api_Endpoints.update_application_binding, ''PUT'', [(''namespace'', ns), (''name'', n)], Some body, class_fields application_class),
       (some_result (update_application_complete_client env body ns n), Api_Endpoints.update_application_complete, ''PUT'', [(''namespace'', ns), (''name'', n)], Some body, class_fields application_class),
       (some_result (update_application_shutdown_client env body ns n), Api_Endpoints.update_application_shutdown, ''PUT'', [(''namespace'', ns), (''name'', n)], Some body, class_fields application_class),
       (some_result (update_application_status_client env body ns n), Api_Endpoints.update_application_status, ''PUT'', [(''namespace'', ns), (''name'', n)], Some body, class_fields application_class),
       (some_result (create_cluster_client env body ns), Api_Endpoints.create_cluster, ''POST'', [(''namespace'', ns)], Some body, class_fields cluster_class),
       ((delete_cluster_client env ns n), Api_Endpoints.delete_cluster, ''DELETE'', [(''namespace'', ns), (''name'', n)], None, class_fields cluster_class),
       (some_result (list_clusters_client env ns), Api_Endpoints.list_or_watch_clusters, ''GET'', [(''namespace'', ns)], None, list_fields cluster_class),
       (some_result (list_all_clusters_client env), Api_Endpoints.list_or_watch_clusters, ''GET'', [], None, list_fields cluster_class),
       (some_result (read_cluster_client env ns n), Api_Endpoints.read_cluster, ''GET'', [(''namespace'', ns), (''name'', n)], None, class_fields cluster_class),
       (some_result (update_cluster_client env body ns n), Api_Endpoints.update_cluster, ''PUT'', [(''namespace'', ns), (''name'', n)], Some body, class_fields cluster_class),
       (some_result (update_cluster_binding_client env body ns n), Api_Endpoints.update_cluster_binding, ''PUT'', [(''namespace'', ns), (''name'', n)], Some body, class_fields cluster_class),
       (some_result (update_cluster_status_client env body ns n), Api_Endpoints.update_cluster_status, ''PUT'', [(''namespace'', ns), (''name'', n)], Some body, class_fields cluster_class)]"

definition infrastructure_calls :: "db_log client_env \<Rightarrow> yaml \<Rightarrow> string \<Rightarrow> string \<Rightarrow> client_call list" where
  "infrastructure_calls env body ns n =
     [
       (some_result (create_global_infrastructure_provider_client env body), Api_Endpoints.create_global_infrastructure_provider, ''POST'', [], Some body, class_fields global_infrastructure_provider_class),
       ((delete_global_infrastructure_provider_client env n), Api_Endpoints.delete_global_infrastructure_provider, ''DELETE'', [(''name'', n)], None, class_fields global_infrastructure_provider_class),
       (some_result (list_global_infrastructure_providers_client env), Api_Endpoints.list_or_watch_global_infrastructure_providers, ''GET'', [], None, list_fields global_infrastructure_provider_class),
       (some_result (read_global_infrastructure_provider_client env n), Api_Endpoints.read_global_infrastructure_provider, ''GET'', [(''name'', n)], None, class_fields global_infrastructure_provider_class),
       (some_result (update_global_infrastructure_provider_client env body n), Api_Endpoints.update_global_infrastructure_provider, ''PUT'', [(''name'', n)], Some body, class_fields global_infrastructure_provider_class),
       (some_result (create_infrastructure_provider_client env body ns), Api_Endpoints.create_infrastructure_provider, ''POST'', [(''namespace'', ns)], Some body, class_fields infrastructure_provider_class),
       ((delete_infrastructure_provider_client env ns n), Api_Endpoints.delete_infrastructure_provider, ''DELETE'', [(''namespace'', ns), (''name'', n)], None, class_fields infrastructure_provider_class),
       (some_result (list_infrastructure_providers_client env ns), Api_Endpoints.list_or_watch_infrastructure_providers, ''GET'', [(''namespace'', ns)], None, list_fields infrastructure_provider_class),
       (some_result (list_all_infrastructure_providers_client env), Api_Endpoints.list_or_watch_infrastructure_providers, ''GET'', [], None, list_fields infrastructure_provider_class),
       (some_result (read_infrastructure_provider_client env ns n), Api_Endpoints.read_infrastructure_provider, ''GET'', [(''namespace'', ns), (''name'', n)], None, class_fields infrastructure_provider_class),
       (some_result (update_infrastructure_provider_client env body ns n), Api_Endpoints.update_infrastructure_provider, ''PUT'', [(''namespace'', ns), (''name'', n)], Some body, class_fields infrastructure_provider_class),
       (some_result (create_global_cloud_client env body), Api_Endpoints.create_global_cloud, ''POST'', [], Some body, class_fields global_cloud_class),
       ((delete_global_cloud_client env n), Api_Endpoints.delete_global_cloud, ''DELETE'', [(''name'', n)], None, class_fields global_cloud_class),
       (some_result (list_global_clouds_client env), Api_Endpoints.list_or_watch_global_clouds, ''GET'', [], None, list_fields global_cloud_class),
       (some_result (read_global_cloud_client env n), Api_Endpoints.read_global_cloud, ''GET'', [(''name'', n)], None, class_fields global_cloud_class),
       (some_result (update_global_cloud_client env body n), Api_Endpoints.update_global_cloud, ''PUT'', [(''name'', n)], Some body, class_fields global_cloud_class),
       (some_result (update_global_cloud_status_client env body n), Api_Endpoints.update_global_cloud_status, ''PUT'', [(''name'', n)], Some body, class_fields global_cloud_class),
       (some_result (create_cloud_client env body ns), Api_Endpoints.create_cloud, ''POST'', [(''namespace'', ns)], Some body, class_fields cloud_class),
       ((delete_cloud_client env ns n), Api_Endpoints.delete_cloud, ''DELETE'', [(''namespace'', ns), (''name'', n)], None, class_fields cloud_class),
       (some_result (list_clouds_client env ns), Api_Endpoints.list_or_watch_clouds, ''GET'', [(''namespace'', ns)], None, list_fields cloud_class),
       (some_result (list_all_clouds_client env), Api_Endpoints.list_or_watch_clouds, ''GET'', [], None, list_fields cloud_class),
       (some_result (read_cloud_client env ns n), Api_Endpoints.read_cloud, ''GET'', [(''namespace'', ns), (''name'', n)], None, class_fields cloud_class),
       (some_result (update_cloud_client env body ns n), Api_Endpoints.update_cloud, ''PUT'', [(''namespace'', ns), (''name'', n)], Some body, class_fields cloud_class),
       (some_result (update_cloud_status_client env body ns n), Api_Endpoints.update_cloud_status, ''PUT'', [(''namespace'', ns), (''name'', n)], Some body, class_fields cloud_class)]"

definition openstack_calls :: "db_log client_env \<Rightarrow> yaml \<Rightarrow> string \<Rightarrow> string \<Rightarrow> client_call list" where
  "openstack_calls env body ns n =
     [
       (some_result (create_magnum_cluster_client env body ns), Api_Endpoints.create_magnum_cluster, ''POST'', [(''namespace'', ns)], Some body, class_fields magnum_cluster_class),
       ((delete_magnum_cluster_client env ns n), Api_Endpoints.delete_magnum_cluster, ''DELETE'', [(''namespace'', ns), (''name'', n)], None, class_fields magnum_cluster_class),
       (some_result (list_magnum_clusters_client env ns), Api_Endpoints.list_or_watch_magnum_clusters, ''GET'', [(''namespace'', ns)], None, list_fields magnum_cluster_class),
       (some_result (list_all_magnum_clusters_client env), Api_Endpoints.list_or_watch_magnum_clusters, ''GET'', [], None, list_fields magnum_cluster_class),
       (some_result (read_magnum_cluster_client env ns n), Api_Endpoints.read_magnum_cluster, ''GET'', [(''namespace'', ns), (''name'', n)], None, class_fields magnum_cluster_class),
       (some_result (update_magnum_cluster_client env body ns n), Api_Endpoints.update_magnum_cluster, ''PUT'', [(''namespace'', ns), (''name'', n)], Some body, class_fields magnum_cluster_class),
       (some_result (update_magnum_cluster_binding_client env body ns n), Api_Endpoints.update_magnum_cluster_binding, ''PUT'', [(''namespace'', ns), (''name'', n)], Some body, class_fields magnum_cluster_class),
       (some_result (update_magnum_cluster_status_client env body ns n), Api_Endpoints.update_magnum_cluster_status, ''PUT'', [(''namespace'', ns), (''name'', n)], Some body, class_fields magnum_cluster_class),
       (some_result (create_project_client env body ns), Api_Endpoints.create_project, ''POST'', [(''namespace'', ns)], Some body, class_fields project_class),
       ((delete_project_client env ns n), Api_Endpoints.delete_project, ''DELETE'', [(''namespace'', ns), (''name'', n)], None, class_fields project_class),
       (some_result (list_projects_client env ns), Api_Endpoints.list_or_watch_projects, ''GET'', [(''namespace'', ns)], None, list_fields project_class),
       (some_result (list_all_projects_client env), Api_Endpoints.list_or_watch_projects, ''GET'', [], None, list_fields project_class),
       (some_result (read_project_client env ns n), Api_Endpoints.read_project, ''GET'', [(''namespace'', ns), (''name'', n)], None, class_fields project_class),
       (some_result (update_project_client env body ns n), Api_Endpoints.update_project, ''PUT'', [(''namespace'', ns), (''name'', n)], Some body, class_fields project_class),
       (some_result (update_project_status_client env body ns n), Api_Endpoints.update_project_status, ''PUT'', [(''namespace'', ns), (''name'', n)], Some body, class_fields project_class)]"

text \<open>The watchers, with the handler, the parameters of its route and the class.\<close>

type_synonym watch_call =
  "(exn, watcher) res \<times> (api_env \<Rightarrow> authorizer \<Rightarrow> handler) \<times> (string, string) dict \<times> api_class"

definition watch_calls :: "int option \<Rightarrow> string \<Rightarrow> watch_call list" where
  "watch_calls heartbeat ns =
     [
       (watch_global_metrics_client heartbeat, Api_Endpoints.list_or_watch_global_metrics, [], global_metric_class),
       (watch_global_metrics_providers_client heartbeat, Api_Endpoints.list_or_watch_global_metrics_providers, [], global_metrics_provider_class),
       (watch_metrics_client (Some ns) heartbeat, Api_Endpoints.list_or_watch_metrics, [(''namespace'', ns)], metric_class),
       (watch_metrics_client None heartbeat, Api_Endpoints.list_or_watch_metrics, [], metric_class),
       (watch_metrics_providers_client (Some ns) heartbeat, Api_Endpoints.list_or_watch_metrics_providers, [(''namespace'', ns)], metrics_provider_class),
       (watch_metrics_providers_client None heartbeat, Api_Endpoints.list_or_watch_metrics_providers, [], metrics_provider_class),
       (watch_roles_client heartbeat, Api_Endpoints.list_or_watch_roles, [], role_class),
       (watch_role_bindings_client heartbeat, Api_Endpoints.list_or_watch_role_bindings, [], role_binding_class),
       (watch_applications_client ns heartbeat, Api_Endpoints.list_or_watch_applications, [(''namespace'', ns)], application_class),
       (watch_all_applications_client heartbeat, Api_Endpoints.list_or_watch_applications, [], application_class),
       (watch_clusters_client ns heartbeat, Api_Endpoints.list_or_watch_clusters, [(''namespace'', ns)], cluster_class),
       (watch_all_clusters_client heartbeat, Api_Endpoints.list_or_watch_clusters, [], cluster_class),
       (watch_global_infrastructure_providers_client heartbeat, Api_Endpoints.list_or_watch_global_infrastructure_providers, [], global_infrastructure_provider_class),
       (watch_infrastructure_providers_client ns heartbeat, Api_Endpoints.list_or_watch_infrastructure_providers, [(''namespace'', ns)], infrastructure_provider_class),
       (watch_all_infrastructure_providers_client heartbeat, Api_Endpoints.list_or_watch_infrastructure_providers, [], infrastructure_provider_class),
       (watch_global_clouds_client heartbeat, Api_Endpoints.list_or_watch_global_clouds, [], global_cloud_class),
       (watch_clouds_client ns heartbeat, Api_Endpoints.list_or_watch_clouds, [(''namespace'', ns)], cloud_class),
       (watch_all_clouds_client heartbeat, Api_Endpoints.list_or_watch_clouds, [], cloud_class),
       (watch_magnum_clusters_client ns heartbeat, Api_Endpoints.list_or_watch_magnum_clusters, [(''namespace'', ns)], magnum_cluster_class),
       (watch_all_magnum_clusters_client heartbeat, Api_Endpoints.list_or_watch_magnum_clusters, [], magnum_cluster_class),
       (watch_projects_client ns heartbeat, Api_Endpoints.list_or_watch_projects, [(''namespace'', ns)], project_class),
       (watch_all_projects_client heartbeat, Api_Endpoints.list_or_watch_projects, [], project_class)]"

definition heartbeat_query :: "int option \<Rightarrow> (string, string) dict" where
  "heartbeat_query heartbeat =
     (''watch'', []) # (case heartbeat of None \<Rightarrow> [] | Some t \<Rightarrow> [(''heartbeat'', str_of_int t)])"

fun watch_handled ::
  "api_env \<Rightarrow> api_config \<Rightarrow> authorizer \<Rightarrow> http_request \<Rightarrow> db_log client_env \<Rightarrow> (yaml list \<Rightarrow> stream_line list) \<Rightarrow>
     int option \<Rightarrow> watch_call \<Rightarrow> bool" where
  "watch_handled env config auth base cl transmit heartbeat (w, h, args, c) \<longleftrightarrow>
     (case w of
        Inl e \<Rightarrow> False
      | Inr w \<Rightarrow>
          watch_model w = class_fields c \<and>
          open_watch cl w =
            co_bind (answered base (served env config (h env auth)) ''GET'' args (heartbeat_query heartbeat) None)
              (\<lambda>v. co_return (transmit (stream_of v))))"

context routed_api
begin

lemma handled_watch:
  assumes "(''GET'', t, h env auth) \<in> set (endpoints env auth)" and "list_all (\<lambda>n. n \<in> dict_keys kwargs) (params t)"
    and "list_all (\<lambda>(k, v). path_segment v) kwargs" and "map (\<lambda>n. (n, the (dict_get kwargs n))) (params t) = args"
  shows "watch_handled env config auth base client transmit heartbeat
    (new_watcher t kwargs heartbeat (class_fields c), h, args, c)"
  using send_routed [OF assms(1-3)] assms(4)
  by (auto simp: new_watcher_def heartbeat_query_def open_watch_def co_bind_assoc)

lemmas core_client_defs =
  create_global_metric_client_def create_global_metrics_provider_client_def create_metric_client_def create_metrics_provider_client_def
  create_role_binding_client_def create_role_client_def delete_global_metric_client_def delete_global_metrics_provider_client_def
  delete_metric_client_def delete_metrics_provider_client_def delete_role_binding_client_def delete_role_client_def
  list_global_metrics_client_def list_global_metrics_providers_client_def list_metrics_client_def list_metrics_providers_client_def
  list_role_bindings_client_def list_roles_client_def read_global_metric_client_def read_global_metrics_provider_client_def
  read_metric_client_def read_metrics_provider_client_def read_role_binding_client_def read_role_client_def
  update_global_metric_client_def update_global_metrics_provider_client_def update_metric_client_def update_metrics_provider_client_def
  update_role_binding_client_def update_role_client_def

lemma core_handled:
  assumes "path_segment ns" and "path_segment n"
  shows "list_all (handled env config auth base) (core_calls client body ns n)"
proof -
  have nonempty: "(ns = []) = False" using assms(1) by (simp add: path_segment_def)
  then show ?thesis
    unfolding core_calls_def list.pred_inject core_client_defs option.case nonempty if_False
    by (intro conjI TrueI handled_get handled_post handled_put handled_delete)
      (simp_all add: assms endpoints_def core_routes_def params_simps)
qed

lemmas kubernetes_client_defs =
  create_application_client_def create_cluster_client_def delete_application_client_def delete_cluster_client_def
  list_all_applications_client_def list_all_clusters_client_def list_applications_client_def list_clusters_client_def
  read_application_client_def read_cluster_client_def update_application_binding_client_def update_application_client_def
  update_application_complete_client_def update_application_shutdown_client_def update_application_status_client_def update_cluster_binding_client_def
  update_cluster_client_def update_cluster_status_client_def

lemma kubernetes_handled:
  assumes "path_segment ns" and "path_segment n"
  shows "list_all (handled env config auth base) (kubernetes_calls client body ns n)"
proof -
  have nonempty: "(ns = []) = False" using assms(1) by (simp add: path_segment_def)
  then show ?thesis
    unfolding kubernetes_calls_def list.pred_inject kubernetes_client_defs option.case nonempty if_False
    by (intro conjI TrueI handled_get handled_post handled_put handled_delete)
      (simp_all add: assms endpoints_def kubernetes_routes_def params_simps)
qed

lemmas infrastructure_client_defs =
  create_cloud_client_def create_global_cloud_client_def create_global_infrastructure_provider_client_def create_infrastructure_provider_client_def
  delete_cloud_client_def delete_global_cloud_client_def delete_global_infrastructure_provider_client_def delete_infrastructure_provider_client_def
  list_all_clouds_client_def list_all_infrastructure_providers_client_def list_clouds_client_def list_global_clouds_client_def
  list_global_infrastructure_providers_client_def list_infrastructure_providers_client_def read_cloud_client_def read_global_cloud_client_def
  read_global_infrastructure_provider_client_def read_infrastructure_provider_client_def update_cloud_client_def update_cloud_status_client_def
  update_global_cloud_client_def update_global_cloud_status_client_def update_global_infrastructure_provider_client_def update_infrastructure_provider_client_def

lemma infrastructure_handled:
  assumes "path_segment ns" and "path_segment n"
  shows "list_all (handled env config auth base) (infrastructure_calls client body ns n)"
proof -
  have nonempty: "(ns = []) = False" using assms(1) by (simp add: path_segment_def)
  then show ?thesis
    unfolding infrastructure_calls_def list.pred_inject infrastructure_client_defs option.case nonempty if_False
    by (intro conjI TrueI handled_get handled_post handled_put handled_delete)
      (simp_all add: assms endpoints_def infrastructure_routes_def params_simps)
qed

lemmas openstack_client_defs =
  create_magnum_cluster_client_def create_project_client_def delete_magnum_cluster_client_def delete_project_client_def
  list_all_magnum_clusters_client_def list_all_projects_client_def list_magnum_clusters_client_def list_projects_client_def
  read_magnum_cluster_client_def read_project_client_def update_magnum_cluster_binding_client_def update_magnum_cluster_client_def
  update_magnum_cluster_status_client_def update_project_client_def update_project_status_client_def

lemma openstack_handled:
  assumes "path_segment ns" and "path_segment n"
  shows "list_all (handled env config auth base) (openstack_calls client body ns n)"
proof -
  have nonempty: "(ns = []) = False" using assms(1) by (simp add: path_segment_def)
  then show ?thesis
    unfolding openstack_calls_def list.pred_inject openstack_client_defs option.case nonempty if_False
    by (intro conjI TrueI handled_get handled_post handled_put handled_delete)
      (simp_all add: assms endpoints_def openstack_routes_def params_simps)
qed

lemmas watch_client_defs =
  watch_all_applications_client_def watch_all_clouds_client_def watch_all_clusters_client_def watch_all_infrastructure_providers_client_def
  watch_all_magnum_clusters_client_def watch_all_projects_client_def watch_applications_client_def watch_clouds_client_def
  watch_clusters_client_def watch_global_clouds_client_def watch_global_infrastructure_providers_client_def watch_global_metrics_client_def
  watch_global_metrics_providers_client_def watch_infrastructure_providers_client_def watch_magnum_clusters_client_def watch_metrics_client_def
  watch_metrics_providers_client_def watch_projects_client_def watch_role_bindings_client_def watch_roles_client_def

lemma watches_handled:
  assumes "path_segment ns"
  shows "list_all (watch_handled env config auth base client transmit heartbeat) (watch_calls heartbeat ns)"
proof -
  have nonempty: "(ns = []) = False" using assms by (simp add: path_segment_def)
  then show ?thesis
    unfolding watch_calls_def list.pred_inject watch_client_defs option.case nonempty if_False
    by (intro conjI TrueI handled_watch)
      (simp_all add: assms endpoints_def core_routes_def kubernetes_routes_def infrastructure_routes_def openstack_routes_def
        params_simps)
qed

end

definition example_base :: http_request where
  "example_base = example_request [] [] None"

definition example_stream :: "yaml list \<Rightarrow> stream_line list" where
  "example_stream vs = Heartbeat # map Document vs @ [End_of_file]"

definition example_app :: "(string \<times> string \<times> handler) list" where
  "example_app = projr (create_app example_env example_config)"

interpretation example_api: routed_api example_env example_config first_match example_app always_allow example_base example_stream
  by unfold_locales (simp_all add: first_match_laws example_app_def create_app_def example_config_def load_authorizer_def)

section \<open>The calls of the client\<close>

text \<open>
  C15. Every call of the client library, with names that fit into a path, ends up in the handler of
  the API that is meant for it, behind the middlewares, with the arguments as parameters and the
  object as body, and gives the response of that handler read as the class of the call: for all
  operations on all classes, and for opening all watchers.
\<close>

theorem client_calls_handled:
  assumes "router_laws router" and "create_app env config = Inr routes"
    and "load_authorizer env (config_authorization config) = Inr auth" and "path_segment ns" and "path_segment n"
  shows "list_all (handled env config auth base)
      (core_calls (api_client env router routes base transmit) body ns n @
       kubernetes_calls (api_client env router routes base transmit) body ns n @
       infrastructure_calls (api_client env router routes base transmit) body ns n @
       openstack_calls (api_client env router routes base transmit) body ns n) \<and>
    list_all (watch_handled env config auth base (api_client env router routes base transmit) transmit heartbeat)
      (watch_calls heartbeat ns)"
proof -
  note api = routed_api.intro [OF assms(1-3)]
  note segments = assms(4,5)
  show ?thesis
    using routed_api.core_handled [OF api segments] routed_api.kubernetes_handled [OF api segments]
      routed_api.infrastructure_handled [OF api segments] routed_api.openstack_handled [OF api segments]
      routed_api.watches_handled [OF api assms(4)]
    by simp
qed

text \<open>A role is created by the client of the example.\<close>

theorem client_calls_handled_witness:
  "create_role_client (api_client example_env first_match example_app example_base example_stream) example_body [] =
     Some (Inr example_created, [Commit example_key Not_exists (Put_value example_created)])"
proof -
  let ?client = "api_client example_env first_match example_app example_base example_stream"
  have "path_segment ''system''" "path_segment ''admin''" by (simp_all add: path_segment_def)
  from client_calls_handled [OF example_api.laws example_api.app example_api.authorizer this, of example_base example_stream
    example_body None]
  have "list_all (handled example_env example_config always_allow example_base)
      (core_calls ?client example_body ''system'' ''admin'')" by simp
  then have "handled example_env example_config always_allow example_base
      (some_result (create_role_client ?client example_body), Api_Endpoints.create_role, ''POST'', [], Some example_body,
        class_fields role_class)"
    unfolding core_calls_def list.pred_inject by blast
  then have call: "some_result (create_role_client ?client example_body) [] =
      some_result (co_bind (answered example_base (served example_env example_config (create_role example_env always_allow))
        ''POST'' [] [] (Some example_body)) (\<lambda>v. co_lift (decode example_env (class_fields role_class) v))) []"
    by simp
  also have "\<dots> = Some (Inr (Some example_created), [Commit example_key Not_exists (Put_value example_created)])"
    by code_simp
  finally show ?thesis
    by (auto simp: some_result_def co_bind_def co_return_def split: option.splits sum.splits)
qed

end
