(* ===== verification/Api_Streams.thy ===== *)
theory Api_Streams
  imports Api_Composition
begin

text \<open>
  Watching from end to end: the lines that the API writes for the changes of the database, any
  heartbeats between them, and the events that the watcher of the client yields.
\<close>

section \<open>The lines of a stream\<close>

text \<open>
  The documents that a stream carries; \<open>None\<close> if it has a line that is not JSON or is broken by
  anything but the end of the connection.
\<close>

fun documents :: "stream_line list \<Rightarrow> yaml list option" where
  "documents [] = Some []"
| "documents (End_of_file # ls) = Some []"
| "documents (Heartbeat # ls) = documents ls"
| "documents (Not_json # ls) = None"
| "documents (Broken e # ls) = (if e = ClientPayloadError then Some [] else None)"
| "documents (Document v # ls) = map_option (Cons v) (documents ls)"

lemma watch_documents:
  assumes "documents ls = Some vs" and "list_all (\<lambda>v. read_event env fs v = Inr v) vs"
  shows "watch env fs ls = (vs, None)"
  using assms by (induction env fs ls arbitrary: vs rule: watch.induct) (auto split: if_splits)

section \<open>Events\<close>

lemma read_watch_object:
  assumes "schema_laws env" and "client_decode cl = decode env" and "c \<in> set api_classes"
    and "conforms (class_type c) v" and "event \<in> {''ADDED'', ''MODIFIED'', ''DELETED''}"
  shows "read_event cl (class_fields c) (watch_object event v) = Inr (watch_object event v)"
proof -
  have "is_obj v" using assms(4) by (cases v) (auto simp: conforms_object)
  moreover have "wf_yaml v" by (rule conforms_wf [OF api_classes_well_named [OF assms(3)] assms(4)])
  ultimately have "conforms (Serializable_type watch_event_fields) (watch_object event v)"
    using assms(5) by (auto simp: watch_event_fields_def watch_object_def required_enum_def plain_def)
  then have "client_decode cl watch_event_fields (watch_object event v) = Inr (watch_object event v)"
    using assms(1,2) by (simp add: schema_laws_def del: conforms.simps)
  moreover have "client_decode cl (class_fields c) v = Inr v"
    using assms(1,2,4) by (simp add: schema_laws_def del: conforms.simps)
  ultimately show ?thesis by (simp add: read_event_def) (simp add: watch_object_def)
qed

lemma read_line:
  assumes "reliable env store" and "client_decode cl = decode env" and "c \<in> set api_classes"
    and "all_well_stored (store n)" "all_well_stored (store (Suc n))"
    and "key_matches (class_key c) k" and "store (Suc n) k \<noteq> store n k"
  shows "read_event cl (class_fields c) (line_of store (n, k)) = Inr (line_of store (n, k))"
proof -
  have laws: "schema_laws env" using assms(1) by (simp add: reliable_def)
  have c: "conforms (class_type c) (kv_value x)" if "store m k = Some x" "m = n \<or> m = Suc n" for m x
  proof -
    have "all_well_stored (store m)" using assms(4,5) that(2) by auto
    with matches_belongs [OF assms(3,6)] assms(3) that(1) have "well_stored c k (kv_value x)"
      by (auto simp: all_well_stored_def list_all_iff)
    then show ?thesis by (simp add: well_stored_def)
  qed
  note read = read_watch_object [OF laws assms(2,3)]
  show ?thesis
    using assms(7) by (auto simp: line_of_def split: option.split intro!: read dest: c)
qed

text \<open>
  C17. The changes of a watched class, as the database has them, reach the client: the API writes
  one line for each change, \<open>ADDED\<close> with the new object if the key had no value before, \<open>MODIFIED\<close>
  with the new object if it had one, and \<open>DELETED\<close> with the last object if the key was removed;
  and the watcher yields from a stream of these lines, with heartbeats anywhere between them and
  however it ends, exactly these events in this order, and ends without an error.
\<close>

theorem watch_end_to_end:
  assumes "reliable env store" and "\<forall>n. all_well_stored (store n)" and "c \<in> set api_classes"
    and "\<forall>h k n. \<exists>xs. range_answer env (h @ [Range k (Some n)]) = Inr xs"
    and "list_all (\<lambda>(n, k). key_matches (class_key c) k \<and> store (Suc n) k \<noteq> store n k) es"
    and "client_decode cl = decode env"
  shows "\<exists>lines h'. watch_lines env c (map (event_of store) es) h = Some (Inr lines, h') \<and>
    lines = map (line_of store) es \<and>
    (\<forall>ls. documents ls = Some lines \<longrightarrow> watch cl (class_fields c) ls = (lines, None))"
proof -
  obtain h' where "watch_lines env c (map (event_of store) es) h = Some (Inr (map (line_of store) es), h')"
    using watch_lines_from [OF assms(1-5), of "[]" h] by (auto simp: watch_lines_def)
  moreover have "list_all (\<lambda>v. read_event cl (class_fields c) v = Inr v) (map (line_of store) es)"
    using assms(2,5) read_line [OF assms(1,6,3)] by (auto simp: list_all_iff)
  then have "\<forall>ls. documents ls = Some (map (line_of store) es) \<longrightarrow>
      watch cl (class_fields c) ls = (map (line_of store) es, None)"
    using watch_documents by blast
  ultimately show ?thesis by blast
qed

theorem watch_end_to_end_witness:
  "watch (api_client example_env first_match example_app example_base example_stream) (class_fields role_class)
     [Heartbeat, Document (watch_object ''ADDED'' example_created), Heartbeat,
      Document (watch_object ''MODIFIED'' example_marked), Broken ClientPayloadError] =
   ([watch_object ''ADDED'' example_created, watch_object ''MODIFIED'' example_marked], None)"
proof -
  have es: "list_all (\<lambda>(n, k). key_matches (class_key role_class) k \<and> example_store (Suc n) k \<noteq> example_store n k)
      [(0, example_key), (1, example_key)]"
    by code_simp
  have r: "\<forall>h k n. \<exists>xs. range_answer example_env (h @ [Range k (Some n)]) = Inr xs" by (simp add: example_env_def)
  have s: "\<forall>n. all_well_stored (example_store n)" using api_store_well_stored [OF example_api_store] by blast
  have d: "client_decode (api_client example_env first_match example_app example_base example_stream) = decode example_env"
    by (simp add: api_client_def)
  have lines: "map (line_of example_store) [(0, example_key), (1, example_key)] =
      [watch_object ''ADDED'' example_created, watch_object ''MODIFIED'' example_marked]"
    by (simp add: line_of_def example_store_def example_kv_def)
  from watch_end_to_end [OF example_reliable s example_class(1) r es d, of "[]"]
  have all: "\<forall>ls. documents ls = Some [watch_object ''ADDED'' example_created, watch_object ''MODIFIED'' example_marked] \<longrightarrow>
      watch (api_client example_env first_match example_app example_base example_stream) (class_fields role_class) ls =
        ([watch_object ''ADDED'' example_created, watch_object ''MODIFIED'' example_marked], None)"
    unfolding lines by blast
  show ?thesis by (rule all [rule_format]) simp
qed

end
