(* ===== verification/Sessions.thy ===== *)
theory Sessions
  imports Coroutine_Relations
begin

text \<open>
  A handler that works on one object, which it changes in place, and makes requests: the state is the
  object and the log of the requests, and an answer depends on all requests before it. What was
  logged is never forgotten, so a property of a log can speak about what came before a request.
\<close>

record ('c, 'r) session =
  handled_object :: 'c
  requests_made :: "'r list"

definition ask_session :: "('r list \<Rightarrow> (exn, 'a) res) \<Rightarrow> 'r \<Rightarrow> (('c, 'r) session, 'a) co" where
  "ask_session answer r s =
     (let h = requests_made s @ [r] in Some (answer h, s\<lparr>requests_made := h\<rparr>))"

definition the_object :: "(('c, 'r) session, 'c) co" where
  "the_object s = Some (Inr (handled_object s), s)"

definition change_object :: "('c \<Rightarrow> 'c) \<Rightarrow> (('c, 'r) session, unit) co" where
  "change_object f s = Some (Inr (), s\<lparr>handled_object := f (handled_object s)\<rparr>)"

text \<open>A value that the environment provides without a request, such as a random text.\<close>

definition given :: "('r list \<Rightarrow> 'a) \<Rightarrow> (('c, 'r) session, 'a) co" where
  "given f s = Some (Inr (f (requests_made s)), s)"

abbreviation fresh_session :: "'c \<Rightarrow> ('c, 'r) session" where
  "fresh_session c \<equiv> \<lparr>handled_object = c, requests_made = []\<rparr>"

lemma post_object [post_simps]: "post the_object s Q \<longleftrightarrow> Q (Inr (handled_object s)) s"
  by (simp add: post_def the_object_def)

lemma post_change [post_simps]: "post (change_object f) s Q \<longleftrightarrow> Q (Inr ()) (s\<lparr>handled_object := f (handled_object s)\<rparr>)"
  by (simp add: post_def change_object_def)

lemma post_given [post_simps]: "post (given f) s Q \<longleftrightarrow> Q (Inr (f (requests_made s))) s"
  by (simp add: post_def given_def)

lemma post_request [post_simps]:
  "post (ask_session answer r) s Q \<longleftrightarrow>
     Q (answer (requests_made s @ [r])) (s\<lparr>requests_made := requests_made s @ [r]\<rparr>)"
  by (simp add: post_def ask_session_def Let_def)

lemma total_session:
  "total (ask_session answer r)" "total the_object" "total (change_object f)" "total (given g)"
  by (simp_all add: total_def returns_def ask_session_def the_object_def change_object_def given_def Let_def)

lemmas session_total = total_intros total_session

section \<open>Requests that are added\<close>

definition adds :: "('r \<Rightarrow> bool) \<Rightarrow> ('c, 'r) session \<Rightarrow> ('c, 'r) session \<Rightarrow> bool" where
  "adds P s t \<longleftrightarrow> (\<exists>es. requests_made t = requests_made s @ es \<and> list_all P es)"

interpretation adds: state_relation "adds P" for P
  by unfold_locales (fastforce simp: adds_def)+

lemma adds_request: "P r \<Longrightarrow> keeps (adds P) (ask_session answer r)"
  by (rule keepsI) (simp add: post_request adds_def)

lemma adds_silent: "keeps (adds P) the_object" "keeps (adds P) (change_object f)" "keeps (adds P) (given g)"
  by (rule keepsI, simp add: post_object post_change post_given adds_def)+

lemmas adds_intros = adds.keeps_intros adds_request adds_silent

lemma adds_weaken: "keeps (adds P) m \<Longrightarrow> (\<And>r. P r \<Longrightarrow> Q r) \<Longrightarrow> keeps (adds Q) m"
  by (erule keeps_mono) (auto simp: adds_def list_all_iff)

section \<open>What comes before a request\<close>

text \<open>Every request of the kind \<open>P\<close> comes after a log that satisfies \<open>Q\<close>.\<close>

definition preceded :: "('r \<Rightarrow> bool) \<Rightarrow> ('r list \<Rightarrow> bool) \<Rightarrow> 'r list \<Rightarrow> bool" where
  "preceded P Q h \<longleftrightarrow> (\<forall>g q es. h = g @ q # es \<and> P q \<longrightarrow> Q g)"

lemma preceded_Nil [simp]: "preceded P Q []"
  by (simp add: preceded_def)

lemma preceded_none: "list_all (\<lambda>r. \<not> P r) h \<Longrightarrow> preceded P Q h"
  by (auto simp: preceded_def)

lemma preceded_append:
  assumes "preceded P Q h" and "\<And>us q fs. es = us @ q # fs \<Longrightarrow> P q \<Longrightarrow> Q (h @ us)"
  shows "preceded P Q (h @ es)"
  unfolding preceded_def
proof (intro allI impI, elim conjE)
  fix g q fs assume eq: "h @ es = g @ q # fs" and q: "P q"
  from eq consider us where "h = g @ us" "us @ es = q # fs" | us where "g = h @ us" "es = us @ q # fs"
    by (auto simp: append_eq_append_conv2)
  then show "Q g"
  proof cases
    case 1
    show ?thesis
    proof (cases us)
      case Nil
      with 1 have "es = [] @ q # fs" by simp
      from assms(2) [OF this q] 1 Nil show ?thesis by simp
    next
      case (Cons u vs)
      with 1 q assms(1) show ?thesis by (auto simp: preceded_def)
    qed
  next
    case 2
    from assms(2) [OF 2(2) q] 2(1) show ?thesis by simp
  qed
qed

lemma preceded_quiet: "preceded P Q h \<Longrightarrow> list_all (\<lambda>r. \<not> P r) es \<Longrightarrow> preceded P Q (h @ es)"
  by (rule preceded_append) auto

lemma preceded_after: "preceded P Q h \<Longrightarrow> (\<And>us. Q (h @ us)) \<Longrightarrow> preceded P Q (h @ es)"
  by (rule preceded_append)

lemma preceded_last: "preceded P Q h \<Longrightarrow> Q h \<Longrightarrow> preceded P Q (h @ [q])"
  by (rule preceded_append) (auto simp: Cons_eq_append_conv)

lemma preceded_adds:
  "keeps (adds (\<lambda>r. \<not> P r)) m \<Longrightarrow> preceded P Q (requests_made s) \<Longrightarrow>
    post m s (\<lambda>r t. preceded P Q (requests_made t))"
  by (drule keeps_post, erule post_mono) (auto simp: adds_def intro: preceded_quiet)

text \<open>A value with the property \<open>F\<close> was stored, and the request was answered without an error.\<close>

definition stored_before :: "('c \<Rightarrow> 'r) \<Rightarrow> ('r list \<Rightarrow> (exn, unit) res) \<Rightarrow> ('c \<Rightarrow> bool) \<Rightarrow> 'r list \<Rightarrow> bool" where
  "stored_before store answer F g \<longleftrightarrow>
     (\<exists>g1 x g2. g = g1 @ store x # g2 \<and> answer (g1 @ [store x]) = Inr () \<and> F x)"

lemma stored_before_append: "stored_before store answer F g \<Longrightarrow> stored_before store answer F (g @ es)"
  unfolding stored_before_def by fastforce

lemma stored_before_now: "answer (g @ [store x]) = Inr () \<Longrightarrow> F x \<Longrightarrow> stored_before store answer F (g @ [store x])"
  unfolding stored_before_def by blast

section \<open>The sequence of the stored states\<close>

text \<open>The values that the requests of a log store, and a path along a relation.\<close>

definition stored_values :: "('r \<Rightarrow> 'x option) \<Rightarrow> 'r list \<Rightarrow> 'x list" where
  "stored_values f h = List.map_filter f h"

lemma stored_values_simps [simp]:
  "stored_values f [] = []" "stored_values f (h @ h') = stored_values f h @ stored_values f h'"
  "stored_values f (r # h) = (case f r of None \<Rightarrow> stored_values f h | Some x \<Rightarrow> x # stored_values f h)"
  by (simp_all add: stored_values_def map_filter_def split: option.split)

fun path :: "('a \<Rightarrow> 'a \<Rightarrow> bool) \<Rightarrow> 'a list \<Rightarrow> bool" where
  "path R (x # y # xs) \<longleftrightarrow> R x y \<and> path R (y # xs)"
| "path R xs \<longleftrightarrow> True"

lemma path_snoc: "path R (x # xs @ [y]) \<longleftrightarrow> path R (x # xs) \<and> R (last (x # xs)) y"
  by (induction xs arbitrary: x) auto

end
