(* ===== verification/Magnum_Controller.thy ===== *)
theory Magnum_Controller
  imports Scheduler_Data Worker Sessions Manifest Texts
begin

text \<open>
  The controller that creates, resizes and deletes OpenStack Magnum clusters and registers them as
  Kubernetes clusters, \<open>krake/krake/controller/magnum.py\<close>. The API of Krake, Magnum and Keystone
  are environments: each answer depends on all requests before it. The Magnum cluster is an object
  that the handlers change in place, so it is part of the state and keeps its changes when a
  handler raises.
\<close>

section \<open>Data\<close>

record openstack_cluster = magnum_cluster +
  master_count :: "int option"
  node_count :: "int option"
  magnum_template :: "string option"
  magnum_id :: "string option"
  current_node_count :: "int option"
  api_address :: "string option"
  master_addresses :: "string list option"
  node_addresses :: "string list option"
  kube_reference :: "resource_ref option"

datatype openstack_credentials =
    Password string string string
  | Application_credential string string
  | Other_credentials string

record openstack_project = project +
  project_url :: string
  project_auth :: openstack_credentials

text \<open>What Magnum tells about a cluster.\<close>

record magnum_info =
  info_status :: string
  info_node_count :: "int option"
  info_api_address :: "string option"
  info_master_addresses :: "string list option"
  info_node_addresses :: "string list option"

text \<open>What the controller reads and sets of the Kubernetes cluster that it registers.\<close>

record kube_resource =
  kube_namespace :: "string option"
  kube_name :: string
  kube_owners :: "resource_ref list"
  kube_labels :: "(string, string) dict"
  kube_config :: yaml
  kube_metrics :: "metric_ref list"

datatype magnum_request =
    Update_cluster openstack_cluster
  | Update_status openstack_cluster
  | Read_magnum "string option" string
  | Read_project "string option" string
  | Connect openstack_credentials string
  | Read_kube "string option" string
  | Load_config yaml
  | List_nodes yaml
  | Create_kube kube_resource
  | Update_kube kube_resource
  | Magnum_template "string option"
  | Magnum_create "string option" string "int option" "int option"
  | Magnum_get "string option"
  | Magnum_resize "string option" "int option"
  | Magnum_delete "string option"
  | Magnum_ca "string option"
  | Magnum_certificate "string option" string
  | Wait int

type_synonym magnum_log = "magnum_request list"

record magnum_env =
  update_answer :: "magnum_log \<Rightarrow> (exn, unit) res"
  project_answer :: "magnum_log \<Rightarrow> (exn, openstack_project) res"
  kube_answer :: "magnum_log \<Rightarrow> (exn, kube_resource) res"
  host_answer :: "magnum_log \<Rightarrow> (exn, string option) res"
  text_answer :: "magnum_log \<Rightarrow> (exn, string) res"
  info_answer :: "magnum_log \<Rightarrow> (exn, magnum_info) res"
  random_text :: "magnum_log \<Rightarrow> string"
  new_csr :: "magnum_log \<Rightarrow> string \<times> string"
  poll_interval :: int

type_synonym magnum_session = "(openstack_cluster, magnum_request) session"

abbreviation magnum_finalizer :: string where "magnum_finalizer \<equiv> ''magnum_cluster_deletion''"

section \<open>Requests\<close>

definition store_cluster :: "magnum_env \<Rightarrow> (magnum_session, unit) co" where
  "store_cluster env = co_bind the_object (\<lambda>c. ask_session (update_answer env) (Update_cluster c))"

definition store_status :: "magnum_env \<Rightarrow> (magnum_session, unit) co" where
  "store_status env = co_bind the_object (\<lambda>c. ask_session (update_answer env) (Update_status c))"

definition set_magnum_state :: "magnum_env \<Rightarrow> magnum_state \<Rightarrow> (magnum_session, unit) co" where
  "set_magnum_state env m = co_then (change_object (\<lambda>c. c\<lparr>magnum_status := m\<rparr>)) (store_status env)"

text \<open>\<open>randstr\<close>; the random choice is part of the environment.\<close>

definition randstr :: "magnum_env \<Rightarrow> (magnum_session, string) co" where
  "randstr env = given (random_text env)"

text \<open>\<open>re.sub("[^A-Za-z0-9_.-]+", "_", raw_name)\<close>\<close>

definition accepted_char :: "char \<Rightarrow> bool" where
  "accepted_char c \<longleftrightarrow> is_upper c \<or> is_lower c \<or> is_digit c \<or> c \<in> set ''_.-''"

fun replace_runs :: "bool \<Rightarrow> string \<Rightarrow> string" where
  "replace_runs in_run [] = []"
| "replace_runs in_run (c # s) =
     (if accepted_char c then c # replace_runs False s
      else if in_run then replace_runs True s
      else CHR ''_'' # replace_runs True s)"

definition generate_magnum_cluster_name :: "openstack_cluster \<Rightarrow> string \<Rightarrow> string" where
  "generate_magnum_cluster_name c r =
     replace_runs False (text_of (namespace (metadata c)) @ ''-'' @ name (metadata c) @ ''-'' @ r)"

section \<open>The clients\<close>

definition make_keystone_session :: "openstack_project \<Rightarrow> (exn, openstack_credentials \<times> string) res" where
  "make_keystone_session p =
     (case project_auth p of
        Other_credentials t \<Rightarrow> Inl NotImplementedError
      | auth \<Rightarrow> Inr (auth, project_url p))"

text \<open>
  The client of Magnum raises a \<open>RuntimeError\<close> for every failure of the connection; one of Keystone
  is raised again.
\<close>

definition make_magnum_client :: "magnum_env \<Rightarrow> openstack_project \<Rightarrow> (magnum_session, unit) co" where
  "make_magnum_client env p =
     co_bind (co_lift (make_keystone_session p)) (\<lambda>(auth, url).
     ask_session (update_answer env) (Connect auth url))"

definition create_magnum_client :: "magnum_env \<Rightarrow> (magnum_session, unit) co" where
  "create_magnum_client env =
     co_bind the_object (\<lambda>c.
     case magnum_project c of
       None \<Rightarrow> co_raise AttributeError
     | Some r \<Rightarrow>
         co_bind (ask_session (project_answer env) (Read_project (ref_namespace r) (ref_name r))) (\<lambda>p.
         co_catch (make_magnum_client env p)
           (\<lambda>e. co_raise (if e = EndpointDiscoveryError then KeystoneError else e))))"

definition get_magnum :: "magnum_env \<Rightarrow> (magnum_session, magnum_info) co" where
  "get_magnum env = co_bind the_object (\<lambda>c. ask_session (info_answer env) (Magnum_get (magnum_id c)))"

definition create_magnum :: "magnum_env \<Rightarrow> (magnum_session, string) co" where
  "create_magnum env =
     co_bind the_object (\<lambda>c.
     co_bind (randstr env) (\<lambda>r.
     ask_session (text_answer env)
       (Magnum_create (magnum_template c) (generate_magnum_cluster_name c r) (master_count c) (node_count c))))"

definition resize_magnum :: "magnum_env \<Rightarrow> (magnum_session, unit) co" where
  "resize_magnum env =
     co_bind the_object (\<lambda>c. ask_session (update_answer env) (Magnum_resize (magnum_id c) (node_count c)))"

definition delete_magnum :: "magnum_env \<Rightarrow> (magnum_session, unit) co" where
  "delete_magnum env = co_bind the_object (\<lambda>c. ask_session (update_answer env) (Magnum_delete (magnum_id c)))"

definition get_template :: "magnum_env \<Rightarrow> (magnum_session, string) co" where
  "get_template env =
     co_bind the_object (\<lambda>c. ask_session (text_answer env) (Magnum_template (magnum_template c)))"

section \<open>The kubeconfig\<close>

definition kubeconfig_of :: "openstack_cluster \<Rightarrow> string \<Rightarrow> string \<Rightarrow> string \<Rightarrow> string \<Rightarrow> yaml" where
  "kubeconfig_of c n ca certificate key =
     Obj [(''kind'', Text ''Config''), (''apiVersion'', Text ''v1''),
       (''clusters'', Arr [Obj
         [(''cluster'', Obj [(''certificate-authority-data'', Text (encode_to_64 ca)),
            (''server'', case api_address c of None \<Rightarrow> Null | Some a \<Rightarrow> Text a)]),
          (''name'', Text n)]]),
       (''contexts'', Arr [Obj [(''context'', Obj [(''cluster'', Text n), (''user'', Text ''krake'')]), (''name'', Text ''admin'')]]),
       (''current-context'', Text ''admin''),
       (''preferences'', Obj []),
       (''users'', Arr [Obj
         [(''name'', Text ''krake''),
          (''user'', Obj [(''client-certificate-data'', Text (encode_to_64 certificate)),
             (''client-key-data'', Text (encode_to_64 key))])]])]"

definition make_csr :: "magnum_env \<Rightarrow> (magnum_session, string \<times> string) co" where
  "make_csr env = given (new_csr env)"

definition make_kubeconfig :: "magnum_env \<Rightarrow> (magnum_session, yaml) co" where
  "make_kubeconfig env =
     co_bind (make_csr env) (\<lambda>(key, csr).
     co_bind the_object (\<lambda>c.
     co_bind (ask_session (text_answer env) (Magnum_ca (magnum_id c))) (\<lambda>ca.
     co_bind (ask_session (text_answer env) (Magnum_certificate (magnum_id c) csr)) (\<lambda>certificate.
     case kube_reference c of
       None \<Rightarrow> co_raise AttributeError
     | Some r \<Rightarrow> co_return (kubeconfig_of c (ref_name r) ca certificate key)))))"

section \<open>The registered Kubernetes cluster\<close>

text \<open>Whether the cluster can be accessed with the kubeconfig that is registered.\<close>

definition accessible :: "magnum_env \<Rightarrow> kube_resource \<Rightarrow> (magnum_session, bool) co" where
  "accessible env kube =
     co_bind (ask_session (host_answer env) (Load_config (kube_config kube))) (\<lambda>host.
     co_bind the_object (\<lambda>c.
     if host = api_address c
     then
       co_catch (co_then (ask_session (update_answer env) (List_nodes (kube_config kube))) (co_return True))
         (\<lambda>e. case e of
            ClientError _ \<Rightarrow> co_return False
          | ClientResponseError _ \<Rightarrow> co_return False
          | ClientConnectorError \<Rightarrow> co_return False
          | ClientPayloadError \<Rightarrow> co_return False
          | _ \<Rightarrow> co_raise e)
     else co_return False))"

definition new_kube :: "openstack_cluster \<Rightarrow> resource_ref \<Rightarrow> yaml \<Rightarrow> kube_resource" where
  "new_kube c r config =
     \<lparr>kube_namespace = ref_namespace r, kube_name = ref_name r, kube_owners = [resource_ref c],
      kube_labels = labels (metadata c), kube_config = config, kube_metrics = magnum_metrics c\<rparr>"

definition register_kube :: "magnum_env \<Rightarrow> kube_resource option \<Rightarrow> (magnum_session, unit) co" where
  "register_kube env kube =
     co_bind (make_kubeconfig env) (\<lambda>config.
     co_bind the_object (\<lambda>c.
     case kube of
       Some k \<Rightarrow> ask_session (update_answer env) (Update_kube (k\<lparr>kube_config := config\<rparr>))
     | None \<Rightarrow>
         (case kube_reference c of
            None \<Rightarrow> co_raise AttributeError
          | Some r \<Rightarrow> ask_session (update_answer env) (Create_kube (new_kube c r config)))))"

definition set_text :: "string option \<Rightarrow> bool" where
  "set_text s \<longleftrightarrow> s \<noteq> None \<and> s \<noteq> Some []"

definition reconcile_kubernetes_resource :: "magnum_env \<Rightarrow> (magnum_session, unit) co" where
  "reconcile_kubernetes_resource env =
     co_bind the_object (\<lambda>c.
     if magnum_status c \<noteq> Magnum_RUNNING then co_return ()
     else
       case kube_reference c of
         None \<Rightarrow> co_raise AssertionError
       | Some r \<Rightarrow>
           if \<not> set_text (magnum_id c) \<or> \<not> set_text (magnum_template c) then co_raise AssertionError
           else
             co_bind
               (co_catch
                 (co_bind (ask_session (kube_answer env) (Read_kube (ref_namespace r) (ref_name r)))
                   (\<lambda>kube. co_return (Some kube)))
                 (\<lambda>e. if e = ClientResponseError 404 then co_return None else co_raise e)) (\<lambda>kube.
             co_bind (case kube of None \<Rightarrow> co_return False | Some k \<Rightarrow> accessible env k) (\<lambda>ok.
             if ok then co_return () else register_kube env kube)))"

section \<open>Actions\<close>

text \<open>Waiting until Magnum has finished; a cluster that is gone is pending again.\<close>

definition operation_failed :: "string \<Rightarrow> exn option" where
  "operation_failed status =
     (if status = ''CREATE_FAILED'' then Some CreateFailed
      else if status = ''UPDATE_FAILED'' then Some ReconcileFailed
      else if status = ''DELETE_FAILED'' then Some DeleteFailed
      else None)"

definition read_or_gone :: "magnum_env \<Rightarrow> (magnum_session, magnum_info option) co" where
  "read_or_gone env =
     co_catch (co_bind (get_magnum env) (\<lambda>info. co_return (Some info)))
       (\<lambda>e. if e = MagnumNotFound then co_return None else co_raise e)"

definition poll_running :: "magnum_env \<Rightarrow> (magnum_session, magnum_info option option) co" where
  "poll_running env =
     co_bind (read_or_gone env) (\<lambda>r.
     case r of
       None \<Rightarrow>
         co_then (change_object (\<lambda>c. c\<lparr>magnum_id := None\<rparr>))
           (co_then (set_magnum_state env Magnum_PENDING) (co_return (Some None)))
     | Some info \<Rightarrow>
         if info_status info \<in> {''CREATE_COMPLETE'', ''UPDATE_COMPLETE''} then co_return (Some (Some info))
         else
           (case operation_failed (info_status info) of
              Some e \<Rightarrow> co_raise e
            | None \<Rightarrow> co_then (ask_session (\<lambda>_. Inr ()) (Wait (poll_interval env))) (co_return None)))"

definition take_over :: "magnum_info \<Rightarrow> openstack_cluster \<Rightarrow> openstack_cluster" where
  "take_over info c =
     c\<lparr>current_node_count := info_node_count info, api_address := info_api_address info,
       master_addresses := info_master_addresses info, node_addresses := info_node_addresses info\<rparr>"

definition wait_for_running :: "magnum_env \<Rightarrow> (magnum_session, unit) co" where
  "wait_for_running env =
     co_bind (co_loop (poll_running env)) (\<lambda>r.
     case r of
       None \<Rightarrow> co_return ()
     | Some info \<Rightarrow> co_then (change_object (take_over info)) (set_magnum_state env Magnum_RUNNING))"

datatype magnum_action = On_pending | On_creating | On_running | On_reconciling

definition refer_to_kube :: "magnum_env \<Rightarrow> (magnum_session, unit) co" where
  "refer_to_kube env =
     co_bind the_object (\<lambda>c.
     if kube_reference c \<noteq> None then co_return ()
     else
       co_bind (randstr env) (\<lambda>r.
       change_object (\<lambda>c. c\<lparr>kube_reference := Some
         \<lparr>ref_api = ''kubernetes'', ref_namespace = namespace (metadata c), ref_kind = ''Cluster'',
           ref_name = name (metadata c) @ ''-'' @ r\<rparr>\<rparr>)))"

definition on_pending :: "magnum_env \<Rightarrow> (magnum_session, magnum_action option) co" where
  "on_pending env =
     co_then (change_object (\<lambda>c. c\<lparr>magnum_status := Magnum_CREATING\<rparr>))
       (co_then (refer_to_kube env)
         (co_then (store_status env)
           (co_bind (get_template env) (\<lambda>coe.
            if coe \<noteq> ''kubernetes'' then co_raise InvalidClusterTemplateType
            else
              co_bind (create_magnum env) (\<lambda>i.
              co_then (change_object (\<lambda>c. c\<lparr>magnum_id := Some i\<rparr>))
                (co_then (store_status env) (co_return (Some On_creating))))))))"

definition on_creating :: "magnum_env \<Rightarrow> (magnum_session, magnum_action option) co" where
  "on_creating env =
     co_then (wait_for_running env) (co_then (reconcile_kubernetes_resource env) (co_return None))"

definition on_running :: "magnum_env \<Rightarrow> (magnum_session, magnum_action option) co" where
  "on_running env =
     co_bind the_object (\<lambda>c.
     if node_count c \<noteq> None \<and> current_node_count c \<noteq> node_count c
     then
       co_then (set_magnum_state env Magnum_RECONCILING)
         (co_then (resize_magnum env) (co_return (Some On_reconciling)))
     else co_then (reconcile_kubernetes_resource env) (co_return None))"

definition on_reconciling :: "magnum_env \<Rightarrow> (magnum_session, magnum_action option) co" where
  "on_reconciling env =
     co_then (wait_for_running env) (co_then (reconcile_kubernetes_resource env) (co_return None))"

fun run_action :: "magnum_env \<Rightarrow> magnum_action \<Rightarrow> (magnum_session, magnum_action option) co" where
  "run_action env On_pending = on_pending env"
| "run_action env On_creating = on_creating env"
| "run_action env On_running = on_running env"
| "run_action env On_reconciling = on_reconciling env"

fun first_action :: "magnum_state \<Rightarrow> magnum_action option" where
  "first_action Magnum_PENDING = Some On_pending"
| "first_action Magnum_CREATING = Some On_creating"
| "first_action Magnum_RUNNING = Some On_running"
| "first_action Magnum_RECONCILING = Some On_reconciling"
| "first_action _ = None"

section \<open>Reconciliation and deletion\<close>

definition ensure_magnum_finalizer :: "magnum_env \<Rightarrow> (magnum_session, unit) co" where
  "ensure_magnum_finalizer env =
     co_bind the_object (\<lambda>c.
     if magnum_finalizer \<in> set (finalizers (metadata c)) then co_return ()
     else
       co_then (change_object (\<lambda>c. c\<lparr>metadata := (metadata c)\<lparr>finalizers := finalizers (metadata c) @ [magnum_finalizer]\<rparr>\<rparr>))
         (store_cluster env))"

definition reconcile_magnum_cluster :: "magnum_env \<Rightarrow> (magnum_session, unit) co" where
  "reconcile_magnum_cluster env =
     co_then (create_magnum_client env)
       (co_then (ensure_magnum_finalizer env)
         (co_bind the_object (\<lambda>c.
          case first_action (magnum_status c) of
            None \<Rightarrow> co_return ()
          | Some a \<Rightarrow> co_machine (run_action env) a)))"

definition poll_deleted :: "magnum_env \<Rightarrow> (magnum_session, unit option) co" where
  "poll_deleted env =
     co_bind (read_or_gone env) (\<lambda>r.
     case r of
       None \<Rightarrow> co_return (Some ())
     | Some info \<Rightarrow>
         if info_status info = ''DELETE_FAILED'' then co_raise DeleteFailed
         else co_then (ask_session (\<lambda>_. Inr ()) (Wait (poll_interval env))) (co_return None))"

definition delete_on_openstack :: "magnum_env \<Rightarrow> (magnum_session, unit) co" where
  "delete_on_openstack env =
     co_bind the_object (\<lambda>c.
     if magnum_project c = None \<or> magnum_status c = Magnum_PENDING then co_return ()
     else
       co_then (create_magnum_client env)
         (co_then
           (if magnum_status c = Magnum_DELETING then co_return ()
            else
              co_then
                (co_catch (delete_magnum env) (\<lambda>e. if e = MagnumNotFound then co_return () else co_raise e))
                (set_magnum_state env Magnum_DELETING))
           (co_loop (poll_deleted env))))"

definition drop_magnum_finalizer :: "magnum_env \<Rightarrow> (magnum_session, unit) co" where
  "drop_magnum_finalizer env =
     co_bind the_object (\<lambda>c.
     if magnum_finalizer \<notin> set (finalizers (metadata c)) then co_raise ValueError
     else
       co_then (change_object (\<lambda>c. c\<lparr>metadata := (metadata c)\<lparr>finalizers := remove1 magnum_finalizer (finalizers (metadata c))\<rparr>\<rparr>))
         (store_cluster env))"

definition remove_magnum_cluster :: "magnum_env \<Rightarrow> (magnum_session, unit) co" where
  "remove_magnum_cluster env =
     co_bind the_object (\<lambda>c.
     co_bind
       (co_catch
         (co_then (ask_session (update_answer env) (Read_magnum (namespace (metadata c)) (name (metadata c)))) (co_return True))
         (\<lambda>e. if e = ClientResponseError 404 then co_return False else co_raise e)) (\<lambda>exists.
     if exists then co_then (delete_on_openstack env) (drop_magnum_finalizer env) else co_return ()))"

section \<open>Workers\<close>

text \<open>The reason for a failed cluster; \<open>None\<close> for an exception that ends the worker.\<close>

fun magnum_failure :: "exn \<Rightarrow> reason_code option option" where
  "magnum_failure MagnumNotFound = Some (Some OPENSTACK_ERROR)"
| "magnum_failure MagnumError = Some (Some OPENSTACK_ERROR)"
| "magnum_failure KeystoneError = Some (Some OPENSTACK_ERROR)"
| "magnum_failure e = controller_error e"

definition process_magnum :: "magnum_env \<Rightarrow> (magnum_session, unit) co" where
  "process_magnum env =
     co_catch
       (co_bind the_object (\<lambda>c.
        if deleted (metadata c) \<noteq> None then remove_magnum_cluster env else reconcile_magnum_cluster env))
       (\<lambda>e. case magnum_failure e of
          None \<Rightarrow> co_raise e
        | Some code \<Rightarrow>
            co_then (change_object (\<lambda>c. c\<lparr>magnum_reason := code\<rparr>)) (set_magnum_state env Magnum_FAILED))"

type_synonym openstack_queue = "(string, openstack_cluster) work_queue"

text \<open>What the reflector puts into the queue.\<close>

definition enqueue_magnum :: "real \<Rightarrow> openstack_cluster \<Rightarrow> openstack_queue \<Rightarrow> openstack_queue" where
  "enqueue_magnum interval c q =
     (if deleted (metadata c) \<noteq> None
      then
        (if finalizers (metadata c) \<noteq> [] \<and> last (finalizers (metadata c)) = magnum_finalizer
         then
           (if magnum_status c = Magnum_FAILED then wq_put (uid (metadata c)) c (Some interval) q
            else wq_put (uid (metadata c)) c None q)
         else q)
      else if magnum_status c = Magnum_FAILED then q
      else if magnum_project c \<noteq> None then wq_put (uid (metadata c)) c None q
      else q)"

text \<open>
  One turn of a worker, as \<open>consume\<close> does it; the key is released however the processing ends.
\<close>

definition consume_magnum ::
  "magnum_env \<Rightarrow> magnum_log \<Rightarrow> openstack_queue \<Rightarrow>
     ((exn, ((exn, unit) res \<times> magnum_session) option) res \<times> openstack_queue) option" where
  "consume_magnum env h =
     worker_turn (\<lambda>c q. (process_magnum env \<lparr>handled_object = c, requests_made = h\<rparr>, q))"

interpretation magnum_consumer:
  queue_worker "\<lambda>c q. (process_magnum env \<lparr>handled_object = c, requests_made = h\<rparr>, q)" for env h
  by unfold_locales simp

end
