(* ===== verification/Magnum_Safety.thy ===== *)
theory Magnum_Safety
  imports Magnum_Controller
begin

text \<open>
  The properties of the Magnum controller: the states that it stores follow the transitions of a
  state machine, OpenStack is only asked to create something under the protection of the
  finalizer, the finalizer is removed last, and the machine ends when Magnum does.
\<close>

section \<open>Frames\<close>

fun stored_state :: "magnum_request \<Rightarrow> magnum_state option" where
  "stored_state (Update_status c) = Some (magnum_status c)"
| "stored_state _ = None"

abbreviation stored_states :: "magnum_log \<Rightarrow> magnum_state list" where
  "stored_states \<equiv> stored_values stored_state"

text \<open>The state of the cluster, and what was stored of it.\<close>

definition status_view :: "magnum_session \<Rightarrow> magnum_state list \<times> magnum_state" where
  "status_view s = (stored_states (requests_made s), magnum_status (handled_object s))"

abbreviation calm :: "(magnum_session, 'a) co \<Rightarrow> bool" where
  "calm \<equiv> keeps (\<lambda>s t. status_view t = status_view s)"

lemma calm_ask: "stored_state r = None \<Longrightarrow> calm (ask_session answer r)"
  by (rule keepsI) (simp add: post_request status_view_def)

lemma calm_object: "calm the_object" "calm (given g)" "(\<And>c. magnum_status (f c) = magnum_status c) \<Longrightarrow> calm (change_object f)"
  by (rule keepsI, simp add: post_object post_change post_given status_view_def)+

lemmas calm_intros = unchanged.keeps_intros calm_ask calm_object

lemma calm_client: "calm (create_magnum_client env)"
  unfolding create_magnum_client_def make_magnum_client_def
  by (auto intro!: calm_intros split: option.split)

lemma calm_store: "calm (store_cluster env)"
  unfolding store_cluster_def by (auto intro!: calm_intros)

lemma calm_poll: "calm (read_or_gone env)"
  unfolding read_or_gone_def get_magnum_def by (auto intro!: calm_intros)

lemma calm_reference: "calm (refer_to_kube env)"
  unfolding refer_to_kube_def randstr_def by (auto intro!: calm_intros)

lemma calm_kube: "calm (reconcile_kubernetes_resource env)"
  unfolding reconcile_kubernetes_resource_def accessible_def register_kube_def make_kubeconfig_def make_csr_def
  by (auto intro!: calm_intros split: option.split exn.split)

section \<open>Transitions\<close>

text \<open>The transitions of a cluster, and those of one in deletion.\<close>

fun transition :: "bool \<Rightarrow> magnum_state \<Rightarrow> magnum_state \<Rightarrow> bool" where
  "transition in_deletion m Magnum_FAILED \<longleftrightarrow> True"
| "transition True m n \<longleftrightarrow> n = Magnum_DELETING \<and> m \<noteq> Magnum_PENDING"
| "transition False Magnum_PENDING n \<longleftrightarrow> n = Magnum_CREATING"
| "transition False Magnum_CREATING n \<longleftrightarrow> n \<in> {Magnum_CREATING, Magnum_RUNNING, Magnum_PENDING}"
| "transition False Magnum_RUNNING n \<longleftrightarrow> n = Magnum_RECONCILING"
| "transition False Magnum_RECONCILING n \<longleftrightarrow> n \<in> {Magnum_RUNNING, Magnum_PENDING}"
| "transition False m n \<longleftrightarrow> False"

definition on_path :: "bool \<Rightarrow> magnum_state \<Rightarrow> magnum_session \<Rightarrow> bool" where
  "on_path d m s \<longleftrightarrow>
     path (transition d) (m # stored_states (requests_made s)) \<and>
     last (m # stored_states (requests_made s)) = magnum_status (handled_object s)"

lemma calm_path:
  assumes "calm m" and "on_path d c s" and "magnum_status (handled_object s) = n"
  shows "post m s (\<lambda>r t. on_path d c t \<and> magnum_status (handled_object t) = n)"
proof -
  from assms(1) have "post m s (\<lambda>r t. status_view t = status_view s)" by (rule keeps_post)
  then show ?thesis by (rule post_mono) (use assms(2,3) in \<open>auto simp: on_path_def status_view_def\<close>)
qed

lemma path_store_status:
  assumes "path (transition d) (c # stored_states (requests_made s))"
    and "transition d (last (c # stored_states (requests_made s))) (magnum_status (handled_object s))"
    and "magnum_status (handled_object s) = n"
  shows "post (store_status env) s (\<lambda>r t. on_path d c t \<and> magnum_status (handled_object t) = n)"
  using assms path_snoc [of "transition d" c "stored_states (requests_made s)" n]
    last_snoc [of "c # stored_states (requests_made s)" n]
  by (simp add: store_status_def co_bind_def the_object_def ask_session_def post_def on_path_def Let_def del: last.simps path.simps)

lemma path_set_state:
  assumes "on_path d c s" and "transition d (magnum_status (handled_object s)) n"
  shows "post (set_magnum_state env n) s (\<lambda>r t. on_path d c t \<and> magnum_status (handled_object t) = n)"
proof -
  have "post (change_object (\<lambda>c. c\<lparr>magnum_status := n\<rparr>)) s
      (\<lambda>r t. r = Inr () \<and> t = s\<lparr>handled_object := (handled_object s)\<lparr>magnum_status := n\<rparr>\<rparr>)"
    by (simp add: change_object_def post_def)
  then show ?thesis
    unfolding set_magnum_state_def
  proof (rule post_thenI)
    fix t :: magnum_session
    assume "Inr () = Inr () \<and> t = s\<lparr>handled_object := (handled_object s)\<lparr>magnum_status := n\<rparr>\<rparr>"
    with assms show "post (store_status env) t (\<lambda>r t. on_path d c t \<and> magnum_status (handled_object t) = n)"
      by (intro path_store_status) (simp_all add: on_path_def del: last.simps path.simps)
  qed simp
qed

text \<open>A rule for sequences: what the parts keep or reach.\<close>

lemma path_wait:
  assumes "on_path False c s" and "magnum_status (handled_object s) \<in> {Magnum_CREATING, Magnum_RECONCILING}"
  shows "post (wait_for_running env) s (\<lambda>r t. on_path False c t \<and>
    (case r of Inl e \<Rightarrow> True | Inr _ \<Rightarrow> magnum_status (handled_object t) \<in> {Magnum_RUNNING, Magnum_PENDING}))"
proof -
  obtain n where n: "magnum_status (handled_object s) = n" "n \<in> {Magnum_CREATING, Magnum_RECONCILING}"
    using assms(2) by blast
  let ?I = "\<lambda>s. on_path False c s \<and> magnum_status (handled_object s) = n"
  let ?Q = "\<lambda>r t. on_path False c t \<and> (case r of Inl e \<Rightarrow> True | Inr None \<Rightarrow> magnum_status (handled_object t) = Magnum_PENDING
    | Inr (Some i) \<Rightarrow> magnum_status (handled_object t) = n)"
  have pending: "post (co_then (set_magnum_state env Magnum_PENDING) (co_return (Some None))) t
      (\<lambda>r u. on_path False c u \<and> magnum_status (handled_object u) = Magnum_PENDING \<and> (case r of Inl e \<Rightarrow> True | Inr x \<Rightarrow> x = Some None))"
    if "?I t" for t
    using that n(2) by (intro post_thenI [OF path_set_state]) (auto simp: post_return)
  have round: "post (poll_running env) t (\<lambda>r u. case r of Inl e \<Rightarrow> ?Q (Inl e) u | Inr None \<Rightarrow> ?I u | Inr (Some x) \<Rightarrow> ?Q (Inr x) u)"
    if I: "?I t" for t
    unfolding poll_running_def
  proof (rule post_bindI [OF calm_path [OF calm_poll]])
    show "on_path False c t" "magnum_status (handled_object t) = n" using I by simp_all
  next
    fix x :: "magnum_info option" and u assume I': "?I u"
    show "post (case x of
         None \<Rightarrow> co_then (change_object (\<lambda>c. c\<lparr>magnum_id := None\<rparr>))
           (co_then (set_magnum_state env Magnum_PENDING) (co_return (Some None)))
       | Some info \<Rightarrow>
           if info_status info \<in> {''CREATE_COMPLETE'', ''UPDATE_COMPLETE''} then co_return (Some (Some info))
           else (case operation_failed (info_status info) of
                Some e \<Rightarrow> co_raise e
              | None \<Rightarrow> co_then (ask_session (\<lambda>_. Inr ()) (Wait (poll_interval env))) (co_return None))) u
       (\<lambda>r u. case r of Inl e \<Rightarrow> ?Q (Inl e) u | Inr None \<Rightarrow> ?I u | Inr (Some x) \<Rightarrow> ?Q (Inr x) u)"
    proof (cases x)
      case None
      have "post (change_object (\<lambda>c. c\<lparr>magnum_id := None\<rparr>)) u (\<lambda>r t. ?I t)"
        by (rule calm_path) (use I' in \<open>auto intro!: calm_intros\<close>)
      then show ?thesis
        unfolding None option.case
        by (rule post_thenI) (auto intro!: post_mono [OF pending] split: sum.split)
    next
      case (Some info)
      have "post (ask_session (\<lambda>_. Inr ()) (Wait (poll_interval env))) u (\<lambda>r t. ?I t)"
        by (rule calm_path) (use I' in \<open>auto intro!: calm_intros\<close>)
      then have "post (co_then (ask_session (\<lambda>_. Inr ()) (Wait (poll_interval env))) (co_return None)) u
          (\<lambda>r u. case r of Inl e \<Rightarrow> ?Q (Inl e) u | Inr None \<Rightarrow> ?I u | Inr (Some x) \<Rightarrow> ?Q (Inr x) u)"
        by (rule post_thenI) (auto simp: post_return)
      with I' show ?thesis unfolding Some option.case by (auto simp: post_return post_raise split: option.split)
    qed
  qed auto
  have "post (co_loop (poll_running env)) s ?Q"
    by (rule post_loop [where I = ?I, OF _ round]) (use assms n in auto)
  then show ?thesis
    unfolding wait_for_running_def
  proof (rule post_bindI)
    fix x :: "magnum_info option" and t assume q: "?Q (Inr x) t"
    show "post (case x of None \<Rightarrow> co_return () | Some info \<Rightarrow> co_then (change_object (take_over info)) (set_magnum_state env Magnum_RUNNING)) t
       (\<lambda>r t. on_path False c t \<and> (case r of Inl e \<Rightarrow> True | Inr _ \<Rightarrow> magnum_status (handled_object t) \<in> {Magnum_RUNNING, Magnum_PENDING}))"
    proof (cases x)
      case None
      with q show ?thesis by (simp add: post_return)
    next
      case (Some info)
      have "post (change_object (take_over info)) t (\<lambda>r t. ?I t)"
        by (rule calm_path) (use q Some in \<open>auto intro!: calm_intros simp: take_over_def\<close>)
      then show ?thesis
        unfolding Some option.case
        by (rule post_thenI) (use n(2) in \<open>auto intro!: post_mono [OF path_set_state] split: sum.split\<close>)
    qed
  qed auto
qed

lemma reference_returns: "post (refer_to_kube env) s (\<lambda>r t. r = Inr () \<and> status_view t = status_view s)"
  by (simp add: refer_to_kube_def co_bind_def the_object_def co_return_def randstr_def given_def change_object_def post_def
      status_view_def)

lemma path_pending:
  assumes "on_path False c s" and "magnum_status (handled_object s) = Magnum_PENDING"
  shows "post (on_pending env) s (\<lambda>r t. on_path False c t \<and>
    (case r of Inl e \<Rightarrow> True | Inr a \<Rightarrow> a = Some On_creating \<and> magnum_status (handled_object t) = Magnum_CREATING))"
    (is "post _ s ?Q")
proof -
  let ?I = "\<lambda>t. on_path False c t \<and> magnum_status (handled_object t) = Magnum_CREATING"
  let ?J = "\<lambda>t. path (transition False) (c # stored_states (requests_made t)) \<and>
    last (c # stored_states (requests_made t)) = Magnum_PENDING \<and> magnum_status (handled_object t) = Magnum_CREATING"
  have create: "post (co_bind (create_magnum env) (\<lambda>i. co_then (change_object (\<lambda>c. c\<lparr>magnum_id := Some i\<rparr>))
      (co_then (store_status env) (co_return (Some On_creating))))) t ?Q" if "?I t" for t
  proof (rule post_bindI)
    show "post (create_magnum env) t (\<lambda>r t. ?I t)"
      by (rule calm_path) (use that in \<open>auto simp: create_magnum_def randstr_def intro!: calm_intros\<close>)
  next
    fix i u assume u: "?I u"
    have "post (change_object (\<lambda>c. c\<lparr>magnum_id := Some i\<rparr>)) u (\<lambda>r t. ?I t)"
      by (rule calm_path) (use u in \<open>auto intro!: calm_intros\<close>)
    then show "post (co_then (change_object (\<lambda>c. c\<lparr>magnum_id := Some i\<rparr>))
      (co_then (store_status env) (co_return (Some On_creating)))) u ?Q"
    proof (rule post_thenI)
      fix v assume v: "?I v"
      then have "post (store_status env) v (\<lambda>r t. ?I t)"
        by (intro path_store_status) (auto simp: on_path_def simp del: last.simps)
      then show "post (co_then (store_status env) (co_return (Some On_creating))) v ?Q"
        by (rule post_thenI) (auto simp: post_return)
    qed auto
  qed auto
  have template: "post (co_bind (get_template env) (\<lambda>coe. if coe \<noteq> ''kubernetes'' then co_raise InvalidClusterTemplateType
      else co_bind (create_magnum env) (\<lambda>i. co_then (change_object (\<lambda>c. c\<lparr>magnum_id := Some i\<rparr>))
        (co_then (store_status env) (co_return (Some On_creating)))))) t ?Q" if "?I t" for t
  proof (rule post_bindI)
    show "post (get_template env) t (\<lambda>r t. ?I t)"
      by (rule calm_path) (use that in \<open>auto simp: get_template_def intro!: calm_intros\<close>)
  qed (auto simp: post_raise create)
  have rest: "post (co_then (store_status env) (co_bind (get_template env) (\<lambda>coe. if coe \<noteq> ''kubernetes'' then co_raise InvalidClusterTemplateType
      else co_bind (create_magnum env) (\<lambda>i. co_then (change_object (\<lambda>c. c\<lparr>magnum_id := Some i\<rparr>))
        (co_then (store_status env) (co_return (Some On_creating))))))) t ?Q" if "?J t" for t
  proof (rule post_thenI)
    show "post (store_status env) t (\<lambda>r t. ?I t)"
      by (rule path_store_status) (use that in simp_all)
  qed (auto simp: template)
  show ?thesis
    unfolding on_pending_def
  proof (rule post_thenI)
    show "post (change_object (\<lambda>c. c\<lparr>magnum_status := Magnum_CREATING\<rparr>)) s (\<lambda>r t. r = Inr () \<and> ?J t)"
      using assms by (simp add: change_object_def post_def on_path_def del: last.simps)
  next
    fix t :: magnum_session assume t: "Inr () = Inr () \<and> ?J t"
    from reference_returns show "post (co_then (refer_to_kube env) (co_then (store_status env)
        (co_bind (get_template env) (\<lambda>coe. if coe \<noteq> ''kubernetes'' then co_raise InvalidClusterTemplateType
        else co_bind (create_magnum env) (\<lambda>i. co_then (change_object (\<lambda>c. c\<lparr>magnum_id := Some i\<rparr>))
        (co_then (store_status env) (co_return (Some On_creating)))))))) t ?Q"
      by (rule post_thenI) (use t in \<open>auto simp: status_view_def intro!: rest\<close>)
  qed simp
qed

lemma path_kube:
  assumes "on_path False c s" and "magnum_status (handled_object s) \<in> {Magnum_RUNNING, Magnum_PENDING}"
  shows "post (co_then (reconcile_kubernetes_resource env) (co_return None)) s (\<lambda>r t. on_path False c t \<and>
    (case r of Inl e \<Rightarrow> True | Inr a \<Rightarrow> a = None \<and> magnum_status (handled_object t) \<in> {Magnum_RUNNING, Magnum_PENDING}))"
  by (rule post_thenI [OF calm_path [OF calm_kube assms(1) refl]]) (use assms(2) in \<open>auto simp: post_return\<close>)

lemma path_waiting:
  assumes "on_path False c s" and "magnum_status (handled_object s) \<in> {Magnum_CREATING, Magnum_RECONCILING}"
  shows "post (co_then (wait_for_running env) (co_then (reconcile_kubernetes_resource env) (co_return None))) s
    (\<lambda>r t. on_path False c t \<and>
      (case r of Inl e \<Rightarrow> True | Inr a \<Rightarrow> a = None \<and> magnum_status (handled_object t) \<in> {Magnum_RUNNING, Magnum_PENDING}))"
  by (rule post_thenI [OF path_wait [OF assms]]) (auto intro!: path_kube)

lemma path_machine:
  assumes "on_path False c s" and "first_action (magnum_status (handled_object s)) = Some a"
  shows "post (co_machine (run_action env) a) s (\<lambda>r t. on_path False c t \<and>
    (case r of Inl e \<Rightarrow> True | Inr _ \<Rightarrow> magnum_status (handled_object t) \<in> {Magnum_RUNNING, Magnum_PENDING}))"
    (is "post _ s ?Q")
proof -
  have waiting: "post (co_machine (run_action env) b) t ?Q"
    if "b \<in> {On_creating, On_reconciling}" and "on_path False c t"
      and "magnum_status (handled_object t) \<in> {Magnum_CREATING, Magnum_RECONCILING}" for b t
  proof -
    have "run_action env b = co_then (wait_for_running env) (co_then (reconcile_kubernetes_resource env) (co_return None))"
      using that(1) by (auto simp: on_creating_def on_reconciling_def)
    then show ?thesis
      unfolding machine_step [of "run_action env" b]
      by simp (rule post_bindI [OF path_waiting [OF that(2,3)]], auto simp: post_return)
  qed
  show ?thesis
  proof (cases "magnum_status (handled_object s)")
    case Magnum_PENDING
    with assms(2) have "a = On_pending" by simp
    then show ?thesis
      unfolding machine_step [of "run_action env" a]
      by simp (rule post_bindI [OF path_pending [OF assms(1) Magnum_PENDING]], auto intro!: waiting)
  next
    case Magnum_RUNNING
    let ?c = "handled_object s"
    have resize: "post (co_then (set_magnum_state env Magnum_RECONCILING) (co_then (resize_magnum env) (co_return (Some On_reconciling)))) s
        (\<lambda>r t. on_path False c t \<and> (case r of Inl e \<Rightarrow> True | Inr a \<Rightarrow> a = Some On_reconciling \<and> magnum_status (handled_object t) = Magnum_RECONCILING))"
    proof (rule post_thenI [OF path_set_state])
      show "on_path False c s" by (rule assms(1))
      show "transition False (magnum_status (handled_object s)) Magnum_RECONCILING" using Magnum_RUNNING by simp
      fix t assume t: "on_path False c t \<and> magnum_status (handled_object t) = Magnum_RECONCILING"
      have "post (resize_magnum env) t (\<lambda>r t. on_path False c t \<and> magnum_status (handled_object t) = Magnum_RECONCILING)"
        by (rule calm_path) (use t in \<open>auto simp: resize_magnum_def intro!: calm_intros\<close>)
      then show "post (co_then (resize_magnum env) (co_return (Some On_reconciling))) t
        (\<lambda>r t. on_path False c t \<and> (case r of Inl e \<Rightarrow> True | Inr a \<Rightarrow> a = Some On_reconciling \<and> magnum_status (handled_object t) = Magnum_RECONCILING))"
        by (rule post_thenI) (auto simp: post_return)
    qed auto
    have "post (on_running env) s (\<lambda>r t. on_path False c t \<and> (case r of Inl e \<Rightarrow> True
        | Inr (Some b) \<Rightarrow> b = On_reconciling \<and> magnum_status (handled_object t) = Magnum_RECONCILING
        | Inr None \<Rightarrow> magnum_status (handled_object t) \<in> {Magnum_RUNNING, Magnum_PENDING}))"
      unfolding on_running_def
      by (rule post_bindI [where P = "\<lambda>r t. r = Inr ?c \<and> t = s"])
        (use assms(1) Magnum_RUNNING in \<open>auto simp: the_object_def post_def [of the_object]
          intro!: post_mono [OF resize] post_mono [OF path_kube] split: sum.splits\<close>)
    moreover from Magnum_RUNNING assms(2) have "a = On_running" by simp
    ultimately show ?thesis
      unfolding machine_step [of "run_action env" a]
      by simp (erule post_bindI, auto simp: post_return intro!: waiting split: option.splits)
  qed (use assms waiting in auto)
qed

lemma path_set_only:
  "on_path d c s \<Longrightarrow> transition d (magnum_status (handled_object s)) n \<Longrightarrow>
    post (set_magnum_state env n) s (\<lambda>r t. on_path d c t)"
  by (rule post_mono [OF path_set_state]) auto

lemma calm_only: "calm m \<Longrightarrow> on_path d c s \<Longrightarrow> post m s (\<lambda>r t. on_path d c t)"
  by (rule post_mono [OF calm_path [OF _ _ refl]]) auto

lemma transition_deleting: "m \<noteq> Magnum_PENDING \<Longrightarrow> transition True m Magnum_DELETING"
  by (cases m) auto

lemma transition_failed: "transition d m Magnum_FAILED"
  by simp

lemma path_reconcile:
  assumes "on_path False c s"
  shows "post (reconcile_magnum_cluster env) s (\<lambda>r t. on_path False c t)"
  unfolding reconcile_magnum_cluster_def
proof (rule post_thenI [OF calm_path [OF calm_client assms refl]])
  fix t assume t: "on_path False c t \<and> magnum_status (handled_object t) = magnum_status (handled_object s)"
  have "calm (ensure_magnum_finalizer env)"
    unfolding ensure_magnum_finalizer_def by (auto intro!: calm_intros calm_store)
  from calm_only [OF this] t have "post (ensure_magnum_finalizer env) t (\<lambda>r u. on_path False c u)" by blast
  then show "post (co_then (ensure_magnum_finalizer env) (co_bind the_object (\<lambda>c.
       case first_action (magnum_status c) of None \<Rightarrow> co_return () | Some a \<Rightarrow> co_machine (run_action env) a))) t
     (\<lambda>r u. on_path False c u)"
  proof (rule post_thenI)
    fix u assume u: "on_path False c u"
    show "post (co_bind the_object (\<lambda>c. case first_action (magnum_status c) of None \<Rightarrow> co_return ()
        | Some a \<Rightarrow> co_machine (run_action env) a)) u (\<lambda>r u. on_path False c u)"
      by (rule post_bindI [where P = "\<lambda>r t. r = Inr (handled_object u) \<and> t = u"])
        (use u in \<open>auto simp: the_object_def post_def [of the_object] post_return split: option.split
          intro: post_mono [OF path_machine]\<close>)
  qed
qed simp

lemma calm_deletion_loop: "calm (co_loop (poll_deleted env))"
  unfolding poll_deleted_def
  by (auto intro!: calm_intros calm_poll split: option.split)

lemma path_delete:
  assumes "on_path True c s"
  shows "post (remove_magnum_cluster env) s (\<lambda>r t. on_path True c t)"
proof -
  have then_calm: "post (co_then m n) t (\<lambda>r u. on_path True c u)"
    if "post m t (\<lambda>r u. on_path True c u)" and "calm n" for m :: "(magnum_session, unit) co" and n :: "(magnum_session, unit) co" and t
    using that(1) by (rule post_thenI) (auto intro: calm_only that(2))
  have mark: "post (co_then (co_catch (delete_magnum env) (\<lambda>e. if e = MagnumNotFound then co_return () else co_raise e))
      (set_magnum_state env Magnum_DELETING)) t (\<lambda>r u. on_path True c u)"
    if t: "on_path True c t" "magnum_status (handled_object t) \<noteq> Magnum_PENDING" for t
  proof -
    have "calm (co_catch (delete_magnum env) (\<lambda>e. if e = MagnumNotFound then co_return () else co_raise e))"
      unfolding delete_magnum_def by (auto intro!: calm_intros)
    from calm_path [OF this t(1) refl] show ?thesis
      by (rule post_thenI) (use t(2) in \<open>auto intro!: path_set_only transition_deleting\<close>)
  qed
  have openstack: "post (delete_on_openstack env) t (\<lambda>r u. on_path True c u)" if t: "on_path True c t" for t
    unfolding delete_on_openstack_def
  proof (rule post_bindI [where P = "\<lambda>r u. r = Inr (handled_object t) \<and> u = t"])
    fix x u assume u: "Inr x = Inr (handled_object t) \<and> u = t"
    have "post (co_then (create_magnum_client env) (co_then
        (if magnum_status x = Magnum_DELETING then co_return ()
         else co_then (co_catch (delete_magnum env) (\<lambda>e. if e = MagnumNotFound then co_return () else co_raise e))
           (set_magnum_state env Magnum_DELETING)) (co_loop (poll_deleted env)))) t (\<lambda>r u. on_path True c u)"
      if "magnum_status x \<noteq> Magnum_PENDING"
      by (rule post_thenI [OF calm_path [OF calm_client t refl]])
        (use u that in \<open>auto simp: post_return intro!: then_calm calm_deletion_loop mark\<close>)
    with u t show "post (if magnum_project x = None \<or> magnum_status x = Magnum_PENDING then co_return ()
      else co_then (create_magnum_client env) (co_then
        (if magnum_status x = Magnum_DELETING then co_return ()
         else co_then (co_catch (delete_magnum env) (\<lambda>e. if e = MagnumNotFound then co_return () else co_raise e))
           (set_magnum_state env Magnum_DELETING)) (co_loop (poll_deleted env)))) u (\<lambda>r u. on_path True c u)"
      by (simp add: post_return)
  qed (use t in \<open>auto simp: the_object_def post_def\<close>)
  have drop: "calm (drop_magnum_finalizer env)"
    unfolding drop_magnum_finalizer_def by (auto intro!: calm_intros calm_store)
  have exists: "calm (co_bind the_object (\<lambda>c. co_catch
      (co_then (ask_session (update_answer env) (Read_magnum (namespace (metadata c)) (name (metadata c)))) (co_return True))
      (\<lambda>e. if e = ClientResponseError 404 then co_return False else co_raise e)))"
    by (auto intro!: calm_intros)
  have same: "remove_magnum_cluster env = co_bind (co_bind the_object (\<lambda>c. co_catch
      (co_then (ask_session (update_answer env) (Read_magnum (namespace (metadata c)) (name (metadata c)))) (co_return True))
      (\<lambda>e. if e = ClientResponseError 404 then co_return False else co_raise e))) (\<lambda>exists.
        if exists then co_then (delete_on_openstack env) (drop_magnum_finalizer env) else co_return ())"
    by (rule ext) (simp add: remove_magnum_cluster_def co_bind_def the_object_def)
  show ?thesis
    unfolding same
    by (rule post_bindI [OF calm_path [OF exists assms refl]])
      (auto simp: post_return intro!: then_calm openstack drop)
qed

lemma path_process:
  assumes "on_path d c s" and "d \<longleftrightarrow> deleted (metadata (handled_object s)) \<noteq> None"
  shows "post (process_magnum env) s (\<lambda>r t. on_path d c t)"
  unfolding process_magnum_def post_catch
proof (rule post_mono)
  show "post (co_bind the_object (\<lambda>c. if deleted (metadata c) \<noteq> None then remove_magnum_cluster env
      else reconcile_magnum_cluster env)) s (\<lambda>r t. on_path d c t)"
    by (rule post_bindI [where P = "\<lambda>r t. r = Inr (handled_object s) \<and> t = s"])
      (use assms path_delete path_reconcile in \<open>auto simp: the_object_def post_def [of the_object]\<close>)
next
  fix r :: "(exn, unit) res" and t assume t: "on_path d c t"
  have fail: "post (co_then (change_object (\<lambda>c. c\<lparr>magnum_reason := code\<rparr>)) (set_magnum_state env Magnum_FAILED)) t
      (\<lambda>r t. on_path d c t)" for code
  proof -
    have "post (change_object (\<lambda>c. c\<lparr>magnum_reason := code\<rparr>)) t (\<lambda>r u. on_path d c u)"
      by (rule calm_only [OF _ t]) (auto intro!: calm_intros)
    then show ?thesis
      by (rule post_thenI) (auto intro: path_set_only transition_failed)
  qed
  show "case r of Inl e \<Rightarrow> post (case magnum_failure e of None \<Rightarrow> co_raise e
        | Some code \<Rightarrow> co_then (change_object (\<lambda>c. c\<lparr>magnum_reason := code\<rparr>)) (set_magnum_state env Magnum_FAILED)) t
        (\<lambda>r t. on_path d c t) | Inr x \<Rightarrow> on_path d c t"
    using t by (auto simp: post_raise fail split: sum.split option.split)
qed

text \<open>
  C22. However Magnum and the API answer, the states that a worker stores for a Magnum cluster follow
  the transitions of the state machine, starting with the state that the cluster had: a pending
  cluster is created, a creating or reconciling one becomes running or, if OpenStack does not
  have it any more, pending again, a running one is only reconciled, one in deletion is marked as
  deleting unless it is pending, and every state can fail; and the state of the object is the
  last one that was stored.
\<close>

theorem magnum_state_machine:
  assumes "process_magnum env (fresh_session c) = Some (r, s)"
  shows "path (transition (deleted (metadata c) \<noteq> None)) (magnum_status c # stored_states (requests_made s)) \<and>
    last (magnum_status c # stored_states (requests_made s)) = magnum_status (handled_object s)"
proof -
  have "on_path (deleted (metadata c) \<noteq> None) (magnum_status c) (fresh_session c)"
    by (simp add: on_path_def)
  from postD [OF path_process [OF this] assms] show ?thesis by (simp add: on_path_def del: last.simps path.simps)
qed

section \<open>Kinds of requests\<close>

text \<open>The requests that make something in OpenStack, or register a cluster that it has made.\<close>

fun creating :: "magnum_request \<Rightarrow> bool" where
  "creating (Magnum_create t n m k) \<longleftrightarrow> True"
| "creating (Magnum_resize i n) \<longleftrightarrow> True"
| "creating (Magnum_certificate i csr) \<longleftrightarrow> True"
| "creating (Create_kube k) \<longleftrightarrow> True"
| "creating (Update_kube k) \<longleftrightarrow> True"
| "creating _ \<longleftrightarrow> False"

fun updating :: "magnum_request \<Rightarrow> bool" where
  "updating (Update_cluster c) \<longleftrightarrow> True"
| "updating _ \<longleftrightarrow> False"

abbreviation quiet :: "magnum_request \<Rightarrow> bool" where "quiet r \<equiv> \<not> creating r"

lemma quiet_client: "keeps (adds (\<lambda>r. \<not> creating r \<and> \<not> updating r)) (create_magnum_client env)"
  unfolding create_magnum_client_def make_magnum_client_def by (auto intro!: adds_intros split: option.split)

lemma quiet_status: "keeps (adds (\<lambda>r. \<not> creating r \<and> \<not> updating r)) (set_magnum_state env n)"
  unfolding set_magnum_state_def store_status_def by (auto intro!: adds_intros)

lemma quiet_delete:
  "keeps (adds (\<lambda>r. \<not> creating r \<and> \<not> updating r)) (delete_on_openstack env)"
  unfolding delete_on_openstack_def delete_magnum_def poll_deleted_def read_or_gone_def get_magnum_def
  by (auto intro!: adds_intros quiet_client quiet_status split: option.split)

lemma quiet_remove: "keeps (adds quiet) (remove_magnum_cluster env)"
  unfolding remove_magnum_cluster_def drop_magnum_finalizer_def store_cluster_def
  by (auto intro!: adds_intros adds_weaken [OF quiet_delete])

lemma adds_kube: "keeps (adds (\<lambda>r. True)) (reconcile_kubernetes_resource env)"
  unfolding reconcile_kubernetes_resource_def accessible_def register_kube_def make_kubeconfig_def make_csr_def
  by (auto intro!: adds_intros split: option.split exn.split)

lemma adds_wait: "keeps (adds (\<lambda>r. True)) (wait_for_running env)"
  unfolding wait_for_running_def poll_running_def read_or_gone_def get_magnum_def
  by (auto intro!: adds_intros adds_weaken [OF quiet_status] split: option.split)

lemma adds_action: "keeps (adds (\<lambda>r. True)) (run_action env a)"
  by (induction a; unfold run_action.simps on_pending_def on_creating_def on_running_def on_reconciling_def refer_to_kube_def
      store_status_def get_template_def create_magnum_def resize_magnum_def randstr_def)
    (auto intro!: adds_intros adds_kube adds_wait adds_weaken [OF quiet_status])

section \<open>The finalizer guards what is created\<close>

text \<open>The cluster had the finalizer, or the API has stored it.\<close>

definition guarded :: "magnum_env \<Rightarrow> openstack_cluster \<Rightarrow> magnum_log \<Rightarrow> bool" where
  "guarded env c g \<longleftrightarrow>
     magnum_finalizer \<in> set (finalizers (metadata c)) \<or>
     stored_before Update_cluster (update_answer env) (\<lambda>x. magnum_finalizer \<in> set (finalizers (metadata x))) g"

abbreviation creations_guarded :: "magnum_env \<Rightarrow> openstack_cluster \<Rightarrow> magnum_log \<Rightarrow> bool" where
  "creations_guarded env c \<equiv> preceded creating (guarded env c)"

lemma guarded_append: "guarded env c g \<Longrightarrow> guarded env c (g @ es)"
  by (auto simp: guarded_def intro: stored_before_append)

lemma guarded_finalizer:
  assumes "creations_guarded env c (requests_made s)" and "metadata (handled_object s) = metadata c"
  shows "post (ensure_magnum_finalizer env) s (\<lambda>r t. creations_guarded env c (requests_made t) \<and>
    (r = Inr () \<longrightarrow> guarded env c (requests_made t)))"
proof (cases "magnum_finalizer \<in> set (finalizers (metadata c))")
  case True
  with assms show ?thesis
    by (simp add: ensure_magnum_finalizer_def co_bind_def the_object_def co_return_def post_def guarded_def)
next
  case False
  let ?c = "(handled_object s)\<lparr>metadata := (metadata c)\<lparr>finalizers := finalizers (metadata c) @ [magnum_finalizer]\<rparr>\<rparr>"
  have "creations_guarded env c (requests_made s @ [Update_cluster ?c])"
    by (rule preceded_quiet [OF assms(1)]) simp
  moreover have "guarded env c (requests_made s @ [Update_cluster ?c])"
    if "update_answer env (requests_made s @ [Update_cluster ?c]) = Inr ()"
    using that by (auto simp: guarded_def intro!: stored_before_now)
  ultimately show ?thesis
    using False assms(2)
    by (simp add: ensure_magnum_finalizer_def co_bind_def co_then_def the_object_def change_object_def store_cluster_def
        ask_session_def post_def Let_def)
qed

lemma guarded_magnum:
  assumes "creations_guarded env c (requests_made s)" and "metadata (handled_object s) = metadata c"
  shows "post (reconcile_magnum_cluster env) s (\<lambda>r t. creations_guarded env c (requests_made t))"
proof -
  have same: "keeps (\<lambda>s t. metadata (handled_object t) = metadata (handled_object s)) (create_magnum_client env)"
    unfolding create_magnum_client_def make_magnum_client_def
    by (auto intro!: unchanged.keeps_intros keepsI [of "ask_session _ _"] keepsI [of the_object] split: option.split
        simp: post_def ask_session_def the_object_def Let_def)
  have client: "post (create_magnum_client env) s
      (\<lambda>r t. creations_guarded env c (requests_made t) \<and> metadata (handled_object t) = metadata c)"
  proof -
    have "keeps (adds quiet) (create_magnum_client env)" by (rule adds_weaken [OF quiet_client]) simp
    from post_conj [OF preceded_adds [OF this assms(1)] keeps_post [OF same, of s]] show ?thesis
      by (rule post_mono) (use assms(2) in auto)
  qed
  have after: "keeps (adds (\<lambda>r. True)) (co_bind the_object (\<lambda>c. case first_action (magnum_status c) of
      None \<Rightarrow> co_return () | Some a \<Rightarrow> co_machine (run_action env) a))"
    by (auto intro!: adds_intros adds_action split: option.split)
  from client show ?thesis
    unfolding reconcile_magnum_cluster_def
  proof (rule post_thenI)
    fix t :: magnum_session assume t: "creations_guarded env c (requests_made t) \<and> metadata (handled_object t) = metadata c"
    from guarded_finalizer [of env c t] t
    have "post (ensure_magnum_finalizer env) t (\<lambda>r t. creations_guarded env c (requests_made t) \<and>
      (r = Inr () \<longrightarrow> guarded env c (requests_made t)))" by blast
    then show "post (co_then (ensure_magnum_finalizer env) (co_bind the_object (\<lambda>c. case first_action (magnum_status c) of
      None \<Rightarrow> co_return () | Some a \<Rightarrow> co_machine (run_action env) a))) t
      (\<lambda>r t. creations_guarded env c (requests_made t))"
    proof (rule post_thenI)
      fix u :: magnum_session assume u: "creations_guarded env c (requests_made u) \<and> (Inr () = Inr () \<longrightarrow> guarded env c (requests_made u))"
      from keeps_post [OF after, of u]
      show "post (co_bind the_object (\<lambda>c. case first_action (magnum_status c) of
          None \<Rightarrow> co_return () | Some a \<Rightarrow> co_machine (run_action env) a)) u (\<lambda>r t. creations_guarded env c (requests_made t))"
        by (rule post_mono) (use u in \<open>auto simp: adds_def intro!: preceded_after guarded_append\<close>)
    qed simp
  qed simp
qed

lemma quiet_fail: "keeps (adds quiet) (co_then (change_object (\<lambda>c. c\<lparr>magnum_reason := code\<rparr>)) (set_magnum_state env Magnum_FAILED))"
  by (auto intro!: adds_intros adds_weaken [OF quiet_status])

lemma process_catch:
  assumes "post (if deleted (metadata (handled_object s)) \<noteq> None then remove_magnum_cluster env else reconcile_magnum_cluster env) s
      (\<lambda>r t. Q t)"
    and "\<And>code t. Q t \<Longrightarrow> post (co_then (change_object (\<lambda>c. c\<lparr>magnum_reason := code\<rparr>)) (set_magnum_state env Magnum_FAILED)) t
      (\<lambda>r t. Q t)"
  shows "post (process_magnum env) s (\<lambda>r t. Q t)"
  unfolding process_magnum_def post_catch
proof (rule post_mono)
  show "post (co_bind the_object (\<lambda>c. if deleted (metadata c) \<noteq> None then remove_magnum_cluster env
      else reconcile_magnum_cluster env)) s (\<lambda>r t. Q t)"
    by (rule post_bindI [where P = "\<lambda>r t. r = Inr (handled_object s) \<and> t = s"])
      (use assms(1) in \<open>auto simp: the_object_def post_def [of the_object]\<close>)
  fix r :: "(exn, unit) res" and t assume "Q t"
  with assms(2) show "case r of Inl e \<Rightarrow> post (case magnum_failure e of None \<Rightarrow> co_raise e
        | Some code \<Rightarrow> co_then (change_object (\<lambda>c. c\<lparr>magnum_reason := code\<rparr>)) (set_magnum_state env Magnum_FAILED)) t
        (\<lambda>r t. Q t) | Inr x \<Rightarrow> Q t"
    by (auto simp: post_raise split: sum.split option.split)
qed

lemma guarded_process:
  assumes "metadata (handled_object s) = metadata c" and "requests_made s = []"
  shows "post (process_magnum env) s (\<lambda>r t. creations_guarded env c (requests_made t))"
proof -
  have start: "creations_guarded env c (requests_made s)" using assms(2) by simp
  from guarded_magnum [OF start assms(1)] preceded_adds [OF quiet_remove start] preceded_adds [OF quiet_fail]
  show ?thesis by (intro process_catch) auto
qed

text \<open>
  C23. A worker asks OpenStack to create or resize a cluster, or to sign a certificate for it, and
  registers it as a Kubernetes cluster, only if the Magnum cluster had the finalizer of the
  controller from the start or the API has stored it with the finalizer before.
\<close>

theorem magnum_creation_guarded:
  assumes "process_magnum env (fresh_session c) = Some (r, s)"
    and "requests_made s = g @ q # es" and "creating q"
  shows "guarded env c g"
proof -
  have "post (process_magnum env) (fresh_session c)
      (\<lambda>r t. creations_guarded env c (requests_made t))"
    by (rule guarded_process) simp_all
  from postD [OF this assms(1)] assms(2,3) show ?thesis unfolding preceded_def by blast
qed

section \<open>The finalizer is removed last\<close>

text \<open>Nothing was made in OpenStack, or Magnum has just said that it is gone.\<close>

definition gone :: "magnum_env \<Rightarrow> openstack_cluster \<Rightarrow> magnum_log \<Rightarrow> bool" where
  "gone env c g \<longleftrightarrow>
     magnum_project c = None \<or> magnum_status c = Magnum_PENDING \<or>
     (\<exists>g'. g = g' @ [Magnum_get (magnum_id c)]) \<and> info_answer env g = Inl MagnumNotFound"

abbreviation releases_gone :: "magnum_env \<Rightarrow> openstack_cluster \<Rightarrow> magnum_log \<Rightarrow> bool" where
  "releases_gone env c \<equiv> preceded updating (gone env c)"

text \<open>What a deletion has done so far: no update of the cluster, whose identifier is the same.\<close>

definition deleting :: "openstack_cluster \<Rightarrow> magnum_session \<Rightarrow> bool" where
  "deleting c s \<longleftrightarrow> list_all (\<lambda>r. \<not> updating r) (requests_made s) \<and> magnum_id (handled_object s) = magnum_id c"

definition deletes_on :: "magnum_session \<Rightarrow> magnum_session \<Rightarrow> bool" where
  "deletes_on s t \<longleftrightarrow> adds (\<lambda>r. \<not> updating r) s t \<and> magnum_id (handled_object t) = magnum_id (handled_object s)"

interpretation deletes_on: state_relation deletes_on
  by unfold_locales (auto simp: deletes_on_def adds.R_refl elim: adds.R_trans)

lemma deletes_ask: "\<not> updating r \<Longrightarrow> keeps deletes_on (ask_session answer r)"
  by (rule keepsI) (simp add: post_def ask_session_def adds_def deletes_on_def Let_def)

lemma deletes_silent:
  "keeps deletes_on the_object" "(\<And>c. magnum_id (f c) = magnum_id c) \<Longrightarrow> keeps deletes_on (change_object f)"
  by (rule keepsI, simp add: post_def the_object_def change_object_def adds_def deletes_on_def)+

lemmas deletes_intros = deletes_on.keeps_intros deletes_ask deletes_silent

lemma deletes_after: "keeps deletes_on m \<Longrightarrow> deleting c s \<Longrightarrow> post m s (\<lambda>r t. deleting c t)"
  by (drule keeps_post, erule post_mono) (auto simp: deleting_def deletes_on_def adds_def)

lemma deletion_round:
  assumes "deleting c s"
  shows "post (poll_deleted env) s (\<lambda>r t. deleting c t \<and> (r = Inr (Some ()) \<longrightarrow> gone env c (requests_made t)))"
  using assms
  by (auto simp: poll_deleted_def read_or_gone_def get_magnum_def co_bind_def co_then_def co_catch_def the_object_def
      ask_session_def co_return_def co_raise_def Let_def post_def deleting_def gone_def split: sum.split)

lemma deletion_on_openstack:
  assumes "deleting c s" and "magnum_project (handled_object s) = magnum_project c"
    and "magnum_status (handled_object s) = magnum_status c"
  shows "post (delete_on_openstack env) s (\<lambda>r t. deleting c t \<and> (r = Inr () \<longrightarrow> gone env c (requests_made t)))"
proof -
  have loop: "post (co_loop (poll_deleted env)) t (\<lambda>r t. deleting c t \<and> (r = Inr () \<longrightarrow> gone env c (requests_made t)))"
    if "deleting c t" for t
    by (rule post_loop [where I = "deleting c", OF that]) (rule post_mono [OF deletion_round], auto split: sum.split option.split)
  have client: "keeps deletes_on (create_magnum_client env)"
    unfolding create_magnum_client_def make_magnum_client_def by (auto intro!: deletes_intros split: option.split)
  have mark: "keeps deletes_on (if b then co_return () else
      co_then (co_catch (delete_magnum env) (\<lambda>e. if e = MagnumNotFound then co_return () else co_raise e))
        (set_magnum_state env Magnum_DELETING))" for b
    unfolding delete_magnum_def set_magnum_state_def store_status_def by (auto intro!: deletes_intros)
  have "post (co_then (create_magnum_client env) (co_then (if b then co_return () else
      co_then (co_catch (delete_magnum env) (\<lambda>e. if e = MagnumNotFound then co_return () else co_raise e))
        (set_magnum_state env Magnum_DELETING)) (co_loop (poll_deleted env)))) s
      (\<lambda>r t. deleting c t \<and> (r = Inr () \<longrightarrow> gone env c (requests_made t)))" for b
    by (rule post_thenI [OF deletes_after [OF client assms(1)]], simp, rule post_thenI [OF deletes_after [OF mark]])
      (auto intro: loop)
  note run = this
  have "delete_on_openstack env s =
      (if magnum_project c = None \<or> magnum_status c = Magnum_PENDING then co_return ()
       else co_then (create_magnum_client env) (co_then (if magnum_status c = Magnum_DELETING then co_return () else
        co_then (co_catch (delete_magnum env) (\<lambda>e. if e = MagnumNotFound then co_return () else co_raise e))
          (set_magnum_state env Magnum_DELETING)) (co_loop (poll_deleted env)))) s"
    using assms(2,3) by (simp add: delete_on_openstack_def co_bind_def [of the_object] the_object_def)
  moreover have "post (co_return ()) s (\<lambda>r t. deleting c t \<and> (r = Inr () \<longrightarrow> gone env c (requests_made t)))"
    if "magnum_project c = None \<or> magnum_status c = Magnum_PENDING"
    using that assms(1) by (auto simp: post_return gone_def)
  ultimately show ?thesis
    using run [of "magnum_status c = Magnum_DELETING"] by (simp add: post_def split: if_splits)
qed

lemma deletion_releases:
  assumes "deleting c s" and "gone env c (requests_made s)"
  shows "post (drop_magnum_finalizer env) s (\<lambda>r t. releases_gone env c (requests_made t))"
  using assms preceded_none [of updating "requests_made s" "gone env c"]
    preceded_last [of updating "gone env c" "requests_made s"]
  by (simp add: drop_magnum_finalizer_def store_cluster_def post_simps deleting_def)

lemma releases_remove:
  assumes "handled_object s = c" and "requests_made s = []"
  shows "post (remove_magnum_cluster env) s (\<lambda>r t. releases_gone env c (requests_made t))"
proof -
  let ?exists = "co_catch
      (co_then (ask_session (update_answer env) (Read_magnum (namespace (metadata c)) (name (metadata c)))) (co_return True))
      (\<lambda>e. if e = ClientResponseError 404 then co_return False else co_raise e)"
  have "post ?exists s (\<lambda>r t. deleting c t \<and> handled_object t = c)"
    using assms
    by (auto simp: co_catch_def co_then_def co_bind_def ask_session_def co_return_def co_raise_def Let_def post_def deleting_def
        split: sum.split)
  then have "post (co_bind ?exists (\<lambda>exists. if exists then co_then (delete_on_openstack env) (drop_magnum_finalizer env)
      else co_return ())) s (\<lambda>r t. releases_gone env c (requests_made t))"
  proof (rule post_bindI)
    fix e and t :: magnum_session assume "deleting c t \<and> handled_object t = c"
    then show "releases_gone env c (requests_made t)" by (auto simp: deleting_def intro: preceded_none)
  next
    fix x and t :: magnum_session assume t: "deleting c t \<and> handled_object t = c"
    have "post (co_then (delete_on_openstack env) (drop_magnum_finalizer env)) t (\<lambda>r t. releases_gone env c (requests_made t))"
      by (rule post_thenI [OF deletion_on_openstack [of c]])
        (use t in \<open>auto simp: deleting_def intro: preceded_none deletion_releases [unfolded deleting_def]\<close>)
    with t show "post (if x then co_then (delete_on_openstack env) (drop_magnum_finalizer env) else co_return ()) t
        (\<lambda>r t. releases_gone env c (requests_made t))"
      by (auto simp: post_return deleting_def intro: preceded_none)
  qed
  then show ?thesis
    using assms(1) by (simp add: remove_magnum_cluster_def co_bind_def [of the_object] the_object_def post_def)
qed

text \<open>
  C24. A worker that handles a Magnum cluster in deletion updates it, which removes the finalizer, only if
  nothing was created for it, since it had no project or was pending, or if the last thing that
  Magnum said is that the OpenStack cluster does not exist.
\<close>

theorem magnum_finalizer_removed_last:
  assumes "process_magnum env (fresh_session c) = Some (r, s)" and "deleted (metadata c) \<noteq> None"
    and "requests_made s = g @ Update_cluster x # es"
  shows "gone env c g"
proof -
  have "post (process_magnum env) (fresh_session c) (\<lambda>r t. releases_gone env c (requests_made t))"
  proof (rule process_catch)
    show "post (if deleted (metadata (handled_object (fresh_session c))) \<noteq> None
        then remove_magnum_cluster env else reconcile_magnum_cluster env) (fresh_session c)
        (\<lambda>r t. releases_gone env c (requests_made t))"
      using assms(2) by (simp add: releases_remove)
    fix code and t :: magnum_session assume t: "releases_gone env c (requests_made t)"
    have "keeps (adds (\<lambda>r. \<not> updating r)) (co_then (change_object (\<lambda>c. c\<lparr>magnum_reason := code\<rparr>)) (set_magnum_state env Magnum_FAILED))"
      by (auto intro!: adds_intros adds_weaken [OF quiet_status])
    from keeps_post [OF this, of t] show "post (co_then (change_object (\<lambda>c. c\<lparr>magnum_reason := code\<rparr>))
        (set_magnum_state env Magnum_FAILED)) t (\<lambda>r t. releases_gone env c (requests_made t))"
      by (rule post_mono) (use t in \<open>auto simp: adds_def intro: preceded_quiet\<close>)
  qed
  from postD [OF this assms(1)] assms(3) show ?thesis by (auto simp: preceded_def)
qed

section \<open>A cluster that is created and deleted\<close>

definition example_cluster :: "magnum_state \<Rightarrow> string list \<Rightarrow> time option \<Rightarrow> openstack_cluster" where
  "example_cluster state fs d =
     \<lparr>api = ''openstack'', kind = ''MagnumCluster'',
      metadata = \<lparr>name = ''m'', namespace = Some ''n'', labels = [], inherit_labels = False, finalizers = fs, uid = ''u'',
        created = 1, modified = 1, deleted = d, owners = []\<rparr>,
      magnum_constraints = None, magnum_metrics = [], magnum_status = state, magnum_reason = None,
      magnum_project = Some \<lparr>ref_api = ''openstack'', ref_namespace = Some ''n'', ref_kind = ''Project'', ref_name = ''p''\<rparr>,
      master_count = None, node_count = None, magnum_template = Some ''t'', magnum_id = None, current_node_count = None,
      api_address = None, master_addresses = None, node_addresses = None, kube_reference = None\<rparr>"

definition example_project :: openstack_project where
  "example_project =
     \<lparr>api = ''openstack'', kind = ''Project'',
      metadata = \<lparr>name = ''p'', namespace = Some ''n'', labels = [], inherit_labels = False, finalizers = [], uid = ''v'',
        created = 1, modified = 1, deleted = None, owners = []\<rparr>,
      project_template = ''t'', project_metrics = [], project_status = Project_ONLINE, project_metrics_reasons = [],
      project_url = ''http://keystone'', project_auth = Application_credential ''i'' ''s''\<rparr>"

definition example_magnum :: magnum_env where
  "example_magnum =
     \<lparr>update_answer = (\<lambda>h. Inr ()), project_answer = (\<lambda>h. Inr example_project),
      kube_answer = (\<lambda>h. Inl (ClientResponseError 404)), host_answer = (\<lambda>h. Inr None),
      text_answer = (\<lambda>h. case last h of Magnum_template t \<Rightarrow> Inr ''kubernetes'' | _ \<Rightarrow> Inr ''42''),
      info_answer = (\<lambda>h.
        if list_ex (\<lambda>r. case r of Magnum_delete i \<Rightarrow> True | _ \<Rightarrow> False) h then Inl MagnumNotFound
        else Inr
          \<lparr>info_status = if list_ex (\<lambda>r. case r of Wait t \<Rightarrow> True | _ \<Rightarrow> False) h then ''CREATE_COMPLETE'' else ''CREATE_IN_PROGRESS'',
           info_node_count = Some 1, info_api_address = Some ''a'', info_master_addresses = None, info_node_addresses = None\<rparr>),
      random_text = (\<lambda>h. ''x''), new_csr = (\<lambda>h. (''k'', ''c'')), poll_interval = 30\<rparr>"

definition example_creation :: "((exn, unit) res \<times> magnum_session) option" where
  "example_creation = process_magnum example_magnum (fresh_session (example_cluster Magnum_PENDING [] None))"

definition example_deletion :: "((exn, unit) res \<times> magnum_session) option" where
  "example_deletion = process_magnum example_magnum (fresh_session (example_cluster Magnum_RUNNING [magnum_finalizer] (Some 5)))"

lemma example_runs:
  "case example_creation of
     Some (Inr _, s) \<Rightarrow>
       stored_states (requests_made s) = [Magnum_CREATING, Magnum_CREATING, Magnum_RUNNING] \<and>
       length (requests_made s) = 15 \<and> creating (requests_made s ! 5) |
     _ \<Rightarrow> False"
  "case example_deletion of
     Some (Inr _, s) \<Rightarrow>
       stored_states (requests_made s) = [Magnum_DELETING] \<and>
       length (requests_made s) = 7 \<and> updating (requests_made s ! 6) |
     _ \<Rightarrow> False"
  by code_simp+

theorem magnum_state_machine_witness:
  "\<exists>s. example_creation = Some (Inr (), s) \<and>
     path (transition False) [Magnum_PENDING, Magnum_CREATING, Magnum_CREATING, Magnum_RUNNING] \<and>
     magnum_status (handled_object s) = Magnum_RUNNING"
proof -
  from case_returned [OF example_runs(1)] obtain u s where s: "example_creation = Some (Inr u, s)"
    "stored_states (requests_made s) = [Magnum_CREATING, Magnum_CREATING, Magnum_RUNNING]" by blast
  from magnum_state_machine [OF s(1) [unfolded example_creation_def]] s
  have "magnum_status (handled_object s) = Magnum_RUNNING" by (simp add: example_cluster_def)
  with s(1) show ?thesis by (intro exI [of _ s]) simp
qed

theorem magnum_creation_guarded_witness:
  "\<exists>s g q es. example_creation = Some (Inr (), s) \<and> requests_made s = g @ q # es \<and> creating q \<and>
     guarded example_magnum (example_cluster Magnum_PENDING [] None) g"
proof -
  from case_returned [OF example_runs(1)] obtain u s where s: "example_creation = Some (Inr u, s)"
    "length (requests_made s) = 15" "creating (requests_made s ! 5)" by blast
  have split: "requests_made s = take 5 (requests_made s) @ requests_made s ! 5 # drop (Suc 5) (requests_made s)"
    by (rule id_take_nth_drop) (use s(2) in simp)
  from magnum_creation_guarded [OF s(1) [unfolded example_creation_def] this s(3)] split s(1,3) show ?thesis by auto
qed

theorem magnum_finalizer_removed_last_witness:
  "\<exists>s g x. example_deletion = Some (Inr (), s) \<and> requests_made s = g @ [Update_cluster x] \<and>
     gone example_magnum (example_cluster Magnum_RUNNING [magnum_finalizer] (Some 5)) g"
proof -
  from case_returned [OF example_runs(2)] obtain u s where s: "example_deletion = Some (Inr u, s)"
    "length (requests_made s) = 7" "updating (requests_made s ! 6)" by blast
  obtain x where x: "requests_made s ! 6 = Update_cluster x" using s(3) by (cases "requests_made s ! 6") auto
  have split: "requests_made s = take 6 (requests_made s) @ Update_cluster x # drop (Suc 6) (requests_made s)"
    using s(2) unfolding x [symmetric] by (intro id_take_nth_drop) simp
  have d: "deleted (metadata (example_cluster Magnum_RUNNING [magnum_finalizer] (Some 5))) \<noteq> None"
    by (simp add: example_cluster_def)
  from magnum_finalizer_removed_last [OF s(1) [unfolded example_deletion_def] d split]
  have "gone example_magnum (example_cluster Magnum_RUNNING [magnum_finalizer] (Some 5)) (take 6 (requests_made s))" .
  moreover have "drop (Suc 6) (requests_made s) = []" using s(2) by simp
  ultimately show ?thesis using split s(1) by auto
qed

section \<open>Reconciliation ends when Magnum does\<close>

definition settled :: "(exn, magnum_info) res \<Rightarrow> bool" where
  "settled r \<longleftrightarrow>
     (case r of
        Inl e \<Rightarrow> True
      | Inr info \<Rightarrow> info_status info \<in> {''CREATE_COMPLETE'', ''UPDATE_COMPLETE'', ''CREATE_FAILED'', ''UPDATE_FAILED'', ''DELETE_FAILED''})"

lemma total_status: "total (set_magnum_state env n)" "total (store_status env)"
  unfolding set_magnum_state_def store_status_def by (auto intro!: session_total)

lemma total_kube: "total (reconcile_kubernetes_resource env)"
  unfolding reconcile_kubernetes_resource_def accessible_def register_kube_def make_kubeconfig_def make_csr_def
  by (auto intro!: session_total split: option.split exn.split)

lemma returns_poll: "returns (poll_running env) s"
  unfolding poll_running_def read_or_gone_def get_magnum_def
  by (rule total_returns) (auto intro!: session_total total_status split: option.split)

text \<open>A round that goes on makes the log longer, and Magnum has not settled.\<close>

lemma poll_goes_on:
  assumes "poll_running env s = Some (Inr None, t)"
  shows "length (requests_made s) < length (requests_made t) \<and>
    \<not> settled (info_answer env (requests_made s @ [Magnum_get (magnum_id (handled_object s))]))"
  using assms
  by (auto simp: poll_running_def read_or_gone_def get_magnum_def co_bind_def co_catch_def co_then_def the_object_def
      ask_session_def co_return_def co_raise_def set_magnum_state_def change_object_def store_status_def Let_def settled_def
      operation_failed_def split: sum.splits if_splits option.splits)

lemma returns_wait:
  assumes "\<forall>h. N \<le> length h \<longrightarrow> settled (info_answer env h)"
  shows "returns (wait_for_running env) s"
proof -
  have "returns (co_loop (poll_running env)) s"
  proof (rule returns_loop [where I = "\<lambda>s. True" and f = "\<lambda>s. N - length (requests_made s)"])
    fix s t assume "poll_running env s = Some (Inr None, t)"
    from poll_goes_on [OF this] have l: "length (requests_made s) < length (requests_made t)"
      and n: "\<not> N \<le> Suc (length (requests_made s))" using assms by auto
    then show "True \<and> N - length (requests_made t) < N - length (requests_made s)" by (simp add: diff_less_mono2)
  qed (simp_all add: returns_poll)
  then show ?thesis
    unfolding wait_for_running_def
    by (rule returns_bind) (auto intro!: total_returns session_total total_status split: option.split)
qed

lemma pending_next: "post (on_pending env) s (\<lambda>r t. \<forall>a. r = Inr a \<longrightarrow> a = Some On_creating)"
  unfolding on_pending_def by (intro post_last post_last_then) (auto intro!: post_last post_last_then simp: post_return post_raise)

lemma running_next: "post (on_running env) s (\<lambda>r t. \<forall>a. r = Inr a \<longrightarrow> a = Some On_reconciling \<or> a = None)"
  unfolding on_running_def by (intro post_last) (auto intro!: post_last_then simp: post_return)

lemma waiting_next: "b \<in> {On_creating, On_reconciling} \<Longrightarrow> post (run_action env b) s (\<lambda>r t. \<forall>a. r = Inr a \<longrightarrow> a = None)"
  by (auto simp: on_creating_def on_reconciling_def post_return intro!: post_last_then)

lemma returns_machine:
  assumes "\<forall>h. N \<le> length h \<longrightarrow> settled (info_answer env h)"
  shows "returns (co_machine (run_action env) a) s"
proof -
  have waiting: "returns (co_machine (run_action env) b) s" if "b \<in> {On_creating, On_reconciling}" for b s
    unfolding machine_step [of _ b]
  proof (rule returns_bind)
    show "returns (run_action env b) s"
      using that returns_wait [OF assms] total_returns [OF total_kube]
      by (auto simp: on_creating_def on_reconciling_def intro!: returns_then)
    fix x t assume "run_action env b s = Some (Inr x, t)"
    from postD [OF waiting_next [OF that] this] have "x = None" by simp
    then show "returns (case x of None \<Rightarrow> co_return () | Some b \<Rightarrow> co_machine (run_action env) b) t" by simp
  qed
  have pending: "total (on_pending env)" and running: "total (on_running env)"
    unfolding on_pending_def refer_to_kube_def get_template_def create_magnum_def randstr_def on_running_def resize_magnum_def
    by (auto intro!: session_total total_status total_kube)
  show ?thesis
  proof (cases "a \<in> {On_creating, On_reconciling}")
    case False
    then consider "a = On_pending" | "a = On_running" by (cases a) auto
    then show ?thesis
    proof cases
      case 1
      show ?thesis
        unfolding machine_step [of _ a] unfolding 1 run_action.simps
        by (rule returns_bind [OF total_returns [OF pending]], drule postD [OF pending_next]) (auto intro: waiting)
    next
      case 2
      show ?thesis
        unfolding machine_step [of _ a] unfolding 2 run_action.simps
        by (rule returns_bind [OF total_returns [OF running]], drule postD [OF running_next]) (auto intro: waiting)
    qed
  qed (rule waiting)
qed

lemma path_reconcile_outcome:
  assumes "on_path False c s" and "first_action (magnum_status (handled_object s)) \<noteq> None"
  shows "post (reconcile_magnum_cluster env) s
    (\<lambda>r t. r = Inr () \<longrightarrow> magnum_status (handled_object t) \<in> {Magnum_RUNNING, Magnum_PENDING})"
proof -
  have calm: "calm (co_then (create_magnum_client env) (ensure_magnum_finalizer env))"
    unfolding ensure_magnum_finalizer_def by (auto intro!: calm_intros calm_client calm_store)
  have same: "reconcile_magnum_cluster env = co_then (co_then (create_magnum_client env) (ensure_magnum_finalizer env))
      (co_bind the_object (\<lambda>c. case first_action (magnum_status c) of None \<Rightarrow> co_return () | Some a \<Rightarrow> co_machine (run_action env) a))"
    by (rule ext) (simp add: reconcile_magnum_cluster_def co_then_def co_bind_def split: option.split sum.split)
  show ?thesis
    unfolding same
  proof (rule post_thenI [OF calm_path [OF calm assms(1) refl]])
    fix t assume t: "on_path False c t \<and> magnum_status (handled_object t) = magnum_status (handled_object s)"
    then obtain a where a: "first_action (magnum_status (handled_object t)) = Some a" using assms(2) by auto
    from path_machine [OF _ a] t
    have "post (co_machine (run_action env) a) t (\<lambda>r t. on_path False c t \<and> (case r of Inl e \<Rightarrow> True
        | Inr _ \<Rightarrow> magnum_status (handled_object t) \<in> {Magnum_RUNNING, Magnum_PENDING}))" by blast
    then show "post (co_bind the_object (\<lambda>c. case first_action (magnum_status c) of None \<Rightarrow> co_return ()
        | Some a \<Rightarrow> co_machine (run_action env) a)) t
        (\<lambda>r t. r = Inr () \<longrightarrow> magnum_status (handled_object t) \<in> {Magnum_RUNNING, Magnum_PENDING})"
      using a by (auto simp: co_bind_def [of the_object] the_object_def post_def split: option.splits)
  qed simp
qed

text \<open>
  If Magnum does not stay in progress forever, the worker that handles a Magnum cluster which is
  not in deletion returns or raises; and if it returns and the cluster was in a state that is
  handled, the cluster is running, pending again or failed.
\<close>

theorem magnum_reconciliation_ends:
  assumes "deleted (metadata c) = None" and "\<forall>h. N \<le> length h \<longrightarrow> settled (info_answer env h)"
  shows "\<exists>r s. process_magnum env (fresh_session c) = Some (r, s) \<and>
    (r = Inr () \<and> first_action (magnum_status c) \<noteq> None \<longrightarrow>
      magnum_status (handled_object s) \<in> {Magnum_RUNNING, Magnum_PENDING, Magnum_FAILED})"
proof -
  let ?s = "fresh_session c"
  have "total (create_magnum_client env)" "total (ensure_magnum_finalizer env)"
    unfolding create_magnum_client_def make_magnum_client_def ensure_magnum_finalizer_def store_cluster_def
    by (auto intro!: session_total split: option.split)
  then have reconcile: "returns (reconcile_magnum_cluster env) ?s"
    unfolding reconcile_magnum_cluster_def
    by (intro returns_then returns_bind total_returns [OF total_session(2)])
      (auto intro: total_returns returns_machine [OF assms(2)] split: option.split)
  have "on_path False (magnum_status c) ?s" by (simp add: on_path_def)
  then have outcome: "first_action (magnum_status c) \<noteq> None \<Longrightarrow> post (reconcile_magnum_cluster env) ?s
      (\<lambda>r t. r = Inr () \<longrightarrow> magnum_status (handled_object t) \<in> {Magnum_RUNNING, Magnum_PENDING})"
    by (intro path_reconcile_outcome) simp_all
  obtain q t where q: "reconcile_magnum_cluster env ?s = Some (q, t)" using reconcile by (auto simp: returns_def)
  have body: "co_bind the_object (\<lambda>c. if deleted (metadata c) \<noteq> None then remove_magnum_cluster env
      else reconcile_magnum_cluster env) ?s = Some (q, t)"
    using assms(1) q by (simp add: co_bind_def the_object_def)
  show ?thesis
  proof (cases q)
    case (Inr u)
    with body have "process_magnum env ?s = Some (Inr u, t)" by (simp add: process_magnum_def co_catch_def)
    with postD [OF outcome q] Inr show ?thesis by auto
  next
    case (Inl e)
    show ?thesis
    proof (cases "magnum_failure e")
      case None
      with Inl body have "process_magnum env ?s = Some (Inl e, t)"
        by (simp add: process_magnum_def co_catch_def co_raise_def)
      then show ?thesis by simp
    next
      case (Some code)
      let ?fail = "co_then (change_object (\<lambda>c. c\<lparr>magnum_reason := code\<rparr>)) (set_magnum_state env Magnum_FAILED)"
      have "\<exists>r s. ?fail t = Some (r, s) \<and> magnum_status (handled_object s) = Magnum_FAILED"
        by (simp add: co_then_def co_bind_def change_object_def set_magnum_state_def store_status_def the_object_def
            ask_session_def Let_def)
      then obtain r s where f: "?fail t = Some (r, s)" "magnum_status (handled_object s) = Magnum_FAILED" by blast
      with Inl Some body have "process_magnum env ?s = Some (r, s)" by (simp add: process_magnum_def co_catch_def)
      with f(2) show ?thesis by simp
    qed
  qed
qed

definition settled_magnum :: magnum_env where
  "settled_magnum = example_magnum\<lparr>info_answer := (\<lambda>h. Inr
     \<lparr>info_status = ''CREATE_FAILED'', info_node_count = None, info_api_address = None, info_master_addresses = None,
      info_node_addresses = None\<rparr>)\<rparr>"

theorem magnum_reconciliation_ends_witness:
  "\<exists>r s. process_magnum settled_magnum (fresh_session (example_cluster Magnum_PENDING [] None)) = Some (r, s) \<and>
    (r = Inr () \<longrightarrow> magnum_status (handled_object s) \<in> {Magnum_RUNNING, Magnum_PENDING, Magnum_FAILED})"
proof -
  have "\<forall>h. 0 \<le> length h \<longrightarrow> settled (info_answer settled_magnum h)"
    by (simp add: settled_magnum_def settled_def)
  moreover have "deleted (metadata (example_cluster Magnum_PENDING [] None)) = None"
    "first_action (magnum_status (example_cluster Magnum_PENDING [] None)) \<noteq> None"
    by (simp_all add: example_cluster_def)
  ultimately show ?thesis using magnum_reconciliation_ends [of "example_cluster Magnum_PENDING [] None" 0 settled_magnum] by simp
qed

end
