(* ===== verification/Infrastructure_Provider.thy ===== *)
theory Infrastructure_Provider
  imports Scheduler_Data Sessions Manifest
begin

text \<open>
  The client of the Infrastructure Manager (IM) in
  \<open>krake/krake/controller/infrastructure/providers.py\<close>: the authorization header, the requests to IM
  and how its answers are read. The parsing of URLs and of YAML texts and the comparison of TOSCA
  templates belong to libraries and are parameters.
\<close>

section \<open>Data\<close>

record infra_cluster = cluster +
  infra_tosca :: yaml
  last_applied_tosca :: yaml
  cluster_id :: "string option"
  running_on :: "resource_ref option"
  spec_kubeconfig :: yaml

record infra_cloud = cloud +
  cloud_url :: string
  cloud_auth_type :: string
  cloud_auth_version :: string
  cloud_username :: string
  cloud_password :: string
  cloud_project :: string
  cloud_provider :: string

record infra_provider =
  provider_name :: string
  provider_type :: string
  im_url :: string
  im_token :: "string option"
  im_username :: "string option"
  im_password :: "string option"

record im_request =
  im_method :: string
  im_base :: string
  im_path :: "string list"
  im_query :: "(string, string) dict"
  im_authorization :: string
  im_body :: "yaml option"

datatype infra_request =
    Store_cluster infra_cluster
  | Store_status infra_cluster
  | Get_cluster "string option" string
  | Get_global_cloud string
  | Get_cloud "string option" string
  | Get_provider "string option" string
  | Get_global_provider string
  | Im im_request
  | Sleep_for int

type_synonym infra_log = "infra_request list"
type_synonym infra_session = "(infra_cluster, infra_request) session"

record infra_env =
  infra_update :: "infra_log \<Rightarrow> (exn, unit) res"
  infra_cloud_answer :: "infra_log \<Rightarrow> (exn, infra_cloud) res"
  infra_provider_answer :: "infra_log \<Rightarrow> (exn, infra_provider) res"
  im_answer :: "infra_log \<Rightarrow> (exn, yaml) res"
  im_text_answer :: "infra_log \<Rightarrow> (exn, string) res"
  url_path :: "string \<Rightarrow> string"
  load_yaml :: "string \<Rightarrow> yaml option"
  tosca_differs :: "yaml \<Rightarrow> yaml \<Rightarrow> bool"
  infra_interval :: int

section \<open>The authorization header\<close>

fun join_text :: "string \<Rightarrow> string list \<Rightarrow> string" where
  "join_text sep [] = []"
| "join_text sep [s] = s"
| "join_text sep (s # t # ss) = s @ sep @ join_text sep (t # ss)"

definition im_fields :: "(string \<times> string) list \<Rightarrow> string" where
  "im_fields fs = join_text '';'' (map (\<lambda>(k, v). k @ '' = '' @ v) fs)"

definition filled :: "string option \<Rightarrow> string option" where
  "filled s = (if s = Some [] then None else s)"

definition get_im_auth :: "infra_provider \<Rightarrow> (exn, string) res" where
  "get_im_auth p =
     (case filled (im_token p) of
        Some t \<Rightarrow> Inr (im_fields [(''id'', provider_name p), (''token'', t), (''type'', ''InfrastructureManager'')])
      | None \<Rightarrow>
          (case (filled (im_username p), filled (im_password p)) of
             (Some u, Some w) \<Rightarrow> Inr (im_fields
               [(''id'', provider_name p), (''username'', u), (''password'', w), (''type'', ''InfrastructureManager'')])
           | _ \<Rightarrow> Inl NotImplementedError))"

definition get_cloud_auth :: "infra_cloud \<Rightarrow> (exn, string) res" where
  "get_cloud_auth c =
     (if cloud_type c \<noteq> ''openstack'' \<or> cloud_auth_type c \<noteq> ''password'' then Inl NotImplementedError
      else Inr (im_fields
        [(''id'', name (metadata c)), (''host'', cloud_url c), (''auth_version'', cloud_auth_version c @ ''.x_password''),
         (''username'', cloud_username c), (''password'', cloud_password c), (''tenant'', cloud_project c),
         (''type'', ''OpenStack'')]))"

text \<open>The two parts are separated by a backslash and an \<open>n\<close>.\<close>

definition get_auth_header :: "infra_provider \<Rightarrow> infra_cloud \<Rightarrow> (exn, string) res" where
  "get_auth_header p c =
     res_bind (get_im_auth p) (\<lambda>a. res_bind (get_cloud_auth c) (\<lambda>b. Inr (join_text [CHR 0x5C, CHR ''n''] [a, b])))"

text \<open>The client that \<open>InfrastructureProvider(...)\<close> selects by the type of the provider.\<close>

record im_client =
  client_url :: string
  client_header :: string

definition select_provider :: "infra_provider \<Rightarrow> infra_cloud \<Rightarrow> (exn, im_client) res" where
  "select_provider p c =
     (if provider_type p \<noteq> ''im'' then Inl KeyError
      else res_bind (get_auth_header p c) (\<lambda>h. Inr \<lparr>client_url = im_url p, client_header = h\<rparr>))"

section \<open>Requests to IM\<close>

fun is_client_error :: "exn \<Rightarrow> bool" where
  "is_client_error (ClientError s) \<longleftrightarrow> True"
| "is_client_error (ClientResponseError s) \<longleftrightarrow> True"
| "is_client_error ClientConnectorError \<longleftrightarrow> True"
| "is_client_error ClientPayloadError \<longleftrightarrow> True"
| "is_client_error _ \<longleftrightarrow> False"

definition translate_error :: "exn \<Rightarrow> exn \<Rightarrow> exn" where
  "translate_error failed e = (if is_client_error e then failed else e)"

definition translate_missing :: "exn \<Rightarrow> exn \<Rightarrow> exn" where
  "translate_missing failed e =
     (if e = ClientResponseError 404 then InfrastructureProviderNotFoundError else translate_error failed e)"

definition im_call ::
  "(infra_log \<Rightarrow> (exn, 'a) res) \<Rightarrow> im_client \<Rightarrow> string \<Rightarrow> string list \<Rightarrow> (string, string) dict \<Rightarrow> yaml option \<Rightarrow>
     (exn \<Rightarrow> exn) \<Rightarrow> (infra_session, 'a) co" where
  "im_call answer im m segments query body translate =
     co_catch
       (ask_session answer (Im
         \<lparr>im_method = m, im_base = client_url im, im_path = ''infrastructures'' # segments, im_query = query,
          im_authorization = client_header im, im_body = body\<rparr>))
       (\<lambda>e. co_raise (translate e))"

text \<open>\<open>str.split\<close> with a separator that is not empty; \<open>skip\<close> counts what is left of a separator.\<close>

fun split_text :: "string \<Rightarrow> nat \<Rightarrow> string \<Rightarrow> string \<Rightarrow> string list" where
  "split_text sep skip acc [] = [acc]"
| "split_text sep (Suc skip) acc (c # s) = split_text sep skip acc s"
| "split_text sep 0 acc (c # s) =
     (if take (length sep) (c # s) = sep then acc # split_text sep (length sep - 1) [] s
      else split_text sep 0 (acc @ [c]) s)"

text \<open>The cluster identifier as a segment of a path; \<open>URL / None\<close> is a type error.\<close>

definition id_segment :: "(infra_session, string) co" where
  "id_segment =
     co_bind the_object (\<lambda>c. case cluster_id c of None \<Rightarrow> co_raise TypeError | Some i \<Rightarrow> co_return i)"

definition im_create :: "infra_env \<Rightarrow> im_client \<Rightarrow> (infra_session, string) co" where
  "im_create env im =
     co_bind the_object (\<lambda>c.
     co_bind (im_call (im_text_answer env) im ''POST'' [] [(''async'', ''true'')] (Some (infra_tosca c))
       (translate_error InfrastructureProviderCreateError)) (\<lambda>response.
     case split_text ''infrastructures/'' 0 [] (url_path env response) of
       [_, i] \<Rightarrow> co_return i
     | _ \<Rightarrow> co_raise ValueError))"

definition im_reconcile :: "infra_env \<Rightarrow> im_client \<Rightarrow> (infra_session, unit) co" where
  "im_reconcile env im =
     co_bind the_object (\<lambda>c.
     co_bind id_segment (\<lambda>i.
     im_call (infra_update env) im ''POST'' [i] [(''async'', ''true'')] (Some (infra_tosca c))
       (translate_error InfrastructureProviderReconcileError)))"

definition im_reconfigure :: "infra_env \<Rightarrow> im_client \<Rightarrow> (infra_session, unit) co" where
  "im_reconfigure env im =
     co_bind id_segment (\<lambda>i.
     im_call (infra_update env) im ''PUT'' [i, ''reconfigure''] [] None
       (translate_error InfrastructureProviderReconfigureError))"

definition im_delete :: "infra_env \<Rightarrow> im_client \<Rightarrow> (infra_session, unit) co" where
  "im_delete env im =
     co_bind id_segment (\<lambda>i.
     im_call (infra_update env) im ''DELETE'' [i] [(''async'', ''true'')] None
       (translate_missing InfrastructureProviderDeleteError))"

section \<open>The state of an infrastructure\<close>

datatype infra_state =
  Infra_PENDING | Infra_CREATING | Infra_CONFIGURED | Infra_UNCONFIGURED | Infra_DELETING | Infra_FAILED

definition im_states :: "(string \<times> infra_state) list" where
  "im_states =
     [(''PENDING'', Infra_PENDING), (''RUNNING'', Infra_CREATING), (''CONFIGURED'', Infra_CONFIGURED),
      (''DELETING'', Infra_DELETING), (''UNCONFIGURED'', Infra_UNCONFIGURED), (''UNKNOWN'', Infra_FAILED),
      (''STOPPED'', Infra_FAILED), (''OFF'', Infra_FAILED), (''FAILED'', Infra_FAILED)]"

definition upper_char :: "char \<Rightarrow> char" where
  "upper_char c = (if is_lower c then char_of (of_char c - (32 :: nat)) else c)"

fun upper_text :: "yaml \<Rightarrow> (exn, string) res" where
  "upper_text (Text s) = Inr (map upper_char s)"
| "upper_text v = Inl AttributeError"

text \<open>\<open>v.get(k, d)\<close> and \<open>v.values()\<close> of a dictionary.\<close>

fun value_or :: "string \<Rightarrow> yaml \<Rightarrow> yaml \<Rightarrow> (exn, yaml) res" where
  "value_or k d (Obj kvs) = Inr (case dict_get kvs k of None \<Rightarrow> d | Some v \<Rightarrow> v)"
| "value_or k d v = Inl AttributeError"

fun dict_values :: "yaml \<Rightarrow> (exn, yaml list) res" where
  "dict_values (Obj kvs) = Inr (map snd kvs)"
| "dict_values v = Inl AttributeError"

text \<open>One unconfigured virtual machine makes the infrastructure unconfigured.\<close>

definition read_state :: "yaml \<Rightarrow> (exn, infra_state) res" where
  "read_state state =
     res_bind (value_or ''state'' (Obj []) state) (\<lambda>inner.
     res_bind (value_or ''state'' Null inner) (\<lambda>overall.
     res_bind (value_or ''vm_states'' Null inner) (\<lambda>vms.
     if \<not> truth overall then Inl InfrastructureProviderRetrieveError
     else
       res_bind (if truth vms then dict_values vms else Inr []) (\<lambda>values.
       res_bind (upper_text (if Text ''unconfigured'' \<in> set values then Text ''unconfigured'' else overall)) (\<lambda>key.
       case dict_get im_states key of
         None \<Rightarrow> Inl InfrastructureProviderRetrieveError
       | Some s \<Rightarrow> Inr s)))))"

definition has_id :: "(infra_session, string) co" where
  "has_id =
     co_bind the_object (\<lambda>c.
     case filled (cluster_id c) of
       None \<Rightarrow> co_raise InfrastructureProviderRetrieveError
     | Some i \<Rightarrow> co_return i)"

definition get_infrastructure_state :: "infra_env \<Rightarrow> im_client \<Rightarrow> string \<Rightarrow> (infra_session, yaml) co" where
  "get_infrastructure_state env im i =
     im_call (im_answer env) im ''GET'' [i, ''state''] [] None (translate_missing InfrastructureProviderRetrieveError)"

definition im_get_state :: "infra_env \<Rightarrow> im_client \<Rightarrow> (infra_session, infra_state) co" where
  "im_get_state env im =
     co_bind has_id (\<lambda>i.
     co_bind (get_infrastructure_state env im i) (\<lambda>state. co_lift (read_state state)))"

text \<open>The kubeconfig is one of the outputs of the template, as a YAML text.\<close>

definition read_kubeconfig :: "infra_env \<Rightarrow> yaml \<Rightarrow> (exn, yaml) res" where
  "read_kubeconfig env response =
     res_bind (res_bind (value_or ''outputs'' (Obj []) response) (value_or ''kubeconfig'' Null)) (\<lambda>config.
     if \<not> truth config then Inl InfrastructureProviderRetrieveError
     else
       (case config of
          Text t \<Rightarrow>
            (case load_yaml env t of None \<Rightarrow> Inl InfrastructureProviderRetrieveError | Some v \<Rightarrow> Inr v)
        | _ \<Rightarrow> Inl AttributeError))"

definition im_get_kubeconfig :: "infra_env \<Rightarrow> im_client \<Rightarrow> (infra_session, yaml) co" where
  "im_get_kubeconfig env im =
     co_bind has_id (\<lambda>i.
     co_bind (im_call (im_answer env) im ''GET'' [i, ''outputs''] [] None
       (translate_missing InfrastructureProviderRetrieveError)) (\<lambda>response.
     co_lift (read_kubeconfig env response)))"

text \<open>The overall state, unless a virtual machine is unconfigured.\<close>

lemma read_state_exact:
  "read_state (Obj [(''state'', Obj [(''state'', Text s), (''vm_states'', Obj vms)])]) =
     (if s = [] then Inl InfrastructureProviderRetrieveError
      else if Text ''unconfigured'' \<in> snd ` set vms then Inr Infra_UNCONFIGURED
      else (case dict_get im_states (map upper_char s) of
              None \<Rightarrow> Inl InfrastructureProviderRetrieveError | Some n \<Rightarrow> Inr n))"
proof -
  have "map upper_char ''unconfigured'' = ''UNCONFIGURED''" by code_simp
  then have "dict_get im_states (map upper_char ''unconfigured'') = Some Infra_UNCONFIGURED" by (simp add: im_states_def)
  then show ?thesis by (auto simp: read_state_def simp del: list.map)
qed

end
