(* ===== verification/Infrastructure_Controller.thy ===== *)
theory Infrastructure_Controller
  imports Infrastructure_Provider Worker
begin

text \<open>
  The controller that creates, updates and deletes Kubernetes clusters through an infrastructure
  provider, \<open>krake/krake/controller/infrastructure/infrastructure.py\<close>. The cluster is an object that
  the handlers change in place, so it is part of the state.
\<close>

abbreviation infra_finalizer :: string where "infra_finalizer \<equiv> ''infrastructure_resources_deletion''"

section \<open>Requests\<close>

definition store_infra_cluster :: "infra_env \<Rightarrow> (infra_session, unit) co" where
  "store_infra_cluster env = co_bind the_object (\<lambda>c. ask_session (infra_update env) (Store_cluster c))"

definition store_infra_status :: "infra_env \<Rightarrow> (infra_session, unit) co" where
  "store_infra_status env = co_bind the_object (\<lambda>c. ask_session (infra_update env) (Store_status c))"

definition set_infra_state :: "infra_env \<Rightarrow> cluster_state \<Rightarrow> (infra_session, unit) co" where
  "set_infra_state env n = co_then (change_object (\<lambda>c. c\<lparr>cl_state := n\<rparr>)) (store_infra_status env)"

definition invalid_if_missing :: "exn \<Rightarrow> exn" where
  "invalid_if_missing e = (if e = ClientResponseError 404 then InvalidResourceError else e)"

definition get_cloud :: "infra_env \<Rightarrow> (infra_session, infra_cloud) co" where
  "get_cloud env =
     co_bind the_object (\<lambda>c.
     case cl_scheduled_to c of
       None \<Rightarrow> co_raise AttributeError
     | Some r \<Rightarrow>
         if ref_kind r = global_cloud_kind
         then co_catch (ask_session (infra_cloud_answer env) (Get_global_cloud (ref_name r))) (\<lambda>e. co_raise (invalid_if_missing e))
         else if ref_kind r = cloud_kind
         then co_catch (ask_session (infra_cloud_answer env) (Get_cloud (ref_namespace r) (ref_name r)))
           (\<lambda>e. co_raise (invalid_if_missing e))
         else co_raise InvalidResourceError)"

text \<open>A provider of the namespace of the cloud is preferred to a global one of the same name.\<close>

definition get_infrastructure_provider :: "infra_env \<Rightarrow> infra_cloud \<Rightarrow> (infra_session, infra_provider) co" where
  "get_infrastructure_provider env cloud =
     (if cloud_type cloud \<noteq> ''openstack'' then co_raise InvalidResourceError
      else
        co_catch (ask_session (infra_provider_answer env) (Get_provider (namespace (metadata cloud)) (cloud_provider cloud)))
          (\<lambda>e. if e \<noteq> ClientResponseError 404 then co_raise e
               else
                 co_catch (ask_session (infra_provider_answer env) (Get_global_provider (cloud_provider cloud)))
                   (\<lambda>e. co_raise (invalid_if_missing e))))"

definition infra_sleep :: "infra_env \<Rightarrow> (infra_session, unit) co" where
  "infra_sleep env = ask_session (\<lambda>_. Inr ()) (Sleep_for (infra_interval env))"

section \<open>Actions\<close>

definition on_create :: "infra_env \<Rightarrow> im_client \<Rightarrow> (infra_session, unit) co" where
  "on_create env im =
     co_then (set_infra_state env Cl_CREATING)
       (co_bind (im_create env im) (\<lambda>i.
        co_then
          (change_object (\<lambda>c. c\<lparr>cluster_id := Some i, running_on := cl_scheduled_to c, last_applied_tosca := infra_tosca c\<rparr>))
          (store_infra_status env)))"

definition on_reconcile :: "infra_env \<Rightarrow> im_client \<Rightarrow> (infra_session, unit) co" where
  "on_reconcile env im =
     co_then (set_infra_state env Cl_RECONCILING)
       (co_then (im_reconcile env im)
         (co_then (change_object (\<lambda>c. c\<lparr>last_applied_tosca := infra_tosca c\<rparr>)) (store_infra_status env)))"

text \<open>The \<open>else\<close> of a \<open>try\<close> is not protected by its handlers.\<close>

definition on_reconfigure :: "infra_env \<Rightarrow> im_client \<Rightarrow> (infra_session, unit) co" where
  "on_reconfigure env im =
     co_then
       (co_catch (im_reconfigure env im)
         (\<lambda>e. if e = InfrastructureProviderReconfigureError
              then co_then (set_infra_state env Cl_FAILING_RECONCILIATION) (co_raise e)
              else co_raise e))
       (set_infra_state env Cl_RECONCILING)"

definition forget_infrastructure :: "infra_cluster \<Rightarrow> infra_cluster" where
  "forget_infrastructure c = c\<lparr>cluster_id := None, running_on := None, last_applied_tosca := Obj []\<rparr>"

definition poll_connecting :: "infra_env \<Rightarrow> im_client \<Rightarrow> (infra_session, unit option) co" where
  "poll_connecting env im =
     co_bind
       (co_catch (im_get_state env im)
         (\<lambda>e. if e = InfrastructureProviderNotFoundError
              then co_then (change_object forget_infrastructure) (co_then (set_infra_state env Cl_PENDING) (co_raise e))
              else if e = InfrastructureProviderRetrieveError
              then co_then (set_infra_state env Cl_FAILING_RECONCILIATION) (co_raise InfrastructureProviderReconcileError)
              else co_raise e)) (\<lambda>n.
     case n of
       Infra_UNCONFIGURED \<Rightarrow>
         co_then (set_infra_state env Cl_FAILING_RECONCILIATION) (co_raise InfrastructureProviderReconcileError)
     | Infra_FAILED \<Rightarrow> co_raise InfrastructureProviderReconcileError
     | Infra_CONFIGURED \<Rightarrow> co_return (Some ())
     | _ \<Rightarrow> co_then (infra_sleep env) (co_return None))"

definition wait_for_connecting :: "infra_env \<Rightarrow> im_client \<Rightarrow> (infra_session, unit) co" where
  "wait_for_connecting env im = co_then (co_loop (poll_connecting env im)) (set_infra_state env Cl_CONNECTING)"

definition reconcile_cluster_resource :: "infra_env \<Rightarrow> im_client \<Rightarrow> (infra_session, unit) co" where
  "reconcile_cluster_resource env im =
     co_bind the_object (\<lambda>c.
     if cl_state c \<noteq> Cl_CONNECTING then co_return ()
     else
       co_bind (im_get_kubeconfig env im) (\<lambda>config.
       co_then (change_object (\<lambda>c. c\<lparr>spec_kubeconfig := config\<rparr>))
         (co_catch (store_infra_cluster env)
           (\<lambda>e. if e = ClientResponseError 400 then co_return () else co_raise e))))"

section \<open>Reconciliation\<close>

definition ensure_infra_finalizer :: "infra_env \<Rightarrow> (infra_session, unit) co" where
  "ensure_infra_finalizer env =
     co_bind the_object (\<lambda>c.
     if infra_finalizer \<in> set (finalizers (metadata c)) then co_return ()
     else
       co_then (change_object (\<lambda>c. c\<lparr>metadata := (metadata c)\<lparr>finalizers := finalizers (metadata c) @ [infra_finalizer]\<rparr>\<rparr>))
         (store_infra_cluster env))"

definition await_cluster :: "infra_env \<Rightarrow> im_client \<Rightarrow> (infra_session, unit) co" where
  "await_cluster env im = co_then (wait_for_connecting env im) (reconcile_cluster_resource env im)"

definition reconcile_cluster :: "infra_env \<Rightarrow> im_client \<Rightarrow> (infra_session, unit) co" where
  "reconcile_cluster env im =
     co_bind the_object (\<lambda>c.
     if tosca_differs env (infra_tosca c) (last_applied_tosca c)
     then
       co_then (ensure_infra_finalizer env)
         (co_then (if running_on c = None then on_create env im else on_reconcile env im) (await_cluster env im))
     else if cl_state c = Cl_FAILING_RECONCILIATION then co_then (on_reconfigure env im) (await_cluster env im)
     else if cl_state c = Cl_ONLINE \<or> cl_state c = Cl_CONNECTING then co_return ()
     else await_cluster env im)"

section \<open>Deletion\<close>

definition poll_infra_deleted :: "infra_env \<Rightarrow> im_client \<Rightarrow> (infra_session, unit option) co" where
  "poll_infra_deleted env im =
     co_bind
       (co_catch (co_bind (im_get_state env im) (\<lambda>n. co_return (Some n)))
         (\<lambda>e. if e = InfrastructureProviderNotFoundError then co_return None else co_raise e)) (\<lambda>r.
     case r of
       None \<Rightarrow> co_return (Some ())
     | Some n \<Rightarrow>
         if n = Infra_FAILED then co_raise InfrastructureProviderDeleteError
         else co_then (infra_sleep env) (co_return None))"

definition delete_infrastructure :: "infra_env \<Rightarrow> im_client \<Rightarrow> (infra_session, unit) co" where
  "delete_infrastructure env im =
     co_bind the_object (\<lambda>c.
     if filled (cluster_id c) = None \<or> cl_state c = Cl_PENDING then co_return ()
     else
       co_then
         (if cl_state c = Cl_DELETING then co_return ()
          else
            co_then
              (co_catch (im_delete env im)
                (\<lambda>e. if e = InfrastructureProviderNotFoundError then co_return () else co_raise e))
              (set_infra_state env Cl_DELETING))
         (co_loop (poll_infra_deleted env im)))"

definition drop_infra_finalizer :: "infra_env \<Rightarrow> (infra_session, unit) co" where
  "drop_infra_finalizer env =
     co_bind the_object (\<lambda>c.
     if infra_finalizer \<notin> set (finalizers (metadata c)) then co_raise ValueError
     else
       co_then (change_object (\<lambda>c. c\<lparr>metadata := (metadata c)\<lparr>finalizers := remove1 infra_finalizer (finalizers (metadata c))\<rparr>\<rparr>))
         (store_infra_cluster env))"

definition delete_infra_cluster :: "infra_env \<Rightarrow> im_client \<Rightarrow> (infra_session, unit) co" where
  "delete_infra_cluster env im =
     co_bind the_object (\<lambda>c.
     co_bind
       (co_catch
         (co_then (ask_session (infra_update env) (Get_cluster (namespace (metadata c)) (name (metadata c)))) (co_return True))
         (\<lambda>e. if e = ClientResponseError 404 then co_return False else co_raise e)) (\<lambda>exists.
     if exists then co_then (delete_infrastructure env im) (drop_infra_finalizer env) else co_return ()))"

section \<open>Workers\<close>

definition handle_infra :: "infra_env \<Rightarrow> (infra_session, unit) co" where
  "handle_infra env =
     co_bind (get_cloud env) (\<lambda>cloud.
     co_bind (get_infrastructure_provider env cloud) (\<lambda>p.
     co_bind (co_lift (select_provider p cloud)) (\<lambda>im.
     co_bind the_object (\<lambda>c.
     if deleted (metadata c) \<noteq> None then delete_infra_cluster env im else reconcile_cluster env im))))"

text \<open>An exception that is not a \<open>ControllerError\<close> ends the worker.\<close>

definition process_cluster :: "infra_env \<Rightarrow> (infra_session, unit) co" where
  "process_cluster env =
     co_catch (handle_infra env)
       (\<lambda>e. case controller_error e of
          None \<Rightarrow> co_raise e
        | Some code \<Rightarrow>
            co_then (change_object (\<lambda>c. c\<lparr>cl_reason := code, cl_state := Cl_FAILED\<rparr>)) (store_infra_status env))"

type_synonym infra_queue = "(string, infra_cluster) work_queue"

text \<open>What the reflector puts into the queue; deleted clusters are delayed by five seconds.\<close>

definition enqueue_infra :: "infra_cluster \<Rightarrow> infra_queue \<Rightarrow> infra_queue" where
  "enqueue_infra c q =
     (if deleted (metadata c) \<noteq> None
      then
        (if finalizers (metadata c) \<noteq> [] \<and> last (finalizers (metadata c)) = infra_finalizer
         then wq_put (uid (metadata c)) c (Some 5) q
         else q)
      else if cl_state c = Cl_FAILED then q
      else if cl_scheduled_to c \<noteq> None then wq_put (uid (metadata c)) c None q
      else q)"

text \<open>
  A turn of a worker, as \<open>handle_resource\<close> does it: what the reflector puts into the queue while the
  cluster is processed is the parameter \<open>arrivals\<close>, and \<open>h\<close> are the requests of the turns before.
\<close>

definition infra_turn ::
  "infra_env \<Rightarrow> infra_log \<Rightarrow> (infra_cluster \<Rightarrow> infra_cluster list) \<Rightarrow> infra_cluster \<Rightarrow> infra_queue \<Rightarrow>
     ((exn, unit) res \<times> infra_session) option \<times> infra_queue" where
  "infra_turn env h arrivals c q =
     (process_cluster env \<lparr>handled_object = c, requests_made = h\<rparr>, fold enqueue_infra (arrivals c) q)"

definition handle_infra_resource ::
  "infra_env \<Rightarrow> infra_log \<Rightarrow> (infra_cluster \<Rightarrow> infra_cluster list) \<Rightarrow> infra_queue \<Rightarrow>
     ((exn, ((exn, unit) res \<times> infra_session) option) res \<times> infra_queue) option" where
  "handle_infra_resource env h arrivals = worker_turn (infra_turn env h arrivals)"

lemma enqueue_infra_inv: "wq_inv P q \<Longrightarrow> wq_inv P (enqueue_infra c q)"
  by (simp add: enqueue_infra_def wq_inv_put)

interpretation infra_worker: queue_worker "infra_turn env h arrivals" for env h arrivals
proof
  fix P c q assume q: "wq_inv P (q :: infra_queue)"
  have "wq_inv P (fold enqueue_infra cs q)" for cs
    using q by (induction cs arbitrary: q) (simp_all add: enqueue_infra_inv)
  then show "wq_inv P (snd (infra_turn env h arrivals c q))" by (simp add: infra_turn_def)
qed

end
