(* ===== verification/Infrastructure_Safety.thy ===== *)
theory Infrastructure_Safety
  imports Infrastructure_Controller
begin

text \<open>
  The properties of the infrastructure controller: the state in which a worker leaves a cluster,
  what has to come before IM is asked to make something, that the finalizer is removed last, and
  that a turn ends when IM does.
\<close>

section \<open>What is kept\<close>

abbreviation keeps_status :: "(infra_session, 'a) co \<Rightarrow> bool" where
  "keeps_status \<equiv> keeps (\<lambda>s t. cl_state (handled_object t) = cl_state (handled_object s))"

abbreviation keeps_deletion :: "(infra_session, 'a) co \<Rightarrow> bool" where
  "keeps_deletion \<equiv> keeps (\<lambda>s t. deleted (metadata (handled_object t)) = deleted (metadata (handled_object s)))"

text \<open>What is looked up before the cluster is handled changes nothing.\<close>

fun lookup :: "infra_request \<Rightarrow> bool" where
  "lookup (Get_global_cloud n) \<longleftrightarrow> True"
| "lookup (Get_cloud ns n) \<longleftrightarrow> True"
| "lookup (Get_provider ns n) \<longleftrightarrow> True"
| "lookup (Get_global_provider n) \<longleftrightarrow> True"
| "lookup _ \<longleftrightarrow> False"

definition looks_up :: "infra_session \<Rightarrow> infra_session \<Rightarrow> bool" where
  "looks_up s t \<longleftrightarrow> handled_object t = handled_object s \<and> adds lookup s t"

interpretation looks_up: state_relation looks_up
  by unfold_locales (auto simp: looks_up_def adds.R_refl elim: adds.R_trans)

lemma looks_up_ask: "lookup r \<Longrightarrow> keeps looks_up (ask_session answer r)" "keeps looks_up the_object"
  by (rule keepsI, simp add: post_request post_object looks_up_def adds_def)+

lemma looks_up_get: "keeps looks_up (get_cloud env)" "keeps looks_up (get_infrastructure_provider env cloud)"
  unfolding get_cloud_def get_infrastructure_provider_def
  by (auto intro!: looks_up.keeps_intros looks_up_ask split: option.split)

lemma handle_post:
  assumes raised: "\<And>e t. looks_up s t \<Longrightarrow> Q (Inl e) t"
    and chosen: "\<And>im t. looks_up s t \<Longrightarrow>
      post (if deleted (metadata (handled_object s)) \<noteq> None then delete_infra_cluster env im else reconcile_cluster env im) t Q"
  shows "post (handle_infra env) s Q"
proof -
  have choose: "post (co_bind (co_lift (select_provider p cloud)) (\<lambda>im. co_bind the_object (\<lambda>c.
      if deleted (metadata c) \<noteq> None then delete_infra_cluster env im else reconcile_cluster env im))) t Q"
    if t: "looks_up s t" for p cloud t
  proof -
    from t have "handled_object t = handled_object s" by (simp add: looks_up_def)
    with raised [OF t] chosen [OF t] show ?thesis by (simp add: post_bind post_lift post_object split: sum.split)
  qed
  have get: "post (co_bind (get_infrastructure_provider env cloud) (\<lambda>p. co_bind (co_lift (select_provider p cloud))
      (\<lambda>im. co_bind the_object (\<lambda>c. if deleted (metadata c) \<noteq> None then delete_infra_cluster env im
        else reconcile_cluster env im)))) t Q"
    if "looks_up s t" for cloud t
    by (rule post_bindI [OF looks_up.keeps_after [OF looks_up_get(2) that] raised choose])
  show ?thesis
    unfolding handle_infra_def by (rule post_bindI [OF keeps_post [OF looks_up_get(1)] raised get])
qed

lemma status_ask: "keeps_status (ask_session answer r)" "keeps_status the_object"
  "(\<And>c. cl_state (f c) = cl_state c) \<Longrightarrow> keeps_status (change_object f)"
  by (rule keepsI, simp add: post_request post_object post_change)+

lemma deletion_ask: "keeps_deletion (ask_session answer r)" "keeps_deletion the_object"
  "(\<And>c. deleted (metadata (f c)) = deleted (metadata c)) \<Longrightarrow> keeps_deletion (change_object f)"
  by (rule keepsI, simp add: post_request post_object post_change)+

lemmas deletion_intros = unchanged.keeps_intros deletion_ask

lemma status_kubeconfig: "keeps_status (reconcile_cluster_resource env im)"
  unfolding reconcile_cluster_resource_def im_get_kubeconfig_def has_id_def im_call_def store_infra_cluster_def
  by (auto intro!: unchanged.keeps_intros status_ask split: option.split)

lemma deletion_status: "keeps_deletion (set_infra_state env n)" "keeps_deletion (store_infra_status env)"
  "keeps_deletion (store_infra_cluster env)"
  unfolding set_infra_state_def store_infra_status_def store_infra_cluster_def by (auto intro!: deletion_intros)

lemma deletion_call: "keeps_deletion (im_call answer im m i query body f)"
  unfolding im_call_def by (auto intro!: deletion_intros)

lemma deletion_id: "keeps_deletion id_segment" "keeps_deletion has_id"
  unfolding id_segment_def has_id_def by (auto intro!: deletion_intros split: option.split)

lemma deletion_im_state: "keeps_deletion (im_get_state env im)"
  unfolding im_get_state_def get_infrastructure_state_def by (auto intro!: deletion_intros deletion_call deletion_id)

lemma deletion_await: "keeps_deletion (await_cluster env im)"
  unfolding await_cluster_def wait_for_connecting_def poll_connecting_def reconcile_cluster_resource_def im_get_kubeconfig_def
    infra_sleep_def forget_infrastructure_def
  by (auto intro!: deletion_intros deletion_status deletion_call deletion_id deletion_im_state split: infra_state.split)

lemma deletion_create: "keeps_deletion (on_create env im)"
  unfolding on_create_def im_create_def
  by (auto intro!: deletion_intros deletion_status deletion_call split: list.split)

lemma deletion_update: "keeps_deletion (on_reconcile env im)" "keeps_deletion (on_reconfigure env im)"
  unfolding on_reconcile_def on_reconfigure_def im_reconcile_def im_reconfigure_def
  by (auto intro!: deletion_intros deletion_status deletion_call deletion_id)

lemma deletion_reconcile: "keeps_deletion (reconcile_cluster env im)"
  unfolding reconcile_cluster_def ensure_infra_finalizer_def
  by (auto intro!: deletion_intros deletion_status deletion_await deletion_create deletion_update)

section \<open>The state after a turn\<close>

lemma connected_after: "post (await_cluster env im) s (\<lambda>r t. r = Inr () \<longrightarrow> cl_state (handled_object t) = Cl_CONNECTING)"
proof -
  have connecting: "post (set_infra_state env Cl_CONNECTING) t (\<lambda>r t. cl_state (handled_object t) = Cl_CONNECTING)"
    for t
    by (simp add: set_infra_state_def store_infra_status_def post_simps)
  have "post (wait_for_connecting env im) s (\<lambda>r t. r = Inr () \<longrightarrow> cl_state (handled_object t) = Cl_CONNECTING)"
    unfolding wait_for_connecting_def by (rule post_last_then) (auto intro: post_mono [OF connecting])
  then show ?thesis
    unfolding await_cluster_def
  proof (rule post_thenI)
    fix t :: infra_session assume t: "Inr () = Inr () \<longrightarrow> cl_state (handled_object t) = Cl_CONNECTING"
    show "post (reconcile_cluster_resource env im) t (\<lambda>r t. r = Inr () \<longrightarrow> cl_state (handled_object t) = Cl_CONNECTING)"
      by (rule post_mono [OF keeps_post [OF status_kubeconfig]]) (use t in simp)
  qed simp
qed

lemma reconcile_post:
  assumes "\<And>t. post (await_cluster env im) t Q" and "\<And>e t. Q (Inl e) t"
    and "cl_state (handled_object s) \<in> {Cl_ONLINE, Cl_CONNECTING} \<Longrightarrow> Q (Inr ()) s"
  shows "post (reconcile_cluster env im) s Q"
proof -
  have last: "post (co_then m (await_cluster env im)) t Q" for m t
    by (rule post_last_then) (rule assms(2), rule assms(1))
  have "post (co_then n (co_then m (await_cluster env im))) t Q" for m n t
    by (rule post_last_then) (rule assms(2), rule last)
  with last assms(1,3) show ?thesis unfolding reconcile_cluster_def by (simp add: post_bind post_object post_return)
qed

lemma reconciled:
  "post (reconcile_cluster env im) s (\<lambda>r t. r = Inr () \<longrightarrow> cl_state (handled_object t) = Cl_CONNECTING \<or>
     (cl_state (handled_object s) = Cl_ONLINE \<and> handled_object t = handled_object s))"
  by (rule reconcile_post) (auto intro: post_mono [OF connected_after])

lemma handled_reconcile:
  assumes "deleted (metadata (handled_object s)) = None"
  shows "post (handle_infra env) s (\<lambda>r t. deleted (metadata (handled_object t)) = None \<and>
    (r = Inr () \<longrightarrow> cl_state (handled_object t) = Cl_CONNECTING \<or>
     (cl_state (handled_object s) = Cl_ONLINE \<and> handled_object t = handled_object s)))" (is "post _ _ ?Q")
proof -
  have reconcile: "post (reconcile_cluster env im) t ?Q" if "handled_object t = handled_object s" for im t
    by (rule post_mono [OF post_conj [OF keeps_post [OF deletion_reconcile] reconciled]]) (use assms that in auto)
  show ?thesis
    by (rule handle_post) (use assms reconcile in \<open>auto simp: looks_up_def\<close>)
qed

text \<open>
  C12. A worker that has handled a cluster that is not in deletion leaves it failed, with the failure
  stored as the last request, or connecting, or online as it was. So a cluster is never left
  in the state of a failing reconciliation, whatever was stored in between, and one with
  which something has failed is not put into the queue again.
\<close>

theorem infra_outcome:
  assumes "process_cluster env (fresh_session c) = Some (Inr (), s)" and "deleted (metadata c) = None"
  shows "(cl_state (handled_object s) = Cl_FAILED \<and> (\<exists>h. requests_made s = h @ [Store_status (handled_object s)]) \<and>
      (\<forall>q. enqueue_infra (handled_object s) q = q)) \<or>
    cl_state (handled_object s) = Cl_CONNECTING \<or> (cl_state c = Cl_ONLINE \<and> handled_object s = c)"
proof -
  let ?Q = "\<lambda>r s. r = Inr () \<longrightarrow> (cl_state (handled_object s) = Cl_FAILED \<and>
      (\<exists>h. requests_made s = h @ [Store_status (handled_object s)]) \<and> (\<forall>q. enqueue_infra (handled_object s) q = q)) \<or>
    cl_state (handled_object s) = Cl_CONNECTING \<or> (cl_state c = Cl_ONLINE \<and> handled_object s = c)"
  have fail: "post (co_then (change_object (\<lambda>c. c\<lparr>cl_reason := code, cl_state := Cl_FAILED\<rparr>)) (store_infra_status env)) t ?Q"
    if "deleted (metadata (handled_object t)) = None" for code t
    using that by (auto simp: store_infra_status_def post_simps enqueue_infra_def)
  have "post (process_cluster env) (fresh_session c) ?Q"
    unfolding process_cluster_def post_catch
    by (rule post_mono [OF handled_reconcile])
      (use assms(2) fail in \<open>auto simp: post_raise split: sum.split option.split\<close>)
  from postD [OF this assms(1)] show ?thesis by simp
qed

section \<open>The finalizer guards what is created\<close>

text \<open>The requests that make IM create or update an infrastructure, and those that create one.\<close>

fun provisions :: "infra_request \<Rightarrow> bool" where
  "provisions (Im q) \<longleftrightarrow> im_body q \<noteq> None"
| "provisions _ \<longleftrightarrow> False"

fun creates :: "infra_request \<Rightarrow> bool" where
  "creates (Im q) \<longleftrightarrow> im_path q = [''infrastructures'']"
| "creates _ \<longleftrightarrow> False"

fun storing :: "infra_request \<Rightarrow> bool" where
  "storing (Store_cluster c) \<longleftrightarrow> True"
| "storing _ \<longleftrightarrow> False"

definition infra_guarded :: "infra_env \<Rightarrow> infra_cluster \<Rightarrow> infra_log \<Rightarrow> bool" where
  "infra_guarded env c g \<longleftrightarrow>
     infra_finalizer \<in> set (finalizers (metadata c)) \<or>
     stored_before Store_cluster (infra_update env) (\<lambda>x. infra_finalizer \<in> set (finalizers (metadata x))) g"

text \<open>What the decision to provision needs, and what a creation needs beyond it.\<close>

definition may_provision :: "infra_env \<Rightarrow> infra_cluster \<Rightarrow> infra_log \<Rightarrow> bool" where
  "may_provision env c g \<longleftrightarrow>
     deleted (metadata c) = None \<and> tosca_differs env (infra_tosca c) (last_applied_tosca c) \<and> infra_guarded env c g"

definition may_create :: "infra_env \<Rightarrow> infra_cluster \<Rightarrow> infra_log \<Rightarrow> bool" where
  "may_create env c g \<longleftrightarrow>
     running_on c = None \<and> stored_before Store_status (infra_update env) (\<lambda>x. cl_state x = Cl_CREATING) g"

definition permitted :: "infra_env \<Rightarrow> infra_cluster \<Rightarrow> infra_log \<Rightarrow> bool" where
  "permitted env c h \<longleftrightarrow> preceded provisions (may_provision env c) h \<and> preceded creates (may_create env c) h"

abbreviation other :: "infra_request \<Rightarrow> bool" where
  "other r \<equiv> \<not> provisions r \<and> \<not> creates r \<and> \<not> storing r"

lemma other_status: "keeps (adds other) (set_infra_state env n)" "keeps (adds other) (store_infra_status env)"
  unfolding set_infra_state_def store_infra_status_def by (auto intro!: adds_intros)

lemma other_call: "i \<noteq> [] \<Longrightarrow> keeps (adds other) (im_call answer im m i query None f)"
  unfolding im_call_def by (auto intro!: adds_intros)

lemma other_id: "keeps (adds other) id_segment" "keeps (adds other) has_id"
  unfolding id_segment_def has_id_def by (auto intro!: adds_intros split: option.split)

lemma other_state: "keeps (adds other) (im_get_state env im)"
  unfolding im_get_state_def get_infrastructure_state_def by (auto intro!: adds_intros other_call other_id)

lemma other_sleep: "keeps (adds other) (infra_sleep env)"
  unfolding infra_sleep_def by (auto intro!: adds_intros)

lemma other_wait: "keeps (adds other) (wait_for_connecting env im)"
  unfolding wait_for_connecting_def poll_connecting_def
  by (auto intro!: adds_intros other_state other_status other_sleep split: infra_state.split)

lemma other_reconfigure: "keeps (adds other) (on_reconfigure env im)"
  unfolding on_reconfigure_def im_reconfigure_def
  by (auto intro!: adds_intros other_status other_call other_id)

lemma other_delete: "keeps (adds other) (delete_infrastructure env im)"
  unfolding delete_infrastructure_def poll_infra_deleted_def im_delete_def
  by (auto intro!: adds_intros other_state other_status other_sleep other_call other_id split: option.split)

abbreviation harmless :: "infra_request \<Rightarrow> bool" where
  "harmless r \<equiv> \<not> provisions r \<and> \<not> creates r"

lemma harmless_store: "keeps (adds harmless) (store_infra_cluster env)"
  unfolding store_infra_cluster_def by (auto intro!: adds_intros)

lemma harmless_await: "keeps (adds harmless) (await_cluster env im)"
  unfolding await_cluster_def reconcile_cluster_resource_def im_get_kubeconfig_def
  by (auto intro!: adds_intros adds_weaken [OF other_wait] harmless_store adds_weaken [OF other_call] adds_weaken [OF other_id(2)])

lemma harmless_delete: "keeps (adds harmless) (delete_infra_cluster env im)"
  unfolding delete_infra_cluster_def drop_infra_finalizer_def
  by (auto intro!: adds_intros adds_weaken [OF other_delete] harmless_store)

lemma harmless_ensure: "keeps (adds harmless) (ensure_infra_finalizer env)"
  unfolding ensure_infra_finalizer_def by (auto intro!: adds_intros harmless_store)

lemma harmless_lookup: "lookup r \<Longrightarrow> other r"
  by (cases r) simp_all

lemma adds_create: "keeps (adds (\<lambda>r. True)) (on_create env im)"
  unfolding on_create_def im_create_def im_call_def
  by (auto intro!: adds_intros adds_weaken [OF other_status(1)] adds_weaken [OF other_status(2)] split: list.split)

lemma adds_reconcile: "keeps (adds (\<lambda>r. \<not> creates r)) (on_reconcile env im)"
  unfolding on_reconcile_def im_reconcile_def im_call_def
  by (auto intro!: adds_intros adds_weaken [OF other_status(1)] adds_weaken [OF other_status(2)] adds_weaken [OF other_id(1)])

lemma infra_guarded_append: "infra_guarded env c g \<Longrightarrow> infra_guarded env c (g @ es)"
  by (auto simp: infra_guarded_def intro: stored_before_append)

lemma may_append:
  "may_provision env c g \<Longrightarrow> may_provision env c (g @ es)" "may_create env c g \<Longrightarrow> may_create env c (g @ es)"
  by (auto simp: may_provision_def may_create_def intro: infra_guarded_append stored_before_append)

lemma permitted_keeps:
  "keeps (adds harmless) m \<Longrightarrow> permitted env c (requests_made s) \<Longrightarrow> post m s (\<lambda>r t. permitted env c (requests_made t))"
  by (drule keeps_post, erule post_mono) (auto simp: adds_def permitted_def list_all_iff intro!: preceded_quiet)

lemma permitted_ensure:
  assumes "permitted env c (requests_made s)" and "handled_object s = c"
    and "deleted (metadata c) = None" and "tosca_differs env (infra_tosca c) (last_applied_tosca c)"
  shows "post (ensure_infra_finalizer env) s (\<lambda>r t. permitted env c (requests_made t) \<and>
    (r = Inr () \<longrightarrow> may_provision env c (requests_made t)))"
proof (cases "infra_finalizer \<in> set (finalizers (metadata c))")
  case True
  with assms show ?thesis
    by (simp add: ensure_infra_finalizer_def post_simps infra_guarded_def may_provision_def)
next
  case False
  with assms show ?thesis
    by (auto simp: ensure_infra_finalizer_def store_infra_cluster_def post_simps infra_guarded_def may_provision_def permitted_def
        intro!: preceded_quiet stored_before_now)
qed

lemma permitted_create:
  assumes "permitted env c (requests_made s)" and "may_provision env c (requests_made s)" and "running_on c = None"
  shows "post (on_create env im) s (\<lambda>r t. permitted env c (requests_made t))"
proof -
  have "post (set_infra_state env Cl_CREATING) s (\<lambda>r t. permitted env c (requests_made t) \<and>
      may_provision env c (requests_made t) \<and> (r = Inr () \<longrightarrow> may_create env c (requests_made t)))"
    using assms
    by (auto simp: set_infra_state_def store_infra_status_def post_simps permitted_def may_create_def
        intro!: preceded_quiet stored_before_now may_append)
  then show ?thesis
    unfolding on_create_def
  proof (rule post_thenI)
    fix t :: infra_session assume t: "permitted env c (requests_made t) \<and>
      may_provision env c (requests_made t) \<and> (Inr () = Inr () \<longrightarrow> may_create env c (requests_made t))"
    have rest: "keeps (adds (\<lambda>r. True)) (co_bind (im_create env im) (\<lambda>i. co_then
        (change_object (\<lambda>c. c\<lparr>cluster_id := Some i, running_on := cl_scheduled_to c, last_applied_tosca := infra_tosca c\<rparr>))
        (store_infra_status env)))"
      unfolding im_create_def im_call_def store_infra_status_def by (auto intro!: adds_intros split: list.split)
    show "post (co_bind (im_create env im) (\<lambda>i. co_then
        (change_object (\<lambda>c. c\<lparr>cluster_id := Some i, running_on := cl_scheduled_to c, last_applied_tosca := infra_tosca c\<rparr>))
        (store_infra_status env))) t (\<lambda>r t. permitted env c (requests_made t))"
      by (rule post_mono [OF keeps_post [OF rest]])
        (use t in \<open>auto simp: adds_def permitted_def intro!: preceded_after may_append\<close>)
  qed simp
qed

lemma permitted_update:
  assumes "permitted env c (requests_made s)" and "may_provision env c (requests_made s)"
  shows "post (on_reconcile env im) s (\<lambda>r t. permitted env c (requests_made t))"
proof (rule post_mono [OF keeps_post [OF adds_reconcile]])
  fix r and t :: infra_session assume "adds (\<lambda>r. \<not> creates r) s t"
  then obtain es where "requests_made t = requests_made s @ es" "list_all (\<lambda>r. \<not> creates r) es" by (auto simp: adds_def)
  with assms preceded_after [of provisions "may_provision env c" "requests_made s" es]
    preceded_quiet [of creates "may_create env c" "requests_made s" es]
  show "permitted env c (requests_made t)" by (simp add: permitted_def may_append)
qed

lemma permitted_reconcile:
  assumes "permitted env c (requests_made s)" and "handled_object s = c" and "deleted (metadata c) = None"
  shows "post (reconcile_cluster env im) s (\<lambda>r t. permitted env c (requests_made t))"
proof -
  let ?Q = "\<lambda>r t. permitted env c (requests_made t)"
  have await: "post (await_cluster env im) t ?Q" if "permitted env c (requests_made t)" for t
    using harmless_await that by (rule permitted_keeps)
  have reconfigure: "keeps (adds harmless) (on_reconfigure env im)"
    by (rule adds_weaken [OF other_reconfigure]) simp
  have act: "post (co_then (if running_on c = None then on_create env im else on_reconcile env im) (await_cluster env im)) t ?Q"
    if "permitted env c (requests_made t)" "may_provision env c (requests_made t)" for t
    by (rule post_thenI [where P = ?Q]) (use that in \<open>auto intro: permitted_create permitted_update await\<close>)
  have changed: "post (co_then (ensure_infra_finalizer env)
      (co_then (if running_on c = None then on_create env im else on_reconcile env im) (await_cluster env im))) s ?Q"
    if "tosca_differs env (infra_tosca c) (last_applied_tosca c)"
    by (rule post_thenI [OF permitted_ensure [OF assms that]], simp, rule act, simp_all)
  have "post (co_then (on_reconfigure env im) (await_cluster env im)) s ?Q"
    by (rule post_thenI [OF permitted_keeps [OF reconfigure assms(1)]], simp, rule await)
  with changed await [OF assms(1)] assms(1,2) show ?thesis
    unfolding reconcile_cluster_def post_bind post_object sum.case by (simp del: if_split add: post_return if_split [of "\<lambda>m. post m s ?Q"])
qed

text \<open>
  C11. IM is asked to create or to update an infrastructure only for a cluster that is not in deletion
  and whose template is not the one applied last, and only if the cluster had the finalizer of
  the controller from the start or the API has stored it with the finalizer before. A creation,
  moreover, is only asked for if the cluster runs nowhere, after the API has stored that it is
  in creation.
\<close>

theorem infra_creation_guarded:
  assumes "process_cluster env (fresh_session c) = Some (r, s)"
    and "requests_made s = g @ q # es" and "provisions q \<or> creates q"
  shows "(provisions q \<longrightarrow> may_provision env c g) \<and> (creates q \<longrightarrow> may_create env c g)"
proof -
  let ?Q = "\<lambda>r t. permitted env c (requests_made t)"
  let ?s = "fresh_session c :: infra_session"
  have start: "permitted env c (requests_made t)" if "looks_up ?s t" for t
    using that harmless_lookup
    by (auto simp: looks_up_def adds_def permitted_def list_all_iff intro!: preceded_none)
  have "post (handle_infra env) ?s ?Q"
  proof (rule handle_post)
    fix im t assume t: "looks_up ?s t"
    from t have "handled_object t = c" by (simp add: looks_up_def)
    with permitted_reconcile [OF start [OF t]] permitted_keeps [OF harmless_delete start [OF t]]
    show "post (if deleted (metadata (handled_object ?s)) \<noteq> None then delete_infra_cluster env im
        else reconcile_cluster env im) t ?Q" by simp
  qed (rule start)
  moreover have fail: "keeps (adds harmless) (co_then (change_object (\<lambda>c. c\<lparr>cl_reason := code, cl_state := Cl_FAILED\<rparr>))
      (store_infra_status env))" for code
    by (auto intro!: adds_intros adds_weaken [OF other_status(2)])
  ultimately have "post (process_cluster env) ?s ?Q"
    unfolding process_cluster_def post_catch
    by (elim post_mono) (auto simp: post_raise intro: permitted_keeps split: sum.split option.split)
  from postD [OF this assms(1)] assms(2) show ?thesis by (auto simp: permitted_def preceded_def)
qed

section \<open>The finalizer is removed last\<close>

text \<open>Nothing was made, or IM has just said that it does not know the infrastructure.\<close>

definition infra_gone :: "infra_env \<Rightarrow> infra_cluster \<Rightarrow> infra_log \<Rightarrow> bool" where
  "infra_gone env c g \<longleftrightarrow>
     filled (cluster_id c) = None \<or> cl_state c = Cl_PENDING \<or>
     (\<exists>g' q i. g = g' @ [Im q] \<and> cluster_id c = Some i \<and> im_path q = [''infrastructures'', i, ''state''] \<and>
        im_answer env g \<in> {Inl (ClientResponseError 404), Inl InfrastructureProviderNotFoundError})"

abbreviation infra_releases :: "infra_env \<Rightarrow> infra_cluster \<Rightarrow> infra_log \<Rightarrow> bool" where
  "infra_releases env c \<equiv> preceded storing (infra_gone env c)"

text \<open>A deletion up to now: the cluster was not stored, and its identifier is the same.\<close>

definition removes :: "infra_session \<Rightarrow> infra_session \<Rightarrow> bool" where
  "removes s t \<longleftrightarrow> adds (\<lambda>r. \<not> storing r) s t \<and> cluster_id (handled_object t) = cluster_id (handled_object s)"

interpretation removes: state_relation removes
  by unfold_locales (auto simp: removes_def adds.R_refl elim: adds.R_trans)

lemma removes_ask: "\<not> storing r \<Longrightarrow> keeps removes (ask_session answer r)" "keeps removes the_object"
  "(\<And>c. cluster_id (f c) = cluster_id c) \<Longrightarrow> keeps removes (change_object f)"
  by (rule keepsI, simp add: post_request post_object post_change removes_def adds_def)+

lemmas removes_intros = removes.keeps_intros removes_ask

definition removing :: "infra_cluster \<Rightarrow> infra_session \<Rightarrow> bool" where
  "removing c s \<longleftrightarrow> list_all (\<lambda>r. \<not> storing r) (requests_made s) \<and> cluster_id (handled_object s) = cluster_id c"

lemma removing_keeps: "keeps removes m \<Longrightarrow> removing c s \<Longrightarrow> post m s (\<lambda>r t. removing c t)"
  by (drule keeps_post, erule post_mono) (auto simp: removing_def removes_def adds_def)

lemma removing_releases: "removing c s \<Longrightarrow> infra_releases env c (requests_made s)"
  by (auto simp: removing_def intro: preceded_none)

lemma removes_state: "keeps removes (set_infra_state env n)"
  unfolding set_infra_state_def store_infra_status_def by (auto intro!: removes_intros)

lemma removes_im_delete: "keeps removes (im_delete env im)"
  unfolding im_delete_def id_segment_def im_call_def by (auto intro!: removes_intros split: option.split)

lemma read_state_error: "read_state y = Inl e \<Longrightarrow> e \<in> {AttributeError, InfrastructureProviderRetrieveError}"
proof -
  have get: "value_or k d v = Inl e \<Longrightarrow> e = AttributeError" for k d v by (cases v) simp_all
  have dict: "dict_values v = Inl e \<Longrightarrow> e = AttributeError" for v by (cases v) simp_all
  have upper: "upper_text v = Inl e \<Longrightarrow> e = AttributeError" for v by (cases v) simp_all
  show "read_state y = Inl e \<Longrightarrow> e \<in> {AttributeError, InfrastructureProviderRetrieveError}"
    unfolding read_state_def
    by (auto dest: get dict upper simp: res_simps split: sum.splits if_splits option.splits)
qed

lemma removing_poll:
  assumes "removing c s"
  shows "post (poll_infra_deleted env im) s (\<lambda>r t. removing c t \<and> (r = Inr (Some ()) \<longrightarrow> infra_gone env c (requests_made t)))"
  using assms
  by (auto simp: poll_infra_deleted_def im_get_state_def has_id_def get_infrastructure_state_def im_call_def infra_sleep_def
      post_simps removing_def infra_gone_def filled_def translate_missing_def translate_error_def
      split: sum.split option.split if_splits dest: read_state_error)

lemma removing_delete:
  assumes "removing c s" and "cl_state (handled_object s) = cl_state c"
  shows "post (delete_infrastructure env im) s (\<lambda>r t. removing c t \<and> (r = Inr () \<longrightarrow> infra_gone env c (requests_made t)))"
    (is "post _ _ ?Q")
proof -
  have loop: "post (co_loop (poll_infra_deleted env im)) t ?Q" if "removing c t" for t
    by (rule post_loop [where I = "removing c", OF that]) (rule post_mono [OF removing_poll], auto split: sum.split option.split)
  have mark: "keeps removes (if b then co_return () else
      co_then (co_catch (im_delete env im) (\<lambda>e. if e = InfrastructureProviderNotFoundError then co_return () else co_raise e))
        (set_infra_state env Cl_DELETING))" for b
    by (auto intro!: removes_intros removes_state removes_im_delete)
  have "post (co_then (if b then co_return () else
      co_then (co_catch (im_delete env im) (\<lambda>e. if e = InfrastructureProviderNotFoundError then co_return () else co_raise e))
        (set_infra_state env Cl_DELETING)) (co_loop (poll_infra_deleted env im))) s ?Q" for b
    by (rule post_thenI [OF removing_keeps [OF mark assms(1)]], simp, rule loop)
  note run = this [of "cl_state (handled_object s) = Cl_DELETING"]
  have "cluster_id (handled_object s) = cluster_id c" using assms(1) by (simp add: removing_def)
  then have "post (co_return ()) s ?Q" if "filled (cluster_id (handled_object s)) = None \<or> cl_state (handled_object s) = Cl_PENDING"
    using that assms by (auto simp: post_return infra_gone_def)
  with run show ?thesis
    unfolding delete_infrastructure_def post_bind post_object sum.case by (simp del: if_split add: if_split [of "\<lambda>m. post m s ?Q"])
qed

lemma removing_drop:
  assumes "removing c s" and "infra_gone env c (requests_made s)"
  shows "post (drop_infra_finalizer env) s (\<lambda>r t. infra_releases env c (requests_made t))"
  using removing_releases [OF assms(1), of env] preceded_last [OF removing_releases [OF assms(1)] assms(2)]
  by (simp add: drop_infra_finalizer_def store_infra_cluster_def post_simps)

lemma releases_delete:
  assumes "removing c s" and "handled_object s = c"
  shows "post (delete_infra_cluster env im) s (\<lambda>r t. infra_releases env c (requests_made t))"
proof -
  let ?exists = "co_catch
      (co_then (ask_session (infra_update env) (Get_cluster (namespace (metadata c)) (name (metadata c)))) (co_return True))
      (\<lambda>e. if e = ClientResponseError 404 then co_return False else co_raise e)"
  have rest: "post (co_then (delete_infrastructure env im) (drop_infra_finalizer env)) t (\<lambda>r t. infra_releases env c (requests_made t))"
    if "removing c t" "handled_object t = c" for t
    by (rule post_thenI [OF removing_delete [OF that(1)]]) (use that in \<open>auto intro: removing_releases removing_drop\<close>)
  have "post ?exists s (\<lambda>r t. removing c t \<and> handled_object t = c)"
    using assms by (auto simp: post_simps removing_def split: sum.split)
  then have "post (co_bind ?exists (\<lambda>exists. if exists then co_then (delete_infrastructure env im) (drop_infra_finalizer env)
      else co_return ())) s (\<lambda>r t. infra_releases env c (requests_made t))"
  proof (rule post_bindI)
    fix x t assume "removing c t \<and> handled_object t = c"
    with rest [of t] removing_releases [of c t env] show "post (if x then co_then (delete_infrastructure env im) (drop_infra_finalizer env)
        else co_return ()) t (\<lambda>r t. infra_releases env c (requests_made t))" by (simp add: post_return)
  qed (auto intro: removing_releases)
  then show ?thesis
    using assms(2) by (simp add: delete_infra_cluster_def post_bind [of the_object] post_object)
qed

text \<open>
  C13. A worker that handles a cluster in deletion stores it, which removes the finalizer, only if
  nothing was made for it, since it has no identifier or is pending, or if the last thing that IM
  said is that there is no such infrastructure.
\<close>

theorem infra_finalizer_removed_last:
  assumes "process_cluster env (fresh_session c) = Some (r, s)" and "deleted (metadata c) \<noteq> None"
    and "requests_made s = g @ Store_cluster x # es"
  shows "infra_gone env c g"
proof -
  let ?Q = "\<lambda>r t. infra_releases env c (requests_made t)"
  let ?s = "fresh_session c :: infra_session"
  have start: "removing c t" if "looks_up ?s t" for t
    using that harmless_lookup by (auto simp: looks_up_def adds_def removing_def list_all_iff)
  have "post (handle_infra env) ?s ?Q"
    by (rule handle_post) (use assms(2) start in \<open>auto simp: looks_up_def intro: removing_releases releases_delete\<close>)
  moreover have "post (co_then (change_object (\<lambda>c. c\<lparr>cl_reason := code, cl_state := Cl_FAILED\<rparr>)) (store_infra_status env)) t ?Q"
    if "infra_releases env c (requests_made t)" for code t
    by (rule preceded_adds [OF _ that]) (auto intro!: adds_intros adds_weaken [OF other_status(2)])
  ultimately have "post (process_cluster env) ?s ?Q"
    unfolding process_cluster_def post_catch
    by (elim post_mono) (auto simp: post_raise split: sum.split option.split)
  from postD [OF this assms(1)] assms(3) show ?thesis by (auto simp: preceded_def)
qed

section \<open>A turn ends when IM does\<close>

text \<open>IM refuses to answer, or the answer is not that something is still going on.\<close>

definition im_settled :: "bool \<Rightarrow> (exn, yaml) res \<Rightarrow> bool" where
  "im_settled in_deletion r \<longleftrightarrow>
     (case res_bind r read_state of
        Inl e \<Rightarrow> True
      | Inr n \<Rightarrow> n = Infra_FAILED \<or> (\<not> in_deletion \<and> n \<in> {Infra_CONFIGURED, Infra_UNCONFIGURED}))"

lemma total_infra_status: "total (set_infra_state env n)" "total (store_infra_status env)" "total (store_infra_cluster env)"
  unfolding set_infra_state_def store_infra_status_def store_infra_cluster_def by (auto intro!: session_total)

lemma total_call: "total (im_call answer im m i query body f)"
  unfolding im_call_def by (auto intro!: session_total)

lemma total_id: "total id_segment" "total has_id"
  unfolding id_segment_def has_id_def by (auto intro!: session_total split: option.split)

lemmas infra_total = session_total total_infra_status total_call total_id

lemma total_im_state: "total (im_get_state env im)"
  unfolding im_get_state_def get_infrastructure_state_def by (auto intro!: infra_total)

lemma total_polls: "total (poll_connecting env im)" "total (poll_infra_deleted env im)"
  unfolding poll_connecting_def poll_infra_deleted_def infra_sleep_def
  by (auto intro!: infra_total total_im_state split: infra_state.split option.split)

lemma total_actions: "total (on_create env im)" "total (on_reconcile env im)" "total (on_reconfigure env im)"
  "total (ensure_infra_finalizer env)" "total (drop_infra_finalizer env)" "total (reconcile_cluster_resource env im)"
  unfolding on_create_def on_reconcile_def on_reconfigure_def im_create_def im_reconcile_def im_reconfigure_def
    ensure_infra_finalizer_def drop_infra_finalizer_def reconcile_cluster_resource_def im_get_kubeconfig_def
  by (auto intro!: infra_total split: list.split)

lemma total_gets: "total (get_cloud env)" "total (get_infrastructure_provider env cloud)"
  unfolding get_cloud_def get_infrastructure_provider_def by (auto intro!: infra_total split: option.split)

text \<open>A round that goes on makes the log longer, and IM has not settled.\<close>

lemma connecting_goes_on:
  assumes "poll_connecting env im s = Some (Inr None, t)"
  shows "length (requests_made t) = length (requests_made s) + 2 \<and> \<not> im_settled False (im_answer env (butlast (requests_made t)))"
  using assms
  by (auto simp: poll_connecting_def im_get_state_def has_id_def get_infrastructure_state_def im_call_def infra_sleep_def
      set_infra_state_def store_infra_status_def co_bind_def co_catch_def co_then_def the_object_def change_object_def
      ask_session_def co_return_def co_raise_def co_lift_def Let_def im_settled_def butlast_append
      split: sum.splits if_splits option.splits infra_state.splits)

lemma deletion_goes_on:
  assumes "poll_infra_deleted env im s = Some (Inr None, t)"
  shows "length (requests_made t) = length (requests_made s) + 2 \<and> \<not> im_settled True (im_answer env (butlast (requests_made t)))"
  using assms
  by (auto simp: poll_infra_deleted_def im_get_state_def has_id_def get_infrastructure_state_def im_call_def infra_sleep_def
      co_bind_def co_catch_def co_then_def the_object_def
      ask_session_def co_return_def co_raise_def co_lift_def Let_def im_settled_def butlast_append
      split: sum.splits if_splits option.splits)

lemma polling_ends:
  assumes "\<And>s t. body s = Some (Inr None, t) \<Longrightarrow>
      length (requests_made t) = length (requests_made s) + 2 \<and> \<not> im_settled d (im_answer env (butlast (requests_made t)))"
    and "total body" and "\<forall>h. N \<le> length h \<longrightarrow> im_settled d (im_answer env h)"
  shows "total (co_loop body)"
  unfolding total_def
proof
  fix s
  show "returns (co_loop body) s"
  proof (rule returns_loop [where I = "\<lambda>s. True" and f = "\<lambda>s. N - length (requests_made s)"])
    fix s t assume "body s = Some (Inr None, t)"
    from assms(1) [OF this] have l: "length (requests_made t) = length (requests_made s) + 2"
      and "\<not> im_settled d (im_answer env (butlast (requests_made t)))" by simp_all
    with assms(3) have "\<not> N \<le> length (butlast (requests_made t))" by blast
    with l show "True \<and> N - length (requests_made t) < N - length (requests_made s)" by simp
  qed (simp_all add: total_returns [OF assms(2)])
qed

text \<open>
  C14. A turn of a worker ends, with or without an exception, if IM ends: if from some request on IM
  refuses to answer or says that the infrastructure has failed or, for a cluster that is not in
  deletion, that it is configured or unconfigured.
\<close>

theorem infra_turn_ends:
  assumes "\<forall>h. N \<le> length h \<longrightarrow> im_settled (deleted (metadata c) \<noteq> None) (im_answer env h)"
  shows "\<exists>r s. process_cluster env (fresh_session c) = Some (r, s)"
proof -
  let ?d = "deleted (metadata c) \<noteq> None"
  let ?s = "fresh_session c :: infra_session"
  have act: "total (if ?d then delete_infra_cluster env im else reconcile_cluster env im)" for im
  proof (cases ?d)
    case True
    from assms True have "total (co_loop (poll_infra_deleted env im))"
      by (intro polling_ends [OF deletion_goes_on total_polls(2)]) simp_all
    then have "total (delete_infrastructure env im)"
      unfolding delete_infrastructure_def im_delete_def by (auto intro!: infra_total)
    with True show ?thesis by (auto simp: delete_infra_cluster_def intro!: infra_total total_actions)
  next
    case False
    from assms False have "total (co_loop (poll_connecting env im))"
      by (intro polling_ends [OF connecting_goes_on total_polls(1)]) simp_all
    then have "total (await_cluster env im)"
      unfolding await_cluster_def wait_for_connecting_def by (auto intro!: infra_total total_actions)
    with False show ?thesis by (auto simp: reconcile_cluster_def intro!: infra_total total_actions)
  qed
  have "returns (handle_infra env) ?s"
    unfolding handle_infra_def
  proof (intro returns_bind)
    fix cloud t p u im v c' w
    assume "get_cloud env ?s = Some (Inr cloud, t)" "get_infrastructure_provider env cloud t = Some (Inr p, u)"
      "co_lift (select_provider p cloud) u = Some (Inr im, v)" "the_object v = Some (Inr c', w)"
    moreover from this have "handled_object t = c" "handled_object u = handled_object t"
      using postD [OF keeps_post [OF looks_up_get(1)], of env ?s] postD [OF keeps_post [OF looks_up_get(2)], of env cloud t]
      by (auto simp: looks_up_def)
    ultimately have "c' = c" by (auto simp: co_lift_def the_object_def)
    with act show "returns (if deleted (metadata c') \<noteq> None then delete_infra_cluster env im else reconcile_cluster env im) w"
      by (simp add: total_returns del: if_split)
  qed (auto intro: total_returns total_gets infra_total)
  then have "returns (process_cluster env) ?s"
    unfolding process_cluster_def
    by (rule returns_catch) (auto intro!: total_returns infra_total split: option.split)
  then show ?thesis by (auto simp: returns_def)
qed

section \<open>A cluster that is created, deleted and fails\<close>

definition example_metadata :: "string \<Rightarrow> string list \<Rightarrow> time option \<Rightarrow> metadata" where
  "example_metadata n fs d =
     \<lparr>name = n, namespace = Some ''n'', labels = [], inherit_labels = False, finalizers = fs, uid = n,
      created = 1, modified = 1, deleted = d, owners = []\<rparr>"

definition example_kube :: "cluster_state \<Rightarrow> string option \<Rightarrow> string list \<Rightarrow> time option \<Rightarrow> infra_cluster" where
  "example_kube state i fs d =
     \<lparr>api = ''kubernetes'', kind = ''Cluster'', metadata = example_metadata ''k'' fs d,
      has_kubeconfig = False, custom_resources = [], cl_constraints = None, cl_metrics = [], inherit_metrics = False,
      auto_generated = False, cl_state = state, cl_reason = None, cl_metrics_reasons = [],
      cl_scheduled_to = Some \<lparr>ref_api = ''infrastructure'', ref_namespace = Some ''n'', ref_kind = ''Cloud'', ref_name = ''c''\<rparr>,
      infra_tosca = Text ''t'', last_applied_tosca = Obj [], cluster_id = i, running_on = None, spec_kubeconfig = Null\<rparr>"

definition example_cloud :: infra_cloud where
  "example_cloud =
     \<lparr>api = ''infrastructure'', kind = ''Cloud'', metadata = example_metadata ''c'' [] None,
      cloud_type = ''openstack'', openstack_metrics = [], cloud_status = Cloud_ONLINE, cloud_metrics_reasons = [],
      cloud_url = ''http://keystone'', cloud_auth_type = ''password'', cloud_auth_version = ''3'', cloud_username = ''u'',
      cloud_password = ''p'', cloud_project = ''t'', cloud_provider = ''im''\<rparr>"

definition example_infra :: "string \<Rightarrow> infra_env" where
  "example_infra last_state =
     \<lparr>infra_update = (\<lambda>h. Inr ()), infra_cloud_answer = (\<lambda>h. Inr example_cloud),
      infra_provider_answer = (\<lambda>h. Inr
        \<lparr>provider_name = ''im'', provider_type = ''im'', im_url = ''http://im'', im_token = Some ''s'',
         im_username = None, im_password = None\<rparr>),
      im_answer = (\<lambda>h.
        if list_ex (\<lambda>r. case r of Im q \<Rightarrow> im_method q = ''DELETE'' | _ \<Rightarrow> False) h then Inl (ClientResponseError 404)
        else Inr (Obj
          [(''state'', Obj
             [(''state'', Text (if list_ex (\<lambda>r. case r of Sleep_for t \<Rightarrow> True | _ \<Rightarrow> False) h then last_state else ''running'')),
              (''vm_states'', Obj [])]),
           (''outputs'', Obj [(''kubeconfig'', Text ''y'')])])),
      im_text_answer = (\<lambda>h. Inr ''/infrastructures/42''), url_path = (\<lambda>u. u), load_yaml = (\<lambda>s. Some (Text s)),
      tosca_differs = (\<lambda>x y. x \<noteq> y), infra_interval = 30\<rparr>"

definition infra_creation :: "string \<Rightarrow> ((exn, unit) res \<times> infra_session) option" where
  "infra_creation last_state = process_cluster (example_infra last_state) (fresh_session (example_kube Cl_PENDING None [] None))"

definition infra_deletion :: "((exn, unit) res \<times> infra_session) option" where
  "infra_deletion =
     process_cluster (example_infra ''configured'') (fresh_session (example_kube Cl_ONLINE (Some ''42'') [infra_finalizer] (Some 5)))"

lemma infra_examples:
  "case infra_creation ''configured'' of
     Some (Inr _, s) \<Rightarrow> length (requests_made s) = 12 \<and> provisions (requests_made s ! 4) \<and> creates (requests_made s ! 4) |
     _ \<Rightarrow> False"
  "case infra_creation ''unconfigured'' of Some (Inr _, s) \<Rightarrow> cl_state (handled_object s) = Cl_FAILED | _ \<Rightarrow> False"
  "case infra_deletion of
     Some (Inr _, s) \<Rightarrow> length (requests_made s) = 7 \<and> storing (requests_made s ! 6) |
     _ \<Rightarrow> False"
  by code_simp+

theorem infra_outcome_witness:
  "\<exists>s h. infra_creation ''unconfigured'' = Some (Inr (), s) \<and> requests_made s = h @ [Store_status (handled_object s)] \<and>
     (\<forall>q. enqueue_infra (handled_object s) q = q)"
proof -
  from case_returned [OF infra_examples(2)] obtain u s where
    s: "infra_creation ''unconfigured'' = Some (Inr (), s)" "cl_state (handled_object s) = Cl_FAILED" by auto
  have "deleted (metadata (example_kube Cl_PENDING None [] None)) = None" "cl_state (example_kube Cl_PENDING None [] None) \<noteq> Cl_ONLINE"
    by (simp_all add: example_kube_def example_metadata_def)
  with infra_outcome [OF s(1) [unfolded infra_creation_def]] s show ?thesis by auto
qed

theorem infra_creation_guarded_witness:
  "\<exists>s g q es. infra_creation ''configured'' = Some (Inr (), s) \<and> requests_made s = g @ q # es \<and> creates q \<and>
     infra_guarded (example_infra ''configured'') (example_kube Cl_PENDING None [] None) g \<and>
     may_create (example_infra ''configured'') (example_kube Cl_PENDING None [] None) g"
proof -
  from case_returned [OF infra_examples(1)] obtain u s where s: "infra_creation ''configured'' = Some (Inr (), s)"
    "length (requests_made s) = 12" "provisions (requests_made s ! 4)" "creates (requests_made s ! 4)" by auto
  have split: "requests_made s = take 4 (requests_made s) @ requests_made s ! 4 # drop (Suc 4) (requests_made s)"
    by (rule id_take_nth_drop) (use s(2) in simp)
  from infra_creation_guarded [OF s(1) [unfolded infra_creation_def] this] s(3,4) split s(1) show ?thesis
    by (auto simp: may_provision_def)
qed

theorem infra_finalizer_removed_last_witness:
  "\<exists>s g x. infra_deletion = Some (Inr (), s) \<and> requests_made s = g @ [Store_cluster x] \<and>
     infra_gone (example_infra ''configured'') (example_kube Cl_ONLINE (Some ''42'') [infra_finalizer] (Some 5)) g"
proof -
  from case_returned [OF infra_examples(3)] obtain u s where s: "infra_deletion = Some (Inr (), s)"
    "length (requests_made s) = 7" "storing (requests_made s ! 6)" by auto
  obtain x where x: "requests_made s ! 6 = Store_cluster x" using s(3) by (cases "requests_made s ! 6") auto
  have split: "requests_made s = take 6 (requests_made s) @ Store_cluster x # drop (Suc 6) (requests_made s)"
    using s(2) unfolding x [symmetric] by (intro id_take_nth_drop) simp
  have d: "deleted (metadata (example_kube Cl_ONLINE (Some ''42'') [infra_finalizer] (Some 5))) \<noteq> None"
    by (simp add: example_kube_def example_metadata_def)
  from infra_finalizer_removed_last [OF s(1) [unfolded infra_deletion_def] d split]
  have "infra_gone (example_infra ''configured'') (example_kube Cl_ONLINE (Some ''42'') [infra_finalizer] (Some 5))
      (take 6 (requests_made s))" .
  moreover have "drop (Suc 6) (requests_made s) = []" using s(2) by simp
  ultimately show ?thesis using split s(1) by auto
qed

theorem infra_turn_ends_witness:
  "\<exists>r s. process_cluster ((example_infra ''failed'')\<lparr>im_answer := (\<lambda>h. Inl (ClientResponseError 404))\<rparr>)
     (fresh_session (example_kube Cl_PENDING None [] None)) = Some (r, s)"
  by (rule infra_turn_ends [of 0]) (simp add: im_settled_def)

end
