(* ===== verification/Spec2Isabelle.thy ===== *)
theory Spec2Isabelle
  imports Garbage_Collector Scheduler_Application Scheduler_Cluster Scheduler_Openstack Controller_Base Application_Order
    Application_Observer Hook_Safety Cluster_Safety Api_Streams Magnum_Safety Infrastructure_Safety
begin

text \<open>
  Krake is an orchestrator of applications over clusters and clouds. Its API server (package
  \<open>krake/krake/api\<close>) keeps all resources in etcd; its controllers (\<open>krake/krake/controller\<close>) watch
  the resources through the API, put what they receive into a work queue, and handle one resource
  at a time: the scheduler binds applications to clusters and clusters to clouds, the Kubernetes
  controller applies the manifests of an application to its cluster and observes them there, and
  the garbage collector cleans up after a deletion. The data classes are those of
  \<open>krake/krake/data\<close>.

  The theories, with the files of \<open>src/krake/krake\<close> that they model:

  \<^item> \<open>Krake_Prelude\<close>: results with exceptions (\<open>res_bind\<close>) and Python dictionaries as association
    lists. \<open>Effects\<close>: functions over a state that may raise. \<open>Coroutines\<close>: coroutines over a state
    that may raise or never return, with the calculus of weakest preconditions \<open>post\<close>.
    \<open>Coroutine_Relations\<close>: the locale of the relations that coroutines keep, and when they return.
    \<open>Sessions\<close>: handlers that change one object in place and log their requests.
    \<open>Python_Float\<close>: floats as real numbers with infinities and NaN.
  \<^item> \<open>Krake_Data\<close> (\<open>data/core.py\<close>): references, metadata, exceptions, and the validators of names
    and labels.
  \<^item> \<open>Constraint_Grammar\<close>, \<open>Label_Constraint\<close>, \<open>Metric_Constraint\<close> (\<open>data/constraints.py\<close>): the
    languages of constraints, their parsers, texts and matching. Lark is a parameter of which only
    the grammars are assumed; the round trip and the readings of a text are proved.
  \<^item> \<open>Work_Queue\<close> (\<open>controller/__init__.py\<close>): the work queue with its debounce timers as a step
    relation, refined from a map of pending values and a set of held keys; the locale of keyed
    queues and its interpretation. \<open>Worker\<close>: the loop of a worker over such a queue.
    \<open>Controller_Base\<close>: reflectors, observers, background tasks with retries.
  \<^item> \<open>Dependency_Graph\<close>, \<open>Garbage_Collector\<close> (\<open>controller/gc.py\<close>): the graph of owners with its
    cycle check, and the handlers of the garbage collector, which refine the relation of owners.
  \<^item> \<open>Metrics\<close>, \<open>Scheduler_Data\<close>, \<open>Scheduler_Constraints\<close>, \<open>Scheduler_Metrics\<close>,
    \<open>Scheduler_Scores\<close>, \<open>Scheduler_Application\<close>, \<open>Scheduler_Cluster\<close>, \<open>Scheduler_Openstack\<close>
    (\<open>controller/scheduler/\<close>): fetching of metrics, constraints, scores, and the handlers for
    applications, clusters and Magnum clusters, with what they bind to and when they fail.
  \<^item> \<open>Manifest\<close>, \<open>Manifest_Updates\<close>, \<open>Observer_Schema\<close>, \<open>Resource_Delta\<close>
    (\<open>controller/kubernetes/hooks.py\<close>, \<open>controller/kubernetes/application/application.py\<close>): nested
    values of Kubernetes manifests, observer schemas, the last applied manifest and its updates,
    and the delta between what is applied and what is observed.
  \<^item> \<open>Kubernetes_Data\<close>, \<open>Kubernetes_Client\<close>, \<open>Application_Hooks\<close>, \<open>Application_Controller\<close>,
    \<open>Application_Transfer\<close>, \<open>Application_Worker\<close> (\<open>controller/kubernetes/\<close>): the Kubernetes
    client, the hooks, and the Kubernetes application controller with deletion, shutdown,
    migration, transfer of volumes and reconciliation. \<open>Application_Safety\<close> and
    \<open>Application_Order\<close> prove in which order requests are made: the finalizer guards the resources
    on a cluster, and resources are deleted before they are created elsewhere.
  \<^item> \<open>Application_Observer\<close> (\<open>controller/kubernetes/hooks.py\<close>): the observer of an application, with
    the health that it finds. \<open>Texts\<close>, \<open>Hook_Mangling\<close>, \<open>Hook_Safety\<close> (the same file): the hooks
    \<open>complete\<close> and \<open>shutdown\<close>, which put secrets, variables and volumes into the manifests and
    their observer schemas; the two stay in step, injected entries are kept, and when a hook raises.
    For the application controller the hooks are the parameter \<open>mangling\<close> of its environment.
  \<^item> \<open>Cluster_Controller\<close>, \<open>Cluster_Safety\<close> (\<open>controller/kubernetes/cluster/cluster.py\<close> and the
    observer of clusters): which clusters are observed, by one task each, what the observer reports,
    and what errors do.
  \<^item> \<open>Magnum_Controller\<close>, \<open>Magnum_Safety\<close> (\<open>controller/magnum.py\<close>): the state machine of Magnum
    clusters, their kubeconfig and the Kubernetes cluster that is registered; the stored states
    follow the transitions, the finalizer guards what is created and is removed last, and a turn
    ends if Magnum does.
  \<^item> \<open>Infrastructure_Provider\<close>, \<open>Infrastructure_Controller\<close>, \<open>Infrastructure_Safety\<close>
    (\<open>controller/infrastructure/\<close>): the client of the Infrastructure Manager and the controller that
    creates clusters through it, with the same questions asked: in which state a cluster is left,
    what is asked under which guard, when the finalizer goes, and that a turn ends.
  \<^item> \<open>Serializable\<close>, \<open>Api_Models\<close> (\<open>data/serializable.py\<close> and the classes of \<open>data/\<close>): data classes
    as tables of fields with markers, the values of a class, initialization and update.
  \<^item> \<open>Database\<close> (\<open>data/__init__.py\<close>, \<open>api/database.py\<close>): keys, sessions, transactions and
    watchers. \<open>Api_Handlers\<close>, \<open>Api_Auth\<close>, \<open>Api_Endpoints\<close> (\<open>api/\<close>): the decorators and handlers of
    all routes, authentication, authorization and the middlewares of the application.
  \<^item> \<open>Api_Invariant\<close>, \<open>Api_Creation\<close>: the changes that the handlers make keep the class and the
    life cycle of a resource. \<open>Api_Safety\<close>: a calculus for handlers whose transactions are allowed,
    applied to every route. \<open>Api_Lifecycle\<close>, \<open>Api_Access\<close>, \<open>Api_Listing\<close>: the properties of the
    API server and of a database that only such servers write to.
  \<^item> \<open>Api_Client\<close> (\<open>client/\<close>): the methods of the client library and the watcher.
    \<open>Api_Composition\<close>, \<open>Api_Streams\<close>: the client and the API together: each call is routed to its
    handler, and a watch yields exactly the changes of the database.

  What is assumed. The services that Krake calls (etcd, clusters, Keystone, Prometheus, the API for
  a controller) are environments whose answers depend on the requests made before, so that any
  order of answers and any failure is covered; \<open>etcd_laws\<close>, \<open>schema_laws\<close> and \<open>router_laws\<close> state the
  documented behaviour of etcd, marshmallow and the router of aiohttp where a property needs it, and the witnesses show
  environments that have it. Queues are unbounded, as in the source. Characters are those of the
  type \<open>char\<close>; floats are real numbers, so rounding is not modelled; timestamps are integers.
  A loop that may not end is \<open>co_loop\<close>, whose value is \<open>None\<close> if it never returns; where a property
  claims that a coroutine returns, it says so. Concurrent coroutines interleave only where the
  model says so: between the steps of the work queue, and between the transactions of the API.

  What is not modelled: the command line interface (\<open>rok\<close>), the translation of TOSCA and the
  generation of certificates, which are parameters where a controller uses them; logging,
  configuration files, TLS, CORS and the texts of messages, which no property depends on; and the
  start and stop of the processes.
\<close>

end
